(* ===== verification/Prelude.thy ===== *)
theory Prelude
  imports Complex_Main "HOL-Library.Char_ord"
begin

text \<open>
  Shared vocabulary of the development.

  \<^item> The result type of fallible code: \<open>Inl\<close> is the exception that leaves the handler,
    \<open>Inr\<close> the value it returns. \<open>res_bind\<close> sequences two fallible steps and \<open>res_map\<close> is a
    loop whose body may raise; the rule collections \<open>res_simps\<close> and \<open>res_dests\<close> turn a successful
    run of such code into facts about its steps.
  \<^item> Python's view of strings whose code points are below 256: white space, \<open>strip\<close>, \<open>lower\<close>,
    \<open>upper\<close>, \<open>isdigit\<close>, slicing.
  \<^item> JSON values, points in time (microseconds, as \<open>datetime\<close> keeps them).
  \<^item> Two interfaces used by several components: a \<open>keyed_table\<close> (rows addressed by a primary key)
    and a \<open>status_machine\<close> (a status column moved along a transition table).
\<close>

named_theorems res_simps
named_theorems res_dests
named_theorems row_frame

section \<open>Results of fallible code\<close>

definition res_bind :: "'e + 'a \<Rightarrow> ('a \<Rightarrow> 'e + 'b) \<Rightarrow> 'e + 'b" where
  "res_bind m f = (case m of Inl e \<Rightarrow> Inl e | Inr x \<Rightarrow> f x)"

fun res_map :: "('a \<Rightarrow> 'e + 'b) \<Rightarrow> 'a list \<Rightarrow> 'e + 'b list" where
  "res_map f [] = Inr []"
| "res_map f (x # xs) =
     (case f x of
        Inl e \<Rightarrow> Inl e
      | Inr y \<Rightarrow> (case res_map f xs of Inl e \<Rightarrow> Inl e | Inr ys \<Rightarrow> Inr (y # ys)))"

definition option_to_res :: "'e \<Rightarrow> 'a option \<Rightarrow> 'e + 'a" where
  "option_to_res e m = (case m of None \<Rightarrow> Inl e | Some x \<Rightarrow> Inr x)"

section \<open>Strings\<close>

text \<open>\<open>str.isspace\<close> and the regular expression class \<open>\s\<close> on code points below 256.\<close>

definition py_space :: "char \<Rightarrow> bool" where
  "py_space c \<longleftrightarrow>
     (let n = of_char c :: nat in
      (9 \<le> n \<and> n \<le> 13) \<or> (28 \<le> n \<and> n \<le> 32) \<or> n = 133 \<or> n = 160)"

definition ascii_digit :: "char \<Rightarrow> bool" where
  "ascii_digit c \<longleftrightarrow> (let n = of_char c :: nat in 48 \<le> n \<and> n \<le> 57)"

definition ascii_upper :: "char \<Rightarrow> bool" where
  "ascii_upper c \<longleftrightarrow> (let n = of_char c :: nat in 65 \<le> n \<and> n \<le> 90)"

definition ascii_lower :: "char \<Rightarrow> bool" where
  "ascii_lower c \<longleftrightarrow> (let n = of_char c :: nat in 97 \<le> n \<and> n \<le> 122)"

definition lower_char :: "char \<Rightarrow> char" where
  "lower_char c = (if ascii_upper c then char_of (of_char c + 32 :: nat) else c)"

definition upper_char :: "char \<Rightarrow> char" where
  "upper_char c = (if ascii_lower c then char_of (of_char c - 32 :: nat) else c)"

definition py_lower :: "string \<Rightarrow> string" where
  "py_lower s = map lower_char s"

definition py_upper :: "string \<Rightarrow> string" where
  "py_upper s = map upper_char s"

text \<open>\<open>str.lower\<close> on all code points below 256.\<close>

definition latin_lower_char :: "char \<Rightarrow> char" where
  "latin_lower_char c =
     (let n = of_char c :: nat in
      if (65 \<le> n \<and> n \<le> 90) \<or> (192 \<le> n \<and> n \<le> 222 \<and> n \<noteq> 215) then char_of (n + 32) else c)"

definition py_strip :: "string \<Rightarrow> string" where
  "py_strip s = rev (dropWhile py_space (rev (dropWhile py_space s)))"

text \<open>\<open>value.strip() or None\<close>\<close>

definition strip_or_none :: "string \<Rightarrow> string option" where
  "strip_or_none s = (let t = py_strip s in if t = [] then None else Some t)"

text \<open>The identifier class \<open>^[A-Za-z0-9_-]+$\<close> shared by several schemas.\<close>

definition safe_id_char :: "char \<Rightarrow> bool" where
  "safe_id_char c \<longleftrightarrow>
     ascii_upper c \<or> ascii_lower c \<or> ascii_digit c \<or> c = CHR ''_'' \<or> c = CHR ''-''"

definition safe_id :: "string \<Rightarrow> bool" where
  "safe_id s \<longleftrightarrow> s \<noteq> [] \<and> list_all safe_id_char s"

section \<open>Python integers\<close>

definition digit_value :: "char \<Rightarrow> int" where
  "digit_value c = int (of_char c) - 48"

primrec digits_value :: "int \<Rightarrow> string \<Rightarrow> int" where
  "digits_value acc [] = acc"
| "digits_value acc (c # cs) = digits_value (10 * acc + digit_value c) cs"

text \<open>Digits of \<open>int(text)\<close>: single underscores are allowed between digits.\<close>

fun int_digits :: "string \<Rightarrow> string option" where
  "int_digits [] = None"
| "int_digits [c] = (if ascii_digit c then Some [c] else None)"
| "int_digits (c # d # cs) =
     (if \<not> ascii_digit c then None
      else if d = CHR ''_'' then map_option (Cons c) (int_digits cs)
      else map_option (Cons c) (int_digits (d # cs)))"

text \<open>\<open>int(text)\<close>; \<open>None\<close> is the \<open>ValueError\<close>, also raised for more than 4300 digits.\<close>

definition py_int :: "string \<Rightarrow> int option" where
  "py_int text =
     (let s = py_strip text;
          (sign, body) = (case s of
             c # cs \<Rightarrow> if c = CHR ''-'' then (- 1, cs) else if c = CHR ''+'' then (1, cs) else (1, s)
           | [] \<Rightarrow> (1, s))
      in case int_digits body of
           None \<Rightarrow> None
         | Some ds \<Rightarrow> if 4300 < length ds then None else Some (sign * digits_value 0 ds))"

section \<open>Data shared by the components\<close>

type_synonym datetime = int  \<comment> \<open>microseconds\<close>

datatype json =
    JNull
  | JBool bool
  | JInt int
  | JFloat rat
  | JStr string
  | JList "json list"
  | JObj "(string \<times> json) list"

definition seconds :: "int \<Rightarrow> int" where
  "seconds n = n * 1000000"

definition milliseconds :: "int \<Rightarrow> int" where
  "milliseconds n = n * 1000"

section \<open>Exceptions (core/exceptions.py)\<close>

record run_validation_issue =
  issue_code :: string
  issue_field :: "string option"

datatype app_error =
    AuthenticationError string
  | AuthorizationError string
  | ResourceNotFoundError string
  | ResourceConflictError string
  | RedisUnavailableError string
  | RunValidationError "run_validation_issue list"
  | RunStateConflictError string
  | RunDispatchPendingError
  | RunExecutionUnsupportedError string
  | EvidenceStorageError string
  | ApiStepRetryLimitError
  | SecurityConfigurationError string
  | InternalError string  \<comment> \<open>any other exception: a 500 response\<close>

fun error_code :: "app_error \<Rightarrow> string" where
  "error_code (AuthenticationError _) = ''AUTH_ERROR''"
| "error_code (AuthorizationError _) = ''PERMISSION_DENIED''"
| "error_code (ResourceNotFoundError _) = ''RESOURCE_NOT_FOUND''"
| "error_code (ResourceConflictError _) = ''RESOURCE_CONFLICT''"
| "error_code (RedisUnavailableError _) = ''REDIS_UNAVAILABLE''"
| "error_code (RunValidationError _) = ''RUN_VALIDATION_FAILED''"
| "error_code (RunStateConflictError _) = ''RUN_STATE_CONFLICT''"
| "error_code RunDispatchPendingError = ''RUN_DISPATCH_PENDING''"
| "error_code (RunExecutionUnsupportedError _) = ''RUN_EXECUTION_UNSUPPORTED''"
| "error_code (EvidenceStorageError _) = ''EVIDENCE_STORAGE_UNAVAILABLE''"
| "error_code ApiStepRetryLimitError = ''API_STEP_RETRY_LIMIT_EXCEEDED''"
| "error_code (SecurityConfigurationError _) = ''SECURITY_CONFIGURATION_ERROR''"
| "error_code (InternalError _) = ''INTERNAL_ERROR''"

section \<open>Evaluating characters\<close>

text \<open>Code equations on the eight bits of a character, so that text functions evaluate quickly.\<close>

lemma ascii_upper_code [code]: "ascii_upper (Char b0 b1 b2 b3 b4 b5 b6 b7) \<longleftrightarrow>
   b6 \<and> \<not> b7 \<and> \<not> b5 \<and> (b0 \<or> b1 \<or> b2 \<or> b3 \<or> b4) \<and> \<not> (b4 \<and> b3 \<and> (b2 \<or> b1 \<and> b0))"
  by (cases b0; cases b1; cases b2; cases b3; cases b4; cases b5; cases b6; cases b7)
     (simp_all add: ascii_upper_def)

lemma ascii_lower_code [code]: "ascii_lower (Char b0 b1 b2 b3 b4 b5 b6 b7) \<longleftrightarrow>
   b6 \<and> \<not> b7 \<and> b5 \<and> (b0 \<or> b1 \<or> b2 \<or> b3 \<or> b4) \<and> \<not> (b4 \<and> b3 \<and> (b2 \<or> b1 \<and> b0))"
  by (cases b0; cases b1; cases b2; cases b3; cases b4; cases b5; cases b6; cases b7)
     (simp_all add: ascii_lower_def)

lemma ascii_digit_code [code]: "ascii_digit (Char b0 b1 b2 b3 b4 b5 b6 b7) \<longleftrightarrow>
   \<not> b7 \<and> \<not> b6 \<and> b5 \<and> b4 \<and> \<not> (b3 \<and> (b2 \<or> b1))"
  by (cases b0; cases b1; cases b2; cases b3; cases b4; cases b5; cases b6; cases b7)
     (simp_all add: ascii_digit_def)

lemma lower_char_code [code]: "lower_char (Char b0 b1 b2 b3 b4 b5 b6 b7) =
   (if b6 \<and> \<not> b7 \<and> \<not> b5 \<and> (b0 \<or> b1 \<or> b2 \<or> b3 \<or> b4) \<and> \<not> (b4 \<and> b3 \<and> (b2 \<or> b1 \<and> b0))
    then Char b0 b1 b2 b3 b4 True b6 b7 else Char b0 b1 b2 b3 b4 b5 b6 b7)"
  by (cases b0; cases b1; cases b2; cases b3; cases b4; cases b5; cases b6; cases b7)
     (simp_all add: lower_char_def ascii_upper_code char_of_def bit_simps)

lemma upper_char_code [code]: "upper_char (Char b0 b1 b2 b3 b4 b5 b6 b7) =
   (if b6 \<and> \<not> b7 \<and> b5 \<and> (b0 \<or> b1 \<or> b2 \<or> b3 \<or> b4) \<and> \<not> (b4 \<and> b3 \<and> (b2 \<or> b1 \<and> b0))
    then Char b0 b1 b2 b3 b4 False b6 b7 else Char b0 b1 b2 b3 b4 b5 b6 b7)"
  by (cases b0; cases b1; cases b2; cases b3; cases b4; cases b5; cases b6; cases b7)
     (simp_all add: upper_char_def ascii_lower_code char_of_def bit_simps)

lemma py_space_code [code]: "py_space (Char b0 b1 b2 b3 b4 b5 b6 b7) \<longleftrightarrow>
   \<not> b6 \<and> (if b7 then (b5 \<and> \<not> b4 \<and> \<not> b3 \<and> \<not> b2 \<and> \<not> b1 \<and> \<not> b0)
                    \<or> (\<not> b5 \<and> \<not> b4 \<and> \<not> b3 \<and> b2 \<and> \<not> b1 \<and> b0)
     else if b5 then \<not> b4 \<and> \<not> b3 \<and> \<not> b2 \<and> \<not> b1 \<and> \<not> b0
     else b3 \<and> (if b4 then b2 else (b0 \<or> b1 \<or> b2) \<and> \<not> (b2 \<and> b1)))"
  by (cases b0; cases b1; cases b2; cases b3; cases b4; cases b5; cases b6; cases b7)
     (simp_all add: py_space_def)

section \<open>Generic lemmas\<close>

lemma res_bind_simps [simp]:
  "res_bind (Inl e) f = Inl e"
  "res_bind (Inr x) f = f x"
  by (simp_all add: res_bind_def)

lemma res_bind_Inr_iff [res_simps]:
  "res_bind m f = Inr y \<longleftrightarrow> (\<exists>x. m = Inr x \<and> f x = Inr y)"
  by (cases m) auto

lemma res_bind_Inl_iff:
  "res_bind m f = Inl e \<longleftrightarrow> m = Inl e \<or> (\<exists>x. m = Inr x \<and> f x = Inl e)"
  by (cases m) auto

lemma map_sum_Inr_iff: "map_sum f g m = Inr y \<longleftrightarrow> (\<exists>x. m = Inr x \<and> y = g x)"
  by (cases m) auto

lemma option_to_res_Inr_iff [res_simps]: "option_to_res e m = Inr x \<longleftrightarrow> m = Some x"
  by (simp add: option_to_res_def split: option.splits)

lemma option_to_res_simps [simp]:
  "option_to_res e None = Inl e" "option_to_res e (Some x) = Inr x"
  by (simp_all add: option_to_res_def)

lemma res_map_Cons_Inr_iff:
  "res_map f (x # xs) = Inr ys \<longleftrightarrow>
     (\<exists>y ys'. f x = Inr y \<and> res_map f xs = Inr ys' \<and> ys = y # ys')"
  by (auto split: sum.splits)

lemma res_map_Inr_iff: "res_map f xs = Inr ys \<longleftrightarrow> list_all2 (\<lambda>x y. f x = Inr y) xs ys"
proof (induction xs arbitrary: ys)
  case Nil
  then show ?case by auto
next
  case (Cons x xs)
  then show ?case
    by (auto simp del: res_map.simps simp: res_map_Cons_Inr_iff list_all2_Cons1)
qed

lemma res_map_length: "res_map f xs = Inr ys \<Longrightarrow> length ys = length xs"
  by (auto simp: res_map_Inr_iff dest: list_all2_lengthD)

lemma res_map_set:
  assumes "res_map f xs = Inr ys" and "y \<in> set ys"
  shows "\<exists>x \<in> set xs. f x = Inr y"
  using assms unfolding res_map_Inr_iff
  by (induction rule: list_all2_induct) auto

lemma res_map_set_source:
  assumes "res_map f xs = Inr ys" and "x \<in> set xs"
  shows "\<exists>y \<in> set ys. f x = Inr y"
  using assms unfolding res_map_Inr_iff
  by (induction rule: list_all2_induct) auto

lemma res_map_total: "(\<And>x. x \<in> set xs \<Longrightarrow> \<exists>y. f x = Inr y) \<Longrightarrow> \<exists>ys. res_map f xs = Inr ys"
  by (induction xs) (fastforce split: sum.splits)+

lemma res_map_map_eq:
  assumes "res_map f xs = Inr ys" and "\<And>x y. x \<in> set xs \<Longrightarrow> f x = Inr y \<Longrightarrow> g y = h x"
  shows "map g ys = map h xs"
  using assms unfolding res_map_Inr_iff
  by (auto intro!: nth_equalityI simp: list_all2_conv_all_nth)

lemma py_strip_id:
  assumes "s \<noteq> []" "\<not> py_space (hd s)" "\<not> py_space (last s)"
  shows "py_strip s = s"
proof -
  have "dropWhile py_space s = s" using assms by (cases s) auto
  moreover have "dropWhile py_space (rev s) = rev s" using assms by (cases s rule: rev_cases) auto
  ultimately show ?thesis by (simp add: py_strip_def)
qed

lemma strip_or_none_not_empty: "strip_or_none s = Some t \<Longrightarrow> t \<noteq> []"
  by (auto simp: strip_or_none_def Let_def split: if_splits)

section \<open>Interface: rows addressed by a primary key\<close>

text \<open>
  A table is the list of its rows. \<open>get_row\<close> is \<open>session.get\<close> (or a \<open>select \<dots> where id = \<dots>\<close>),
  \<open>put_row\<close> the flush of a changed row, which replaces the row with the same key.
\<close>

definition get_row :: "('r \<Rightarrow> 'k) \<Rightarrow> 'r list \<Rightarrow> 'k \<Rightarrow> 'r option" where
  "get_row key rows k = find (\<lambda>r. key r = k) rows"

primrec put_row :: "('r \<Rightarrow> 'k) \<Rightarrow> 'r \<Rightarrow> 'r list \<Rightarrow> 'r list" where
  "put_row key r [] = []"
| "put_row key r (x # xs) = (if key x = key r then r # xs else x # put_row key r xs)"

locale keyed_table =
  fixes get :: "'t \<Rightarrow> 'k \<Rightarrow> 'r option"
    and put :: "'r \<Rightarrow> 't \<Rightarrow> 't"
    and key :: "'r \<Rightarrow> 'k"
  assumes get_key: "get t k = Some r \<Longrightarrow> key r = k"
    and get_put_same: "get t (key r) = Some r0 \<Longrightarrow> get (put r t) (key r) = Some r"
    and get_put_other: "k \<noteq> key r \<Longrightarrow> get (put r t) k = get t k"
    and get_put_absent: "get t (key r) = None \<Longrightarrow> get (put r t) (key r) = None"
begin

lemma get_put:
  "get (put r t) k =
     (if k = key r then (case get t k of None \<Rightarrow> None | Some _ \<Rightarrow> Some r) else get t k)"
  using get_put_same get_put_other get_put_absent by (auto split: option.splits)

lemma put_keeps_keys: "(get (put r t) k = None) = (get t k = None)"
  by (auto simp: get_put split: option.splits)

lemma get_put_found: "get t k = Some r0 \<Longrightarrow> key r = k \<Longrightarrow> get (put r t) k = Some r"
  by (auto simp: get_put)

lemma put_rows_preserve:
  assumes "\<And>k r. get t k = Some r \<Longrightarrow> P r" and "P r"
    and "get (put r t) k = Some r'"
  shows "P r'"
  using assms by (auto simp: get_put split: if_splits option.splits)

end

interpretation row_table: keyed_table "get_row key" "put_row key" key for key
proof unfold_locales
  fix t k r
  show "get_row key t k = Some r \<Longrightarrow> key r = k"
    by (auto simp: get_row_def find_Some_iff)
next
  fix t r r0
  show "get_row key t (key r) = Some r0 \<Longrightarrow> get_row key (put_row key r t) (key r) = Some r"
    by (induction t) (auto simp: get_row_def split: if_splits)
next
  fix t r k
  show "k \<noteq> key r \<Longrightarrow> get_row key (put_row key r t) k = get_row key t k"
    by (induction t) (auto simp: get_row_def)
next
  fix t r
  show "get_row key t (key r) = None \<Longrightarrow> get_row key (put_row key r t) (key r) = None"
    by (induction t) (auto simp: get_row_def split: if_splits)
qed

lemma put_row_keys: "map key (put_row key r rows) = map key rows"
  by (induction rows) auto

lemma find_SomeD: "find P xs = Some x \<Longrightarrow> x \<in> set xs \<and> P x"
  by (induction xs) (auto split: if_splits)

lemma get_row_in_set: "get_row key rows k = Some r \<Longrightarrow> r \<in> set rows"
  by (auto simp: get_row_def find_Some_iff)

lemma put_row_set: "r' \<in> set (put_row key r rows) \<Longrightarrow> r' = r \<or> r' \<in> set rows"
  by (induction rows) (auto split: if_splits)

lemma put_row_related:
  assumes "get_row key rows (key r') = Some r" and "P r r'" and "\<And>x. P x x"
  shows "list_all2 P rows (put_row key r' rows)"
  using assms(1,2)
  by (induction rows) (auto simp: get_row_def assms(3) list_all2_same split: if_splits)

lemma get_row_distinct:
  "distinct (map key rows) \<Longrightarrow> r \<in> set rows \<Longrightarrow> get_row key rows (key r) = Some r"
  by (induction rows) (auto simp: get_row_def image_iff)

lemma put_row_distinct:
  assumes "distinct (map key rows)" and "distinct (map f rows)"
    and "\<And>q. q \<in> set rows \<Longrightarrow> key q \<noteq> key r \<Longrightarrow> f q \<noteq> f r"
  shows "distinct (map f (put_row key r rows))"
  using assms
proof (induction rows)
  case Nil
  then show ?case by simp
next
  case (Cons q qs)
  show ?case
  proof (cases "key q = key r")
    case True
    have "f r \<noteq> f x" if "x \<in> set qs" for x
    proof -
      have "key x \<noteq> key r" using Cons.prems(1) True that by (auto simp: image_iff)
      with Cons.prems(3)[of x] that show ?thesis by auto
    qed
    with Cons.prems(2) True show ?thesis by auto
  next
    case False
    have "distinct (map f (put_row key r qs))"
      by (rule Cons.IH) (use Cons.prems in auto)
    moreover have "f q \<notin> f ` set (put_row key r qs)"
      using Cons.prems False by (auto dest!: put_row_set)
    ultimately show ?thesis using False by simp
  qed
qed

lemma get_row_append:
  "get_row key (xs @ ys) k =
     (case get_row key xs k of None \<Rightarrow> get_row key ys k | Some r \<Rightarrow> Some r)"
  by (induction xs) (auto simp: get_row_def)

lemma get_row_filter:
  "\<not> P k \<Longrightarrow> get_row key (filter (\<lambda>r. \<not> P (key r)) xs) k = get_row key xs k"
  by (induction xs) (auto simp: get_row_def)

lemma get_row_None_iff: "get_row key rows k = None \<longleftrightarrow> k \<notin> key ` set rows"
  by (auto simp: get_row_def find_None_iff)

section \<open>Interface: a status moved along a transition table\<close>

text \<open>
  \<open>allowed s\<close> is the row of the transition table for status \<open>s\<close>, \<open>terminal\<close> the statuses that end
  a life cycle. The law is that no edge leaves a terminal status.
\<close>

locale status_machine =
  fixes allowed :: "'s \<Rightarrow> 's list"
    and terminal :: "'s \<Rightarrow> bool"
  assumes terminal_closed: "terminal s \<Longrightarrow> allowed s = []"
begin

definition edge :: "'s \<Rightarrow> 's \<Rightarrow> bool" where
  "edge s t \<longleftrightarrow> s = t \<or> t \<in> set (allowed s)"

lemma edge_refl: "edge s s"
  by (simp add: edge_def)

lemma edge_terminal: "edge s t \<Longrightarrow> terminal s \<Longrightarrow> t = s"
  by (auto simp: edge_def terminal_closed)

lemma path_terminal: "edge\<^sup>*\<^sup>* s t \<Longrightarrow> terminal s \<Longrightarrow> t = s"
  by (induction rule: rtranclp_induct) (auto dest: edge_terminal)

end

end
