(* ===== verification/Safe_Error.thy ===== *)
theory Safe_Error
  imports Prelude
begin

text \<open>
  The sanitiser every error text passes through before it is stored on a Run, CaseRun or StepRun:
  \<open>_SENSITIVE_TEXT\<close> and \<open>_safe_error\<close> of \<open>backend/app/modules/runs/service.py\<close>.

  The regular expression is

  \<^verbatim>\<open>(?i)(?:bearer\s+[^\s,;]+|(?:password|token|access[_-]?token|refresh[_-]?token|authorization|
  cookie|secret|api[_-]?key|credential)\s*[:=]\s*[^\s,;]+)\<close>

  At any position at most one keyword can match, and the classes on both sides of every repetition
  are disjoint, so the backtracking search is deterministic: \<open>sens_match\<close> returns the text after
  the match at the head of its argument. \<open>sens_sub\<close> is \<open>re.sub\<close>: it looks for a match at every
  position from left to right and goes on behind the replaced text.
\<close>

section \<open>The pattern\<close>

fun drop_prefix_ci :: "string \<Rightarrow> string \<Rightarrow> string option" where
  "drop_prefix_ci [] s = Some s"
| "drop_prefix_ci (k # ks) [] = None"
| "drop_prefix_ci (k # ks) (c # cs) = (if lower_char c = k then drop_prefix_ci ks cs else None)"

text \<open>\<open>a[_-]?b\<close>\<close>

definition drop_joined_ci :: "string \<Rightarrow> string \<Rightarrow> string \<Rightarrow> string option" where
  "drop_joined_ci a b s =
     (case drop_prefix_ci a s of
        None \<Rightarrow> None
      | Some r \<Rightarrow>
          (case r of
             [] \<Rightarrow> drop_prefix_ci b r
           | c # r' \<Rightarrow>
               if c = CHR ''_'' \<or> c = CHR ''-''
               then (case drop_prefix_ci b r' of Some t \<Rightarrow> Some t | None \<Rightarrow> drop_prefix_ci b r)
               else drop_prefix_ci b r))"

definition value_char :: "char \<Rightarrow> bool" where
  "value_char c \<longleftrightarrow> \<not> py_space c \<and> c \<noteq> CHR '','' \<and> c \<noteq> CHR '';''"

text \<open>\<open>[^\s,;]+\<close>\<close>

definition drop_value :: "string \<Rightarrow> string option" where
  "drop_value s =
     (case s of
        [] \<Rightarrow> None
      | c # cs \<Rightarrow> if value_char c then Some (dropWhile value_char cs) else None)"

text \<open>\<open>bearer\s+[^\s,;]+\<close>\<close>

definition match_bearer :: "string \<Rightarrow> string option" where
  "match_bearer s =
     (case drop_prefix_ci ''bearer'' s of
        None \<Rightarrow> None
      | Some r \<Rightarrow>
          (case r of
             [] \<Rightarrow> None
           | c # cs \<Rightarrow> if py_space c then drop_value (dropWhile py_space cs) else None))"

definition sens_keywords :: "(string \<Rightarrow> string option) list" where
  "sens_keywords =
     [drop_prefix_ci ''password'', drop_prefix_ci ''token'', drop_joined_ci ''access'' ''token'',
      drop_joined_ci ''refresh'' ''token'', drop_prefix_ci ''authorization'',
      drop_prefix_ci ''cookie'', drop_prefix_ci ''secret'', drop_joined_ci ''api'' ''key'',
      drop_prefix_ci ''credential'']"

text \<open>\<open>\s*[:=]\s*[^\s,;]+\<close>\<close>

definition match_assignment :: "string \<Rightarrow> string option" where
  "match_assignment s =
     (case dropWhile py_space s of
        [] \<Rightarrow> None
      | c # cs \<Rightarrow>
          if c = CHR '':'' \<or> c = CHR ''='' then drop_value (dropWhile py_space cs) else None)"

fun first_match :: "(string \<Rightarrow> string option) list \<Rightarrow> string \<Rightarrow> string option" where
  "first_match [] s = None"
| "first_match (kw # kws) s =
     (case kw s of
        None \<Rightarrow> first_match kws s
      | Some r \<Rightarrow>
          (case match_assignment r of Some t \<Rightarrow> Some t | None \<Rightarrow> first_match kws s))"

definition sens_match :: "string \<Rightarrow> string option" where
  "sens_match s =
     (case match_bearer s of Some t \<Rightarrow> Some t | None \<Rightarrow> first_match sens_keywords s)"

section \<open>Every match consumes text\<close>

lemma drop_prefix_ci_length: "drop_prefix_ci k s = Some r \<Longrightarrow> length r + length k = length s"
  by (induction k s rule: drop_prefix_ci.induct) (auto split: if_splits)

lemma drop_joined_ci_length: "drop_joined_ci a b s = Some r \<Longrightarrow> length r + length a \<le> length s"
  by (fastforce simp: drop_joined_ci_def dest: drop_prefix_ci_length
      split: option.splits list.splits if_splits)

lemma drop_value_length: "drop_value s = Some r \<Longrightarrow> length r < length s"
  by (auto simp: drop_value_def length_dropWhile_le less_Suc_eq_le split: list.splits if_splits)

lemma drop_value_skip_length:
  "drop_value (dropWhile p s) = Some r \<Longrightarrow> length r < length s"
  using drop_value_length length_dropWhile_le[of p s] by fastforce

lemma match_bearer_length: "match_bearer s = Some r \<Longrightarrow> length r < length s"
  by (fastforce simp: match_bearer_def
      dest: drop_prefix_ci_length drop_value_skip_length split: option.splits list.splits if_splits)

lemma match_assignment_length:
  assumes "match_assignment s = Some r"
  shows "length r < length s"
proof -
  obtain c cs where c: "dropWhile py_space s = c # cs"
    and r: "drop_value (dropWhile py_space cs) = Some r"
    using assms by (auto simp: match_assignment_def split: list.splits if_splits)
  have "length (c # cs) \<le> length s"
    unfolding c[symmetric] by (rule length_dropWhile_le)
  with drop_value_skip_length[OF r] show ?thesis by simp
qed

lemma first_match_length:
  assumes "first_match kws s = Some r"
    and "\<And>kw t. kw \<in> set kws \<Longrightarrow> kw s = Some t \<Longrightarrow> length t \<le> length s"
  shows "length r < length s"
  using assms
proof (induction kws)
  case Nil
  then show ?case by simp
next
  case (Cons kw kws)
  show ?case
  proof (cases "\<exists>t. kw s = Some t \<and> match_assignment t = Some r")
    case True
    then show ?thesis
      using Cons.prems(2)[of kw] match_assignment_length by fastforce
  next
    case False
    with Cons.prems(1) have "first_match kws s = Some r"
      by (auto split: option.splits)
    then show ?thesis
      by (rule Cons.IH) (use Cons.prems(2) in auto)
  qed
qed

lemma sens_keywords_length:
  "kw \<in> set sens_keywords \<Longrightarrow> kw s = Some t \<Longrightarrow> length t \<le> length s"
  by (auto simp: sens_keywords_def dest!: drop_prefix_ci_length drop_joined_ci_length)

lemma sens_match_length: "sens_match s = Some r \<Longrightarrow> length r < length s"
  by (auto simp: sens_match_def split: option.splits
      dest: match_bearer_length first_match_length[OF _ sens_keywords_length])

section \<open>Substitution\<close>

function sens_sub :: "string \<Rightarrow> string" where
  "sens_sub s =
     (case s of
        [] \<Rightarrow> []
      | c # cs \<Rightarrow>
          (case sens_match s of
             Some r \<Rightarrow> ''<redacted>'' @ sens_sub r
           | None \<Rightarrow> c # sens_sub cs))"
  by pat_completeness auto
termination
  by (relation "measure length") (auto dest: sens_match_length)

declare sens_sub.simps [simp del]

definition safe_error_max :: "nat \<Rightarrow> string option \<Rightarrow> string option" where
  "safe_error_max maximum value =
     (case value of None \<Rightarrow> None | Some v \<Rightarrow> Some (take maximum (sens_sub v)))"

definition safe_error :: "string option \<Rightarrow> string option" where
  "safe_error value = safe_error_max 1000 value"

section \<open>Properties\<close>

lemma safe_error_max_bounded: "safe_error_max n v = Some t \<Longrightarrow> length t \<le> n"
  by (auto simp: safe_error_max_def split: option.splits)

lemma safe_error_None_iff [simp]: "safe_error v = None \<longleftrightarrow> v = None"
  by (simp add: safe_error_def safe_error_max_def split: option.splits)

lemma safe_error_max_None_iff [simp]: "safe_error_max n v = None \<longleftrightarrow> v = None"
  by (simp add: safe_error_max_def split: option.splits)

lemma drop_prefix_ci_append:
  "map lower_char w = k \<Longrightarrow> drop_prefix_ci k (w @ s) = Some s"
  by (induction k arbitrary: w) auto

lemma sens_sub_match: "sens_match s = Some r \<Longrightarrow> sens_sub s = ''<redacted>'' @ sens_sub r"
  using sens_match_length[of s r] by (subst sens_sub.simps) (auto split: list.splits)

lemma drop_value_all: "v \<noteq> [] \<Longrightarrow> list_all value_char v \<Longrightarrow> drop_value v = Some []"
  by (cases v) (auto simp: drop_value_def list_all_iff)

end
