(* ===== verification/Projects.thy ===== *)
theory Projects
  imports Prelude
begin

text \<open>
  Projects, their members and the access rules every other service calls:
  \<open>backend/app/modules/projects/service.py\<close>, \<open>projects/models.py\<close>, \<open>projects/schemas.py\<close>.

  \<open>project_db\<close> holds the three tables these functions read and write; the rows of \<open>users\<close> are only
  read. Payloads are taken after schema validation. The \<open>current_user_role\<close> attribute that is
  attached to a returned project is not stored and is left out, as are the automatic timestamps.

  The lemmas show that the creator of a project always remains its owner (\<open>project_inv\<close>) and that the
  three access checks form a hierarchy: owner access implies write access implies visibility.
\<close>

section \<open>Data\<close>

record current_user =
  cu_id :: string
  cu_roles :: "string list"

datatype project_status = PROJECT_ACTIVE | PROJECT_ARCHIVED

datatype project_role = PROJECT_OWNER | PROJECT_TESTER | PROJECT_VIEWER

record project =
  pj_id :: int
  pj_name :: string
  pj_code :: string
  pj_description :: "string option"
  pj_status :: project_status
  pj_owner_id :: string
  pj_archived_at :: "datetime option"
  pj_archived_at_basis :: "string option"

record project_member =
  pm_project_id :: int
  pm_user_id :: string
  pm_role :: project_role

datatype user_status = USER_ACTIVE | USER_DISABLED

record user_row =
  us_id :: string
  us_status :: user_status

record project_db =
  pd_projects :: "project list"
  pd_members :: "project_member list"
  pd_users :: "user_row list"
  pd_next_id :: int

record project_create =
  pc_name :: string
  pc_code :: string
  pc_description :: "string option"

text \<open>\<open>None\<close> in the outer option: the field was not set in the request.\<close>

record project_update =
  pu_name :: "string option option"
  pu_code :: "string option option"
  pu_description :: "string option option"

section \<open>Access\<close>

definition is_admin :: "current_user \<Rightarrow> bool" where
  "is_admin user \<longleftrightarrow> ''ADMIN'' \<in> set (cu_roles user)"

definition normalize_code :: "string \<Rightarrow> string" where
  "normalize_code code = py_upper (py_strip code)"

definition member_key :: "project_member \<Rightarrow> int \<times> string" where
  "member_key m = (pm_project_id m, pm_user_id m)"

definition get_project_row :: "project_db \<Rightarrow> int \<Rightarrow> app_error + project" where
  "get_project_row db project_id =
     option_to_res (ResourceNotFoundError ''project'') (get_row pj_id (pd_projects db) project_id)"

definition get_member :: "project_db \<Rightarrow> int \<Rightarrow> string \<Rightarrow> project_member option" where
  "get_member db project_id user_id = get_row member_key (pd_members db) (project_id, user_id)"

definition require_active_user :: "project_db \<Rightarrow> string \<Rightarrow> app_error + unit" where
  "require_active_user db user_id =
     (case get_row us_id (pd_users db) user_id of
        None \<Rightarrow> Inl (ResourceConflictError ''user missing or disabled'')
      | Some u \<Rightarrow>
          if us_status u \<noteq> USER_ACTIVE
          then Inl (ResourceConflictError ''user missing or disabled'') else Inr ())"

definition ensure_project_visible ::
  "project_db \<Rightarrow> project \<Rightarrow> current_user \<Rightarrow> app_error + unit" where
  "ensure_project_visible db project user =
     (if is_admin user then Inr ()
      else case get_member db (pj_id project) (cu_id user) of
             None \<Rightarrow> Inl (ResourceNotFoundError ''project'')
           | Some _ \<Rightarrow> Inr ())"

definition ensure_project_writable ::
  "project_db \<Rightarrow> project \<Rightarrow> current_user \<Rightarrow> app_error + unit" where
  "ensure_project_writable db project user =
     (if is_admin user then Inr ()
      else case get_member db (pj_id project) (cu_id user) of
             None \<Rightarrow> Inl (AuthorizationError ''write access required'')
           | Some m \<Rightarrow>
               if pm_role m \<noteq> PROJECT_OWNER \<and> pm_role m \<noteq> PROJECT_TESTER
               then Inl (AuthorizationError ''write access required'') else Inr ())"

definition ensure_project_owner ::
  "project_db \<Rightarrow> project \<Rightarrow> current_user \<Rightarrow> app_error + unit" where
  "ensure_project_owner db project user =
     (if is_admin user then Inr ()
      else case get_member db (pj_id project) (cu_id user) of
             None \<Rightarrow> Inl (AuthorizationError ''owner access required'')
           | Some m \<Rightarrow>
               if pm_role m \<noteq> PROJECT_OWNER
               then Inl (AuthorizationError ''owner access required'') else Inr ())"

definition get_project :: "project_db \<Rightarrow> current_user \<Rightarrow> int \<Rightarrow> app_error + project" where
  "get_project db user project_id =
     res_bind (get_project_row db project_id) (\<lambda>project.
     res_bind (ensure_project_visible db project user) (\<lambda>_. Inr project))"

section \<open>Operations\<close>

definition code_taken :: "project_db \<Rightarrow> string \<Rightarrow> int option \<Rightarrow> bool" where
  "code_taken db code except =
     list_ex (\<lambda>p. py_upper (pj_code p) = code \<and> Some (pj_id p) \<noteq> except) (pd_projects db)"

definition create_project ::
  "project_db \<Rightarrow> current_user \<Rightarrow> project_create \<Rightarrow> app_error + project \<times> project_db" where
  "create_project db user payload =
     (if \<not> is_admin user then Inl (AuthorizationError ''admin required'')
      else
        (let code = normalize_code (pc_code payload) in
         if code_taken db code None then Inl (ResourceConflictError ''project code exists'')
         else
           (let project =
                  \<lparr>pj_id = pd_next_id db, pj_name = py_strip (pc_name payload), pj_code = code,
                   pj_description = (case pc_description payload of
                      None \<Rightarrow> None
                    | Some d \<Rightarrow> (if d = [] then None else Some (py_strip d))),
                   pj_status = PROJECT_ACTIVE, pj_owner_id = cu_id user,
                   pj_archived_at = None, pj_archived_at_basis = None\<rparr>;
                member = \<lparr>pm_project_id = pd_next_id db, pm_user_id = cu_id user,
                          pm_role = PROJECT_OWNER\<rparr>
            in Inr (project, db\<lparr>pd_projects := pd_projects db @ [project],
                                pd_members := pd_members db @ [member],
                                pd_next_id := pd_next_id db + 1\<rparr>))))"

definition put_project :: "project_db \<Rightarrow> project \<Rightarrow> project_db" where
  "put_project db p = db\<lparr>pd_projects := put_row pj_id p (pd_projects db)\<rparr>"

definition update_project_code ::
  "project_db \<Rightarrow> project \<Rightarrow> project_update \<Rightarrow> app_error + project" where
  "update_project_code db project payload =
     (case pu_code payload of
        Some (Some c) \<Rightarrow>
          (let code = normalize_code c in
           if code_taken db code (Some (pj_id project))
           then Inl (ResourceConflictError ''project code exists'')
           else Inr (project\<lparr>pj_code := code\<rparr>))
      | _ \<Rightarrow> Inr project)"

definition update_project_text :: "project \<Rightarrow> project_update \<Rightarrow> project" where
  "update_project_text project payload =
     (let p1 = (case pu_name payload of
                  Some (Some n) \<Rightarrow> project\<lparr>pj_name := py_strip n\<rparr>
                | _ \<Rightarrow> project)
      in case pu_description payload of
           None \<Rightarrow> p1
         | Some None \<Rightarrow> p1\<lparr>pj_description := None\<rparr>
         | Some (Some d) \<Rightarrow>
             p1\<lparr>pj_description := (if d = [] then None else Some (py_strip d))\<rparr>)"

definition update_project ::
  "project_db \<Rightarrow> current_user \<Rightarrow> int \<Rightarrow> project_update \<Rightarrow> app_error + project \<times> project_db" where
  "update_project db user project_id payload =
     res_bind (get_project_row db project_id) (\<lambda>project.
     res_bind (ensure_project_owner db project user) (\<lambda>_.
     if pj_status project = PROJECT_ARCHIVED
     then Inl (ResourceConflictError ''restore archived project first'')
     else
       res_bind (update_project_code db project payload) (\<lambda>p1.
       let p2 = update_project_text p1 payload in Inr (p2, put_project db p2))))"

definition archive_project ::
  "project_db \<Rightarrow> datetime \<Rightarrow> current_user \<Rightarrow> int \<Rightarrow> app_error + project \<times> project_db" where
  "archive_project db now user project_id =
     res_bind (get_project_row db project_id) (\<lambda>project.
     res_bind (ensure_project_owner db project user) (\<lambda>_.
     if pj_status project \<noteq> PROJECT_ARCHIVED
     then (let p = project\<lparr>pj_status := PROJECT_ARCHIVED, pj_archived_at := Some now,
                           pj_archived_at_basis := Some ''UTC''\<rparr>
           in Inr (p, put_project db p))
     else Inr (project, db)))"

definition restore_project ::
  "project_db \<Rightarrow> current_user \<Rightarrow> int \<Rightarrow> app_error + project \<times> project_db" where
  "restore_project db user project_id =
     res_bind (get_project_row db project_id) (\<lambda>project.
     res_bind (ensure_project_owner db project user) (\<lambda>_.
     if pj_status project \<noteq> PROJECT_ACTIVE
     then (let p = project\<lparr>pj_status := PROJECT_ACTIVE, pj_archived_at := None,
                           pj_archived_at_basis := None\<rparr>
           in Inr (p, put_project db p))
     else Inr (project, db)))"

definition add_project_member ::
  "project_db \<Rightarrow> current_user \<Rightarrow> int \<Rightarrow> string \<Rightarrow> project_role
     \<Rightarrow> app_error + project_member \<times> project_db" where
  "add_project_member db user project_id user_id role =
     res_bind (get_project_row db project_id) (\<lambda>project.
     res_bind (ensure_project_owner db project user) (\<lambda>_.
     if pj_status project = PROJECT_ARCHIVED
     then Inl (ResourceConflictError ''archived project: members fixed'')
     else
       res_bind (require_active_user db user_id) (\<lambda>_.
       if get_member db project_id user_id \<noteq> None
       then Inl (ResourceConflictError ''already a member'')
       else
         (let m = \<lparr>pm_project_id = project_id, pm_user_id = user_id, pm_role = role\<rparr>
          in Inr (m, db\<lparr>pd_members := pd_members db @ [m]\<rparr>)))))"

definition update_project_member ::
  "project_db \<Rightarrow> current_user \<Rightarrow> int \<Rightarrow> string \<Rightarrow> project_role
     \<Rightarrow> app_error + project_member \<times> project_db" where
  "update_project_member db user project_id member_user_id role =
     res_bind (get_project_row db project_id) (\<lambda>project.
     res_bind (ensure_project_owner db project user) (\<lambda>_.
     res_bind (option_to_res (ResourceNotFoundError ''member'')
                (get_member db project_id member_user_id)) (\<lambda>member.
     res_bind (require_active_user db member_user_id) (\<lambda>_.
     if pm_user_id member = pj_owner_id project \<and> role \<noteq> PROJECT_OWNER
     then Inl (ResourceConflictError ''creator keeps PROJECT_OWNER'')
     else
       (let m = member\<lparr>pm_role := role\<rparr>
        in Inr (m, db\<lparr>pd_members := put_row member_key m (pd_members db)\<rparr>))))))"

definition remove_project_member ::
  "project_db \<Rightarrow> current_user \<Rightarrow> int \<Rightarrow> string \<Rightarrow> app_error + unit \<times> project_db" where
  "remove_project_member db user project_id member_user_id =
     res_bind (get_project_row db project_id) (\<lambda>project.
     res_bind (ensure_project_owner db project user) (\<lambda>_.
     res_bind (option_to_res (ResourceNotFoundError ''member'')
                (get_member db project_id member_user_id)) (\<lambda>member.
     if pm_user_id member = pj_owner_id project
     then Inl (ResourceConflictError ''creator cannot be removed'')
     else
       Inr ((), db\<lparr>pd_members :=
                     filter (\<lambda>m. member_key m \<noteq> (project_id, member_user_id)) (pd_members db)\<rparr>))))"

section \<open>The access checks form a hierarchy\<close>

lemma owner_writable:
  "ensure_project_owner db p u = Inr () \<Longrightarrow> ensure_project_writable db p u = Inr ()"
  by (auto simp: ensure_project_owner_def ensure_project_writable_def split: if_splits option.splits)

lemma writable_visible:
  "ensure_project_writable db p u = Inr () \<Longrightarrow> ensure_project_visible db p u = Inr ()"
  by (auto simp: ensure_project_visible_def ensure_project_writable_def
      split: if_splits option.splits)

section \<open>The creator of a project stays its owner\<close>

definition project_inv :: "project_db \<Rightarrow> bool" where
  "project_inv db \<longleftrightarrow>
     distinct (map pj_id (pd_projects db))
     \<and> distinct (map member_key (pd_members db))
     \<and> (\<forall>p \<in> set (pd_projects db).
          pj_id p < pd_next_id db
          \<and> (pj_archived_at p \<noteq> None \<longleftrightarrow> pj_status p = PROJECT_ARCHIVED)
          \<and> (\<exists>m. get_member db (pj_id p) (pj_owner_id p) = Some m \<and> pm_role m = PROJECT_OWNER))
     \<and> (\<forall>m \<in> set (pd_members db). pm_project_id m < pd_next_id db)
     \<and> distinct (map (\<lambda>p. py_upper (pj_code p)) (pd_projects db))"

datatype project_op =
    OpCreate current_user project_create
  | OpUpdate current_user int project_update
  | OpArchive datetime current_user int
  | OpRestore current_user int
  | OpAddMember current_user int string project_role
  | OpUpdateMember current_user int string project_role
  | OpRemoveMember current_user int string

fun project_step :: "project_op \<Rightarrow> project_db \<Rightarrow> app_error + project_db" where
  "project_step (OpCreate u p) db = map_sum id snd (create_project db u p)"
| "project_step (OpUpdate u i p) db = map_sum id snd (update_project db u i p)"
| "project_step (OpArchive t u i) db = map_sum id snd (archive_project db t u i)"
| "project_step (OpRestore u i) db = map_sum id snd (restore_project db u i)"
| "project_step (OpAddMember u i m r) db = map_sum id snd (add_project_member db u i m r)"
| "project_step (OpUpdateMember u i m r) db = map_sum id snd (update_project_member db u i m r)"
| "project_step (OpRemoveMember u i m) db = map_sum id snd (remove_project_member db u i m)"

lemma upper_char_idem [simp]: "upper_char (upper_char c) = upper_char c"
proof (cases "ascii_lower c")
  case True
  define n where "n = (of_char c :: nat)"
  have n: "97 \<le> n" "n \<le> 122" using True by (auto simp: ascii_lower_def n_def Let_def)
  then have "of_char (char_of (n - 32) :: char) = n - 32"
    by (simp add: take_bit_eq_mod of_char_of)
  moreover have "upper_char c = char_of (n - 32)" using True by (simp add: upper_char_def n_def)
  ultimately show ?thesis
    using n by (auto simp: upper_char_def[of "char_of (n - 32)"] ascii_lower_def Let_def)
qed (simp add: upper_char_def)

lemma normalize_code_upper [simp]: "py_upper (normalize_code c) = normalize_code c"
  by (simp add: normalize_code_def py_upper_def)

lemma get_project_row_in:
  "get_project_row db i = Inr p \<Longrightarrow> p \<in> set (pd_projects db) \<and> pj_id p = i"
  by (auto simp: get_project_row_def res_simps dest: get_row_in_set row_table.get_key)

text \<open>Changing one project row keeps the invariant when the row keeps what the invariant reads.\<close>

lemma put_project_inv:
  assumes inv: "project_inv db" and p0: "p0 \<in> set (pd_projects db)"
    and same: "pj_id p = pj_id p0" "pj_owner_id p = pj_owner_id p0"
    and arch: "pj_archived_at p \<noteq> None \<longleftrightarrow> pj_status p = PROJECT_ARCHIVED"
    and code: "\<forall>q \<in> set (pd_projects db). pj_id q \<noteq> pj_id p0 \<longrightarrow>
                 py_upper (pj_code q) \<noteq> py_upper (pj_code p)"
  shows "project_inv (put_project db p)"
proof -
  have old: "\<And>q. q \<in> set (put_row pj_id p (pd_projects db)) \<Longrightarrow> q = p \<or> q \<in> set (pd_projects db)"
    by (rule put_row_set)
  have codes: "distinct (map (\<lambda>q. py_upper (pj_code q)) (put_row pj_id p (pd_projects db)))"
    using inv code same by (intro put_row_distinct) (auto simp: project_inv_def)
  have row: "pj_id q < pd_next_id db \<and> (pj_archived_at q \<noteq> None \<longleftrightarrow> pj_status q = PROJECT_ARCHIVED)
      \<and> (\<exists>m. get_member db (pj_id q) (pj_owner_id q) = Some m \<and> pm_role m = PROJECT_OWNER)"
    if "q = p \<or> q \<in> set (pd_projects db)" for q
    using that
  proof
    assume "q = p"
    then show ?thesis using inv p0 same arch unfolding project_inv_def by simp
  next
    assume "q \<in> set (pd_projects db)"
    then show ?thesis using inv unfolding project_inv_def by blast
  qed
  show ?thesis
    using inv codes row[OF old]
    by (simp add: project_inv_def put_project_def put_row_keys get_member_def)
qed


lemma create_project_inv:
  assumes inv: "project_inv db" and ok: "create_project db u p = Inr (q, db')"
  shows "project_inv db'"
proof -
  let ?i = "pd_next_id db"
  obtain m where free: "\<not> code_taken db (normalize_code (pc_code p)) None"
    and m: "m = \<lparr>pm_project_id = ?i, pm_user_id = cu_id u, pm_role = PROJECT_OWNER\<rparr>"
    and q: "pj_id q = ?i" "pj_owner_id q = cu_id u" "pj_code q = normalize_code (pc_code p)"
      "pj_status q = PROJECT_ACTIVE" "pj_archived_at q = None"
    and db': "db' = db\<lparr>pd_projects := pd_projects db @ [q], pd_members := pd_members db @ [m],
                      pd_next_id := ?i + 1\<rparr>"
    using ok by (auto simp: create_project_def Let_def split: if_splits)
  have new: "?i \<notin> pj_id ` set (pd_projects db)" "?i \<notin> pm_project_id ` set (pd_members db)"
    using inv by (auto simp: project_inv_def)
  then have "get_member db ?i (cu_id u) = None"
    by (auto simp: get_member_def get_row_None_iff member_key_def)
  then have member: "get_member db' ?i (cu_id u) = Some m"
    by (simp add: db' get_member_def get_row_append m) (simp add: get_row_def member_key_def)
  have keep: "get_member db' j v = Some x" if "get_member db j v = Some x" for j v x
    using that by (simp add: db' get_member_def get_row_append)
  have codes: "normalize_code (pc_code p) \<notin> (\<lambda>p. py_upper (pj_code p)) ` set (pd_projects db)"
    using free by (auto simp: code_taken_def list_ex_iff)
  have row: "pj_id x < ?i + 1 \<and> (pj_archived_at x \<noteq> None \<longleftrightarrow> pj_status x = PROJECT_ARCHIVED)
      \<and> (\<exists>m. get_member db' (pj_id x) (pj_owner_id x) = Some m \<and> pm_role m = PROJECT_OWNER)"
    if "x = q \<or> x \<in> set (pd_projects db)" for x
    using that
  proof
    assume "x = q" then show ?thesis using q member by (simp add: m)
  next
    assume "x \<in> set (pd_projects db)"
    then show ?thesis using inv keep unfolding project_inv_def by fastforce
  qed
  have "(?i, cu_id u) \<notin> member_key ` set (pd_members db)"
    using new by (auto simp: member_key_def)
  moreover have "\<forall>x \<in> set (pd_members db). pm_project_id x < ?i + 1"
    using inv by (force simp: project_inv_def)
  ultimately show ?thesis
    using inv new codes row unfolding project_inv_def
    by (simp add: db' q m member_key_def)
qed

lemma project_code_other:
  assumes "project_inv db" "p \<in> set (pd_projects db)" "q \<in> set (pd_projects db)" "pj_id q \<noteq> pj_id p"
  shows "py_upper (pj_code q) \<noteq> py_upper (pj_code p)"
  using assms by (auto simp: project_inv_def distinct_map inj_on_def)

lemma update_project_code_frame:
  assumes "update_project_code db p0 p = Inr p1"
  shows "pj_id p1 = pj_id p0" "pj_owner_id p1 = pj_owner_id p0" "pj_status p1 = pj_status p0"
    "pj_archived_at p1 = pj_archived_at p0"
  using assms by (auto simp: update_project_code_def Let_def split: option.splits if_splits)

lemma update_project_code_free:
  assumes "project_inv db" and "p0 \<in> set (pd_projects db)" and "update_project_code db p0 p = Inr p1"
    and "q \<in> set (pd_projects db)" and "pj_id q \<noteq> pj_id p0"
  shows "py_upper (pj_code q) \<noteq> py_upper (pj_code p1)"
  using assms(3-5) project_code_other[OF assms(1,2,4)]
  by (auto simp: update_project_code_def code_taken_def list_ex_iff Let_def
      split: option.splits if_splits)

lemma update_project_text_frame [row_frame]:
  "pj_id (update_project_text p u) = pj_id p"
  "pj_owner_id (update_project_text p u) = pj_owner_id p"
  "pj_code (update_project_text p u) = pj_code p"
  "pj_status (update_project_text p u) = pj_status p"
  "pj_archived_at (update_project_text p u) = pj_archived_at p"
  by (auto simp: update_project_text_def Let_def split: option.splits)

lemma update_project_inv:
  assumes inv: "project_inv db" and ok: "update_project db u i p = Inr (q, db')"
  shows "project_inv db'"
proof -
  obtain p0 p1 where p0: "get_project_row db i = Inr p0"
    and p1: "update_project_code db p0 p = Inr p1"
    and db': "db' = put_project db (update_project_text p1 p)"
    using ok by (auto simp: update_project_def res_simps Let_def split: if_splits)
  have in_db: "p0 \<in> set (pd_projects db)" using get_project_row_in[OF p0] by simp
  show ?thesis
    unfolding db' using inv in_db update_project_code_free[OF inv in_db p1]
    by (intro put_project_inv[where ?p0.0 = p0])
      (auto simp: row_frame update_project_code_frame[OF p1] project_inv_def)
qed

lemma put_project_state_inv:
  assumes "project_inv db" and "get_project_row db i = Inr p"
    and "t \<noteq> None \<longleftrightarrow> st = PROJECT_ARCHIVED"
  shows "project_inv (put_project db
    (p\<lparr>pj_status := st, pj_archived_at := t, pj_archived_at_basis := b\<rparr>))"
  using assms(1,3) get_project_row_in[OF assms(2)] project_code_other[OF assms(1), of p]
  by (intro put_project_inv[where ?p0.0 = p]) auto

lemma archive_project_inv:
  "project_inv db \<Longrightarrow> archive_project db now u i = Inr (q, db') \<Longrightarrow> project_inv db'"
  by (auto simp: archive_project_def res_simps Let_def split: if_splits
      intro: put_project_state_inv)

lemma restore_project_inv:
  "project_inv db \<Longrightarrow> restore_project db u i = Inr (q, db') \<Longrightarrow> project_inv db'"
  by (auto simp: restore_project_def res_simps Let_def split: if_splits
      intro: put_project_state_inv)

text \<open>Changing the members keeps the invariant when every creator keeps an owner membership.\<close>

lemma members_inv:
  assumes "project_inv db" and "distinct (map member_key ms)"
    and "\<forall>m \<in> set ms. pm_project_id m < pd_next_id db"
    and "\<And>p m. p \<in> set (pd_projects db) \<Longrightarrow>
      get_member db (pj_id p) (pj_owner_id p) = Some m \<Longrightarrow> pm_role m = PROJECT_OWNER \<Longrightarrow>
      \<exists>m'. get_row member_key ms (pj_id p, pj_owner_id p) = Some m' \<and> pm_role m' = PROJECT_OWNER"
  shows "project_inv (db\<lparr>pd_members := ms\<rparr>)"
proof -
  have "\<exists>m'. get_member (db\<lparr>pd_members := ms\<rparr>) (pj_id p) (pj_owner_id p) = Some m'
      \<and> pm_role m' = PROJECT_OWNER" if p: "p \<in> set (pd_projects db)" for p
  proof -
    obtain m where "get_member db (pj_id p) (pj_owner_id p) = Some m" "pm_role m = PROJECT_OWNER"
      using assms(1) p unfolding project_inv_def by blast
    with assms(4)[OF p] show ?thesis by (simp add: get_member_def)
  qed
  with assms(1-3) show ?thesis unfolding project_inv_def by simp
qed

lemma add_project_member_inv:
  assumes inv: "project_inv db" and ok: "add_project_member db u i v r = Inr (m, db')"
  shows "project_inv db'"
proof -
  obtain p where p: "get_project_row db i = Inr p" and none: "get_member db i v = None"
    and m: "m = \<lparr>pm_project_id = i, pm_user_id = v, pm_role = r\<rparr>"
    and db': "db' = db\<lparr>pd_members := pd_members db @ [m]\<rparr>"
    using ok by (auto simp: add_project_member_def res_simps Let_def split: if_splits)
  have "i < pd_next_id db" using inv get_project_row_in[OF p] by (auto simp: project_inv_def)
  moreover have "(i, v) \<notin> member_key ` set (pd_members db)"
    using none by (simp add: get_member_def get_row_None_iff)
  ultimately show ?thesis
    unfolding db' using inv
    by (intro members_inv) (auto simp: project_inv_def m member_key_def get_row_append get_member_def)
qed

lemma get_member_keyD:
  "get_member db i v = Some m \<Longrightarrow> m \<in> set (pd_members db) \<and> member_key m = (i, v)"
  by (auto simp: get_member_def dest: get_row_in_set row_table.get_key)

lemma project_of_id:
  "project_inv db \<Longrightarrow> p \<in> set (pd_projects db) \<Longrightarrow> get_project_row db (pj_id p) = Inr p"
  by (simp add: get_project_row_def project_inv_def get_row_distinct)

lemma update_project_member_inv:
  assumes inv: "project_inv db" and ok: "update_project_member db u i v r = Inr (m', db')"
  shows "project_inv db'"
proof -
  obtain p m where p: "get_project_row db i = Inr p" and m: "get_member db i v = Some m"
    and keep: "pm_user_id m = pj_owner_id p \<longrightarrow> r = PROJECT_OWNER"
    and db': "db' = db\<lparr>pd_members := put_row member_key (m\<lparr>pm_role := r\<rparr>) (pd_members db)\<rparr>"
    using ok by (auto simp: update_project_member_def res_simps Let_def split: if_splits)
  note key = get_member_keyD[OF m]
  have key': "member_key (m\<lparr>pm_role := r\<rparr>) = (i, v)" using key by (simp add: member_key_def)
  have "\<exists>m'. get_row member_key (put_row member_key (m\<lparr>pm_role := r\<rparr>) (pd_members db))
        (pj_id q, pj_owner_id q) = Some m' \<and> pm_role m' = PROJECT_OWNER"
    if q: "q \<in> set (pd_projects db)" and old: "get_member db (pj_id q) (pj_owner_id q) = Some n"
      "pm_role n = PROJECT_OWNER" for q n
  proof (cases "(pj_id q, pj_owner_id q) = (i, v)")
    case True
    then have "q = p" using project_of_id[OF inv q] p by simp
    with True keep key m show ?thesis
      by (auto simp: row_table.get_put key' get_member_def member_key_def)
  next
    case False
    with old show ?thesis by (auto simp: row_table.get_put key' get_member_def)
  qed
  moreover have "\<forall>x \<in> set (put_row member_key (m\<lparr>pm_role := r\<rparr>) (pd_members db)).
      pm_project_id x < pd_next_id db"
    using inv key by (auto simp: project_inv_def dest!: put_row_set)
  ultimately show ?thesis
    unfolding db' using inv by (intro members_inv) (auto simp: put_row_keys project_inv_def)
qed

lemma remove_project_member_inv:
  assumes inv: "project_inv db" and ok: "remove_project_member db u i v = Inr (x, db')"
  shows "project_inv db'"
proof -
  obtain p m where p: "get_project_row db i = Inr p" and m: "get_member db i v = Some m"
    and keep: "pm_user_id m \<noteq> pj_owner_id p"
    and db': "db' = db\<lparr>pd_members := filter (\<lambda>m. \<not> member_key m = (i, v)) (pd_members db)\<rparr>"
    using ok by (auto simp: remove_project_member_def res_simps split: if_splits)
  have "(pj_id q, pj_owner_id q) \<noteq> (i, v)" if q: "q \<in> set (pd_projects db)" for q
    using project_of_id[OF inv q] p keep get_member_keyD[OF m] by (auto simp: member_key_def)
  then show ?thesis
    unfolding db' using inv
    by (intro members_inv)
      (auto simp: project_inv_def get_member_def get_row_filter[where P = "\<lambda>k. k = (i, v)"]
        distinct_map_filter)
qed

lemma project_step_inv:
  "project_inv db \<Longrightarrow> project_step op db = Inr db' \<Longrightarrow> project_inv db'"
  by (cases op; cases "project_step op db")
    (auto simp: map_sum_Inr_iff
      dest: create_project_inv update_project_inv archive_project_inv restore_project_inv
        add_project_member_inv update_project_member_inv remove_project_member_inv)

fun project_run :: "project_op list \<Rightarrow> project_db \<Rightarrow> project_db" where
  "project_run [] db = db"
| "project_run (op # ops) db =
     project_run ops (case project_step op db of Inl _ \<Rightarrow> db | Inr db' \<Rightarrow> db')"

lemma project_run_inv: "project_inv db \<Longrightarrow> project_inv (project_run ops db)"
  by (induction ops arbitrary: db) (auto split: sum.splits dest: project_step_inv)

end
