(* ===== verification/Run_Types.thy ===== *)
theory Run_Types
  imports Safe_Error Projects
begin

text \<open>
  The data of the Run control plane and the status columns every handler moves:
  \<open>backend/app/modules/runs/enums.py\<close>, \<open>runs/models.py\<close>, the request schemas and the status
  functions at the end of \<open>runs/service.py\<close>.

  \<^item> A \<open>StepRun\<close> and a \<open>CaseRun\<close> both extend \<open>run_node\<close>, because \<open>_set_node_status\<close> is written
    for either. A \<open>test_run\<close> holds its \<open>case_runs\<close>, a \<open>case_run\<close> its \<open>step_runs\<close> (the ORM
    relationships), in \<open>sequence_no\<close> order; the dispatch outbox row is at most one per Run.
  \<^item> Strings with a database check constraint are enumerations here. Message literals are
    Chinese in the source and given in English.
  \<^item> \<open>utc_now_naive()\<close> is the argument \<open>now\<close>: one reading of the clock per handler.
  \<^item> The bookkeeping columns \<open>created_at\<close>/\<open>updated_at\<close> are not kept, except \<open>runs.created_at\<close>.
\<close>

section \<open>Enumerations (runs/enums.py)\<close>

datatype run_type = API_CASE | SCENARIO | WEB_CASE

datatype run_trigger_type = TRIGGER_MANUAL | TRIGGER_API | TRIGGER_SYSTEM

datatype run_status =
    RUN_CREATED
  | RUN_QUEUED
  | RUN_ASSIGNED
  | RUN_RUNNING
  | RUN_CANCELLING
  | RUN_SUCCESS
  | RUN_FAILED
  | RUN_CANCELLED
  | RUN_TIMEOUT

datatype run_node_status =
    NODE_CREATED
  | NODE_ASSIGNED
  | NODE_RUNNING
  | NODE_CANCELLING
  | NODE_SUCCESS
  | NODE_FAILED
  | NODE_REVIEW
  | NODE_CANCELLED
  | NODE_TIMEOUT
  | NODE_SKIPPED

datatype dispatch_outbox_status = OUTBOX_PENDING | OUTBOX_PUBLISHED | OUTBOX_FAILED

datatype slot_type = SLOT_API | SLOT_WEB | SLOT_PERFORMANCE

fun terminal_run_status :: "run_status \<Rightarrow> bool" where
  "terminal_run_status RUN_SUCCESS = True"
| "terminal_run_status RUN_FAILED = True"
| "terminal_run_status RUN_CANCELLED = True"
| "terminal_run_status RUN_TIMEOUT = True"
| "terminal_run_status _ = False"

fun terminal_node_status :: "run_node_status \<Rightarrow> bool" where
  "terminal_node_status NODE_SUCCESS = True"
| "terminal_node_status NODE_FAILED = True"
| "terminal_node_status NODE_REVIEW = True"
| "terminal_node_status NODE_CANCELLED = True"
| "terminal_node_status NODE_TIMEOUT = True"
| "terminal_node_status NODE_SKIPPED = True"
| "terminal_node_status _ = False"

fun run_type_value :: "run_type \<Rightarrow> string" where
  "run_type_value API_CASE = ''API_CASE''"
| "run_type_value SCENARIO = ''SCENARIO''"
| "run_type_value WEB_CASE = ''WEB_CASE''"

fun slot_type_value :: "slot_type \<Rightarrow> string" where
  "slot_type_value SLOT_API = ''API''"
| "slot_type_value SLOT_WEB = ''WEB''"
| "slot_type_value SLOT_PERFORMANCE = ''PERFORMANCE''"

section \<open>Transition tables (runs/service.py)\<close>

fun run_transitions :: "run_status \<Rightarrow> run_status list" where
  "run_transitions RUN_CREATED = [RUN_QUEUED, RUN_CANCELLED, RUN_FAILED]"
| "run_transitions RUN_QUEUED = [RUN_ASSIGNED, RUN_CANCELLED, RUN_FAILED, RUN_TIMEOUT]"
| "run_transitions RUN_ASSIGNED =
     [RUN_RUNNING, RUN_CANCELLING, RUN_CANCELLED, RUN_FAILED, RUN_TIMEOUT]"
| "run_transitions RUN_RUNNING = [RUN_SUCCESS, RUN_FAILED, RUN_CANCELLING, RUN_TIMEOUT]"
| "run_transitions RUN_CANCELLING = [RUN_CANCELLED]"
| "run_transitions RUN_SUCCESS = []"
| "run_transitions RUN_FAILED = []"
| "run_transitions RUN_CANCELLED = []"
| "run_transitions RUN_TIMEOUT = []"

fun node_transitions :: "run_node_status \<Rightarrow> run_node_status list" where
  "node_transitions NODE_CREATED =
     [NODE_ASSIGNED, NODE_RUNNING, NODE_SUCCESS, NODE_FAILED, NODE_REVIEW, NODE_CANCELLED,
      NODE_TIMEOUT, NODE_SKIPPED]"
| "node_transitions NODE_ASSIGNED =
     [NODE_RUNNING, NODE_SUCCESS, NODE_FAILED, NODE_REVIEW, NODE_CANCELLED, NODE_TIMEOUT,
      NODE_SKIPPED]"
| "node_transitions NODE_RUNNING =
     [NODE_SUCCESS, NODE_FAILED, NODE_REVIEW, NODE_CANCELLING, NODE_CANCELLED, NODE_TIMEOUT,
      NODE_SKIPPED]"
| "node_transitions NODE_CANCELLING = [NODE_CANCELLED]"
| "node_transitions NODE_SUCCESS = []"
| "node_transitions NODE_FAILED = []"
| "node_transitions NODE_REVIEW = []"
| "node_transitions NODE_CANCELLED = []"
| "node_transitions NODE_TIMEOUT = []"
| "node_transitions NODE_SKIPPED = []"

section \<open>Rows (runs/models.py)\<close>

record run_node =
  nd_status :: run_node_status
  nd_started_at :: "datetime option"
  nd_ended_at :: "datetime option"
  nd_duration :: int
  nd_retry_count :: int
  nd_error_type :: "string option"
  nd_error_message :: "string option"

record step_run = run_node +
  sr_id :: int
  sr_sequence_no :: int
  sr_node_id :: string
  sr_step_name :: string
  sr_step_type :: string

record case_run = run_node +
  cr_id :: int
  cr_sequence_no :: int
  cr_case_id :: "int option"
  cr_case_version_id :: "int option"
  cr_scenario_id :: "int option"
  cr_scenario_version_id :: "int option"
  cr_web_case_id :: "int option"
  cr_web_case_version_id :: "int option"
  cr_dataset_id :: "int option"
  cr_dataset_version_id :: "int option"
  cr_row_index :: "int option"
  cr_parameter_snapshot :: "json option"
  cr_step_runs :: "step_run list"

text \<open>The JSON body of a task message, as stored in \<open>RunDispatchOutbox.payload\<close>.\<close>

record task_payload =
  tp_schema_version :: int
  tp_message_id :: string
  tp_run_id :: string
  tp_runner_id :: string
  tp_run_type :: string
  tp_required_slot_type :: string
  tp_attempt :: int
  tp_enqueued_at :: datetime

record run_dispatch_outbox =
  ob_message_id :: string
  ob_run_id :: string
  ob_runner_id :: string
  ob_routing_key :: string
  ob_schema_version :: int
  ob_payload :: task_payload
  ob_status :: dispatch_outbox_status
  ob_attempt_count :: int
  ob_last_error :: "string option"
  ob_published_at :: "datetime option"
  ob_claimed_at :: "datetime option"
  ob_claimed_runner_id :: "string option"

record test_run =
  tr_id :: string
  tr_run_code :: string
  tr_run_type :: run_type
  tr_project_id :: int
  tr_environment_id :: "int option"
  tr_runner_id :: "string option"
  tr_case_id :: "int option"
  tr_case_version_id :: "int option"
  tr_scenario_id :: "int option"
  tr_scenario_version_id :: "int option"
  tr_web_case_id :: "int option"
  tr_web_case_version_id :: "int option"
  tr_status :: run_status
  tr_trigger_type :: run_trigger_type
  tr_required_capabilities :: "string list"
  tr_required_tags :: "string list"
  tr_required_slot_type :: slot_type
  tr_required_slot_count :: int
  tr_runtime_snapshot_id :: "string option"
  tr_runtime_variables :: "(string \<times> json) list"
  tr_total_timeout_ms :: "int option"
  tr_force_stop_requested_at :: "datetime option"
  tr_force_stopped :: bool
  tr_started_at :: "datetime option"
  tr_ended_at :: "datetime option"
  tr_total :: int
  tr_pass_count :: int
  tr_fail_count :: int
  tr_review_count :: int
  tr_timeout_count :: int
  tr_error_type :: "string option"
  tr_error_message :: "string option"
  tr_created_by :: string
  tr_created_at :: datetime
  tr_case_runs :: "case_run list"
  tr_dispatch_outbox :: "run_dispatch_outbox option"

section \<open>Status update requests (runs/schemas.py)\<close>

record run_status_update =
  rsu_status :: run_status
  rsu_error_type :: "string option"
  rsu_error_message :: "string option"

record node_status_update =
  nsu_status :: run_node_status
  nsu_duration :: "int option"
  nsu_retry_count :: "int option"
  nsu_error_type :: "string option"
  nsu_error_message :: "string option"

abbreviation plain_run_update :: "run_status \<Rightarrow> run_status_update" where
  "plain_run_update s \<equiv> \<lparr>rsu_status = s, rsu_error_type = None, rsu_error_message = None\<rparr>"

abbreviation plain_node_update :: "run_node_status \<Rightarrow> node_status_update" where
  "plain_node_update s \<equiv>
     \<lparr>nsu_status = s, nsu_duration = None, nsu_retry_count = None,
      nsu_error_type = None, nsu_error_message = None\<rparr>"

abbreviation error_run_update :: "run_status \<Rightarrow> string option \<Rightarrow> string option \<Rightarrow> run_status_update"
  where
  "error_run_update s t m \<equiv> \<lparr>rsu_status = s, rsu_error_type = t, rsu_error_message = m\<rparr>"

abbreviation error_node_update ::
  "run_node_status \<Rightarrow> string option \<Rightarrow> string option \<Rightarrow> node_status_update" where
  "error_node_update s t m \<equiv>
     \<lparr>nsu_status = s, nsu_duration = None, nsu_retry_count = None,
      nsu_error_type = t, nsu_error_message = m\<rparr>"

section \<open>Status functions (runs/service.py)\<close>

abbreviation run_conflict :: "string \<Rightarrow> app_error + 'a" where
  "run_conflict m \<equiv> Inl (RunStateConflictError m)"

definition set_run_status ::
  "datetime \<Rightarrow> test_run \<Rightarrow> run_status \<Rightarrow> run_status_update \<Rightarrow> app_error + bool \<times> test_run" where
  "set_run_status now run requested payload =
     (let current = tr_status run in
      if current = requested then Inr (False, run)
      else if requested \<notin> set (run_transitions current)
      then run_conflict ''run status transition not allowed''
      else
        (let run1 = run\<lparr>tr_status := requested\<rparr>;
             run2 = (if requested = RUN_RUNNING \<and> tr_started_at run1 = None
                     then run1\<lparr>tr_started_at := Some now\<rparr> else run1);
             run3 = (if terminal_run_status requested \<and> tr_ended_at run2 = None
                     then run2\<lparr>tr_ended_at := Some now\<rparr> else run2);
             run4 = (case rsu_error_type payload of
                       None \<Rightarrow> run3
                     | Some t \<Rightarrow> run3\<lparr>tr_error_type := strip_or_none t\<rparr>);
             run5 = (case rsu_error_message payload of
                       None \<Rightarrow> run4
                     | Some m \<Rightarrow> run4\<lparr>tr_error_message := safe_error (Some m)\<rparr>)
         in Inr (True, run5)))"

definition elapsed_ms :: "datetime \<Rightarrow> datetime \<Rightarrow> int" where
  "elapsed_ms ended started = max 0 ((ended - started) div 1000)"

definition set_node_status ::
  "datetime \<Rightarrow> 'a run_node_scheme \<Rightarrow> run_node_status \<Rightarrow> node_status_update
     \<Rightarrow> app_error + bool \<times> 'a run_node_scheme" where
  "set_node_status now node requested payload =
     (let current = nd_status node in
      if current = requested then Inr (False, node)
      else if requested \<notin> set (node_transitions current)
      then run_conflict ''node status transition not allowed''
      else
        (let n1 = node\<lparr>nd_status := requested\<rparr>;
             n2 = (if requested = NODE_RUNNING \<and> nd_started_at n1 = None
                   then n1\<lparr>nd_started_at := Some now\<rparr> else n1);
             n3 = (if terminal_node_status requested
                   then
                     (let ended = (case nd_ended_at n2 of None \<Rightarrow> now | Some t \<Rightarrow> t);
                          n2' = n2\<lparr>nd_ended_at := Some ended\<rparr>
                      in case nsu_duration payload of
                           Some d \<Rightarrow> n2'\<lparr>nd_duration := d\<rparr>
                         | None \<Rightarrow>
                             (case nd_started_at n2' of
                                Some st \<Rightarrow> n2'\<lparr>nd_duration := elapsed_ms ended st\<rparr>
                              | None \<Rightarrow> n2'))
                   else n2);
             n4 = (case nsu_retry_count payload of
                     None \<Rightarrow> n3 | Some c \<Rightarrow> n3\<lparr>nd_retry_count := c\<rparr>);
             n5 = (case nsu_error_type payload of
                     None \<Rightarrow> n4 | Some t \<Rightarrow> n4\<lparr>nd_error_type := strip_or_none t\<rparr>);
             n6 = (case nsu_error_message payload of
                     None \<Rightarrow> n5 | Some m \<Rightarrow> n5\<lparr>nd_error_message := safe_error (Some m)\<rparr>)
         in Inr (True, n6)))"

definition aggregate_desired :: "run_node_status list \<Rightarrow> run_node_status" where
  "aggregate_desired statuses =
     (if NODE_CANCELLING \<in> set statuses then NODE_CANCELLING
      else if NODE_ASSIGNED \<in> set statuses \<or> NODE_RUNNING \<in> set statuses then NODE_RUNNING
      else if \<not> list_all terminal_node_status statuses then NODE_CREATED
      else if NODE_CANCELLED \<in> set statuses then NODE_CANCELLED
      else if NODE_TIMEOUT \<in> set statuses then NODE_TIMEOUT
      else if NODE_FAILED \<in> set statuses then NODE_FAILED
      else if NODE_REVIEW \<in> set statuses then NODE_REVIEW
      else NODE_SUCCESS)"

definition aggregate_case_status :: "datetime \<Rightarrow> case_run \<Rightarrow> case_run" where
  "aggregate_case_status now case_run =
     (if cr_step_runs case_run = [] \<or> terminal_node_status (nd_status case_run) then case_run
      else
        (let desired = aggregate_desired (map nd_status (cr_step_runs case_run));
             current = nd_status case_run
         in if current = desired then case_run
            else if desired = NODE_CREATED \<and> current \<noteq> NODE_CREATED then case_run
            else
              (let c1 = case_run\<lparr>nd_status := desired\<rparr>;
                   c2 = (if desired = NODE_RUNNING \<and> nd_started_at c1 = None
                         then c1\<lparr>nd_started_at := Some now\<rparr> else c1)
               in if terminal_node_status desired
                  then c2\<lparr>nd_ended_at :=
                            (case nd_ended_at c2 of None \<Rightarrow> Some now | Some t \<Rightarrow> Some t),
                          nd_duration := sum_list (map nd_duration (cr_step_runs c2))\<rparr>
                  else c2)))"

definition count_status :: "run_node_status \<Rightarrow> case_run list \<Rightarrow> int" where
  "count_status s cs = int (length (filter (\<lambda>c. nd_status c = s) cs))"

definition recompute_summary :: "test_run \<Rightarrow> test_run" where
  "recompute_summary run =
     (let cs = tr_case_runs run in
      run\<lparr>tr_total := int (length cs),
          tr_pass_count := count_status NODE_SUCCESS cs,
          tr_fail_count := count_status NODE_FAILED cs,
          tr_review_count := count_status NODE_REVIEW cs,
          tr_timeout_count := count_status NODE_TIMEOUT cs\<rparr>)"

definition ensure_terminal_run_matches_children ::
  "test_run \<Rightarrow> run_status \<Rightarrow> app_error + unit" where
  "ensure_terminal_run_matches_children run requested =
     (if \<not> terminal_run_status requested then Inr ()
      else
        (let statuses = map nd_status (tr_case_runs run) in
         if statuses = [] \<or> \<not> list_all terminal_node_status statuses
         then run_conflict ''run still has unfinished case runs''
         else if requested = RUN_SUCCESS
           \<and> \<not> list_all (\<lambda>s. s = NODE_SUCCESS \<or> s = NODE_SKIPPED) statuses
         then run_conflict ''case run not successful, cannot report SUCCESS''
         else if requested = RUN_FAILED
           \<and> NODE_FAILED \<notin> set statuses \<and> NODE_REVIEW \<notin> set statuses
         then run_conflict ''no failed or review case run, cannot report FAILED''
         else if requested = RUN_TIMEOUT \<and> NODE_TIMEOUT \<notin> set statuses
         then run_conflict ''no timed out case run, cannot report TIMEOUT''
         else if requested = RUN_CANCELLED
           \<and> ((tr_status run \<noteq> RUN_CANCELLING \<and> tr_status run \<noteq> RUN_CANCELLED)
              \<or> NODE_CANCELLED \<notin> set statuses)
         then run_conflict ''run not cancelling or no cancelled case run''
         else Inr ()))"

end
