(* ===== verification/Run_Status.thy ===== *)
theory Run_Status
  imports Run_Types
begin

text \<open>
  What the status functions promise to the handlers that use them.

  \<^item> The two transition tables are instances of \<open>status_machine\<close>.
  \<^item> \<open>set_run_status\<close>, \<open>set_node_status\<close> and \<open>aggregate_case_status\<close> are characterised by what they
    change (\<open>set_run_status_shape\<close>, \<open>set_node_status_shape\<close>) and by frame rules.
  \<^item> \<open>run_inv\<close> is the invariant of a Run row and \<open>run_evolves\<close> the relation between a Run row before
    and after one handler: identity and ownership are kept, the status moves along
    \<open>run_transitions\<close>, a finished CaseRun or StepRun keeps its result, a claim is never taken away,
    and \<open>run_inv\<close> is preserved. Every handler is proved to be such a step.
\<close>

interpretation run_machine: status_machine run_transitions terminal_run_status
  by unfold_locales (auto elim: terminal_run_status.elims)

interpretation node_machine: status_machine node_transitions terminal_node_status
  by unfold_locales (auto elim: terminal_node_status.elims)

section \<open>Setting the status of a node\<close>

lemma set_node_status_shape:
  assumes "set_node_status now n req p = Inr (b, n')"
  shows "\<exists>s e d c t m.
    n' = n\<lparr>nd_status := req, nd_started_at := s, nd_ended_at := e, nd_duration := d,
           nd_retry_count := c, nd_error_type := t, nd_error_message := m\<rparr>
    \<and> (terminal_node_status req \<longrightarrow> nd_status n \<noteq> req \<longrightarrow> e \<noteq> None)
    \<and> (nd_status n = req \<longrightarrow> n' = n)
    \<and> (nd_ended_at n \<noteq> None \<longrightarrow> e = nd_ended_at n)"
proof (cases "nd_status n = req")
  case True
  with assms have "n' = n" by (simp add: set_node_status_def)
  with True show ?thesis
    by (intro exI[of _ "nd_started_at n"] exI[of _ "nd_ended_at n"] exI[of _ "nd_duration n"]
        exI[of _ "nd_retry_count n"] exI[of _ "nd_error_type n"] exI[of _ "nd_error_message n"])
      auto
next
  case False
  define e where "e = (if terminal_node_status req
    then Some (case nd_ended_at n of None \<Rightarrow> now | Some t \<Rightarrow> t) else nd_ended_at n)"
  have "n' = n\<lparr>nd_status := req, nd_started_at := nd_started_at n', nd_ended_at := e,
      nd_duration := nd_duration n', nd_retry_count := nd_retry_count n',
      nd_error_type := nd_error_type n', nd_error_message := nd_error_message n'\<rparr>"
    using assms False unfolding set_node_status_def Let_def e_def
    by (simp split: if_splits option.splits) auto
  with False show ?thesis
    by (intro exI[of _ "nd_started_at n'"] exI[of _ e] exI[of _ "nd_duration n'"]
        exI[of _ "nd_retry_count n'"] exI[of _ "nd_error_type n'"] exI[of _ "nd_error_message n'"])
      (auto simp: e_def split: option.splits)
qed

lemma set_node_status_edge:
  "set_node_status now n req p = Inr (b, n') \<Longrightarrow> node_machine.edge (nd_status n) req"
  by (auto simp: set_node_status_def node_machine.edge_def Let_def split: if_splits)

lemma set_node_status_status:
  "set_node_status now n req p = Inr (b, n') \<Longrightarrow> nd_status n' = req"
  by (drule set_node_status_shape) (elim exE conjE, simp)

lemma set_node_status_changed:
  "set_node_status now n req p = Inr (b, n') \<Longrightarrow> b \<longleftrightarrow> nd_status n \<noteq> req"
  by (auto simp: set_node_status_def Let_def split: if_splits)

lemma set_node_status_terminal:
  "set_node_status now n req p = Inr (b, n') \<Longrightarrow> terminal_node_status (nd_status n) \<Longrightarrow> n' = n"
  by (frule set_node_status_edge, drule set_node_status_shape)
    (metis node_machine.edge_terminal)

lemma set_node_status_ok:
  "node_machine.edge (nd_status n) req \<Longrightarrow> \<exists>n'. set_node_status now n req p =
     Inr (nd_status n \<noteq> req, n')"
  by (auto simp: set_node_status_def node_machine.edge_def Let_def)

lemma set_node_status_same:
  "nd_status n = req \<Longrightarrow> set_node_status now n req p = Inr (False, n)"
  by (simp add: set_node_status_def)

section \<open>Setting the status of a Run\<close>

lemma set_run_status_shape:
  assumes "set_run_status now r req p = Inr (b, r')"
  shows "\<exists>s e t m.
    r' = r\<lparr>tr_status := req, tr_started_at := s, tr_ended_at := e, tr_error_type := t,
           tr_error_message := m\<rparr>
    \<and> s = (if req = RUN_RUNNING \<and> tr_status r \<noteq> req \<and> tr_started_at r = None then Some now
           else tr_started_at r)
    \<and> e = (if terminal_run_status req \<and> tr_status r \<noteq> req \<and> tr_ended_at r = None then Some now
           else tr_ended_at r)"
proof (cases "tr_status r = req")
  case True
  with assms have "r' = r" by (simp add: set_run_status_def)
  with True show ?thesis
    by (intro exI[of _ "tr_started_at r"] exI[of _ "tr_ended_at r"] exI[of _ "tr_error_type r"]
        exI[of _ "tr_error_message r"]) simp
next
  case False
  define s where "s = (if req = RUN_RUNNING \<and> tr_started_at r = None then Some now
    else tr_started_at r)"
  define e where "e = (if terminal_run_status req \<and> tr_ended_at r = None then Some now
    else tr_ended_at r)"
  have "r' = r\<lparr>tr_status := req, tr_started_at := s, tr_ended_at := e,
      tr_error_type := tr_error_type r', tr_error_message := tr_error_message r'\<rparr>"
    using assms False unfolding set_run_status_def Let_def s_def e_def
    by (simp split: if_splits option.splits) auto
  with False show ?thesis
    by (intro exI[of _ s] exI[of _ e] exI[of _ "tr_error_type r'"] exI[of _ "tr_error_message r'"])
      (simp add: s_def e_def)
qed

lemma set_run_status_edge:
  "set_run_status now r req p = Inr (b, r') \<Longrightarrow> run_machine.edge (tr_status r) req"
  by (auto simp: set_run_status_def run_machine.edge_def Let_def split: if_splits)

lemma set_run_status_status:
  "set_run_status now r req p = Inr (b, r') \<Longrightarrow> tr_status r' = req"
  by (auto dest!: set_run_status_shape)

lemma set_run_status_ok:
  "run_machine.edge (tr_status r) req \<Longrightarrow>
     \<exists>r'. set_run_status now r req p = Inr (tr_status r \<noteq> req, r')"
  by (auto simp: set_run_status_def run_machine.edge_def Let_def)

lemma set_run_status_blocked:
  "\<not> run_machine.edge (tr_status r) req \<Longrightarrow>
     set_run_status now r req p = run_conflict ''run status transition not allowed''"
  by (auto simp: set_run_status_def run_machine.edge_def Let_def)

section \<open>Aggregation of step results\<close>

lemma aggregate_case_status_shape:
  "\<exists>s e d t.
     aggregate_case_status now c = c\<lparr>nd_status := s, nd_started_at := t, nd_ended_at := e,
       nd_duration := d\<rparr>
     \<and> (terminal_node_status (nd_status c) \<longrightarrow> s = nd_status c \<and> e = nd_ended_at c)
     \<and> (terminal_node_status s \<longrightarrow> \<not> terminal_node_status (nd_status c) \<longrightarrow> e \<noteq> None)"
proof (cases "aggregate_case_status now c = c")
  case True
  then have "aggregate_case_status now c = c\<lparr>nd_status := nd_status c,
      nd_started_at := nd_started_at c, nd_ended_at := nd_ended_at c, nd_duration := nd_duration c\<rparr>"
    by simp
  moreover have "terminal_node_status (nd_status c) \<Longrightarrow> \<not> terminal_node_status (nd_status c) \<Longrightarrow> False"
    by simp
  ultimately show ?thesis by blast
next
  case False
  let ?d = "aggregate_desired (map nd_status (cr_step_runs c))"
  from False have guard: "cr_step_runs c \<noteq> []" "\<not> terminal_node_status (nd_status c)"
    "nd_status c \<noteq> ?d" "\<not> (?d = NODE_CREATED \<and> nd_status c \<noteq> NODE_CREATED)"
    by (auto simp: aggregate_case_status_def Let_def split: if_splits)
  have "aggregate_case_status now c = c\<lparr>nd_status := ?d,
      nd_started_at := (if ?d = NODE_RUNNING \<and> nd_started_at c = None then Some now
        else nd_started_at c),
      nd_ended_at := (if terminal_node_status ?d
        then (case nd_ended_at c of None \<Rightarrow> Some now | Some t \<Rightarrow> Some t) else nd_ended_at c),
      nd_duration := (if terminal_node_status ?d
        then sum_list (map nd_duration (cr_step_runs c)) else nd_duration c)\<rparr>"
    using guard by (simp add: aggregate_case_status_def Let_def)
  with guard(2) show ?thesis
    by (intro exI conjI) (assumption, auto split: option.splits)
qed

lemma aggregate_desired_terminal:
  assumes "list_all terminal_node_status ss"
  shows "terminal_node_status (aggregate_desired ss)"
proof -
  from assms have "NODE_CANCELLING \<notin> set ss" "NODE_ASSIGNED \<notin> set ss" "NODE_RUNNING \<notin> set ss"
    by (auto simp: list_all_iff dest: bspec)
  with assms show ?thesis
    by (simp add: aggregate_desired_def)
qed

section \<open>Loops over the children of a Run\<close>

text \<open>
  \<open>for step_run in step_runs: \<dots>\<close> and \<open>for case_run in case_runs: \<dots>\<close> with a body that may raise,
  and the body most handlers use: a node that has not finished is set to the given status.
\<close>

definition set_node ::
  "datetime \<Rightarrow> run_node_status \<Rightarrow> node_status_update \<Rightarrow> 'a run_node_scheme
     \<Rightarrow> app_error + 'a run_node_scheme" where
  "set_node now req payload n = res_bind (set_node_status now n req payload) (\<lambda>(_, n'). Inr n')"

definition close_node ::
  "datetime \<Rightarrow> run_node_status \<Rightarrow> node_status_update \<Rightarrow> 'a run_node_scheme
     \<Rightarrow> app_error + 'a run_node_scheme" where
  "close_node now req payload n =
     (if terminal_node_status (nd_status n) then Inr n else set_node now req payload n)"

definition update_case_steps ::
  "(step_run \<Rightarrow> app_error + step_run) \<Rightarrow> case_run \<Rightarrow> app_error + case_run" where
  "update_case_steps f c =
     res_bind (res_map f (cr_step_runs c)) (\<lambda>ss. Inr (c\<lparr>cr_step_runs := ss\<rparr>))"

definition update_steps ::
  "(step_run \<Rightarrow> app_error + step_run) \<Rightarrow> case_run list \<Rightarrow> app_error + case_run list" where
  "update_steps f cs = res_map (update_case_steps f) cs"

definition close_children ::
  "datetime \<Rightarrow> run_node_status \<Rightarrow> node_status_update \<Rightarrow> case_run list
     \<Rightarrow> app_error + case_run list" where
  "close_children now req payload cs =
     res_bind (update_steps (close_node now req payload) cs) (res_map (close_node now req payload))"

section \<open>How rows may evolve\<close>

definition node_keeps :: "'a run_node_scheme \<Rightarrow> 'b run_node_scheme \<Rightarrow> bool" where
  "node_keeps n n' \<longleftrightarrow>
     (terminal_node_status (nd_status n) \<longrightarrow> run_node.truncate n' = run_node.truncate n)"

definition step_evolves :: "step_run \<Rightarrow> step_run \<Rightarrow> bool" where
  "step_evolves s s' \<longleftrightarrow> sr_id s' = sr_id s \<and> sr_node_id s' = sr_node_id s \<and> node_keeps s s'"

definition case_evolves :: "case_run \<Rightarrow> case_run \<Rightarrow> bool" where
  "case_evolves c c' \<longleftrightarrow>
     cr_id c' = cr_id c \<and> cr_sequence_no c' = cr_sequence_no c \<and> node_keeps c c'
     \<and> list_all2 step_evolves (cr_step_runs c) (cr_step_runs c')"

lemma node_keeps_refl [simp]: "node_keeps n n"
  by (simp add: node_keeps_def)

lemma step_evolves_refl [simp]: "step_evolves s s"
  by (simp add: step_evolves_def)

lemma steps_evolve_refl [simp]: "list_all2 step_evolves ss ss"
  by (simp add: list_all2_same)

lemma case_evolves_refl [simp]: "case_evolves c c"
  by (simp add: case_evolves_def)

lemma cases_evolve_refl [simp]: "list_all2 case_evolves cs cs"
  by (simp add: list_all2_same)

lemma truncate_status: "run_node.truncate n' = run_node.truncate n \<Longrightarrow> nd_status n' = nd_status n"
  by (cases n; cases n') (simp add: run_node.truncate_def)

lemma node_keeps_trans: "node_keeps a b \<Longrightarrow> node_keeps b c \<Longrightarrow> node_keeps a c"
  by (auto simp: node_keeps_def dest: truncate_status)

lemma node_keeps_status:
  "node_keeps n n' \<Longrightarrow> terminal_node_status (nd_status n) \<Longrightarrow> nd_status n' = nd_status n"
  by (auto simp: node_keeps_def dest: truncate_status)

lemma step_evolves_trans: "step_evolves a b \<Longrightarrow> step_evolves b c \<Longrightarrow> step_evolves a c"
  by (auto simp: step_evolves_def intro: node_keeps_trans)

lemma case_evolves_trans: "case_evolves a b \<Longrightarrow> case_evolves b c \<Longrightarrow> case_evolves a c"
  by (auto simp: case_evolves_def intro: node_keeps_trans list_all2_trans[OF step_evolves_trans])

lemma cases_evolve_trans:
  "list_all2 case_evolves a b \<Longrightarrow> list_all2 case_evolves b c \<Longrightarrow> list_all2 case_evolves a c"
  by (rule list_all2_trans[OF case_evolves_trans])

lemma set_node_status_keeps: "set_node_status now n req p = Inr (b, n') \<Longrightarrow> node_keeps n n'"
  by (auto simp: node_keeps_def dest: set_node_status_terminal)

lemma set_node_statusE:
  assumes "set_node now req p n = Inr n'"
  obtains b where "set_node_status now n req p = Inr (b, n')"
  using assms by (auto simp: set_node_def res_simps)

lemma set_node_step:
  assumes "set_node now req p (s :: step_run) = Inr s'"
  shows "step_evolves s s'"
proof -
  obtain b where b: "set_node_status now s req p = Inr (b, s')"
    using assms by (rule set_node_statusE)
  have "sr_id s' = sr_id s \<and> sr_node_id s' = sr_node_id s"
    using set_node_status_shape[OF b] by (elim exE conjE) simp
  with set_node_status_keeps[OF b] show ?thesis by (simp add: step_evolves_def)
qed

lemma set_node_case_steps:
  "set_node now req p (c :: case_run) = Inr c' \<Longrightarrow> cr_step_runs c' = cr_step_runs c"
  by (elim set_node_statusE, drule set_node_status_shape) (elim exE conjE, simp)

lemma set_node_case:
  assumes "set_node now req p (c :: case_run) = Inr c'"
  shows "case_evolves c c'"
proof -
  obtain b where b: "set_node_status now c req p = Inr (b, c')"
    using assms by (rule set_node_statusE)
  have "cr_id c' = cr_id c \<and> cr_sequence_no c' = cr_sequence_no c"
    using set_node_status_shape[OF b] by (elim exE conjE) simp
  with set_node_status_keeps[OF b] set_node_case_steps[OF assms] show ?thesis
    by (simp add: case_evolves_def)
qed

lemma set_node_status_is: "set_node now req p n = Inr n' \<Longrightarrow> nd_status n' = req"
  by (auto simp: set_node_def res_simps dest: set_node_status_status)

lemma set_node_ok:
  "node_machine.edge (nd_status n) req \<Longrightarrow> \<exists>n'. set_node now req p n = Inr n'"
  using set_node_status_ok[of n req now p] by (auto simp: set_node_def)

lemma close_node_step: "close_node now req p (s :: step_run) = Inr s' \<Longrightarrow> step_evolves s s'"
  by (auto simp: close_node_def dest: set_node_step split: if_splits)

lemma close_node_case: "close_node now req p (c :: case_run) = Inr c' \<Longrightarrow> case_evolves c c'"
  by (auto simp: close_node_def dest: set_node_case split: if_splits)

lemma close_node_status:
  "close_node now req p n = Inr n' \<Longrightarrow>
     nd_status n' = (if terminal_node_status (nd_status n) then nd_status n else req)"
  by (auto simp: close_node_def dest: set_node_status_is split: if_splits)

lemma update_case_steps_case:
  assumes "update_case_steps f c = Inr c'" and "\<And>s s'. f s = Inr s' \<Longrightarrow> step_evolves s s'"
  shows "case_evolves c c' \<and> nd_status c' = nd_status c"
proof -
  obtain ss where "res_map f (cr_step_runs c) = Inr ss" and c': "c' = c\<lparr>cr_step_runs := ss\<rparr>"
    using assms(1) by (auto simp: update_case_steps_def res_simps)
  then have "list_all2 step_evolves (cr_step_runs c) ss"
    using assms(2) by (auto simp: res_map_Inr_iff elim: list_all2_mono)
  with c' show ?thesis
    by (simp add: case_evolves_def node_keeps_def run_node.truncate_def)
qed

lemma update_steps_cases:
  assumes "update_steps f cs = Inr cs'" and "\<And>s s'. f s = Inr s' \<Longrightarrow> step_evolves s s'"
  shows "list_all2 case_evolves cs cs'" and "map nd_status cs' = map nd_status cs"
proof -
  from assms show "list_all2 case_evolves cs cs'"
    by (auto simp: update_steps_def res_map_Inr_iff dest: update_case_steps_case
        elim!: list_all2_mono)
  from assms show "map nd_status cs' = map nd_status cs"
    by (auto simp: update_steps_def dest: update_case_steps_case intro: res_map_map_eq)
qed

lemma map_cases_evolve:
  assumes "res_map f cs = Inr cs'" and "\<And>c c'. f c = Inr c' \<Longrightarrow> case_evolves c c'"
  shows "list_all2 case_evolves cs cs'"
  using assms by (auto simp: res_map_Inr_iff elim: list_all2_mono)

lemma close_children_evolve:
  assumes "close_children now req p cs = Inr cs'"
  shows "list_all2 case_evolves cs cs'"
    and "map nd_status cs' =
           map (\<lambda>c. if terminal_node_status (nd_status c) then nd_status c else req) cs"
proof -
  obtain cs1 where 1: "update_steps (close_node now req p) cs = Inr cs1"
    and 2: "res_map (close_node now req p) cs1 = Inr cs'"
    using assms by (auto simp: close_children_def res_simps)
  note steps = update_steps_cases[OF 1 close_node_step]
  have "list_all2 case_evolves cs1 cs'"
    using 2 by (rule map_cases_evolve) (rule close_node_case)
  with steps(1) show "list_all2 case_evolves cs cs'" by (rule cases_evolve_trans)
  have "map nd_status cs' =
      map (\<lambda>c. if terminal_node_status (nd_status c) then nd_status c else req) cs1"
    using 2 by (rule res_map_map_eq) (rule close_node_status)
  also have "\<dots> = map (\<lambda>st. if terminal_node_status st then st else req) (map nd_status cs1)"
    by simp
  finally show "map nd_status cs' =
      map (\<lambda>c. if terminal_node_status (nd_status c) then nd_status c else req) cs"
    by (simp add: steps(2))
qed

lemma close_children_terminal:
  assumes "close_children now req p cs = Inr cs'" and "terminal_node_status req"
  shows "list_all (\<lambda>c. terminal_node_status (nd_status c)) cs'"
proof -
  have "list_all terminal_node_status (map nd_status cs')"
    using close_children_evolve(2)[OF assms(1)] assms(2) by (auto simp: list_all_iff)
  then show ?thesis by (simp add: list_all_iff)
qed

lemma aggregate_case_frame [row_frame]:
  "cr_id (aggregate_case_status now c) = cr_id c"
  "cr_sequence_no (aggregate_case_status now c) = cr_sequence_no c"
  "cr_step_runs (aggregate_case_status now c) = cr_step_runs c"
  using aggregate_case_status_shape[of now c] by (elim exE conjE, simp)+

lemma aggregate_case_terminal:
  "terminal_node_status (nd_status c) \<Longrightarrow> aggregate_case_status now c = c"
  by (simp add: aggregate_case_status_def)

lemma aggregate_case_evolves: "case_evolves c (aggregate_case_status now c)"
  by (auto simp: case_evolves_def node_keeps_def row_frame aggregate_case_terminal)

end
