(* ===== verification/Run_Invariant.thy ===== *)
theory Run_Invariant
  imports Run_Status
begin

text \<open>
  The invariant of a Run row (\<open>run_inv\<close>) and the relation every handler must establish between the
  row it loaded and the row it commits (\<open>run_evolves\<close>).

  The conjuncts of \<open>run_inv\<close> say: the counters are the ones of the CaseRuns (\<open>summary_ok\<close>); a RUNNING
  Run has a start time and exactly the finished Runs have an end time (\<open>times_ok\<close>); a finished
  Run agrees with its CaseRuns (\<open>results_ok\<close>); the outbox row, the claim and the timeout budget exist
  when the status says so (\<open>outbox_ok\<close>).
\<close>

definition all_cases_terminal :: "test_run \<Rightarrow> bool" where
  "all_cases_terminal r \<longleftrightarrow> list_all (\<lambda>c. terminal_node_status (nd_status c)) (tr_case_runs r)"

definition case_status_in :: "test_run \<Rightarrow> run_node_status \<Rightarrow> bool" where
  "case_status_in r s \<longleftrightarrow> s \<in> set (map nd_status (tr_case_runs r))"

definition summary_ok :: "test_run \<Rightarrow> bool" where
  "summary_ok r \<longleftrightarrow> recompute_summary r = r"

definition times_ok :: "test_run \<Rightarrow> bool" where
  "times_ok r \<longleftrightarrow>
     (tr_status r = RUN_RUNNING \<longrightarrow> tr_started_at r \<noteq> None)
     \<and> (tr_ended_at r \<noteq> None \<longleftrightarrow> terminal_run_status (tr_status r))"

definition results_ok :: "test_run \<Rightarrow> bool" where
  "results_ok r \<longleftrightarrow>
     (case tr_status r of
        RUN_SUCCESS \<Rightarrow>
          tr_case_runs r \<noteq> []
          \<and> list_all (\<lambda>c. nd_status c = NODE_SUCCESS \<or> nd_status c = NODE_SKIPPED) (tr_case_runs r)
      | RUN_FAILED \<Rightarrow>
          all_cases_terminal r \<and> (case_status_in r NODE_FAILED \<or> case_status_in r NODE_REVIEW)
      | RUN_TIMEOUT \<Rightarrow> all_cases_terminal r
      | RUN_CANCELLED \<Rightarrow> (tr_dispatch_outbox r \<noteq> None \<longrightarrow> all_cases_terminal r)
      | _ \<Rightarrow> True)"

definition claimed_by :: "test_run \<Rightarrow> string option" where
  "claimed_by r = (case tr_dispatch_outbox r of None \<Rightarrow> None | Some ob \<Rightarrow> ob_claimed_runner_id ob)"

definition outbox_row_ok :: "test_run \<Rightarrow> run_dispatch_outbox \<Rightarrow> bool" where
  "outbox_row_ok r ob \<longleftrightarrow>
     ob_run_id ob = tr_id r
     \<and> 0 \<le> ob_attempt_count ob \<and> ob_attempt_count ob \<le> 10
     \<and> (ob_claimed_runner_id ob \<noteq> None \<longleftrightarrow> ob_claimed_at ob \<noteq> None)
     \<and> (ob_claimed_runner_id ob \<noteq> None \<longrightarrow>
          ob_status ob = OUTBOX_PUBLISHED \<and> ob_claimed_runner_id ob = tr_runner_id r)
     \<and> (ob_status ob = OUTBOX_PUBLISHED \<longrightarrow> 1 \<le> ob_attempt_count ob)"

fun needs_claim :: "run_status \<Rightarrow> bool" where
  "needs_claim RUN_CREATED = False"
| "needs_claim RUN_QUEUED = False"
| "needs_claim RUN_CANCELLED = False"
| "needs_claim _ = True"

definition outbox_ok :: "test_run \<Rightarrow> bool" where
  "outbox_ok r \<longleftrightarrow>
     (case tr_dispatch_outbox r of
        None \<Rightarrow> tr_status r = RUN_CREATED \<or> tr_status r = RUN_CANCELLED
      | Some ob \<Rightarrow> tr_status r \<noteq> RUN_CREATED \<and> outbox_row_ok r ob)
     \<and> (needs_claim (tr_status r) \<longrightarrow> claimed_by r \<noteq> None \<and> tr_total_timeout_ms r \<noteq> None)"

definition run_inv :: "test_run \<Rightarrow> bool" where
  "run_inv r \<longleftrightarrow> summary_ok r \<and> times_ok r \<and> results_ok r \<and> outbox_ok r"

definition outbox_keeps :: "run_dispatch_outbox option \<Rightarrow> run_dispatch_outbox option \<Rightarrow> bool" where
  "outbox_keeps x x' \<longleftrightarrow>
     (case x of
        None \<Rightarrow> True
      | Some ob \<Rightarrow>
          (case x' of
             None \<Rightarrow> False
           | Some ob' \<Rightarrow> ob_message_id ob' = ob_message_id ob
               \<and> ob_attempt_count ob \<le> ob_attempt_count ob'))"

definition run_evolves :: "test_run \<Rightarrow> test_run \<Rightarrow> bool" where
  "run_evolves r r' \<longleftrightarrow>
     tr_id r' = tr_id r \<and> tr_project_id r' = tr_project_id r
     \<and> tr_runner_id r' = tr_runner_id r \<and> tr_run_type r' = tr_run_type r
     \<and> tr_required_slot_type r' = tr_required_slot_type r
     \<and> outbox_keeps (tr_dispatch_outbox r) (tr_dispatch_outbox r')
     \<and> run_machine.edge (tr_status r) (tr_status r')
     \<and> list_all2 case_evolves (tr_case_runs r) (tr_case_runs r')
     \<and> (claimed_by r \<noteq> None \<longrightarrow> claimed_by r' = claimed_by r)
     \<and> (tr_total_timeout_ms r \<noteq> None \<longrightarrow> tr_total_timeout_ms r' = tr_total_timeout_ms r)
     \<and> (run_inv r \<longrightarrow> run_inv r')"

lemma outbox_keeps_refl [simp]: "outbox_keeps x x"
  by (simp add: outbox_keeps_def split: option.splits)

lemma outbox_keeps_None [simp]: "outbox_keeps None x"
  by (simp add: outbox_keeps_def)

lemma outbox_keeps_trans: "outbox_keeps a b \<Longrightarrow> outbox_keeps b c \<Longrightarrow> outbox_keeps a c"
  by (auto simp: outbox_keeps_def split: option.splits)

section \<open>Frame rules\<close>

lemma recompute_summary_frame [row_frame]:
  "tr_id (recompute_summary r) = tr_id r"
  "tr_project_id (recompute_summary r) = tr_project_id r"
  "tr_runner_id (recompute_summary r) = tr_runner_id r"
  "tr_run_type (recompute_summary r) = tr_run_type r"
  "tr_required_slot_type (recompute_summary r) = tr_required_slot_type r"
  "tr_status (recompute_summary r) = tr_status r"
  "tr_started_at (recompute_summary r) = tr_started_at r"
  "tr_ended_at (recompute_summary r) = tr_ended_at r"
  "tr_case_runs (recompute_summary r) = tr_case_runs r"
  "tr_dispatch_outbox (recompute_summary r) = tr_dispatch_outbox r"
  "tr_total_timeout_ms (recompute_summary r) = tr_total_timeout_ms r"
  "tr_force_stop_requested_at (recompute_summary r) = tr_force_stop_requested_at r"
  "tr_error_type (recompute_summary r) = tr_error_type r"
  "tr_error_message (recompute_summary r) = tr_error_message r"
  by (simp_all add: recompute_summary_def Let_def)

lemma recompute_summary_ok [simp]: "summary_ok (recompute_summary r)"
  by (simp add: summary_ok_def recompute_summary_def Let_def)

lemma set_run_status_frame:
  assumes "set_run_status now r req p = Inr (b, r')"
  shows "tr_id r' = tr_id r" "tr_project_id r' = tr_project_id r"
    "tr_runner_id r' = tr_runner_id r" "tr_run_type r' = tr_run_type r" "tr_status r' = req"
    "tr_required_slot_type r' = tr_required_slot_type r"
    "tr_case_runs r' = tr_case_runs r" "tr_dispatch_outbox r' = tr_dispatch_outbox r"
    "tr_total_timeout_ms r' = tr_total_timeout_ms r"
    "tr_total r' = tr_total r" "tr_pass_count r' = tr_pass_count r"
    "tr_fail_count r' = tr_fail_count r" "tr_review_count r' = tr_review_count r"
    "tr_timeout_count r' = tr_timeout_count r"
    "tr_force_stop_requested_at r' = tr_force_stop_requested_at r"
    "tr_force_stopped r' = tr_force_stopped r"
  using set_run_status_shape[OF assms] by (elim exE conjE, simp)+

lemma summary_ok_iff:
  "summary_ok r \<longleftrightarrow>
     tr_total r = int (length (tr_case_runs r))
     \<and> tr_pass_count r = count_status NODE_SUCCESS (tr_case_runs r)
     \<and> tr_fail_count r = count_status NODE_FAILED (tr_case_runs r)
     \<and> tr_review_count r = count_status NODE_REVIEW (tr_case_runs r)
     \<and> tr_timeout_count r = count_status NODE_TIMEOUT (tr_case_runs r)"
  by (cases r) (auto simp: summary_ok_def recompute_summary_def Let_def)

lemma set_run_status_summary:
  "set_run_status now r req p = Inr (b, r') \<Longrightarrow> summary_ok r' = summary_ok r"
  by (frule set_run_status_frame) (simp add: summary_ok_iff set_run_status_frame)

lemma set_run_status_times:
  assumes "set_run_status now r req p = Inr (b, r')" and "times_ok r"
  shows "times_ok r'"
proof -
  note edge = set_run_status_edge[OF assms(1)]
  show ?thesis
    using set_run_status_shape[OF assms(1)] assms(2) edge
    by (elim exE conjE)
      (auto simp: times_ok_def dest: run_machine.edge_terminal)
qed

section \<open>Building a \<open>run_evolves\<close> step\<close>

lemma run_evolves_refl [simp]: "run_evolves r r"
  by (simp add: run_evolves_def run_machine.edge_refl)

text \<open>
  Most handlers change the CaseRuns, recompute the counters and set the Run status. The rule reduces
  such a handler to what it must still guarantee: that the new status fits the new CaseRuns and
  that a status that requires a claim is reached from one that requires it.
\<close>

lemma results_ok_cong:
  "tr_status r' = tr_status r \<Longrightarrow> tr_case_runs r' = tr_case_runs r \<Longrightarrow>
   tr_dispatch_outbox r' = tr_dispatch_outbox r \<Longrightarrow> results_ok r' = results_ok r"
  by (cases "tr_status r") (simp_all add: results_ok_def all_cases_terminal_def case_status_in_def)

lemma run_inv_cong:
  assumes "tr_id r' = tr_id r" "tr_runner_id r' = tr_runner_id r" "tr_status r' = tr_status r"
    "tr_started_at r' = tr_started_at r" "tr_ended_at r' = tr_ended_at r"
    "tr_case_runs r' = tr_case_runs r" "tr_dispatch_outbox r' = tr_dispatch_outbox r"
    "tr_total_timeout_ms r' = tr_total_timeout_ms r" "tr_total r' = tr_total r"
    "tr_pass_count r' = tr_pass_count r" "tr_fail_count r' = tr_fail_count r"
    "tr_review_count r' = tr_review_count r" "tr_timeout_count r' = tr_timeout_count r"
  shows "run_inv r' = run_inv r"
proof -
  have "outbox_ok r' = outbox_ok r"
    using assms
    by (cases "tr_dispatch_outbox r") (simp_all add: outbox_ok_def outbox_row_ok_def claimed_by_def)
  moreover have "summary_ok r' = summary_ok r" using assms by (simp add: summary_ok_iff)
  moreover have "times_ok r' = times_ok r" using assms by (simp add: times_ok_def)
  ultimately show ?thesis
    using results_ok_cong[of r' r] assms by (simp add: run_inv_def)
qed

lemma outbox_ok_status:
  assumes "outbox_ok r" and "tr_id r' = tr_id r" and "tr_runner_id r' = tr_runner_id r"
    and "tr_dispatch_outbox r' = tr_dispatch_outbox r"
    and "tr_total_timeout_ms r' = tr_total_timeout_ms r"
    and "needs_claim (tr_status r') \<Longrightarrow> needs_claim (tr_status r)"
    and "tr_dispatch_outbox r = None \<Longrightarrow> tr_status r' = RUN_CREATED \<or> tr_status r' = RUN_CANCELLED"
    and "tr_dispatch_outbox r \<noteq> None \<Longrightarrow> tr_status r' \<noteq> RUN_CREATED"
  shows "outbox_ok r'"
  using assms
  by (auto simp: outbox_ok_def outbox_row_ok_def claimed_by_def split: option.splits)

lemma edge_not_created: "run_machine.edge s RUN_CREATED \<longleftrightarrow> s = RUN_CREATED"
  by (cases s) (auto simp: run_machine.edge_def)

lemma finish_evolves:
  assumes set: "set_run_status now r1 req p = Inr (b, r')"
    and cases: "list_all2 case_evolves (tr_case_runs r) (tr_case_runs r1)"
    and r1: "tr_id r1 = tr_id r" "tr_project_id r1 = tr_project_id r"
      "tr_runner_id r1 = tr_runner_id r" "tr_run_type r1 = tr_run_type r"
      "tr_required_slot_type r1 = tr_required_slot_type r"
      "tr_status r1 = tr_status r" "tr_started_at r1 = tr_started_at r"
      "tr_ended_at r1 = tr_ended_at r" "tr_dispatch_outbox r1 = tr_dispatch_outbox r"
      "tr_total_timeout_ms r1 = tr_total_timeout_ms r"
    and summary: "run_inv r \<Longrightarrow> summary_ok r1"
    and results: "run_inv r \<Longrightarrow> results_ok (r1\<lparr>tr_status := req\<rparr>)"
    and claim: "needs_claim req \<Longrightarrow> needs_claim (tr_status r)"
    and outbox: "run_inv r \<Longrightarrow> tr_dispatch_outbox r = None \<Longrightarrow> req = RUN_CREATED \<or> req = RUN_CANCELLED"
  shows "run_evolves r r'"
proof -
  note frame = set_run_status_frame[OF set]
  have edge: "run_machine.edge (tr_status r) req"
    using set_run_status_edge[OF set] r1 by simp
  have "run_inv r'" if inv: "run_inv r"
  proof -
    have "times_ok r1" using inv r1 by (simp add: run_inv_def times_ok_def)
    then have "times_ok r'" by (rule set_run_status_times[OF set])
    moreover have "results_ok r' = results_ok (r1\<lparr>tr_status := req\<rparr>)"
      using frame by (intro results_ok_cong) auto
    moreover have "outbox_ok r'"
      using inv frame r1 claim outbox edge
      by (intro outbox_ok_status[of r r'])
        (auto simp: run_inv_def edge_not_created outbox_ok_def split: option.splits)
    ultimately show ?thesis
      using set_run_status_summary[OF set] summary[OF inv] results[OF inv]
      by (simp add: run_inv_def)
  qed
  then show ?thesis
    using cases frame r1 edge by (simp add: run_evolves_def claimed_by_def)
qed


text \<open>The same for a handler that recomputes the counters after changing the CaseRuns.\<close>

lemma summary_evolves:
  assumes "set_run_status now (recompute_summary r0) req p = Inr (b, r')"
    and "list_all2 case_evolves (tr_case_runs r) (tr_case_runs r0)"
    and "tr_id r0 = tr_id r" "tr_project_id r0 = tr_project_id r"
      "tr_runner_id r0 = tr_runner_id r" "tr_run_type r0 = tr_run_type r"
      "tr_required_slot_type r0 = tr_required_slot_type r"
      "tr_status r0 = tr_status r" "tr_started_at r0 = tr_started_at r"
      "tr_ended_at r0 = tr_ended_at r" "tr_dispatch_outbox r0 = tr_dispatch_outbox r"
      "tr_total_timeout_ms r0 = tr_total_timeout_ms r"
    and "run_inv r \<Longrightarrow> results_ok (r0\<lparr>tr_status := req\<rparr>)"
    and "needs_claim req \<Longrightarrow> needs_claim (tr_status r)"
    and "run_inv r \<Longrightarrow> tr_dispatch_outbox r = None \<Longrightarrow> req = RUN_CREATED \<or> req = RUN_CANCELLED"
  shows "run_evolves r r'"
proof -
  have "results_ok ((recompute_summary r0)\<lparr>tr_status := req\<rparr>) = results_ok (r0\<lparr>tr_status := req\<rparr>)"
    by (rule results_ok_cong) (simp_all add: row_frame)
  then show ?thesis
    using assms by (intro finish_evolves[OF assms(1)]) (simp_all add: row_frame)
qed

text \<open>The same for a handler that changes CaseRuns of an executing Run and keeps its status.\<close>

lemma children_evolves:
  assumes "list_all2 case_evolves (tr_case_runs r) (tr_case_runs r0)"
    and "tr_id r0 = tr_id r" "tr_project_id r0 = tr_project_id r"
      "tr_runner_id r0 = tr_runner_id r" "tr_run_type r0 = tr_run_type r"
      "tr_required_slot_type r0 = tr_required_slot_type r"
      "tr_status r0 = tr_status r" "tr_started_at r0 = tr_started_at r"
      "tr_ended_at r0 = tr_ended_at r" "tr_dispatch_outbox r0 = tr_dispatch_outbox r"
      "tr_total_timeout_ms r0 = tr_total_timeout_ms r"
    and "\<not> terminal_run_status (tr_status r)"
  shows "run_evolves r (recompute_summary r0)"
proof -
  have "set_run_status 0 (recompute_summary r0) (tr_status r) (plain_run_update (tr_status r)) =
      Inr (False, recompute_summary r0)"
    using assms(7) by (simp add: set_run_status_def row_frame)
  moreover have "results_ok (r0\<lparr>tr_status := tr_status r\<rparr>)"
    using assms(12) by (cases "tr_status r") (simp_all add: results_ok_def)
  ultimately show ?thesis
    using assms by (elim summary_evolves) (auto simp: run_inv_def outbox_ok_def)
qed

lemma ensure_results_ok:
  assumes "ensure_terminal_run_matches_children r req = Inr ()"
  shows "results_ok (r\<lparr>tr_status := req\<rparr>)"
  using assms
  by (cases req)
    (auto simp: ensure_terminal_run_matches_children_def results_ok_def all_cases_terminal_def
      case_status_in_def Let_def list_all_iff split: if_splits)

lemma recompute_ensure [simp]:
  "ensure_terminal_run_matches_children (recompute_summary r) req =
     ensure_terminal_run_matches_children r req"
  unfolding ensure_terminal_run_matches_children_def row_frame ..

end
