(* ===== verification/Assertion_Results.thy ===== *)
theory Assertion_Results
  imports Safe_Error
begin

text \<open>
  How the results of single assertions become the verdict of an API execution:
  \<open>summarize_final_status\<close> of \<open>test_cases/assertions.py\<close>, \<open>_evaluate_formal_api_assertions\<close> and
  \<open>_execution_assertion_audit\<close> of \<open>runs/service.py\<close>.

  Evaluating one assertion (\<open>run_assertion\<close>) is the argument \<open>run_assertion\<close>; the fields of a result
  that are only copied are bundled in \<open>as_extra\<close>.
\<close>

datatype assertion_status = ASSERT_PASS | ASSERT_FAIL | ASSERT_REVIEW | ASSERT_SKIPPED

datatype assertion_kind = DETERMINISTIC | AI_SEMANTIC

record formal_assertion =
  fa_kind :: assertion_kind
  fa_name :: string
  fa_type :: string
  fa_enabled :: bool

record assertion_result =
  as_sequence :: int
  as_name :: string
  as_type :: string
  as_status :: assertion_status
  as_message :: string
  as_duration_ms :: int
  as_reason :: "string option"
  as_actual_model :: "string option"
  as_extra :: json

datatype verdict = VERDICT_PASS | VERDICT_FAIL | VERDICT_REVIEW

definition ai_result :: "assertion_result \<Rightarrow> bool" where
  "ai_result r \<longleftrightarrow> py_upper (py_strip (as_type r)) = ''AI_SEMANTIC''"

definition summarize_final_status :: "assertion_result list \<Rightarrow> verdict" where
  "summarize_final_status results =
     (let active = filter (\<lambda>r. as_status r \<noteq> ASSERT_SKIPPED) results in
      if active = [] then VERDICT_PASS
      else if list_ex (\<lambda>r. as_status r = ASSERT_FAIL \<and> \<not> ai_result r) active then VERDICT_FAIL
      else
        (let ai_results = filter ai_result active in
         if ai_results = [] then VERDICT_PASS
         else if list_ex (\<lambda>r. as_status r = ASSERT_REVIEW) ai_results then VERDICT_REVIEW
         else if list_ex (\<lambda>r. as_status r = ASSERT_FAIL) ai_results
         then (if list_ex (\<lambda>r. \<not> ai_result r \<and> as_status r = ASSERT_PASS) active
               then VERDICT_REVIEW else VERDICT_FAIL)
         else VERDICT_PASS))"

definition skipped_result :: "int \<Rightarrow> formal_assertion \<Rightarrow> assertion_result" where
  "skipped_result sequence a =
     \<lparr>as_sequence = sequence, as_name = fa_name a, as_type = fa_type a, as_status = ASSERT_SKIPPED,
      as_message = ''deterministic assertion failed, AI assertion not run'', as_duration_ms = 0,
      as_reason = None, as_actual_model = None, as_extra = JNull\<rparr>"

definition indexed_assertions :: "formal_assertion list \<Rightarrow> (int \<times> formal_assertion) list" where
  "indexed_assertions assertions = zip (map int [1..<Suc (length assertions)]) assertions"

definition deterministic_failed ::
  "(int \<Rightarrow> formal_assertion \<Rightarrow> assertion_result) \<Rightarrow> formal_assertion list \<Rightarrow> bool" where
  "deterministic_failed run_assertion assertions =
     list_ex (\<lambda>(n, a). fa_kind a = DETERMINISTIC \<and> as_status (run_assertion n a) = ASSERT_FAIL)
       (indexed_assertions assertions)"

definition evaluate_formal_api_assertions ::
  "(int \<Rightarrow> formal_assertion \<Rightarrow> assertion_result) \<Rightarrow> formal_assertion list \<Rightarrow> assertion_result list"
  where
  "evaluate_formal_api_assertions run_assertion assertions =
     (let failed = deterministic_failed run_assertion assertions in
      map (\<lambda>(n, a).
             if fa_kind a = DETERMINISTIC then run_assertion n a
             else if failed \<and> fa_enabled a then skipped_result n a
             else run_assertion n a) (indexed_assertions assertions))"

fun audit_message :: "assertion_status \<Rightarrow> string" where
  "audit_message ASSERT_PASS = ''assertion passed''"
| "audit_message ASSERT_FAIL = ''assertion failed''"
| "audit_message ASSERT_REVIEW = ''assertion needs review''"
| "audit_message ASSERT_SKIPPED = ''assertion disabled''"

definition execution_assertion_audit :: "assertion_result \<Rightarrow> assertion_result" where
  "execution_assertion_audit r =
     r\<lparr>as_message := audit_message (as_status r), as_reason := safe_error_max 1000 (as_reason r),
       as_actual_model := safe_error_max 255 (as_actual_model r)\<rparr>"

section \<open>Properties\<close>

text \<open>A verdict is \<open>PASS\<close> exactly when nothing failed deterministically and no AI assertion asks for
  attention.\<close>

lemma summarize_pass_iff:
  "summarize_final_status rs = VERDICT_PASS \<longleftrightarrow>
     (\<forall>r \<in> set rs. \<not> (as_status r = ASSERT_FAIL)
        \<and> \<not> (ai_result r \<and> as_status r = ASSERT_REVIEW))"
  by (auto simp: summarize_final_status_def Let_def list_ex_iff filter_empty_conv)

lemma summarize_fail_deterministic:
  "r \<in> set rs \<Longrightarrow> as_status r = ASSERT_FAIL \<Longrightarrow> \<not> ai_result r \<Longrightarrow>
     summarize_final_status rs = VERDICT_FAIL"
  by (auto simp: summarize_final_status_def Let_def list_ex_iff filter_empty_conv)

text \<open>An AI assertion alone never fails an execution that also passed a deterministic assertion.\<close>

lemma summarize_ai_only_review:
  assumes "\<forall>r \<in> set rs. as_status r = ASSERT_FAIL \<longrightarrow> ai_result r"
    and "p \<in> set rs" "as_status p = ASSERT_PASS" "\<not> ai_result p"
  shows "summarize_final_status rs \<noteq> VERDICT_FAIL"
  using assms by (auto simp: summarize_final_status_def Let_def list_ex_iff filter_empty_conv)

text \<open>After a deterministic failure no enabled AI assertion is run.\<close>

lemma evaluate_skips_ai:
  assumes "deterministic_failed run as" and "(n, a) \<in> set (indexed_assertions as)"
    and "fa_kind a = AI_SEMANTIC" and "fa_enabled a"
  shows "skipped_result n a \<in> set (evaluate_formal_api_assertions run as)"
proof -
  have "skipped_result n a = (\<lambda>(n, a). if fa_kind a = DETERMINISTIC then run n a
      else if deterministic_failed run as \<and> fa_enabled a then skipped_result n a else run n a) (n, a)"
    using assms by simp
  with assms(2) show ?thesis
    unfolding evaluate_formal_api_assertions_def Let_def by force
qed

lemma evaluate_deterministic_fail:
  assumes "deterministic_failed run as"
    and det: "\<And>n a. fa_kind a = DETERMINISTIC \<Longrightarrow> \<not> ai_result (run n a)"
  shows "summarize_final_status (evaluate_formal_api_assertions run as) = VERDICT_FAIL"
proof -
  obtain n a where na: "(n, a) \<in> set (indexed_assertions as)" "fa_kind a = DETERMINISTIC"
    "as_status (run n a) = ASSERT_FAIL"
    using assms(1) by (auto simp: deterministic_failed_def list_ex_iff)
  then have "run n a \<in> set (evaluate_formal_api_assertions run as)"
    unfolding evaluate_formal_api_assertions_def Let_def by force
  then show ?thesis using summarize_fail_deterministic na det by blast
qed

end
