(* ===== verification/Run_World.thy ===== *)
theory Run_World
  imports Run_Invariant Assertion_Results "HOL-Library.Sublist"
begin

text \<open>
  The state the Run handlers share, what they observe of the systems around them, and the handler
  fragments that several of them call.

  \<^item> \<open>world\<close>: the tables (Runs with their children and outbox row, Runners, projects, execution
    results, resource registry, session profiles), the task messages handed to the broker and the
    event stream. A handler is a function from a world to either an exception or a
    response with the new world: an exception rolls the transaction back, so the world is kept.
  \<^item> \<open>env\<close>: one handler call's view of code outside these services. \<open>en_now\<close> is the clock;
    \<open>en_heartbeat\<close> the Redis heartbeat lookup; \<open>en_digest\<close> the HMAC of \<open>runners/security.py\<close>;
    \<open>en_publish\<close> the RabbitMQ publisher; \<open>en_stream_ok\<close> whether the Redis stream accepts an event;
    \<open>en_api_case\<close>, \<open>en_scenario\<close>, \<open>en_web_case\<close> the loaders of the pinned test content
    (\<open>_load_supported_api_case\<close> and its siblings), of which the handlers use the listed parts;
    \<open>en_run_assertion\<close>, \<open>en_response_summary\<close>, \<open>en_claims\<close> and \<open>en_evidence_ok\<close> the evaluation of
    one assertion, the sanitised response summary, the decoded evaluation token and the object
    store; \<open>en_recovery_login\<close>, \<open>en_encrypt_ok\<close> and \<open>en_fingerprint\<close> the login case bound to a
    session profile, whether encryption is configured, and the fingerprint of a storage state.
  \<^item> \<open>run_event\<close>, \<open>build_run_event\<close>, \<open>publish_event\<close>: \<open>runs/events.py\<close>.

  \<open>world_step\<close> lifts \<open>run_evolves\<close> from one row to the table: it is what every handler is shown to
  establish.
\<close>

section \<open>Runner rows (runners/models.py)\<close>

datatype runner_status = RUNNER_ACTIVE | RUNNER_REVOKED

record runner_slot =
  rs_slot_type :: slot_type
  rs_total :: int
  rs_available :: int

record runner_capability =
  rc_capability :: string
  rc_ready :: bool

record runner_row =
  rn_id :: string
  rn_status :: runner_status
  rn_credential_digest :: string
  rn_chrome_version :: "string option"
  rn_last_heartbeat_at :: "datetime option"
  rn_tags :: "string list"
  rn_capabilities :: "runner_capability list"
  rn_slots :: "runner_slot list"

datatype heartbeat_lookup = HeartbeatUnavailable | HeartbeatMissing | HeartbeatPresent

datatype online_status = ONLINE | OFFLINE | ONLINE_UNKNOWN

section \<open>Execution results (runs/models.py)\<close>

record exec_result =
  er_run_id :: string
  er_case_run_id :: int
  er_message_id :: string
  er_outcome :: string
  er_status :: run_node_status
  er_assertion_results :: "assertion_result list"
  er_error_type :: "string option"
  er_error_message :: "string option"
  er_completed_at :: datetime

record api_result = exec_result +
  er_retry_count :: int
  er_response_summary :: "json option"
  er_action_traces :: "json list"

record trace_audit =
  ta_node_id :: string
  ta_status :: run_node_status
  ta_duration_ms :: int
  ta_retry_count :: "int option"
  ta_error_type :: "string option"
  ta_error_message :: "string option"
  ta_extra :: json

record traced_result = exec_result +
  er_traces :: "trace_audit list"
  er_session_recovery :: "(json \<times> string) option"  \<comment> \<open>audit and \<open>persistence_status\<close>\<close>

record resource_entry =
  re_project_id :: int
  re_run_id :: string
  re_resource_type :: string
  re_resource_id :: string
  re_cleanup_config :: json
  re_status :: string
  re_registration_sequence :: int
  re_attempt_count :: int
  re_last_error :: "string option"
  re_error_code :: "string option"
  re_source :: string
  re_cleaned_at :: "datetime option"

record session_profile =
  sp_id :: int
  sp_project_id :: int
  sp_status :: string
  sp_revision :: int
  sp_fingerprint :: string
  sp_storage_state :: json
  sp_login_version_id :: "int option"
  sp_refresh_ttl_seconds :: int
  sp_expires_at :: "datetime option"

section \<open>Events (runs/events.py)\<close>

record run_event =
  ev_event_type :: string
  ev_project_id :: int
  ev_run_id :: string
  ev_case_run_id :: "int option"
  ev_from_status :: "run_status option"
  ev_to_status :: run_status
  ev_occurred_at :: datetime
  ev_counts :: "int list"

section \<open>World and environment\<close>

record task_message =
  tm_routing_key :: string
  tm_payload :: task_payload
  tm_confirmed :: bool

record world =
  w_db :: project_db
  w_runs :: "test_run list"
  w_runners :: "runner_row list"
  w_api_results :: "api_result list"
  w_scenario_results :: "traced_result list"
  w_web_results :: "traced_result list"
  w_resources :: "resource_entry list"
  w_profiles :: "session_profile list"
  w_sent :: "task_message list"
  w_events :: "run_event list"

record publish_result =
  pr_published :: bool
  pr_code :: "string option"

record api_case_content =
  ac_has_request :: bool
  ac_assertions :: "formal_assertion list"
  ac_max_retries :: int

record scenario_node =
  sn_id :: string
  sn_enabled :: bool
  sn_ai_assertion :: bool

record web_case_content =
  wc_ai_nodes :: "string list"
  wc_session_profile_id :: "int option"

record evaluation_claims =
  ec_kind :: string
  ec_run_id :: string
  ec_message_id :: string
  ec_case_run_id :: int
  ec_version_id :: "int option"
  ec_response_summary :: json
  ec_assertion_status :: "verdict option"
  ec_assertion_results :: "assertion_result list"
  ec_results_valid :: bool
  ec_node_results :: "(string \<times> verdict option) list"

record env =
  en_now :: datetime
  en_heartbeat :: "string \<Rightarrow> heartbeat_lookup"
  en_digest :: "string \<Rightarrow> string"
  en_publish :: "string \<Rightarrow> task_payload \<Rightarrow> publish_result"
  en_stream_ok :: bool
  en_default_total_timeout_ms :: int
  en_api_case :: "test_run \<Rightarrow> bool \<Rightarrow> app_error + api_case_content"
  en_scenario :: "test_run \<Rightarrow> app_error + scenario_node list"
  en_web_case :: "test_run \<Rightarrow> app_error + web_case_content"
  en_run_assertion :: "json \<Rightarrow> int \<Rightarrow> formal_assertion \<Rightarrow> assertion_result"
  en_response_summary :: "json \<Rightarrow> json"
  en_claims :: "string \<Rightarrow> app_error + evaluation_claims"
  en_evidence_ok :: bool
  en_recovery_login :: "session_profile \<Rightarrow> int option"
  en_encrypt_ok :: bool
  en_fingerprint :: "json \<Rightarrow> string"

type_synonym 'r handler_result = "app_error + 'r \<times> world"

section \<open>Table access (runs/repository.py)\<close>

definition get_run :: "world \<Rightarrow> string \<Rightarrow> test_run option" where
  "get_run w run_id = get_row tr_id (w_runs w) run_id"

definition put_run :: "world \<Rightarrow> test_run \<Rightarrow> world" where
  "put_run w r = w\<lparr>w_runs := put_row tr_id r (w_runs w)\<rparr>"

definition get_runner :: "world \<Rightarrow> string \<Rightarrow> runner_row option" where
  "get_runner w runner_id = get_row rn_id (w_runners w) runner_id"

definition require_run :: "world \<Rightarrow> string \<Rightarrow> app_error + test_run" where
  "require_run w run_id = option_to_res (ResourceNotFoundError ''run'') (get_run w run_id)"

section \<open>Publishing events\<close>

definition event_type :: "run_status \<Rightarrow> run_status option \<Rightarrow> string" where
  "event_type to_status from_status =
     (if from_status = None \<and> to_status = RUN_CREATED then ''RUN_CREATED''
      else if to_status = RUN_QUEUED then ''RUN_DISPATCHED''
      else if to_status = RUN_ASSIGNED then ''RUN_CLAIMED''
      else if to_status = RUN_RUNNING then ''RUN_STARTED''
      else if to_status = RUN_CANCELLING then ''RUN_CANCELLING''
      else if to_status = RUN_CANCELLED then ''RUN_CANCELLED''
      else if terminal_run_status to_status then ''RUN_COMPLETED''
      else ''RUN_STATUS_CHANGED'')"

definition build_run_event ::
  "datetime \<Rightarrow> test_run \<Rightarrow> run_status option \<Rightarrow> run_status \<Rightarrow> int option \<Rightarrow> string option \<Rightarrow> run_event"
  where
  "build_run_event now run from_status to_status case_run_id explicit_type =
     \<lparr>ev_event_type =
        (case explicit_type of Some t \<Rightarrow> t | None \<Rightarrow> event_type to_status from_status),
      ev_project_id = tr_project_id run, ev_run_id = tr_id run, ev_case_run_id = case_run_id,
      ev_from_status = from_status, ev_to_status = to_status, ev_occurred_at = now,
      ev_counts = [tr_total run, tr_pass_count run, tr_fail_count run, tr_review_count run,
                   tr_timeout_count run]\<rparr>"

definition publish_event ::
  "env \<Rightarrow> test_run \<Rightarrow> run_status option \<Rightarrow> run_status \<Rightarrow> int option \<Rightarrow> string option \<Rightarrow> world
     \<Rightarrow> world" where
  "publish_event e run from_status to_status case_run_id explicit_type w =
     (if from_status = Some to_status then w
      else if en_stream_ok e
      then w\<lparr>w_events := w_events w
               @ [build_run_event (en_now e) run from_status to_status case_run_id explicit_type]\<rparr>
      else w)"

definition first_case_id :: "test_run \<Rightarrow> int option" where
  "first_case_id run = (case tr_case_runs run of [] \<Rightarrow> None | c # _ \<Rightarrow> Some (cr_id c))"

text \<open>\<open>session.commit()\<close> of one changed Run followed by \<open>publish_run_event_best_effort\<close>.\<close>

definition commit_run ::
  "env \<Rightarrow> world \<Rightarrow> test_run \<Rightarrow> run_status \<Rightarrow> run_status \<Rightarrow> int option \<Rightarrow> world" where
  "commit_run e w run from_status to_status case_run_id =
     publish_event e run (Some from_status) to_status case_run_id None (put_run w run)"

section \<open>Authorisation\<close>

definition authorize_run_write :: "world \<Rightarrow> current_user \<Rightarrow> test_run \<Rightarrow> app_error + unit" where
  "authorize_run_write w user run =
     res_bind (get_project (w_db w) user (tr_project_id run)) (\<lambda>project.
     ensure_project_writable (w_db w) project user)"

definition authenticate_runner_for_run ::
  "env \<Rightarrow> world \<Rightarrow> test_run \<Rightarrow> string \<Rightarrow> app_error + runner_row" where
  "authenticate_runner_for_run e w run credential =
     (let refuse = Inl (AuthenticationError ''runner credential'') in
      case tr_runner_id run of
        None \<Rightarrow> refuse
      | Some rid \<Rightarrow>
          if rid = [] then refuse
          else (case get_runner w rid of
                  None \<Rightarrow> refuse
                | Some runner \<Rightarrow>
                    if rn_status runner \<noteq> RUNNER_ACTIVE \<or> credential = []
                      \<or> 512 < length credential
                      \<or> en_digest e credential \<noteq> rn_credential_digest runner
                    then refuse else Inr runner))"

definition online_state :: "env \<Rightarrow> runner_row \<Rightarrow> online_status \<times> bool \<times> bool" where
  "online_state e runner =
     (case en_heartbeat e (rn_id runner) of
        HeartbeatUnavailable \<Rightarrow> (ONLINE_UNKNOWN, False, False)
      | hb \<Rightarrow>
          if rn_status runner \<noteq> RUNNER_ACTIVE then (OFFLINE, False, True)
          else if hb = HeartbeatMissing then (OFFLINE, False, True)
          else (ONLINE, True, True))"

section \<open>Steps of the Run table\<close>

definition fresh_run :: "test_run \<Rightarrow> bool" where
  "fresh_run r \<longleftrightarrow>
     tr_status r = RUN_CREATED \<and> tr_dispatch_outbox r = None \<and> run_inv r
     \<and> list_all (\<lambda>c. nd_status c = NODE_CREATED) (tr_case_runs r)"

definition runs_distinct :: "world \<Rightarrow> bool" where
  "runs_distinct w \<longleftrightarrow> distinct (map tr_id (w_runs w))"

definition result_key :: "'a exec_result_scheme \<Rightarrow> string \<times> int" where
  "result_key x = (er_run_id x, er_case_run_id x)"

definition results_unique :: "world \<Rightarrow> bool" where
  "results_unique w \<longleftrightarrow>
     distinct (map result_key (w_api_results w)) \<and> distinct (map result_key (w_scenario_results w))
     \<and> distinct (map result_key (w_web_results w))"

text \<open>What a handler may do to the tables: rows evolve, rows are added, results only grow, and keys
  stay unique.\<close>

definition world_step :: "world \<Rightarrow> world \<Rightarrow> bool" where
  "world_step w w' \<longleftrightarrow>
     (\<forall>i r. get_run w i = Some r \<longrightarrow> (\<exists>r'. get_run w' i = Some r' \<and> run_evolves r r'))
     \<and> (\<forall>i r'. get_run w i = None \<longrightarrow> get_run w' i = Some r' \<longrightarrow> fresh_run r')
     \<and> (runs_distinct w \<longrightarrow> runs_distinct w') \<and> (results_unique w \<longrightarrow> results_unique w')
     \<and> prefix (w_api_results w) (w_api_results w')
     \<and> prefix (w_scenario_results w) (w_scenario_results w')
     \<and> prefix (w_web_results w) (w_web_results w')
     \<and> w_sent w' = w_sent w
     \<and> prefix (w_events w) (w_events w')"

lemma world_step_refl [simp]: "world_step w w"
  by (simp add: world_step_def)

lemma get_put_run:
  "get_run (put_run w r) i =
     (if i = tr_id r then (case get_run w i of None \<Rightarrow> None | Some _ \<Rightarrow> Some r) else get_run w i)"
  by (simp add: get_run_def put_run_def row_table.get_put)

lemma get_run_id: "get_run w i = Some r \<Longrightarrow> tr_id r = i"
  by (auto simp: get_run_def dest: row_table.get_key)

lemma put_run_frame [row_frame, simp]:
  "w_db (put_run w r) = w_db w" "w_runners (put_run w r) = w_runners w"
  "w_api_results (put_run w r) = w_api_results w"
  "w_scenario_results (put_run w r) = w_scenario_results w"
  "w_web_results (put_run w r) = w_web_results w"
  "w_sent (put_run w r) = w_sent w" "w_events (put_run w r) = w_events w"
  by (simp_all add: put_run_def)

lemma publish_event_frame [row_frame, simp]:
  "get_run (publish_event e run f t c x w) i = get_run w i"
  "w_runs (publish_event e run f t c x w) = w_runs w"
  "w_db (publish_event e run f t c x w) = w_db w"
  "w_runners (publish_event e run f t c x w) = w_runners w"
  "w_api_results (publish_event e run f t c x w) = w_api_results w"
  "w_scenario_results (publish_event e run f t c x w) = w_scenario_results w"
  "w_web_results (publish_event e run f t c x w) = w_web_results w"
  "w_sent (publish_event e run f t c x w) = w_sent w"
  by (simp_all add: publish_event_def get_run_def)

lemma publish_event_prefix [simp]: "prefix (w_events w) (w_events (publish_event e run f t c x w))"
  by (simp add: publish_event_def)

lemma put_run_unique:
  "runs_distinct (put_run w r) = runs_distinct w" "results_unique (put_run w r) = results_unique w"
  by (simp_all add: runs_distinct_def results_unique_def put_run_def put_row_keys)

lemma world_step_put:
  assumes "get_run w i = Some r" and "run_evolves r r'"
  shows "world_step w (put_run w r')"
proof -
  have "tr_id r' = i" using assms get_run_id by (auto simp: run_evolves_def)
  with assms show ?thesis
    by (auto simp: world_step_def get_put_run put_run_unique split: option.splits)
qed

lemma world_step_more:
  assumes "world_step w w'" and "w_runs w'' = w_runs w'"
    and "results_unique w' \<Longrightarrow> results_unique w''"
    and "prefix (w_api_results w') (w_api_results w'')"
    and "prefix (w_scenario_results w') (w_scenario_results w'')"
    and "prefix (w_web_results w') (w_web_results w'')"
    and "w_sent w'' = w_sent w'" and "prefix (w_events w') (w_events w'')"
  shows "world_step w w''"
  using assms prefix_order.trans by (auto simp: world_step_def get_run_def runs_distinct_def)

lemma world_step_publish:
  "world_step w w' \<Longrightarrow> world_step w (publish_event e run f t c x w')"
  by (erule world_step_more) (simp_all add: results_unique_def)

lemma world_step_commit:
  "get_run w i = Some r \<Longrightarrow> run_evolves r r' \<Longrightarrow> world_step w (commit_run e w r' f t c)"
  unfolding commit_run_def by (intro world_step_publish world_step_put)

lemma require_run_iff [res_simps]: "require_run w i = Inr r \<longleftrightarrow> get_run w i = Some r"
  by (simp add: require_run_def res_simps)

lemma authenticate_runner_id:
  "authenticate_runner_for_run e w run cred = Inr runner \<Longrightarrow>
     tr_runner_id run = Some (rn_id runner) \<and> rn_status runner = RUNNER_ACTIVE
     \<and> en_digest e cred = rn_credential_digest runner"
  by (auto simp: authenticate_runner_for_run_def get_runner_def Let_def
      split: option.splits if_splits dest: row_table.get_key)

end
