(* ===== verification/Run_Create.thy ===== *)
theory Run_Create
  imports Run_World "HOL-Library.List_Lexorder"
begin

text \<open>
  Creation of a Run: \<open>validate_run_request\<close>, \<open>_validate_runner\<close> and \<open>create_run\<close> of
  \<open>runs/service.py\<close>.

  The three target validators (\<open>_validate_case_target\<close>, \<open>_validate_scenario_target\<close>,
  \<open>_validate_web_target\<close>) resolve the pinned content of other modules; they are the argument \<open>resolve\<close>,
  which yields their issues and the target they fill in. \<open>environment_ok project environment\<close> is
  the lookup of an enabled environment of the project. Identifiers the database or \<open>uuid4\<close> hand
  out are arguments too. Issues keep their code and field; their texts are left out.
\<close>

record run_create_request =
  rq_project_id :: int
  rq_environment_id :: int
  rq_runner_id :: string
  rq_run_type :: run_type
  rq_case_id :: "int option"
  rq_case_version_id :: "int option"
  rq_scenario_id :: "int option"
  rq_scenario_version_id :: "int option"
  rq_web_case_id :: "int option"
  rq_web_case_version_id :: "int option"
  rq_trigger_type :: run_trigger_type
  rq_required_capabilities :: "string list"
  rq_required_tags :: "string list"
  rq_required_slot_type :: slot_type
  rq_required_slot_count :: int
  rq_total_timeout_ms :: "int option"
  rq_runtime_variables :: "(string \<times> json) list"

record run_iteration =
  it_dataset_id :: int
  it_dataset_version_id :: int
  it_row_index :: int
  it_parameter_snapshot :: json

record target_spec =
  ts_case_id :: "int option"
  ts_case_version_id :: "int option"
  ts_scenario_id :: "int option"
  ts_scenario_version_id :: "int option"
  ts_web_case_id :: "int option"
  ts_web_case_version_id :: "int option"
  ts_required_capabilities :: "string list"
  ts_steps :: "(string \<times> string \<times> string) list"
  ts_iterations :: "run_iteration list"

record new_ids =
  ni_run_id :: string
  ni_run_code :: string
  ni_case_id :: int
  ni_step_id :: int

type_synonym resolver = "run_create_request \<Rightarrow> run_validation_issue list \<times> target_spec"

definition issue :: "string \<Rightarrow> string \<Rightarrow> run_validation_issue" where
  "issue code field = \<lparr>issue_code = code, issue_field = Some field\<rparr>"

definition issue_if :: "bool \<Rightarrow> string \<Rightarrow> string \<Rightarrow> run_validation_issue list" where
  "issue_if b code field = (if b then [issue code field] else [])"

definition lower_hex :: "string \<Rightarrow> bool" where
  "lower_hex s = list_all (\<lambda>c. c \<in> set ''0123456789abcdef'') (py_lower s)"

definition ready_capabilities :: "runner_row \<Rightarrow> string list" where
  "ready_capabilities runner = map rc_capability (filter rc_ready (rn_capabilities runner))"

definition find_slot :: "runner_row \<Rightarrow> slot_type \<Rightarrow> runner_slot option" where
  "find_slot runner t = find (\<lambda>s. rs_slot_type s = t) (rn_slots runner)"

definition slot_missing :: "runner_row \<Rightarrow> slot_type \<Rightarrow> int \<Rightarrow> bool" where
  "slot_missing runner t n =
     (case find_slot runner t of None \<Rightarrow> True | Some s \<Rightarrow> rs_available s < n)"

definition validate_runner ::
  "env \<Rightarrow> world \<Rightarrow> run_create_request \<Rightarrow> string list \<Rightarrow> run_validation_issue list" where
  "validate_runner e w payload required_capabilities =
     (case get_runner w (rq_runner_id payload) of
        None \<Rightarrow> [issue ''RUNNER_NOT_FOUND'' ''runner_id'']
      | Some runner \<Rightarrow>
          issue_if (rn_status runner \<noteq> RUNNER_ACTIVE) ''RUNNER_REVOKED'' ''runner_id''
          @ issue_if (rn_credential_digest runner = []
                      \<or> length (rn_credential_digest runner) \<noteq> 64
                      \<or> \<not> lower_hex (rn_credential_digest runner))
              ''RUNNER_CREDENTIAL_INVALID'' ''runner_id''
          @ (case en_heartbeat e (rn_id runner) of
               HeartbeatUnavailable \<Rightarrow> [issue ''RUNNER_STATE_UNAVAILABLE'' ''runner_id'']
             | HeartbeatMissing \<Rightarrow> [issue ''RUNNER_OFFLINE'' ''runner_id'']
             | HeartbeatPresent \<Rightarrow> [])
          @ issue_if (\<not> set (rq_required_tags payload) \<subseteq> set (rn_tags runner))
              ''RUNNER_TAG_MISSING'' ''required_tags''
          @ issue_if (\<not> set required_capabilities \<subseteq> set (ready_capabilities runner))
              ''RUNNER_CAPABILITY_MISSING'' ''required_capabilities''
          @ issue_if (slot_missing runner (rq_required_slot_type payload)
                       (rq_required_slot_count payload))
              ''RUNNER_SLOT_UNAVAILABLE'' ''required_slot_count''
          @ issue_if (rq_run_type payload = WEB_CASE
                      \<and> (rn_chrome_version runner = None \<or> rn_chrome_version runner = Some []))
              ''RUNNER_CHROME_UNAVAILABLE'' ''runner_id'')"

definition validate_run_request ::
  "env \<Rightarrow> (int \<Rightarrow> int \<Rightarrow> bool) \<Rightarrow> resolver \<Rightarrow> world \<Rightarrow> current_user \<Rightarrow> run_create_request
     \<Rightarrow> app_error + run_validation_issue list \<times> string list \<times> target_spec" where
  "validate_run_request e environment_ok resolve w user payload =
     res_bind (get_project (w_db w) user (rq_project_id payload)) (\<lambda>project.
     let (target_issues, target) = resolve payload;
         capabilities =
           sort (remdups (ts_required_capabilities target @ rq_required_capabilities payload));
         issues =
           issue_if (pj_status project = PROJECT_ARCHIVED) ''PROJECT_ARCHIVED'' ''project_id''
           @ issue_if (\<not> environment_ok (rq_project_id payload) (rq_environment_id payload))
               ''ENVIRONMENT_INVALID'' ''environment_id''
           @ target_issues
           @ issue_if (rq_run_type payload = WEB_CASE \<and> rq_required_slot_type payload \<noteq> SLOT_WEB)
               ''WEB_SLOT_REQUIRED'' ''required_slot_type''
           @ validate_runner e w payload capabilities
     in Inr (issues, capabilities, target))"

definition new_node :: run_node where
  "new_node = \<lparr>nd_status = NODE_CREATED, nd_started_at = None, nd_ended_at = None, nd_duration = 0,
               nd_retry_count = 0, nd_error_type = None, nd_error_message = None\<rparr>"

fun new_steps :: "int \<Rightarrow> int \<Rightarrow> (string \<times> string \<times> string) list \<Rightarrow> step_run list" where
  "new_steps i n [] = []"
| "new_steps i n ((node_id, step_name, step_type) # rest) =
     run_node.extend new_node
       (step_run.fields i n node_id step_name step_type)
     # new_steps (i + 1) (n + 1) rest"

definition new_case ::
  "target_spec \<Rightarrow> int \<Rightarrow> int \<Rightarrow> int \<Rightarrow> run_iteration option \<Rightarrow> case_run" where
  "new_case target case_id step_id case_sequence iteration =
     run_node.extend new_node
       (case_run.fields case_id case_sequence
          (ts_case_id target) (ts_case_version_id target)
          (ts_scenario_id target) (ts_scenario_version_id target)
          (ts_web_case_id target) (ts_web_case_version_id target)
          (map_option it_dataset_id iteration) (map_option it_dataset_version_id iteration)
          (map_option it_row_index iteration) (map_option it_parameter_snapshot iteration)
          (new_steps step_id 1 (ts_steps target)))"

fun new_cases ::
  "target_spec \<Rightarrow> int \<Rightarrow> int \<Rightarrow> int \<Rightarrow> run_iteration option list \<Rightarrow> case_run list" where
  "new_cases target case_id step_id n [] = []"
| "new_cases target case_id step_id n (it # its) =
     new_case target case_id step_id n it
     # new_cases target (case_id + 1) (step_id + int (length (ts_steps target))) (n + 1) its"

definition iteration_specs :: "target_spec \<Rightarrow> run_iteration option list" where
  "iteration_specs target =
     (if ts_iterations target = [] then [None] else map Some (ts_iterations target))"

definition new_run ::
  "env \<Rightarrow> current_user \<Rightarrow> run_create_request \<Rightarrow> string list \<Rightarrow> target_spec \<Rightarrow> new_ids \<Rightarrow> test_run"
  where
  "new_run e user payload capabilities target ids =
     \<lparr>tr_id = ni_run_id ids, tr_run_code = ni_run_code ids, tr_run_type = rq_run_type payload,
      tr_project_id = rq_project_id payload, tr_environment_id = Some (rq_environment_id payload),
      tr_runner_id = Some (rq_runner_id payload),
      tr_case_id = ts_case_id target, tr_case_version_id = ts_case_version_id target,
      tr_scenario_id = ts_scenario_id target,
      tr_scenario_version_id = ts_scenario_version_id target,
      tr_web_case_id = ts_web_case_id target,
      tr_web_case_version_id = ts_web_case_version_id target,
      tr_status = RUN_CREATED, tr_trigger_type = rq_trigger_type payload,
      tr_required_capabilities = capabilities, tr_required_tags = rq_required_tags payload,
      tr_required_slot_type = rq_required_slot_type payload,
      tr_required_slot_count = rq_required_slot_count payload,
      tr_runtime_snapshot_id = Some (ni_run_id ids),
      tr_runtime_variables = rq_runtime_variables payload,
      tr_total_timeout_ms = rq_total_timeout_ms payload,
      tr_force_stop_requested_at = None, tr_force_stopped = False,
      tr_started_at = None, tr_ended_at = None,
      tr_total = int (length (iteration_specs target)),
      tr_pass_count = 0, tr_fail_count = 0, tr_review_count = 0, tr_timeout_count = 0,
      tr_error_type = None, tr_error_message = None,
      tr_created_by = cu_id user, tr_created_at = en_now e,
      tr_case_runs = new_cases target (ni_case_id ids) (ni_step_id ids) 1 (iteration_specs target),
      tr_dispatch_outbox = None\<rparr>"

definition create_run ::
  "env \<Rightarrow> (int \<Rightarrow> int \<Rightarrow> bool) \<Rightarrow> resolver \<Rightarrow> new_ids \<Rightarrow> world \<Rightarrow> current_user \<Rightarrow> run_create_request
     \<Rightarrow> test_run handler_result" where
  "create_run e environment_ok resolve ids w user payload =
     res_bind (get_project (w_db w) user (rq_project_id payload)) (\<lambda>project.
     res_bind (ensure_project_writable (w_db w) project user) (\<lambda>_.
     res_bind (validate_run_request e environment_ok resolve w user payload)
       (\<lambda>(issues, capabilities, target).
     if issues \<noteq> [] then Inl (RunValidationError issues)
     else if get_run w (ni_run_id ids) \<noteq> None
     then Inl (ResourceConflictError ''run not created'')
     else
       (let run = new_run e user payload capabilities target ids;
            w1 = w\<lparr>w_runs := w_runs w @ [run]\<rparr>
        in Inr (run, publish_event e run None RUN_CREATED (first_case_id run) None w1)))))"

section \<open>A created Run is well formed\<close>

lemma new_cases_status:
  "list_all (\<lambda>c. nd_status c = NODE_CREATED) (new_cases t i s n its)"
  by (induction its arbitrary: i s n)
    (simp_all add: new_case_def new_node_def run_node.defs case_run.defs)

lemma new_cases_length [simp]: "length (new_cases t i s n its) = length its"
  by (induction its arbitrary: i s n) simp_all

lemma count_status_none:
  "list_all (\<lambda>c. nd_status c = NODE_CREATED) cs \<Longrightarrow> s \<noteq> NODE_CREATED \<Longrightarrow> count_status s cs = 0"
  by (induction cs) (auto simp: count_status_def)

lemma new_run_fresh: "fresh_run (new_run e u p c t ids)"
  using new_cases_status
  by (simp add: fresh_run_def new_run_def run_inv_def summary_ok_iff times_ok_def results_ok_def
      outbox_ok_def count_status_none)

lemma create_run_step:
  assumes "create_run e ok res ids w u p = Inr (run, w')"
  shows "world_step w w'"
proof -
  obtain c t where new: "run = new_run e u p c t ids" and none: "get_run w (ni_run_id ids) = None"
    and w': "w' = publish_event e run None RUN_CREATED (first_case_id run) None
                    (w\<lparr>w_runs := w_runs w @ [run]\<rparr>)"
    using assms by (auto simp: create_run_def res_simps Let_def split: if_splits prod.splits)
  have "tr_id run = ni_run_id ids" by (simp add: new new_run_def)
  then have get: "get_run (w\<lparr>w_runs := w_runs w @ [run]\<rparr>) i =
      (case get_run w i of Some r \<Rightarrow> Some r | None \<Rightarrow> if i = ni_run_id ids then Some run else None)" for i
    by (simp add: get_run_def get_row_append) (auto simp: get_row_def split: option.splits)
  have distinct: "runs_distinct w \<Longrightarrow> runs_distinct (w\<lparr>w_runs := w_runs w @ [run]\<rparr>)"
    using none \<open>tr_id run = ni_run_id ids\<close>
    by (simp add: runs_distinct_def get_run_def get_row_None_iff)
  have "fresh_run run" unfolding new by (rule new_run_fresh)
  then have "world_step w (w\<lparr>w_runs := w_runs w @ [run]\<rparr>)"
    using distinct by (auto simp: world_step_def get results_unique_def split: if_splits)
  then show ?thesis unfolding w' by (rule world_step_publish)
qed

text \<open>
  A Run is created only for a caller who may write to the project and only on a Runner
  that is active, online, equipped and free at that moment.
\<close>

lemma validate_runner_clean:
  assumes "validate_runner e w p caps = []"
  shows "\<exists>runner. get_runner w (rq_runner_id p) = Some runner \<and> rn_status runner = RUNNER_ACTIVE
    \<and> en_heartbeat e (rn_id runner) = HeartbeatPresent
    \<and> set (rq_required_tags p) \<subseteq> set (rn_tags runner)
    \<and> set caps \<subseteq> set (ready_capabilities runner)
    \<and> (\<exists>s. find_slot runner (rq_required_slot_type p) = Some s
          \<and> rq_required_slot_count p \<le> rs_available s)"
  using assms
  by (auto simp: validate_runner_def issue_if_def slot_missing_def
      split: option.splits if_splits heartbeat_lookup.splits)

end
