(* ===== verification/Run_Control.thy ===== *)
theory Run_Control
  imports Run_World
begin

text \<open>
  Cancelling and force-stopping a Run and the status reports of users and Runners:
  \<open>cancel_run\<close>, \<open>force_stop_run\<close>, \<open>update_run_status\<close>, \<open>update_case_run_status\<close>,
  \<open>update_step_run_status\<close> and their authorisation helpers of \<open>runs/service.py\<close>.

  A response that renders the stored Run is the Run row.
\<close>

section \<open>Cancellation\<close>

definition cancel_node ::
  "datetime \<Rightarrow> run_node_status \<Rightarrow> 'a run_node_scheme \<Rightarrow> app_error + 'a run_node_scheme" where
  "cancel_node now node_status n =
     (if \<not> terminal_node_status (nd_status n)
         \<and> (node_status = NODE_CANCELLED \<or> nd_status n = NODE_RUNNING)
      then set_node now node_status (plain_node_update node_status) n
      else Inr n)"

definition cancel_children ::
  "datetime \<Rightarrow> run_node_status \<Rightarrow> case_run list \<Rightarrow> app_error + case_run list" where
  "cancel_children now node_status cs =
     res_bind (update_steps (cancel_node now node_status) cs) (res_map (cancel_node now node_status))"

definition cancel_run :: "env \<Rightarrow> world \<Rightarrow> current_user \<Rightarrow> string \<Rightarrow> test_run handler_result" where
  "cancel_run e w user run_id =
     res_bind (require_run w run_id) (\<lambda>run.
     res_bind (authorize_run_write w user run) (\<lambda>_.
     let current_status = tr_status run in
     if current_status = RUN_CANCELLED \<or> current_status = RUN_CANCELLING then Inr (run, w)
     else if current_status \<notin> {RUN_CREATED, RUN_QUEUED, RUN_ASSIGNED, RUN_RUNNING}
     then run_conflict ''only CREATED/QUEUED/ASSIGNED/RUNNING can be cancelled''
     else
       (let early = current_status = RUN_CREATED \<or> current_status = RUN_QUEUED;
            node_status = (if early then NODE_CANCELLED else NODE_CANCELLING);
            run_status = (if early then RUN_CANCELLED else RUN_CANCELLING)
        in res_bind (cancel_children (en_now e) node_status (tr_case_runs run)) (\<lambda>cs.
           res_bind (set_run_status (en_now e) (recompute_summary (run\<lparr>tr_case_runs := cs\<rparr>))
                      run_status (plain_run_update run_status)) (\<lambda>(_, run').
           Inr (run', commit_run e w run' current_status run_status (first_case_id run')))))))"

definition force_stop_early ::
  "env \<Rightarrow> world \<Rightarrow> test_run \<Rightarrow> test_run handler_result" where
  "force_stop_early e w run =
     res_bind (close_children (en_now e) NODE_CANCELLED (plain_node_update NODE_CANCELLED)
                (tr_case_runs run)) (\<lambda>cs.
     res_bind (set_run_status (en_now e) (recompute_summary (run\<lparr>tr_case_runs := cs\<rparr>))
                RUN_CANCELLED (plain_run_update RUN_CANCELLED)) (\<lambda>(_, run').
     Inr (run', commit_run e w run' (tr_status run) RUN_CANCELLED (first_case_id run'))))"

definition force_stop_run ::
  "env \<Rightarrow> world \<Rightarrow> current_user \<Rightarrow> string \<Rightarrow> test_run handler_result" where
  "force_stop_run e w user run_id =
     res_bind (require_run w run_id) (\<lambda>run.
     res_bind (authorize_run_write w user run) (\<lambda>_.
     let current_status = tr_status run in
     if terminal_run_status current_status then Inr (run, w)
     else if current_status = RUN_CREATED \<or> current_status = RUN_QUEUED
     then force_stop_early e w run
     else
       res_bind
         (if current_status = RUN_ASSIGNED \<or> current_status = RUN_RUNNING
          then set_run_status (en_now e) run RUN_CANCELLING (plain_run_update RUN_CANCELLING)
          else Inr (False, run)) (\<lambda>(_, run1).
       let run2 = (if tr_force_stop_requested_at run1 = None
                   then run1\<lparr>tr_force_stop_requested_at := Some (en_now e)\<rparr> else run1)
       in Inr (run2, publish_event e run2 (Some current_status) RUN_CANCELLING (first_case_id run2)
                       (Some ''RUN_FORCE_STOP_REQUESTED'') (put_run w run2)))))"

section \<open>Status reports\<close>

definition authorize_user_run_transition ::
  "test_run \<Rightarrow> run_status \<Rightarrow> app_error + unit" where
  "authorize_user_run_transition run requested =
     (if tr_status run = requested \<and> requested = RUN_CANCELLED then Inr ()
      else if tr_status run = RUN_CREATED \<and> requested = RUN_CANCELLED then Inr ()
      else run_conflict ''users can only cancel'')"

fun runner_allowed :: "run_status \<Rightarrow> run_status list" where
  "runner_allowed RUN_ASSIGNED = [RUN_RUNNING]"
| "runner_allowed RUN_RUNNING = [RUN_SUCCESS, RUN_FAILED, RUN_TIMEOUT]"
| "runner_allowed RUN_CANCELLING = [RUN_CANCELLED]"
| "runner_allowed _ = []"

definition authorize_runner_run_transition ::
  "test_run \<Rightarrow> run_status \<Rightarrow> app_error + unit" where
  "authorize_runner_run_transition run requested =
     (if tr_status run = requested
         \<and> requested \<in> {RUN_RUNNING, RUN_SUCCESS, RUN_FAILED, RUN_CANCELLED, RUN_TIMEOUT}
      then Inr ()
      else if requested \<notin> set (runner_allowed (tr_status run))
      then run_conflict ''runner cannot report this status'' else Inr ())"

text \<open>The caller of a status report: a project user, a Runner with its credential, or nobody.\<close>

datatype caller = CallerUser current_user | CallerRunner string | CallerNone

definition update_run_status ::
  "env \<Rightarrow> world \<Rightarrow> string \<Rightarrow> run_status_update \<Rightarrow> caller \<Rightarrow> test_run handler_result" where
  "update_run_status e w run_id payload caller =
     res_bind (require_run w run_id) (\<lambda>run.
     res_bind
       (case caller of
          CallerUser user \<Rightarrow>
            res_bind (authorize_run_write w user run) (\<lambda>_.
            authorize_user_run_transition run (rsu_status payload))
        | CallerRunner credential \<Rightarrow>
            res_bind (authenticate_runner_for_run e w run credential) (\<lambda>_.
            res_bind (authorize_runner_run_transition run (rsu_status payload)) (\<lambda>_.
            ensure_terminal_run_matches_children run (rsu_status payload)))
        | CallerNone \<Rightarrow> Inl (AuthenticationError ''authentication required'')) (\<lambda>_.
     res_bind (set_run_status (en_now e) run (rsu_status payload) payload) (\<lambda>(changed, run').
     if changed
     then Inr (run', commit_run e w run' (tr_status run) (rsu_status payload) (first_case_id run'))
     else Inr (run', w))))"

definition authorize_child_update ::
  "env \<Rightarrow> world \<Rightarrow> test_run \<Rightarrow> caller \<Rightarrow> app_error + unit" where
  "authorize_child_update e w run caller =
     res_bind
       (case caller of
          CallerUser _ \<Rightarrow> Inl (AuthenticationError ''only runners report child status'')
        | CallerRunner credential \<Rightarrow>
            res_bind (authenticate_runner_for_run e w run credential) (\<lambda>_. Inr ())
        | CallerNone \<Rightarrow> Inl (AuthenticationError ''authentication required'')) (\<lambda>_.
     if tr_status run \<noteq> RUN_RUNNING \<and> tr_status run \<noteq> RUN_CANCELLING
     then run_conflict ''run not executing'' else Inr ())"

definition get_case_run :: "test_run \<Rightarrow> int \<Rightarrow> case_run option" where
  "get_case_run run case_run_id = get_row cr_id (tr_case_runs run) case_run_id"

definition put_case_run :: "test_run \<Rightarrow> case_run \<Rightarrow> test_run" where
  "put_case_run run c = run\<lparr>tr_case_runs := put_row cr_id c (tr_case_runs run)\<rparr>"

definition update_case_run_status ::
  "env \<Rightarrow> world \<Rightarrow> string \<Rightarrow> int \<Rightarrow> node_status_update \<Rightarrow> caller \<Rightarrow> test_run handler_result" where
  "update_case_run_status e w run_id case_run_id payload caller =
     res_bind (require_run w run_id) (\<lambda>run.
     res_bind (authorize_child_update e w run caller) (\<lambda>_.
     res_bind (option_to_res (ResourceNotFoundError ''case run'') (get_case_run run case_run_id))
       (\<lambda>case_run.
     if cr_step_runs case_run \<noteq> [] \<and> nd_status case_run \<noteq> nsu_status payload
     then run_conflict ''case run with steps is aggregated by the server''
     else if terminal_node_status (nsu_status payload)
       \<and> \<not> list_all (\<lambda>s. terminal_node_status (nd_status s)) (cr_step_runs case_run)
     then run_conflict ''case run has unfinished steps''
     else
       res_bind (set_node_status (en_now e) case_run (nsu_status payload) payload)
         (\<lambda>(changed, case_run').
       if changed
       then (let run' = recompute_summary (put_case_run run case_run') in Inr (run', put_run w run'))
       else Inr (run, w)))))"

definition put_step_run :: "case_run \<Rightarrow> step_run \<Rightarrow> case_run" where
  "put_step_run c s = c\<lparr>cr_step_runs := put_row sr_id s (cr_step_runs c)\<rparr>"

definition update_step_run_status ::
  "env \<Rightarrow> world \<Rightarrow> string \<Rightarrow> int \<Rightarrow> int \<Rightarrow> node_status_update \<Rightarrow> caller \<Rightarrow> test_run handler_result"
  where
  "update_step_run_status e w run_id case_run_id step_run_id payload caller =
     res_bind (require_run w run_id) (\<lambda>run.
     res_bind (authorize_child_update e w run caller) (\<lambda>_.
     res_bind (option_to_res (ResourceNotFoundError ''case run'') (get_case_run run case_run_id))
       (\<lambda>case_run.
     res_bind (option_to_res (ResourceNotFoundError ''step run'')
                (get_row sr_id (cr_step_runs case_run) step_run_id)) (\<lambda>step_run.
     if terminal_node_status (nd_status case_run) \<and> nd_status step_run \<noteq> nsu_status payload
     then run_conflict ''case run already finished''
     else
       res_bind (set_node_status (en_now e) step_run (nsu_status payload) payload)
         (\<lambda>(changed, step_run').
       if changed
       then
         (let case_run' = aggregate_case_status (en_now e) (put_step_run case_run step_run');
              run' = recompute_summary (put_case_run run case_run')
          in Inr (run', put_run w run'))
       else Inr (run, w))))))"


section \<open>The loops of cancellation\<close>

lemma cancel_node_step: "cancel_node now st (s :: step_run) = Inr s' \<Longrightarrow> step_evolves s s'"
  by (auto simp: cancel_node_def dest: set_node_step split: if_splits)

lemma cancel_node_case: "cancel_node now st (c :: case_run) = Inr c' \<Longrightarrow> case_evolves c c'"
  by (auto simp: cancel_node_def dest: set_node_case split: if_splits)

lemma cancel_node_closes:
  "cancel_node now NODE_CANCELLED n = close_node now NODE_CANCELLED (plain_node_update NODE_CANCELLED) n"
  by (simp add: cancel_node_def close_node_def)

lemma cancel_children_closes:
  "cancel_children now NODE_CANCELLED cs =
     close_children now NODE_CANCELLED (plain_node_update NODE_CANCELLED) cs"
  by (simp add: cancel_children_def close_children_def cancel_node_closes[abs_def])

lemma cancel_children_evolve:
  assumes "cancel_children now st cs = Inr cs'"
  shows "list_all2 case_evolves cs cs'"
proof -
  obtain cs1 where 1: "update_steps (cancel_node now st) cs = Inr cs1"
    and 2: "res_map (cancel_node now st) cs1 = Inr cs'"
    using assms by (auto simp: cancel_children_def res_simps)
  show ?thesis
    using update_steps_cases(1)[OF 1 cancel_node_step] map_cases_evolve[OF 2 cancel_node_case]
    by (rule cases_evolve_trans)
qed

section \<open>Every handler is a step\<close>

lemma cancel_run_step:
  assumes "cancel_run e w u i = Inr (r', w')"
  shows "world_step w w'"
proof -
  obtain run where run: "get_run w i = Some run"
    using assms by (auto simp: cancel_run_def res_simps)
  show ?thesis
  proof (cases "tr_status run \<in> {RUN_CANCELLED, RUN_CANCELLING}")
    case True
    then show ?thesis using assms run by (auto simp: cancel_run_def res_simps Let_def)
  next
    case False
    define early where "early \<longleftrightarrow> tr_status run = RUN_CREATED \<or> tr_status run = RUN_QUEUED"
    define ns where "ns = (if early then NODE_CANCELLED else NODE_CANCELLING)"
    define rs where "rs = (if early then RUN_CANCELLED else RUN_CANCELLING)"
    obtain cs b where st: "tr_status run \<in> {RUN_CREATED, RUN_QUEUED, RUN_ASSIGNED, RUN_RUNNING}"
      and cs: "cancel_children (en_now e) ns (tr_case_runs run) = Inr cs"
      and set: "set_run_status (en_now e) (recompute_summary (run\<lparr>tr_case_runs := cs\<rparr>)) rs
                  (plain_run_update rs) = Inr (b, r')"
      and w': "w' = commit_run e w r' (tr_status run) rs (first_case_id r')"
      using assms run False
      by (auto simp: cancel_run_def res_simps Let_def early_def ns_def rs_def split: if_splits)
    have closed: "list_all (\<lambda>c. terminal_node_status (nd_status c)) cs" if early
      using cs that close_children_terminal[of "en_now e" NODE_CANCELLED]
      by (simp add: ns_def cancel_children_closes)
    have "run_evolves run r'"
      using cancel_children_evolve[OF cs] st closed
      by (intro summary_evolves[OF set])
        (auto simp: rs_def early_def results_ok_def all_cases_terminal_def run_inv_def outbox_ok_def)
    then show ?thesis unfolding w' by (rule world_step_commit[OF run])
  qed
qed

lemma force_stop_early_step:
  assumes "force_stop_early e w run = Inr (r', w')" and run: "get_run w i = Some run"
    and st: "tr_status run = RUN_CREATED \<or> tr_status run = RUN_QUEUED"
  shows "world_step w w'"
proof -
  obtain cs b where cs: "close_children (en_now e) NODE_CANCELLED
        (plain_node_update NODE_CANCELLED) (tr_case_runs run) = Inr cs"
    and set: "set_run_status (en_now e) (recompute_summary (run\<lparr>tr_case_runs := cs\<rparr>)) RUN_CANCELLED
                (plain_run_update RUN_CANCELLED) = Inr (b, r')"
    and w': "w' = commit_run e w r' (tr_status run) RUN_CANCELLED (first_case_id r')"
    using assms by (auto simp: force_stop_early_def res_simps)
  have "run_evolves run r'"
    using close_children_evolve(1)[OF cs] close_children_terminal[OF cs]
    by (intro summary_evolves[OF set])
      (auto simp: results_ok_def all_cases_terminal_def)
  then show ?thesis unfolding w' by (rule world_step_commit[OF run])
qed

lemma run_evolves_force_flag:
  "run_evolves r r' \<Longrightarrow> run_evolves r (r'\<lparr>tr_force_stop_requested_at := x\<rparr>)"
  using run_inv_cong[of "r'\<lparr>tr_force_stop_requested_at := x\<rparr>" r']
  by (simp add: run_evolves_def claimed_by_def)

lemma force_stop_run_step:
  assumes ok: "force_stop_run e w u i = Inr (r', w')"
  shows "world_step w w'"
proof -
  obtain run where run: "get_run w i = Some run"
    using ok by (auto simp: force_stop_run_def res_simps)
  consider "terminal_run_status (tr_status run)"
    | "tr_status run = RUN_CREATED \<or> tr_status run = RUN_QUEUED"
    | "tr_status run \<in> {RUN_ASSIGNED, RUN_RUNNING, RUN_CANCELLING}"
    by (cases "tr_status run") auto
  then show ?thesis
  proof cases
    case 1
    then show ?thesis using ok run by (auto simp: force_stop_run_def res_simps Let_def)
  next
    case 2
    then have "force_stop_early e w run = Inr (r', w')"
      using ok run by (auto simp: force_stop_run_def res_simps Let_def)
    then show ?thesis using run 2 by (rule force_stop_early_step)
  next
    case 3
    obtain b r1 where r1: "set_run_status (en_now e) run RUN_CANCELLING
        (plain_run_update RUN_CANCELLING) = Inr (b, r1)"
      and r': "r' = (if tr_force_stop_requested_at r1 = None
                     then r1\<lparr>tr_force_stop_requested_at := Some (en_now e)\<rparr> else r1)"
      and w': "w' = publish_event e r' (Some (tr_status run)) RUN_CANCELLING (first_case_id r')
                      (Some ''RUN_FORCE_STOP_REQUESTED'') (put_run w r')"
      using ok run 3
      by (auto simp: force_stop_run_def res_simps Let_def set_run_status_def split: if_splits)
    have "run_evolves run r1"
      using 3
      by (intro finish_evolves[OF r1])
        (auto simp: results_ok_def run_inv_def outbox_ok_def)
    then have "run_evolves run r'" by (auto simp: r' run_evolves_force_flag)
    then show ?thesis unfolding w' by (intro world_step_publish world_step_put[OF run])
  qed
qed

lemma authorize_runner_allowed:
  "authorize_runner_run_transition r req = Inr () \<Longrightarrow>
     tr_status r = req \<or> req \<in> set (runner_allowed (tr_status r))"
  by (auto simp: authorize_runner_run_transition_def split: if_splits)

lemma runner_report_evolves:
  assumes auth: "authorize_runner_run_transition run req = Inr ()"
    and ens: "ensure_terminal_run_matches_children run req = Inr ()"
    and set: "set_run_status now run req p = Inr (b, run')"
  shows "run_evolves run run'"
proof -
  note allowed = authorize_runner_allowed[OF auth]
  show ?thesis
  proof (rule finish_evolves[OF set])
    show "results_ok (run\<lparr>tr_status := req\<rparr>)" by (rule ensure_results_ok[OF ens])
    show "needs_claim req \<Longrightarrow> needs_claim (tr_status run)"
      using allowed by (cases "tr_status run") auto
    show "run_inv run \<Longrightarrow> tr_dispatch_outbox run = None \<Longrightarrow> req = RUN_CREATED \<or> req = RUN_CANCELLED"
      using allowed by (auto simp: run_inv_def outbox_ok_def)
  qed (simp_all add: run_inv_def)
qed

lemma update_run_status_step:
  assumes ok: "update_run_status e w i p caller = Inr (r', w')"
  shows "world_step w w'"
proof -
  let ?req = "rsu_status p"
  obtain run b where run: "get_run w i = Some run"
    and set: "set_run_status (en_now e) run ?req p = Inr (b, r')"
    and w': "w' = (if b then commit_run e w r' (tr_status run) ?req (first_case_id r') else w)"
    and auth: "authorize_user_run_transition run ?req = Inr ()
      \<or> authorize_runner_run_transition run ?req = Inr ()
        \<and> ensure_terminal_run_matches_children run ?req = Inr ()"
    using ok by (cases caller) (auto simp: update_run_status_def res_simps split: if_splits)
  have "run_evolves run r'"
    using auth
  proof
    assume "authorize_user_run_transition run ?req = Inr ()"
    then have req: "?req = RUN_CANCELLED" "tr_status run = RUN_CREATED \<or> tr_status run = RUN_CANCELLED"
      by (auto simp: authorize_user_run_transition_def split: if_splits)
    show ?thesis
    proof (rule finish_evolves[OF set])
      show "run_inv run \<Longrightarrow> results_ok (run\<lparr>tr_status := ?req\<rparr>)"
        using req by (auto simp: run_inv_def results_ok_def outbox_ok_def all_cases_terminal_def
            split: option.splits)
    qed (simp_all add: run_inv_def req)
  qed (use set in \<open>auto intro: runner_report_evolves\<close>)
  then show ?thesis unfolding w' by (auto intro: world_step_commit[OF run])
qed

lemma put_case_evolves:
  assumes "get_case_run run k = Some c" and "case_evolves c c'"
  shows "list_all2 case_evolves (tr_case_runs run) (tr_case_runs (put_case_run run c'))"
proof -
  have "cr_id c' = k"
    using assms by (auto simp: get_case_run_def case_evolves_def dest: row_table.get_key)
  then show ?thesis
    using assms by (auto simp: get_case_run_def put_case_run_def intro: put_row_related)
qed

lemma put_case_run_frame [row_frame]:
  "tr_id (put_case_run run c) = tr_id run" "tr_project_id (put_case_run run c) = tr_project_id run"
  "tr_runner_id (put_case_run run c) = tr_runner_id run"
  "tr_run_type (put_case_run run c) = tr_run_type run"
  "tr_required_slot_type (put_case_run run c) = tr_required_slot_type run"
  "tr_status (put_case_run run c) = tr_status run"
  "tr_started_at (put_case_run run c) = tr_started_at run"
  "tr_ended_at (put_case_run run c) = tr_ended_at run"
  "tr_dispatch_outbox (put_case_run run c) = tr_dispatch_outbox run"
  "tr_total_timeout_ms (put_case_run run c) = tr_total_timeout_ms run"
  "tr_force_stop_requested_at (put_case_run run c) = tr_force_stop_requested_at run"
  by (simp_all add: put_case_run_def)

lemma child_update_step:
  assumes run: "get_run w i = Some run" and auth: "authorize_child_update e w run caller = Inr ()"
    and c: "get_case_run run k = Some c" "case_evolves c c'"
  shows "world_step w (put_run w (recompute_summary (put_case_run run c')))"
proof -
  have "\<not> terminal_run_status (tr_status run)"
    using auth by (auto simp: authorize_child_update_def res_simps split: if_splits)
  then have "run_evolves run (recompute_summary (put_case_run run c'))"
    using put_case_evolves[OF c] by (intro children_evolves) (simp_all add: row_frame)
  then show ?thesis by (rule world_step_put[OF run])
qed

lemma update_case_run_status_step:
  assumes ok: "update_case_run_status e w i k p caller = Inr (r', w')"
  shows "world_step w w'"
proof -
  obtain run c b c' where run: "get_run w i = Some run"
    and auth: "authorize_child_update e w run caller = Inr ()" and c: "get_case_run run k = Some c"
    and set: "set_node_status (en_now e) c (nsu_status p) p = Inr (b, c')"
    and w': "w' = (if b then put_run w (recompute_summary (put_case_run run c')) else w)"
    using ok by (auto simp: update_case_run_status_def res_simps Let_def split: if_splits)
  have "case_evolves c c'"
    using set set_node_case[of "en_now e" "nsu_status p" p c c'] by (simp add: set_node_def)
  then show ?thesis
    using child_update_step[OF run auth c] by (simp add: w')
qed

lemma put_step_evolves:
  assumes "get_row sr_id (cr_step_runs c) j = Some s" and "step_evolves s s'"
  shows "case_evolves c (put_step_run c s')"
proof -
  have "sr_id s' = j" using assms by (auto simp: step_evolves_def dest: row_table.get_key)
  then have "list_all2 step_evolves (cr_step_runs c) (put_row sr_id s' (cr_step_runs c))"
    using assms by (auto intro: put_row_related)
  then show ?thesis
    by (simp add: case_evolves_def put_step_run_def node_keeps_def run_node.truncate_def)
qed

lemma update_step_run_status_step:
  assumes ok: "update_step_run_status e w i k j p caller = Inr (r', w')"
  shows "world_step w w'"
proof -
  obtain run c s b s' where run: "get_run w i = Some run"
    and auth: "authorize_child_update e w run caller = Inr ()" and c: "get_case_run run k = Some c"
    and s: "get_row sr_id (cr_step_runs c) j = Some s"
    and set: "set_node_status (en_now e) s (nsu_status p) p = Inr (b, s')"
    and w': "w' = (if b then put_run w (recompute_summary (put_case_run run
                     (aggregate_case_status (en_now e) (put_step_run c s')))) else w)"
    using ok by (auto simp: update_step_run_status_def res_simps Let_def split: if_splits)
  have "step_evolves s s'"
    using set set_node_step[of "en_now e" "nsu_status p" p s s'] by (simp add: set_node_def)
  then have "case_evolves c (aggregate_case_status (en_now e) (put_step_run c s'))"
    using put_step_evolves[OF s] aggregate_case_evolves case_evolves_trans by blast
  then show ?thesis
    using child_update_step[OF run auth c] by (simp add: w')
qed

end
