(* ===== verification/Run_Dispatch.thy ===== *)
theory Run_Dispatch
  imports Run_Create Run_Control
begin

text \<open>
  Handing a Run to its Runner: \<open>dispatch_run\<close>, \<open>dispatch_runs_batch\<close> and \<open>claim_run\<close> of
  \<open>runs/service.py\<close> with the task envelope of \<open>runs/schemas.py\<close>.

  \<open>dispatch_run\<close> commits before it talks to the broker and once more with the broker's
  answer. \<open>dispatch_begin\<close> is the part up to the publish, \<open>record_publish_result\<close> the part after
  it; other handlers may run in between, so the two are separate steps of the Run machine. Every
  message handed to the publisher is logged in \<open>w_sent\<close>.
\<close>

section \<open>Task envelope\<close>

definition dispatch_max_attempts :: int where
  "dispatch_max_attempts = 10"

definition parse_run_type :: "string \<Rightarrow> run_type option" where
  "parse_run_type s =
     (if s = ''API_CASE'' then Some API_CASE
      else if s = ''SCENARIO'' then Some SCENARIO
      else if s = ''WEB_CASE'' then Some WEB_CASE else None)"

definition parse_slot_type :: "string \<Rightarrow> slot_type option" where
  "parse_slot_type s =
     (if s = ''API'' then Some SLOT_API
      else if s = ''WEB'' then Some SLOT_WEB
      else if s = ''PERFORMANCE'' then Some SLOT_PERFORMANCE else None)"

definition id_field_ok :: "nat \<Rightarrow> string \<Rightarrow> bool" where
  "id_field_ok maximum s \<longleftrightarrow> safe_id s \<and> length s \<le> maximum"

text \<open>\<open>RunTaskEnvelope.model_validate\<close>\<close>

definition envelope_valid :: "task_payload \<Rightarrow> bool" where
  "envelope_valid p \<longleftrightarrow>
     tp_schema_version p = 1
     \<and> id_field_ok 64 (tp_message_id p) \<and> id_field_ok 128 (tp_run_id p)
     \<and> id_field_ok 64 (tp_runner_id p)
     \<and> parse_run_type (tp_run_type p) \<noteq> None \<and> parse_slot_type (tp_required_slot_type p) \<noteq> None
     \<and> 1 \<le> tp_attempt p \<and> tp_attempt p \<le> 10"

definition task_envelope ::
  "test_run \<Rightarrow> string \<Rightarrow> int \<Rightarrow> datetime \<Rightarrow> app_error + task_payload" where
  "task_envelope run message_id attempt enqueued_at =
     (case tr_runner_id run of
        None \<Rightarrow> Inl (InternalError ''ValidationError'')
      | Some rid \<Rightarrow>
          (let p = \<lparr>tp_schema_version = 1, tp_message_id = message_id, tp_run_id = tr_id run,
                    tp_runner_id = rid, tp_run_type = run_type_value (tr_run_type run),
                    tp_required_slot_type = slot_type_value (tr_required_slot_type run),
                    tp_attempt = attempt, tp_enqueued_at = enqueued_at\<rparr>
           in if envelope_valid p then Inr p else Inl (InternalError ''ValidationError'')))"

definition expected_dispatch_routing_key :: "test_run \<Rightarrow> string" where
  "expected_dispatch_routing_key run =
     ''runner.'' @ (case tr_runner_id run of None \<Rightarrow> ''None'' | Some rid \<Rightarrow> rid)
     @ ''.'' @ py_lower (slot_type_value (tr_required_slot_type run))"

definition validate_dispatch_payload ::
  "test_run \<Rightarrow> run_dispatch_outbox \<Rightarrow> task_payload option" where
  "validate_dispatch_payload run outbox =
     (let envelope = ob_payload outbox in
      if ob_schema_version outbox \<noteq> 1 \<or> ob_run_id outbox \<noteq> tr_id run
         \<or> Some (ob_runner_id outbox) \<noteq> tr_runner_id run
         \<or> ob_routing_key outbox \<noteq> expected_dispatch_routing_key run
      then None
      else if \<not> envelope_valid envelope then None
      else if tp_run_id envelope \<noteq> tr_id run \<or> Some (tp_runner_id envelope) \<noteq> tr_runner_id run
         \<or> tp_run_type envelope \<noteq> run_type_value (tr_run_type run)
         \<or> tp_required_slot_type envelope \<noteq> slot_type_value (tr_required_slot_type run)
         \<or> tp_message_id envelope \<noteq> ob_message_id outbox
      then None
      else Some envelope)"

section \<open>Dispatch\<close>

definition dispatch_runner_issues :: "env \<Rightarrow> world \<Rightarrow> test_run \<Rightarrow> app_error + runner_row" where
  "dispatch_runner_issues e w run =
     (case (case tr_runner_id run of None \<Rightarrow> None | Some rid \<Rightarrow> get_runner w rid) of
        None \<Rightarrow> Inl (RunValidationError [issue ''RUNNER_NOT_FOUND'' ''runner_id''])
      | Some runner \<Rightarrow>
          (case en_heartbeat e (rn_id runner) of
             HeartbeatUnavailable \<Rightarrow> Inl (RedisUnavailableError ''runner state unavailable'')
           | hb \<Rightarrow>
               (let issues =
                  issue_if (rn_status runner \<noteq> RUNNER_ACTIVE) ''RUNNER_REVOKED'' ''runner_id''
                  @ issue_if (rn_credential_digest runner = []
                              \<or> length (rn_credential_digest runner) \<noteq> 64)
                      ''RUNNER_CREDENTIAL_INVALID'' ''runner_id''
                  @ issue_if (hb = HeartbeatMissing) ''RUNNER_OFFLINE'' ''runner_id''
                  @ issue_if (\<not> set (tr_required_tags run) \<subseteq> set (rn_tags runner))
                      ''RUNNER_TAG_MISSING'' ''required_tags''
                  @ issue_if (\<not> set (tr_required_capabilities run)
                                \<subseteq> set (ready_capabilities runner))
                      ''RUNNER_CAPABILITY_MISSING'' ''required_capabilities''
                  @ issue_if (slot_missing runner (tr_required_slot_type run)
                               (tr_required_slot_count run))
                      ''RUNNER_SLOT_UNAVAILABLE'' ''required_slot_count''
                  @ issue_if (\<not> safe_id (rn_id runner)) ''RUNNER_ID_INVALID'' ''runner_id''
                in if issues \<noteq> [] then Inl (RunValidationError issues) else Inr runner)))"

record dispatch_response =
  dr_run_id :: string
  dr_run_status :: run_status
  dr_outbox_status :: dispatch_outbox_status
  dr_message_id :: string
  dr_routing_key :: string
  dr_attempt_count :: int
  dr_last_error :: "string option"
  dr_published_at :: "datetime option"

definition make_dispatch_response :: "test_run \<Rightarrow> run_dispatch_outbox \<Rightarrow> dispatch_response" where
  "make_dispatch_response run outbox =
     \<lparr>dr_run_id = tr_id run, dr_run_status = tr_status run, dr_outbox_status = ob_status outbox,
      dr_message_id = ob_message_id outbox, dr_routing_key = ob_routing_key outbox,
      dr_attempt_count = ob_attempt_count outbox, dr_last_error = ob_last_error outbox,
      dr_published_at = ob_published_at outbox\<rparr>"

text \<open>The first commit: the outbox row is created and the Run queued.\<close>

definition dispatch_create ::
  "env \<Rightarrow> string \<Rightarrow> world \<Rightarrow> test_run \<Rightarrow> app_error + test_run \<times> run_dispatch_outbox \<times> world" where
  "dispatch_create e message_id w run =
     res_bind (task_envelope run message_id 1 (en_now e)) (\<lambda>payload.
     let outbox = \<lparr>ob_message_id = message_id, ob_run_id = tr_id run,
                   ob_runner_id = (case tr_runner_id run of None \<Rightarrow> [] | Some rid \<Rightarrow> rid),
                   ob_routing_key = expected_dispatch_routing_key run, ob_schema_version = 1,
                   ob_payload = payload, ob_status = OUTBOX_PENDING, ob_attempt_count = 0,
                   ob_last_error = None, ob_published_at = None, ob_claimed_at = None,
                   ob_claimed_runner_id = None\<rparr>
     in res_bind (set_run_status (en_now e) (run\<lparr>tr_dispatch_outbox := Some outbox\<rparr>) RUN_QUEUED
                   (plain_run_update RUN_QUEUED)) (\<lambda>(status_changed, run1).
        Inr (run1, outbox,
             if status_changed
             then commit_run e w run1 RUN_CREATED RUN_QUEUED (first_case_id run1)
             else put_run w run1)))"

datatype dispatch_progress =
    DispatchDone dispatch_response
  | DispatchPublish string task_payload  \<comment> \<open>routing key and body of the message to send\<close>

definition store_outbox :: "world \<Rightarrow> test_run \<Rightarrow> run_dispatch_outbox \<Rightarrow> world" where
  "store_outbox w run outbox = put_run w (run\<lparr>tr_dispatch_outbox := Some outbox\<rparr>)"

definition dispatch_attempt ::
  "world \<Rightarrow> test_run \<Rightarrow> run_dispatch_outbox \<Rightarrow> dispatch_progress \<times> world" where
  "dispatch_attempt w run outbox =
     (case validate_dispatch_payload run outbox of
        None \<Rightarrow>
          (let ob = outbox\<lparr>ob_status := OUTBOX_FAILED, ob_last_error := Some ''TASK_ENVELOPE_INVALID''\<rparr>
           in (DispatchDone (make_dispatch_response run ob), store_outbox w run ob))
      | Some envelope \<Rightarrow>
          if dispatch_max_attempts \<le> ob_attempt_count outbox
          then
            (let ob = outbox\<lparr>ob_status := OUTBOX_FAILED,
                             ob_last_error := Some ''DISPATCH_ATTEMPTS_EXHAUSTED''\<rparr>
             in (DispatchDone (make_dispatch_response run ob), store_outbox w run ob))
          else
            (let next_attempt = ob_attempt_count outbox + 1;
                 ob = outbox\<lparr>ob_payload := envelope\<lparr>tp_attempt := next_attempt\<rparr>,
                             ob_attempt_count := next_attempt, ob_status := OUTBOX_PENDING,
                             ob_last_error := None\<rparr>
             in (DispatchPublish (ob_routing_key ob) (ob_payload ob), store_outbox w run ob)))"

definition dispatch_begin ::
  "env \<Rightarrow> string \<Rightarrow> bool \<Rightarrow> world \<Rightarrow> current_user \<Rightarrow> string \<Rightarrow> dispatch_progress handler_result" where
  "dispatch_begin e message_id runner_prevalidated w user run_id =
     res_bind (require_run w run_id) (\<lambda>run.
     res_bind (authorize_run_write w user run) (\<lambda>_.
     case tr_dispatch_outbox run of
       Some outbox \<Rightarrow>
         if ob_status outbox = OUTBOX_PUBLISHED
         then (if validate_dispatch_payload run outbox = None
               then Inl (ResourceConflictError ''task envelope invalid'')
               else Inr (DispatchDone (make_dispatch_response run outbox), w))
         else if tr_status run \<noteq> RUN_CREATED \<and> tr_status run \<noteq> RUN_QUEUED
         then run_conflict ''only CREATED or QUEUED runs can be dispatched''
         else
           res_bind (if tr_run_type run = API_CASE
                     then res_bind (en_api_case e run True) (\<lambda>_. Inr ()) else Inr ()) (\<lambda>_.
           res_bind (if runner_prevalidated then Inr ()
                     else res_bind (dispatch_runner_issues e w run) (\<lambda>_. Inr ())) (\<lambda>_.
           Inr (dispatch_attempt w run outbox)))
     | None \<Rightarrow>
         if tr_status run \<noteq> RUN_CREATED \<and> tr_status run \<noteq> RUN_QUEUED
         then run_conflict ''only CREATED or QUEUED runs can be dispatched''
         else if tr_status run = RUN_QUEUED
         then run_conflict ''QUEUED run without outbox''
         else
           res_bind (if tr_run_type run = API_CASE
                     then res_bind (en_api_case e run True) (\<lambda>_. Inr ()) else Inr ()) (\<lambda>_.
           res_bind (if runner_prevalidated then Inr ()
                     else res_bind (dispatch_runner_issues e w run) (\<lambda>_. Inr ())) (\<lambda>_.
           res_bind (dispatch_create e message_id w run) (\<lambda>(run1, outbox, w1).
           Inr (dispatch_attempt w1 run1 outbox))))))"

definition publish_error_codes :: "string list" where
  "publish_error_codes =
     [''BROKER_NACK'', ''BROKER_UNROUTABLE'', ''BROKER_UNAVAILABLE'', ''BROKER_ERROR'']"

definition record_publish_result ::
  "env \<Rightarrow> world \<Rightarrow> string \<Rightarrow> publish_result \<Rightarrow> dispatch_response handler_result" where
  "record_publish_result e w run_id result =
     (case get_run w run_id of
        None \<Rightarrow> Inl (ResourceConflictError ''outbox missing'')
      | Some run \<Rightarrow>
          (case tr_dispatch_outbox run of
             None \<Rightarrow> Inl (ResourceConflictError ''outbox missing'')
           | Some outbox \<Rightarrow>
               (let ob =
                  (if ob_status outbox = OUTBOX_PUBLISHED then outbox
                   else if pr_published result
                   then outbox\<lparr>ob_status := OUTBOX_PUBLISHED, ob_published_at := Some (en_now e),
                               ob_last_error := None\<rparr>
                   else outbox\<lparr>ob_status := OUTBOX_FAILED,
                               ob_last_error := Some (case pr_code result of
                                  Some c \<Rightarrow> if c \<in> set publish_error_codes then c else ''BROKER_ERROR''
                                | None \<Rightarrow> ''BROKER_ERROR'')\<rparr>)
                in Inr (make_dispatch_response run ob, store_outbox w run ob))))"

definition log_sent :: "env \<Rightarrow> string \<Rightarrow> task_payload \<Rightarrow> world \<Rightarrow> world" where
  "log_sent e routing_key payload w =
     w\<lparr>w_sent := w_sent w
         @ [\<lparr>tm_routing_key = routing_key, tm_payload = payload,
             tm_confirmed = pr_published (en_publish e routing_key payload)\<rparr>]\<rparr>"

definition dispatch_run ::
  "env \<Rightarrow> string \<Rightarrow> bool \<Rightarrow> world \<Rightarrow> current_user \<Rightarrow> string \<Rightarrow> dispatch_response handler_result" where
  "dispatch_run e message_id runner_prevalidated w user run_id =
     res_bind (dispatch_begin e message_id runner_prevalidated w user run_id) (\<lambda>(progress, w1).
     case progress of
       DispatchDone response \<Rightarrow> Inr (response, w1)
     | DispatchPublish routing_key payload \<Rightarrow>
         record_publish_result e (log_sent e routing_key payload w1) run_id
           (en_publish e routing_key payload))"

section \<open>Batch dispatch\<close>

record batch_item =
  bi_run_id :: string
  bi_dispatched :: bool
  bi_run_status :: "run_status option"
  bi_outbox_status :: "dispatch_outbox_status option"
  bi_error_code :: "string option"

definition batch_dispatch_error_item :: "string \<Rightarrow> app_error \<Rightarrow> batch_item" where
  "batch_dispatch_error_item run_id err =
     \<lparr>bi_run_id = run_id, bi_dispatched = False, bi_run_status = None, bi_outbox_status = None,
      bi_error_code = Some (case err of InternalError _ \<Rightarrow> ''RUN_DISPATCH_ERROR'' | _ \<Rightarrow> error_code err)\<rparr>"

definition batch_preflight :: "env \<Rightarrow> world \<Rightarrow> int \<Rightarrow> string \<Rightarrow> app_error + unit" where
  "batch_preflight e w project_id run_id =
     (case get_run w run_id of
        None \<Rightarrow> Inl (ResourceNotFoundError ''run'')
      | Some run \<Rightarrow>
          if tr_project_id run \<noteq> project_id then Inl (ResourceNotFoundError ''run'')
          else if tr_status run \<noteq> RUN_CREATED
          then run_conflict ''only CREATED runs can join a batch''
          else
            res_bind (if tr_run_type run = API_CASE
                      then res_bind (en_api_case e run True) (\<lambda>_. Inr ()) else Inr ()) (\<lambda>_.
            res_bind (dispatch_runner_issues e w run) (\<lambda>_. Inr ())))"

definition batch_item_of :: "string \<Rightarrow> dispatch_response \<Rightarrow> batch_item" where
  "batch_item_of run_id response =
     (let dispatched = dr_outbox_status response = OUTBOX_PUBLISHED in
      \<lparr>bi_run_id = run_id, bi_dispatched = dispatched,
       bi_run_status = Some (dr_run_status response),
       bi_outbox_status = Some (dr_outbox_status response),
       bi_error_code = (if dispatched then None else Some ''RUN_DISPATCH_NOT_PUBLISHED'')\<rparr>)"

text \<open>The second loop of the batch; \<open>message_ids\<close> supplies the \<open>uuid4\<close> of each Run.\<close>

fun batch_publish ::
  "env \<Rightarrow> (string \<Rightarrow> string) \<Rightarrow> current_user \<Rightarrow> world \<Rightarrow> string list \<Rightarrow> batch_item list \<times> world" where
  "batch_publish e message_ids user w [] = ([], w)"
| "batch_publish e message_ids user w (run_id # rest) =
     (let (item, w1) =
        (case dispatch_run e (message_ids run_id) True w user run_id of
           Inl err \<Rightarrow> (batch_dispatch_error_item run_id err, w)
         | Inr (response, w') \<Rightarrow> (batch_item_of run_id response, w'));
          (items, w2) = batch_publish e message_ids user w1 rest
      in (item # items, w2))"

definition preflight_errors :: "env \<Rightarrow> world \<Rightarrow> int \<Rightarrow> string list \<Rightarrow> batch_item list" where
  "preflight_errors e w project_id run_ids =
     concat (map (\<lambda>run_id. case batch_preflight e w project_id run_id of
                     Inl err \<Rightarrow> [batch_dispatch_error_item run_id err]
                   | Inr _ \<Rightarrow> []) run_ids)"

definition dispatch_runs_batch ::
  "env \<Rightarrow> (string \<Rightarrow> string) \<Rightarrow> world \<Rightarrow> current_user \<Rightarrow> int \<Rightarrow> string list
     \<Rightarrow> (int \<times> int \<times> int \<times> batch_item list) handler_result" where
  "dispatch_runs_batch e message_ids w user project_id run_ids =
     res_bind (get_project (w_db w) user project_id) (\<lambda>project.
     res_bind (ensure_project_writable (w_db w) project user) (\<lambda>_.
     let errors = preflight_errors e w project_id run_ids;
         ready = filter (\<lambda>run_id. batch_preflight e w project_id run_id = Inr ()) run_ids;
         (sent, w1) = batch_publish e message_ids user w ready;
         item_by_run_id = (\<lambda>run_id. find (\<lambda>it. bi_run_id it = run_id) (sent @ errors));
         items = map (\<lambda>run_id. the (item_by_run_id run_id)) run_ids;
         dispatched = int (length (filter bi_dispatched items))
     in Inr ((int (length items), dispatched, int (length items) - dispatched, items), w1)))"

section \<open>Claim\<close>

record claim_response =
  cl_run_id :: string
  cl_message_id :: string
  cl_runner_id :: string
  cl_status :: run_status
  cl_claimed_at :: "datetime option"
  cl_idempotent :: bool

definition make_claim_response ::
  "test_run \<Rightarrow> run_dispatch_outbox \<Rightarrow> runner_row \<Rightarrow> run_status \<Rightarrow> datetime option \<Rightarrow> bool
     \<Rightarrow> claim_response" where
  "make_claim_response run outbox runner status claimed_at idempotent =
     \<lparr>cl_run_id = tr_id run, cl_message_id = ob_message_id outbox, cl_runner_id = rn_id runner,
      cl_status = status, cl_claimed_at = claimed_at, cl_idempotent = idempotent\<rparr>"

definition stop_error_type :: "test_run \<Rightarrow> string" where
  "stop_error_type run =
     (if tr_force_stop_requested_at run \<noteq> None then ''FORCE_STOP_REQUESTED'' else ''CANCEL_REQUESTED'')"

definition stop_error_message :: "test_run \<Rightarrow> string" where
  "stop_error_message run =
     (if tr_force_stop_requested_at run \<noteq> None
      then ''execution force stopped, cleanup may be incomplete'' else ''execution cancelled'')"

definition finalize_cancelling_run_on_claim :: "env \<Rightarrow> world \<Rightarrow> test_run \<Rightarrow> app_error + world" where
  "finalize_cancelling_run_on_claim e w run =
     (let error_type = Some (stop_error_type run); error_message = Some (stop_error_message run) in
      res_bind (close_children (en_now e) NODE_CANCELLED
                 (error_node_update NODE_CANCELLED error_type error_message)
                 (tr_case_runs run)) (\<lambda>cs.
      let run1 = recompute_summary
                   (run\<lparr>tr_case_runs := cs,
                        tr_force_stopped :=
                          (if tr_force_stop_requested_at run \<noteq> None then True
                           else tr_force_stopped run)\<rparr>)
      in res_bind (ensure_terminal_run_matches_children run1 RUN_CANCELLED) (\<lambda>_.
         res_bind (set_run_status (en_now e) run1 RUN_CANCELLED
                    (error_run_update RUN_CANCELLED error_type error_message)) (\<lambda>(_, run2).
         Inr (commit_run e w run2 RUN_CANCELLING RUN_CANCELLED (first_case_id run2))))))"

text \<open>The branch of \<open>claim_run\<close> that hands a QUEUED Run to its Runner.\<close>

definition claim_queued ::
  "env \<Rightarrow> world \<Rightarrow> test_run \<Rightarrow> run_dispatch_outbox \<Rightarrow> runner_row \<Rightarrow> claim_response handler_result" where
  "claim_queued e w run outbox runner =
     res_bind (if tr_run_type run = API_CASE
               then res_bind (en_api_case e run True) (\<lambda>_. Inr ()) else Inr ()) (\<lambda>_.
     if ob_status outbox = OUTBOX_PENDING \<and> ob_claimed_runner_id outbox = None
        \<and> ob_claimed_at outbox = None
     then Inl RunDispatchPendingError
     else if ob_status outbox \<noteq> OUTBOX_PUBLISHED
     then run_conflict ''publish not confirmed''
     else if ob_claimed_runner_id outbox \<noteq> None
     then run_conflict ''claimed by another message''
     else
       (let ob = outbox\<lparr>ob_claimed_runner_id := Some (rn_id runner),
                        ob_claimed_at := Some (en_now e)\<rparr>;
            run1 = run\<lparr>tr_dispatch_outbox := Some ob,
                       tr_total_timeout_ms :=
                         (case tr_total_timeout_ms run of
                            None \<Rightarrow> Some (en_default_total_timeout_ms e) | Some t \<Rightarrow> Some t)\<rparr>
        in res_bind (set_run_status (en_now e) run1 RUN_ASSIGNED (plain_run_update RUN_ASSIGNED))
             (\<lambda>(_, run2).
           Inr (make_claim_response run2 ob runner RUN_ASSIGNED (Some (en_now e)) False,
                commit_run e w run2 RUN_QUEUED RUN_ASSIGNED (first_case_id run2)))))"

definition claim_cancelling ::
  "env \<Rightarrow> world \<Rightarrow> test_run \<Rightarrow> run_dispatch_outbox \<Rightarrow> runner_row \<Rightarrow> claim_response handler_result"
  where
  "claim_cancelling e w run outbox runner =
     (if ob_status outbox \<noteq> OUTBOX_PUBLISHED
         \<or> (ob_claimed_runner_id outbox \<noteq> None
            \<and> ob_claimed_runner_id outbox \<noteq> Some (rn_id runner))
      then run_conflict ''message of a cancelling run cannot be claimed''
      else
        (let ob = (if ob_claimed_runner_id outbox = None
                   then outbox\<lparr>ob_claimed_runner_id := Some (rn_id runner),
                               ob_claimed_at := Some (en_now e)\<rparr>
                   else outbox)
         in res_bind (finalize_cancelling_run_on_claim e w (run\<lparr>tr_dispatch_outbox := Some ob\<rparr>))
              (\<lambda>w'. Inr (make_claim_response run ob runner RUN_CANCELLED None True, w'))))"

definition claim_run ::
  "env \<Rightarrow> world \<Rightarrow> string \<Rightarrow> string \<Rightarrow> string \<Rightarrow> claim_response handler_result" where
  "claim_run e w run_id credential message_id =
     res_bind (require_run w run_id) (\<lambda>run.
     res_bind (authenticate_runner_for_run e w run credential) (\<lambda>runner.
     case tr_dispatch_outbox run of
       None \<Rightarrow> run_conflict ''task message does not match the run''
     | Some outbox \<Rightarrow>
         if ob_message_id outbox \<noteq> message_id
         then run_conflict ''task message does not match the run''
         else if validate_dispatch_payload run outbox = None
         then run_conflict ''task envelope invalid''
         else if (tr_status run = RUN_ASSIGNED \<or> tr_status run = RUN_RUNNING)
           \<and> ob_status outbox = OUTBOX_PUBLISHED
           \<and> ob_claimed_runner_id outbox = Some (rn_id runner) \<and> ob_claimed_at outbox \<noteq> None
         then Inr (make_claim_response run outbox runner RUN_ASSIGNED (ob_claimed_at outbox) True, w)
         else if tr_status run = RUN_CANCELLED
         then (if ob_status outbox \<noteq> OUTBOX_PUBLISHED \<or> ob_claimed_runner_id outbox \<noteq> None
                  \<or> ob_claimed_at outbox \<noteq> None
               then run_conflict ''message of a cancelled run cannot be claimed''
               else Inr (make_claim_response run outbox runner RUN_CANCELLED None True, w))
         else if tr_status run = RUN_CANCELLING then claim_cancelling e w run outbox runner
         else if tr_status run \<noteq> RUN_QUEUED then run_conflict ''only QUEUED runs can be claimed''
         else claim_queued e w run outbox runner))"

section \<open>Every step of dispatch and claim evolves the Run table\<close>

lemma run_evolves_outbox:
  assumes old: "tr_dispatch_outbox r = Some ob"
    and keep: "ob_run_id ob' = ob_run_id ob" "ob_claimed_runner_id ob' = ob_claimed_runner_id ob"
      "ob_message_id ob' = ob_message_id ob" "ob_attempt_count ob \<le> ob_attempt_count ob'"
    and ok: "outbox_row_ok r ob \<Longrightarrow> outbox_row_ok r ob'"
  shows "run_evolves r (r\<lparr>tr_dispatch_outbox := Some ob'\<rparr>)"
proof -
  let ?r = "r\<lparr>tr_dispatch_outbox := Some ob'\<rparr>"
  have "outbox_row_ok ?r ob' = outbox_row_ok r ob'" by (simp add: outbox_row_ok_def)
  then have "outbox_ok r \<Longrightarrow> outbox_ok ?r"
    using old keep ok by (simp add: outbox_ok_def claimed_by_def)
  moreover have "results_ok r \<Longrightarrow> results_ok ?r"
    using old by (cases "tr_status r") (simp_all add: results_ok_def all_cases_terminal_def
        case_status_in_def)
  ultimately have "run_inv r \<Longrightarrow> run_inv ?r"
    by (simp add: run_inv_def summary_ok_iff times_ok_def)
  then show ?thesis
    using old keep
    by (simp add: run_evolves_def claimed_by_def run_machine.edge_refl outbox_keeps_def)
qed

lemma validate_dispatch_payload_Some:
  "validate_dispatch_payload run ob = Some p \<Longrightarrow>
     p = ob_payload ob \<and> envelope_valid p \<and> ob_run_id ob = tr_id run
     \<and> tr_runner_id run = Some (ob_runner_id ob) \<and> tr_runner_id run = Some (tp_runner_id p)
     \<and> ob_routing_key ob = expected_dispatch_routing_key run \<and> tp_run_id p = tr_id run
     \<and> tp_message_id p = ob_message_id ob
     \<and> tp_required_slot_type p = slot_type_value (tr_required_slot_type run)"
  by (auto simp: validate_dispatch_payload_def Let_def split: if_splits)

lemma dispatch_attempt_evolves:
  assumes "tr_dispatch_outbox r = Some ob" and "ob_status ob \<noteq> OUTBOX_PUBLISHED"
  shows "\<exists>r'. snd (dispatch_attempt w r ob) = put_run w r' \<and> run_evolves r r'
    \<and> tr_status r' = tr_status r"
proof -
  have bad: "run_evolves r (r\<lparr>tr_dispatch_outbox :=
      Some (ob\<lparr>ob_status := OUTBOX_FAILED, ob_last_error := x\<rparr>)\<rparr>)" for x
    using assms by (intro run_evolves_outbox[OF assms(1)]) (auto simp: outbox_row_ok_def)
  have good: "run_evolves r (r\<lparr>tr_dispatch_outbox :=
      Some (ob\<lparr>ob_payload := p, ob_attempt_count := ob_attempt_count ob + 1,
               ob_status := OUTBOX_PENDING, ob_last_error := None\<rparr>)\<rparr>)"
    if "ob_attempt_count ob < 10" for p
    using assms that by (intro run_evolves_outbox[OF assms(1)]) (auto simp: outbox_row_ok_def)
  show ?thesis
    using bad good
    by (auto simp: dispatch_attempt_def store_outbox_def Let_def dispatch_max_attempts_def
        split: option.splits)
qed

lemma dispatch_create_evolves:
  assumes ok: "dispatch_create e m w run = Inr (run1, ob, w1)"
    and st: "tr_status run = RUN_CREATED" "tr_dispatch_outbox run = None"
  shows "tr_dispatch_outbox run1 = Some ob" "ob_status ob = OUTBOX_PENDING" "ob_attempt_count ob = 0"
    "tr_id run1 = tr_id run" "run_evolves run run1" "tr_status run1 = RUN_QUEUED"
    "w1 = commit_run e w run1 RUN_CREATED RUN_QUEUED (first_case_id run1)"
proof -
  obtain p b where p: "task_envelope run m 1 (en_now e) = Inr p"
    and ob: "ob_run_id ob = tr_id run" "ob_status ob = OUTBOX_PENDING" "ob_attempt_count ob = 0"
      "ob_claimed_runner_id ob = None" "ob_claimed_at ob = None"
    and set: "set_run_status (en_now e) (run\<lparr>tr_dispatch_outbox := Some ob\<rparr>) RUN_QUEUED
                (plain_run_update RUN_QUEUED) = Inr (b, run1)"
    and w1: "w1 = (if b then commit_run e w run1 RUN_CREATED RUN_QUEUED (first_case_id run1)
                   else put_run w run1)"
    using ok by (auto simp: dispatch_create_def res_simps Let_def)
  note frame = set_run_status_frame[OF set]
  show "tr_dispatch_outbox run1 = Some ob" "tr_id run1 = tr_id run" "tr_status run1 = RUN_QUEUED"
    using frame by simp_all
  show "ob_status ob = OUTBOX_PENDING" "ob_attempt_count ob = 0" by fact+
  show "w1 = commit_run e w run1 RUN_CREATED RUN_QUEUED (first_case_id run1)"
    using w1 set st by (auto simp: set_run_status_def Let_def split: if_splits)
  have "run_inv run1" if inv: "run_inv run"
  proof -
    have "times_ok run1"
      using set_run_status_times[OF set] inv by (simp add: run_inv_def times_ok_def)
    moreover have "summary_ok run1"
      using set_run_status_summary[OF set] inv by (simp add: run_inv_def summary_ok_iff)
    moreover have "results_ok run1" "outbox_ok run1"
      using frame ob by (simp_all add: results_ok_def outbox_ok_def outbox_row_ok_def)
    ultimately show ?thesis by (simp add: run_inv_def)
  qed
  then show "run_evolves run run1"
    using frame st by (simp add: run_evolves_def claimed_by_def run_machine.edge_def)
qed

text \<open>Two commits of one handler on the same row, the second without a status change.\<close>

lemma run_evolves_then:
  assumes "run_evolves r r1" and "run_evolves r1 r2" and "tr_status r2 = tr_status r1"
  shows "run_evolves r r2"
proof -
  have "list_all2 case_evolves (tr_case_runs r) (tr_case_runs r2)"
    using assms(1,2) cases_evolve_trans[of "tr_case_runs r" "tr_case_runs r1"]
    by (simp add: run_evolves_def)
  moreover have "outbox_keeps (tr_dispatch_outbox r) (tr_dispatch_outbox r2)"
    using assms(1,2) outbox_keeps_trans[of "tr_dispatch_outbox r" "tr_dispatch_outbox r1"]
    by (simp add: run_evolves_def)
  ultimately show ?thesis using assms by (simp add: run_evolves_def)
qed

lemma put_put_run: "tr_id r' = tr_id r \<Longrightarrow> put_run (put_run w r) r' = put_run w r'"
proof -
  have "put_row tr_id r' (put_row tr_id r rs) = put_row tr_id r' rs" if "tr_id r' = tr_id r" for rs
    using that by (induction rs) auto
  then show "tr_id r' = tr_id r \<Longrightarrow> put_run (put_run w r) r' = put_run w r'"
    by (simp add: put_run_def)
qed

lemma put_run_publish:
  "put_run (publish_event e run f t c x w) r = publish_event e run f t c x (put_run w r)"
  by (simp add: publish_event_def put_run_def)

lemma dispatch_begin_step:
  assumes ok: "dispatch_begin e m pre w u i = Inr (pg, w')"
  shows "world_step w w'"
proof -
  obtain run where run: "get_run w i = Some run"
    using ok by (auto simp: dispatch_begin_def res_simps)
  show ?thesis
  proof (cases "tr_dispatch_outbox run")
    case (Some ob)
    show ?thesis
    proof (cases "ob_status ob = OUTBOX_PUBLISHED")
      case True
      then show ?thesis using ok run Some by (auto simp: dispatch_begin_def res_simps split: if_splits)
    next
      case False
      with ok run Some have "w' = snd (dispatch_attempt w run ob)"
        by (auto simp: dispatch_begin_def res_simps split: if_splits)
      then show ?thesis
        using dispatch_attempt_evolves[OF Some False] world_step_put[OF run] by metis
    qed
  next
    case None
    then obtain run1 ob w1 where st: "tr_status run = RUN_CREATED"
      and cr: "dispatch_create e m w run = Inr (run1, ob, w1)"
      and w': "w' = snd (dispatch_attempt w1 run1 ob)"
      using ok run by (auto simp: dispatch_begin_def res_simps split: if_splits)
    note created = dispatch_create_evolves[OF cr st None]
    obtain r2 where r2: "w' = put_run w1 r2" "run_evolves run1 r2" "tr_status r2 = tr_status run1"
      using dispatch_attempt_evolves[OF created(1), of w1] created(2) w' by auto
    have ids: "tr_id r2 = tr_id run1" using r2(2) by (simp add: run_evolves_def)
    have "w' = publish_event e run1 (Some RUN_CREATED) RUN_QUEUED (first_case_id run1) None
        (put_run w r2)"
      using r2(1) created(7) put_put_run[OF ids] by (simp add: commit_run_def put_run_publish)
    moreover have "run_evolves run r2" using created(5) r2(2,3) by (rule run_evolves_then)
    ultimately show ?thesis
      by (auto intro: world_step_publish world_step_put[OF run])
  qed
qed

lemma record_publish_shape:
  assumes "record_publish_result e w i res = Inr (rsp, w')"
  shows "\<exists>run ob s a x. get_run w i = Some run \<and> tr_dispatch_outbox run = Some ob
    \<and> w' = put_run w (run\<lparr>tr_dispatch_outbox :=
        Some (if ob_status ob = OUTBOX_PUBLISHED then ob
              else ob\<lparr>ob_status := s, ob_published_at := a, ob_last_error := x\<rparr>)\<rparr>)"
proof -
  obtain run ob where run: "get_run w i = Some run" "tr_dispatch_outbox run = Some ob"
    using assms by (auto simp: record_publish_result_def split: option.splits)
  show ?thesis
  proof (cases "ob_status ob = OUTBOX_PUBLISHED \<or> pr_published res")
    case True
    then have "w' = put_run w (run\<lparr>tr_dispatch_outbox :=
        Some (if ob_status ob = OUTBOX_PUBLISHED then ob
              else ob\<lparr>ob_status := OUTBOX_PUBLISHED, ob_published_at := Some (en_now e),
                      ob_last_error := None\<rparr>)\<rparr>)"
      using assms run by (auto simp: record_publish_result_def store_outbox_def Let_def)
    with run show ?thesis by blast
  next
    case False
    then obtain c where "w' = put_run w (run\<lparr>tr_dispatch_outbox :=
        Some (ob\<lparr>ob_status := OUTBOX_FAILED, ob_last_error := Some c\<rparr>)\<rparr>)"
      using assms run by (auto simp: record_publish_result_def store_outbox_def Let_def)
    moreover have "ob\<lparr>ob_status := OUTBOX_FAILED, ob_published_at := ob_published_at ob,
           ob_last_error := Some c\<rparr> = ob\<lparr>ob_status := OUTBOX_FAILED, ob_last_error := Some c\<rparr>"
      by simp
    ultimately have "w' = put_run w (run\<lparr>tr_dispatch_outbox :=
        Some (if ob_status ob = OUTBOX_PUBLISHED then ob
              else ob\<lparr>ob_status := OUTBOX_FAILED, ob_published_at := ob_published_at ob,
                      ob_last_error := Some c\<rparr>)\<rparr>)"
      using False by simp
    with run show ?thesis by blast
  qed
qed

lemma record_publish_step:
  assumes ok: "record_publish_result e w i res = Inr (rsp, w')"
    and attempted: "\<And>r ob. get_run w i = Some r \<Longrightarrow> tr_dispatch_outbox r = Some ob \<Longrightarrow>
                      1 \<le> ob_attempt_count ob"
  shows "world_step w w'"
proof -
  obtain run ob s a x where run: "get_run w i = Some run" and ob: "tr_dispatch_outbox run = Some ob"
    and put: "w' = put_run w (run\<lparr>tr_dispatch_outbox :=
        Some (if ob_status ob = OUTBOX_PUBLISHED then ob
              else ob\<lparr>ob_status := s, ob_published_at := a, ob_last_error := x\<rparr>)\<rparr>)"
    using record_publish_shape[OF ok] by (elim exE conjE)
  define ob' where ob': "ob' = (if ob_status ob = OUTBOX_PUBLISHED then ob
    else ob\<lparr>ob_status := s, ob_published_at := a, ob_last_error := x\<rparr>)"
  have w': "w' = put_run w (run\<lparr>tr_dispatch_outbox := Some ob'\<rparr>)" using put by (simp add: ob')
  have "run_evolves run (run\<lparr>tr_dispatch_outbox := Some ob'\<rparr>)"
    using ob' attempted[OF run ob]
    by (intro run_evolves_outbox[OF ob]) (auto simp: outbox_row_ok_def)
  then show ?thesis unfolding w' by (rule world_step_put[OF run])
qed

lemma log_sent_get [simp]: "get_run (log_sent e k p w) i = get_run w i"
  by (simp add: log_sent_def get_run_def)

text \<open>What is handed to the broker.\<close>

definition message_fits :: "test_run \<Rightarrow> string \<Rightarrow> task_payload \<Rightarrow> bool" where
  "message_fits r k p \<longleftrightarrow>
     (\<exists>ob. tr_dispatch_outbox r = Some ob \<and> ob_message_id ob = tp_message_id p
        \<and> tp_attempt p \<le> ob_attempt_count ob)
     \<and> envelope_valid p \<and> tp_run_id p = tr_id r \<and> tr_runner_id r = Some (tp_runner_id p)
     \<and> tp_required_slot_type p = slot_type_value (tr_required_slot_type r)
     \<and> k = expected_dispatch_routing_key r"

lemma message_fits_evolves: "message_fits r k p \<Longrightarrow> run_evolves r r' \<Longrightarrow> message_fits r' k p"
  by (auto simp: message_fits_def run_evolves_def outbox_keeps_def expected_dispatch_routing_key_def
      split: option.splits)

lemma dispatch_attempt_publish:
  assumes at: "dispatch_attempt w r ob = (DispatchPublish k p, w')"
    and there: "get_run w (tr_id r) \<noteq> None" and pos: "0 \<le> ob_attempt_count ob"
  shows "\<exists>r'. get_run w' (tr_id r) = Some r' \<and> message_fits r' k p"
proof -
  obtain env where env: "validate_dispatch_payload r ob = Some env"
    and lt: "ob_attempt_count ob < 10"
    using at by (auto simp: dispatch_attempt_def Let_def dispatch_max_attempts_def
        split: option.splits if_splits)
  define ob' where "ob' = ob\<lparr>ob_payload := env\<lparr>tp_attempt := ob_attempt_count ob + 1\<rparr>,
    ob_attempt_count := ob_attempt_count ob + 1, ob_status := OUTBOX_PENDING, ob_last_error := None\<rparr>"
  have kp: "k = ob_routing_key ob'" "p = ob_payload ob'" "w' = store_outbox w r ob'"
    using at env lt
    by (auto simp: dispatch_attempt_def Let_def dispatch_max_attempts_def ob'_def)
  have "get_run w' (tr_id r) = Some (r\<lparr>tr_dispatch_outbox := Some ob'\<rparr>)"
    using there by (auto simp: kp store_outbox_def get_put_run)
  moreover have "message_fits (r\<lparr>tr_dispatch_outbox := Some ob'\<rparr>) k p"
    using validate_dispatch_payload_Some[OF env] lt pos
    by (auto simp: message_fits_def kp ob'_def envelope_valid_def expected_dispatch_routing_key_def)
  ultimately show ?thesis by blast
qed

lemma dispatch_begin_publish:
  assumes ok: "dispatch_begin e m pre w u i = Inr (DispatchPublish k p, w')"
    and inv: "\<And>r. get_run w i = Some r \<Longrightarrow> run_inv r"
  shows "\<exists>r'. get_run w' i = Some r' \<and> message_fits r' k p"
proof -
  obtain run where run: "get_run w i = Some run"
    using ok by (auto simp: dispatch_begin_def res_simps)
  note id = get_run_id[OF run]
  show ?thesis
  proof (cases "tr_dispatch_outbox run")
    case (Some ob)
    have "0 \<le> ob_attempt_count ob"
      using inv[OF run] Some by (auto simp: run_inv_def outbox_ok_def outbox_row_ok_def)
    moreover have "dispatch_attempt w run ob = (DispatchPublish k p, w')"
      using ok run Some by (auto simp: dispatch_begin_def res_simps split: if_splits)
    ultimately show ?thesis
      using dispatch_attempt_publish[of w run ob k p w'] run id by auto
  next
    case None
    then obtain run1 ob w1 where st: "tr_status run = RUN_CREATED"
      and cr: "dispatch_create e m w run = Inr (run1, ob, w1)"
      and at: "dispatch_attempt w1 run1 ob = (DispatchPublish k p, w')"
      using ok run by (auto simp: dispatch_begin_def res_simps split: if_splits)
    note created = dispatch_create_evolves[OF cr st None]
    have "get_run w1 (tr_id run1) \<noteq> None"
      using created(4,7) run id by (simp add: commit_run_def get_put_run)
    then show ?thesis
      using dispatch_attempt_publish[OF at] created(3,4) id by simp
  qed
qed

section \<open>Claim\<close>

lemma close_finish_evolves:
  assumes cs: "close_children now NODE_CANCELLED p cs = Inr cs'"
  shows "list_all2 case_evolves cs cs'" "list_all (\<lambda>c. terminal_node_status (nd_status c)) cs'"
  using close_children_evolve(1)[OF cs] close_children_terminal[OF cs] by simp_all

lemma finalize_evolves:
  assumes "finalize_cancelling_run_on_claim e w r = Inr w'"
  shows "\<exists>r'. w' = commit_run e w r' RUN_CANCELLING RUN_CANCELLED (first_case_id r')
    \<and> run_evolves r r' \<and> tr_status r' = RUN_CANCELLED
    \<and> list_all (\<lambda>c. terminal_node_status (nd_status c)) (tr_case_runs r')"
proof -
  let ?t = "Some (stop_error_type r)" and ?m = "Some (stop_error_message r)"
  define f where "f = (if tr_force_stop_requested_at r \<noteq> None then True else tr_force_stopped r)"
  obtain cs b r' where cs: "close_children (en_now e) NODE_CANCELLED
        (error_node_update NODE_CANCELLED ?t ?m) (tr_case_runs r) = Inr cs"
    and ens: "ensure_terminal_run_matches_children
        (recompute_summary (r\<lparr>tr_case_runs := cs, tr_force_stopped := f\<rparr>)) RUN_CANCELLED = Inr ()"
    and set: "set_run_status (en_now e)
        (recompute_summary (r\<lparr>tr_case_runs := cs, tr_force_stopped := f\<rparr>)) RUN_CANCELLED
        (error_run_update RUN_CANCELLED ?t ?m) = Inr (b, r')"
    and w': "w' = commit_run e w r' RUN_CANCELLING RUN_CANCELLED (first_case_id r')"
    using assms unfolding finalize_cancelling_run_on_claim_def Let_def f_def[symmetric]
    by (auto simp: res_simps simp del: recompute_ensure)
  have "results_ok (r\<lparr>tr_case_runs := cs, tr_force_stopped := f, tr_status := RUN_CANCELLED\<rparr>)"
    using ensure_results_ok[of "r\<lparr>tr_case_runs := cs, tr_force_stopped := f\<rparr>" RUN_CANCELLED] ens
    by simp
  then have "run_evolves r r'"
    using close_finish_evolves[OF cs] by (intro summary_evolves[OF set]) simp_all
  moreover have "tr_case_runs r' = cs" "tr_status r' = RUN_CANCELLED"
    using set_run_status_frame[OF set] by (simp_all add: row_frame)
  ultimately show ?thesis using w' close_finish_evolves(2)[OF cs] by auto
qed

lemma claim_queued_evolves:
  assumes ok: "claim_queued e w run ob runner = Inr (rsp, w')"
    and st: "tr_status run = RUN_QUEUED" and ob: "tr_dispatch_outbox run = Some ob"
    and rid: "tr_runner_id run = Some (rn_id runner)"
  shows "\<exists>r'. w' = commit_run e w r' RUN_QUEUED RUN_ASSIGNED (first_case_id r') \<and> run_evolves run r'
    \<and> tr_status r' = RUN_ASSIGNED \<and> claimed_by run = None \<and> claimed_by r' = Some (rn_id runner)"
proof -
  define ob' where "ob' = ob\<lparr>ob_claimed_runner_id := Some (rn_id runner),
                             ob_claimed_at := Some (en_now e)\<rparr>"
  define run1 where "run1 = run\<lparr>tr_dispatch_outbox := Some ob',
    tr_total_timeout_ms := (case tr_total_timeout_ms run of
       None \<Rightarrow> Some (en_default_total_timeout_ms e) | Some t \<Rightarrow> Some t)\<rparr>"
  obtain b r' where free: "ob_status ob = OUTBOX_PUBLISHED" "ob_claimed_runner_id ob = None"
    and set: "set_run_status (en_now e) run1 RUN_ASSIGNED (plain_run_update RUN_ASSIGNED) = Inr (b, r')"
    and w': "w' = commit_run e w r' RUN_QUEUED RUN_ASSIGNED (first_case_id r')"
    using ok by (auto simp: claim_queued_def res_simps Let_def run1_def ob'_def split: if_splits)
  note frame = set_run_status_frame[OF set]
  have claimed: "claimed_by run = None" "claimed_by r' = Some (rn_id runner)"
    using frame free ob by (simp_all add: claimed_by_def run1_def ob'_def)
  have "run_inv r'" if inv: "run_inv run"
  proof -
    have "times_ok r'"
      using set_run_status_times[OF set] inv by (simp add: run_inv_def times_ok_def run1_def)
    moreover have "summary_ok r'"
      using set_run_status_summary[OF set] inv by (simp add: run_inv_def summary_ok_iff run1_def)
    moreover have "outbox_ok r'"
      using inv frame free ob rid claimed
      by (auto simp: run_inv_def outbox_ok_def outbox_row_ok_def run1_def ob'_def
          split: option.splits)
    ultimately show ?thesis using frame by (simp add: run_inv_def results_ok_def)
  qed
  then have "run_evolves run r'"
    using frame st claimed ob
    by (simp add: run_evolves_def run_machine.edge_def run1_def ob'_def outbox_keeps_def
        split: option.splits)
  then show ?thesis using w' frame claimed by blast
qed

lemma claim_cancelling_step:
  assumes ok: "claim_cancelling e w run ob runner = Inr (rsp, w')"
    and st: "tr_status run = RUN_CANCELLING" and ob: "tr_dispatch_outbox run = Some ob"
    and rid: "tr_runner_id run = Some (rn_id runner)" and run: "get_run w i = Some run"
  shows "world_step w w'"
proof -
  define ob' where "ob' = (if ob_claimed_runner_id ob = None
    then ob\<lparr>ob_claimed_runner_id := Some (rn_id runner), ob_claimed_at := Some (en_now e)\<rparr> else ob)"
  define run1 where "run1 = run\<lparr>tr_dispatch_outbox := Some ob'\<rparr>"
  have pub: "ob_status ob = OUTBOX_PUBLISHED"
    and fin: "finalize_cancelling_run_on_claim e w run1 = Inr w'"
    using ok by (auto simp: claim_cancelling_def res_simps Let_def ob'_def run1_def split: if_splits)
  obtain r' where w': "w' = commit_run e w r' RUN_CANCELLING RUN_CANCELLED (first_case_id r')"
    and r': "run_evolves run1 r'" "tr_status r' = RUN_CANCELLED"
    using finalize_evolves[OF fin] by blast
  have inv1: "run_inv run1" if "run_inv run"
    using that pub ob rid st
    by (auto simp: run_inv_def run1_def ob'_def summary_ok_iff times_ok_def results_ok_def
        outbox_ok_def outbox_row_ok_def claimed_by_def)
  have "run_evolves run r'"
    using r' inv1 ob
    by (auto simp: run_evolves_def run1_def ob'_def claimed_by_def outbox_keeps_def
        split: option.splits if_splits)
  then show ?thesis unfolding w' by (rule world_step_commit[OF run])
qed

lemma claim_run_step:
  assumes ok: "claim_run e w i cred m = Inr (rsp, w')"
  shows "world_step w w'"
proof -
  obtain run runner ob where run: "get_run w i = Some run"
    and auth: "authenticate_runner_for_run e w run cred = Inr runner"
    and ob: "tr_dispatch_outbox run = Some ob"
    using ok by (auto simp: claim_run_def res_simps split: option.splits)
  note rid = authenticate_runner_id[OF auth, THEN conjunct1]
  consider "w' = w"
    | "tr_status run = RUN_CANCELLING" "claim_cancelling e w run ob runner = Inr (rsp, w')"
    | "tr_status run = RUN_QUEUED" "claim_queued e w run ob runner = Inr (rsp, w')"
    using ok run auth ob by (auto simp: claim_run_def res_simps split: if_splits)
  then show ?thesis
  proof cases
    case 1
    then show ?thesis by simp
  next
    case 2
    then show ?thesis using claim_cancelling_step ob rid run by blast
  next
    case 3
    then show ?thesis
      using claim_queued_evolves[OF 3(2) 3(1) ob rid] world_step_commit[OF run] by metis
  qed
qed

end
