(* ===== verification/Run_Recovery.thy ===== *)
theory Run_Recovery
  imports Run_Dispatch "HOL-Library.Product_Lexorder"
begin

text \<open>
  Control-plane recovery: Runs of a disconnected Runner are failed, Runs past their deadline are
  closed. \<open>reconcile_disconnected_runner_runs_core\<close>, \<open>reconcile_overdue_run_core\<close> and their
  helpers of \<open>runs/service.py\<close> and the scan round of \<open>runs/disconnect_coordinator.py\<close>.

  Durations (\<open>ttl\<close>, \<open>grace\<close>) are in microseconds, the resolution of \<open>timedelta\<close>. The
  disconnect core looks at Redis twice, before and after it takes the row locks; the two observations
  are the arguments \<open>e\<close> and \<open>e2\<close>. A scan round hands each Run and Runner the environment it
  observes when its turn comes. The clean-up of stale Web explorations in the same round
  belongs to another module and is not modelled.
\<close>

section \<open>Disconnected Runners\<close>

definition heartbeat_expired :: "runner_row \<Rightarrow> datetime \<Rightarrow> int \<Rightarrow> bool" where
  "heartbeat_expired runner now ttl =
     (case rn_last_heartbeat_at runner of None \<Rightarrow> False | Some t \<Rightarrow> t + ttl \<le> now)"

definition disconnect_gate_blocks ::
  "runner_row \<Rightarrow> online_status \<Rightarrow> bool \<Rightarrow> bool \<Rightarrow> datetime \<Rightarrow> int \<Rightarrow> bool" where
  "disconnect_gate_blocks runner online redis_available require_heartbeat_expiry now ttl =
     (if online \<noteq> OFFLINE \<or> \<not> redis_available then True
      else if require_heartbeat_expiry \<and> \<not> heartbeat_expired runner now ttl then True
      else rn_status runner \<noteq> RUNNER_ACTIVE)"

record reconcile_response =
  rr_runner_id :: string
  rr_online_status :: online_status
  rr_redis_available :: bool
  rr_reconciled_run_ids :: "string list"

definition disconnect_skip :: "string \<Rightarrow> online_status \<Rightarrow> bool \<Rightarrow> reconcile_response" where
  "disconnect_skip runner_id online redis_available =
     \<lparr>rr_runner_id = runner_id, rr_online_status = online, rr_redis_available = redis_available,
      rr_reconciled_run_ids = []\<rparr>"

definition disconnected_error_type :: string where
  "disconnected_error_type = ''RUNNER_DISCONNECTED''"

definition disconnected_error_message :: string where
  "disconnected_error_message = ''runner heartbeat timed out, execution aborted''"

definition disconnect_candidates :: "world \<Rightarrow> string \<Rightarrow> test_run list" where
  "disconnect_candidates w runner_id =
     sort_key (\<lambda>r. (tr_created_at r, tr_id r))
       (filter (\<lambda>r. tr_runner_id r = Some runner_id
                  \<and> (tr_status r = RUN_ASSIGNED \<or> tr_status r = RUN_RUNNING)) (w_runs w))"

definition fail_disconnected :: "datetime \<Rightarrow> test_run \<Rightarrow> app_error + test_run" where
  "fail_disconnected now run =
     (let t = Some disconnected_error_type; m = Some disconnected_error_message in
      res_bind (close_children now NODE_FAILED (error_node_update NODE_FAILED t m)
                 (tr_case_runs run)) (\<lambda>cs.
      let run1 = recompute_summary (run\<lparr>tr_case_runs := cs\<rparr>) in
      res_bind (ensure_terminal_run_matches_children run1 RUN_FAILED) (\<lambda>_.
      res_bind (set_run_status now run1 RUN_FAILED (error_run_update RUN_FAILED t m))
        (\<lambda>(_, run2). Inr run2))))"

fun commit_runs :: "env \<Rightarrow> (test_run \<times> run_status) list \<Rightarrow> run_status \<Rightarrow> world \<Rightarrow> world" where
  "commit_runs e [] to_status w = w"
| "commit_runs e ((run, previous) # rest) to_status w =
     commit_runs e rest to_status (commit_run e w run previous to_status (first_case_id run))"

definition reconcile_disconnected_core ::
  "env \<Rightarrow> env \<Rightarrow> bool \<Rightarrow> int \<Rightarrow> world \<Rightarrow> string \<Rightarrow> reconcile_response handler_result" where
  "reconcile_disconnected_core e e2 require_heartbeat_expiry ttl w runner_id =
     res_bind (option_to_res (ResourceNotFoundError ''runner'') (get_runner w runner_id)) (\<lambda>runner.
     let (online, _, available) = online_state e runner in
     if disconnect_gate_blocks runner online available require_heartbeat_expiry (en_now e) ttl
     then Inr (disconnect_skip runner_id online available, w)
     else
       (let runs = disconnect_candidates w runner_id;
            (online2, _, available2) = online_state e2 runner in
        if disconnect_gate_blocks runner online2 available2 require_heartbeat_expiry (en_now e) ttl
        then Inr (disconnect_skip runner_id online2 available2, w)
        else
          res_bind (res_map (fail_disconnected (en_now e)) runs) (\<lambda>reconciled.
          Inr (\<lparr>rr_runner_id = rn_id runner, rr_online_status = online2,
                rr_redis_available = available2,
                rr_reconciled_run_ids = map tr_id reconciled\<rparr>,
               commit_runs e (zip reconciled (map tr_status runs)) RUN_FAILED w))))"

definition reconcile_disconnected_runner_runs ::
  "env \<Rightarrow> env \<Rightarrow> int \<Rightarrow> world \<Rightarrow> current_user \<Rightarrow> string \<Rightarrow> reconcile_response handler_result" where
  "reconcile_disconnected_runner_runs e e2 ttl w user runner_id =
     (if \<not> is_admin user then Inl (AuthorizationError ''admin required'')
      else reconcile_disconnected_core e e2 False ttl w runner_id)"

section \<open>Overdue Runs\<close>

definition overdue_run_deadline :: "test_run \<Rightarrow> int \<Rightarrow> datetime option" where
  "overdue_run_deadline run grace =
     (case (tr_started_at run, tr_total_timeout_ms run) of
        (Some t, Some ms) \<Rightarrow> Some (t + milliseconds ms + grace)
      | _ \<Rightarrow> None)"

definition overdue_cancellation_error :: "test_run \<Rightarrow> string \<times> string" where
  "overdue_cancellation_error run =
     (if tr_force_stop_requested_at run \<noteq> None
      then (''FORCE_STOP_REQUESTED'', ''force stop overdue, remote state unconfirmed'')
      else (''CANCEL_REQUESTED'', ''cancel overdue, remote state unconfirmed''))"

definition close_overdue_node ::
  "datetime \<Rightarrow> 'a run_node_scheme \<Rightarrow> app_error + 'a run_node_scheme" where
  "close_overdue_node now n =
     (if terminal_node_status (nd_status n) then Inr n
      else if nd_status n = NODE_CANCELLING
      then set_node now NODE_CANCELLED
             (error_node_update NODE_CANCELLED (Some ''CANCEL_REQUESTED'')
                (Some ''cancel overdue, remote state unconfirmed'')) n
      else set_node now NODE_TIMEOUT
             (error_node_update NODE_TIMEOUT (Some ''TOTAL_TIMEOUT'')
                (Some ''total timeout, result unconfirmed'')) n)"

definition close_overdue_children ::
  "datetime \<Rightarrow> test_run \<Rightarrow> app_error + run_status \<times> string \<times> string \<times> case_run list" where
  "close_overdue_children now run =
     (if tr_status run = RUN_RUNNING
      then
        res_bind (update_steps (close_overdue_node now) (tr_case_runs run)) (\<lambda>cs1.
        res_bind (res_map (close_overdue_node now) cs1) (\<lambda>cs.
        Inr (RUN_TIMEOUT, ''TOTAL_TIMEOUT'', ''total timeout, result unconfirmed'', cs)))
      else
        (let (t, m) = overdue_cancellation_error run in
         res_bind (close_children now NODE_CANCELLED (error_node_update NODE_CANCELLED (Some t) (Some m))
                    (tr_case_runs run)) (\<lambda>cs.
         Inr (RUN_CANCELLED, t, m, cs))))"

definition reconcile_overdue_run_core ::
  "env \<Rightarrow> int \<Rightarrow> world \<Rightarrow> string \<Rightarrow> run_status option handler_result" where
  "reconcile_overdue_run_core e grace w run_id =
     (case get_run w run_id of
        None \<Rightarrow> Inr (None, w)
      | Some run \<Rightarrow>
          if tr_status run \<noteq> RUN_RUNNING \<and> tr_status run \<noteq> RUN_CANCELLING then Inr (None, w)
          else
            (case overdue_run_deadline run grace of
               None \<Rightarrow> Inr (None, w)
             | Some deadline \<Rightarrow>
                 if en_now e \<le> deadline then Inr (None, w)
                 else if tr_case_runs run = [] then Inr (None, w)
                 else
                   res_bind (close_overdue_children (en_now e) run) (\<lambda>(run_status, t, m, cs).
                   if \<not> list_all (\<lambda>c. terminal_node_status (nd_status c)) cs
                   then run_conflict ''overdue run cannot be closed''
                   else
                     res_bind (set_run_status (en_now e)
                                (recompute_summary (run\<lparr>tr_case_runs := cs\<rparr>)) run_status
                                (error_run_update run_status (Some t) (Some m))) (\<lambda>(_, run').
                     Inr (Some run_status,
                          commit_run e w run' (tr_status run) run_status (first_case_id run'))))))"

section \<open>The scan round (disconnect_coordinator.py)\<close>

definition candidate_overdue_run_ids :: "env \<Rightarrow> int \<Rightarrow> world \<Rightarrow> string list" where
  "candidate_overdue_run_ids e grace w =
     map tr_id
       (sort_key (\<lambda>r. (case tr_started_at r of None \<Rightarrow> 0 | Some t \<Rightarrow> t, tr_id r))
          (filter (\<lambda>r. (tr_status r = RUN_RUNNING \<or> tr_status r = RUN_CANCELLING)
                     \<and> (case overdue_run_deadline r grace of
                          None \<Rightarrow> False | Some d \<Rightarrow> d < en_now e)) (w_runs w)))"

definition candidate_runner_ids :: "world \<Rightarrow> string list" where
  "candidate_runner_ids w =
     sort (map rn_id
       (filter (\<lambda>rn. rn_status rn = RUNNER_ACTIVE
                  \<and> list_ex (\<lambda>r. tr_runner_id r = Some (rn_id rn)
                              \<and> (tr_status r = RUN_ASSIGNED \<or> tr_status r = RUN_RUNNING)) (w_runs w))
          (w_runners w)))"

record scan_round =
  sc_errors :: "(string \<times> app_error) list"
  sc_overdue_run_ids :: "string list"
  sc_reconciled_run_count :: nat

fun scan_overdue :: "(string \<Rightarrow> env) \<Rightarrow> int \<Rightarrow> string list \<Rightarrow> scan_round \<times> world \<Rightarrow> scan_round \<times> world"
  where
  "scan_overdue eo grace [] s = s"
| "scan_overdue eo grace (i # is) (rd, w) =
     scan_overdue eo grace is
       (case reconcile_overdue_run_core (eo i) grace w i of
          Inl err \<Rightarrow> (rd\<lparr>sc_errors := sc_errors rd @ [(i, err)]\<rparr>, w)
        | Inr (None, w') \<Rightarrow> (rd, w')
        | Inr (Some _, w') \<Rightarrow> (rd\<lparr>sc_overdue_run_ids := sc_overdue_run_ids rd @ [i]\<rparr>, w'))"

fun scan_disconnected ::
  "(string \<Rightarrow> env \<times> env) \<Rightarrow> int \<Rightarrow> string list \<Rightarrow> scan_round \<times> world \<Rightarrow> scan_round \<times> world" where
  "scan_disconnected ed ttl [] s = s"
| "scan_disconnected ed ttl (i # is) (rd, w) =
     scan_disconnected ed ttl is
       (case reconcile_disconnected_core (fst (ed i)) (snd (ed i)) True ttl w i of
          Inl err \<Rightarrow> (rd\<lparr>sc_errors := sc_errors rd @ [(i, err)]\<rparr>, w)
        | Inr (rsp, w') \<Rightarrow>
            (rd\<lparr>sc_reconciled_run_count :=
                 sc_reconciled_run_count rd + length (rr_reconciled_run_ids rsp)\<rparr>, w'))"

definition scan_once ::
  "env \<Rightarrow> (string \<Rightarrow> env) \<Rightarrow> (string \<Rightarrow> env \<times> env) \<Rightarrow> int \<Rightarrow> int \<Rightarrow> world \<Rightarrow> scan_round \<times> world" where
  "scan_once e eo ed grace ttl w =
     (let rd = \<lparr>sc_errors = [], sc_overdue_run_ids = [], sc_reconciled_run_count = 0\<rparr>;
          (rd1, w1) = scan_overdue eo grace (candidate_overdue_run_ids e grace w) (rd, w)
      in scan_disconnected ed ttl (candidate_runner_ids w1) (rd1, w1))"

section \<open>Recovery steps\<close>

lemma fail_disconnected_evolves:
  assumes ok: "fail_disconnected now r = Inr r'"
    and st: "tr_status r = RUN_ASSIGNED \<or> tr_status r = RUN_RUNNING"
  shows "run_evolves r r'" "tr_status r' = RUN_FAILED"
    "list_all (\<lambda>c. terminal_node_status (nd_status c)) (tr_case_runs r')"
proof -
  let ?t = "Some disconnected_error_type" and ?m = "Some disconnected_error_message"
  obtain cs b where cs: "close_children now NODE_FAILED (error_node_update NODE_FAILED ?t ?m)
        (tr_case_runs r) = Inr cs"
    and ens: "ensure_terminal_run_matches_children (r\<lparr>tr_case_runs := cs\<rparr>) RUN_FAILED = Inr ()"
    and set: "set_run_status now (recompute_summary (r\<lparr>tr_case_runs := cs\<rparr>)) RUN_FAILED
        (error_run_update RUN_FAILED ?t ?m) = Inr (b, r')"
    using ok by (auto simp: fail_disconnected_def res_simps Let_def)
  show "run_evolves r r'"
    using close_children_evolve(1)[OF cs] ensure_results_ok[OF ens] st
    by (intro summary_evolves[OF set]) (auto simp: run_inv_def outbox_ok_def)
  show "tr_status r' = RUN_FAILED"
    "list_all (\<lambda>c. terminal_node_status (nd_status c)) (tr_case_runs r')"
    using set_run_status_frame[OF set] close_children_terminal[OF cs] by (simp_all add: row_frame)
qed

text \<open>Committing several rows of one transaction.\<close>

lemma commit_runs_frame:
  "w_db (commit_runs e rs t w) = w_db w" "w_runners (commit_runs e rs t w) = w_runners w"
  "w_api_results (commit_runs e rs t w) = w_api_results w"
  "w_scenario_results (commit_runs e rs t w) = w_scenario_results w"
  "w_web_results (commit_runs e rs t w) = w_web_results w"
  "w_sent (commit_runs e rs t w) = w_sent w"
  by (induction e rs t w rule: commit_runs.induct) (simp_all add: commit_run_def)

lemma commit_runs_events: "prefix (w_events w) (w_events (commit_runs e rs t w))"
proof (induction e rs t w rule: commit_runs.induct)
  case (2 e run previous rest t w)
  have "prefix (w_events w) (w_events (commit_run e w run previous t (first_case_id run)))"
    using publish_event_prefix[of "put_run w run"] by (simp add: commit_run_def)
  with 2 show ?case by (auto intro: prefix_order.trans)
qed simp

lemma commit_runs_get:
  assumes "distinct (map (tr_id \<circ> fst) rs)" and "\<And>x. x \<in> set rs \<Longrightarrow> get_run w (tr_id (fst x)) \<noteq> None"
  shows "get_run (commit_runs e rs t w) i =
    (case find (\<lambda>x. tr_id (fst x) = i) rs of Some x \<Rightarrow> Some (fst x) | None \<Rightarrow> get_run w i)"
  using assms
proof (induction e rs t w rule: commit_runs.induct)
  case (1 e t w)
  then show ?case by simp
next
  case (2 e run previous rest t w)
  let ?w = "commit_run e w run previous t (first_case_id run)"
  have get: "get_run ?w j = (if j = tr_id run then Some run else get_run w j)" for j
    using 2(3)[of "(run, previous)"] by (auto simp: commit_run_def get_put_run split: option.splits)
  have "find (\<lambda>x. tr_id (fst x) = tr_id run) rest = None"
    using 2(2) by (auto simp: find_None_iff image_iff)
  moreover have "get_run (commit_runs e rest t ?w) i =
      (case find (\<lambda>x. tr_id (fst x) = i) rest of Some x \<Rightarrow> Some (fst x) | None \<Rightarrow> get_run ?w i)"
    using 2 by (intro 2(1)) (auto simp: get)
  ultimately show ?case by (auto simp: get split: option.splits)
qed

lemma commit_runs_ids: "map tr_id (w_runs (commit_runs e rs t w)) = map tr_id (w_runs w)"
  by (induction e rs t w rule: commit_runs.induct) (simp_all add: commit_run_def put_run_def put_row_keys)

lemma commit_runs_step:
  assumes "distinct (map tr_id olds)" and "\<And>r. r \<in> set olds \<Longrightarrow> get_run w (tr_id r) = Some r"
    and "list_all2 run_evolves olds news"
  shows "world_step w (commit_runs e (zip news (map f olds)) t w)"
proof -
  let ?rs = "zip news (map f olds)"
  have len: "length news = length olds" using assms(3) by (auto dest: list_all2_lengthD)
  have ids: "map tr_id news = map tr_id olds"
    using assms(3) by (induction rule: list_all2_induct) (auto simp: run_evolves_def)
  have fst: "map (tr_id \<circ> fst) ?rs = map tr_id olds" "map fst ?rs = news"
    using ids len by (simp_all add: map_fst_zip flip: map_map)
  have mem: "\<exists>r \<in> set olds. run_evolves r (fst x)" if "x \<in> set ?rs" for x
  proof -
    have "fst x \<in> set news" using that set_zip_leftD[of "fst x" "snd x"] by simp
    with assms(3) show ?thesis by (induction rule: list_all2_induct) auto
  qed
  have there: "get_run w (tr_id (fst x)) \<noteq> None" if "x \<in> set ?rs" for x
    using mem[OF that] assms(2) by (fastforce simp: run_evolves_def)
  note get = commit_runs_get[of ?rs w e t, OF _ there, unfolded fst(1), OF assms(1)]
  have "\<exists>r'. get_run (commit_runs e ?rs t w) i = Some r' \<and> run_evolves r r'"
    if r: "get_run w i = Some r" for i r
  proof (cases "find (\<lambda>x. tr_id (fst x) = i) ?rs")
    case None
    with r show ?thesis by (simp add: get)
  next
    case (Some x)
    then have "x \<in> set ?rs" "tr_id (fst x) = i" by (auto dest: find_SomeD)
    then obtain r0 where "r0 \<in> set olds" "run_evolves r0 (fst x)" using mem by blast
    moreover have "tr_id r0 = i" using calculation(2) \<open>tr_id (fst x) = i\<close> by (simp add: run_evolves_def)
    ultimately have "r = r0" using assms(2)[of r0] r by simp
    with Some \<open>run_evolves r0 (fst x)\<close> show ?thesis by (simp add: get)
  qed
  moreover have "get_run (commit_runs e ?rs t w) i = None" if "get_run w i = None" for i
  proof -
    have "find (\<lambda>x. tr_id (fst x) = i) ?rs = None"
      using there that by (fastforce simp: find_None_iff)
    with that show ?thesis by (simp add: get)
  qed
  ultimately show ?thesis
    by (auto simp: world_step_def commit_runs_frame commit_runs_events runs_distinct_def
        results_unique_def commit_runs_ids)
qed

lemma candidates_in: "r \<in> set (disconnect_candidates w i) \<Longrightarrow>
    r \<in> set (w_runs w) \<and> tr_runner_id r = Some i \<and> (tr_status r = RUN_ASSIGNED \<or> tr_status r = RUN_RUNNING)"
  by (auto simp: disconnect_candidates_def)

lemma candidates_distinct: "runs_distinct w \<Longrightarrow> distinct (map tr_id (disconnect_candidates w i))"
  by (auto simp: disconnect_candidates_def runs_distinct_def distinct_map inj_on_def)

lemma get_run_member: "runs_distinct w \<Longrightarrow> r \<in> set (w_runs w) \<Longrightarrow> get_run w (tr_id r) = Some r"
  by (simp add: get_run_def runs_distinct_def get_row_distinct)

lemma reconcile_disconnected_core_shape:
  assumes "reconcile_disconnected_core e e2 req ttl w i = Inr (rsp, w')"
  shows "w' = w \<or> (\<exists>runner news. get_runner w i = Some runner
    \<and> \<not> disconnect_gate_blocks runner (fst (online_state e runner)) (snd (snd (online_state e runner)))
        req (en_now e) ttl
    \<and> \<not> disconnect_gate_blocks runner (fst (online_state e2 runner)) (snd (snd (online_state e2 runner)))
        req (en_now e) ttl
    \<and> res_map (fail_disconnected (en_now e)) (disconnect_candidates w i) = Inr news
    \<and> w' = commit_runs e (zip news (map tr_status (disconnect_candidates w i))) RUN_FAILED w)"
proof -
  obtain runner where runner: "get_runner w i = Some runner"
    using assms by (auto simp: reconcile_disconnected_core_def res_simps)
  obtain o1 x1 a1 where 1: "online_state e runner = (o1, x1, a1)" by (cases "online_state e runner")
  obtain o2 x2 a2 where 2: "online_state e2 runner = (o2, x2, a2)" by (cases "online_state e2 runner")
  show ?thesis
    using assms runner 1 2
    by (auto simp: reconcile_disconnected_core_def res_simps Let_def split: if_splits)
qed

lemma reconcile_disconnected_step:
  assumes ok: "reconcile_disconnected_core e e2 req ttl w i = Inr (rsp, w')" and dist: "runs_distinct w"
  shows "world_step w w'"
proof -
  consider "w' = w" | news where
    "res_map (fail_disconnected (en_now e)) (disconnect_candidates w i) = Inr news"
    "w' = commit_runs e (zip news (map tr_status (disconnect_candidates w i))) RUN_FAILED w"
    using reconcile_disconnected_core_shape[OF ok] by blast
  then show ?thesis
  proof cases
    case 2
    have "list_all2 run_evolves (disconnect_candidates w i) news"
      using 2(1) unfolding res_map_Inr_iff
      by (rule list.rel_mono_strong) (auto dest: candidates_in intro: fail_disconnected_evolves(1))
    then show ?thesis
      unfolding 2(2)
      using candidates_distinct[OF dist] candidates_in get_run_member[OF dist]
      by (intro commit_runs_step) auto
  qed simp
qed

lemma close_overdue_step: "close_overdue_node now (s :: step_run) = Inr s' \<Longrightarrow> step_evolves s s'"
  by (auto simp: close_overdue_node_def dest: set_node_step split: if_splits)

lemma close_overdue_case: "close_overdue_node now (c :: case_run) = Inr c' \<Longrightarrow> case_evolves c c'"
  by (auto simp: close_overdue_node_def dest: set_node_case split: if_splits)

lemma close_overdue_children_evolve:
  assumes "close_overdue_children now r = Inr (st, t, m, cs)"
  shows "list_all2 case_evolves (tr_case_runs r) cs"
    and "st = (if tr_status r = RUN_RUNNING then RUN_TIMEOUT else RUN_CANCELLED)"
proof -
  show "st = (if tr_status r = RUN_RUNNING then RUN_TIMEOUT else RUN_CANCELLED)"
    using assms by (auto simp: close_overdue_children_def res_simps split: if_splits prod.splits)
  show "list_all2 case_evolves (tr_case_runs r) cs"
  proof (cases "tr_status r = RUN_RUNNING")
    case True
    then obtain cs1 where 1: "update_steps (close_overdue_node now) (tr_case_runs r) = Inr cs1"
      and 2: "res_map (close_overdue_node now) cs1 = Inr cs"
      using assms by (auto simp: close_overdue_children_def res_simps)
    show ?thesis
      using update_steps_cases(1)[OF 1 close_overdue_step] map_cases_evolve[OF 2 close_overdue_case]
      by (rule cases_evolve_trans)
  next
    case False
    then show ?thesis
      using assms close_children_evolve(1)
      by (fastforce simp: close_overdue_children_def res_simps split: prod.splits)
  qed
qed

lemma reconcile_overdue_evolves:
  assumes ok: "reconcile_overdue_run_core e grace w i = Inr (x, w')"
  shows "x = None \<and> w' = w \<or> (\<exists>r r' d. get_run w i = Some r \<and> run_evolves r r'
    \<and> (tr_status r = RUN_RUNNING \<or> tr_status r = RUN_CANCELLING)
    \<and> overdue_run_deadline r grace = Some d \<and> d < en_now e
    \<and> x = Some (tr_status r')
    \<and> tr_status r' = (if tr_status r = RUN_RUNNING then RUN_TIMEOUT else RUN_CANCELLED)
    \<and> list_all (\<lambda>c. terminal_node_status (nd_status c)) (tr_case_runs r')
    \<and> w' = commit_run e w r' (tr_status r) (tr_status r') (first_case_id r'))"
proof (cases x)
  case None
  then show ?thesis
    using ok by (auto simp: reconcile_overdue_run_core_def res_simps split: option.splits if_splits)
next
  case (Some s)
  then obtain r d t m cs b r' where r: "get_run w i = Some r"
    and st: "tr_status r = RUN_RUNNING \<or> tr_status r = RUN_CANCELLING"
    and d: "overdue_run_deadline r grace = Some d" "d < en_now e"
    and cs: "close_overdue_children (en_now e) r = Inr (s, t, m, cs)"
    and closed: "list_all (\<lambda>c. terminal_node_status (nd_status c)) cs"
    and set: "set_run_status (en_now e) (recompute_summary (r\<lparr>tr_case_runs := cs\<rparr>)) s
                (error_run_update s (Some t) (Some m)) = Inr (b, r')"
    and w': "w' = commit_run e w r' (tr_status r) s (first_case_id r')"
    using ok by (auto simp: reconcile_overdue_run_core_def res_simps split: option.splits if_splits)
  note ch = close_overdue_children_evolve[OF cs]
  have "run_evolves r r'"
    using ch closed st
    by (intro summary_evolves[OF set])
      (auto simp: results_ok_def all_cases_terminal_def run_inv_def outbox_ok_def split: if_splits)
  then show ?thesis
    using r st d Some w' ch(2) closed set_run_status_frame[OF set] by (auto simp: row_frame)
qed

lemma reconcile_overdue_step:
  "reconcile_overdue_run_core e grace w i = Inr (x, w') \<Longrightarrow> world_step w w'"
  using reconcile_overdue_evolves[of e grace w i x w'] by (auto intro: world_step_commit)

end
