(* ===== verification/Run_Execution.thy ===== *)
theory Run_Execution
  imports Run_Recovery
begin

text \<open>
  The execution protocol between a Runner and the control plane: \<open>_execution_context\<close>,
  \<open>get_execution_cancellation\<close>, the three \<open>start_*_execution\<close> handlers and
  \<open>complete_api_execution\<close> of \<open>runs/service.py\<close>.

  A completion is accepted once per CaseRun; the result row it writes is what a repeated completion
  returns. Because the Run row is locked while a completion is handled, the unique
  constraint on the result table cannot fire between the lookup and the insert, and the branch
  that handles that race is left out. So is the check, after the commit of \<open>start_api_execution\<close>,
  that a running Run has a start time, which \<open>times_ok\<close> excludes.
\<close>

section \<open>Execution context\<close>

record exec_context =
  cx_run :: test_run
  cx_runner :: runner_row
  cx_outbox :: run_dispatch_outbox
  cx_case :: case_run

definition select_case_runs :: "test_run \<Rightarrow> int option \<Rightarrow> case_run list" where
  "select_case_runs run case_run_id =
     (case case_run_id of
        Some i \<Rightarrow> filter (\<lambda>c. cr_id c = i) (tr_case_runs run)
      | None \<Rightarrow>
          if tr_run_type run = API_CASE
          then take 1 (filter (\<lambda>c. \<not> terminal_node_status (nd_status c)) (tr_case_runs run))
          else tr_case_runs run)"

fun single :: "'a list \<Rightarrow> 'a option" where
  "single [x] = Some x"
| "single _ = None"

definition execution_context ::
  "env \<Rightarrow> world \<Rightarrow> string \<Rightarrow> string \<Rightarrow> string \<Rightarrow> int option \<Rightarrow> app_error + exec_context" where
  "execution_context e w run_id credential message_id case_run_id =
     res_bind (require_run w run_id) (\<lambda>run.
     res_bind (authenticate_runner_for_run e w run credential) (\<lambda>runner.
     case tr_dispatch_outbox run of
       None \<Rightarrow> run_conflict ''run not claimed by this runner''
     | Some outbox \<Rightarrow>
         if ob_message_id outbox \<noteq> message_id \<or> ob_status outbox \<noteq> OUTBOX_PUBLISHED
            \<or> ob_claimed_runner_id outbox \<noteq> Some (rn_id runner) \<or> ob_claimed_at outbox = None
         then run_conflict ''run not claimed by this runner''
         else
           (case single (select_case_runs run case_run_id) of
              Some c \<Rightarrow> Inr \<lparr>cx_run = run, cx_runner = runner, cx_outbox = outbox, cx_case = c\<rparr>
            | None \<Rightarrow> Inl (ResourceNotFoundError ''case run''))))"

record cancellation_response =
  cn_status :: run_status
  cn_cancellation_requested :: bool
  cn_force_stop_requested :: bool

definition get_execution_cancellation ::
  "env \<Rightarrow> world \<Rightarrow> string \<Rightarrow> string \<Rightarrow> string \<Rightarrow> int \<Rightarrow> app_error + cancellation_response" where
  "get_execution_cancellation e w run_id credential message_id case_run_id =
     res_bind (execution_context e w run_id credential message_id (Some case_run_id)) (\<lambda>cx.
     let status = tr_status (cx_run cx) in
     Inr \<lparr>cn_status = status,
          cn_cancellation_requested = (status = RUN_CANCELLING \<or> status = RUN_CANCELLED),
          cn_force_stop_requested = (tr_force_stop_requested_at (cx_run cx) \<noteq> None)\<rparr>)"

section \<open>Starting\<close>

record start_response =
  st_run_id :: string
  st_message_id :: string
  st_runner_id :: string
  st_case_run_id :: int
  st_status :: run_status
  st_started_at :: "datetime option"
  st_idempotent :: bool

definition make_start_response ::
  "exec_context \<Rightarrow> run_status \<Rightarrow> datetime option \<Rightarrow> bool \<Rightarrow> start_response" where
  "make_start_response cx status started_at idempotent =
     \<lparr>st_run_id = tr_id (cx_run cx), st_message_id = ob_message_id (cx_outbox cx),
      st_runner_id = rn_id (cx_runner cx), st_case_run_id = cr_id (cx_case cx), st_status = status,
      st_started_at = started_at, st_idempotent = idempotent\<rparr>"

definition start_step :: "datetime \<Rightarrow> step_run \<Rightarrow> app_error + step_run" where
  "start_step now s =
     (if terminal_node_status (nd_status s) then run_conflict ''step run already finished''
      else set_node now NODE_RUNNING (plain_node_update NODE_RUNNING) s)"

definition start_case :: "datetime \<Rightarrow> case_run \<Rightarrow> app_error + case_run" where
  "start_case now c =
     res_bind (update_case_steps (start_step now) c)
       (set_node now NODE_RUNNING (plain_node_update NODE_RUNNING))"

definition start_api_execution ::
  "env \<Rightarrow> world \<Rightarrow> string \<Rightarrow> string \<Rightarrow> string \<Rightarrow> int \<Rightarrow> start_response handler_result" where
  "start_api_execution e w run_id credential message_id case_run_id =
     res_bind (execution_context e w run_id credential message_id (Some case_run_id)) (\<lambda>cx.
     let run = cx_run cx; c = cx_case cx; run_status = tr_status run; case_status = nd_status c in
     if run_status = RUN_CANCELLING
     then Inr (make_start_response cx RUN_CANCELLING (tr_started_at run) True, w)
     else if run_status = RUN_RUNNING \<and> case_status = NODE_RUNNING \<and> tr_started_at run \<noteq> None
     then Inr (make_start_response cx RUN_RUNNING (tr_started_at run) True, w)
     else
       res_bind (en_api_case e run True) (\<lambda>_.
       if run_status \<noteq> RUN_ASSIGNED \<and> run_status \<noteq> RUN_RUNNING
       then run_conflict ''only ASSIGNED/RUNNING runs can start an iteration''
       else if case_status \<noteq> NODE_CREATED \<and> case_status \<noteq> NODE_ASSIGNED
       then run_conflict ''case run cannot start''
       else
         res_bind (start_case (en_now e) c) (\<lambda>c'.
         res_bind
           (if run_status = RUN_ASSIGNED
            then set_run_status (en_now e) (put_case_run run c') RUN_RUNNING
                   (plain_run_update RUN_RUNNING)
            else Inr (False, put_case_run run c')) (\<lambda>(_, run').
         Inr (make_start_response cx RUN_RUNNING (tr_started_at run') False,
              commit_run e w run' run_status RUN_RUNNING (Some (cr_id c)))))))"

text \<open>\<open>start_web_execution\<close> and \<open>start_scenario_execution\<close> share their structure; \<open>load\<close> is the loader
  of the pinned content. The Web handler additionally distinguishes a RUNNING Run whose
  CaseRun is not RUNNING, with the same exception class.\<close>

definition start_single ::
  "(test_run \<Rightarrow> app_error + unit) \<Rightarrow> env \<Rightarrow> world \<Rightarrow> string \<Rightarrow> string \<Rightarrow> string \<Rightarrow> int
     \<Rightarrow> start_response handler_result" where
  "start_single load e w run_id credential message_id case_run_id =
     res_bind (execution_context e w run_id credential message_id (Some case_run_id)) (\<lambda>cx.
     let run = cx_run cx; c = cx_case cx; run_status = tr_status run; case_status = nd_status c in
     if run_status = RUN_CANCELLING
     then Inr (make_start_response cx RUN_CANCELLING (tr_started_at run) True, w)
     else
       res_bind (load run) (\<lambda>_.
       if run_status = RUN_RUNNING \<and> case_status = NODE_RUNNING \<and> tr_started_at run \<noteq> None
       then Inr (make_start_response cx RUN_RUNNING (tr_started_at run) True, w)
       else if run_status \<noteq> RUN_ASSIGNED
       then run_conflict ''only ASSIGNED runs can start''
       else if case_status \<noteq> NODE_CREATED \<and> case_status \<noteq> NODE_ASSIGNED
       then run_conflict ''case run cannot start''
       else
         res_bind (start_case (en_now e) c) (\<lambda>c'.
         res_bind (set_run_status (en_now e) (put_case_run run c') RUN_RUNNING
                    (plain_run_update RUN_RUNNING)) (\<lambda>(_, run').
         Inr (make_start_response cx RUN_RUNNING (tr_started_at run') False,
              commit_run e w run' RUN_ASSIGNED RUN_RUNNING (Some (cr_id c)))))))"

definition start_web_execution ::
  "env \<Rightarrow> world \<Rightarrow> string \<Rightarrow> string \<Rightarrow> string \<Rightarrow> int \<Rightarrow> start_response handler_result" where
  "start_web_execution e =
     start_single (\<lambda>run. res_bind (en_web_case e run) (\<lambda>_. Inr ())) e"

definition start_scenario_execution ::
  "env \<Rightarrow> world \<Rightarrow> string \<Rightarrow> string \<Rightarrow> string \<Rightarrow> int \<Rightarrow> start_response handler_result" where
  "start_scenario_execution e =
     start_single (\<lambda>run. res_bind (en_scenario e run) (\<lambda>_. Inr ())) e"

section \<open>Completing an API execution\<close>

datatype execution_outcome =
    OUTCOME_HTTP_RESPONSE | OUTCOME_EXECUTION_ERROR | OUTCOME_TIMEOUT | OUTCOME_CANCELLED

fun execution_outcome_value :: "execution_outcome \<Rightarrow> string" where
  "execution_outcome_value OUTCOME_HTTP_RESPONSE = ''HTTP_RESPONSE''"
| "execution_outcome_value OUTCOME_EXECUTION_ERROR = ''EXECUTION_ERROR''"
| "execution_outcome_value OUTCOME_TIMEOUT = ''TIMEOUT''"
| "execution_outcome_value OUTCOME_CANCELLED = ''CANCELLED''"

record resource_result =
  rx_registration_sequence :: int
  rx_resource_type :: string
  rx_resource_id :: string
  rx_cleanup :: json
  rx_status :: string
  rx_attempt_count :: int
  rx_error_code :: "string option"
  rx_error_message :: "string option"

record api_completion =
  xc_message_id :: string
  xc_case_run_id :: int
  xc_outcome :: execution_outcome
  xc_response :: "json option"
  xc_error_type :: "string option"
  xc_error_message :: "string option"
  xc_retry_count :: int
  xc_resources :: "resource_result list"
  xc_action_traces :: "json list"
  xc_evaluation_token :: "string option"

record api_verdict =
  av_status :: run_node_status
  av_error_type :: "string option"
  av_error_message :: "string option"
  av_response_summary :: "json option"
  av_assertions :: "assertion_result list"
  av_force_stopped :: bool

definition plain_verdict ::
  "run_node_status \<Rightarrow> string option \<Rightarrow> string option \<Rightarrow> bool \<Rightarrow> api_verdict" where
  "plain_verdict st t m f =
     \<lparr>av_status = st, av_error_type = t, av_error_message = m, av_response_summary = None,
      av_assertions = [], av_force_stopped = f\<rparr>"

definition response_verdict ::
  "json \<Rightarrow> verdict \<Rightarrow> assertion_result list \<Rightarrow> api_verdict" where
  "response_verdict summary assertion_status audited =
     (let (st, t, m) =
        (case assertion_status of
           VERDICT_PASS \<Rightarrow> (NODE_SUCCESS, None, None)
         | VERDICT_REVIEW \<Rightarrow>
             (NODE_REVIEW, Some ''ASSERTION_REVIEW'', Some ''AI assertions need review'')
         | VERDICT_FAIL \<Rightarrow>
             (NODE_FAILED, Some ''ASSERTION_FAILED'', Some ''deterministic assertions failed''))
      in \<lparr>av_status = st, av_error_type = t, av_error_message = m,
          av_response_summary = Some summary, av_assertions = audited, av_force_stopped = False\<rparr>)"

text \<open>The HTTP_RESPONSE branch: the verdict comes from a matching evaluation token or from running the
  assertions now.\<close>

definition api_response_verdict ::
  "env \<Rightarrow> exec_context \<Rightarrow> api_case_content \<Rightarrow> api_completion \<Rightarrow> app_error + api_verdict" where
  "api_response_verdict e cx content payload =
     (case xc_response payload of
        None \<Rightarrow> Inl (RunExecutionUnsupportedError ''response missing'')
      | Some response \<Rightarrow>
          (let summary = en_response_summary e response in
           case xc_evaluation_token payload of
             Some token \<Rightarrow>
               res_bind (en_claims e token) (\<lambda>claims.
               if ec_run_id claims \<noteq> tr_id (cx_run cx)
                  \<or> ec_message_id claims \<noteq> xc_message_id payload
                  \<or> ec_case_run_id claims \<noteq> cr_id (cx_case cx)
                  \<or> ec_response_summary claims \<noteq> summary
               then run_conflict ''evaluation token does not match''
               else
                 (case ec_assertion_status claims of
                    None \<Rightarrow> run_conflict ''evaluation token invalid''
                  | Some assertion_status \<Rightarrow>
                      if \<not> ec_results_valid claims then run_conflict ''evaluation token invalid''
                      else Inr (response_verdict summary assertion_status
                                 (map execution_assertion_audit (ec_assertion_results claims)))))
           | None \<Rightarrow>
               (let results = evaluate_formal_api_assertions (en_run_assertion e response)
                                (ac_assertions content)
                in Inr (response_verdict summary (summarize_final_status results)
                         (map execution_assertion_audit results)))))"

definition api_completion_verdict ::
  "env \<Rightarrow> exec_context \<Rightarrow> api_case_content \<Rightarrow> execution_outcome \<Rightarrow> api_completion
     \<Rightarrow> app_error + api_verdict" where
  "api_completion_verdict e cx content effective payload =
     (case effective of
        OUTCOME_CANCELLED \<Rightarrow>
          if xc_error_type payload = Some ''FORCE_STOP_REQUESTED''
             \<or> tr_force_stop_requested_at (cx_run cx) \<noteq> None
          then Inr (plain_verdict NODE_CANCELLED (Some ''FORCE_STOP_REQUESTED'')
                     (Some ''execution force stopped, cleanup may be incomplete'') True)
          else Inr (plain_verdict NODE_CANCELLED (Some ''CANCEL_REQUESTED'')
                     (Some ''execution cancelled'') False)
      | OUTCOME_HTTP_RESPONSE \<Rightarrow> api_response_verdict e cx content payload
      | OUTCOME_TIMEOUT \<Rightarrow>
          if xc_error_type payload = Some ''TOTAL_TIMEOUT''
          then Inr (plain_verdict NODE_TIMEOUT (Some ''TOTAL_TIMEOUT'')
                     (Some ''run total timeout'') False)
          else Inr (plain_verdict NODE_TIMEOUT (Some ''TARGET_TIMEOUT'')
                     (Some ''target timeout'') False)
      | OUTCOME_EXECUTION_ERROR \<Rightarrow>
          Inr (plain_verdict NODE_FAILED
                 (case xc_error_type payload of
                    None \<Rightarrow> None | Some t \<Rightarrow> if t = [] then None else Some (py_strip t))
                 (safe_error (xc_error_message payload)) False))"

definition api_node_status :: "run_node_status \<Rightarrow> run_node_status" where
  "api_node_status st =
     (if st = NODE_SUCCESS \<or> st = NODE_TIMEOUT \<or> st = NODE_CANCELLED then st else NODE_FAILED)"

definition api_node_update :: "api_verdict \<Rightarrow> int \<Rightarrow> node_status_update" where
  "api_node_update v retry_count =
     \<lparr>nsu_status = api_node_status (av_status v), nsu_duration = None,
      nsu_retry_count = Some retry_count, nsu_error_type = av_error_type v,
      nsu_error_message = av_error_message v\<rparr>"

text \<open>The reported CaseRun and, on cancellation, every other unfinished CaseRun of the Run.\<close>

definition api_close_case ::
  "datetime \<Rightarrow> node_status_update \<Rightarrow> case_run \<Rightarrow> app_error + case_run" where
  "api_close_case now upd c =
     res_bind (update_case_steps (close_node now (nsu_status upd) upd) c)
       (set_node now (nsu_status upd) upd)"

definition api_cancel_other ::
  "datetime \<Rightarrow> int \<Rightarrow> node_status_update \<Rightarrow> case_run \<Rightarrow> app_error + case_run" where
  "api_cancel_other now case_run_id upd c =
     (if cr_id c = case_run_id \<or> terminal_node_status (nd_status c) then Inr c
      else
        res_bind (update_case_steps (close_node now NODE_CANCELLED upd) c)
          (set_node now NODE_CANCELLED upd))"

definition api_close_children ::
  "datetime \<Rightarrow> exec_context \<Rightarrow> bool \<Rightarrow> node_status_update \<Rightarrow> app_error + case_run list" where
  "api_close_children now cx is_cancellation upd =
     res_bind (api_close_case now upd (cx_case cx)) (\<lambda>c'.
     let cs = put_row cr_id c' (tr_case_runs (cx_run cx)) in
     if is_cancellation then res_map (api_cancel_other now (cr_id (cx_case cx)) upd) cs else Inr cs)"

definition api_effective_run_status :: "case_run list \<Rightarrow> run_status" where
  "api_effective_run_status cs =
     (let statuses = map nd_status cs in
      if NODE_FAILED \<in> set statuses \<or> NODE_REVIEW \<in> set statuses then RUN_FAILED
      else if NODE_TIMEOUT \<in> set statuses then RUN_TIMEOUT
      else if NODE_CANCELLED \<in> set statuses then RUN_CANCELLED
      else RUN_SUCCESS)"

fun same_status_value :: "run_status \<Rightarrow> run_node_status \<Rightarrow> bool" where
  "same_status_value RUN_SUCCESS n = (n = NODE_SUCCESS)"
| "same_status_value RUN_FAILED n = (n = NODE_FAILED)"
| "same_status_value RUN_TIMEOUT n = (n = NODE_TIMEOUT)"
| "same_status_value RUN_CANCELLED n = (n = NODE_CANCELLED)"
| "same_status_value _ n = False"

definition api_final_update :: "run_status \<Rightarrow> api_verdict \<Rightarrow> run_status_update" where
  "api_final_update effective v =
     (let same = same_status_value effective (av_status v) in
      \<lparr>rsu_status = effective,
       rsu_error_type =
         (if same then av_error_type v
          else if effective = RUN_FAILED then Some ''ITERATION_FAILED''
          else if effective = RUN_TIMEOUT then Some ''ITERATION_TIMEOUT''
          else if effective = RUN_CANCELLED then Some ''ITERATION_CANCELLED'' else None),
       rsu_error_message =
         (if same then av_error_message v
          else if effective \<noteq> RUN_SUCCESS then Some ''one or more iterations not successful''
          else None)\<rparr>)"

definition api_finish_run ::
  "datetime \<Rightarrow> api_verdict \<Rightarrow> test_run \<Rightarrow> app_error + run_status \<times> test_run" where
  "api_finish_run now v run =
     (if \<not> list_all (\<lambda>c. terminal_node_status (nd_status c)) (tr_case_runs run)
      then Inr (RUN_RUNNING, run)
      else
        (let effective = api_effective_run_status (tr_case_runs run) in
         res_bind (ensure_terminal_run_matches_children run effective) (\<lambda>_.
         res_bind (set_run_status now run effective (api_final_update effective v)) (\<lambda>(_, run').
         Inr (effective, run')))))"

definition api_resource_rows ::
  "datetime \<Rightarrow> test_run \<Rightarrow> int \<Rightarrow> resource_result list \<Rightarrow> resource_entry list" where
  "api_resource_rows now run existing rs =
     map (\<lambda>x. \<lparr>re_project_id = tr_project_id run, re_run_id = tr_id run,
               re_resource_type = rx_resource_type x, re_resource_id = rx_resource_id x,
               re_cleanup_config = rx_cleanup x, re_status = rx_status x,
               re_registration_sequence = existing + rx_registration_sequence x,
               re_attempt_count = rx_attempt_count x, re_last_error = rx_error_message x,
               re_error_code = rx_error_code x, re_source = ''API_CASE_RUNTIME'',
               re_cleaned_at = (if rx_status x = ''CLEANED'' then Some now else None)\<rparr>) rs"

record api_complete_response =
  cp_result :: api_result
  cp_runner_id :: string
  cp_run_status :: run_status
  cp_idempotent :: bool

definition api_result_row ::
  "datetime \<Rightarrow> exec_context \<Rightarrow> execution_outcome \<Rightarrow> api_verdict \<Rightarrow> api_completion \<Rightarrow> api_result" where
  "api_result_row now cx effective v payload =
     \<lparr>er_run_id = tr_id (cx_run cx), er_case_run_id = cr_id (cx_case cx),
      er_message_id = xc_message_id payload, er_outcome = execution_outcome_value effective,
      er_status = av_status v, er_assertion_results = av_assertions v,
      er_error_type = av_error_type v, er_error_message = av_error_message v, er_completed_at = now,
      er_retry_count = xc_retry_count payload, er_response_summary = av_response_summary v,
      er_action_traces = xc_action_traces payload\<rparr>"

definition find_result ::
  "'a exec_result_scheme list \<Rightarrow> string \<Rightarrow> int \<Rightarrow> 'a exec_result_scheme option" where
  "find_result results run_id case_run_id =
     find (\<lambda>x. er_run_id x = run_id \<and> er_case_run_id x = case_run_id) results"

text \<open>The status guard and the rows added by a completion, shared by its branches.\<close>

definition completion_guard :: "bool \<Rightarrow> run_status \<Rightarrow> run_node_status \<Rightarrow> app_error + unit" where
  "completion_guard is_cancellation run_status case_status =
     (if is_cancellation
      then (if run_status \<noteq> RUN_CANCELLING \<and> run_status \<noteq> RUN_CANCELLED
            then run_conflict ''only CANCELLING runs can complete a cancellation'' else Inr ())
      else if run_status \<noteq> RUN_RUNNING \<or> case_status \<noteq> NODE_RUNNING
      then run_conflict ''only RUNNING runs can complete'' else Inr ())"

definition store_api_result ::
  "datetime \<Rightarrow> test_run \<Rightarrow> api_completion \<Rightarrow> api_result \<Rightarrow> world \<Rightarrow> world" where
  "store_api_result now run payload result w =
     (let existing = int (length (filter (\<lambda>r. re_run_id r = tr_id run) (w_resources w))) in
      w\<lparr>w_resources := w_resources w @ api_resource_rows now run existing (xc_resources payload),
        w_api_results := w_api_results w @ [result]\<rparr>)"

definition complete_api_new ::
  "env \<Rightarrow> world \<Rightarrow> exec_context \<Rightarrow> api_completion \<Rightarrow> api_complete_response handler_result" where
  "complete_api_new e w cx payload =
     (let run = cx_run cx; now = en_now e; run_status = tr_status run;
          effective = (if run_status = RUN_CANCELLING then OUTCOME_CANCELLED else xc_outcome payload);
          is_cancellation = (effective = OUTCOME_CANCELLED) in
      res_bind (completion_guard is_cancellation run_status (nd_status (cx_case cx))) (\<lambda>_.
      res_bind (en_api_case e run False) (\<lambda>content.
      if \<not> ac_has_request content then Inl (RunExecutionUnsupportedError ''no request'')
      else if ac_max_retries content < xc_retry_count payload
      then run_conflict ''retry_count above the retry policy''
      else
        res_bind (api_completion_verdict e cx content effective payload) (\<lambda>v.
        res_bind (api_close_children now cx is_cancellation
                   (api_node_update v (xc_retry_count payload))) (\<lambda>cs.
        res_bind (api_finish_run now v
                   (recompute_summary
                     (run\<lparr>tr_case_runs := cs,
                          tr_force_stopped := (av_force_stopped v \<or> tr_force_stopped run)\<rparr>)))
          (\<lambda>(effective_run_status, run2).
        if av_response_summary v \<noteq> None \<and> \<not> en_evidence_ok e
        then Inl (EvidenceStorageError ''evidence upload failed'')
        else
          (let result = api_result_row now cx effective v payload in
           Inr (\<lparr>cp_result = result, cp_runner_id = rn_id (cx_runner cx),
                 cp_run_status = effective_run_status, cp_idempotent = False\<rparr>,
                commit_run e (store_api_result now run payload result w) run2 run_status
                  effective_run_status (Some (cr_id (cx_case cx)))))))))))"

text \<open>The Run states \<open>ExecutionCompleteResponse\<close> can carry; any other state makes building the answer fail.\<close>

fun complete_response_status :: "run_status \<Rightarrow> bool" where
  "complete_response_status s \<longleftrightarrow>
     s = RUN_RUNNING \<or> s = RUN_SUCCESS \<or> s = RUN_FAILED \<or> s = RUN_TIMEOUT \<or> s = RUN_CANCELLED"

definition complete_api_execution ::
  "env \<Rightarrow> world \<Rightarrow> string \<Rightarrow> string \<Rightarrow> api_completion \<Rightarrow> api_complete_response handler_result" where
  "complete_api_execution e w run_id credential payload =
     res_bind (execution_context e w run_id credential (xc_message_id payload)
                (Some (xc_case_run_id payload))) (\<lambda>cx.
     case find_result (w_api_results w) (tr_id (cx_run cx)) (cr_id (cx_case cx)) of
       Some existing \<Rightarrow>
         if er_message_id existing \<noteq> xc_message_id payload
         then run_conflict ''completion of another message''
         else if \<not> complete_response_status (tr_status (cx_run cx))
         then Inl (InternalError ''ValidationError'')
         else Inr (\<lparr>cp_result = existing, cp_runner_id = rn_id (cx_runner cx),
                    cp_run_status = tr_status (cx_run cx), cp_idempotent = True\<rparr>, w)
     | None \<Rightarrow> complete_api_new e w cx payload)"

section \<open>Execution steps evolve the Run table\<close>

lemma select_case_runs_get:
  "select_case_runs run (Some i) = [c] \<Longrightarrow> get_case_run run i = Some c"
proof -
  have "filter (\<lambda>x. cr_id x = i) cs = [c] \<Longrightarrow> get_row cr_id cs i = Some c" for cs
    by (induction cs) (auto simp: get_row_def split: if_splits)
  then show "select_case_runs run (Some i) = [c] \<Longrightarrow> get_case_run run i = Some c"
    by (simp add: select_case_runs_def get_case_run_def)
qed

lemma single_Some_iff: "single xs = Some x \<longleftrightarrow> xs = [x]"
  by (cases xs rule: single.cases) auto

lemma execution_contextD:
  assumes "execution_context e w i cred m (Some k) = Inr cx"
  shows "get_run w i = Some (cx_run cx)" "get_case_run (cx_run cx) k = Some (cx_case cx)"
    "tr_dispatch_outbox (cx_run cx) = Some (cx_outbox cx)" "ob_status (cx_outbox cx) = OUTBOX_PUBLISHED"
    "claimed_by (cx_run cx) = Some (rn_id (cx_runner cx))" "ob_message_id (cx_outbox cx) = m"
    "authenticate_runner_for_run e w (cx_run cx) cred = Inr (cx_runner cx)"
proof -
  obtain run runner where 1: "get_run w i = Some run"
    "authenticate_runner_for_run e w run cred = Inr runner"
    using assms by (auto simp: execution_context_def res_simps)
  obtain ob where 2: "tr_dispatch_outbox run = Some ob"
    using assms 1 by (auto simp: execution_context_def res_simps split: option.splits)
  obtain c where 3: "select_case_runs run (Some k) = [c]"
    and cx: "cx = \<lparr>cx_run = run, cx_runner = runner, cx_outbox = ob, cx_case = c\<rparr>"
    and ob: "ob_message_id ob = m" "ob_status ob = OUTBOX_PUBLISHED"
      "ob_claimed_runner_id ob = Some (rn_id runner)"
    using assms 1 2
    by (cases "single (select_case_runs run (Some k))")
      (auto simp: execution_context_def res_simps single_Some_iff split: if_splits)
  show "get_run w i = Some (cx_run cx)" "get_case_run (cx_run cx) k = Some (cx_case cx)"
    "tr_dispatch_outbox (cx_run cx) = Some (cx_outbox cx)" "ob_status (cx_outbox cx) = OUTBOX_PUBLISHED"
    "claimed_by (cx_run cx) = Some (rn_id (cx_runner cx))" "ob_message_id (cx_outbox cx) = m"
    "authenticate_runner_for_run e w (cx_run cx) cred = Inr (cx_runner cx)"
    using 1 2 select_case_runs_get[OF 3] ob by (simp_all add: cx claimed_by_def)
qed

lemma execution_context_case_id:
  "execution_context e w i cred m (Some k) = Inr cx \<Longrightarrow> cr_id (cx_case cx) = k"
  by (drule execution_contextD(2)) (auto simp: get_case_run_def dest: row_table.get_key)

lemma start_step_evolves: "start_step now s = Inr s' \<Longrightarrow> step_evolves s s'"
  by (auto simp: start_step_def dest: set_node_step split: if_splits)

lemma start_case_evolves: "start_case now c = Inr c' \<Longrightarrow> case_evolves c c'"
  by (auto simp: start_case_def res_simps
      dest!: update_case_steps_case[OF _ start_step_evolves] set_node_case
      intro: case_evolves_trans)

lemma start_evolves:
  assumes cx: "execution_context e w i cred m (Some k) = Inr cx"
    and c: "start_case now (cx_case cx) = Inr c'"
    and set: "set_run_status now (put_case_run (cx_run cx) c') RUN_RUNNING (plain_run_update RUN_RUNNING)
               = Inr (b, r')"
    and st: "tr_status (cx_run cx) = RUN_ASSIGNED \<or> tr_status (cx_run cx) = RUN_RUNNING"
    and case_st: "nd_status (cx_case cx) = NODE_CREATED \<or> nd_status (cx_case cx) = NODE_ASSIGNED"
  shows "run_evolves (cx_run cx) r'"
proof -
  note d = execution_contextD[OF cx]
  have ev: "list_all2 case_evolves (tr_case_runs (cx_run cx)) (tr_case_runs (put_case_run (cx_run cx) c'))"
    using put_case_evolves[OF d(2) start_case_evolves[OF c]] .
  have "nd_status c' = NODE_RUNNING"
    using c by (auto simp: start_case_def res_simps dest: set_node_status_is)
  then have counts: "count_status s (tr_case_runs (put_case_run (cx_run cx) c')) =
      count_status s (tr_case_runs (cx_run cx))" if "terminal_node_status s" for s
  proof -
    have "filter (\<lambda>c. nd_status c = s) (put_row cr_id c' cs) = filter (\<lambda>c. nd_status c = s) cs"
      if "get_row cr_id cs (cr_id c') = Some (cx_case cx)" for cs
      using that \<open>nd_status c' = NODE_RUNNING\<close> \<open>terminal_node_status s\<close> case_st
      by (induction cs) (auto simp: get_row_def split: if_splits)
    moreover have "cr_id c' = k"
      using start_case_evolves[OF c] execution_context_case_id[OF cx] by (simp add: case_evolves_def)
    ultimately show ?thesis
      using d(2) by (simp add: count_status_def put_case_run_def get_case_run_def)
  qed
  have len: "length (tr_case_runs (put_case_run (cx_run cx) c')) = length (tr_case_runs (cx_run cx))"
    using ev by (auto dest: list_all2_lengthD)
  have "summary_ok (put_case_run (cx_run cx) c')" if "run_inv (cx_run cx)"
    using that counts len by (simp add: run_inv_def summary_ok_iff) (simp add: put_case_run_def)
  then show ?thesis
    using ev st d(3) by (intro finish_evolves[OF set]) (auto simp: row_frame results_ok_def)
qed

lemma start_api_execution_step:
  assumes ok: "start_api_execution e w i cred m k = Inr (rsp, w')"
  shows "world_step w w'"
proof -
  obtain cx where cx: "execution_context e w i cred m (Some k) = Inr cx"
    using ok by (auto simp: start_api_execution_def res_simps)
  note run = execution_contextD(1)[OF cx]
  show ?thesis
  proof (cases "w' = w")
    case False
    let ?r = "cx_run cx"
    obtain c' b r' where st: "tr_status ?r = RUN_ASSIGNED \<or> tr_status ?r = RUN_RUNNING"
      and case_st: "nd_status (cx_case cx) = NODE_CREATED \<or> nd_status (cx_case cx) = NODE_ASSIGNED"
      and c: "start_case (en_now e) (cx_case cx) = Inr c'"
      and set: "(if tr_status ?r = RUN_ASSIGNED
            then set_run_status (en_now e) (put_case_run ?r c') RUN_RUNNING
                   (plain_run_update RUN_RUNNING)
            else Inr (False, put_case_run ?r c')) = Inr (b, r')"
      and w': "w' = commit_run e w r' (tr_status ?r) RUN_RUNNING (Some (cr_id (cx_case cx)))"
      using ok cx False
      by (auto simp: start_api_execution_def res_simps Let_def split: if_splits)
    have "set_run_status (en_now e) (put_case_run ?r c') RUN_RUNNING
        (plain_run_update RUN_RUNNING) = Inr (b, r')"
      using set st by (auto simp: set_run_status_def row_frame)
    then have "run_evolves ?r r'" using start_evolves[OF cx c _ st case_st] by blast
    then show ?thesis unfolding w' by (rule world_step_commit[OF run])
  qed simp
qed

lemma start_single_step:
  assumes ok: "start_single load e w i cred m k = Inr (rsp, w')"
  shows "world_step w w'"
proof -
  obtain cx where cx: "execution_context e w i cred m (Some k) = Inr cx"
    using ok by (auto simp: start_single_def res_simps)
  note run = execution_contextD(1)[OF cx]
  show ?thesis
  proof (cases "w' = w")
    case False
    let ?r = "cx_run cx"
    obtain c' b r' where st: "tr_status ?r = RUN_ASSIGNED"
      and case_st: "nd_status (cx_case cx) = NODE_CREATED \<or> nd_status (cx_case cx) = NODE_ASSIGNED"
      and c: "start_case (en_now e) (cx_case cx) = Inr c'"
      and set: "set_run_status (en_now e) (put_case_run ?r c') RUN_RUNNING
                   (plain_run_update RUN_RUNNING) = Inr (b, r')"
      and w': "w' = commit_run e w r' RUN_ASSIGNED RUN_RUNNING (Some (cr_id (cx_case cx)))"
      using ok cx False
      by (auto simp: start_single_def res_simps Let_def split: if_splits)
    have "run_evolves ?r r'" using start_evolves[OF cx c set _ case_st] st by blast
    then show ?thesis unfolding w' by (rule world_step_commit[OF run])
  qed simp
qed

lemma cases_terminal_evolve:
  assumes "list_all2 case_evolves cs cs'" and "list_all (\<lambda>c. terminal_node_status (nd_status c)) cs"
  shows "list_all (\<lambda>c. terminal_node_status (nd_status c)) cs'"
  using assms
  by (induction rule: list_all2_induct) (auto simp: case_evolves_def dest: node_keeps_status)

text \<open>
  A completion: the CaseRuns of an executing or cancelled Run evolve, then the Run either keeps its
  status or takes a terminal one that fits the CaseRuns.
\<close>

definition completes_from :: "run_status \<Rightarrow> bool" where
  "completes_from s \<longleftrightarrow> s = RUN_RUNNING \<or> s = RUN_CANCELLING \<or> s = RUN_CANCELLED"

lemma keep_status_evolves:
  assumes ev: "list_all2 case_evolves (tr_case_runs r) cs" and st: "completes_from (tr_status r)"
    and ob: "tr_dispatch_outbox r \<noteq> None"
  shows "run_evolves r (recompute_summary (r\<lparr>tr_case_runs := cs, tr_force_stopped := f\<rparr>))"
proof -
  let ?r0 = "r\<lparr>tr_case_runs := cs, tr_force_stopped := f\<rparr>"
  have set: "set_run_status 0 (recompute_summary ?r0) (tr_status r) (plain_run_update (tr_status r)) =
      Inr (False, recompute_summary ?r0)"
    by (simp add: set_run_status_def row_frame)
  have "results_ok (?r0\<lparr>tr_status := tr_status r\<rparr>)" if "run_inv r"
    using st that ob cases_terminal_evolve[OF ev]
    by (auto simp: completes_from_def results_ok_def all_cases_terminal_def run_inv_def)
  then show ?thesis
    using ev ob by (intro summary_evolves[OF set]) auto
qed

lemma completes_edge_claim:
  "completes_from s \<Longrightarrow> run_machine.edge s t \<Longrightarrow> needs_claim t \<Longrightarrow> needs_claim s"
  by (auto simp: completes_from_def run_machine.edge_def)

lemma ensured_finish_evolves:
  assumes ev: "list_all2 case_evolves (tr_case_runs r) cs" and st: "completes_from (tr_status r)"
    and ob: "tr_dispatch_outbox r \<noteq> None"
    and ens: "ensure_terminal_run_matches_children (r\<lparr>tr_case_runs := cs, tr_force_stopped := f\<rparr>) req
               = Inr ()"
    and set: "set_run_status now (recompute_summary (r\<lparr>tr_case_runs := cs, tr_force_stopped := f\<rparr>)) req p
               = Inr (b, r')"
  shows "run_evolves r r'"
proof -
  have "run_machine.edge (tr_status r) req"
    using set_run_status_edge[OF set] by (simp add: row_frame)
  then show ?thesis
    using ev ob ensure_results_ok[OF ens] completes_edge_claim[OF st]
    by (intro summary_evolves[OF set]) auto
qed

lemma api_finish_run_evolves:
  assumes ev: "list_all2 case_evolves (tr_case_runs r) cs" and st: "completes_from (tr_status r)"
    and ob: "tr_dispatch_outbox r \<noteq> None"
    and ok: "api_finish_run now v (recompute_summary (r\<lparr>tr_case_runs := cs, tr_force_stopped := f\<rparr>))
              = Inr (eff, r')"
  shows "run_evolves r r'"
  using ok keep_status_evolves[OF ev st ob] ensured_finish_evolves[OF ev st ob]
  by (auto simp: api_finish_run_def res_simps Let_def split: if_splits)

lemma api_close_case_evolves: "api_close_case now upd c = Inr c' \<Longrightarrow> case_evolves c c'"
  by (auto simp: api_close_case_def res_simps
      dest!: update_case_steps_case[OF _ close_node_step] set_node_case
      intro: case_evolves_trans)

lemma api_cancel_other_evolves: "api_cancel_other now k upd c = Inr c' \<Longrightarrow> case_evolves c c'"
  by (auto simp: api_cancel_other_def res_simps split: if_splits
      dest!: update_case_steps_case[OF _ close_node_step] set_node_case
      intro: case_evolves_trans)

lemma api_close_children_evolve:
  assumes "api_close_children now cx b upd = Inr cs" and "get_case_run (cx_run cx) k = Some (cx_case cx)"
  shows "list_all2 case_evolves (tr_case_runs (cx_run cx)) cs"
proof -
  obtain c' where c': "api_close_case now upd (cx_case cx) = Inr c'"
    and cs: "cs = put_row cr_id c' (tr_case_runs (cx_run cx)) \<or>
      res_map (api_cancel_other now (cr_id (cx_case cx)) upd)
        (put_row cr_id c' (tr_case_runs (cx_run cx))) = Inr cs"
    using assms(1) by (auto simp: api_close_children_def res_simps Let_def split: if_splits)
  have put: "list_all2 case_evolves (tr_case_runs (cx_run cx)) (put_row cr_id c' (tr_case_runs (cx_run cx)))"
    using put_case_evolves[OF assms(2) api_close_case_evolves[OF c']] by (simp add: put_case_run_def)
  show ?thesis
    using cs
  proof
    assume "res_map (api_cancel_other now (cr_id (cx_case cx)) upd)
        (put_row cr_id c' (tr_case_runs (cx_run cx))) = Inr cs"
    from cases_evolve_trans[OF put map_cases_evolve[OF this api_cancel_other_evolves]]
    show ?thesis .
  qed (use put in simp)
qed

lemma completion_guard_from:
  "completion_guard c s n = Inr () \<Longrightarrow> completes_from s"
  by (auto simp: completion_guard_def completes_from_def split: if_splits)

lemma store_api_result_frame [row_frame]:
  "w_runs (store_api_result t r p x w) = w_runs w" "w_db (store_api_result t r p x w) = w_db w"
  "w_runners (store_api_result t r p x w) = w_runners w"
  "w_api_results (store_api_result t r p x w) = w_api_results w @ [x]"
  "w_scenario_results (store_api_result t r p x w) = w_scenario_results w"
  "w_web_results (store_api_result t r p x w) = w_web_results w"
  "w_sent (store_api_result t r p x w) = w_sent w" "w_events (store_api_result t r p x w) = w_events w"
  by (simp_all add: store_api_result_def Let_def)

lemma complete_api_newE:
  assumes ok: "complete_api_new e w cx p = Inr (rsp, w')"
  obtains eff content v cs rst r2
  where "eff = (if tr_status (cx_run cx) = RUN_CANCELLING then OUTCOME_CANCELLED else xc_outcome p)"
    and "completion_guard (eff = OUTCOME_CANCELLED) (tr_status (cx_run cx)) (nd_status (cx_case cx)) = Inr ()"
    and "api_completion_verdict e cx content eff p = Inr v"
    and "api_close_children (en_now e) cx (eff = OUTCOME_CANCELLED)
           (api_node_update v (xc_retry_count p)) = Inr cs"
    and "api_finish_run (en_now e) v (recompute_summary ((cx_run cx)\<lparr>tr_case_runs := cs,
           tr_force_stopped := (av_force_stopped v \<or> tr_force_stopped (cx_run cx))\<rparr>)) = Inr (rst, r2)"
    and "rsp = \<lparr>cp_result = api_result_row (en_now e) cx eff v p, cp_runner_id = rn_id (cx_runner cx),
                cp_run_status = rst, cp_idempotent = False\<rparr>"
    and "w' = commit_run e (store_api_result (en_now e) (cx_run cx) p
           (api_result_row (en_now e) cx eff v p) w) r2 (tr_status (cx_run cx)) rst
           (Some (cr_id (cx_case cx)))"
proof -
  define eff where "eff = (if tr_status (cx_run cx) = RUN_CANCELLING then OUTCOME_CANCELLED
    else xc_outcome p)"
  show thesis
    using ok unfolding complete_api_new_def Let_def eff_def[symmetric]
    by (auto simp: res_simps simp del: Product_Type.split_paired_Ex split: if_splits
        intro: that[OF eff_def])
qed

lemma find_result_None:
  "find_result xs i k = None \<Longrightarrow> er_run_id x = i \<Longrightarrow> er_case_run_id x = k \<Longrightarrow>
     result_key x \<notin> result_key ` set xs"
  by (auto simp: find_result_def find_None_iff result_key_def)

lemma complete_api_new_step:
  assumes new: "find_result (w_api_results w) (tr_id (cx_run cx)) (cr_id (cx_case cx)) = None"
    and ok: "complete_api_new e w cx p = Inr (rsp, w')"
    and cx: "execution_context e w i cred m (Some k) = Inr cx"
  shows "world_step w w'"
  using ok
proof (rule complete_api_newE)
  fix eff content v cs rst r2
  note d = execution_contextD[OF cx]
  let ?w1 = "store_api_result (en_now e) (cx_run cx) p (api_result_row (en_now e) cx eff v p) w"
  assume g: "completion_guard (eff = OUTCOME_CANCELLED) (tr_status (cx_run cx))
      (nd_status (cx_case cx)) = Inr ()"
    and cs: "api_close_children (en_now e) cx (eff = OUTCOME_CANCELLED)
           (api_node_update v (xc_retry_count p)) = Inr cs"
    and fin: "api_finish_run (en_now e) v (recompute_summary ((cx_run cx)\<lparr>tr_case_runs := cs,
           tr_force_stopped := (av_force_stopped v \<or> tr_force_stopped (cx_run cx))\<rparr>)) = Inr (rst, r2)"
    and w': "w' = commit_run e ?w1 r2 (tr_status (cx_run cx)) rst (Some (cr_id (cx_case cx)))"
  have "run_evolves (cx_run cx) r2"
    using api_finish_run_evolves[OF api_close_children_evolve[OF cs d(2)]
        completion_guard_from[OF g] _ fin] d(3) by simp
  then have "world_step w (put_run w r2)" by (rule world_step_put[OF d(1)])
  then have "world_step w (put_run ?w1 r2)"
    using find_result_None[OF new, of "api_result_row (en_now e) cx eff v p"]
    by (elim world_step_more)
      (simp_all add: put_run_def row_frame results_unique_def, simp add: api_result_row_def)
  then show "world_step w w'" unfolding w' commit_run_def by (rule world_step_publish)
qed

lemma complete_api_execution_step:
  assumes "complete_api_execution e w i cred p = Inr (rsp, w')"
  shows "world_step w w'"
proof -
  obtain cx where cx: "execution_context e w i cred (xc_message_id p) (Some (xc_case_run_id p)) = Inr cx"
    using assms by (auto simp: complete_api_execution_def res_simps)
  show ?thesis
  proof (cases "find_result (w_api_results w) (tr_id (cx_run cx)) (cr_id (cx_case cx))")
    case None
    then show ?thesis
      using assms cx complete_api_new_step[OF None _ cx] by (simp add: complete_api_execution_def)
  qed (use assms cx in \<open>auto simp: complete_api_execution_def split: if_splits\<close>)
qed

end
