(* ===== verification/Run_Scenario.thy ===== *)
theory Run_Scenario
  imports Run_Execution
begin

text \<open>
  Completing a Scenario execution: \<open>_validate_scenario_traces\<close>, \<open>_scenario_trace_audit\<close> and
  \<open>complete_scenario_execution\<close> of \<open>runs/service.py\<close>.

  The reported traces, one per node of the pinned DSL, become the results of the StepRuns; the
  CaseRun is aggregated from them and the Run takes the reported outcome if it fits. The check of
  the signed AI evaluation (\<open>check_ai_claims\<close>) is shared with the Web handler.
\<close>

section \<open>Traces\<close>

datatype trace_status =
    TRACE_SUCCESS | TRACE_PASSED | TRACE_FAILED | TRACE_REVIEW | TRACE_SKIPPED | TRACE_TIMEOUT
  | TRACE_CANCELLED

record exec_trace =
  et_node_id :: string
  et_status :: trace_status
  et_duration_ms :: int
  et_retry_count :: int
  et_error_type :: "string option"
  et_error_message :: "string option"
  et_extra :: json

fun trace_node_status :: "trace_status \<Rightarrow> run_node_status" where
  "trace_node_status TRACE_SUCCESS = NODE_SUCCESS"
| "trace_node_status TRACE_PASSED = NODE_SUCCESS"
| "trace_node_status TRACE_FAILED = NODE_FAILED"
| "trace_node_status TRACE_REVIEW = NODE_REVIEW"
| "trace_node_status TRACE_SKIPPED = NODE_SKIPPED"
| "trace_node_status TRACE_TIMEOUT = NODE_TIMEOUT"
| "trace_node_status TRACE_CANCELLED = NODE_CANCELLED"

definition scenario_trace_audit :: "exec_trace \<Rightarrow> trace_audit" where
  "scenario_trace_audit t =
     (let status = trace_node_status (et_status t);
          message = safe_error_max 500 (et_error_message t)
      in \<lparr>ta_node_id = et_node_id t, ta_status = status, ta_duration_ms = et_duration_ms t,
          ta_retry_count = Some (et_retry_count t),
          ta_error_type = safe_error_max 100 (et_error_type t),
          ta_error_message = (if message = None \<and> status = NODE_SUCCESS
                              then Some ''node succeeded'' else message),
          ta_extra = JNull\<rparr>)"

definition trace_of :: "exec_trace list \<Rightarrow> string \<Rightarrow> exec_trace option" where
  "trace_of traces node_id = find (\<lambda>t. et_node_id t = node_id) (rev traces)"

datatype exec_outcome = EXEC_SUCCESS | EXEC_FAILED | EXEC_TIMEOUT | EXEC_CANCELLED

record scenario_completion =
  sx_message_id :: string
  sx_case_run_id :: int
  sx_outcome :: exec_outcome
  sx_traces :: "exec_trace list"
  sx_error_type :: "string option"
  sx_error_message :: "string option"
  sx_evaluation_token :: "string option"

fun check_traces :: "string list \<Rightarrow> string list \<Rightarrow> exec_trace list \<Rightarrow> app_error + unit" where
  "check_traces node_ids seen [] = Inr ()"
| "check_traces node_ids seen (t # ts) =
     (if et_node_id t \<notin> set node_ids then run_conflict ''trace with unknown node_id''
      else if et_node_id t \<in> set seen then run_conflict ''node_id reported twice''
      else check_traces node_ids (et_node_id t # seen) ts)"

definition validate_scenario_traces ::
  "scenario_node list \<Rightarrow> scenario_completion \<Rightarrow> app_error + unit" where
  "validate_scenario_traces dsl payload =
     (let node_ids = map sn_id dsl in
      res_bind (check_traces node_ids [] (sx_traces payload)) (\<lambda>_.
      if sx_outcome payload = EXEC_SUCCESS
         \<and> set (map et_node_id (sx_traces payload)) \<noteq> set node_ids
      then run_conflict ''SUCCESS needs a trace for every node'' else Inr ()))"

section \<open>The signed AI evaluation\<close>

text \<open>\<open>expected\<close> is the trace status that belongs to a node verdict: a passed AI assertion is
  \<open>PASSED\<close> in a Scenario and \<open>SUCCESS\<close> in a Web Case.\<close>

fun expected_trace :: "trace_status \<Rightarrow> verdict \<Rightarrow> trace_status" where
  "expected_trace pass VERDICT_PASS = pass"
| "expected_trace pass VERDICT_FAIL = TRACE_FAILED"
| "expected_trace pass VERDICT_REVIEW = TRACE_REVIEW"

definition node_result_ok ::
  "trace_status \<Rightarrow> exec_trace list \<Rightarrow> string \<Rightarrow> string \<times> verdict option \<Rightarrow> bool" where
  "node_result_ok pass traces node_id result =
     (case snd result of
        None \<Rightarrow> False
      | Some v \<Rightarrow>
          fst result = node_id
          \<and> (case trace_of traces node_id of
               None \<Rightarrow> False | Some t \<Rightarrow> et_status t = expected_trace pass v))"

definition check_ai_claims ::
  "string \<Rightarrow> trace_status \<Rightarrow> int option \<Rightarrow> exec_context \<Rightarrow> string \<Rightarrow> exec_trace list \<Rightarrow> string list
     \<Rightarrow> exec_outcome \<Rightarrow> evaluation_claims \<Rightarrow> app_error + assertion_result list" where
  "check_ai_claims kind pass version_id cx message_id traces ai_nodes effective claims =
     (if ec_kind claims \<noteq> kind \<or> ec_run_id claims \<noteq> tr_id (cx_run cx)
         \<or> ec_message_id claims \<noteq> message_id \<or> ec_case_run_id claims \<noteq> cr_id (cx_case cx)
         \<or> ec_version_id claims \<noteq> version_id
      then run_conflict ''AI evaluation token does not match''
      else
        (case ec_assertion_status claims of
           None \<Rightarrow> run_conflict ''AI evaluation token invalid''
         | Some assertion_status \<Rightarrow>
             if length (ec_node_results claims) \<noteq> length ai_nodes
                \<or> \<not> ec_results_valid claims
                \<or> length (ec_assertion_results claims) \<noteq> length ai_nodes
             then run_conflict ''AI evaluation token invalid''
             else if \<not> list_all (\<lambda>(n, r). node_result_ok pass traces n r)
                        (zip ai_nodes (ec_node_results claims))
             then run_conflict ''AI evaluation does not match the traces''
             else if assertion_status \<noteq> VERDICT_PASS \<and> effective \<noteq> EXEC_FAILED
             then run_conflict ''AI assertion not passed, outcome must be FAILED''
             else Inr (map execution_assertion_audit (ec_assertion_results claims))))"

definition scenario_ai_evaluation ::
  "env \<Rightarrow> exec_context \<Rightarrow> scenario_node list \<Rightarrow> exec_outcome \<Rightarrow> scenario_completion
     \<Rightarrow> app_error + assertion_result list" where
  "scenario_ai_evaluation e cx dsl effective payload =
     (let ai_nodes = map sn_id (filter (\<lambda>n. sn_enabled n \<and> sn_ai_assertion n) dsl) in
      case sx_evaluation_token payload of
        Some token \<Rightarrow>
          if effective = EXEC_CANCELLED \<or> effective = EXEC_TIMEOUT
          then run_conflict ''no AI evaluation token for CANCELLED or TIMEOUT''
          else
            res_bind (en_claims e token)
              (check_ai_claims ''SCENARIO_AI_ASSERTION'' TRACE_PASSED
                 (tr_scenario_version_id (cx_run cx)) cx (sx_message_id payload) (sx_traces payload)
                 ai_nodes effective)
      | None \<Rightarrow>
          if ai_nodes \<noteq> []
             \<and> (effective = EXEC_SUCCESS
                \<or> list_ex (\<lambda>n. case trace_of (sx_traces payload) n of
                               None \<Rightarrow> False | Some t \<Rightarrow> et_status t \<noteq> TRACE_SKIPPED) ai_nodes)
          then run_conflict ''AI assertion without trusted evaluation''
          else Inr [])"

section \<open>Step results\<close>

text \<open>\<open>status_by_node\<close>: the reported status of each node; a FAILED or TIMEOUT outcome that no trace
  explains is pinned on the first unfinished step.\<close>

definition first_unfinished :: "step_run list \<Rightarrow> step_run option" where
  "first_unfinished ss = find (\<lambda>s. \<not> terminal_node_status (nd_status s)) ss"

definition blame_first ::
  "step_run list \<Rightarrow> run_node_status \<Rightarrow> (string \<rightharpoonup> run_node_status) \<Rightarrow> (string \<rightharpoonup> run_node_status)" where
  "blame_first ss st m =
     (case first_unfinished ss of None \<Rightarrow> m | Some s \<Rightarrow> m(sr_node_id s \<mapsto> st))"

definition reported_statuses :: "exec_trace list \<Rightarrow> run_node_status list" where
  "reported_statuses traces = map (\<lambda>t. trace_node_status (et_status t)) traces"

definition scenario_status_by_node ::
  "exec_outcome \<Rightarrow> exec_trace list \<Rightarrow> step_run list \<Rightarrow> app_error + (string \<rightharpoonup> run_node_status)" where
  "scenario_status_by_node effective traces ss =
     (let reported = set (reported_statuses traces);
          m = (\<lambda>n. map_option (\<lambda>t. trace_node_status (et_status t)) (trace_of traces n)) in
      if effective = EXEC_SUCCESS
         \<and> (NODE_FAILED \<in> reported \<or> NODE_TIMEOUT \<in> reported \<or> NODE_CANCELLED \<in> reported)
      then run_conflict ''traces contradict SUCCESS''
      else if effective = EXEC_FAILED \<and> NODE_FAILED \<notin> reported \<and> NODE_REVIEW \<notin> reported
      then Inr (blame_first ss NODE_FAILED m)
      else if effective = EXEC_TIMEOUT \<and> NODE_TIMEOUT \<notin> reported
      then Inr (blame_first ss NODE_TIMEOUT m)
      else Inr m)"

definition scenario_step ::
  "datetime \<Rightarrow> exec_outcome \<Rightarrow> exec_trace list \<Rightarrow> (string \<rightharpoonup> run_node_status) \<Rightarrow> string option
     \<Rightarrow> string option \<Rightarrow> step_run \<Rightarrow> app_error + step_run" where
  "scenario_step now effective traces by_node error_type error_message s =
     (if terminal_node_status (nd_status s) then Inr s
      else
        res_bind
          (case by_node (sr_node_id s) of
             Some d \<Rightarrow> Inr d
           | None \<Rightarrow>
               if effective = EXEC_FAILED then Inr NODE_SKIPPED
               else if effective = EXEC_TIMEOUT then Inr NODE_TIMEOUT
               else run_conflict ''SUCCESS without a node trace'') (\<lambda>desired.
        let upd = (case trace_of traces (sr_node_id s) of
                     Some t \<Rightarrow>
                       \<lparr>nsu_status = desired, nsu_duration = Some (et_duration_ms t),
                        nsu_retry_count = Some (et_retry_count t),
                        nsu_error_type = safe_error_max 100 (et_error_type t),
                        nsu_error_message = safe_error_max 500 (et_error_message t)\<rparr>
                   | None \<Rightarrow>
                       error_node_update desired error_type error_message)
        in set_node now desired upd s))"

definition or_default :: "string option \<Rightarrow> string \<Rightarrow> string option" where
  "or_default v d = (case v of None \<Rightarrow> Some d | Some s \<Rightarrow> if s = [] then Some d else Some s)"

fun outcome_run_status :: "exec_outcome \<Rightarrow> run_status" where
  "outcome_run_status EXEC_SUCCESS = RUN_SUCCESS"
| "outcome_run_status EXEC_FAILED = RUN_FAILED"
| "outcome_run_status EXEC_TIMEOUT = RUN_TIMEOUT"
| "outcome_run_status EXEC_CANCELLED = RUN_CANCELLED"

fun outcome_node_status :: "exec_outcome \<Rightarrow> run_node_status" where
  "outcome_node_status EXEC_SUCCESS = NODE_SUCCESS"
| "outcome_node_status EXEC_FAILED = NODE_FAILED"
| "outcome_node_status EXEC_TIMEOUT = NODE_TIMEOUT"
| "outcome_node_status EXEC_CANCELLED = NODE_CANCELLED"

fun outcome_value :: "exec_outcome \<Rightarrow> string" where
  "outcome_value EXEC_SUCCESS = ''SUCCESS''"
| "outcome_value EXEC_FAILED = ''FAILED''"
| "outcome_value EXEC_TIMEOUT = ''TIMEOUT''"
| "outcome_value EXEC_CANCELLED = ''CANCELLED''"

text \<open>The final error fields: dropped on success, defaulted on failure and timeout.\<close>

definition outcome_errors ::
  "string \<times> string \<Rightarrow> string \<times> string \<Rightarrow> exec_outcome \<Rightarrow> string option \<Rightarrow> string option
     \<Rightarrow> string option \<times> string option" where
  "outcome_errors timeout_default failed_default effective t m =
     (if effective = EXEC_SUCCESS then (None, None)
      else if effective = EXEC_TIMEOUT
      then (or_default t (fst timeout_default), or_default m (snd timeout_default))
      else (or_default t (fst failed_default), or_default m (snd failed_default)))"

definition cancel_case ::
  "datetime \<Rightarrow> test_run \<Rightarrow> case_run \<Rightarrow> app_error + case_run" where
  "cancel_case now run c =
     (let upd = error_node_update NODE_CANCELLED (Some (stop_error_type run))
                  (Some (stop_error_message run))
      in res_bind (update_case_steps (close_node now NODE_CANCELLED upd) c)
           (close_node now NODE_CANCELLED upd))"

definition scenario_close_case ::
  "datetime \<Rightarrow> exec_context \<Rightarrow> exec_outcome \<Rightarrow> scenario_completion \<Rightarrow> app_error + case_run" where
  "scenario_close_case now cx effective payload =
     (if effective = EXEC_CANCELLED then cancel_case now (cx_run cx) (cx_case cx)
      else
        (let c = cx_case cx; t = safe_error_max 100 (sx_error_type payload);
             m = safe_error_max 500 (sx_error_message payload) in
         res_bind (scenario_status_by_node effective (sx_traces payload) (cr_step_runs c)) (\<lambda>by_node.
         res_bind (update_case_steps
                    (scenario_step now effective (sx_traces payload) by_node t m) c) (\<lambda>c'.
         Inr (aggregate_case_status now c')))))"

definition scenario_errors ::
  "exec_context \<Rightarrow> exec_outcome \<Rightarrow> scenario_completion \<Rightarrow> string option \<times> string option" where
  "scenario_errors cx effective payload =
     (if effective = EXEC_CANCELLED
      then (Some (stop_error_type (cx_run cx)), Some (stop_error_message (cx_run cx)))
      else outcome_errors (''SCENARIO_TIMEOUT'', ''scenario timed out'')
             (''SCENARIO_EXECUTION_FAILED'', ''scenario failed'') effective
             (safe_error_max 100 (sx_error_type payload))
             (safe_error_max 500 (sx_error_message payload)))"

record traced_complete_response =
  tc_result :: traced_result
  tc_runner_id :: string
  tc_case_run_status :: run_node_status
  tc_idempotent :: bool

text \<open>The common end of the Scenario and Web handlers: counters, fit with the CaseRuns, Run
  status.\<close>

definition finish_traced ::
  "datetime \<Rightarrow> exec_context \<Rightarrow> case_run \<Rightarrow> bool \<Rightarrow> exec_outcome \<Rightarrow> string option \<Rightarrow> string option
     \<Rightarrow> app_error + test_run" where
  "finish_traced now cx c' force_stopped effective t m =
     (let status = outcome_run_status effective;
          run1 = recompute_summary
                   ((cx_run cx)\<lparr>tr_case_runs := put_row cr_id c' (tr_case_runs (cx_run cx)),
                                tr_force_stopped := force_stopped\<rparr>)
      in res_bind (ensure_terminal_run_matches_children run1 status) (\<lambda>_.
         res_bind (set_run_status now run1 status (error_run_update status t m)) (\<lambda>(_, run2).
         Inr run2)))"

definition traced_result_row ::
  "datetime \<Rightarrow> exec_context \<Rightarrow> string \<Rightarrow> exec_outcome \<Rightarrow> trace_audit list \<Rightarrow> assertion_result list
     \<Rightarrow> (json \<times> string) option \<Rightarrow> string option \<Rightarrow> string option \<Rightarrow> traced_result" where
  "traced_result_row now cx message_id effective traces assertions recovery t m =
     \<lparr>er_run_id = tr_id (cx_run cx), er_case_run_id = cr_id (cx_case cx), er_message_id = message_id,
      er_outcome = outcome_value effective, er_status = outcome_node_status effective,
      er_assertion_results = assertions, er_error_type = t, er_error_message = m,
      er_completed_at = now, er_traces = traces, er_session_recovery = recovery\<rparr>"

definition complete_scenario_new ::
  "env \<Rightarrow> world \<Rightarrow> exec_context \<Rightarrow> scenario_completion \<Rightarrow> traced_complete_response handler_result" where
  "complete_scenario_new e w cx payload =
     (let run = cx_run cx; now = en_now e;
          effective = (if tr_status run = RUN_CANCELLING then EXEC_CANCELLED else sx_outcome payload) in
      res_bind (en_scenario e run) (\<lambda>dsl.
      res_bind (completion_guard (effective = EXEC_CANCELLED) (tr_status run) (nd_status (cx_case cx))) (\<lambda>_.
      res_bind (validate_scenario_traces dsl payload) (\<lambda>_.
      res_bind (scenario_ai_evaluation e cx dsl effective payload) (\<lambda>audited.
      if set (map sr_node_id (cr_step_runs (cx_case cx))) \<noteq> set (map sn_id dsl)
      then run_conflict ''DSL and step runs differ''
      else
        res_bind (scenario_close_case now cx effective payload) (\<lambda>c'.
        let t = fst (scenario_errors cx effective payload);
            m = snd (scenario_errors cx effective payload);
            force = tr_force_stopped run
                    \<or> (effective = EXEC_CANCELLED \<and> tr_force_stop_requested_at run \<noteq> None)
        in res_bind (finish_traced now cx c' force effective t m) (\<lambda>run2.
           let result = traced_result_row now cx (sx_message_id payload) effective
                          (map scenario_trace_audit (sx_traces payload)) audited None t m
           in Inr (\<lparr>tc_result = result, tc_runner_id = rn_id (cx_runner cx),
                    tc_case_run_status = nd_status c', tc_idempotent = False\<rparr>,
                   commit_run e (w\<lparr>w_scenario_results := w_scenario_results w @ [result]\<rparr>) run2
                     (tr_status run) (outcome_run_status effective) (Some (cr_id (cx_case cx)))))))))))"

definition complete_scenario_execution ::
  "env \<Rightarrow> world \<Rightarrow> string \<Rightarrow> string \<Rightarrow> scenario_completion \<Rightarrow> traced_complete_response handler_result"
  where
  "complete_scenario_execution e w run_id credential payload =
     res_bind (execution_context e w run_id credential (sx_message_id payload)
                (Some (sx_case_run_id payload))) (\<lambda>cx.
     case find_result (w_scenario_results w) (tr_id (cx_run cx)) (cr_id (cx_case cx)) of
       Some existing \<Rightarrow>
         if er_message_id existing \<noteq> sx_message_id payload
         then run_conflict ''completion of another message''
         else Inr (\<lparr>tc_result = existing, tc_runner_id = rn_id (cx_runner cx),
                    tc_case_run_status = nd_status (cx_case cx), tc_idempotent = True\<rparr>, w)
     | None \<Rightarrow> complete_scenario_new e w cx payload)"

section \<open>Steps\<close>

lemma cancel_case_evolves: "cancel_case now run c = Inr c' \<Longrightarrow> case_evolves c c'"
  by (auto simp: cancel_case_def res_simps Let_def
      dest!: update_case_steps_case[OF _ close_node_step] close_node_case
      intro: case_evolves_trans)

lemma scenario_step_evolves: "scenario_step now eff ts m t x s = Inr s' \<Longrightarrow> step_evolves s s'"
  by (auto simp: scenario_step_def res_simps Let_def dest: set_node_step split: if_splits)

lemma scenario_close_case_evolves:
  "scenario_close_case now cx eff p = Inr c' \<Longrightarrow> case_evolves (cx_case cx) c'"
  by (auto simp: scenario_close_case_def res_simps Let_def split: if_splits
      dest: cancel_case_evolves
      dest!: update_case_steps_case[OF _ scenario_step_evolves]
      intro: case_evolves_trans aggregate_case_evolves)

lemma finish_traced_evolves:
  assumes cx: "execution_context e w i cred m (Some k) = Inr cx"
    and ev: "case_evolves (cx_case cx) c'" and st: "completes_from (tr_status (cx_run cx))"
    and ok: "finish_traced now cx c' f eff t x = Inr r'"
  shows "run_evolves (cx_run cx) r'"
proof -
  note d = execution_contextD[OF cx]
  have "list_all2 case_evolves (tr_case_runs (cx_run cx)) (put_row cr_id c' (tr_case_runs (cx_run cx)))"
    using put_case_evolves[OF d(2) ev] by (simp add: put_case_run_def)
  then show ?thesis
    using ok ensured_finish_evolves[OF _ st] d(3)
    by (auto simp: finish_traced_def res_simps Let_def)
qed

lemma complete_scenario_new_step:
  assumes new: "find_result (w_scenario_results w) (tr_id (cx_run cx)) (cr_id (cx_case cx)) = None"
    and ok: "complete_scenario_new e w cx p = Inr (rsp, w')"
    and cx: "execution_context e w i cred m (Some k) = Inr cx"
  shows "world_step w w'"
proof -
  define eff where "eff = (if tr_status (cx_run cx) = RUN_CANCELLING then EXEC_CANCELLED
    else sx_outcome p)"
  obtain c' t x f r2 a1 a2 a3 a4 a5 a6 a7 where
    g: "completion_guard (eff = EXEC_CANCELLED) (tr_status (cx_run cx)) (nd_status (cx_case cx)) = Inr ()"
    and c': "scenario_close_case (en_now e) cx eff p = Inr c'"
    and fin: "finish_traced (en_now e) cx c' f eff t x = Inr r2"
    and w': "w' = commit_run e (w\<lparr>w_scenario_results := w_scenario_results w @ [traced_result_row (en_now e) cx a1 a2 a3 a4 a5 a6 a7]\<rparr>) r2
               (tr_status (cx_run cx)) (outcome_run_status eff) (Some (cr_id (cx_case cx)))"
    using ok unfolding complete_scenario_new_def Let_def eff_def[symmetric]
    by (auto simp: res_simps split: if_splits)
  let ?res = "traced_result_row (en_now e) cx a1 a2 a3 a4 a5 a6 a7"
  have "run_evolves (cx_run cx) r2"
    using finish_traced_evolves[OF cx scenario_close_case_evolves[OF c'] completion_guard_from[OF g] fin] .
  then have "world_step w (put_run w r2)" by (rule world_step_put[OF execution_contextD(1)[OF cx]])
  then have "world_step w (put_run (w\<lparr>w_scenario_results := w_scenario_results w @ [?res]\<rparr>) r2)"
    using find_result_None[OF new, of ?res]
    by (elim world_step_more) (simp_all add: put_run_def results_unique_def traced_result_row_def)
  then show ?thesis unfolding w' commit_run_def by (rule world_step_publish)
qed

lemma complete_scenario_execution_step:
  assumes "complete_scenario_execution e w i cred p = Inr (rsp, w')"
  shows "world_step w w'"
proof -
  obtain cx where cx: "execution_context e w i cred (sx_message_id p) (Some (sx_case_run_id p)) = Inr cx"
    using assms by (auto simp: complete_scenario_execution_def res_simps)
  show ?thesis
  proof (cases "find_result (w_scenario_results w) (tr_id (cx_run cx)) (cr_id (cx_case cx))")
    case None
    then show ?thesis
      using assms cx complete_scenario_new_step[OF None _ cx] by (simp add: complete_scenario_execution_def)
  qed (use assms cx in \<open>auto simp: complete_scenario_execution_def split: if_splits\<close>)
qed

end
