(* ===== verification/Run_Web.thy ===== *)
theory Run_Web
  imports Run_Scenario
begin

text \<open>
  Completing a Web execution: \<open>_apply_web_session_refresh\<close>, \<open>_web_trace_audit\<close> and
  \<open>complete_web_execution\<close> of \<open>runs/service.py\<close>.

  The handler differs from the Scenario one: every node must be reported exactly once unless the Run
  was cancelled, evidence and session-recovery failures close the CaseRun directly, and a
  refreshed storage state is written back to its session profile with an optimistic
  revision check.
\<close>

section \<open>Request\<close>

datatype recovery_status = RECOVERY_NOT_NEEDED | RECOVERY_SUCCESS | RECOVERY_FAILED

record recovery_audit =
  ra_status :: recovery_status
  ra_login_version_id :: int
  ra_body :: json

record refreshed_session =
  rf_profile_id :: int
  rf_expected_revision :: int
  rf_expected_fingerprint :: string
  rf_storage_state :: json

record web_completion =
  wx_message_id :: string
  wx_case_run_id :: int
  wx_outcome :: exec_outcome
  wx_traces :: "exec_trace list"
  wx_error_type :: "string option"
  wx_error_message :: "string option"
  wx_refreshed :: "refreshed_session option"
  wx_recovery :: "recovery_audit option"
  wx_evaluation_token :: "string option"

definition web_trace_audit :: "exec_trace \<Rightarrow> trace_audit" where
  "web_trace_audit t =
     \<lparr>ta_node_id = et_node_id t, ta_status = trace_node_status (et_status t),
      ta_duration_ms = et_duration_ms t, ta_retry_count = None,
      ta_error_type = safe_error_max 100 (et_error_type t),
      ta_error_message = safe_error_max 500 (et_error_message t), ta_extra = et_extra t\<rparr>"

section \<open>Session refresh\<close>

definition store_refreshed ::
  "env \<Rightarrow> session_profile \<Rightarrow> refreshed_session \<Rightarrow> session_profile" where
  "store_refreshed e profile r =
     profile\<lparr>sp_storage_state := rf_storage_state r,
             sp_fingerprint := en_fingerprint e (rf_storage_state r),
             sp_revision := sp_revision profile + 1,
             sp_expires_at := Some (en_now e + seconds (sp_refresh_ttl_seconds profile))\<rparr>"

definition refresh_conflict ::
  "session_profile \<Rightarrow> recovery_audit \<Rightarrow> refreshed_session \<Rightarrow> bool" where
  "refresh_conflict profile audit r \<longleftrightarrow>
     sp_status profile \<noteq> ''ACTIVE'' \<or> sp_revision profile \<noteq> rf_expected_revision r
     \<or> sp_fingerprint profile \<noteq> rf_expected_fingerprint r
     \<or> sp_login_version_id profile \<noteq> Some (ra_login_version_id audit)"

text \<open>A request with a refreshed session and no audit is rejected by the request schema.\<close>

definition apply_web_session_refresh ::
  "env \<Rightarrow> test_run \<Rightarrow> web_case_content \<Rightarrow> web_completion \<Rightarrow> world
     \<Rightarrow> app_error + (json \<times> string) option \<times> world" where
  "apply_web_session_refresh e run content payload w =
     (case wx_recovery payload of
        None \<Rightarrow> (if wx_refreshed payload = None then Inr (None, w)
                 else Inl (InternalError ''AttributeError''))
      | Some audit \<Rightarrow>
          (case wc_session_profile_id content of
             None \<Rightarrow> run_conflict ''web case has no session profile''
           | Some pid \<Rightarrow>
               (case get_row sp_id (w_profiles w) pid of
                  None \<Rightarrow> run_conflict ''session profile missing''
                | Some profile \<Rightarrow>
                    if sp_project_id profile \<noteq> tr_project_id run
                    then run_conflict ''session profile missing''
                    else if en_recovery_login e profile \<noteq> Some (ra_login_version_id audit)
                    then run_conflict ''recovery audit does not match the login version''
                    else
                      (case wx_refreshed payload of
                         None \<Rightarrow> Inr (Some (ra_body audit, ''NOT_ATTEMPTED''), w)
                       | Some r \<Rightarrow>
                           if rf_profile_id r \<noteq> sp_id profile
                           then run_conflict ''refreshed session of another profile''
                           else if refresh_conflict profile audit r
                           then Inr (Some (ra_body audit, ''CONFLICT''), w)
                           else if \<not> en_encrypt_ok e
                           then run_conflict ''refreshed session cannot be encrypted''
                           else Inr (Some (ra_body audit, ''UPDATED''),
                                     w\<lparr>w_profiles := put_row sp_id (store_refreshed e profile r)
                                                       (w_profiles w)\<rparr>)))))"

section \<open>Completion\<close>

definition web_evidence_error :: string where
  "web_evidence_error = ''WEB_EVIDENCE_ERROR''"

definition web_recovery_error :: string where
  "web_recovery_error = ''WEB_SESSION_RECOVERY_FAILED''"

definition web_ai_evaluation ::
  "env \<Rightarrow> exec_context \<Rightarrow> web_case_content \<Rightarrow> exec_outcome \<Rightarrow> web_completion
     \<Rightarrow> app_error + assertion_result list" where
  "web_ai_evaluation e cx content effective payload =
     (let ai_nodes = wc_ai_nodes content in
      case wx_evaluation_token payload of
        Some token \<Rightarrow>
          if effective = EXEC_CANCELLED \<or> effective = EXEC_TIMEOUT
          then run_conflict ''no AI evaluation token for CANCELLED or TIMEOUT''
          else
            res_bind (en_claims e token)
              (check_ai_claims ''WEB_AI_ASSERTION'' TRACE_SUCCESS
                 (tr_web_case_version_id (cx_run cx)) cx (wx_message_id payload) (wx_traces payload)
                 ai_nodes effective)
      | None \<Rightarrow>
          if ai_nodes \<noteq> [] \<and> effective \<noteq> EXEC_CANCELLED \<and> effective \<noteq> EXEC_TIMEOUT
             \<and> (effective = EXEC_SUCCESS
                \<or> list_ex (\<lambda>t. et_node_id t \<in> set ai_nodes \<and> et_status t \<noteq> TRACE_SKIPPED)
                    (wx_traces payload))
          then run_conflict ''AI assertion without trusted evaluation''
          else Inr [])"

definition web_failure_kind :: "bool \<Rightarrow> web_completion \<Rightarrow> string \<Rightarrow> bool" where
  "web_failure_kind cancellation_first payload kind \<longleftrightarrow>
     \<not> cancellation_first \<and> wx_outcome payload = EXEC_FAILED \<and> wx_error_type payload = Some kind"

definition web_consistency :: "bool \<Rightarrow> web_completion \<Rightarrow> app_error + unit" where
  "web_consistency cancellation_first payload =
     (let recovery_failed =
            (case wx_recovery payload of None \<Rightarrow> False | Some a \<Rightarrow> ra_status a = RECOVERY_FAILED);
          session_recovery_failure = web_failure_kind cancellation_first payload web_recovery_error in
      if session_recovery_failure \<and> \<not> recovery_failed
      then run_conflict ''recovery failure without matching audit''
      else if recovery_failed \<and> \<not> session_recovery_failure
      then run_conflict ''recovery audit contradicts the outcome''
      else if \<not> cancellation_first \<and> wx_error_type payload = Some web_evidence_error
        \<and> wx_outcome payload \<noteq> EXEC_FAILED
      then run_conflict ''WEB_EVIDENCE_ERROR only with FAILED'' else Inr ())"

definition web_step ::
  "datetime \<Rightarrow> exec_trace list \<Rightarrow> step_run \<Rightarrow> app_error + step_run" where
  "web_step now traces s =
     (case trace_of traces (sr_node_id s) of
        None \<Rightarrow> Inl (InternalError ''KeyError'')
      | Some t \<Rightarrow>
          (let desired = trace_node_status (et_status t) in
           set_node now desired
             \<lparr>nsu_status = desired, nsu_duration = Some (et_duration_ms t), nsu_retry_count = None,
              nsu_error_type = safe_error_max 100 (et_error_type t),
              nsu_error_message = safe_error_max 500 (et_error_message t)\<rparr> s))"

definition web_traces_fit ::
  "exec_outcome \<Rightarrow> bool \<Rightarrow> web_completion \<Rightarrow> app_error + unit" where
  "web_traces_fit effective evidence_failure payload =
     (let reported = set (reported_statuses (wx_traces payload)) in
      if effective = EXEC_SUCCESS
         \<and> (NODE_FAILED \<in> reported \<or> NODE_TIMEOUT \<in> reported \<or> NODE_CANCELLED \<in> reported)
      then run_conflict ''traces contradict SUCCESS''
      else if effective = EXEC_FAILED \<and> \<not> evidence_failure
        \<and> wx_error_type payload \<noteq> Some web_recovery_error
        \<and> NODE_FAILED \<notin> reported \<and> NODE_REVIEW \<notin> reported
      then run_conflict ''FAILED without a failed trace''
      else if effective = EXEC_TIMEOUT \<and> NODE_TIMEOUT \<notin> reported
      then run_conflict ''TIMEOUT without a timed out trace'' else Inr ())"

text \<open>A force-stopped Web Run is reported without the cleanup remark of the other run types.\<close>

definition web_stop_message :: "test_run \<Rightarrow> string" where
  "web_stop_message run =
     (if tr_force_stop_requested_at run \<noteq> None then ''execution force stopped''
      else ''execution cancelled'')"

definition web_close_case ::
  "datetime \<Rightarrow> exec_context \<Rightarrow> exec_outcome \<Rightarrow> bool \<Rightarrow> bool \<Rightarrow> web_completion \<Rightarrow> app_error + case_run"
  where
  "web_close_case now cx effective evidence_failure recovery_failure payload =
     (let c = cx_case cx; run = cx_run cx in
      if effective = EXEC_CANCELLED
      then
        (let upd = error_node_update NODE_CANCELLED (Some (stop_error_type run))
                     (Some (web_stop_message run))
         in res_bind (update_case_steps (close_node now NODE_CANCELLED upd) c)
              (close_node now NODE_CANCELLED upd))
      else
        res_bind (web_traces_fit effective evidence_failure payload) (\<lambda>_.
        res_bind (update_case_steps (web_step now (wx_traces payload)) c) (\<lambda>c1.
        if evidence_failure
        then set_node now NODE_FAILED
               (error_node_update NODE_FAILED (Some web_evidence_error)
                  (Some ''web evidence processing failed'')) c1
        else if recovery_failure
        then set_node now NODE_FAILED
               (error_node_update NODE_FAILED (Some web_recovery_error)
                  (Some ''web session recovery failed'')) c1
        else Inr (aggregate_case_status now c1))))"

definition web_errors ::
  "exec_context \<Rightarrow> exec_outcome \<Rightarrow> bool \<Rightarrow> web_completion \<Rightarrow> string option \<times> string option" where
  "web_errors cx effective evidence_failure payload =
     (if effective = EXEC_CANCELLED
      then (Some (stop_error_type (cx_run cx)), Some (web_stop_message (cx_run cx)))
      else
        outcome_errors (''WEB_EXECUTION_TIMEOUT'', ''web execution timed out'')
          (''WEB_EXECUTION_FAILED'', ''web execution failed'') effective
          (if evidence_failure then Some web_evidence_error
           else safe_error_max 100 (wx_error_type payload))
          (if evidence_failure then Some ''web evidence processing failed''
           else safe_error_max 500 (wx_error_message payload)))"

definition web_coverage :: "exec_context \<Rightarrow> exec_outcome \<Rightarrow> web_completion \<Rightarrow> app_error + unit" where
  "web_coverage cx effective payload =
     (let expected_nodes = set (map sr_node_id (cr_step_runs (cx_case cx)));
          traced = set (map et_node_id (wx_traces payload)) in
      if effective \<noteq> EXEC_CANCELLED
         \<and> (length (wx_traces payload) \<noteq> card expected_nodes \<or> traced \<noteq> expected_nodes)
      then run_conflict ''traces must cover every node exactly once'' else Inr ())"

definition complete_web_new ::
  "env \<Rightarrow> world \<Rightarrow> exec_context \<Rightarrow> web_completion \<Rightarrow> traced_complete_response handler_result" where
  "complete_web_new e w cx payload =
     (let run = cx_run cx; now = en_now e; run_status = tr_status run;
          cancellation_first = (run_status = RUN_CANCELLING \<or> run_status = RUN_CANCELLED);
          effective = (if cancellation_first then EXEC_CANCELLED else wx_outcome payload);
          evidence_failure = web_failure_kind cancellation_first payload web_evidence_error;
          recovery_failure = web_failure_kind cancellation_first payload web_recovery_error in
      res_bind (en_web_case e run) (\<lambda>content.
      res_bind (web_ai_evaluation e cx content effective payload) (\<lambda>audited.
      res_bind (web_consistency cancellation_first payload) (\<lambda>_.
      res_bind (completion_guard (effective = EXEC_CANCELLED) run_status (nd_status (cx_case cx))) (\<lambda>_.
      res_bind (web_coverage cx effective payload) (\<lambda>_.
      res_bind (web_close_case now cx effective evidence_failure recovery_failure payload) (\<lambda>c'.
      res_bind (apply_web_session_refresh e run content payload w) (\<lambda>(recovery, w1).
      let t = fst (web_errors cx effective evidence_failure payload);
          m = snd (web_errors cx effective evidence_failure payload)
      in res_bind (finish_traced now cx c' (tr_force_stopped run) effective t m) (\<lambda>run2.
         let traces = (if effective = EXEC_CANCELLED then []
                       else concat (map (\<lambda>s. case trace_of (wx_traces payload) (sr_node_id s) of
                                            None \<Rightarrow> [] | Some tr \<Rightarrow> [web_trace_audit tr])
                                      (cr_step_runs (cx_case cx))));
             result = traced_result_row now cx (wx_message_id payload) effective traces audited
                        recovery t m
         in Inr (\<lparr>tc_result = result, tc_runner_id = rn_id (cx_runner cx),
                  tc_case_run_status = nd_status c', tc_idempotent = False\<rparr>,
                 commit_run e (w1\<lparr>w_web_results := w_web_results w1 @ [result]\<rparr>) run2 run_status
                   (outcome_run_status effective) (Some (cr_id (cx_case cx)))))))))))))"

definition complete_web_execution ::
  "env \<Rightarrow> world \<Rightarrow> string \<Rightarrow> string \<Rightarrow> web_completion \<Rightarrow> traced_complete_response handler_result"
  where
  "complete_web_execution e w run_id credential payload =
     res_bind (execution_context e w run_id credential (wx_message_id payload)
                (Some (wx_case_run_id payload))) (\<lambda>cx.
     case find_result (w_web_results w) run_id (wx_case_run_id payload) of
       Some existing \<Rightarrow>
         if er_message_id existing \<noteq> wx_message_id payload
         then run_conflict ''completion of another message''
         else Inr (\<lparr>tc_result = existing, tc_runner_id = rn_id (cx_runner cx),
                    tc_case_run_status = nd_status (cx_case cx), tc_idempotent = True\<rparr>, w)
     | None \<Rightarrow> complete_web_new e w cx payload)"

section \<open>Steps\<close>

lemma web_step_evolves: "web_step now ts s = Inr s' \<Longrightarrow> step_evolves s s'"
  by (auto simp: web_step_def Let_def dest: set_node_step split: option.splits)

lemma web_close_case_evolves:
  assumes "web_close_case now cx eff ef rf p = Inr c'"
  shows "case_evolves (cx_case cx) c'"
proof (cases "eff = EXEC_CANCELLED")
  case True
  then show ?thesis
    using assms
    by (auto simp: web_close_case_def res_simps Let_def
        dest!: update_case_steps_case[OF _ close_node_step] close_node_case intro: case_evolves_trans)
next
  case False
  then obtain c1 where c1: "update_case_steps (web_step now (wx_traces p)) (cx_case cx) = Inr c1"
    and c': "(\<exists>u. set_node now NODE_FAILED u c1 = Inr c') \<or> c' = aggregate_case_status now c1"
    using assms by (auto simp: web_close_case_def res_simps Let_def split: if_splits)
  have "case_evolves (cx_case cx) c1"
    using update_case_steps_case[OF c1 web_step_evolves] by simp
  moreover have "case_evolves c1 c'"
    using c' set_node_case aggregate_case_evolves by auto
  ultimately show ?thesis by (rule case_evolves_trans)
qed

lemma apply_web_session_refresh_frame:
  assumes "apply_web_session_refresh e r ct p w = Inr (x, w1)"
  shows "w_runs w1 = w_runs w" "w_db w1 = w_db w" "w_runners w1 = w_runners w"
    "w_api_results w1 = w_api_results w" "w_scenario_results w1 = w_scenario_results w"
    "w_web_results w1 = w_web_results w" "w_sent w1 = w_sent w" "w_events w1 = w_events w"
  using assms by (auto simp: apply_web_session_refresh_def split: option.splits if_splits)

lemma complete_web_new_step:
  assumes new: "find_result (w_web_results w) (tr_id (cx_run cx)) (cr_id (cx_case cx)) = None"
    and ok: "complete_web_new e w cx p = Inr (rsp, w')"
    and cx: "execution_context e w i cred m (Some k) = Inr cx"
  shows "world_step w w'"
proof -
  define cf where "cf \<longleftrightarrow> tr_status (cx_run cx) = RUN_CANCELLING \<or> tr_status (cx_run cx) = RUN_CANCELLED"
  define eff where "eff = (if cf then EXEC_CANCELLED else wx_outcome p)"
  obtain ct ef rf c' rec w1 t x r2 a1 a2 a3 a4 a5 a6 a7 where
    g: "completion_guard (eff = EXEC_CANCELLED) (tr_status (cx_run cx)) (nd_status (cx_case cx)) = Inr ()"
    and c': "web_close_case (en_now e) cx eff ef rf p = Inr c'"
    and w1: "apply_web_session_refresh e (cx_run cx) ct p w = Inr (rec, w1)"
    and fin: "finish_traced (en_now e) cx c' (tr_force_stopped (cx_run cx)) eff t x = Inr r2"
    and w': "w' = commit_run e (w1\<lparr>w_web_results := w_web_results w1 @ [traced_result_row (en_now e) cx a1 a2 a3 a4 a5 a6 a7]\<rparr>) r2
               (tr_status (cx_run cx)) (outcome_run_status eff) (Some (cr_id (cx_case cx)))"
    using ok unfolding complete_web_new_def Let_def cf_def[symmetric] eff_def[symmetric]
    by (auto simp: res_simps)
  let ?res = "traced_result_row (en_now e) cx a1 a2 a3 a4 a5 a6 a7"
  have "run_evolves (cx_run cx) r2"
    using finish_traced_evolves[OF cx web_close_case_evolves[OF c'] completion_guard_from[OF g] fin] .
  then have "world_step w (put_run w r2)" by (rule world_step_put[OF execution_contextD(1)[OF cx]])
  then have "world_step w (put_run (w1\<lparr>w_web_results := w_web_results w1 @ [?res]\<rparr>) r2)"
    using find_result_None[OF new, of ?res]
    by (elim world_step_more)
      (simp_all add: put_run_def apply_web_session_refresh_frame[OF w1] results_unique_def traced_result_row_def)
  then show ?thesis unfolding w' commit_run_def by (rule world_step_publish)
qed

lemma complete_web_execution_step:
  assumes "complete_web_execution e w i cred p = Inr (rsp, w')"
  shows "world_step w w'"
proof -
  obtain cx where cx: "execution_context e w i cred (wx_message_id p) (Some (wx_case_run_id p)) = Inr cx"
    using assms by (auto simp: complete_web_execution_def res_simps)
  have "tr_id (cx_run cx) = i" "cr_id (cx_case cx) = wx_case_run_id p"
    using get_run_id execution_contextD(1)[OF cx] execution_context_case_id[OF cx] by auto
  note ids = this
  show ?thesis
  proof (cases "find_result (w_web_results w) i (wx_case_run_id p)")
    case None
    then show ?thesis
      using assms cx complete_web_new_step[OF _ _ cx] ids by (simp add: complete_web_execution_def)
  qed (use assms cx in \<open>auto simp: complete_web_execution_def split: if_splits\<close>)
qed

end
