(* ===== verification/Run_Machine.thy ===== *)
theory Run_Machine
  imports Run_Web
begin

text \<open>
  The Run control plane as a state machine over \<open>world\<close>. \<open>run_step\<close> has one rule per handler;
  a handler that raises makes no step. Any interleaving of handler calls by users,
  Runners, the dispatcher and the coordinator is a path of \<open>run_step\<close>. The rules
  \<open>outside\<close> and \<open>confirm\<close> deserve a remark: rows of projects, Runners, session profiles and the resource
  registry may change arbitrarily between two handler calls, and the answer of the broker may be
  recorded at any time after the message was handed to it.

  \<open>world_inv\<close> is proved for every reachable world, from one preservation lemma per handler.
\<close>

inductive run_step :: "world \<Rightarrow> world \<Rightarrow> bool" where
  create: "create_run e ok res ids w u p = Inr (x, w') \<Longrightarrow> run_step w w'"
| cancel: "cancel_run e w u i = Inr (x, w') \<Longrightarrow> run_step w w'"
| force_stop: "force_stop_run e w u i = Inr (x, w') \<Longrightarrow> run_step w w'"
| report_run: "update_run_status e w i ru caller = Inr (x, w') \<Longrightarrow> run_step w w'"
| report_case: "update_case_run_status e w i k nu caller = Inr (x, w') \<Longrightarrow> run_step w w'"
| report_step: "update_step_run_status e w i k j nu caller = Inr (x, w') \<Longrightarrow> run_step w w'"
| dispatch_done: "dispatch_begin e m pre w u i = Inr (DispatchDone d, w') \<Longrightarrow> run_step w w'"
| dispatch_publish: "dispatch_begin e m pre w u i = Inr (DispatchPublish k pl, w1) \<Longrightarrow>
    w' = log_sent e k pl w1 \<Longrightarrow> run_step w w'"
| confirm: "tm \<in> set (w_sent w) \<Longrightarrow>
    record_publish_result e w (tp_run_id (tm_payload tm)) pr = Inr (x2, w') \<Longrightarrow> run_step w w'"
| claim: "claim_run e w i cred m = Inr (x3, w') \<Longrightarrow> run_step w w'"
| start_api: "start_api_execution e w i cred m k = Inr (x4, w') \<Longrightarrow> run_step w w'"
| start_web: "start_web_execution e w i cred m k = Inr (x4, w') \<Longrightarrow> run_step w w'"
| start_scenario: "start_scenario_execution e w i cred m k = Inr (x4, w') \<Longrightarrow> run_step w w'"
| complete_api: "complete_api_execution e w i cred ap = Inr (x5, w') \<Longrightarrow> run_step w w'"
| complete_scenario: "complete_scenario_execution e w i cred sp = Inr (x6, w') \<Longrightarrow> run_step w w'"
| complete_web: "complete_web_execution e w i cred wp = Inr (x6, w') \<Longrightarrow> run_step w w'"
| disconnect: "reconcile_disconnected_core e e2 req ttl w i = Inr (x7, w') \<Longrightarrow> run_step w w'"
| overdue: "reconcile_overdue_run_core e grace w i = Inr (x8, w') \<Longrightarrow> run_step w w'"
| outside: "w' = w\<lparr>w_db := d2, w_runners := rs, w_profiles := ps, w_resources := rr\<rparr> \<Longrightarrow> run_step w w'"

definition initial_world :: "world \<Rightarrow> bool" where
  "initial_world w \<longleftrightarrow>
     w_runs w = [] \<and> w_api_results w = [] \<and> w_scenario_results w = [] \<and> w_web_results w = []
     \<and> w_sent w = []"

inductive reachable :: "world \<Rightarrow> bool" where
  init: "initial_world w \<Longrightarrow> reachable w"
| step: "reachable w \<Longrightarrow> run_step w w' \<Longrightarrow> reachable w'"

definition sent_ok :: "world \<Rightarrow> bool" where
  "sent_ok w \<longleftrightarrow>
     (\<forall>tm \<in> set (w_sent w). \<exists>r. get_run w (tp_run_id (tm_payload tm)) = Some r
        \<and> message_fits r (tm_routing_key tm) (tm_payload tm))"

definition world_inv :: "world \<Rightarrow> bool" where
  "world_inv w \<longleftrightarrow>
     runs_distinct w \<and> results_unique w \<and> sent_ok w \<and> (\<forall>i r. get_run w i = Some r \<longrightarrow> run_inv r)"

section \<open>Every step evolves the tables\<close>

lemma run_step_world:
  assumes "run_step w w'" and inv: "world_inv w"
  shows "world_step w w' \<or> (\<exists>e m pre u i k pl w1.
    dispatch_begin e m pre w u i = Inr (DispatchPublish k pl, w1) \<and> w' = log_sent e k pl w1)"
  using assms(1)
proof cases
  case (confirm tm e pr x2)
  let ?i = "tp_run_id (tm_payload tm)"
  obtain r where r: "get_run w ?i = Some r" "message_fits r (tm_routing_key tm) (tm_payload tm)"
    using inv confirm(1) by (auto simp: world_inv_def sent_ok_def)
  have "world_step w w'"
    by (rule record_publish_step[OF confirm(2)])
      (use r in \<open>auto simp: message_fits_def envelope_valid_def\<close>)
  then show ?thesis ..
next
  case (dispatch_publish e m pre u i k pl w1)
  then show ?thesis by blast
next
  case (disconnect e e2 req ttl i x7)
  then show ?thesis using inv by (auto simp: world_inv_def intro: reconcile_disconnected_step)
next
  case (outside d2 rs ps rr)
  have "world_step w w'"
    unfolding outside
    by (rule world_step_more[OF world_step_refl]) (simp_all add: results_unique_def)
  then show ?thesis ..
qed (auto intro: create_run_step cancel_run_step force_stop_run_step update_run_status_step
    update_case_run_status_step update_step_run_status_step dispatch_begin_step claim_run_step
    start_api_execution_step start_single_step complete_api_execution_step
    complete_scenario_execution_step complete_web_execution_step reconcile_overdue_step
    simp: start_web_execution_def start_scenario_execution_def)

section \<open>The invariant of reachable worlds\<close>

lemma world_step_run:
  "world_step w w' \<Longrightarrow> get_run w i = Some r \<Longrightarrow> \<exists>r'. get_run w' i = Some r' \<and> run_evolves r r'"
  unfolding world_step_def by blast

lemma world_step_fresh:
  "world_step w w' \<Longrightarrow> get_run w i = None \<Longrightarrow> get_run w' i = Some r' \<Longrightarrow> fresh_run r'"
  unfolding world_step_def by blast

lemma world_step_sent:
  assumes "world_step w w'" and "sent_ok w"
  shows "sent_ok w'"
  unfolding sent_ok_def
proof
  fix tm assume "tm \<in> set (w_sent w')"
  then obtain r where "get_run w (tp_run_id (tm_payload tm)) = Some r"
    "message_fits r (tm_routing_key tm) (tm_payload tm)"
    using assms by (auto simp: sent_ok_def world_step_def)
  moreover then obtain r' where "get_run w' (tp_run_id (tm_payload tm)) = Some r'" "run_evolves r r'"
    using world_step_run[OF assms(1)] by blast
  ultimately show "\<exists>r. get_run w' (tp_run_id (tm_payload tm)) = Some r
      \<and> message_fits r (tm_routing_key tm) (tm_payload tm)"
    using message_fits_evolves by blast
qed

lemma world_step_inv:
  assumes "world_step w w'" and "world_inv w"
  shows "world_inv w'"
proof -
  have "run_inv r'" if "get_run w' i = Some r'" for i r'
  proof (cases "get_run w i")
    case None
    with that have "fresh_run r'" using world_step_fresh[OF assms(1)] by blast
    then show ?thesis by (simp add: fresh_run_def)
  next
    case (Some r)
    with that have "run_evolves r r'" using world_step_run[OF assms(1)] by fastforce
    with Some assms(2) show ?thesis by (auto simp: world_inv_def run_evolves_def)
  qed
  moreover have "sent_ok w'" using assms world_step_sent by (auto simp: world_inv_def)
  ultimately show ?thesis using assms by (simp add: world_inv_def world_step_def)
qed

lemma log_sent_inv:
  assumes "world_inv w" and "get_run w (tp_run_id pl) = Some r" and "message_fits r k pl"
  shows "world_inv (log_sent e k pl w)"
proof -
  have "sent_ok (log_sent e k pl w)"
    using assms by (auto simp: world_inv_def sent_ok_def log_sent_def get_run_def)
  then show ?thesis
    using assms(1)
    by (simp add: world_inv_def runs_distinct_def results_unique_def) (simp add: log_sent_def)
qed

lemma run_step_inv:
  assumes "run_step w w'" and inv: "world_inv w"
  shows "world_inv w'"
  using run_step_world[OF assms]
proof (elim disjE exE conjE)
  assume "world_step w w'"
  then show ?thesis using inv by (rule world_step_inv)
next
  fix e m pre u i k pl w1
  assume d: "dispatch_begin e m pre w u i = Inr (DispatchPublish k pl, w1)"
    and w': "w' = log_sent e k pl w1"
  have inv1: "world_inv w1" using dispatch_begin_step[OF d] inv by (rule world_step_inv)
  obtain r where r: "get_run w1 i = Some r" "message_fits r k pl"
    using dispatch_begin_publish[OF d] inv by (auto simp: world_inv_def)
  then have "tp_run_id pl = i" using get_run_id by (auto simp: message_fits_def)
  then show ?thesis unfolding w' using log_sent_inv[OF inv1 _ r(2)] r(1) by simp
qed

lemma reachable_inv: "reachable w \<Longrightarrow> world_inv w"
proof (induction rule: reachable.induct)
  case (init w)
  then show ?case
    by (simp add: initial_world_def world_inv_def runs_distinct_def results_unique_def sent_ok_def
        get_run_def get_row_def)
next
  case (step w w')
  then show ?case using run_step_inv by blast
qed

section \<open>Paths of one Run\<close>

lemma run_step_run:
  assumes "run_step w w'" and inv: "world_inv w" and r: "get_run w i = Some r"
  shows "\<exists>r'. get_run w' i = Some r' \<and> run_evolves r r'"
  using run_step_world[OF assms(1,2)]
proof (elim disjE exE conjE)
  assume "world_step w w'"
  then show ?thesis using r by (rule world_step_run)
next
  fix e m pre u j k pl w1
  assume "dispatch_begin e m pre w u j = Inr (DispatchPublish k pl, w1)" "w' = log_sent e k pl w1"
  then show ?thesis using world_step_run[OF dispatch_begin_step r] by simp
qed

text \<open>What holds along any number of steps.\<close>

definition run_follows :: "test_run \<Rightarrow> test_run \<Rightarrow> bool" where
  "run_follows r r' \<longleftrightarrow>
     tr_id r' = tr_id r \<and> tr_project_id r' = tr_project_id r \<and> tr_runner_id r' = tr_runner_id r
     \<and> run_machine.edge\<^sup>*\<^sup>* (tr_status r) (tr_status r')
     \<and> list_all2 case_evolves (tr_case_runs r) (tr_case_runs r')
     \<and> (claimed_by r \<noteq> None \<longrightarrow> claimed_by r' = claimed_by r)
     \<and> (tr_total_timeout_ms r \<noteq> None \<longrightarrow> tr_total_timeout_ms r' = tr_total_timeout_ms r)"

lemma run_follows_step: "run_follows r r1 \<Longrightarrow> run_evolves r1 r2 \<Longrightarrow> run_follows r r2"
  using cases_evolve_trans[of "tr_case_runs r" "tr_case_runs r1" "tr_case_runs r2"]
  by (auto simp: run_follows_def run_evolves_def intro: rtranclp.rtrancl_into_rtrancl)

lemma path_follows:
  assumes "run_step\<^sup>*\<^sup>* w w'" and "reachable w" and "get_run w i = Some r"
  shows "reachable w' \<and> (\<exists>r'. get_run w' i = Some r' \<and> run_follows r r')"
  using assms
proof (induction rule: rtranclp_induct)
  case base
  then show ?case by (auto simp: run_follows_def)
next
  case (step w1 w2)
  then obtain r1 where r1: "reachable w1" "get_run w1 i = Some r1" "run_follows r r1" by blast
  obtain r2 where "get_run w2 i = Some r2" "run_evolves r1 r2"
    using run_step_run[OF step(2) reachable_inv[OF r1(1)] r1(2)] by blast
  then show ?case using r1 step(2) run_follows_step reachable.step by blast
qed

end
