(* ===== verification/Run_Examples.thy ===== *)
theory Run_Examples
  imports Run_Machine
begin

text \<open>
  A concrete control plane: one project, one active Runner, one API case with two data rows. The
  worlds \<open>ex_w0\<close>, \<open>ex_w1\<close>, \dots are obtained by running the handlers one after the other;
  they are the inputs at which the properties of the development are exercised.
\<close>

definition ex_user :: current_user where
  "ex_user = \<lparr>cu_id = ''u1'', cu_roles = [''ADMIN'']\<rparr>"

definition ex_project :: project where
  "ex_project = \<lparr>pj_id = 1, pj_name = ''P'', pj_code = ''P'', pj_description = None,
                 pj_status = PROJECT_ACTIVE, pj_owner_id = ''u1'', pj_archived_at = None,
                 pj_archived_at_basis = None\<rparr>"

definition ex_db :: project_db where
  "ex_db = \<lparr>pd_projects = [ex_project],
            pd_members = [\<lparr>pm_project_id = 1, pm_user_id = ''u1'', pm_role = PROJECT_OWNER\<rparr>],
            pd_users = [\<lparr>us_id = ''u1'', us_status = USER_ACTIVE\<rparr>], pd_next_id = 2\<rparr>"

definition ex_runner :: runner_row where
  "ex_runner = \<lparr>rn_id = ''r1'', rn_status = RUNNER_ACTIVE,
                rn_credential_digest = replicate 64 CHR ''a'', rn_chrome_version = None,
                rn_last_heartbeat_at = Some 0, rn_tags = [],
                rn_capabilities = [\<lparr>rc_capability = ''API'', rc_ready = True\<rparr>],
                rn_slots = [\<lparr>rs_slot_type = SLOT_API, rs_total = 1, rs_available = 1\<rparr>]\<rparr>"

definition ex_w0 :: world where
  "ex_w0 = \<lparr>w_db = ex_db, w_runs = [], w_runners = [ex_runner], w_api_results = [],
            w_scenario_results = [], w_web_results = [], w_resources = [], w_profiles = [],
            w_sent = [], w_events = []\<rparr>"

definition ex_assertion_result :: "int \<Rightarrow> formal_assertion \<Rightarrow> assertion_result" where
  "ex_assertion_result n a =
     \<lparr>as_sequence = n, as_name = fa_name a, as_type = fa_type a, as_status = ASSERT_PASS,
      as_message = [], as_duration_ms = 0, as_reason = None, as_actual_model = None, as_extra = JNull\<rparr>"

definition ex_env :: "datetime \<Rightarrow> env" where
  "ex_env now =
     \<lparr>en_now = now, en_heartbeat = (\<lambda>_. HeartbeatPresent), en_digest = (\<lambda>_. replicate 64 CHR ''a''),
      en_publish = (\<lambda>_ _. \<lparr>pr_published = True, pr_code = None\<rparr>), en_stream_ok = True,
      en_default_total_timeout_ms = 1000,
      en_api_case = (\<lambda>_ _. Inr \<lparr>ac_has_request = True,
        ac_assertions = [\<lparr>fa_kind = DETERMINISTIC, fa_name = ''a'', fa_type = ''STATUS_CODE'',
                          fa_enabled = True\<rparr>], ac_max_retries = 1\<rparr>),
      en_scenario = (\<lambda>_. Inr [\<lparr>sn_id = ''n1'', sn_enabled = True, sn_ai_assertion = False\<rparr>]),
      en_web_case = (\<lambda>_. Inr \<lparr>wc_ai_nodes = [], wc_session_profile_id = None\<rparr>),
      en_run_assertion = (\<lambda>_. ex_assertion_result), en_response_summary = (\<lambda>x. x),
      en_claims = (\<lambda>_. run_conflict ''token''), en_evidence_ok = True,
      en_recovery_login = (\<lambda>_. None), en_encrypt_ok = True, en_fingerprint = (\<lambda>_. [])\<rparr>"

definition ex_offline_env :: "datetime \<Rightarrow> env" where
  "ex_offline_env now = (ex_env now)\<lparr>en_heartbeat := (\<lambda>_. HeartbeatMissing)\<rparr>"

definition ex_request :: run_create_request where
  "ex_request = \<lparr>rq_project_id = 1, rq_environment_id = 1, rq_runner_id = ''r1'',
     rq_run_type = API_CASE, rq_case_id = Some 1, rq_case_version_id = Some 1, rq_scenario_id = None,
     rq_scenario_version_id = None, rq_web_case_id = None, rq_web_case_version_id = None,
     rq_trigger_type = TRIGGER_MANUAL, rq_required_capabilities = [''API''],
     rq_required_tags = [], rq_required_slot_type = SLOT_API, rq_required_slot_count = 1,
     rq_total_timeout_ms = None, rq_runtime_variables = []\<rparr>"

definition ex_iteration :: "int \<Rightarrow> run_iteration" where
  "ex_iteration n = \<lparr>it_dataset_id = 1, it_dataset_version_id = 1, it_row_index = n,
                     it_parameter_snapshot = JNull\<rparr>"

definition ex_target :: "run_iteration list \<Rightarrow> target_spec" where
  "ex_target its = \<lparr>ts_case_id = Some 1, ts_case_version_id = Some 1, ts_scenario_id = None,
     ts_scenario_version_id = None, ts_web_case_id = None, ts_web_case_version_id = None,
     ts_required_capabilities = [], ts_steps = [(''n1'', ''step'', ''HTTP'')], ts_iterations = its\<rparr>"

definition ex_ids :: new_ids where
  "ex_ids = \<lparr>ni_run_id = ''run_1'', ni_run_code = ''RUN-1'', ni_case_id = 1, ni_step_id = 1\<rparr>"

definition world_of :: "'r handler_result \<Rightarrow> world" where
  "world_of r = (case r of Inr x \<Rightarrow> snd x | Inl _ \<Rightarrow> ex_w0)"

definition response_of :: "'r handler_result \<Rightarrow> 'r option" where
  "response_of r = (case r of Inr x \<Rightarrow> Some (fst x) | Inl _ \<Rightarrow> None)"

abbreviation succeeds :: "'r handler_result \<Rightarrow> bool" where
  "succeeds r \<equiv> \<not> isl r"

lemma succeeds_world: "succeeds r \<Longrightarrow> \<exists>x. r = Inr (x, world_of r)"
  by (cases r) (auto simp: world_of_def)

lemma response_world: "response_of r = Some x \<Longrightarrow> r = Inr (x, world_of r)"
  by (cases r) (auto simp: response_of_def world_of_def)

section \<open>The life of one Run\<close>

definition ex_create :: "test_run handler_result" where
  "ex_create = create_run (ex_env 1) (\<lambda>_ _. True) (\<lambda>_. ([], ex_target [ex_iteration 0, ex_iteration 1]))
                 ex_ids ex_w0 ex_user ex_request"

definition ex_w1 :: world where "ex_w1 = world_of ex_create"

definition ex_dispatch :: "dispatch_progress handler_result" where
  "ex_dispatch = dispatch_begin (ex_env 2) ''msg_1'' False ex_w1 ex_user ''run_1''"

definition ex_message :: "string \<times> task_payload" where
  "ex_message = (case response_of ex_dispatch of
     Some (DispatchPublish k p) \<Rightarrow> (k, p)
   | _ \<Rightarrow> ([], \<lparr>tp_schema_version = 0, tp_message_id = [], tp_run_id = [], tp_runner_id = [],
               tp_run_type = [], tp_required_slot_type = [], tp_attempt = 0, tp_enqueued_at = 0\<rparr>))"

definition ex_w2 :: world where
  "ex_w2 = log_sent (ex_env 2) (fst ex_message) (snd ex_message) (world_of ex_dispatch)"

definition ex_confirm :: "dispatch_response handler_result" where
  "ex_confirm = record_publish_result (ex_env 3) ex_w2 ''run_1'' \<lparr>pr_published = True, pr_code = None\<rparr>"

definition ex_w3 :: world where "ex_w3 = world_of ex_confirm"

definition ex_claim :: "claim_response handler_result" where
  "ex_claim = claim_run (ex_env 4) ex_w3 ''run_1'' ''secret'' ''msg_1''"

definition ex_w4 :: world where "ex_w4 = world_of ex_claim"

definition ex_start :: "start_response handler_result" where
  "ex_start = start_api_execution (ex_env 5) ex_w4 ''run_1'' ''secret'' ''msg_1'' 1"

definition ex_w5 :: world where "ex_w5 = world_of ex_start"

definition ex_completion :: "int \<Rightarrow> api_completion" where
  "ex_completion k = \<lparr>xc_message_id = ''msg_1'', xc_case_run_id = k, xc_outcome = OUTCOME_HTTP_RESPONSE,
     xc_response = Some JNull, xc_error_type = None, xc_error_message = None, xc_retry_count = 0,
     xc_resources = [], xc_action_traces = [], xc_evaluation_token = None\<rparr>"

definition ex_complete :: "api_complete_response handler_result" where
  "ex_complete = complete_api_execution (ex_env 6) ex_w5 ''run_1'' ''secret'' (ex_completion 1)"

definition ex_w6 :: world where "ex_w6 = world_of ex_complete"

definition ex_start2 :: "start_response handler_result" where
  "ex_start2 = start_api_execution (ex_env 7) ex_w6 ''run_1'' ''secret'' ''msg_1'' 2"

definition ex_w7 :: world where "ex_w7 = world_of ex_start2"

definition ex_complete2 :: "api_complete_response handler_result" where
  "ex_complete2 = complete_api_execution (ex_env 8) ex_w7 ''run_1'' ''secret'' (ex_completion 2)"

definition ex_w8 :: world where "ex_w8 = world_of ex_complete2"

lemma ex_create_ok: "succeeds ex_create"
  by code_simp

lemma ex_dispatch_ok: "response_of ex_dispatch = Some (DispatchPublish (fst ex_message) (snd ex_message))"
  by code_simp

lemma ex_message_sent: "\<lparr>tm_routing_key = fst ex_message, tm_payload = snd ex_message, tm_confirmed = True\<rparr>
    \<in> set (w_sent ex_w2) \<and> tp_run_id (snd ex_message) = ''run_1''"
  by code_simp

lemma ex_confirm_ok: "succeeds ex_confirm"
  by code_simp

lemma ex_claim_ok: "succeeds ex_claim"
  by code_simp

text \<open>The world after the claim, spelled out; the later worlds are computed from it.\<close>

lemma ex_w4_value [code]: "ex_w4 =
  \<lparr>w_db =
    \<lparr>pd_projects =
       [\<lparr>pj_id = 1, pj_name = ''P'', pj_code = ''P'', pj_description = None,
           pj_status = PROJECT_ACTIVE, pj_owner_id = ''u1'',
           pj_archived_at = None, pj_archived_at_basis = None\<rparr>],
       pd_members =
         [\<lparr>pm_project_id = 1, pm_user_id = ''u1'',
             pm_role = PROJECT_OWNER\<rparr>],
       pd_users = [\<lparr>us_id = ''u1'', us_status = USER_ACTIVE\<rparr>],
       pd_next_id = 2\<rparr>,
    w_runs =
      [\<lparr>tr_id = ''run_1'', tr_run_code = ''RUN-1'', tr_run_type = API_CASE,
          tr_project_id = 1, tr_environment_id = Some 1,
          tr_runner_id = Some ''r1'', tr_case_id = Some 1,
          tr_case_version_id = Some 1, tr_scenario_id = None,
          tr_scenario_version_id = None, tr_web_case_id = None,
          tr_web_case_version_id = None, tr_status = RUN_ASSIGNED,
          tr_trigger_type = TRIGGER_MANUAL,
          tr_required_capabilities = [''API''], tr_required_tags = [],
          tr_required_slot_type = SLOT_API, tr_required_slot_count = 1,
          tr_runtime_snapshot_id = Some ''run_1'',
          tr_runtime_variables = [], tr_total_timeout_ms = Some 1000,
          tr_force_stop_requested_at = None, tr_force_stopped = False,
          tr_started_at = None, tr_ended_at = None, tr_total = 2,
          tr_pass_count = 0, tr_fail_count = 0, tr_review_count = 0,
          tr_timeout_count = 0, tr_error_type = None,
          tr_error_message = None, tr_created_by = ''u1'',
          tr_created_at = 1,
          tr_case_runs =
            [\<lparr>nd_status = NODE_CREATED, nd_started_at = None,
                nd_ended_at = None, nd_duration = 0, nd_retry_count = 0,
                nd_error_type = None, nd_error_message = None, cr_id = 1,
                cr_sequence_no = 1, cr_case_id = Some 1,
                cr_case_version_id = Some 1, cr_scenario_id = None,
                cr_scenario_version_id = None, cr_web_case_id = None,
                cr_web_case_version_id = None, cr_dataset_id = Some 1,
                cr_dataset_version_id = Some 1, cr_row_index = Some 0,
                cr_parameter_snapshot = Some JNull,
                cr_step_runs =
                  [\<lparr>nd_status = NODE_CREATED, nd_started_at = None,
                      nd_ended_at = None, nd_duration = 0,
                      nd_retry_count = 0, nd_error_type = None,
                      nd_error_message = None, sr_id = 1,
                      sr_sequence_no = 1, sr_node_id = ''n1'',
                      sr_step_name = ''step'', sr_step_type = ''HTTP''\<rparr>]\<rparr>,
             \<lparr>nd_status = NODE_CREATED, nd_started_at = None,
                nd_ended_at = None, nd_duration = 0, nd_retry_count = 0,
                nd_error_type = None, nd_error_message = None, cr_id = 2,
                cr_sequence_no = 2, cr_case_id = Some 1,
                cr_case_version_id = Some 1, cr_scenario_id = None,
                cr_scenario_version_id = None, cr_web_case_id = None,
                cr_web_case_version_id = None, cr_dataset_id = Some 1,
                cr_dataset_version_id = Some 1, cr_row_index = Some 1,
                cr_parameter_snapshot = Some JNull,
                cr_step_runs =
                  [\<lparr>nd_status = NODE_CREATED, nd_started_at = None,
                      nd_ended_at = None, nd_duration = 0,
                      nd_retry_count = 0, nd_error_type = None,
                      nd_error_message = None, sr_id = 2,
                      sr_sequence_no = 1, sr_node_id = ''n1'',
                      sr_step_name = ''step'', sr_step_type = ''HTTP''\<rparr>]\<rparr>],
          tr_dispatch_outbox =
            Some
             \<lparr>ob_message_id = ''msg_1'', ob_run_id = ''run_1'',
                ob_runner_id = ''r1'', ob_routing_key = ''runner.r1.api'',
                ob_schema_version = 1,
                ob_payload =
                  \<lparr>tp_schema_version = 1, tp_message_id = ''msg_1'',
                     tp_run_id = ''run_1'', tp_runner_id = ''r1'',
                     tp_run_type = ''API_CASE'',
                     tp_required_slot_type = ''API'', tp_attempt = 1,
                     tp_enqueued_at = 2\<rparr>,
                ob_status = OUTBOX_PUBLISHED, ob_attempt_count = 1,
                ob_last_error = None, ob_published_at = Some 3,
                ob_claimed_at = Some 4,
                ob_claimed_runner_id = Some ''r1''\<rparr>\<rparr>],
    w_runners =
      [\<lparr>rn_id = ''r1'', rn_status = RUNNER_ACTIVE,
          rn_credential_digest =
            ''aaaaaaaaaaaaaaaaaaaaaaaaaaaaaaaaaaaaaaaaaaaaaaaaaaaaaaaaaaaaaaaa'',
          rn_chrome_version = None, rn_last_heartbeat_at = Some 0,
          rn_tags = [],
          rn_capabilities = [\<lparr>rc_capability = ''API'', rc_ready = True\<rparr>],
          rn_slots =
            [\<lparr>rs_slot_type = SLOT_API, rs_total = 1, rs_available = 1\<rparr>]\<rparr>],
    w_api_results = [], w_scenario_results = [], w_web_results = [],
    w_resources = [], w_profiles = [],
    w_sent =
      [\<lparr>tm_routing_key = ''runner.r1.api'',
          tm_payload =
            \<lparr>tp_schema_version = 1, tp_message_id = ''msg_1'',
               tp_run_id = ''run_1'', tp_runner_id = ''r1'',
               tp_run_type = ''API_CASE'', tp_required_slot_type = ''API'',
               tp_attempt = 1, tp_enqueued_at = 2\<rparr>,
          tm_confirmed = True\<rparr>],
    w_events =
      [\<lparr>ev_event_type = ''RUN_CREATED'', ev_project_id = 1,
          ev_run_id = ''run_1'', ev_case_run_id = Some 1,
          ev_from_status = None, ev_to_status = RUN_CREATED,
          ev_occurred_at = 1, ev_counts = [2, 0, 0, 0, 0]\<rparr>,
       \<lparr>ev_event_type = ''RUN_DISPATCHED'', ev_project_id = 1,
          ev_run_id = ''run_1'', ev_case_run_id = Some 1,
          ev_from_status = Some RUN_CREATED, ev_to_status = RUN_QUEUED,
          ev_occurred_at = 2, ev_counts = [2, 0, 0, 0, 0]\<rparr>,
       \<lparr>ev_event_type = ''RUN_CLAIMED'', ev_project_id = 1,
          ev_run_id = ''run_1'', ev_case_run_id = Some 1,
          ev_from_status = Some RUN_QUEUED, ev_to_status = RUN_ASSIGNED,
          ev_occurred_at = 4, ev_counts = [2, 0, 0, 0, 0]\<rparr>]\<rparr>"
  by code_simp

lemma ex_start_ok: "succeeds ex_start"
  by code_simp

lemma ex_complete_ok: "succeeds ex_complete"
  by code_simp

lemma ex_start2_ok: "succeeds ex_start2"
  by code_simp

lemma ex_complete2_ok: "succeeds ex_complete2"
  by code_simp

lemma ex_w0_reachable: "reachable ex_w0"
  by (rule reachable.init) (simp add: initial_world_def ex_w0_def)

lemma ex_step1: "run_step ex_w0 ex_w1"
  using succeeds_world[OF ex_create_ok] by (auto simp: ex_w1_def ex_create_def intro: run_step.create)

lemma ex_step2: "run_step ex_w1 ex_w2"
proof -
  from response_world[OF ex_dispatch_ok] show ?thesis
    by (auto simp: ex_w2_def ex_dispatch_def intro: run_step.dispatch_publish)
qed

lemma ex_step3: "run_step ex_w2 ex_w3"
proof -
  note m = ex_message_sent
  obtain x where "ex_confirm = Inr (x, ex_w3)"
    using succeeds_world[OF ex_confirm_ok] by (auto simp: ex_w3_def)
  then show ?thesis
    using m by (intro run_step.confirm[of "\<lparr>tm_routing_key = fst ex_message, tm_payload = snd ex_message,
      tm_confirmed = True\<rparr>"]) (auto simp: ex_confirm_def)
qed

lemma ex_step4: "run_step ex_w3 ex_w4"
  using succeeds_world[OF ex_claim_ok] by (auto simp: ex_w4_def ex_claim_def intro: run_step.claim)

lemma ex_step5: "run_step ex_w4 ex_w5"
  using succeeds_world[OF ex_start_ok] by (auto simp: ex_w5_def ex_start_def intro: run_step.start_api)

lemma ex_step6: "run_step ex_w5 ex_w6"
  using succeeds_world[OF ex_complete_ok]
  by (auto simp: ex_w6_def ex_complete_def intro: run_step.complete_api)

lemma ex_step7: "run_step ex_w6 ex_w7"
  using succeeds_world[OF ex_start2_ok] by (auto simp: ex_w7_def ex_start2_def intro: run_step.start_api)

lemma ex_step8: "run_step ex_w7 ex_w8"
  using succeeds_world[OF ex_complete2_ok]
  by (auto simp: ex_w8_def ex_complete2_def intro: run_step.complete_api)

lemmas ex_reachable1 = reachable.step[OF ex_w0_reachable ex_step1]
lemmas ex_reachable2 = reachable.step[OF ex_reachable1 ex_step2]
lemmas ex_reachable3 = reachable.step[OF ex_reachable2 ex_step3]
lemmas ex_reachable4 = reachable.step[OF ex_reachable3 ex_step4]
lemmas ex_reachable5 = reachable.step[OF ex_reachable4 ex_step5]
lemmas ex_reachable6 = reachable.step[OF ex_reachable5 ex_step6]
lemmas ex_reachable7 = reachable.step[OF ex_reachable6 ex_step7]
lemmas ex_reachable8 = reachable.step[OF ex_reachable7 ex_step8]

definition ex_run :: "world \<Rightarrow> test_run" where
  "ex_run w = hd (w_runs w)"

lemma ex_get_run: "get_run w ''run_1'' = Some (ex_run w)" if "map tr_id (w_runs w) = [''run_1'']"
  using that by (cases "w_runs w") (auto simp: get_run_def get_row_def ex_run_def)

lemma ex_ids_all: "map tr_id (w_runs ex_w1) = [''run_1'']" "map tr_id (w_runs ex_w8) = [''run_1'']"
  "map tr_id (w_runs ex_w4) = [''run_1'']" "map tr_id (w_runs ex_w6) = [''run_1'']"
  by code_simp+

lemma ex_statuses: "tr_status (ex_run ex_w1) = RUN_CREATED" "tr_status (ex_run ex_w4) = RUN_ASSIGNED"
  "tr_status (ex_run ex_w8) = RUN_SUCCESS"
  by code_simp+

end
