(* ===== verification/Run_Lifecycle.thy ===== *)
theory Run_Lifecycle
  imports Run_Examples
begin

text \<open>
  What every interleaving of the handlers guarantees about a Run, its CaseRuns and StepRuns, its result
  rows and the messages sent for it. The statements are about \<open>reachable\<close> worlds and paths of
  \<open>run_step\<close>; each is an instance of \<open>reachable_inv\<close> or \<open>path_follows\<close>.
\<close>

section \<open>Shared consequences\<close>

lemma reachable_run_inv: "reachable w \<Longrightarrow> get_run w i = Some r \<Longrightarrow> run_inv r"
  using reachable_inv by (auto simp: world_inv_def)

lemma edge_path_transitions:
  "run_machine.edge\<^sup>*\<^sup>* s t \<Longrightarrow> (\<lambda>a b. b \<in> set (run_transitions a))\<^sup>*\<^sup>* s t"
proof (induction rule: rtranclp_induct)
  case (step y z)
  then show ?case
    by (auto simp: run_machine.edge_def intro: rtranclp.rtrancl_into_rtrancl)
qed simp

lemma edge_path_terminal: "run_machine.edge\<^sup>*\<^sup>* s t \<Longrightarrow> terminal_run_status s \<Longrightarrow> t = s"
  by (induction rule: rtranclp_induct) (auto dest: run_machine.edge_terminal)

lemma cases_evolve_nth:
  assumes "list_all2 case_evolves cs cs'" and "k < length cs"
  shows "k < length cs'" "case_evolves (cs ! k) (cs' ! k)"
  using assms by (auto simp: list_all2_conv_all_nth)

lemma steps_evolve_nth:
  "list_all2 step_evolves ss ss' \<Longrightarrow> j < length ss \<Longrightarrow> j < length ss' \<and> step_evolves (ss ! j) (ss' ! j)"
  by (auto simp: list_all2_conv_all_nth)

lemma ex_path: "run_step\<^sup>*\<^sup>* ex_w6 ex_w8"
  using ex_step7 ex_step8 by (auto intro: rtranclp.rtrancl_into_rtrancl)

lemma ex_path_claim: "run_step\<^sup>*\<^sup>* ex_w4 ex_w8"
  using ex_step5 ex_step6 ex_path by (meson converse_rtranclp_into_rtranclp)

lemma ex_case_done: "map nd_status (tr_case_runs (ex_run ex_w6)) = [NODE_SUCCESS, NODE_CREATED]
    \<and> map (map nd_status \<circ> cr_step_runs) (tr_case_runs (ex_run ex_w6)) = [[NODE_SUCCESS], [NODE_CREATED]]"
  by code_simp

lemma ex_claimed: "claimed_by (ex_run ex_w4) = Some ''r1'' \<and> tr_total_timeout_ms (ex_run ex_w4) = Some 1000"
  by code_simp

section \<open>Properties\<close>



text \<open>
  C3. The result of a finished node is never rewritten: once a CaseRun or one of its StepRuns is
  terminal, its status, times, duration, retry count and error survive every later handler call.
\<close>

theorem finished_nodes_keep_their_result:
  assumes "reachable w" and "run_step\<^sup>*\<^sup>* w w'" and "get_run w i = Some r"
    and "k < length (tr_case_runs r)"
  shows "\<exists>r'. get_run w' i = Some r' \<and> length (tr_case_runs r') = length (tr_case_runs r)
    \<and> (let c = tr_case_runs r ! k; c' = tr_case_runs r' ! k in
       cr_id c' = cr_id c
       \<and> (terminal_node_status (nd_status c) \<longrightarrow> run_node.truncate c' = run_node.truncate c)
       \<and> (\<forall>j < length (cr_step_runs c).
            terminal_node_status (nd_status (cr_step_runs c ! j)) \<longrightarrow>
            run_node.truncate (cr_step_runs c' ! j) = run_node.truncate (cr_step_runs c ! j)))"
proof -
  obtain r' where r': "get_run w' i = Some r'"
    and ev: "list_all2 case_evolves (tr_case_runs r) (tr_case_runs r')"
    using path_follows[OF assms(2,1,3)] by (auto simp: run_follows_def)
  have "case_evolves (tr_case_runs r ! k) (tr_case_runs r' ! k)"
    using cases_evolve_nth(2)[OF ev assms(4)] .
  then have "cr_id (tr_case_runs r' ! k) = cr_id (tr_case_runs r ! k)"
    and "node_keeps (tr_case_runs r ! k) (tr_case_runs r' ! k)"
    and steps: "list_all2 step_evolves (cr_step_runs (tr_case_runs r ! k))
                  (cr_step_runs (tr_case_runs r' ! k))"
    by (simp_all add: case_evolves_def)
  then show ?thesis
    using r' list_all2_lengthD[OF ev] steps_evolve_nth[OF steps]
    by (simp add: Let_def node_keeps_def step_evolves_def)
qed

theorem finished_nodes_keep_their_result_witness:
  "\<exists>r'. get_run ex_w8 ''run_1'' = Some r'
     \<and> run_node.truncate (tr_case_runs r' ! 0) = run_node.truncate (tr_case_runs (ex_run ex_w6) ! 0)"
proof -
  have st: "nd_status (tr_case_runs (ex_run ex_w6) ! 0) = NODE_SUCCESS"
    and len: "0 < length (tr_case_runs (ex_run ex_w6))"
    using ex_case_done by (cases "tr_case_runs (ex_run ex_w6)"; simp)+
  show ?thesis
    using finished_nodes_keep_their_result[OF ex_reachable6 ex_path ex_get_run[OF ex_ids_all(4)] len] st
    by (auto simp: Let_def)
qed



text \<open>
  C4. A claim is exclusive and permanent: the Runner that claimed a Run is the Runner the Run was
  created for, and no later handler call takes the claim away or gives it to another Runner.
\<close>

theorem claim_is_permanent:
  assumes "reachable w" and "run_step\<^sup>*\<^sup>* w w'" and "get_run w i = Some r"
    and "claimed_by r = Some rid"
  shows "tr_runner_id r = Some rid \<and> (\<exists>r'. get_run w' i = Some r' \<and> claimed_by r' = Some rid)"
proof -
  have "outbox_ok r" using reachable_run_inv[OF assms(1,3)] by (simp add: run_inv_def)
  then have "tr_runner_id r = Some rid"
    using assms(4) by (auto simp: outbox_ok_def outbox_row_ok_def claimed_by_def split: option.splits)
  moreover obtain r' where "get_run w' i = Some r'" "run_follows r r'"
    using path_follows[OF assms(2,1,3)] by blast
  ultimately show ?thesis using assms(4) by (auto simp: run_follows_def)
qed

theorem claim_is_permanent_witness:
  "tr_runner_id (ex_run ex_w4) = Some ''r1''
   \<and> (\<exists>r'. get_run ex_w8 ''run_1'' = Some r' \<and> claimed_by r' = Some ''r1'')"
  using claim_is_permanent[OF ex_reachable4 ex_path_claim ex_get_run[OF ex_ids_all(3)]] ex_claimed
  by simp

text \<open>
  C5. A Run is reported successful only when it has CaseRuns and every one of them succeeded or was
  skipped; its failure, review and timeout counters are then zero.
\<close>

theorem success_means_all_cases_succeeded:
  assumes "reachable w" and "get_run w i = Some r" and "tr_status r = RUN_SUCCESS"
  shows "tr_case_runs r \<noteq> []
    \<and> (\<forall>c \<in> set (tr_case_runs r). nd_status c = NODE_SUCCESS \<or> nd_status c = NODE_SKIPPED)
    \<and> tr_fail_count r = 0 \<and> tr_review_count r = 0 \<and> tr_timeout_count r = 0"
proof -
  have inv: "results_ok r" "summary_ok r"
    using reachable_run_inv[OF assms(1,2)] by (simp_all add: run_inv_def)
  from inv(1) assms(3) have all: "tr_case_runs r \<noteq> []"
    "\<forall>c \<in> set (tr_case_runs r). nd_status c = NODE_SUCCESS \<or> nd_status c = NODE_SKIPPED"
    by (auto simp: results_ok_def list_all_iff)
  then have "count_status s (tr_case_runs r) = 0" if "s \<noteq> NODE_SUCCESS" "s \<noteq> NODE_SKIPPED" for s
    using that by (auto simp: count_status_def filter_empty_conv)
  with all inv(2) show ?thesis by (simp add: summary_ok_iff)
qed

theorem success_means_all_cases_succeeded_witness:
  "tr_status (ex_run ex_w8) = RUN_SUCCESS \<and> tr_fail_count (ex_run ex_w8) = 0
   \<and> tr_case_runs (ex_run ex_w8) \<noteq> []"
  using success_means_all_cases_succeeded[OF ex_reachable8 ex_get_run[OF ex_ids_all(2)] ex_statuses(3)]
    ex_statuses(3) by blast

text \<open>
  C6. At most one result row exists per CaseRun in each of the three result tables, and
  a stored result is never removed, replaced or reordered by a later handler call.
\<close>

theorem results_are_unique_and_append_only:
  assumes "reachable w" and "run_step w w'"
  shows "results_unique w \<and> prefix (w_api_results w) (w_api_results w')
    \<and> prefix (w_scenario_results w) (w_scenario_results w')
    \<and> prefix (w_web_results w) (w_web_results w')"
proof -
  note inv = reachable_inv[OF assms(1)]
  have unique: "results_unique w" using inv by (simp add: world_inv_def)
  from run_step_world[OF assms(2) inv] show ?thesis
  proof (elim disjE exE conjE)
    assume "world_step w w'"
    with unique show ?thesis by (simp add: world_step_def)
  next
    fix e m pre u i k pl w1
    assume "dispatch_begin e m pre w u i = Inr (DispatchPublish k pl, w1)" and "w' = log_sent e k pl w1"
    with unique show ?thesis
      using dispatch_begin_step by (fastforce simp: world_step_def log_sent_def)
  qed
qed

theorem results_are_unique_and_append_only_witness:
  "results_unique ex_w7 \<and> prefix (w_api_results ex_w7) (w_api_results ex_w8)"
  using results_are_unique_and_append_only[OF ex_reachable7 ex_step8] by simp

text \<open>
  C7. Every message handed to the broker is a valid task envelope of an existing Run: it names that
  Run, its Runner and the message id of its outbox row, its attempt number is between 1 and 10, and it
  is routed to \<open>runner.<runner id>.<slot type>\<close>, the queue of exactly the Runner the Run belongs to.
\<close>

theorem sent_messages_are_valid:
  assumes "reachable w" and "tm \<in> set (w_sent w)"
  shows "\<exists>r ob. get_run w (tp_run_id (tm_payload tm)) = Some r \<and> tr_dispatch_outbox r = Some ob
    \<and> envelope_valid (tm_payload tm)
    \<and> tr_runner_id r = Some (tp_runner_id (tm_payload tm))
    \<and> tp_message_id (tm_payload tm) = ob_message_id ob
    \<and> 1 \<le> tp_attempt (tm_payload tm) \<and> tp_attempt (tm_payload tm) \<le> ob_attempt_count ob
    \<and> ob_attempt_count ob \<le> 10
    \<and> tm_routing_key tm = ''runner.'' @ tp_runner_id (tm_payload tm) @ ''.''
        @ py_lower (tp_required_slot_type (tm_payload tm))"
proof -
  obtain r where r: "get_run w (tp_run_id (tm_payload tm)) = Some r"
    and fits: "message_fits r (tm_routing_key tm) (tm_payload tm)"
    using reachable_inv[OF assms(1)] assms(2) by (auto simp: world_inv_def sent_ok_def)
  obtain ob where ob: "tr_dispatch_outbox r = Some ob" using fits by (auto simp: message_fits_def)
  have "ob_attempt_count ob \<le> 10"
    using reachable_run_inv[OF assms(1) r] ob by (simp add: run_inv_def outbox_ok_def outbox_row_ok_def)
  then show ?thesis
    using r ob fits
    by (auto simp: message_fits_def envelope_valid_def expected_dispatch_routing_key_def)
qed

theorem sent_messages_are_valid_witness:
  "\<exists>r ob. get_run ex_w2 ''run_1'' = Some r \<and> tr_dispatch_outbox r = Some ob
     \<and> envelope_valid (snd ex_message) \<and> ob_attempt_count ob \<le> 10"
  using sent_messages_are_valid[OF ex_reachable2 conjunct1[OF ex_message_sent]] ex_message_sent
  by fastforce

end
