(* ===== verification/Run_Completion.thy ===== *)
theory Run_Completion
  imports Run_Web
begin

text \<open>
  The contract the three completion handlers share, as the locale \<open>completion_handler\<close>, and its three
  interpretations: a completion stores its result, keeps the execution context of the Runner,
  and a handler that finds a stored result of the same message answers with it.
  Inside the locale this gives that a repeated report is answered with the first result and
  changes nothing, whatever it says.
\<close>

section \<open>The contract\<close>

locale completion_handler =
  fixes complete :: "env \<Rightarrow> world \<Rightarrow> string \<Rightarrow> string \<Rightarrow> 'p \<Rightarrow> 'rsp handler_result"
    and results :: "world \<Rightarrow> 'x exec_result_scheme list"
    and message :: "'p \<Rightarrow> string"
    and case_run_id :: "'p \<Rightarrow> int"
    and result_of :: "'rsp \<Rightarrow> 'x exec_result_scheme"
    and idempotent :: "'rsp \<Rightarrow> bool"
    and answers :: "run_status \<Rightarrow> bool"
  assumes stored: "complete e w i cred p = Inr (rsp, w') \<Longrightarrow>
      find_result (results w') i (case_run_id p) = Some (result_of rsp)
      \<and> er_message_id (result_of rsp) = message p"
    and context_kept: "complete e w i cred p = Inr (rsp, w') \<Longrightarrow>
      \<exists>cx. execution_context e w' i cred (message p) (Some (case_run_id p)) = Inr cx
        \<and> answers (tr_status (cx_run cx))"
    and replay: "execution_context e w i cred (message p) (Some (case_run_id p)) = Inr cx \<Longrightarrow>
      answers (tr_status (cx_run cx)) \<Longrightarrow>
      find_result (results w) i (case_run_id p) = Some x \<Longrightarrow> er_message_id x = message p \<Longrightarrow>
      \<exists>rsp. complete e w i cred p = Inr (rsp, w) \<and> result_of rsp = x \<and> idempotent rsp"
    and other_message: "execution_context e w i cred (message p) (Some (case_run_id p)) = Inr cx \<Longrightarrow>
      find_result (results w) i (case_run_id p) = Some x \<Longrightarrow> er_message_id x \<noteq> message p \<Longrightarrow>
      \<exists>err. complete e w i cred p = Inl err"
begin

lemma first_report_wins:
  assumes "complete e w i cred p = Inr (rsp, w')"
    and "message p' = message p" and "case_run_id p' = case_run_id p"
  shows "\<exists>rsp'. complete e w' i cred p' = Inr (rsp', w') \<and> result_of rsp' = result_of rsp
    \<and> idempotent rsp'"
proof -
  obtain cx where "execution_context e w' i cred (message p') (Some (case_run_id p')) = Inr cx"
    "answers (tr_status (cx_run cx))"
    using context_kept[OF assms(1)] assms(2,3) by auto
  moreover have "find_result (results w') i (case_run_id p') = Some (result_of rsp)"
    "er_message_id (result_of rsp) = message p'"
    using stored[OF assms(1)] assms(2,3) by auto
  ultimately show ?thesis by (rule replay)
qed

end

section \<open>The execution context survives a completion\<close>

lemma evolves_select:
  assumes "list_all2 case_evolves cs cs'" and "filter (\<lambda>c. cr_id c = k) cs = [c]"
  shows "\<exists>c'. filter (\<lambda>c. cr_id c = k) cs' = [c']"
proof -
  have "length (filter (\<lambda>c. cr_id c = k) cs') = length (filter (\<lambda>c. cr_id c = k) cs)"
    using assms(1) by (induction rule: list_all2_induct) (auto simp: case_evolves_def)
  with assms(2) show ?thesis by (cases "filter (\<lambda>c. cr_id c = k) cs'") auto
qed

lemma authenticate_frame:
  "w_runners w' = w_runners w \<Longrightarrow> tr_runner_id r' = tr_runner_id r \<Longrightarrow> en_digest e' = en_digest e \<Longrightarrow>
     authenticate_runner_for_run e' w' r' cred = authenticate_runner_for_run e w r cred"
  by (simp add: authenticate_runner_for_run_def get_runner_def cong: if_cong option.case_cong)

lemma execution_context_select:
  assumes "execution_context e w i cred m (Some k) = Inr cx"
  shows "select_case_runs (cx_run cx) (Some k) = [cx_case cx]"
proof -
  note d = execution_contextD[OF assms]
  obtain c where c: "select_case_runs (cx_run cx) (Some k) = [c]"
    and eq: "\<lparr>cx_run = cx_run cx, cx_runner = cx_runner cx, cx_outbox = cx_outbox cx, cx_case = c\<rparr> = cx"
    using assms d
    by (auto simp: execution_context_def require_run_def single_Some_iff split: option.splits if_splits)
  have "cx_case cx = c" by (subst eq[symmetric]) simp
  with c show ?thesis by simp
qed

lemma context_again:
  assumes cx: "execution_context e w i cred m (Some k) = Inr cx"
    and r': "get_run w' i = Some r'" and rn: "w_runners w' = w_runners w"
    and ev: "run_evolves (cx_run cx) r'"
    and ob: "tr_dispatch_outbox r' = tr_dispatch_outbox (cx_run cx)"
  shows "\<exists>cx'. execution_context e w' i cred m (Some k) = Inr cx' \<and> cx_run cx' = r'"
proof -
  note d = execution_contextD[OF cx]
  obtain c' where "select_case_runs r' (Some k) = [c']"
    using evolves_select[of "tr_case_runs (cx_run cx)" "tr_case_runs r'" k "cx_case cx"] ev
      execution_context_select[OF cx]
    by (auto simp: select_case_runs_def run_evolves_def)
  moreover have "authenticate_runner_for_run e w' r' cred = Inr (cx_runner cx)"
    using d(7) authenticate_frame[OF rn, of r' "cx_run cx" e e] ev by (simp add: run_evolves_def)
  moreover have "ob_claimed_runner_id (cx_outbox cx) = Some (rn_id (cx_runner cx))"
    "ob_claimed_at (cx_outbox cx) \<noteq> None"
    using cx d by (auto simp: execution_context_def res_simps split: option.splits if_splits)
  ultimately show ?thesis
    using r' ob d
    by (simp add: execution_context_def require_run_def single_Some_iff)
qed

lemma find_result_append:
  "find_result xs i k = None \<Longrightarrow> er_run_id x = i \<Longrightarrow> er_case_run_id x = k \<Longrightarrow>
     find_result (xs @ [x]) i k = Some x"
  by (induction xs) (auto simp: find_result_def split: if_splits)

lemma commit_keeps:
  assumes "execution_context e w i cred m (Some k) = Inr cx" and "run_evolves (cx_run cx) r2"
    and "w_runs w1 = w_runs w"
  shows "get_run (commit_run e w1 r2 f t c) i = Some r2"
proof -
  have "get_run w i = Some (cx_run cx)" using execution_contextD(1)[OF assms(1)] .
  then have "get_run w1 i \<noteq> None" "tr_id r2 = i"
    using assms(2,3) get_run_id[of w i] by (auto simp: get_run_def run_evolves_def)
  then show ?thesis by (auto simp: commit_run_def get_put_run)
qed

lemma finish_traced_outbox:
  "finish_traced now cx c' f eff t x = Inr r' \<Longrightarrow>
     tr_dispatch_outbox r' = tr_dispatch_outbox (cx_run cx)"
  by (auto simp: finish_traced_def res_simps Let_def dest!: set_run_status_frame(8))
    (simp add: row_frame)

lemma api_finish_outbox:
  "api_finish_run now v r = Inr (s, r') \<Longrightarrow> tr_dispatch_outbox r' = tr_dispatch_outbox r"
  by (auto simp: api_finish_run_def res_simps Let_def split: if_splits dest!: set_run_status_frame(8))

section \<open>The three handlers\<close>

lemma complete_api_cases:
  assumes "complete_api_execution e w i cred p = Inr (rsp, w')"
  obtains cx where "execution_context e w i cred (xc_message_id p) (Some (xc_case_run_id p)) = Inr cx"
    and "w' = w" and "find_result (w_api_results w) i (xc_case_run_id p) = Some (cp_result rsp)"
    and "er_message_id (cp_result rsp) = xc_message_id p"
    and "cp_run_status rsp = tr_status (cx_run cx)" and "complete_response_status (tr_status (cx_run cx))"
  | cx where "execution_context e w i cred (xc_message_id p) (Some (xc_case_run_id p)) = Inr cx"
    and "find_result (w_api_results w) i (xc_case_run_id p) = None"
    and "complete_api_new e w cx p = Inr (rsp, w')"
proof -
  obtain cx where cx: "execution_context e w i cred (xc_message_id p) (Some (xc_case_run_id p)) = Inr cx"
    using assms by (auto simp: complete_api_execution_def res_simps)
  have ids: "tr_id (cx_run cx) = i" "cr_id (cx_case cx) = xc_case_run_id p"
    using get_run_id execution_contextD(1)[OF cx] execution_context_case_id[OF cx] by auto
  show thesis
    using assms that(1)[OF cx] that(2)[OF cx] cx ids
    by (cases "find_result (w_api_results w) i (xc_case_run_id p)")
      (auto simp: complete_api_execution_def split: if_splits)
qed

lemma api_cancel_other_terminal:
  "api_cancel_other now k upd c = Inr c' \<Longrightarrow> cr_id c \<noteq> k \<Longrightarrow> terminal_node_status (nd_status c')"
  by (auto simp: api_cancel_other_def res_simps dest: set_node_status_is split: if_splits)

lemma put_row_unique:
  assumes "filter (\<lambda>c. key c = k) rows = [c]" and "key c1 = k"
    and "x \<in> set (put_row key c1 rows)" and "key x = k"
  shows "x = c1"
proof -
  have "length (filter (\<lambda>c. key c = k) (put_row key c1 rows)) = length (filter (\<lambda>c. key c = k) rows)"
    using assms(2) by (induction rows) auto
  then have len: "length (filter (\<lambda>c. key c = k) (put_row key c1 rows)) = 1" using assms(1) by simp
  have "c \<in> set (filter (\<lambda>c. key c = k) rows)" using assms(1) by simp
  then have "c \<in> set rows" "key c = k" by auto
  have "c1 \<in> set (put_row key c1 rows)"
    using \<open>c \<in> set rows\<close> \<open>key c = k\<close> assms(2) by (induction rows) auto
  then have mem: "c1 \<in> set (filter (\<lambda>c. key c = k) (put_row key c1 rows))"
    "x \<in> set (filter (\<lambda>c. key c = k) (put_row key c1 rows))" using assms by auto
  obtain y where "filter (\<lambda>c. key c = k) (put_row key c1 rows) = [y]"
    using len by (auto simp: length_Suc_conv)
  with mem show ?thesis unfolding set_filter[symmetric] by (metis list.set(1) list.set(2) singletonD)
qed

lemma api_cancel_children_terminal:
  assumes "api_close_children now cx True upd = Inr cs" and "nsu_status upd = NODE_CANCELLED"
    and "select_case_runs (cx_run cx) (Some (cr_id (cx_case cx))) = [cx_case cx]"
  shows "list_all (\<lambda>c. terminal_node_status (nd_status c)) cs"
proof -
  obtain c1 where c1: "api_close_case now upd (cx_case cx) = Inr c1"
    and cs: "res_map (api_cancel_other now (cr_id (cx_case cx)) upd)
        (put_row cr_id c1 (tr_case_runs (cx_run cx))) = Inr cs"
    using assms(1) by (auto simp: api_close_children_def res_simps Let_def)
  have st: "nd_status c1 = NODE_CANCELLED" and id: "cr_id c1 = cr_id (cx_case cx)"
    using c1 assms(2) api_close_case_evolves[OF c1]
    by (auto simp: api_close_case_def res_simps case_evolves_def dest: set_node_status_is)
  have "terminal_node_status (nd_status c')" if c': "c' \<in> set cs" for c'
  proof -
    obtain x where x: "x \<in> set (put_row cr_id c1 (tr_case_runs (cx_run cx)))"
      "api_cancel_other now (cr_id (cx_case cx)) upd x = Inr c'"
      using res_map_set[OF cs c'] by blast
    show ?thesis
    proof (cases "cr_id x = cr_id (cx_case cx)")
      case True
      then have "x = c1"
        using put_row_unique[of cr_id "cr_id (cx_case cx)" "tr_case_runs (cx_run cx)" "cx_case cx" c1 x]
          assms(3) id x(1) by (simp add: select_case_runs_def)
      then show ?thesis using x(2) st True by (simp add: api_cancel_other_def)
    next
      case False
      then show ?thesis using x(2) api_cancel_other_terminal by blast
    qed
  qed
  then show ?thesis by (simp add: list_all_iff)
qed

lemma cancel_verdict:
  "api_completion_verdict e cx ct OUTCOME_CANCELLED p = Inr v \<Longrightarrow> av_status v = NODE_CANCELLED"
  by (auto simp: api_completion_verdict_def plain_verdict_def split: if_splits)

lemma api_effective_response: "complete_response_status (api_effective_run_status cs)"
  by (simp add: api_effective_run_status_def Let_def)

lemma api_finish_status:
  assumes "api_finish_run now v (recompute_summary (r\<lparr>tr_case_runs := cs, tr_force_stopped := f\<rparr>)) = Inr (rst, r2)"
    and "\<not> list_all (\<lambda>c. terminal_node_status (nd_status c)) cs \<Longrightarrow> tr_status r = RUN_RUNNING"
  shows "tr_status r2 = rst \<and> complete_response_status rst"
proof (cases "list_all (\<lambda>c. terminal_node_status (nd_status c)) cs")
  case True
  then show ?thesis
    using assms(1) api_effective_response
    by (auto simp: api_finish_run_def row_frame res_simps Let_def
        simp del: complete_response_status.simps dest!: set_run_status_status)
next
  case False
  then show ?thesis using assms by (auto simp: api_finish_run_def row_frame)
qed

lemma complete_api_new_shape:
  assumes ok: "complete_api_new e w cx p = Inr (rsp, w')"
    and cx: "execution_context e w i cred (xc_message_id p) (Some (xc_case_run_id p)) = Inr cx"
    and new: "find_result (w_api_results w) i (xc_case_run_id p) = None"
  shows "find_result (w_api_results w') i (xc_case_run_id p) = Some (cp_result rsp)
    \<and> er_message_id (cp_result rsp) = xc_message_id p
    \<and> (\<exists>cx'. execution_context e w' i cred (xc_message_id p) (Some (xc_case_run_id p)) = Inr cx'
          \<and> tr_status (cx_run cx') = cp_run_status rsp) \<and> complete_response_status (cp_run_status rsp)"
  using ok
proof (rule complete_api_newE)
  fix eff content v cs rst r2
  note d = execution_contextD[OF cx]
  have ids: "tr_id (cx_run cx) = i" "cr_id (cx_case cx) = xc_case_run_id p"
    using get_run_id[OF d(1)] execution_context_case_id[OF cx] by auto
  let ?row = "api_result_row (en_now e) cx eff v p"
  let ?w1 = "store_api_result (en_now e) (cx_run cx) p ?row w"
  assume eff: "eff = (if tr_status (cx_run cx) = RUN_CANCELLING then OUTCOME_CANCELLED else xc_outcome p)"
    and v: "api_completion_verdict e cx content eff p = Inr v"
    and g: "completion_guard (eff = OUTCOME_CANCELLED) (tr_status (cx_run cx))
      (nd_status (cx_case cx)) = Inr ()"
    and cs: "api_close_children (en_now e) cx (eff = OUTCOME_CANCELLED)
           (api_node_update v (xc_retry_count p)) = Inr cs"
    and fin: "api_finish_run (en_now e) v (recompute_summary ((cx_run cx)\<lparr>tr_case_runs := cs,
           tr_force_stopped := (av_force_stopped v \<or> tr_force_stopped (cx_run cx))\<rparr>)) = Inr (rst, r2)"
    and rsp: "rsp = \<lparr>cp_result = ?row, cp_runner_id = rn_id (cx_runner cx),
                cp_run_status = rst, cp_idempotent = False\<rparr>"
    and w': "w' = commit_run e ?w1 r2 (tr_status (cx_run cx)) rst (Some (cr_id (cx_case cx)))"
  have row: "er_run_id ?row = i" "er_case_run_id ?row = xc_case_run_id p"
    "er_message_id ?row = xc_message_id p"
    using ids by (simp_all add: api_result_row_def)
  have ev: "run_evolves (cx_run cx) r2"
    using api_finish_run_evolves[OF api_close_children_evolve[OF cs d(2)]
        completion_guard_from[OF g] _ fin] d(3) by simp
  have "tr_dispatch_outbox r2 = tr_dispatch_outbox (cx_run cx)"
    using api_finish_outbox[OF fin] by (simp add: row_frame)
  moreover have "get_run w' i = Some r2"
    unfolding w' by (rule commit_keeps[OF cx ev]) (simp add: row_frame)
  moreover have "w_runners w' = w_runners w" by (simp add: w' commit_run_def row_frame)
  ultimately have "\<exists>cx'. execution_context e w' i cred (xc_message_id p) (Some (xc_case_run_id p)) = Inr cx'
      \<and> cx_run cx' = r2"
    using context_again[OF cx _ _ ev] by blast
  moreover have "tr_status r2 = rst \<and> complete_response_status rst"
  proof (rule api_finish_status[OF fin])
    assume "\<not> list_all (\<lambda>c. terminal_node_status (nd_status c)) cs"
    with api_cancel_children_terminal[of "en_now e" cx "api_node_update v (xc_retry_count p)" cs] cs cancel_verdict v
      execution_context_select[OF cx] execution_context_case_id[OF cx]
    have "eff \<noteq> OUTCOME_CANCELLED" by (auto simp: api_node_update_def api_node_status_def)
    with g show "tr_status (cx_run cx) = RUN_RUNNING"
      by (auto simp: completion_guard_def split: if_splits)
  qed
  moreover have "w_api_results w' = w_api_results w @ [?row]"
    by (simp add: w' commit_run_def row_frame)
  ultimately show ?thesis
    using find_result_append[OF new row(1,2)] row(3) rsp by (auto simp del: complete_response_status.simps)
qed

interpretation api_report: completion_handler complete_api_execution w_api_results
  xc_message_id xc_case_run_id cp_result cp_idempotent complete_response_status
proof unfold_locales
  fix e w i cred p rsp w'
  assume ok: "complete_api_execution e w i cred p = Inr (rsp, w')"
  show "find_result (w_api_results w') i (xc_case_run_id p) = Some (cp_result rsp)
      \<and> er_message_id (cp_result rsp) = xc_message_id p"
    using ok by (rule complete_api_cases) (auto dest!: complete_api_new_shape)
  show "\<exists>cx. execution_context e w' i cred (xc_message_id p) (Some (xc_case_run_id p)) = Inr cx
      \<and> complete_response_status (tr_status (cx_run cx))"
    using ok
  proof (rule complete_api_cases)
    fix cx
    assume "execution_context e w i cred (xc_message_id p) (Some (xc_case_run_id p)) = Inr cx"
      "find_result (w_api_results w) i (xc_case_run_id p) = None" "complete_api_new e w cx p = Inr (rsp, w')"
    then show ?thesis using complete_api_new_shape by metis
  qed blast
next
  fix e w i cred cx x and p :: api_completion
  assume cx: "execution_context e w i cred (xc_message_id p) (Some (xc_case_run_id p)) = Inr cx"
    and x: "find_result (w_api_results w) i (xc_case_run_id p) = Some x"
  have ids: "tr_id (cx_run cx) = i" "cr_id (cx_case cx) = xc_case_run_id p"
    using get_run_id execution_contextD(1)[OF cx] execution_context_case_id[OF cx] by auto
  show "complete_response_status (tr_status (cx_run cx)) \<Longrightarrow> er_message_id x = xc_message_id p \<Longrightarrow>
    \<exists>rsp. complete_api_execution e w i cred p = Inr (rsp, w) \<and> cp_result rsp = x \<and> cp_idempotent rsp"
    using cx x ids by (simp add: complete_api_execution_def)
  show "er_message_id x \<noteq> xc_message_id p \<Longrightarrow> \<exists>err. complete_api_execution e w i cred p = Inl err"
    using cx x ids by (simp add: complete_api_execution_def)
qed

lemma complete_scenario_new_shape:
  assumes ok: "complete_scenario_new e w cx p = Inr (rsp, w')"
    and cx: "execution_context e w i cred (sx_message_id p) (Some (sx_case_run_id p)) = Inr cx"
    and new: "find_result (w_scenario_results w) i (sx_case_run_id p) = None"
  shows "find_result (w_scenario_results w') i (sx_case_run_id p) = Some (tc_result rsp)
    \<and> er_message_id (tc_result rsp) = sx_message_id p
    \<and> (\<exists>cx'. execution_context e w' i cred (sx_message_id p) (Some (sx_case_run_id p)) = Inr cx')"
proof -
  define eff where "eff = (if tr_status (cx_run cx) = RUN_CANCELLING then EXEC_CANCELLED
    else sx_outcome p)"
  obtain c' t x f r2 a2 a3 a4 a5 a6 a7 row where
    g: "completion_guard (eff = EXEC_CANCELLED) (tr_status (cx_run cx)) (nd_status (cx_case cx)) = Inr ()"
    and c': "scenario_close_case (en_now e) cx eff p = Inr c'"
    and fin: "finish_traced (en_now e) cx c' f eff t x = Inr r2"
    and row: "row = traced_result_row (en_now e) cx (sx_message_id p) a2 a3 a4 a5 a6 a7"
    and rsp: "tc_result rsp = row"
    and w': "w' = commit_run e (w\<lparr>w_scenario_results := w_scenario_results w @ [row]\<rparr>) r2
               (tr_status (cx_run cx)) (outcome_run_status eff) (Some (cr_id (cx_case cx)))"
    using ok unfolding complete_scenario_new_def Let_def eff_def[symmetric]
    by (auto simp: res_simps split: if_splits)
  have ids: "er_run_id row = i" "er_case_run_id row = sx_case_run_id p"
    "er_message_id row = sx_message_id p"
    using get_run_id[OF execution_contextD(1)[OF cx]] execution_context_case_id[OF cx]
    by (simp_all add: row traced_result_row_def)
  have ev: "run_evolves (cx_run cx) r2"
    using finish_traced_evolves[OF cx scenario_close_case_evolves[OF c'] completion_guard_from[OF g] fin] .
  have "get_run w' i = Some r2"
    unfolding w' by (rule commit_keeps[OF cx ev]) simp
  moreover have "w_runners w' = w_runners w" by (simp add: w' commit_run_def)
  ultimately have "\<exists>cx'. execution_context e w' i cred (sx_message_id p) (Some (sx_case_run_id p)) = Inr cx'"
    using context_again[OF cx _ _ ev finish_traced_outbox[OF fin]] by blast
  moreover have "w_scenario_results w' = w_scenario_results w @ [row]"
    by (simp add: w' commit_run_def)
  ultimately show ?thesis using find_result_append[OF new ids(1,2)] ids(3) rsp by simp
qed

lemma complete_scenario_cases:
  assumes "complete_scenario_execution e w i cred p = Inr (rsp, w')"
  obtains cx where "execution_context e w i cred (sx_message_id p) (Some (sx_case_run_id p)) = Inr cx"
    and "w' = w" and "find_result (w_scenario_results w) i (sx_case_run_id p) = Some (tc_result rsp)"
    and "er_message_id (tc_result rsp) = sx_message_id p"
  | cx where "execution_context e w i cred (sx_message_id p) (Some (sx_case_run_id p)) = Inr cx"
    and "find_result (w_scenario_results w) i (sx_case_run_id p) = None"
    and "complete_scenario_new e w cx p = Inr (rsp, w')"
proof -
  obtain cx where cx: "execution_context e w i cred (sx_message_id p) (Some (sx_case_run_id p)) = Inr cx"
    using assms by (auto simp: complete_scenario_execution_def res_simps)
  have ids: "tr_id (cx_run cx) = i" "cr_id (cx_case cx) = sx_case_run_id p"
    using get_run_id execution_contextD(1)[OF cx] execution_context_case_id[OF cx] by auto
  show thesis
    using assms that(1)[OF cx] that(2)[OF cx] cx ids
    by (cases "find_result (w_scenario_results w) i (sx_case_run_id p)")
      (auto simp: complete_scenario_execution_def split: if_splits)
qed

interpretation scenario_report: completion_handler complete_scenario_execution w_scenario_results
  sx_message_id sx_case_run_id tc_result tc_idempotent "\<lambda>_. True"
proof unfold_locales
  fix e w i cred p rsp w'
  assume ok: "complete_scenario_execution e w i cred p = Inr (rsp, w')"
  show "find_result (w_scenario_results w') i (sx_case_run_id p) = Some (tc_result rsp)
      \<and> er_message_id (tc_result rsp) = sx_message_id p"
    using ok by (rule complete_scenario_cases) (auto dest!: complete_scenario_new_shape)
  show "\<exists>cx. execution_context e w' i cred (sx_message_id p) (Some (sx_case_run_id p)) = Inr cx \<and> True"
    using ok by (rule complete_scenario_cases) (auto dest!: complete_scenario_new_shape)
next
  fix e w i cred cx x and p :: scenario_completion
  assume cx: "execution_context e w i cred (sx_message_id p) (Some (sx_case_run_id p)) = Inr cx"
    and x: "find_result (w_scenario_results w) i (sx_case_run_id p) = Some x"
  have ids: "tr_id (cx_run cx) = i" "cr_id (cx_case cx) = sx_case_run_id p"
    using get_run_id execution_contextD(1)[OF cx] execution_context_case_id[OF cx] by auto
  show "er_message_id x = sx_message_id p \<Longrightarrow> \<exists>rsp. complete_scenario_execution e w i cred p = Inr (rsp, w)
      \<and> tc_result rsp = x \<and> tc_idempotent rsp"
    using cx x ids by (simp add: complete_scenario_execution_def)
  show "er_message_id x \<noteq> sx_message_id p \<Longrightarrow> \<exists>err. complete_scenario_execution e w i cred p = Inl err"
    using cx x ids by (simp add: complete_scenario_execution_def)
qed

lemma complete_web_new_shape:
  assumes ok: "complete_web_new e w cx p = Inr (rsp, w')"
    and cx: "execution_context e w i cred (wx_message_id p) (Some (wx_case_run_id p)) = Inr cx"
    and new: "find_result (w_web_results w) i (wx_case_run_id p) = None"
  shows "find_result (w_web_results w') i (wx_case_run_id p) = Some (tc_result rsp)
    \<and> er_message_id (tc_result rsp) = wx_message_id p
    \<and> (\<exists>cx'. execution_context e w' i cred (wx_message_id p) (Some (wx_case_run_id p)) = Inr cx')"
proof -
  define cf where "cf \<longleftrightarrow> tr_status (cx_run cx) = RUN_CANCELLING \<or> tr_status (cx_run cx) = RUN_CANCELLED"
  define eff where "eff = (if cf then EXEC_CANCELLED else wx_outcome p)"
  obtain ct ef rf c' rec w1 t x r2 a2 a3 a4 a5 a6 a7 row where
    g: "completion_guard (eff = EXEC_CANCELLED) (tr_status (cx_run cx)) (nd_status (cx_case cx)) = Inr ()"
    and c': "web_close_case (en_now e) cx eff ef rf p = Inr c'"
    and w1: "apply_web_session_refresh e (cx_run cx) ct p w = Inr (rec, w1)"
    and fin: "finish_traced (en_now e) cx c' (tr_force_stopped (cx_run cx)) eff t x = Inr r2"
    and row: "row = traced_result_row (en_now e) cx (wx_message_id p) a2 a3 a4 a5 a6 a7"
    and rsp: "tc_result rsp = row"
    and w': "w' = commit_run e (w1\<lparr>w_web_results := w_web_results w1 @ [row]\<rparr>) r2
               (tr_status (cx_run cx)) (outcome_run_status eff) (Some (cr_id (cx_case cx)))"
    using ok unfolding complete_web_new_def Let_def cf_def[symmetric] eff_def[symmetric]
    by (auto simp: res_simps)
  note fr = apply_web_session_refresh_frame[OF w1]
  have ids: "er_run_id row = i" "er_case_run_id row = wx_case_run_id p"
    "er_message_id row = wx_message_id p"
    using get_run_id[OF execution_contextD(1)[OF cx]] execution_context_case_id[OF cx]
    by (simp_all add: row traced_result_row_def)
  have ev: "run_evolves (cx_run cx) r2"
    using finish_traced_evolves[OF cx web_close_case_evolves[OF c'] completion_guard_from[OF g] fin] .
  have "get_run w' i = Some r2"
    unfolding w' by (rule commit_keeps[OF cx ev]) (simp add: fr)
  moreover have "w_runners w' = w_runners w" by (simp add: w' commit_run_def fr)
  ultimately have "\<exists>cx'. execution_context e w' i cred (wx_message_id p) (Some (wx_case_run_id p)) = Inr cx'"
    using context_again[OF cx _ _ ev finish_traced_outbox[OF fin]] by blast
  moreover have "w_web_results w' = w_web_results w @ [row]"
    by (simp add: w' commit_run_def fr)
  ultimately show ?thesis using find_result_append[OF new ids(1,2)] ids(3) rsp by simp
qed

lemma complete_web_cases:
  assumes "complete_web_execution e w i cred p = Inr (rsp, w')"
  obtains cx where "execution_context e w i cred (wx_message_id p) (Some (wx_case_run_id p)) = Inr cx"
    and "w' = w" and "find_result (w_web_results w) i (wx_case_run_id p) = Some (tc_result rsp)"
    and "er_message_id (tc_result rsp) = wx_message_id p"
  | cx where "execution_context e w i cred (wx_message_id p) (Some (wx_case_run_id p)) = Inr cx"
    and "find_result (w_web_results w) i (wx_case_run_id p) = None"
    and "complete_web_new e w cx p = Inr (rsp, w')"
proof -
  obtain cx where cx: "execution_context e w i cred (wx_message_id p) (Some (wx_case_run_id p)) = Inr cx"
    using assms by (auto simp: complete_web_execution_def res_simps)
  show thesis
    using assms that(1)[OF cx] that(2)[OF cx] cx
    by (cases "find_result (w_web_results w) i (wx_case_run_id p)")
      (auto simp: complete_web_execution_def split: if_splits)
qed

interpretation web_report: completion_handler complete_web_execution w_web_results
  wx_message_id wx_case_run_id tc_result tc_idempotent "\<lambda>_. True"
proof unfold_locales
  fix e w i cred p rsp w'
  assume ok: "complete_web_execution e w i cred p = Inr (rsp, w')"
  show "find_result (w_web_results w') i (wx_case_run_id p) = Some (tc_result rsp)
      \<and> er_message_id (tc_result rsp) = wx_message_id p"
    using ok by (rule complete_web_cases) (auto dest!: complete_web_new_shape)
  show "\<exists>cx. execution_context e w' i cred (wx_message_id p) (Some (wx_case_run_id p)) = Inr cx \<and> True"
    using ok by (rule complete_web_cases) (auto dest!: complete_web_new_shape)
qed (simp_all add: complete_web_execution_def)

end
