(* ===== verification/Run_Handlers.thy ===== *)
theory Run_Handlers
  imports Run_Examples Run_Completion
begin

text \<open>
  What single handler calls achieve: cancellation, force stop, claim, completion and recovery always
  come to an end in the states the protocol needs, and repeating a call changes nothing.
\<close>

section \<open>Loops over the nodes of a Run\<close>

definition nodes_all :: "(run_node_status \<Rightarrow> bool) \<Rightarrow> case_run list \<Rightarrow> bool" where
  "nodes_all P cs \<longleftrightarrow>
     list_all (\<lambda>c. P (nd_status c) \<and> list_all (\<lambda>s. P (nd_status s)) (cr_step_runs c)) cs"

abbreviation nodes_terminal :: "case_run list \<Rightarrow> bool" where
  "nodes_terminal cs \<equiv> nodes_all terminal_node_status cs"

lemma update_steps_total:
  assumes "\<And>s. \<exists>s'. f s = Inr s'"
  shows "\<exists>cs'. update_steps f cs = Inr cs'"
  unfolding update_steps_def
proof (rule res_map_total)
  fix c :: case_run
  obtain ss where "res_map f (cr_step_runs c) = Inr ss"
    using res_map_total[of "cr_step_runs c" f] assms by blast
  then show "\<exists>y. update_case_steps f c = Inr y" by (simp add: update_case_steps_def)
qed

lemma node_loop_total:
  assumes "\<And>s. \<exists>s'. f s = Inr s'" and "\<And>c. \<exists>c'. g c = Inr c'"
  shows "\<exists>cs'. res_bind (update_steps f cs) (res_map g) = Inr cs'"
proof -
  obtain cs1 where "update_steps f cs = Inr cs1" using update_steps_total[of f cs, OF assms(1)] ..
  moreover obtain cs' where "res_map g cs1 = Inr cs'" using res_map_total[of cs1 g, OF assms(2)] ..
  ultimately show ?thesis by simp
qed

lemma node_loop_nodes:
  assumes "res_bind (update_steps f cs) (res_map g) = Inr cs'"
    and "\<And>s s'. f s = Inr s' \<Longrightarrow> P (nd_status s')"
    and "\<And>c c'. g c = Inr c' \<Longrightarrow> P (nd_status c') \<and> cr_step_runs c' = cr_step_runs c"
  shows "nodes_all P cs'"
proof -
  obtain cs1 where 1: "update_steps f cs = Inr cs1" and 2: "res_map g cs1 = Inr cs'"
    using assms(1) by (auto simp: res_simps)
  have steps: "list_all (\<lambda>s. P (nd_status s)) (cr_step_runs c1)" if c1: "c1 \<in> set cs1" for c1
  proof -
    obtain c where "update_case_steps f c = Inr c1"
      using res_map_set[OF 1[unfolded update_steps_def] c1] by blast
    then obtain ss where "res_map f (cr_step_runs c) = Inr ss" "cr_step_runs c1 = ss"
      by (auto simp: update_case_steps_def res_simps)
    then show ?thesis using res_map_set[of f "cr_step_runs c" ss] assms(2) by (auto simp: list_all_iff)
  qed
  show ?thesis
    unfolding nodes_all_def list_all_iff
    using res_map_set[OF 2] steps assms(3) by (fastforce simp: list_all_iff)
qed

lemma node_loop_length:
  "res_bind (update_steps f cs) (res_map g) = Inr cs' \<Longrightarrow> length cs' = length cs"
  by (auto simp: res_simps update_steps_def dest!: res_map_length)

lemma nodes_all_cases: "nodes_all P cs \<Longrightarrow> list_all (\<lambda>c. P (nd_status c)) cs"
  by (auto simp: nodes_all_def list_all_iff)

lemma close_node_total:
  "node_machine.edge NODE_CREATED req \<Longrightarrow> node_machine.edge NODE_ASSIGNED req \<Longrightarrow>
   node_machine.edge NODE_RUNNING req \<Longrightarrow> node_machine.edge NODE_CANCELLING req \<Longrightarrow>
   \<exists>n'. close_node now req p n = Inr n'"
  using set_node_ok[of n req now p]
  by (cases "nd_status n") (auto simp: close_node_def)

lemma close_cancelled_total: "\<exists>n'. close_node now NODE_CANCELLED p n = Inr n'"
  by (rule close_node_total) (simp_all add: node_machine.edge_def)

lemma close_node_terminal:
  "close_node now req p n = Inr n' \<Longrightarrow> terminal_node_status req \<Longrightarrow> terminal_node_status (nd_status n')"
  by (drule close_node_status) (simp split: if_splits)

lemma close_node_case_steps: "close_node now req p (c :: case_run) = Inr c' \<Longrightarrow> cr_step_runs c' = cr_step_runs c"
  by (auto simp: close_node_def dest: set_node_case_steps split: if_splits)

lemma close_children_total: "\<exists>cs'. close_children now NODE_CANCELLED p cs = Inr cs'"
  unfolding close_children_def by (rule node_loop_total) (rule close_cancelled_total)+

lemma close_children_nodes:
  "close_children now NODE_CANCELLED p cs = Inr cs' \<Longrightarrow> nodes_terminal cs'"
  unfolding close_children_def
  by (erule node_loop_nodes) (simp_all add: close_node_terminal close_node_case_steps)

section \<open>Cancellation\<close>

lemma cancel_running_total: "\<exists>n'. cancel_node now NODE_CANCELLING n = Inr n'"
  using set_node_ok[of n NODE_CANCELLING now]
  by (cases "nd_status n") (auto simp: cancel_node_def node_machine.edge_def)

lemma cancel_running_stops: "cancel_node now NODE_CANCELLING n = Inr n' \<Longrightarrow> nd_status n' \<noteq> NODE_RUNNING"
  by (auto simp: cancel_node_def dest: set_node_status_is split: if_splits)

lemma cancel_case_steps: "cancel_node now st (c :: case_run) = Inr c' \<Longrightarrow> cr_step_runs c' = cr_step_runs c"
  by (auto simp: cancel_node_def dest: set_node_case_steps split: if_splits)

lemma cancel_children_cancelling:
  "\<exists>cs'. cancel_children now NODE_CANCELLING cs = Inr cs' \<and> nodes_all (\<lambda>s. s \<noteq> NODE_RUNNING) cs'"
proof -
  obtain cs' where cs': "cancel_children now NODE_CANCELLING cs = Inr cs'"
    unfolding cancel_children_def
    using node_loop_total[of "cancel_node now NODE_CANCELLING" "cancel_node now NODE_CANCELLING" cs,
        OF cancel_running_total cancel_running_total] ..
  then have "nodes_all (\<lambda>s. s \<noteq> NODE_RUNNING) cs'"
    unfolding cancel_children_def
    by (rule node_loop_nodes) (simp_all add: cancel_running_stops cancel_case_steps)
  with cs' show ?thesis by blast
qed

lemma cancel_children_cancelled:
  "\<exists>cs'. cancel_children now NODE_CANCELLED cs = Inr cs' \<and> nodes_terminal cs'"
  unfolding cancel_children_closes using close_children_total close_children_nodes by blast

lemma get_commit_run:
  "get_run w (tr_id r) \<noteq> None \<Longrightarrow> get_run (commit_run e w r f t c) (tr_id r) = Some r"
  by (auto simp: commit_run_def get_put_run)

lemma commit_run_db [simp]: "w_db (commit_run e w r f t c) = w_db w"
  "w_runners (commit_run e w r f t c) = w_runners w"
  by (simp_all add: commit_run_def)

text \<open>One statement for both branches of \<open>cancel_run\<close>.\<close>

lemma cancel_run_result:
  assumes run: "get_run w i = Some r" and auth: "authorize_run_write w u r = Inr ()"
    and st: "tr_status r \<in> {RUN_CREATED, RUN_QUEUED, RUN_ASSIGNED, RUN_RUNNING}"
    and ns: "ns = (if tr_status r \<in> {RUN_CREATED, RUN_QUEUED} then NODE_CANCELLED else NODE_CANCELLING)"
    and rs: "rs = (if tr_status r \<in> {RUN_CREATED, RUN_QUEUED} then RUN_CANCELLED else RUN_CANCELLING)"
    and cs: "cancel_children (en_now e) ns (tr_case_runs r) = Inr cs"
  shows "\<exists>r' w'. cancel_run e w u i = Inr (r', w') \<and> get_run w' i = Some r' \<and> w_db w' = w_db w
    \<and> tr_status r' = rs \<and> tr_case_runs r' = cs \<and> tr_project_id r' = tr_project_id r"
proof -
  let ?r1 = "recompute_summary (r\<lparr>tr_case_runs := cs\<rparr>)"
  have "run_machine.edge (tr_status ?r1) rs"
    using st by (auto simp: rs row_frame run_machine.edge_def)
  then obtain b r' where set: "set_run_status (en_now e) ?r1 rs (plain_run_update rs) = Inr (b, r')"
    using set_run_status_ok by blast
  note frame = set_run_status_frame[OF set]
  have id: "tr_id r' = i" using frame(1) get_run_id[OF run] by (simp add: row_frame)
  let ?w' = "commit_run e w r' (tr_status r) rs (first_case_id r')"
  have "cancel_run e w u i = Inr (r', ?w')"
    using run auth st cs set
    by (auto simp: cancel_run_def require_run_def Let_def ns rs split: if_splits)
  moreover have "get_run ?w' i = Some r'" using get_commit_run[of w r'] run id by simp
  ultimately show ?thesis using frame by (auto simp: row_frame)
qed

lemma cancel_run_total:
  assumes "get_run w i = Some r" and "authorize_run_write w u r = Inr ()"
    and "tr_status r \<in> {RUN_CREATED, RUN_QUEUED, RUN_ASSIGNED, RUN_RUNNING}"
  shows "\<exists>r' w'. cancel_run e w u i = Inr (r', w') \<and> get_run w' i = Some r' \<and> w_db w' = w_db w
    \<and> tr_project_id r' = tr_project_id r
    \<and> (if tr_status r \<in> {RUN_CREATED, RUN_QUEUED}
       then tr_status r' = RUN_CANCELLED \<and> nodes_terminal (tr_case_runs r')
       else tr_status r' = RUN_CANCELLING \<and> nodes_all (\<lambda>s. s \<noteq> NODE_RUNNING) (tr_case_runs r'))"
proof (cases "tr_status r \<in> {RUN_CREATED, RUN_QUEUED}")
  case True
  obtain cs where cs: "cancel_children (en_now e) NODE_CANCELLED (tr_case_runs r) = Inr cs"
    and all: "nodes_terminal cs" using cancel_children_cancelled by blast
  from cancel_run_result[OF assms(1-3) refl refl, of e cs] True cs all show ?thesis by auto
next
  case False
  obtain cs where cs: "cancel_children (en_now e) NODE_CANCELLING (tr_case_runs r) = Inr cs"
    and all: "nodes_all (\<lambda>s. s \<noteq> NODE_RUNNING) cs" using cancel_children_cancelling by blast
  from cancel_run_result[OF assms(1-3) refl refl, of e cs] False cs all show ?thesis by auto
qed

lemma cancel_run_again:
  assumes "get_run w i = Some r" and "authorize_run_write w u r = Inr ()"
    and "tr_status r = RUN_CANCELLED \<or> tr_status r = RUN_CANCELLING"
  shows "cancel_run e w u i = Inr (r, w)"
  using assms by (auto simp: cancel_run_def require_run_def Let_def)

section \<open>Claim\<close>

lemma validate_payload_frame:
  assumes "tr_id r' = tr_id r" "tr_runner_id r' = tr_runner_id r" "tr_run_type r' = tr_run_type r"
    "tr_required_slot_type r' = tr_required_slot_type r"
    "ob' = ob\<lparr>ob_claimed_runner_id := x, ob_claimed_at := y\<rparr>"
  shows "validate_dispatch_payload r' ob' = validate_dispatch_payload r ob"
  using assms by (simp add: validate_dispatch_payload_def expected_dispatch_routing_key_def Let_def)

text \<open>A claimed Run, as a later claim with the same message finds it.\<close>

definition claim_holds :: "env \<Rightarrow> world \<Rightarrow> string \<Rightarrow> string \<Rightarrow> string \<Rightarrow> datetime option \<Rightarrow> bool" where
  "claim_holds e w i cred m t \<longleftrightarrow>
     (\<exists>r runner ob. get_run w i = Some r \<and> authenticate_runner_for_run e w r cred = Inr runner
        \<and> tr_dispatch_outbox r = Some ob \<and> ob_message_id ob = m
        \<and> validate_dispatch_payload r ob \<noteq> None \<and> (tr_status r = RUN_ASSIGNED \<or> tr_status r = RUN_RUNNING)
        \<and> ob_status ob = OUTBOX_PUBLISHED \<and> ob_claimed_runner_id ob = Some (rn_id runner)
        \<and> ob_claimed_at ob = t \<and> t \<noteq> None)"

lemma claim_holds_again:
  assumes "claim_holds e w i cred m t"
  shows "\<exists>rsp. claim_run e w i cred m = Inr (rsp, w) \<and> cl_claimed_at rsp = t \<and> cl_idempotent rsp
    \<and> cl_status rsp = RUN_ASSIGNED"
  using assms
  by (auto simp: claim_holds_def claim_run_def require_run_def make_claim_response_def)

lemma claim_queued_holds:
  assumes ok: "claim_queued e w run ob runner = Inr (rsp, w')" and run: "get_run w i = Some run"
    and auth: "authenticate_runner_for_run e w run cred = Inr runner"
    and ob: "tr_dispatch_outbox run = Some ob" "ob_message_id ob = m"
      "validate_dispatch_payload run ob \<noteq> None"
  shows "claim_holds e w' i cred m (cl_claimed_at rsp)"
proof -
  define ob' where "ob' = ob\<lparr>ob_claimed_runner_id := Some (rn_id runner),
                             ob_claimed_at := Some (en_now e)\<rparr>"
  define r1 where "r1 = run\<lparr>tr_dispatch_outbox := Some ob',
    tr_total_timeout_ms := (case tr_total_timeout_ms run of
       None \<Rightarrow> Some (en_default_total_timeout_ms e) | Some t \<Rightarrow> Some t)\<rparr>"
  obtain b r' where pub: "ob_status ob = OUTBOX_PUBLISHED"
    and set: "set_run_status (en_now e) r1 RUN_ASSIGNED (plain_run_update RUN_ASSIGNED) = Inr (b, r')"
    and w': "w' = commit_run e w r' RUN_QUEUED RUN_ASSIGNED (first_case_id r')"
    and rsp: "cl_claimed_at rsp = Some (en_now e)"
    using ok
    by (auto simp: claim_queued_def res_simps Let_def ob'_def r1_def make_claim_response_def
        split: if_splits)
  note frame = set_run_status_frame[OF set]
  have same: "tr_id r' = tr_id run" "tr_runner_id r' = tr_runner_id run"
    "tr_run_type r' = tr_run_type run" "tr_required_slot_type r' = tr_required_slot_type run"
    "tr_dispatch_outbox r' = Some ob'"
    using frame by (simp_all add: r1_def)
  have "get_run w' i = Some r'"
    using get_commit_run[of w r'] run get_run_id[OF run] same(1) by (simp add: w')
  moreover have "authenticate_runner_for_run e w' r' cred = Inr runner"
    using auth authenticate_frame[of w' w r' run e e] same(2) by (simp add: w')
  moreover have "validate_dispatch_payload r' ob' \<noteq> None"
    using ob(3) validate_payload_frame[OF same(1-4) ob'_def] by simp
  moreover have "ob_message_id ob' = m" "ob_status ob' = OUTBOX_PUBLISHED"
    "ob_claimed_runner_id ob' = Some (rn_id runner)" "ob_claimed_at ob' = Some (en_now e)"
    using ob pub by (simp_all add: ob'_def)
  ultimately show ?thesis
    unfolding claim_holds_def using same(5) frame(5) rsp by (intro exI conjI) (assumption | simp)+
qed

lemma claim_run_holds:
  assumes ok: "claim_run e w i cred m = Inr (rsp, w')" and st: "cl_status rsp = RUN_ASSIGNED"
  shows "claim_holds e w' i cred m (cl_claimed_at rsp)"
proof -
  obtain run runner ob where run: "get_run w i = Some run"
    and auth: "authenticate_runner_for_run e w run cred = Inr runner"
    and ob1: "tr_dispatch_outbox run = Some ob"
    using ok by (auto simp: claim_run_def res_simps split: option.splits)
  have ob: "tr_dispatch_outbox run = Some ob" "ob_message_id ob = m"
      "validate_dispatch_payload run ob \<noteq> None"
    using ok run auth ob1 by (auto simp: claim_run_def res_simps split: if_splits)
  have "cl_status rsp' = RUN_CANCELLED" if "claim_cancelling e w run ob runner = Inr (rsp', w')" for rsp'
    using that by (auto simp: claim_cancelling_def res_simps Let_def make_claim_response_def split: if_splits)
  then consider "w' = w" "claim_holds e w i cred m (cl_claimed_at rsp)"
    | "claim_queued e w run ob runner = Inr (rsp, w')"
    using ok run auth ob st
    by (auto simp: claim_run_def res_simps make_claim_response_def claim_holds_def split: if_splits)
  then show ?thesis using claim_queued_holds[OF _ run auth ob] by cases auto
qed

lemma claim_holds_env:
  "claim_holds e w i cred m t \<Longrightarrow> en_digest e' = en_digest e \<Longrightarrow> claim_holds e' w i cred m t"
  using authenticate_frame[of w w _ _ e' e cred] by (auto simp: claim_holds_def)

section \<open>Recovery\<close>

lemma close_overdue_total: "\<exists>n'. close_overdue_node now n = Inr n'"
proof -
  have "\<exists>n'. set_node now NODE_CANCELLED p n = Inr n'" if "nd_status n = NODE_CANCELLING" for p
    using that by (intro set_node_ok) (simp add: node_machine.edge_def)
  moreover have "\<exists>n'. set_node now NODE_TIMEOUT p n = Inr n'"
    if "nd_status n \<noteq> NODE_CANCELLING" "\<not> terminal_node_status (nd_status n)" for p
    using that by (intro set_node_ok) (cases "nd_status n"; simp add: node_machine.edge_def)
  ultimately show ?thesis by (auto simp: close_overdue_node_def)
qed

lemma close_overdue_terminal:
  "close_overdue_node now n = Inr n' \<Longrightarrow> terminal_node_status (nd_status n')"
  by (auto simp: close_overdue_node_def dest: set_node_status_is split: if_splits)

lemma close_overdue_case_steps:
  "close_overdue_node now (c :: case_run) = Inr c' \<Longrightarrow> cr_step_runs c' = cr_step_runs c"
  by (auto simp: close_overdue_node_def dest: set_node_case_steps split: if_splits)

lemma close_overdue_children_total:
  "\<exists>t m cs. close_overdue_children now r =
       Inr (if tr_status r = RUN_RUNNING then RUN_TIMEOUT else RUN_CANCELLED, t, m, cs)
     \<and> nodes_terminal cs"
proof (cases "tr_status r = RUN_RUNNING")
  case True
  obtain cs where cs: "res_bind (update_steps (close_overdue_node now) (tr_case_runs r))
      (res_map (close_overdue_node now)) = Inr cs"
    using node_loop_total[of "close_overdue_node now" "close_overdue_node now" "tr_case_runs r",
        OF close_overdue_total close_overdue_total] ..
  have "nodes_terminal cs"
    using cs by (rule node_loop_nodes) (simp_all add: close_overdue_terminal close_overdue_case_steps)
  with cs True show ?thesis by (auto simp: close_overdue_children_def res_simps)
next
  case False
  obtain t m where tm: "overdue_cancellation_error r = (t, m)" by (cases "overdue_cancellation_error r")
  obtain cs where cs: "close_children now NODE_CANCELLED
      (error_node_update NODE_CANCELLED (Some t) (Some m)) (tr_case_runs r) = Inr cs"
    using close_children_total ..
  with False tm close_children_nodes[OF cs] show ?thesis by (simp add: close_overdue_children_def)
qed

lemma reconcile_overdue_closes:
  assumes run: "get_run w i = Some r" and st: "tr_status r = RUN_RUNNING \<or> tr_status r = RUN_CANCELLING"
    and late: "overdue_run_deadline r grace = Some d" "d < en_now e" and cases: "tr_case_runs r \<noteq> []"
  shows "\<exists>r' w'. reconcile_overdue_run_core e grace w i = Inr (Some (tr_status r'), w')
    \<and> get_run w' i = Some r' \<and> nodes_terminal (tr_case_runs r')
    \<and> tr_status r' = (if tr_status r = RUN_RUNNING then RUN_TIMEOUT else RUN_CANCELLED)"
proof -
  define s where "s = (if tr_status r = RUN_RUNNING then RUN_TIMEOUT else RUN_CANCELLED)"
  obtain t m cs where cs: "close_overdue_children (en_now e) r = Inr (s, t, m, cs)"
    and all: "nodes_terminal cs"
    using close_overdue_children_total[of "en_now e" r] unfolding s_def by blast
  let ?r1 = "recompute_summary (r\<lparr>tr_case_runs := cs\<rparr>)"
  have "run_machine.edge (tr_status ?r1) s"
    using st by (auto simp: s_def row_frame run_machine.edge_def)
  then obtain b r' where set: "set_run_status (en_now e) ?r1 s (error_run_update s (Some t) (Some m))
      = Inr (b, r')"
    using set_run_status_ok by blast
  note frame = set_run_status_frame[OF set]
  have ids: "tr_id r' = i" using frame(1) get_run_id[OF run] by (simp add: row_frame)
  have "reconcile_overdue_run_core e grace w i =
      Inr (Some s, commit_run e w r' (tr_status r) s (first_case_id r'))"
    using run st late cases cs set nodes_all_cases[OF all]
    by (auto simp: reconcile_overdue_run_core_def)
  moreover have "get_run (commit_run e w r' (tr_status r) s (first_case_id r')) i = Some r'"
    using get_commit_run[of w r'] run ids by simp
  ultimately show ?thesis using frame all by (auto simp: row_frame s_def)
qed

lemma gate_open:
  "\<not> disconnect_gate_blocks runner (fst (online_state e runner)) (snd (snd (online_state e runner)))
      req now ttl \<longleftrightarrow>
   rn_status runner = RUNNER_ACTIVE \<and> en_heartbeat e (rn_id runner) = HeartbeatMissing
   \<and> (req \<longrightarrow> heartbeat_expired runner now ttl)"
  by (auto simp: disconnect_gate_blocks_def online_state_def split: heartbeat_lookup.splits if_splits)

lemma commit_runs_other:
  "i \<notin> tr_id ` fst ` set rs \<Longrightarrow> get_run (commit_runs e rs t w) i = get_run w i"
  by (induction e rs t w rule: commit_runs.induct) (auto simp: commit_run_def get_put_run)

lemma commit_runs_put:
  assumes "distinct (map tr_id news)" and "length sts = length news" and "r' \<in> set news"
    and "\<And>r. r \<in> set news \<Longrightarrow> get_run w (tr_id r) \<noteq> None"
  shows "get_run (commit_runs e (zip news sts) t w) (tr_id r') = Some r'"
proof -
  let ?rs = "zip news sts"
  have fst: "map fst ?rs = news" using assms(2) by simp
  have dist: "distinct (map (tr_id \<circ> fst) ?rs)" using assms(1) fst by (simp flip: map_map)
  have there: "get_run w (tr_id (fst x)) \<noteq> None" if "x \<in> set ?rs" for x
  proof -
    have "fst x \<in> set news" using that set_zip_leftD[of "fst x" "snd x"] by simp
    then show ?thesis by (rule assms(4))
  qed
  have "\<exists>x. find (\<lambda>x. tr_id (fst x) = tr_id r') ?rs = Some x \<and> fst x = r'"
  proof (cases "find (\<lambda>x. tr_id (fst x) = tr_id r') ?rs")
    case None
    obtain x where "x \<in> set ?rs" "fst x = r'"
      using assms(3) fst by (metis in_set_conv_nth length_map nth_map nth_mem)
    moreover have "\<not> (\<exists>x. x \<in> set ?rs \<and> tr_id (fst x) = tr_id r')"
      using None unfolding find_None_iff by blast
    ultimately show ?thesis by metis
  next
    case (Some x)
    then have "x \<in> set ?rs" "tr_id (fst x) = tr_id r'" by (auto dest: find_SomeD)
    then have "fst x \<in> set news" using set_zip_leftD[of "fst x" "snd x"] by simp
    then have "fst x = r'"
      using assms(1,3) \<open>tr_id (fst x) = tr_id r'\<close> by (auto simp: distinct_map inj_on_def)
    with Some show ?thesis by blast
  qed
  then show ?thesis using commit_runs_get[OF dist there, of e t "tr_id r'"] by auto
qed

lemma run_in_world: "get_run w j = Some r \<Longrightarrow> r \<in> set (w_runs w)"
  by (auto simp: get_run_def dest: get_row_in_set)

lemma disconnect_effect:
  assumes news: "res_map (fail_disconnected (en_now e)) (disconnect_candidates w i) = Inr news"
    and w': "w' = commit_runs e (zip news (map tr_status (disconnect_candidates w i))) RUN_FAILED w"
    and dist: "runs_distinct w" and r: "get_run w j = Some r"
  shows "if tr_runner_id r = Some i \<and> (tr_status r = RUN_ASSIGNED \<or> tr_status r = RUN_RUNNING)
    then \<exists>r'. get_run w' j = Some r' \<and> tr_status r' = RUN_FAILED
           \<and> list_all (\<lambda>c. terminal_node_status (nd_status c)) (tr_case_runs r')
    else get_run w' j = Some r"
proof -
  let ?olds = "disconnect_candidates w i"
  have all2: "list_all2 (\<lambda>a b. fail_disconnected (en_now e) a = Inr b) ?olds news"
    using news by (simp add: res_map_Inr_iff)
  then have ev: "list_all2 run_evolves ?olds news"
    by (rule list.rel_mono_strong) (auto dest: candidates_in intro: fail_disconnected_evolves(1))
  have ids: "map tr_id news = map tr_id ?olds"
    using ev by (induction rule: list_all2_induct) (auto simp: run_evolves_def)
  have len: "length (map tr_status ?olds) = length news" using list_all2_lengthD[OF all2] by simp
  show ?thesis
  proof (cases "r \<in> set ?olds")
    case True
    then obtain k where k: "k < length ?olds" "?olds ! k = r" by (auto simp: in_set_conv_nth)
    let ?r' = "news ! k"
    have kn: "k < length news" using k len by simp
    have fail: "fail_disconnected (en_now e) r = Inr ?r'"
      using all2 k by (auto simp: list_all2_conv_all_nth)
    have st: "tr_status r = RUN_ASSIGNED \<or> tr_status r = RUN_RUNNING" "tr_runner_id r = Some i"
      using candidates_in[OF True] by auto
    have id: "tr_id ?r' = j"
      using ids k kn get_run_id[OF r] by (metis nth_map)
    have there: "get_run w (tr_id x) \<noteq> None" if "x \<in> set news" for x
    proof -
      have "tr_id x \<in> tr_id ` set ?olds" using that ids by (metis image_eqI set_map)
      then obtain y where "y \<in> set ?olds" "tr_id y = tr_id x" by auto
      then show ?thesis using get_run_member[OF dist, of y] candidates_in[of y w i] by auto
    qed
    have "distinct (map tr_id news)" using candidates_distinct[OF dist] ids by simp
    then have "get_run w' (tr_id ?r') = Some ?r'"
      unfolding w' using there kn by (intro commit_runs_put[OF _ len]) auto
    then show ?thesis
      using fail_disconnected_evolves(2,3)[OF fail st(1)] id st by auto
  next
    case False
    then have guard: "\<not> (tr_runner_id r = Some i \<and> (tr_status r = RUN_ASSIGNED \<or> tr_status r = RUN_RUNNING))"
      using run_in_world[OF r] by (auto simp: disconnect_candidates_def)
    have "j \<notin> tr_id ` set ?olds"
    proof
      assume "j \<in> tr_id ` set ?olds"
      then obtain y where y: "y \<in> set ?olds" "tr_id y = j" by auto
      then have "get_run w j = Some y" using get_run_member[OF dist, of y] candidates_in[of y w i] by auto
      with r y False show False by simp
    qed
    then have "j \<notin> tr_id ` fst ` set (zip news (map tr_status ?olds))"
      using ids len by (metis map_fst_zip set_map)
    then have "get_run w' j = Some r" unfolding w' using commit_runs_other r by metis
    with guard show ?thesis by auto
  qed
qed

end
