(* ===== verification/Run_Guarantees.thy ===== *)
theory Run_Guarantees
  imports Run_Handlers
begin

text \<open>
  The guarantees of single handlers, one property per handler, on top of the lemmas of
  \<open>Run_Handlers\<close> and of the interpretations of \<open>completion_handler\<close>.
\<close>

section \<open>Concrete inputs\<close>

lemma ex_authorized: "authorize_run_write ex_w1 ex_user (ex_run ex_w1) = Inr ()"
  "authorize_run_write ex_w4 ex_user (ex_run ex_w4) = Inr ()"
  by code_simp+

text \<open>A Scenario or Web Run with one CaseRun, in the middle of its execution.\<close>

definition ex_single :: "run_type \<Rightarrow> world" where
  "ex_single t = put_run ex_w5 ((ex_run ex_w5)\<lparr>tr_run_type := t,
     tr_case_runs := take 1 (tr_case_runs (ex_run ex_w5)), tr_total := 1\<rparr>)"

definition ex_trace :: exec_trace where
  "ex_trace = \<lparr>et_node_id = ''n1'', et_status = TRACE_SUCCESS, et_duration_ms = 5, et_retry_count = 0,
     et_error_type = None, et_error_message = None, et_extra = JNull\<rparr>"

definition ex_scenario_report :: scenario_completion where
  "ex_scenario_report = \<lparr>sx_message_id = ''msg_1'', sx_case_run_id = 1, sx_outcome = EXEC_SUCCESS,
     sx_traces = [ex_trace], sx_error_type = None, sx_error_message = None,
     sx_evaluation_token = None\<rparr>"

definition ex_web_report :: web_completion where
  "ex_web_report = \<lparr>wx_message_id = ''msg_1'', wx_case_run_id = 1, wx_outcome = EXEC_SUCCESS,
     wx_traces = [ex_trace], wx_error_type = None, wx_error_message = None, wx_refreshed = None,
     wx_recovery = None, wx_evaluation_token = None\<rparr>"

definition ex_scenario_done :: "traced_complete_response handler_result" where
  "ex_scenario_done = complete_scenario_execution (ex_env 6) (ex_single SCENARIO) ''run_1'' ''secret''
     ex_scenario_report"

definition ex_web_done :: "traced_complete_response handler_result" where
  "ex_web_done = complete_web_execution (ex_env 6) (ex_single WEB_CASE) ''run_1'' ''secret'' ex_web_report"

lemma ex_traced_ok: "succeeds ex_scenario_done" "succeeds ex_web_done"
  by code_simp+

section \<open>Properties\<close>

text \<open>
  C26. An authorised cancellation of an unfinished Run always succeeds. Before the Run was claimed it
  is cancelled at once and every CaseRun and StepRun is closed; afterwards it is CANCELLING and no
  node is left RUNNING. Cancelling again returns the same Run and changes nothing.
\<close>

theorem cancel_run_always_succeeds:
  assumes "get_run w i = Some r" and "authorize_run_write w u r = Inr ()"
    and "tr_status r \<in> {RUN_CREATED, RUN_QUEUED, RUN_ASSIGNED, RUN_RUNNING}"
  shows "\<exists>r' w'. cancel_run e w u i = Inr (r', w') \<and> get_run w' i = Some r'
    \<and> (if tr_status r \<in> {RUN_CREATED, RUN_QUEUED}
       then tr_status r' = RUN_CANCELLED \<and> nodes_terminal (tr_case_runs r')
       else tr_status r' = RUN_CANCELLING \<and> nodes_all (\<lambda>s. s \<noteq> NODE_RUNNING) (tr_case_runs r'))
    \<and> cancel_run e' w' u i = Inr (r', w')"
proof -
  obtain r' w' where ok: "cancel_run e w u i = Inr (r', w')" "get_run w' i = Some r'"
    and db: "w_db w' = w_db w" "tr_project_id r' = tr_project_id r"
    and st: "if tr_status r \<in> {RUN_CREATED, RUN_QUEUED}
       then tr_status r' = RUN_CANCELLED \<and> nodes_terminal (tr_case_runs r')
       else tr_status r' = RUN_CANCELLING \<and> nodes_all (\<lambda>s. s \<noteq> NODE_RUNNING) (tr_case_runs r')"
    using cancel_run_total[OF assms, of e] by blast
  have "authorize_run_write w' u r' = Inr ()"
    using assms(2) db by (simp add: authorize_run_write_def)
  moreover have "tr_status r' = RUN_CANCELLED \<or> tr_status r' = RUN_CANCELLING"
    using st by (auto split: if_splits)
  ultimately have "cancel_run e' w' u i = Inr (r', w')" by (rule cancel_run_again[OF ok(2)])
  with ok st show ?thesis by blast
qed

theorem cancel_run_always_succeeds_witness:
  "\<exists>r' w'. cancel_run (ex_env 9) ex_w4 ex_user ''run_1'' = Inr (r', w')
     \<and> tr_status r' = RUN_CANCELLING \<and> cancel_run (ex_env 10) w' ex_user ''run_1'' = Inr (r', w')"
  using cancel_run_always_succeeds[OF ex_get_run[OF ex_ids_all(3)] ex_authorized(2), of "ex_env 9" "ex_env 10"]
    ex_statuses(2) by auto

text \<open>
  Claiming is idempotent, so redelivery of a task message is harmless: a Runner that claimed a
  Run and claims it again with the same message and a credential of the same digest gets the same
  claim time, is told that the claim is a repetition, and nothing changes.
\<close>

theorem claim_is_idempotent:
  assumes "claim_run e w i cred m = Inr (rsp, w')" and "cl_status rsp = RUN_ASSIGNED"
    and "en_digest e' = en_digest e"
  shows "\<exists>rsp'. claim_run e' w' i cred m = Inr (rsp', w') \<and> cl_claimed_at rsp' = cl_claimed_at rsp
    \<and> cl_idempotent rsp' \<and> cl_status rsp' = RUN_ASSIGNED"
  using claim_holds_again[OF claim_holds_env[OF claim_run_holds[OF assms(1,2)] assms(3)]] .

theorem claim_is_idempotent_witness:
  "\<exists>rsp'. claim_run (ex_env 20) ex_w4 ''run_1'' ''secret'' ''msg_1'' = Inr (rsp', ex_w4)
     \<and> cl_idempotent rsp'"
proof -
  have "map_option cl_status (response_of ex_claim) = Some RUN_ASSIGNED" by code_simp
  then obtain x where x: "response_of ex_claim = Some x" "cl_status x = RUN_ASSIGNED" by auto
  have "claim_run (ex_env 4) ex_w3 ''run_1'' ''secret'' ''msg_1'' = Inr (x, ex_w4)"
    using response_world[OF x(1)] by (simp add: ex_claim_def ex_w4_def)
  from claim_is_idempotent[OF this x(2), of "ex_env 20"] show ?thesis by (auto simp: ex_env_def)
qed



text \<open>
  The control plane fails Runs of a disconnected Runner only on two consistent observations: if a
  reconciliation changes anything, then the Runner is active, its heartbeat key was missing in
  Redis at both looks (an unavailable Redis never counts) and, for the automatic scan, the
  last stored heartbeat has expired. It then fails exactly the ASSIGNED and RUNNING Runs of that
  Runner, with all their CaseRuns closed, and leaves every other Run as it was.
\<close>

theorem disconnect_needs_two_offline_observations:
  assumes "reconcile_disconnected_core e e2 req ttl w i = Inr (rsp, w')" and "runs_distinct w"
    and "w' \<noteq> w"
  shows "(\<exists>runner. get_runner w i = Some runner \<and> rn_status runner = RUNNER_ACTIVE
      \<and> en_heartbeat e (rn_id runner) = HeartbeatMissing
      \<and> en_heartbeat e2 (rn_id runner) = HeartbeatMissing
      \<and> (req \<longrightarrow> heartbeat_expired runner (en_now e) ttl))
    \<and> (\<forall>j r. get_run w j = Some r \<longrightarrow>
        (if tr_runner_id r = Some i \<and> (tr_status r = RUN_ASSIGNED \<or> tr_status r = RUN_RUNNING)
         then \<exists>r'. get_run w' j = Some r' \<and> tr_status r' = RUN_FAILED
                \<and> list_all (\<lambda>c. terminal_node_status (nd_status c)) (tr_case_runs r')
         else get_run w' j = Some r))"
proof -
  obtain runner news where runner: "get_runner w i = Some runner"
    and open1: "\<not> disconnect_gate_blocks runner (fst (online_state e runner))
                  (snd (snd (online_state e runner))) req (en_now e) ttl"
    and open2: "\<not> disconnect_gate_blocks runner (fst (online_state e2 runner))
                  (snd (snd (online_state e2 runner))) req (en_now e) ttl"
    and news: "res_map (fail_disconnected (en_now e)) (disconnect_candidates w i) = Inr news"
    and w': "w' = commit_runs e (zip news (map tr_status (disconnect_candidates w i))) RUN_FAILED w"
    using reconcile_disconnected_core_shape[OF assms(1)] assms(3) by blast
  have "\<exists>runner. get_runner w i = Some runner \<and> rn_status runner = RUNNER_ACTIVE
      \<and> en_heartbeat e (rn_id runner) = HeartbeatMissing
      \<and> en_heartbeat e2 (rn_id runner) = HeartbeatMissing
      \<and> (req \<longrightarrow> heartbeat_expired runner (en_now e) ttl)"
    using runner open1[unfolded gate_open] open2[unfolded gate_open] by blast
  then show ?thesis
    by (intro conjI allI impI disconnect_effect[OF news w' assms(2)])
qed

definition ex_disconnect :: "reconcile_response handler_result" where
  "ex_disconnect = reconcile_disconnected_core (ex_offline_env 100) (ex_offline_env 101) True 50 ex_w4 ''r1''"

lemma ex_disconnect_facts: "succeeds ex_disconnect" "runs_distinct ex_w4"
  "map tr_status (w_runs (world_of ex_disconnect)) = [RUN_FAILED]"
  by code_simp+

theorem disconnect_needs_two_offline_observations_witness:
  "\<exists>r'. get_run (world_of ex_disconnect) ''run_1'' = Some r' \<and> tr_status r' = RUN_FAILED"
proof -
  obtain x where ok: "reconcile_disconnected_core (ex_offline_env 100) (ex_offline_env 101) True 50 ex_w4
      ''r1'' = Inr (x, world_of ex_disconnect)"
    using succeeds_world[OF ex_disconnect_facts(1)] by (auto simp: ex_disconnect_def)
  have "map tr_status (w_runs ex_w4) = [RUN_ASSIGNED]" by code_simp
  then have "world_of ex_disconnect \<noteq> ex_w4" using ex_disconnect_facts(3) by auto
  from disconnect_needs_two_offline_observations[OF ok ex_disconnect_facts(2) this]
  have "if tr_runner_id (ex_run ex_w4) = Some ''r1'' \<and> (tr_status (ex_run ex_w4) = RUN_ASSIGNED
      \<or> tr_status (ex_run ex_w4) = RUN_RUNNING)
    then \<exists>r'. get_run (world_of ex_disconnect) ''run_1'' = Some r' \<and> tr_status r' = RUN_FAILED
           \<and> list_all (\<lambda>c. terminal_node_status (nd_status c)) (tr_case_runs r')
    else get_run (world_of ex_disconnect) ''run_1'' = Some (ex_run ex_w4)"
    using ex_get_run[OF ex_ids_all(3)] by blast
  moreover have "tr_runner_id (ex_run ex_w4) = Some ''r1''" by code_simp
  ultimately show ?thesis using ex_statuses(2) by auto
qed

text \<open>A Run the overdue reconciliation is meant for: its deadline and the grace period have passed.\<close>

definition overdue :: "env \<Rightarrow> int \<Rightarrow> test_run \<Rightarrow> bool" where
  "overdue e grace r \<longleftrightarrow>
     (tr_status r = RUN_RUNNING \<or> tr_status r = RUN_CANCELLING)
     \<and> (case (tr_started_at r, tr_total_timeout_ms r) of
          (Some t, Some ms) \<Rightarrow> t + milliseconds ms + grace < en_now e | _ \<Rightarrow> False)"

text \<open>
  C28. The overdue reconciliation acts exactly on overdue Runs. A RUNNING or CANCELLING Run whose
  deadline and grace period have passed is always ended, as TIMEOUT or CANCELLED, with every CaseRun
  and StepRun closed; a Run that is in another state, has no start time or budget, or whose deadline
  has not passed is left alone.
\<close>

theorem overdue_reconciliation_is_exact:
  assumes "get_run w i = Some r" and "tr_case_runs r \<noteq> []"
  shows "if overdue e grace r
    then \<exists>r' w'. reconcile_overdue_run_core e grace w i = Inr (Some (tr_status r'), w')
      \<and> get_run w' i = Some r' \<and> nodes_terminal (tr_case_runs r')
      \<and> tr_status r' = (if tr_status r = RUN_RUNNING then RUN_TIMEOUT else RUN_CANCELLED)
    else reconcile_overdue_run_core e grace w i = Inr (None, w)"
proof (cases "overdue e grace r")
  case True
  then obtain t ms where "tr_started_at r = Some t" "tr_total_timeout_ms r = Some ms"
    and "t + milliseconds ms + grace < en_now e" and "tr_status r = RUN_RUNNING \<or> tr_status r = RUN_CANCELLING"
    by (auto simp: overdue_def split: option.splits)
  then have "\<exists>r' w'. reconcile_overdue_run_core e grace w i = Inr (Some (tr_status r'), w')
      \<and> get_run w' i = Some r' \<and> nodes_terminal (tr_case_runs r')
      \<and> tr_status r' = (if tr_status r = RUN_RUNNING then RUN_TIMEOUT else RUN_CANCELLED)"
    using assms
    by (intro reconcile_overdue_closes) (auto simp: overdue_run_deadline_def)
  with True show ?thesis by simp
next
  case False
  with assms show ?thesis
    by (auto simp: overdue_def reconcile_overdue_run_core_def overdue_run_deadline_def split: option.splits)
qed

lemma ex_w5_facts: "map tr_id (w_runs ex_w5) = [''run_1'']" "tr_status (ex_run ex_w5) = RUN_RUNNING"
  "tr_started_at (ex_run ex_w5) = Some 5" "tr_total_timeout_ms (ex_run ex_w5) = Some 1000"
  "length (tr_case_runs (ex_run ex_w5)) = 2"
  by code_simp+

theorem overdue_reconciliation_is_exact_witness:
  "(\<exists>r' w'. reconcile_overdue_run_core (ex_env 2000000) 10 ex_w5 ''run_1'' = Inr (Some RUN_TIMEOUT, w')
     \<and> get_run w' ''run_1'' = Some r' \<and> nodes_terminal (tr_case_runs r'))
   \<and> reconcile_overdue_run_core (ex_env 2000) 10 ex_w5 ''run_1'' = Inr (None, ex_w5)"
proof -
  have ne: "tr_case_runs (ex_run ex_w5) \<noteq> []" using ex_w5_facts(5) by auto
  have late: "overdue (ex_env 2000000) 10 (ex_run ex_w5)" and early: "\<not> overdue (ex_env 2000) 10 (ex_run ex_w5)"
    using ex_w5_facts(2-4) by (simp_all add: overdue_def milliseconds_def ex_env_def)
  from overdue_reconciliation_is_exact[OF ex_get_run[OF ex_w5_facts(1)] ne, of "ex_env 2000000" 10] late ex_w5_facts(2)
  have "\<exists>r' w'. reconcile_overdue_run_core (ex_env 2000000) 10 ex_w5 ''run_1'' = Inr (Some RUN_TIMEOUT, w')
     \<and> get_run w' ''run_1'' = Some r' \<and> nodes_terminal (tr_case_runs r')" by auto
  with overdue_reconciliation_is_exact[OF ex_get_run[OF ex_w5_facts(1)] ne, of "ex_env 2000" 10] early
  show ?thesis by simp
qed

end
