(* ===== verification/Run_Delivery.thy ===== *)
theory Run_Delivery
  imports Run_Guarantees
begin

text \<open>
  Guarantees of creation, dispatch, batch dispatch and force stop.
\<close>

section \<open>Dispatch\<close>

lemma dispatch_attempt_sent:
  assumes "dispatch_attempt w r ob = (DispatchPublish k pl, w1)"
  shows "ob_attempt_count ob < 10" "tp_attempt pl = ob_attempt_count ob + 1"
    "\<exists>ob'. w1 = put_run w (r\<lparr>tr_dispatch_outbox := Some ob'\<rparr>)
       \<and> ob_status ob' = OUTBOX_PENDING \<and> ob_attempt_count ob' = ob_attempt_count ob + 1"
  using assms
  by (auto simp: dispatch_attempt_def Let_def dispatch_max_attempts_def store_outbox_def
      split: option.splits if_splits)

lemma record_publish_pending:
  assumes "record_publish_result e w i res = Inr (rsp, w')" and "get_run w i = Some r"
    and "tr_dispatch_outbox r = Some ob" and "ob_status ob = OUTBOX_PENDING"
  shows "dr_outbox_status rsp = (if pr_published res then OUTBOX_PUBLISHED else OUTBOX_FAILED)"
    "dr_attempt_count rsp = ob_attempt_count ob" "w_sent w' = w_sent w"
  using assms
  by (auto simp: record_publish_result_def make_dispatch_response_def store_outbox_def Let_def)

text \<open>The world in which the answer of the broker is recorded.\<close>

definition first_attempt :: "test_run \<Rightarrow> int \<Rightarrow> bool" where
  "first_attempt r n \<longleftrightarrow>
     (case tr_dispatch_outbox r of
        None \<Rightarrow> tr_status r = RUN_CREATED \<and> n = 1
      | Some ob \<Rightarrow> ob_status ob \<noteq> OUTBOX_PUBLISHED \<and> ob_attempt_count ob < 10
                   \<and> n = ob_attempt_count ob + 1)"

lemma put_run_get: "get_run w (tr_id r) \<noteq> None \<Longrightarrow> get_run (put_run w r) (tr_id r) = Some r"
  by (auto simp: get_put_run)

lemma dispatch_begin_sent:
  assumes ok: "dispatch_begin e m pre w u i = Inr (DispatchPublish k pl, w1)"
  shows "\<exists>r r1 ob. get_run w i = Some r \<and> first_attempt r (tp_attempt pl) \<and> w_sent w1 = w_sent w
    \<and> get_run w1 i = Some r1 \<and> tr_dispatch_outbox r1 = Some ob \<and> ob_status ob = OUTBOX_PENDING
    \<and> ob_attempt_count ob = tp_attempt pl"
proof -
  obtain r where r: "get_run w i = Some r" using ok by (auto simp: dispatch_begin_def res_simps)
  note id = get_run_id[OF r]
  show ?thesis
  proof (cases "tr_dispatch_outbox r")
    case (Some ob)
    then have at: "dispatch_attempt w r ob = (DispatchPublish k pl, w1)"
      and np: "ob_status ob \<noteq> OUTBOX_PUBLISHED"
      using ok r by (auto simp: dispatch_begin_def res_simps split: if_splits)
    note s = dispatch_attempt_sent[OF at]
    obtain ob' where w1: "w1 = put_run w (r\<lparr>tr_dispatch_outbox := Some ob'\<rparr>)"
      and ob': "ob_status ob' = OUTBOX_PENDING" "ob_attempt_count ob' = ob_attempt_count ob + 1"
      using s(3) by blast
    have "get_run w1 i = Some (r\<lparr>tr_dispatch_outbox := Some ob'\<rparr>)"
      using put_run_get[of w "r\<lparr>tr_dispatch_outbox := Some ob'\<rparr>"] r id by (simp add: w1)
    then show ?thesis
      using r Some np s(1,2) ob' by (auto simp: first_attempt_def w1)
  next
    case None
    then obtain run1 ob w2 where st: "tr_status r = RUN_CREATED"
      and cr: "dispatch_create e m w r = Inr (run1, ob, w2)"
      and at: "dispatch_attempt w2 run1 ob = (DispatchPublish k pl, w1)"
      using ok r by (auto simp: dispatch_begin_def res_simps split: if_splits)
    note created = dispatch_create_evolves[OF cr st None]
    note s = dispatch_attempt_sent[OF at]
    obtain ob' where w1: "w1 = put_run w2 (run1\<lparr>tr_dispatch_outbox := Some ob'\<rparr>)"
      and ob': "ob_status ob' = OUTBOX_PENDING" "ob_attempt_count ob' = ob_attempt_count ob + 1"
      using s(3) by blast
    have "get_run w2 i = Some run1"
      using get_commit_run[of w run1] created(4,7) r id by simp
    then have "get_run w1 i = Some (run1\<lparr>tr_dispatch_outbox := Some ob'\<rparr>)"
      using put_run_get[of w2 "run1\<lparr>tr_dispatch_outbox := Some ob'\<rparr>"] created(4) id by (simp add: w1)
    moreover have "w_sent w1 = w_sent w" by (simp add: w1 created(7) commit_run_def)
    ultimately show ?thesis
      using r None st s(2) ob' created(3) by (auto simp: first_attempt_def)
  qed
qed

lemma dispatch_begin_done:
  assumes "dispatch_begin e m pre w u i = Inr (DispatchDone rsp, w1)"
  shows "w_sent w1 = w_sent w"
  using dispatch_begin_step[OF assms] by (simp add: world_step_def)

text \<open>
  One call of \<open>dispatch_run\<close> hands at most one message to the broker. It sends one only for a
  Run that has no confirmed message and fewer than ten attempts, with the next attempt number; the
  outbox row is then PUBLISHED exactly when the broker confirmed the message and FAILED otherwise.
\<close>

theorem dispatch_sends_at_most_one_message:
  assumes "dispatch_run e m pre w u i = Inr (rsp, w')"
  shows "w_sent w' = w_sent w \<or>
    (\<exists>r tm. get_run w i = Some r \<and> w_sent w' = w_sent w @ [tm]
       \<and> first_attempt r (tp_attempt (tm_payload tm))
       \<and> dr_attempt_count rsp = tp_attempt (tm_payload tm)
       \<and> dr_outbox_status rsp = (if tm_confirmed tm then OUTBOX_PUBLISHED else OUTBOX_FAILED))"
proof -
  obtain pg w1 where start: "dispatch_begin e m pre w u i = Inr (pg, w1)"
    and rest: "(case pg of DispatchDone response \<Rightarrow> Inr (response, w1)
     | DispatchPublish k pl \<Rightarrow> record_publish_result e (log_sent e k pl w1) i (en_publish e k pl))
        = Inr (rsp, w')"
    using assms by (auto simp: dispatch_run_def res_simps)
  show ?thesis
  proof (cases pg)
    case (DispatchDone x)
    then show ?thesis using start rest dispatch_begin_done by auto
  next
    case (DispatchPublish k pl)
    obtain r r1 ob where r: "get_run w i = Some r" "first_attempt r (tp_attempt pl)" "w_sent w1 = w_sent w"
      and r1: "get_run w1 i = Some r1" "tr_dispatch_outbox r1 = Some ob" "ob_status ob = OUTBOX_PENDING"
        "ob_attempt_count ob = tp_attempt pl"
      using dispatch_begin_sent start DispatchPublish by blast
    have rec: "record_publish_result e (log_sent e k pl w1) i (en_publish e k pl) = Inr (rsp, w')"
      using rest DispatchPublish by simp
    have "get_run (log_sent e k pl w1) i = Some r1" using r1(1) by simp
    note p = record_publish_pending[OF rec this r1(2,3)]
    have "w_sent w' = w_sent w @ [\<lparr>tm_routing_key = k, tm_payload = pl,
             tm_confirmed = pr_published (en_publish e k pl)\<rparr>]"
      using p(3) r(3) by (simp add: log_sent_def)
    then show ?thesis using r p r1(4) by auto
  qed
qed

definition ex_dispatch_run :: "dispatch_response handler_result" where
  "ex_dispatch_run = dispatch_run (ex_env 2) ''msg_1'' False ex_w1 ex_user ''run_1''"

lemma ex_dispatch_run_ok: "succeeds ex_dispatch_run"
  "length (w_sent (world_of ex_dispatch_run)) = 1" "length (w_sent ex_w1) = 0"
  by code_simp+

theorem dispatch_sends_at_most_one_message_witness:
  "\<exists>tm. w_sent (world_of ex_dispatch_run) = w_sent ex_w1 @ [tm] \<and> tp_attempt (tm_payload tm) \<le> 10"
proof -
  obtain x where "dispatch_run (ex_env 2) ''msg_1'' False ex_w1 ex_user ''run_1'' =
      Inr (x, world_of ex_dispatch_run)"
    using succeeds_world[OF ex_dispatch_run_ok(1)] by (auto simp: ex_dispatch_run_def)
  from dispatch_sends_at_most_one_message[OF this] ex_dispatch_run_ok(2,3) show ?thesis
    by (auto simp: first_attempt_def split: option.splits)
qed

section \<open>Batch dispatch\<close>

lemma batch_item_ids [simp]: "bi_run_id (batch_dispatch_error_item i err) = i"
  "bi_run_id (batch_item_of i rsp) = i"
  by (simp_all add: batch_dispatch_error_item_def batch_item_of_def Let_def)

lemma batch_publish_ids: "map bi_run_id (fst (batch_publish e ms u w ids)) = ids"
proof (induction ids arbitrary: w)
  case (Cons i ids)
  show ?case
    using Cons[of w] Cons[of "snd (projr (dispatch_run e (ms i) True w u i))"]
    by (cases "dispatch_run e (ms i) True w u i") (auto simp: Let_def split: prod.splits)
qed simp

lemma preflight_errors_ids:
  "set (map bi_run_id (preflight_errors e w pid ids)) =
     {i \<in> set ids. batch_preflight e w pid i \<noteq> Inr ()}"
proof (induction ids)
  case (Cons i ids)
  then show ?case
    by (cases "batch_preflight e w pid i") (auto simp: preflight_errors_def)
qed (simp add: preflight_errors_def)

lemma find_by_id:
  assumes "i \<in> set (map bi_run_id xs)"
  shows "\<exists>x. find (\<lambda>it. bi_run_id it = i) xs = Some x \<and> bi_run_id x = i"
  using assms by (induction xs) auto

text \<open>
  A batch dispatch answers for every requested Run, in the order of the request, and its counters
  add up: the number of requested Runs is the number dispatched plus the number failed.
\<close>

theorem batch_dispatch_accounts_for_every_run:
  assumes "dispatch_runs_batch e ms w u pid ids = Inr ((requested, dispatched, failed, items), w')"
  shows "map bi_run_id items = ids \<and> requested = int (length ids)
    \<and> dispatched = int (length (filter bi_dispatched items)) \<and> requested = dispatched + failed
    \<and> 0 \<le> failed"
proof -
  let ?ready = "filter (\<lambda>i. batch_preflight e w pid i = Inr ()) ids"
  obtain sent w1 where sent: "batch_publish e ms u w ?ready = (sent, w1)"
    by (cases "batch_publish e ms u w ?ready")
  define table where "table = sent @ preflight_errors e w pid ids"
  have covered: "set (map bi_run_id table) = set ids"
  proof -
    have "map bi_run_id sent = ?ready" using batch_publish_ids[of e ms u w ?ready] sent by simp
    then show ?thesis
      using preflight_errors_ids[of e w pid ids] unfolding table_def map_append set_append by auto
  qed
  have items: "items = map (\<lambda>i. the (find (\<lambda>it. bi_run_id it = i) table)) ids"
    and counts: "requested = int (length items)" "dispatched = int (length (filter bi_dispatched items))"
      "failed = int (length items) - dispatched"
    using assms sent by (auto simp: dispatch_runs_batch_def res_simps Let_def table_def)
  have "map bi_run_id items = ids"
    unfolding items map_map
  proof (rule map_idI)
    fix i assume "i \<in> set ids"
    then show "(bi_run_id \<circ> (\<lambda>i. the (find (\<lambda>it. bi_run_id it = i) table))) i = i"
      using find_by_id[of i table] covered by auto
  qed
  moreover have "length (filter bi_dispatched items) \<le> length items" by (rule length_filter_le)
  ultimately show ?thesis using counts items by (auto simp: items)
qed

definition ex_batch :: "(int \<times> int \<times> int \<times> batch_item list) handler_result" where
  "ex_batch = dispatch_runs_batch (ex_env 2) (\<lambda>i. ''msg_1'') ex_w1 ex_user 1 [''missing'', ''run_1'']"

lemma ex_batch_ok: "map_option (\<lambda>(a, b, c, items). (a, b, c)) (response_of ex_batch) = Some (2, 1, 1)"
  by code_simp

theorem batch_dispatch_accounts_for_every_run_witness:
  "\<exists>items. response_of ex_batch = Some (2, 1, 1, items) \<and> map bi_run_id items = [''missing'', ''run_1'']"
proof -
  obtain items where x: "response_of ex_batch = Some (2, 1, 1, items)"
    using ex_batch_ok by (auto split: prod.splits)
  with batch_dispatch_accounts_for_every_run response_world[OF x] show ?thesis
    unfolding ex_batch_def by blast
qed

section \<open>Creation\<close>

text \<open>
  A Run is created only for a caller who may write to an active project, only with a clean
  validation, and only on a Runner that is active, online, has the required tags, all required
  capabilities ready and enough free slots. The stored Run is new, CREATED, without outbox row, with
  all its CaseRuns CREATED and correct counters.
\<close>

theorem created_run_is_admissible:
  assumes "create_run e ok res ids w u p = Inr (run, w')"
  shows "get_run w (tr_id run) = None \<and> get_run w' (tr_id run) = Some run \<and> fresh_run run
    \<and> (\<exists>pr. get_project (w_db w) u (rq_project_id p) = Inr pr \<and> pj_status pr = PROJECT_ACTIVE
         \<and> ensure_project_writable (w_db w) pr u = Inr ())
    \<and> (\<exists>runner slot. get_runner w (rq_runner_id p) = Some runner \<and> tr_runner_id run = Some (rq_runner_id p)
         \<and> rn_status runner = RUNNER_ACTIVE \<and> en_heartbeat e (rn_id runner) = HeartbeatPresent
         \<and> set (tr_required_tags run) \<subseteq> set (rn_tags runner)
         \<and> set (tr_required_capabilities run) \<subseteq> set (ready_capabilities runner)
         \<and> find_slot runner (tr_required_slot_type run) = Some slot
         \<and> tr_required_slot_count run \<le> rs_available slot)"
proof -
  obtain pr caps target where pr: "get_project (w_db w) u (rq_project_id p) = Inr pr"
    "ensure_project_writable (w_db w) pr u = Inr ()"
    and val: "validate_run_request e ok res w u p = Inr ([], caps, target)"
    and new: "get_run w (ni_run_id ids) = None"
    and run: "run = new_run e u p caps target ids"
    and w': "w' = publish_event e run None RUN_CREATED (first_case_id run) None
                    (w\<lparr>w_runs := w_runs w @ [run]\<rparr>)"
    using assms by (auto simp: create_run_def res_simps Let_def split: if_splits prod.splits)
  have id: "tr_id run = ni_run_id ids" by (simp add: run new_run_def)
  have "get_run w' (tr_id run) = Some run"
    using new id by (simp add: w' get_run_def get_row_append) (simp add: get_row_def)
  moreover have "fresh_run run" unfolding run by (rule new_run_fresh)
  moreover have "pj_status pr = PROJECT_ACTIVE" "validate_runner e w p caps = []"
    using val pr
    by (auto simp: validate_run_request_def res_simps Let_def issue_if_def
        split: prod.splits if_splits intro: project_status.exhaust[of "pj_status pr"])
  moreover have "tr_required_tags run = rq_required_tags p" "tr_required_capabilities run = caps"
    "tr_required_slot_type run = rq_required_slot_type p" "tr_runner_id run = Some (rq_runner_id p)"
    "tr_required_slot_count run = rq_required_slot_count p"
    by (simp_all add: run new_run_def)
  ultimately show ?thesis
    using validate_runner_clean[of e w p caps] new id pr by metis
qed

theorem created_run_is_admissible_witness:
  "\<exists>run. ex_create = Inr (run, ex_w1) \<and> get_run ex_w1 (tr_id run) = Some run \<and> fresh_run run"
proof -
  obtain x where x: "ex_create = Inr (x, ex_w1)"
    using succeeds_world[OF ex_create_ok] by (auto simp: ex_w1_def)
  with created_run_is_admissible[OF x[unfolded ex_create_def]] show ?thesis by blast
qed

end
