(* ===== verification/Run_Findings.thy ===== *)
theory Run_Findings
  imports Run_Delivery
begin

text \<open>
  Force stop, and behaviours of the Run handlers that a reader of the code would not expect: states
  in which a protocol step that should succeed is refused or in which no recovery applies.
\<close>

section \<open>Force stop\<close>

lemma force_stop_closes:
  assumes run: "get_run w i = Some r" and auth: "authorize_run_write w u r = Inr ()"
    and early: "tr_status r = RUN_CREATED \<or> tr_status r = RUN_QUEUED"
  shows "\<exists>r' w'. force_stop_run e w u i = Inr (r', w') \<and> get_run w' i = Some r'
    \<and> tr_status r' = RUN_CANCELLED \<and> nodes_terminal (tr_case_runs r')"
proof -
  obtain cs where cs: "close_children (en_now e) NODE_CANCELLED (plain_node_update NODE_CANCELLED)
      (tr_case_runs r) = Inr cs" using close_children_total ..
  let ?r1 = "recompute_summary (r\<lparr>tr_case_runs := cs\<rparr>)"
  have "run_machine.edge (tr_status ?r1) RUN_CANCELLED"
    using early by (auto simp: row_frame run_machine.edge_def)
  then obtain b r' where set: "set_run_status (en_now e) ?r1 RUN_CANCELLED
      (plain_run_update RUN_CANCELLED) = Inr (b, r')" using set_run_status_ok by blast
  note frame = set_run_status_frame[OF set]
  have "force_stop_run e w u i = Inr (r', commit_run e w r' (tr_status r) RUN_CANCELLED (first_case_id r'))"
    using run auth early cs set
    by (auto simp: force_stop_run_def force_stop_early_def require_run_def Let_def)
  moreover have "get_run (commit_run e w r' (tr_status r) RUN_CANCELLED (first_case_id r')) i = Some r'"
    using get_commit_run[of w r'] frame(1) run get_run_id[OF run] by (simp add: row_frame)
  ultimately show ?thesis
    using early frame close_children_nodes[OF cs] by (auto simp: row_frame)
qed

lemma force_stop_stops:
  assumes run: "get_run w i = Some r" and auth: "authorize_run_write w u r = Inr ()"
    and late: "tr_status r \<in> {RUN_ASSIGNED, RUN_RUNNING, RUN_CANCELLING}"
  shows "\<exists>r' w'. force_stop_run e w u i = Inr (r', w') \<and> get_run w' i = Some r'
    \<and> tr_status r' = RUN_CANCELLING \<and> tr_case_runs r' = tr_case_runs r
    \<and> tr_force_stop_requested_at r' =
        Some (case tr_force_stop_requested_at r of None \<Rightarrow> en_now e | Some t \<Rightarrow> t)"
proof -
  obtain b r1 where r1: "set_run_status (en_now e) r RUN_CANCELLING (plain_run_update RUN_CANCELLING)
      = Inr (b, r1)"
    using late set_run_status_ok[of r RUN_CANCELLING "en_now e" "plain_run_update RUN_CANCELLING"]
    by (auto simp: run_machine.edge_def)
  note frame = set_run_status_frame[OF r1]
  define r' where "r' = (if tr_force_stop_requested_at r1 = None
    then r1\<lparr>tr_force_stop_requested_at := Some (en_now e)\<rparr> else r1)"
  let ?w' = "publish_event e r' (Some (tr_status r)) RUN_CANCELLING (first_case_id r')
    (Some ''RUN_FORCE_STOP_REQUESTED'') (put_run w r')"
  have "force_stop_run e w u i = Inr (r', ?w')"
  proof (cases "tr_status r = RUN_CANCELLING")
    case True
    then have "r1 = r" using r1 by (simp add: set_run_status_def)
    with True show ?thesis using run auth by (simp add: force_stop_run_def require_run_def Let_def r'_def)
  next
    case False
    then have "tr_status r = RUN_ASSIGNED \<or> tr_status r = RUN_RUNNING" using late by auto
    then show ?thesis
      using run auth r1 by (elim disjE) (simp_all add: force_stop_run_def require_run_def Let_def r'_def)
  qed
  moreover have "tr_id r' = i" using frame(1) get_run_id[OF run] by (simp add: r'_def)
  then have "get_run ?w' i = Some r'" using put_run_get[of w r'] run by simp
  ultimately show ?thesis
    using late frame by (auto simp: r'_def split: option.splits)
qed

text \<open>
  An authorised force stop always succeeds. A finished Run is returned unchanged; a Run that was not
  claimed is cancelled with all its nodes closed; any other Run is CANCELLING with the time of the first
  force-stop request recorded, which later requests do not move.
\<close>

theorem force_stop_always_succeeds:
  assumes run: "get_run w i = Some r" and auth: "authorize_run_write w u r = Inr ()"
  shows "\<exists>r' w'. force_stop_run e w u i = Inr (r', w') \<and> get_run w' i = Some r'
    \<and> (if terminal_run_status (tr_status r) then r' = r \<and> w' = w
       else if tr_status r = RUN_CREATED \<or> tr_status r = RUN_QUEUED
       then tr_status r' = RUN_CANCELLED \<and> nodes_terminal (tr_case_runs r')
       else tr_status r' = RUN_CANCELLING \<and> tr_case_runs r' = tr_case_runs r
         \<and> tr_force_stop_requested_at r' =
             Some (case tr_force_stop_requested_at r of None \<Rightarrow> en_now e | Some t \<Rightarrow> t))"
proof -
  consider (ended) "terminal_run_status (tr_status r)"
    | (early) "tr_status r = RUN_CREATED \<or> tr_status r = RUN_QUEUED"
    | (late) "tr_status r \<in> {RUN_ASSIGNED, RUN_RUNNING, RUN_CANCELLING}"
    by (cases "tr_status r") auto
  then show ?thesis
  proof cases
    case ended
    then show ?thesis using run auth by (simp add: force_stop_run_def require_run_def Let_def)
  next
    case early
    with force_stop_closes[OF run auth early, of e] show ?thesis by auto
  next
    case late
    with force_stop_stops[OF run auth late, of e] show ?thesis by auto
  qed
qed

theorem force_stop_always_succeeds_witness:
  "\<exists>r' w'. force_stop_run (ex_env 9) ex_w4 ex_user ''run_1'' = Inr (r', w')
     \<and> tr_status r' = RUN_CANCELLING \<and> tr_force_stop_requested_at r' \<noteq> None"
  using force_stop_always_succeeds[OF ex_get_run[OF ex_ids_all(3)] ex_authorized(2), of "ex_env 9"]
    ex_statuses(2) by auto

section \<open>A cancelled data-driven Run with a failed iteration\<close>

lemma failed_iteration_verdict:
  assumes "list_all2 case_evolves cs0 cs" and "c \<in> set cs0"
    and "nd_status c \<in> {NODE_FAILED, NODE_REVIEW, NODE_TIMEOUT}"
  shows "\<not> run_machine.edge RUN_CANCELLING (api_effective_run_status cs)"
proof -
  obtain c' where "c' \<in> set cs" "case_evolves c c'"
    using assms(1,2) by (metis in_set_conv_nth list_all2_conv_all_nth)
  moreover have "terminal_node_status (nd_status c)" using assms(3) by auto
  ultimately have "nd_status c \<in> set (map nd_status cs)"
    using node_keeps_status[of c c'] by (metis case_evolves_def image_eqI set_map)
  then have "api_effective_run_status cs = RUN_FAILED \<or> api_effective_run_status cs = RUN_TIMEOUT"
    using assms(3) by (auto simp: api_effective_run_status_def Let_def)
  then show ?thesis by (auto simp: run_machine.edge_def)
qed

text \<open>
  C29. A CANCELLING API Run one of whose iterations already failed, timed out or went to review cannot
  be completed by its Runner: every completion is refused, because the status computed from the
  iterations is FAILED or TIMEOUT and the transition table only leads from CANCELLING to CANCELLED.
\<close>

theorem cancelled_run_with_failed_iteration_cannot_complete:
  assumes cx: "execution_context e w i cred (xc_message_id p) (Some (xc_case_run_id p)) = Inr cx"
    and st: "tr_status (cx_run cx) = RUN_CANCELLING"
    and new: "find_result (w_api_results w) i (xc_case_run_id p) = None"
    and bad: "c \<in> set (tr_case_runs (cx_run cx))"
      "nd_status c \<in> {NODE_FAILED, NODE_REVIEW, NODE_TIMEOUT}"
  shows "\<exists>err. complete_api_execution e w i cred p = Inl err"
proof (rule ccontr)
  assume "\<nexists>err. complete_api_execution e w i cred p = Inl err"
  then obtain rsp w' where ok: "complete_api_execution e w i cred p = Inr (rsp, w')"
    by (metis old.sum.exhaust surj_pair)
  note d = execution_contextD[OF cx]
  have "tr_id (cx_run cx) = i" "cr_id (cx_case cx) = xc_case_run_id p"
    using get_run_id[OF d(1)] execution_context_case_id[OF cx] by auto
  then have "complete_api_new e w cx p = Inr (rsp, w')"
    using ok cx new by (simp add: complete_api_execution_def)
  then show False
  proof (rule complete_api_newE)
    fix eff content v cs rst r2
    assume eff: "eff = (if tr_status (cx_run cx) = RUN_CANCELLING then OUTCOME_CANCELLED else xc_outcome p)"
      and v: "api_completion_verdict e cx content eff p = Inr v"
      and cs: "api_close_children (en_now e) cx (eff = OUTCOME_CANCELLED)
           (api_node_update v (xc_retry_count p)) = Inr cs"
      and fin: "api_finish_run (en_now e) v (recompute_summary ((cx_run cx)\<lparr>tr_case_runs := cs,
           tr_force_stopped := (av_force_stopped v \<or> tr_force_stopped (cx_run cx))\<rparr>)) = Inr (rst, r2)"
    have e: "eff = OUTCOME_CANCELLED" using eff st by simp
    have "nsu_status (api_node_update v (xc_retry_count p)) = NODE_CANCELLED"
      using cancel_verdict v e by (simp add: api_node_update_def api_node_status_def)
    moreover have "select_case_runs (cx_run cx) (Some (cr_id (cx_case cx))) = [cx_case cx]"
      using execution_context_select[OF cx] execution_context_case_id[OF cx] by simp
    ultimately have all: "list_all (\<lambda>c. terminal_node_status (nd_status c)) cs"
      using api_cancel_children_terminal cs e by auto
    have "list_all2 case_evolves (tr_case_runs (cx_run cx)) cs"
      using api_close_children_evolve[OF cs d(2)] .
    from failed_iteration_verdict[OF this bad]
    show False
      using fin all st
      by (auto simp: api_finish_run_def res_simps row_frame Let_def dest!: set_run_status_edge)
  qed
qed

text \<open>The first of two iterations fails, the second is running when the user cancels.\<close>

definition ex_failed_first :: world where
  "ex_failed_first = world_of (complete_api_execution (ex_env 6) ex_w5 ''run_1'' ''secret''
     ((ex_completion 1)\<lparr>xc_outcome := OUTCOME_EXECUTION_ERROR, xc_error_type := Some ''E'',
        xc_error_message := Some ''m''\<rparr>))"

definition ex_cancelled_second :: world where
  "ex_cancelled_second = world_of (cancel_run (ex_env 8)
     (world_of (start_api_execution (ex_env 7) ex_failed_first ''run_1'' ''secret'' ''msg_1'' 2))
     ex_user ''run_1'')"

definition ex_second_report :: api_completion where
  "ex_second_report = (ex_completion 2)\<lparr>xc_outcome := OUTCOME_CANCELLED, xc_response := None\<rparr>"

definition ex_second_context :: "app_error + exec_context" where
  "ex_second_context = execution_context (ex_env 9) ex_cancelled_second ''run_1'' ''secret'' ''msg_1'' (Some 2)"

lemma ex_second_facts:
  "\<not> isl ex_second_context"
  "tr_status (cx_run (projr ex_second_context)) = RUN_CANCELLING"
  "map nd_status (tr_case_runs (cx_run (projr ex_second_context))) = [NODE_FAILED, NODE_CANCELLING]"
  "isl (option_to_res () (find_result (w_api_results ex_cancelled_second) ''run_1'' 2))"
  by code_simp+

theorem cancelled_run_with_failed_iteration_cannot_complete_witness:
  "\<exists>err. complete_api_execution (ex_env 9) ex_cancelled_second ''run_1'' ''secret'' ex_second_report = Inl err"
proof -
  define cx where "cx = projr ex_second_context"
  have cx: "ex_second_context = Inr cx"
    unfolding cx_def by (rule sum.collapse(2)[OF ex_second_facts(1), symmetric])
  note facts = ex_second_facts(2,3)[folded cx_def]
  obtain c where "c \<in> set (tr_case_runs (cx_run cx))" "nd_status c = NODE_FAILED"
    using facts(2) by fastforce
  moreover have "find_result (w_api_results ex_cancelled_second) ''run_1'' 2 = None"
    using ex_second_facts(4)
    by (cases "find_result (w_api_results ex_cancelled_second) ''run_1'' 2") auto
  ultimately show ?thesis
    using cancelled_run_with_failed_iteration_cannot_complete[of "ex_env 9" ex_cancelled_second "''run_1''"
        "''secret''" ex_second_report cx c] cx facts(1)
    by (simp add: ex_second_context_def ex_second_report_def ex_completion_def)
qed

section \<open>Cancellation before the start\<close>

text \<open>
  A Run that is cancelled after its claim and before its start has no deadline. Neither recovery
  applies to it: the overdue reconciliation never selects or changes it, and the reconciliation of a
  disconnected Runner leaves it alone. Unless its Runner claims it again it stays CANCELLING.
\<close>

theorem cancelled_before_start_is_never_recovered:
  assumes run: "get_run w i = Some r" and st: "tr_status r = RUN_CANCELLING" "tr_started_at r = None"
    and dist: "runs_distinct w"
  shows "reconcile_overdue_run_core e grace w i = Inr (None, w)
    \<and> i \<notin> set (candidate_overdue_run_ids e grace w)
    \<and> (\<forall>e1 e2 req ttl j rsp w'. reconcile_disconnected_core e1 e2 req ttl w j = Inr (rsp, w') \<longrightarrow>
         get_run w' i = Some r)"
proof (intro conjI allI impI)
  show "reconcile_overdue_run_core e grace w i = Inr (None, w)"
    using run st by (simp add: reconcile_overdue_run_core_def overdue_run_deadline_def)
  have "x = r" if "x \<in> set (w_runs w)" "tr_id x = i" for x
    using get_run_member[OF dist that(1)] that(2) run by simp
  moreover have "overdue_run_deadline r grace = None" using st by (simp add: overdue_run_deadline_def)
  ultimately show "i \<notin> set (candidate_overdue_run_ids e grace w)"
    by (auto simp: candidate_overdue_run_ids_def)
  fix e1 e2 req ttl j rsp w'
  assume ok: "reconcile_disconnected_core e1 e2 req ttl w j = Inr (rsp, w')"
  consider "w' = w" | news where
    "res_map (fail_disconnected (en_now e1)) (disconnect_candidates w j) = Inr news"
    "w' = commit_runs e1 (zip news (map tr_status (disconnect_candidates w j))) RUN_FAILED w"
    using reconcile_disconnected_core_shape[OF ok] by blast
  then show "get_run w' i = Some r"
  proof cases
    case 2
    from disconnect_effect[OF 2 dist run] show ?thesis using st by simp
  qed (use run in simp)
qed

definition ex_cancelled_early :: world where
  "ex_cancelled_early = world_of (cancel_run (ex_env 9) ex_w4 ex_user ''run_1'')"

lemma ex_cancelled_early_facts: "map tr_id (w_runs ex_cancelled_early) = [''run_1'']"
  "tr_status (ex_run ex_cancelled_early) = RUN_CANCELLING"
  "tr_started_at (ex_run ex_cancelled_early) = None" "runs_distinct ex_cancelled_early"
  by code_simp+

theorem cancelled_before_start_is_never_recovered_witness:
  "tr_status (ex_run ex_cancelled_early) = RUN_CANCELLING
   \<and> reconcile_overdue_run_core (ex_env 999999999) 0 ex_cancelled_early ''run_1'' = Inr (None, ex_cancelled_early)"
  using cancelled_before_start_is_never_recovered[OF ex_get_run[OF ex_cancelled_early_facts(1)]
      ex_cancelled_early_facts(2-4), of "ex_env 999999999" 0] ex_cancelled_early_facts(2) by blast

section \<open>Cancellation through the status endpoint\<close>

text \<open>
  A user who cancels a CREATED Run through the status endpoint instead of \<open>cancel_run\<close> gets a
  CANCELLED Run whose CaseRuns are all left as they were, that is CREATED in a fresh Run.
\<close>

theorem status_endpoint_leaves_case_runs_open:
  assumes run: "get_run w i = Some r" and auth: "authorize_run_write w u r = Inr ()"
    and st: "tr_status r = RUN_CREATED"
  shows "\<exists>r' w'. update_run_status e w i (plain_run_update RUN_CANCELLED) (CallerUser u) = Inr (r', w')
    \<and> get_run w' i = Some r' \<and> tr_status r' = RUN_CANCELLED \<and> tr_case_runs r' = tr_case_runs r"
proof -
  obtain r' where set: "set_run_status (en_now e) r RUN_CANCELLED (plain_run_update RUN_CANCELLED)
      = Inr (True, r')"
    using st set_run_status_ok[of r RUN_CANCELLED "en_now e" "plain_run_update RUN_CANCELLED"]
    by (auto simp: run_machine.edge_def)
  note frame = set_run_status_frame[OF set]
  have "update_run_status e w i (plain_run_update RUN_CANCELLED) (CallerUser u) =
      Inr (r', commit_run e w r' RUN_CREATED RUN_CANCELLED (first_case_id r'))"
    using run auth st set
    by (simp add: update_run_status_def require_run_def authorize_user_run_transition_def)
  moreover have "get_run (commit_run e w r' RUN_CREATED RUN_CANCELLED (first_case_id r')) i = Some r'"
    using get_commit_run[of w r'] frame(1) run get_run_id[OF run] by simp
  ultimately show ?thesis using frame by auto
qed

theorem status_endpoint_leaves_case_runs_open_witness:
  "\<exists>r' w'. update_run_status (ex_env 9) ex_w1 ''run_1'' (plain_run_update RUN_CANCELLED)
      (CallerUser ex_user) = Inr (r', w')
    \<and> tr_status r' = RUN_CANCELLED \<and> tr_case_runs r' = tr_case_runs (ex_run ex_w1)"
  using status_endpoint_leaves_case_runs_open[OF ex_get_run[OF ex_ids_all(1)] ex_authorized(1) ex_statuses(1),
      of "ex_env 9"] by blast

section \<open>Error texts\<close>

lemma sens_match_bearer_header:
  "sens_match (''Authorization: Bearer '' @ tok) = Some ('' '' @ tok)"
  by (simp add: sens_match_def match_bearer_def sens_keywords_def match_assignment_def
      drop_joined_ci_def drop_value_def value_char_def lower_char_code py_space_code)

text \<open>
  The sanitiser of error texts redacts a value that directly follows a sensitive keyword and a
  separator, and it bounds every text: for every value without blanks, commas and semicolons,
  \<open>password=<value>\<close> becomes \<open><redacted>\<close>, and no stored text is longer than its maximum.
\<close>

theorem safe_error_redacts_assignments:
  assumes "v \<noteq> []" and "list_all value_char v"
  shows "safe_error (Some (''password='' @ v)) = Some ''<redacted>''
    \<and> (\<forall>n x t. safe_error_max n x = Some t \<longrightarrow> length t \<le> n)"
proof -
  obtain c cs where v: "v = c # cs" "value_char c" using assms by (cases v) auto
  have "\<not> py_space c" using v(2) by (simp add: value_char_def)
  then have "sens_match (''password='' @ v) = Some []"
    using drop_value_all[OF assms] v
    by (simp add: sens_match_def match_bearer_def sens_keywords_def match_assignment_def
        lower_char_code py_space_code)
  then have "sens_sub (''password='' @ v) = ''<redacted>''"
    using sens_sub_match[of "''password='' @ v" "[]"] by (simp add: sens_sub.simps[of "[]"])
  then show ?thesis
    using safe_error_max_bounded by (auto simp: safe_error_def safe_error_max_def)
qed

theorem safe_error_redacts_assignments_witness:
  "safe_error (Some (''password='' @ ''hunter2'')) = Some ''<redacted>''"
proof -
  have "''hunter2'' \<noteq> ([] :: string)" "list_all value_char ''hunter2''" by code_simp+
  then show ?thesis using safe_error_redacts_assignments by blast
qed

text \<open>
  The sanitiser does not protect a bearer token in an Authorization header: the keyword
  \<open>authorization\<close> matches first and takes the word \<open>Bearer\<close> as its value, so the text behind it is
  scanned on its own and a token that is not itself sensitive-looking is stored as it is.
\<close>

theorem authorization_header_leaks_bearer_token:
  "sens_sub (''Authorization: Bearer '' @ tok) = ''<redacted>'' @ sens_sub ('' '' @ tok)
   \<and> safe_error (Some ''Authorization: Bearer abc123'') = Some ''<redacted> abc123''"
proof
  show "sens_sub (''Authorization: Bearer '' @ tok) = ''<redacted>'' @ sens_sub ('' '' @ tok)"
    by (rule sens_sub_match[OF sens_match_bearer_header])
  show "safe_error (Some ''Authorization: Bearer abc123'') = Some ''<redacted> abc123''"
    by code_simp
qed

end
