(* ===== verification/Plan_Types.thy ===== *)
theory Plan_Types
  imports Run_Machine
begin

text \<open>
  Rows of \<open>test_plans/models.py\<close> and \<open>ci_cd/models.py\<close>, and the catalogue of test content a plan can
  pin (\<open>environments\<close>, \<open>test_cases\<close>, \<open>scenarios\<close>, \<open>web_cases\<close>: the columns plans look at). Plans,
  plan runs, webhooks and CI invocations live in \<open>plan_db\<close>, beside the \<open>world\<close> of the Runs.
  Texts of errors are left out, their codes are kept.
\<close>

section \<open>The catalogue\<close>

record environment_row =
  ei_id :: int
  ei_project_id :: int
  ei_enabled :: bool

record target_row =
  ct_id :: int
  ct_project_id :: int
  ct_name :: string
  ct_status :: string
  ct_case_type :: string
  ct_current_version_id :: "int option"

record version_row =
  cv_id :: int
  cv_target_id :: int
  cv_status :: string

record catalog =
  cg_environments :: "environment_row list"
  cg_cases :: "target_row list"
  cg_case_versions :: "version_row list"
  cg_scenarios :: "target_row list"
  cg_scenario_versions :: "version_row list"
  cg_web_cases :: "target_row list"
  cg_web_case_versions :: "version_row list"

section \<open>Plans and plan runs\<close>

datatype plan_status = PLAN_ACTIVE | PLAN_ARCHIVED

record test_plan_item =
  pi_id :: int
  pi_sequence_no :: int
  pi_target_type :: run_type
  pi_target_name :: string
  pi_case_id :: "int option"
  pi_case_version_id :: "int option"
  pi_scenario_id :: "int option"
  pi_scenario_version_id :: "int option"
  pi_web_case_id :: "int option"
  pi_web_case_version_id :: "int option"
  pi_enabled :: bool

record test_plan =
  pn_id :: int
  pn_project_id :: int
  pn_name :: string
  pn_environment_id :: int
  pn_runner_id :: string
  pn_runtime_variables :: "(string \<times> json) list"
  pn_status :: plan_status
  pn_items :: "test_plan_item list"
  pn_created_by :: string

datatype plan_trigger = PLAN_MANUAL | PLAN_SCHEDULE | PLAN_API

record plan_run_item =
  ri_plan_item_id :: int
  ri_sequence_no :: int
  ri_target_type :: run_type
  ri_target_name :: string
  ri_run_id :: "string option"
  ri_status :: run_status
  ri_error_code :: "string option"

record test_plan_run =
  pr_id :: string
  pr_plan_id :: int
  pr_project_id :: int
  pr_status :: run_status
  pr_trigger_type :: plan_trigger
  pr_schedule_id :: "int option"
  pr_plan_name :: string
  pr_created_by :: string
  pr_started_at :: "datetime option"
  pr_ended_at :: "datetime option"
  pr_items :: "plan_run_item list"

section \<open>Webhooks\<close>

record webhook_endpoint =
  we_id :: int
  we_project_id :: int
  we_events :: "string list"
  we_enabled :: bool
  we_active :: bool
  we_max_attempts :: int

datatype delivery_status =
  DELIVERY_PENDING | DELIVERY_SENDING | DELIVERY_RETRY | DELIVERY_SUCCEEDED | DELIVERY_FAILED

record webhook_delivery =
  wd_id :: string
  wd_endpoint_id :: int
  wd_project_id :: int
  wd_plan_run_id :: string
  wd_event_id :: string
  wd_event_type :: string
  wd_plan_run_status :: run_status
  wd_total :: int
  wd_passed :: int
  wd_failed :: int
  wd_status :: delivery_status
  wd_attempt_count :: int
  wd_next_attempt_at :: datetime
  wd_response_status :: "int option"
  wd_last_error_code :: "string option"
  wd_last_attempt_at :: "datetime option"
  wd_completed_at :: "datetime option"

section \<open>State\<close>

record plan_db =
  pb_world :: world
  pb_catalog :: catalog
  pb_plans :: "test_plan list"
  pb_plan_runs :: "test_plan_run list"
  pb_endpoints :: "webhook_endpoint list"
  pb_deliveries :: "webhook_delivery list"

text \<open>
  An operation that commits several times leaves its earlier commits behind when it raises: it returns
  the tables in both cases.
\<close>

type_synonym 'r multi_result = "(app_error + 'r) \<times> plan_db"

text \<open>\<open>except AppError\<close> catches the exceptions of the application, not other ones.\<close>

fun is_app_error :: "app_error \<Rightarrow> bool" where
  "is_app_error (InternalError _) \<longleftrightarrow> False"
| "is_app_error _ \<longleftrightarrow> True"

definition get_plan_run :: "plan_db \<Rightarrow> string \<Rightarrow> test_plan_run option" where
  "get_plan_run s i = get_row pr_id (pb_plan_runs s) i"

definition put_plan_run :: "plan_db \<Rightarrow> test_plan_run \<Rightarrow> plan_db" where
  "put_plan_run s r = s\<lparr>pb_plan_runs := put_row pr_id r (pb_plan_runs s)\<rparr>"

definition get_plan :: "plan_db \<Rightarrow> int \<Rightarrow> test_plan option" where
  "get_plan s i = get_row pn_id (pb_plans s) i"

definition get_endpoint :: "plan_db \<Rightarrow> int \<Rightarrow> webhook_endpoint option" where
  "get_endpoint s i = get_row we_id (pb_endpoints s) i"

definition get_delivery :: "plan_db \<Rightarrow> string \<Rightarrow> webhook_delivery option" where
  "get_delivery s i = get_row wd_id (pb_deliveries s) i"

definition put_delivery :: "plan_db \<Rightarrow> webhook_delivery \<Rightarrow> plan_db" where
  "put_delivery s d = s\<lparr>pb_deliveries := put_row wd_id d (pb_deliveries s)\<rparr>"

lemma get_put_plan_run:
  "get_plan_run (put_plan_run s r) i =
     (if i = pr_id r then (case get_plan_run s i of None \<Rightarrow> None | Some _ \<Rightarrow> Some r) else get_plan_run s i)"
  by (simp add: get_plan_run_def put_plan_run_def row_table.get_put)

lemma get_put_delivery:
  "get_delivery (put_delivery s d) i =
     (if i = wd_id d then (case get_delivery s i of None \<Rightarrow> None | Some _ \<Rightarrow> Some d) else get_delivery s i)"
  by (simp add: get_delivery_def put_delivery_def row_table.get_put)

lemma get_delivery_id: "get_delivery s i = Some d \<Longrightarrow> wd_id d = i"
  by (auto simp: get_delivery_def dest: row_table.get_key)

lemma get_plan_run_id: "get_plan_run s i = Some r \<Longrightarrow> pr_id r = i"
  by (auto simp: get_plan_run_def dest: row_table.get_key)

end
