(* ===== verification/Webhooks.thy ===== *)
theory Webhooks
  imports Plan_Types
begin

text \<open>
  Delivery of webhooks about finished plan runs (\<open>ci_cd/service.py\<close>, \<open>ci_cd/coordinator.py\<close>).

  \<open>enqueue_test_plan_run_webhooks\<close> is the transactional outbox: one delivery row per endpoint and
  event. \<open>dispatch_webhook_delivery\<close> commits the attempt before it sends, so it is modelled in
  two phases, \<open>delivery_begin\<close> and \<open>delivery_finish\<close>; a crash of the sending process or an exception that
  is not a \<open>WebhookSendError\<close> leaves the row SENDING until its lease of 90 seconds has run out. The HTTP
  request is a parameter, and the clock is read once per phase.
\<close>

definition webhook_event :: string where
  "webhook_event = ''TEST_PLAN_RUN_COMPLETED''"

definition sending_lease :: int where
  "sending_lease = seconds 90"

definition plan_run_event_id :: "string \<Rightarrow> string" where
  "plan_run_event_id i = ''test-plan-run:'' @ i @ '':completed''"

definition delivery_exists :: "webhook_delivery list \<Rightarrow> int \<Rightarrow> string \<Rightarrow> bool" where
  "delivery_exists ds endpoint_id event_id \<longleftrightarrow>
     list_ex (\<lambda>d. wd_endpoint_id d = endpoint_id \<and> wd_event_id d = event_id) ds"

definition new_delivery ::
  "datetime \<Rightarrow> string \<Rightarrow> webhook_endpoint \<Rightarrow> test_plan_run \<Rightarrow> webhook_delivery" where
  "new_delivery now delivery_id endpoint plan_run =
     (let statuses = map ri_status (pr_items plan_run) in
      \<lparr>wd_id = delivery_id, wd_endpoint_id = we_id endpoint, wd_project_id = pr_project_id plan_run,
       wd_plan_run_id = pr_id plan_run, wd_event_id = plan_run_event_id (pr_id plan_run),
       wd_event_type = webhook_event, wd_plan_run_status = pr_status plan_run,
       wd_total = int (length statuses),
       wd_passed = int (length (filter (\<lambda>s. s = RUN_SUCCESS) statuses)),
       wd_failed = int (length (filter (\<lambda>s. s \<noteq> RUN_SUCCESS) statuses)),
       wd_status = DELIVERY_PENDING, wd_attempt_count = 0, wd_next_attempt_at = now,
       wd_response_status = None, wd_last_error_code = None, wd_last_attempt_at = None,
       wd_completed_at = None\<rparr>)"

fun new_deliveries ::
  "datetime \<Rightarrow> (int \<Rightarrow> string) \<Rightarrow> webhook_delivery list \<Rightarrow> test_plan_run \<Rightarrow> webhook_endpoint list
     \<Rightarrow> webhook_delivery list" where
  "new_deliveries now ids existing plan_run [] = []"
| "new_deliveries now ids existing plan_run (endpoint # rest) =
     (if webhook_event \<notin> set (we_events endpoint)
         \<or> delivery_exists existing (we_id endpoint) (plan_run_event_id (pr_id plan_run))
      then new_deliveries now ids existing plan_run rest
      else new_delivery now (ids (we_id endpoint)) endpoint plan_run
             # new_deliveries now ids existing plan_run rest)"

text \<open>\<open>ids\<close> is the fresh delivery identifier (\<open>uuid4\<close>) for each endpoint.\<close>

definition enqueue_test_plan_run_webhooks ::
  "datetime \<Rightarrow> (int \<Rightarrow> string) \<Rightarrow> plan_db \<Rightarrow> test_plan_run \<Rightarrow> plan_db" where
  "enqueue_test_plan_run_webhooks now ids s plan_run =
     (if pr_status plan_run \<notin> {RUN_SUCCESS, RUN_FAILED, RUN_CANCELLED, RUN_TIMEOUT} then s
      else
        (let endpoints = filter (\<lambda>e. we_project_id e = pr_project_id plan_run \<and> we_active e \<and> we_enabled e)
                           (pb_endpoints s);
             created = new_deliveries now ids (pb_deliveries s) plan_run endpoints
         in s\<lparr>pb_deliveries := pb_deliveries s @ created\<rparr>))"

section \<open>Sending\<close>

datatype send_outcome =
    SendResponse int  \<comment> \<open>HTTP status\<close>
  | SendError string bool  \<comment> \<open>code and whether it may be retried\<close>

datatype delivery_progress =
    DeliveryReturn webhook_delivery
  | DeliverySend webhook_delivery webhook_endpoint

definition stale_sending :: "datetime \<Rightarrow> webhook_delivery \<Rightarrow> bool" where
  "stale_sending now d \<longleftrightarrow> wd_status d = DELIVERY_SENDING
     \<and> (case wd_last_attempt_at d of None \<Rightarrow> False | Some t \<Rightarrow> t \<le> now - sending_lease)"

definition delivery_begin :: "datetime \<Rightarrow> plan_db \<Rightarrow> string \<Rightarrow> app_error + delivery_progress \<times> plan_db" where
  "delivery_begin now s delivery_id =
     (case get_delivery s delivery_id of
        None \<Rightarrow> Inl (ResourceNotFoundError ''webhook delivery'')
      | Some delivery \<Rightarrow>
          (let d = (if stale_sending now delivery then delivery\<lparr>wd_status := DELIVERY_RETRY\<rparr> else delivery) in
           if (wd_status d \<noteq> DELIVERY_PENDING \<and> wd_status d \<noteq> DELIVERY_RETRY) \<or> wd_next_attempt_at d > now
           then Inr (DeliveryReturn d, s)
           else
             (case get_endpoint s (wd_endpoint_id d) of
                Some endpoint \<Rightarrow>
                  if \<not> we_active endpoint \<or> \<not> we_enabled endpoint
                  then (let d' = d\<lparr>wd_status := DELIVERY_FAILED, wd_last_error_code := Some ''WEBHOOK_DISABLED'',
                                    wd_completed_at := Some now\<rparr>
                        in Inr (DeliveryReturn d', put_delivery s d'))
                  else (let d' = d\<lparr>wd_status := DELIVERY_SENDING, wd_attempt_count := wd_attempt_count d + 1,
                                    wd_last_attempt_at := Some now\<rparr>
                        in Inr (DeliverySend d' endpoint, put_delivery s d'))
              | None \<Rightarrow>
                  (let d' = d\<lparr>wd_status := DELIVERY_FAILED, wd_last_error_code := Some ''WEBHOOK_DISABLED'',
                               wd_completed_at := Some now\<rparr>
                   in Inr (DeliveryReturn d', put_delivery s d')))))"

definition retry_delay :: "int \<Rightarrow> int" where
  "retry_delay attempt_count =
     (if 1 \<le> attempt_count then min (seconds 900) (seconds 30 * 2 ^ nat (attempt_count - 1))
      else seconds 30 div 2 ^ nat (1 - attempt_count))"

definition send_error :: "send_outcome \<Rightarrow> (string \<times> bool) option" where
  "send_error outcome =
     (case outcome of
        SendResponse code \<Rightarrow>
          if 200 \<le> code \<and> code < 300 then None
          else Some (''WEBHOOK_HTTP_ERROR'', code \<ge> 500 \<or> code = 429)
      | SendError code retryable \<Rightarrow> Some (code, retryable))"

definition delivery_finish ::
  "datetime \<Rightarrow> plan_db \<Rightarrow> string \<Rightarrow> send_outcome \<Rightarrow> app_error + webhook_delivery \<times> plan_db" where
  "delivery_finish now s delivery_id outcome =
     (case get_delivery s delivery_id of
        None \<Rightarrow> Inl (InternalError ''AssertionError'')
      | Some delivery \<Rightarrow>
          (case get_endpoint s (wd_endpoint_id delivery) of
             None \<Rightarrow> Inl (InternalError ''AssertionError'')
           | Some endpoint \<Rightarrow>
               (let d = delivery\<lparr>wd_response_status := (case outcome of SendResponse c \<Rightarrow> Some c | _ \<Rightarrow> None)\<rparr>;
                    d' = (case send_error outcome of
                            None \<Rightarrow> d\<lparr>wd_status := DELIVERY_SUCCEEDED, wd_last_error_code := None,
                                      wd_completed_at := Some now\<rparr>
                          | Some (code, retryable) \<Rightarrow>
                              if retryable \<and> wd_attempt_count d < we_max_attempts endpoint
                              then d\<lparr>wd_status := DELIVERY_RETRY, wd_last_error_code := Some code,
                                     wd_next_attempt_at := now + retry_delay (wd_attempt_count d)\<rparr>
                              else d\<lparr>wd_status := DELIVERY_FAILED, wd_last_error_code := Some code,
                                     wd_completed_at := Some now\<rparr>)
                in Inr (d', put_delivery s d'))))"

text \<open>\<open>send\<close> is the HTTP request; \<open>None\<close> is an exception other than \<open>WebhookSendError\<close>.\<close>

definition dispatch_webhook_delivery ::
  "datetime \<Rightarrow> datetime \<Rightarrow> (webhook_delivery \<Rightarrow> webhook_endpoint \<Rightarrow> send_outcome option) \<Rightarrow> plan_db \<Rightarrow> string
     \<Rightarrow> webhook_delivery multi_result" where
  "dispatch_webhook_delivery now later send s delivery_id =
     (case delivery_begin now s delivery_id of
        Inl err \<Rightarrow> (Inl err, s)
      | Inr (DeliveryReturn d, s1) \<Rightarrow> (Inr d, s1)
      | Inr (DeliverySend d endpoint, s1) \<Rightarrow>
          (case send d endpoint of
             None \<Rightarrow> (Inl (InternalError ''sender''), s1)
           | Some outcome \<Rightarrow>
               (case delivery_finish later s1 delivery_id outcome of
                  Inl err \<Rightarrow> (Inl err, s1)
                | Inr (d', s2) \<Rightarrow> (Inr d', s2))))"

definition retry_webhook_delivery ::
  "datetime \<Rightarrow> plan_db \<Rightarrow> current_user \<Rightarrow> string \<Rightarrow> app_error + plan_db" where
  "retry_webhook_delivery now s user delivery_id =
     (case get_delivery s delivery_id of
        None \<Rightarrow> Inl (ResourceNotFoundError ''webhook delivery'')
      | Some delivery \<Rightarrow>
          res_bind (get_project (w_db (pb_world s)) user (wd_project_id delivery)) (\<lambda>project.
          res_bind (ensure_project_writable (w_db (pb_world s)) project user) (\<lambda>_.
          if wd_status delivery \<noteq> DELIVERY_FAILED
          then Inl (ResourceConflictError ''only failed deliveries can be retried'')
          else Inr (put_delivery s (delivery\<lparr>wd_status := DELIVERY_PENDING, wd_attempt_count := 0,
                 wd_next_attempt_at := now, wd_completed_at := None, wd_response_status := None,
                 wd_last_error_code := None, wd_last_attempt_at := None\<rparr>)))))"

text \<open>The deliveries a round of the coordinator picks up.\<close>

definition due_deliveries :: "datetime \<Rightarrow> plan_db \<Rightarrow> string list" where
  "due_deliveries due_at s =
     map wd_id (take 100 (sort_key (\<lambda>d. (wd_next_attempt_at d, wd_id d))
       (filter (\<lambda>d. ((wd_status d = DELIVERY_PENDING \<or> wd_status d = DELIVERY_RETRY) \<and> wd_next_attempt_at d \<le> due_at)
                    \<or> stale_sending due_at d) (pb_deliveries s))))"

end
