(* ===== verification/Test_Plans.thy ===== *)
theory Test_Plans
  imports Webhooks
begin

text \<open>
  \<open>test_plans/service.py\<close>: plans that pin test content, and plan runs that create, dispatch and cancel
  one Run per enabled item through the Run services.

  Operations on plan rows are single transactions. Starting, cancelling and re-dispatching a plan run
  commit after every item and catch the application errors of one item, so they return the tables
  also when they raise. \<open>item_env\<close> holds what the calls for one item see: the environments of
  \<open>create_run\<close> and \<open>dispatch_run\<close> and the identifiers they generate. \<open>resolve\<close> are the target validators
  of \<open>validate_run_request\<close>, as in the theory of Run creation. \<open>_refresh_plan_run\<close> derives the status
  of a plan run from the Runs of its items.
\<close>

record item_env =
  ie_create :: env
  ie_dispatch :: env
  ie_ids :: new_ids
  ie_message_id :: string

definition environment_ok :: "catalog \<Rightarrow> int \<Rightarrow> int \<Rightarrow> bool" where
  "environment_ok c project_id environment_id \<longleftrightarrow>
     (case get_row ei_id (cg_environments c) environment_id of
        None \<Rightarrow> False | Some e \<Rightarrow> ei_project_id e = project_id \<and> ei_enabled e)"

definition load_plan :: "plan_db \<Rightarrow> current_user \<Rightarrow> int \<Rightarrow> app_error + test_plan" where
  "load_plan s user plan_id =
     res_bind (option_to_res (ResourceNotFoundError ''test plan'') (get_plan s plan_id)) (\<lambda>plan.
     res_bind (get_project (w_db (pb_world s)) user (pn_project_id plan)) (\<lambda>_. Inr plan))"

section \<open>Plans\<close>

record plan_item_input =
  ii_target_type :: run_type
  ii_case_id :: "int option"
  ii_case_version_id :: "int option"
  ii_scenario_id :: "int option"
  ii_scenario_version_id :: "int option"
  ii_web_case_id :: "int option"
  ii_web_case_version_id :: "int option"
  ii_enabled :: bool

record plan_write =
  pw_project_id :: int
  pw_name :: string
  pw_environment_id :: int
  pw_runner_id :: string
  pw_runtime_variables :: "(string \<times> json) list"
  pw_items :: "plan_item_input list"

text \<open>The target and the version an item pins: \<open>item.version_id or target.current_version_id\<close>.\<close>

definition pin_target ::
  "target_row list \<Rightarrow> version_row list \<Rightarrow> (target_row \<Rightarrow> bool) \<Rightarrow> (version_row \<Rightarrow> bool)
     \<Rightarrow> int option \<Rightarrow> int option \<Rightarrow> app_error + target_row \<times> version_row" where
  "pin_target targets versions target_ok version_ok target_id version_id =
     (let conflict = Inl (ResourceConflictError ''item not executable'') in
      case Option.bind target_id (get_row ct_id targets) of
        None \<Rightarrow> conflict
      | Some target \<Rightarrow>
          if \<not> target_ok target then conflict
          else
            (case Option.bind (if version_id = None then ct_current_version_id target else version_id)
                    (get_row cv_id versions) of
               None \<Rightarrow> conflict
             | Some version \<Rightarrow>
                 if cv_target_id version \<noteq> ct_id target \<or> \<not> version_ok version then conflict
                 else Inr (target, version)))"

definition pin_item ::
  "catalog \<Rightarrow> int \<Rightarrow> int \<Rightarrow> plan_item_input \<Rightarrow> int \<Rightarrow> app_error + test_plan_item" where
  "pin_item c project_id item_id item sequence_no =
     (let mk = (\<lambda>name a b d f g h.
            \<lparr>pi_id = item_id, pi_sequence_no = sequence_no, pi_target_type = ii_target_type item,
             pi_target_name = name, pi_case_id = a, pi_case_version_id = b, pi_scenario_id = d,
             pi_scenario_version_id = f, pi_web_case_id = g, pi_web_case_version_id = h,
             pi_enabled = ii_enabled item\<rparr>)
      in case ii_target_type item of
           API_CASE \<Rightarrow>
             res_bind (pin_target (cg_cases c) (cg_case_versions c)
                 (\<lambda>t. ct_project_id t = project_id \<and> ct_status t = ''ACTIVE'' \<and> ct_case_type t = ''API'')
                 (\<lambda>_. True) (ii_case_id item) (ii_case_version_id item)) (\<lambda>(t, v).
             Inr (mk (ct_name t) (Some (ct_id t)) (Some (cv_id v)) None None None None))
         | SCENARIO \<Rightarrow>
             res_bind (pin_target (cg_scenarios c) (cg_scenario_versions c)
                 (\<lambda>t. ct_project_id t = project_id \<and> ct_status t \<noteq> ''ARCHIVED'')
                 (\<lambda>_. True) (ii_scenario_id item) (ii_scenario_version_id item)) (\<lambda>(t, v).
             Inr (mk (ct_name t) None None (Some (ct_id t)) (Some (cv_id v)) None None))
         | WEB_CASE \<Rightarrow>
             res_bind (pin_target (cg_web_cases c) (cg_web_case_versions c)
                 (\<lambda>t. ct_project_id t = project_id \<and> ct_status t = ''APPROVED'')
                 (\<lambda>v. cv_status v = ''APPROVED'') (ii_web_case_id item) (ii_web_case_version_id item)) (\<lambda>(t, v).
             Inr (mk (ct_name t) None None None None (Some (ct_id t)) (Some (cv_id v)))))"

definition pin_items ::
  "catalog \<Rightarrow> int \<Rightarrow> int \<Rightarrow> plan_item_input list \<Rightarrow> app_error + test_plan_item list" where
  "pin_items c project_id first_item_id items =
     res_map (\<lambda>(k, item). pin_item c project_id (first_item_id + int k) item (int k + 1))
       (zip [0..<length items] items)"

definition validate_plan_config :: "plan_db \<Rightarrow> current_user \<Rightarrow> plan_write \<Rightarrow> app_error + unit" where
  "validate_plan_config s user payload =
     (let db = w_db (pb_world s) in
      res_bind (get_project db user (pw_project_id payload)) (\<lambda>project.
      res_bind (ensure_project_writable db project user) (\<lambda>_.
      if pj_status project = PROJECT_ARCHIVED then Inl (ResourceConflictError ''project archived'')
      else if \<not> environment_ok (pb_catalog s) (pw_project_id payload) (pw_environment_id payload)
      then Inl (ResourceConflictError ''environment not usable'')
      else case get_runner (pb_world s) (pw_runner_id payload) of
             None \<Rightarrow> Inl (ResourceConflictError ''runner not usable'')
           | Some runner \<Rightarrow>
               if rn_status runner \<noteq> RUNNER_ACTIVE then Inl (ResourceConflictError ''runner not usable'')
               else Inr ())))"

definition create_test_plan ::
  "plan_db \<Rightarrow> current_user \<Rightarrow> int \<Rightarrow> int \<Rightarrow> plan_write \<Rightarrow> app_error + test_plan \<times> plan_db" where
  "create_test_plan s user plan_id first_item_id payload =
     res_bind (validate_plan_config s user payload) (\<lambda>_.
     res_bind (pin_items (pb_catalog s) (pw_project_id payload) first_item_id (pw_items payload)) (\<lambda>items.
     if get_plan s plan_id \<noteq> None then Inl (ResourceConflictError ''test plan conflict'')
     else
       (let plan = \<lparr>pn_id = plan_id, pn_project_id = pw_project_id payload, pn_name = pw_name payload,
                    pn_environment_id = pw_environment_id payload, pn_runner_id = pw_runner_id payload,
                    pn_runtime_variables = pw_runtime_variables payload, pn_status = PLAN_ACTIVE,
                    pn_items = items, pn_created_by = cu_id user\<rparr>
        in Inr (plan, s\<lparr>pb_plans := pb_plans s @ [plan]\<rparr>))))"

definition update_test_plan ::
  "plan_db \<Rightarrow> current_user \<Rightarrow> int \<Rightarrow> int \<Rightarrow> plan_write \<Rightarrow> app_error + test_plan \<times> plan_db" where
  "update_test_plan s user plan_id first_item_id payload =
     res_bind (load_plan s user plan_id) (\<lambda>plan.
     if pn_project_id plan \<noteq> pw_project_id payload
     then Inl (ResourceConflictError ''plan cannot move to another project'')
     else
       res_bind (validate_plan_config s user payload) (\<lambda>_.
       if pn_status plan \<noteq> PLAN_ACTIVE then Inl (ResourceConflictError ''plan archived'')
       else
         res_bind (pin_items (pb_catalog s) (pw_project_id payload) first_item_id (pw_items payload)) (\<lambda>items.
         let plan' = plan\<lparr>pn_name := pw_name payload, pn_environment_id := pw_environment_id payload,
                           pn_runner_id := pw_runner_id payload,
                           pn_runtime_variables := pw_runtime_variables payload, pn_items := items\<rparr>
         in Inr (plan', s\<lparr>pb_plans := put_row pn_id plan' (pb_plans s)\<rparr>))))"

definition set_test_plan_status ::
  "plan_db \<Rightarrow> current_user \<Rightarrow> int \<Rightarrow> plan_status \<Rightarrow> app_error + test_plan \<times> plan_db" where
  "set_test_plan_status s user plan_id status =
     res_bind (load_plan s user plan_id) (\<lambda>plan.
     res_bind (get_project (w_db (pb_world s)) user (pn_project_id plan)) (\<lambda>project.
     res_bind (ensure_project_writable (w_db (pb_world s)) project user) (\<lambda>_.
     let plan' = plan\<lparr>pn_status := status\<rparr>
     in Inr (plan', s\<lparr>pb_plans := put_row pn_id plan' (pb_plans s)\<rparr>))))"

section \<open>Status of a plan run\<close>

definition refresh_item :: "world \<Rightarrow> plan_run_item \<Rightarrow> plan_run_item" where
  "refresh_item w item =
     (case Option.bind (ri_run_id item) (get_run w) of
        None \<Rightarrow> item | Some run \<Rightarrow> item\<lparr>ri_status := tr_status run\<rparr>)"

definition active_run_status :: "run_status \<Rightarrow> bool" where
  "active_run_status st \<longleftrightarrow> st = RUN_ASSIGNED \<or> st = RUN_RUNNING \<or> st = RUN_CANCELLING"

definition aggregate_status :: "run_status list \<Rightarrow> run_status" where
  "aggregate_status statuses =
     (if statuses \<noteq> [] \<and> list_all (\<lambda>st. st = RUN_SUCCESS) statuses then RUN_SUCCESS
      else if statuses \<noteq> [] \<and> list_all (\<lambda>st. st = RUN_CANCELLED) statuses then RUN_CANCELLED
      else if statuses \<noteq> [] \<and> list_all (\<lambda>st. st = RUN_TIMEOUT) statuses then RUN_TIMEOUT
      else if list_all terminal_run_status statuses then RUN_FAILED
      else if list_ex active_run_status statuses then RUN_RUNNING
      else if list_ex (\<lambda>st. st = RUN_QUEUED) statuses then RUN_QUEUED
      else RUN_CREATED)"

record plan_run_response =
  px_id :: string
  px_status :: run_status
  px_total :: int
  px_passed :: int
  px_failed :: int
  px_running :: int
  px_pending :: int
  px_items :: "plan_run_item list"

definition count_if :: "('a \<Rightarrow> bool) \<Rightarrow> 'a list \<Rightarrow> int" where
  "count_if P xs = int (length (filter P xs))"

definition refresh_plan_run ::
  "datetime \<Rightarrow> (int \<Rightarrow> string) \<Rightarrow> plan_db \<Rightarrow> test_plan_run \<Rightarrow> plan_run_response \<times> plan_db" where
  "refresh_plan_run now ids s plan_run =
     (let items = map (refresh_item (pb_world s)) (pr_items plan_run);
          statuses = map ri_status items;
          terminal = list_all terminal_run_status statuses;
          aggregate = aggregate_status statuses;
          plan_run' = plan_run\<lparr>pr_items := items, pr_status := aggregate,
             pr_ended_at := (if terminal \<and> pr_ended_at plan_run = None then Some now
                             else pr_ended_at plan_run)\<rparr>;
          s1 = put_plan_run s plan_run';
          s2 = (if terminal then enqueue_test_plan_run_webhooks now ids s1 plan_run' else s1)
      in (\<lparr>px_id = pr_id plan_run, px_status = aggregate, px_total = int (length statuses),
           px_passed = count_if (\<lambda>st. st = RUN_SUCCESS) statuses,
           px_failed = count_if (\<lambda>st. terminal_run_status st \<and> st \<noteq> RUN_SUCCESS) statuses,
           px_running = count_if active_run_status statuses,
           px_pending = count_if (\<lambda>st. st = RUN_CREATED \<or> st = RUN_QUEUED) statuses,
           px_items = items\<rparr>, s2))"

definition load_plan_run :: "plan_db \<Rightarrow> current_user \<Rightarrow> string \<Rightarrow> app_error + test_plan_run" where
  "load_plan_run s user plan_run_id =
     res_bind (option_to_res (ResourceNotFoundError ''test plan run'') (get_plan_run s plan_run_id)) (\<lambda>r.
     res_bind (get_project (w_db (pb_world s)) user (pr_project_id r)) (\<lambda>_. Inr r))"

definition get_test_plan_run ::
  "datetime \<Rightarrow> (int \<Rightarrow> string) \<Rightarrow> plan_db \<Rightarrow> current_user \<Rightarrow> string \<Rightarrow> app_error + plan_run_response \<times> plan_db" where
  "get_test_plan_run now ids s user plan_run_id =
     res_bind (load_plan_run s user plan_run_id) (\<lambda>r. Inr (refresh_plan_run now ids s r))"

definition refresh_test_plan_run_state ::
  "datetime \<Rightarrow> (int \<Rightarrow> string) \<Rightarrow> plan_db \<Rightarrow> string \<Rightarrow> app_error + plan_run_response \<times> plan_db" where
  "refresh_test_plan_run_state now ids s plan_run_id =
     (case get_plan_run s plan_run_id of
        None \<Rightarrow> Inl (ResourceNotFoundError ''test plan run'')
      | Some r \<Rightarrow> Inr (refresh_plan_run now ids s r))"

section \<open>Starting a plan\<close>

definition item_run_payload :: "test_plan \<Rightarrow> test_plan_item \<Rightarrow> run_create_request" where
  "item_run_payload plan item =
     \<lparr>rq_project_id = pn_project_id plan, rq_environment_id = pn_environment_id plan,
      rq_runner_id = pn_runner_id plan, rq_run_type = pi_target_type item,
      rq_case_id = pi_case_id item, rq_case_version_id = pi_case_version_id item,
      rq_scenario_id = pi_scenario_id item, rq_scenario_version_id = pi_scenario_version_id item,
      rq_web_case_id = pi_web_case_id item, rq_web_case_version_id = pi_web_case_version_id item,
      rq_trigger_type = TRIGGER_SYSTEM, rq_required_capabilities = [], rq_required_tags = [],
      rq_required_slot_type = (if pi_target_type item = WEB_CASE then SLOT_WEB else SLOT_API),
      rq_required_slot_count = 1, rq_total_timeout_ms = None,
      rq_runtime_variables = pn_runtime_variables plan\<rparr>"

definition validate_test_plan ::
  "env \<Rightarrow> resolver \<Rightarrow> plan_db \<Rightarrow> current_user \<Rightarrow> int
     \<Rightarrow> app_error + (test_plan_item \<times> run_validation_issue list) list" where
  "validate_test_plan e resolve s user plan_id =
     res_bind (load_plan s user plan_id) (\<lambda>plan.
     res_bind (res_map (\<lambda>item.
         res_bind (validate_run_request e (environment_ok (pb_catalog s)) resolve (pb_world s) user
                    (item_run_payload plan item)) (\<lambda>(issues, _, _). Inr (item, issues)))
       (filter pi_enabled (pn_items plan))) (\<lambda>results.
     if results = [] then Inl (InternalError ''ValidationError'') else Inr results))"

definition new_plan_run ::
  "datetime \<Rightarrow> current_user \<Rightarrow> test_plan \<Rightarrow> string \<Rightarrow> plan_trigger \<Rightarrow> int option \<Rightarrow> test_plan_run" where
  "new_plan_run now user plan plan_run_id trigger_type schedule_id =
     \<lparr>pr_id = plan_run_id, pr_plan_id = pn_id plan, pr_project_id = pn_project_id plan,
      pr_status = RUN_CREATED, pr_trigger_type = trigger_type, pr_schedule_id = schedule_id,
      pr_plan_name = pn_name plan, pr_created_by = cu_id user, pr_started_at = Some now,
      pr_ended_at = None,
      pr_items = map (\<lambda>item. \<lparr>ri_plan_item_id = pi_id item, ri_sequence_no = pi_sequence_no item,
                               ri_target_type = pi_target_type item, ri_target_name = pi_target_name item,
                               ri_run_id = None, ri_status = RUN_CREATED, ri_error_code = None\<rparr>)
                   (filter pi_enabled (pn_items plan))\<rparr>"

text \<open>\<open>dispatch_run\<close> with the commits it leaves behind when it raises.\<close>

definition dispatch_run_commits ::
  "env \<Rightarrow> string \<Rightarrow> world \<Rightarrow> current_user \<Rightarrow> string \<Rightarrow> (app_error + dispatch_response) \<times> world" where
  "dispatch_run_commits e message_id w user run_id =
     (case dispatch_begin e message_id False w user run_id of
        Inl err \<Rightarrow> (Inl err, w)
      | Inr (DispatchDone response, w1) \<Rightarrow> (Inr response, w1)
      | Inr (DispatchPublish routing_key payload, w1) \<Rightarrow>
          (let w2 = log_sent e routing_key payload w1 in
           case record_publish_result e w2 run_id (en_publish e routing_key payload) of
             Inl err \<Rightarrow> (Inl err, w2)
           | Inr (response, w3) \<Rightarrow> (Inr response, w3)))"

text \<open>
  One round of the loop over the items: the new item row and world, and the exception that leaves the
  loop, if any.
\<close>

definition start_plan_item ::
  "item_env \<Rightarrow> (int \<Rightarrow> int \<Rightarrow> bool) \<Rightarrow> resolver \<Rightarrow> current_user \<Rightarrow> run_create_request \<Rightarrow> plan_run_item \<Rightarrow> world
     \<Rightarrow> app_error option \<times> plan_run_item \<times> world" where
  "start_plan_item ie env_ok resolve user payload item w =
     (case create_run (ie_create ie) env_ok resolve (ie_ids ie) w user payload of
        Inl err \<Rightarrow>
          if is_app_error err
          then (None, item\<lparr>ri_status := RUN_FAILED, ri_error_code := Some (error_code err)\<rparr>, w)
          else (Some err, item, w)
      | Inr (created, w1) \<Rightarrow>
          (let item1 = item\<lparr>ri_run_id := Some (tr_id created), ri_status := tr_status created\<rparr> in
           case dispatch_run_commits (ie_dispatch ie) (ie_message_id ie) w1 user (tr_id created) of
             (Inl err, w2) \<Rightarrow>
               if is_app_error err
               then (None, item1\<lparr>ri_status := RUN_FAILED, ri_error_code := Some (error_code err)\<rparr>, w2)
               else (Some err, item1, w2)
           | (Inr response, w2) \<Rightarrow>
               (None, item1\<lparr>ri_status := dr_run_status response,
                            ri_error_code := (if dr_outbox_status response = OUTBOX_FAILED
                                              then Some ''DISPATCH_FAILED'' else ri_error_code item1)\<rparr>, w2)))"

fun start_plan_items ::
  "(int \<Rightarrow> item_env) \<Rightarrow> (int \<Rightarrow> int \<Rightarrow> bool) \<Rightarrow> resolver \<Rightarrow> current_user \<Rightarrow> test_plan
     \<Rightarrow> (test_plan_item \<times> plan_run_item) list \<Rightarrow> world \<Rightarrow> app_error option \<times> plan_run_item list \<times> world" where
  "start_plan_items ies env_ok resolve user plan [] w = (None, [], w)"
| "start_plan_items ies env_ok resolve user plan ((plan_item, item) # rest) w =
     (case start_plan_item (ies (pi_sequence_no plan_item)) env_ok resolve user
             (item_run_payload plan plan_item) item w of
        (Some err, item', w') \<Rightarrow> (Some err, item' # map snd rest, w')
      | (None, item', w') \<Rightarrow>
          (let (err, items, w'') = start_plan_items ies env_ok resolve user plan rest w'
           in (err, item' # items, w'')))"

definition start_test_plan_run ::
  "env \<Rightarrow> (int \<Rightarrow> item_env) \<Rightarrow> resolver \<Rightarrow> (int \<Rightarrow> string) \<Rightarrow> string \<Rightarrow> plan_db \<Rightarrow> current_user \<Rightarrow> int
     \<Rightarrow> plan_trigger \<Rightarrow> int option \<Rightarrow> plan_run_response multi_result" where
  "start_test_plan_run e ies resolve ids plan_run_id s user plan_id trigger_type schedule_id =
     (let db = w_db (pb_world s) in
      case (res_bind (load_plan s user plan_id) (\<lambda>plan.
            res_bind (get_project db user (pn_project_id plan)) (\<lambda>project.
            res_bind (ensure_project_writable db project user) (\<lambda>_.
            if pn_status plan \<noteq> PLAN_ACTIVE then Inl (ResourceConflictError ''plan archived'')
            else
              res_bind (validate_test_plan e resolve s user plan_id) (\<lambda>results.
              if \<not> list_all (\<lambda>(_, issues). issues = []) results
              then Inl (RunValidationError (concat (map snd results)))
              else if get_plan_run s plan_run_id \<noteq> None then Inl (InternalError ''IntegrityError'')
              else Inr plan))))) of
        Inl err \<Rightarrow> (Inl err, s)
      | Inr plan \<Rightarrow>
          (let plan_run = new_plan_run (en_now e) user plan plan_run_id trigger_type schedule_id;
               s1 = s\<lparr>pb_plan_runs := pb_plan_runs s @ [plan_run]\<rparr>;
               (err, items, w') = start_plan_items ies (environment_ok (pb_catalog s)) resolve user plan
                  (zip (filter pi_enabled (pn_items plan)) (pr_items plan_run)) (pb_world s1);
               s2 = put_plan_run (s1\<lparr>pb_world := w'\<rparr>) (plan_run\<lparr>pr_items := items\<rparr>)
           in case err of
                Some exc \<Rightarrow> (Inl exc, s2)
              | None \<Rightarrow>
                  (case get_test_plan_run (en_now e) ids s2 user plan_run_id of
                     Inl exc \<Rightarrow> (Inl exc, s2)
                   | Inr (response, s3) \<Rightarrow> (Inr response, s3))))"

section \<open>Cancelling and dispatching again\<close>

definition cancel_plan_item :: "env \<Rightarrow> current_user \<Rightarrow> plan_run_item \<Rightarrow> world
     \<Rightarrow> app_error option \<times> plan_run_item \<times> world" where
  "cancel_plan_item e user item w =
     (case Option.bind (ri_run_id item) (get_run w) of
        None \<Rightarrow> (None, item, w)
      | Some run \<Rightarrow>
          if terminal_run_status (tr_status run) then (None, item, w)
          else (case cancel_run e w user (tr_id run) of
                  Inl err \<Rightarrow>
                    if is_app_error err then (None, item\<lparr>ri_error_code := Some (error_code err)\<rparr>, w)
                    else (Some err, item, w)
                | Inr (_, w') \<Rightarrow> (None, item, w')))"

definition retry_plan_item :: "(int \<Rightarrow> item_env) \<Rightarrow> current_user \<Rightarrow> plan_run_item \<Rightarrow> world
     \<Rightarrow> app_error option \<times> plan_run_item \<times> world" where
  "retry_plan_item ies user item w =
     (case Option.bind (ri_run_id item) (get_run w) of
        None \<Rightarrow> (None, item, w)
      | Some run \<Rightarrow>
          if tr_status run \<noteq> RUN_CREATED \<and> tr_status run \<noteq> RUN_QUEUED then (None, item, w)
          else
            (let ie = ies (ri_sequence_no item) in
             case dispatch_run_commits (ie_dispatch ie) (ie_message_id ie) w user (tr_id run) of
               (Inl err, w') \<Rightarrow>
                 if is_app_error err then (None, item\<lparr>ri_error_code := Some (error_code err)\<rparr>, w')
                 else (Some err, item, w')
             | (Inr response, w') \<Rightarrow>
                 (None, item\<lparr>ri_status := dr_run_status response,
                             ri_error_code := (if dr_outbox_status response = OUTBOX_FAILED
                                               then Some ''DISPATCH_FAILED'' else None)\<rparr>, w')))"

fun item_loop ::
  "(plan_run_item \<Rightarrow> world \<Rightarrow> app_error option \<times> plan_run_item \<times> world) \<Rightarrow> plan_run_item list \<Rightarrow> world
     \<Rightarrow> app_error option \<times> plan_run_item list \<times> world" where
  "item_loop body [] w = (None, [], w)"
| "item_loop body (item # rest) w =
     (case body item w of
        (Some err, item', w') \<Rightarrow> (Some err, item' # rest, w')
      | (None, item', w') \<Rightarrow>
          (let (err, items, w'') = item_loop body rest w' in (err, item' # items, w'')))"

definition with_plan_run_items ::
  "datetime \<Rightarrow> (int \<Rightarrow> string) \<Rightarrow> (plan_run_item \<Rightarrow> world \<Rightarrow> app_error option \<times> plan_run_item \<times> world)
     \<Rightarrow> plan_db \<Rightarrow> current_user \<Rightarrow> string \<Rightarrow> plan_run_response multi_result" where
  "with_plan_run_items now ids body s user plan_run_id =
     (let db = w_db (pb_world s) in
      case res_bind (load_plan_run s user plan_run_id) (\<lambda>r.
           res_bind (get_project db user (pr_project_id r)) (\<lambda>project.
           res_bind (ensure_project_writable db project user) (\<lambda>_. Inr r))) of
        Inl err \<Rightarrow> (Inl err, s)
      | Inr r \<Rightarrow>
          (let (err, items, w') = item_loop body (pr_items r) (pb_world s);
               s1 = put_plan_run (s\<lparr>pb_world := w'\<rparr>) (r\<lparr>pr_items := items\<rparr>)
           in case err of
                Some exc \<Rightarrow> (Inl exc, s1)
              | None \<Rightarrow>
                  (case get_test_plan_run now ids s1 user plan_run_id of
                     Inl exc \<Rightarrow> (Inl exc, s1)
                   | Inr (response, s2) \<Rightarrow> (Inr response, s2))))"

definition cancel_test_plan_run ::
  "env \<Rightarrow> (int \<Rightarrow> string) \<Rightarrow> plan_db \<Rightarrow> current_user \<Rightarrow> string \<Rightarrow> plan_run_response multi_result" where
  "cancel_test_plan_run e ids s user plan_run_id =
     with_plan_run_items (en_now e) ids (cancel_plan_item e user) s user plan_run_id"

definition retry_test_plan_run_dispatch ::
  "datetime \<Rightarrow> (int \<Rightarrow> item_env) \<Rightarrow> (int \<Rightarrow> string) \<Rightarrow> plan_db \<Rightarrow> current_user \<Rightarrow> string \<Rightarrow> plan_run_response multi_result" where
  "retry_test_plan_run_dispatch now ies ids s user plan_run_id =
     with_plan_run_items now ids (retry_plan_item ies user) s user plan_run_id"

end
