(* ===== verification/Calendar_Dates.thy ===== *)
theory Calendar_Dates
  imports Prelude
begin

text \<open>
  The part of Python's \<open>datetime\<close> that the scheduler uses. A naive \<open>datetime\<close> is the number of
  microseconds since 0001-01-01T00:00, a \<open>date\<close> its proleptic Gregorian ordinal (day 1 is 0001-01-01).
  \<open>ord2ymd\<close> is the algorithm behind \<open>date.fromordinal\<close>. The lemmas show that it inverts
  \<open>ymd2ord\<close> and how far apart the days of a given month and day number are: 29 February, the rarest
  date, comes back within 2922 days.
\<close>

type_synonym date = int

definition leap_year :: "int \<Rightarrow> bool" where
  "leap_year y \<longleftrightarrow> y mod 4 = 0 \<and> (y mod 100 \<noteq> 0 \<or> y mod 400 = 0)"

definition days_before_year :: "int \<Rightarrow> int" where
  "days_before_year y = (let p = y - 1 in p * 365 + p div 4 - p div 100 + p div 400)"

definition month_lengths :: "int list" where
  "month_lengths = [31, 28, 31, 30, 31, 30, 31, 31, 30, 31, 30, 31]"

definition month_starts :: "int list" where
  "month_starts = [0, 31, 59, 90, 120, 151, 181, 212, 243, 273, 304, 334]"

definition days_in_month :: "int \<Rightarrow> int \<Rightarrow> int" where
  "days_in_month y m = month_lengths ! nat (m - 1) + (if m = 2 \<and> leap_year y then 1 else 0)"

definition days_before_month :: "int \<Rightarrow> int \<Rightarrow> int" where
  "days_before_month y m = month_starts ! nat (m - 1) + (if 2 < m \<and> leap_year y then 1 else 0)"

definition ymd2ord :: "int \<Rightarrow> int \<Rightarrow> int \<Rightarrow> date" where
  "ymd2ord y m d = days_before_year y + days_before_month y m + d"

definition month_of_day :: "bool \<Rightarrow> int \<Rightarrow> int \<times> int" where
  "month_of_day leap n =
     (let m = (n + 50) div 32;
          before = month_starts ! nat (m - 1) + (if 2 < m \<and> leap then 1 else 0)
      in if before > n
         then (m - 1, n - (before - (month_lengths ! nat (m - 2) + (if m - 1 = 2 \<and> leap then 1 else 0))) + 1)
         else (m, n - before + 1))"

definition ord2ymd :: "date \<Rightarrow> int \<times> int \<times> int" where
  "ord2ymd n0 =
     (let n = n0 - 1; n400 = n div 146097; n = n mod 146097;
          n100 = n div 36524; n = n mod 36524;
          n4 = n div 1461; n = n mod 1461;
          n1 = n div 365; n = n mod 365;
          year = n400 * 400 + 1 + n100 * 100 + n4 * 4 + n1
      in if n1 = 4 \<or> n100 = 4 then (year - 1, 12, 31)
         else (let (m, d) = month_of_day (n1 = 3 \<and> (n4 \<noteq> 24 \<or> n100 = 3)) n in (year, m, d)))"

definition date_year :: "date \<Rightarrow> int" where
  "date_year n = fst (ord2ymd n)"

definition date_month :: "date \<Rightarrow> int" where
  "date_month n = fst (snd (ord2ymd n))"

definition date_day :: "date \<Rightarrow> int" where
  "date_day n = snd (snd (ord2ymd n))"

text \<open>\<open>date.weekday\<close> (Monday is 0) and \<open>date.isoweekday\<close> (Monday is 1).\<close>

definition weekday :: "date \<Rightarrow> int" where
  "weekday n = (n + 6) mod 7"

definition isoweekday :: "date \<Rightarrow> int" where
  "isoweekday n = (if n mod 7 = 0 then 7 else n mod 7)"

definition max_date :: date where
  "max_date = 3652059"

definition day_micros :: int where
  "day_micros = 86400000000"

definition dt_date :: "datetime \<Rightarrow> date" where
  "dt_date t = t div day_micros + 1"

definition dt_time :: "datetime \<Rightarrow> int" where
  "dt_time t = t mod day_micros"

definition combine :: "date \<Rightarrow> int \<Rightarrow> datetime" where
  "combine day tm = (day - 1) * day_micros + tm"

section \<open>Ordinals and dates\<close>

lemma upto_12: "{1..12::int} = {1, 2, 3, 4, 5, 6, 7, 8, 9, 10, 11, 12}"
  by code_simp

lemma quot_rem:
  fixes r k q :: int
  assumes "0 \<le> r" "r < k"
  shows "(k * q + r) div k = q" and "(k * q + r) mod k = r"
  using assms by (simp_all add: div_mult_self4)

lemma rem_unique: "y = k * q + r \<Longrightarrow> 0 \<le> r \<Longrightarrow> r < k \<Longrightarrow> y mod k = (r::int)"
  by (simp add: quot_rem(2))

lemma quot_remE:
  fixes n k :: int
  assumes "0 < k"
  obtains q r where "n = k * q + r" "0 \<le> r" "r < k"
  using assms that[of "n div k" "n mod k"] by simp

lemma div_32_range:
  assumes "32 * q \<le> n + 50" and "n + 50 < 32 * (q + 2)"
  shows "(n + 50) div 32 = q \<or> (n + 50) div 32 = q + (1::int)"
proof -
  obtain p r where n: "n + 50 = 32 * p + r" and r: "0 \<le> r" "r < 32"
    by (rule quot_remE[of 32 "n + 50"]) simp
  have "(n + 50) div 32 = p" unfolding n by (rule quot_rem(1)[OF r])
  moreover have "32 * p < 32 * (q + 2)" "32 * q < 32 * (p + 1)" using assms n r by simp_all
  ultimately show ?thesis by auto
qed

lemmas month_tables = days_in_month_def days_before_month_def month_lengths_def month_starts_def

lemma month_of_day_eq:
  assumes "(n + 50) div 32 = q"
  shows "month_of_day leap n =
    (let before = month_starts ! nat (q - 1) + (if 2 < q \<and> leap then 1 else 0)
     in if before > n
        then (q - 1, n - (before - (month_lengths ! nat (q - 2) + (if q - 1 = 2 \<and> leap then 1 else 0))) + 1)
        else (q, n - before + 1))"
  unfolding month_of_day_def assms Let_def ..

lemma month_window:
  assumes "m \<in> {1..12}" and "1 \<le> d" "d \<le> days_in_month y m"
  shows "32 * m \<le> days_before_month y m + d - 1 + 50 \<and> days_before_month y m + d - 1 + 50 < 32 * (m + 2)
    \<and> (m = 12 \<longrightarrow> days_before_month y m + d - 1 + 50 < 32 * 12 + 32)"
  using assms unfolding upto_12
  by (elim insertE emptyE; cases "leap_year y") (simp_all add: month_tables)

lemma month_of_day_inverse:
  assumes m: "m \<in> {1..12}" and d: "1 \<le> d" "d \<le> days_in_month y m"
    and n: "n = days_before_month y m + d - 1"
  shows "month_of_day (leap_year y) n = (m, d)"
proof -
  have "(n + 50) div 32 = m \<or> (n + 50) div 32 = m + 1"
    using month_window[OF m d] unfolding n by (intro div_32_range) simp_all
  then show ?thesis
  proof
    assume "(n + 50) div 32 = m"
    from month_of_day_eq[OF this] show ?thesis using d unfolding n by (simp add: days_before_month_def)
  next
    assume q: "(n + 50) div 32 = m + 1"
    have "m \<noteq> 12"
    proof
      assume "m = 12"
      with month_window[OF m d] n have "n + 50 = 32 * 12 + (n + 50 - 384)" "0 \<le> n + 50 - 384"
        "n + 50 - 384 < 32" by simp_all
      from quot_rem(1)[OF this(2,3), of 12] q \<open>m = 12\<close> show False by simp
    qed
    with month_of_day_eq[OF q, of "leap_year y"] show ?thesis
      using m d unfolding n upto_12
      by (elim insertE emptyE; cases "leap_year y") (simp_all add: month_tables)
  qed
qed

lemma year_split:
  fixes y :: int
  obtains a b c e where "y = 400 * a + 100 * b + 4 * c + e + 1"
    and "0 \<le> b" "b < 4" "0 \<le> c" "c < 25" "0 \<le> e" "e < 4"
proof -
  obtain a r where a: "y - 1 = 400 * a + r" "0 \<le> r" "r < 400" by (rule quot_remE[of 400 "y - 1"]) simp
  obtain b s where b: "r = 100 * b + s" "0 \<le> s" "s < 100" by (rule quot_remE[of 100 r]) simp
  obtain c e where c: "s = 4 * c + e" "0 \<le> e" "e < 4" by (rule quot_remE[of 4 s]) simp
  have "0 \<le> b" "b < 4" "0 \<le> c" "c < 25" using a b c by linarith+
  with a b c that[of a b c e] show thesis by linarith
qed

lemma split_year:
  assumes y: "y = 400 * a + 100 * b + 4 * c + e + (1::int)"
    and r: "0 \<le> b" "b < 4" "0 \<le> c" "c < 25" "0 \<le> e" "e < 4"
  shows "days_before_year y = 146097 * a + 36524 * b + 1461 * c + 365 * e"
    and "leap_year y \<longleftrightarrow> e = 3 \<and> (c \<noteq> 24 \<or> b = 3)"
proof -
  have p4: "y - 1 = 4 * (100 * a + 25 * b + c) + e" and p100: "y - 1 = 100 * (4 * a + b) + (4 * c + e)"
    and p400: "y - 1 = 400 * a + (100 * b + 4 * c + e)" using y by simp_all
  have "(y - 1) div 4 = 100 * a + 25 * b + c" unfolding p4 using r by (intro quot_rem) auto
  moreover have "(y - 1) div 100 = 4 * a + b" unfolding p100 using r by (intro quot_rem) auto
  moreover have "(y - 1) div 400 = a" unfolding p400 using r by (intro quot_rem) auto
  ultimately show "days_before_year y = 146097 * a + 36524 * b + 1461 * c + 365 * e"
    unfolding days_before_year_def Let_def using y by simp
  have "y mod 4 = (if e = 3 then 0 else e + 1)"
    by (rule rem_unique[of _ 4 "100 * a + 25 * b + c + (if e = 3 then 1 else 0)"]) (use r y in auto)
  moreover have "y mod 100 = (if c = 24 \<and> e = 3 then 0 else 4 * c + e + 1)"
    by (rule rem_unique[of _ 100 "4 * a + b + (if c = 24 \<and> e = 3 then 1 else 0)"]) (use r y in auto)
  moreover have "y mod 400 = (if b = 3 \<and> c = 24 \<and> e = 3 then 0 else 100 * b + 4 * c + e + 1)"
    by (rule rem_unique[of _ 400 "a + (if b = 3 \<and> c = 24 \<and> e = 3 then 1 else 0)"]) (use r y in auto)
  ultimately show "leap_year y \<longleftrightarrow> e = 3 \<and> (c \<noteq> 24 \<or> b = 3)"
    unfolding leap_year_def using r by (auto split: if_splits)
qed

lemma day_of_year_bounds:
  assumes "m \<in> {1..12}" and "1 \<le> d" "d \<le> days_in_month y m"
  shows "0 \<le> days_before_month y m + d - 1"
    and "days_before_month y m + d \<le> 365 + (if leap_year y then 1 else 0)"
    and "days_before_month y m + d = 366 \<Longrightarrow> m = 12 \<and> d = 31 \<and> leap_year y"
  using assms unfolding upto_12
  by (auto simp: days_in_month_def days_before_month_def month_lengths_def month_starts_def split: if_splits)

lemma ord2ymd_ymd2ord:
  assumes m: "m \<in> {1..12}" and d: "1 \<le> d" "d \<le> days_in_month y m"
  shows "ord2ymd (ymd2ord y m d) = (y, m, d)"
proof -
  obtain a b c e where y: "y = 400 * a + 100 * b + 4 * c + e + 1"
    and r: "0 \<le> b" "b < 4" "0 \<le> c" "c < 25" "0 \<le> e" "e < 4"
    by (rule year_split)
  note sy = split_year[OF y r]
  define k where "k = days_before_month y m + d - 1"
  have k: "0 \<le> k" "k \<le> 365" "k = 365 \<Longrightarrow> m = 12 \<and> d = 31 \<and> leap_year y"
    using day_of_year_bounds[OF m d] unfolding k_def by (auto split: if_splits)
  have n: "ymd2ord y m d - 1 = 146097 * a + (36524 * b + (1461 * c + (365 * e + k)))"
    unfolding ymd2ord_def sy(1) k_def by simp
  have inner: "0 \<le> 36524 * b + (1461 * c + (365 * e + k))"
    "36524 * b + (1461 * c + (365 * e + k)) < 146097" using r k(1,2) by linarith+
  show ?thesis
  proof (cases "k = 365")
    case False
    then have k': "k < 365" using k(2) by simp
    then have b: "1461 * c + (365 * e + k) < 36524" "365 * e + k < 1461" using r by linarith+
    have nn: "0 \<le> 1461 * c + (365 * e + k)" "0 \<le> 365 * e + k" using r k(1) by simp_all
    have "ord2ymd (ymd2ord y m d) = (let (m, d) = month_of_day (leap_year y) k in (y, m, d))"
      unfolding ord2ymd_def n Let_def quot_rem[OF inner] quot_rem[OF nn(1) b(1)] quot_rem[OF nn(2) b(2)]
        quot_rem[OF k(1) k'] sy(2) using r y by (simp split: prod.split)
    then show ?thesis using month_of_day_inverse[OF m d k_def] by simp
  next
    case True
    then have *: "m = 12" "d = 31" "leap_year y" using k(3) by simp_all
    then have e: "e = 3" and cb: "c \<noteq> 24 \<or> b = 3" using sy(2) by simp_all
    show ?thesis
    proof (cases "c = 24")
      case c: True
      then have "36524 * b + (1461 * c + (365 * e + k)) = 36524 * 4 + 0" using cb e True by simp
      then show ?thesis unfolding ord2ymd_def n Let_def quot_rem[OF inner]
        using cb c y e * by (simp)
    next
      case False
      then have b: "1461 * c + 1460 < 36524" "0 \<le> 1461 * c + 1460" using r by linarith+
      have k1: "365 * e + k = 1460" using e True by simp
      show ?thesis unfolding ord2ymd_def n Let_def quot_rem[OF inner] unfolding k1
        quot_rem[OF b(2,1)] using quot_rem[of 1460 1461 c] y e * by simp
    qed
  qed
qed

lemma date_fields:
  assumes "m \<in> {1..12}" and "1 \<le> d" "d \<le> days_in_month y m"
  shows "date_month (ymd2ord y m d) = m" "date_day (ymd2ord y m d) = d"
  using ord2ymd_ymd2ord[OF assms] by (simp_all add: date_month_def date_day_def)

section \<open>How often a date comes back\<close>

lemma div_succ:
  fixes p k :: int
  assumes "0 < k"
  shows "(p + 1) div k = p div k + (if (p + 1) mod k = 0 then 1 else 0)"
proof -
  obtain q r where p: "p = k * q + r" "0 \<le> r" "r < k" using quot_remE[OF assms] by blast
  show ?thesis
  proof (cases "r + 1 = k")
    case True
    then have "p + 1 = k * (q + 1) + 0" using p(1) by (simp add: distrib_left)
    then show ?thesis using quot_rem[of 0 k "q + 1"] quot_rem(1)[OF p(2,3)] assms p(1) by simp
  next
    case False
    then have r: "0 \<le> r + 1" "r + 1 < k" and p1: "p + 1 = k * q + (r + 1)" using p by simp_all
    show ?thesis unfolding p1 quot_rem[OF r] unfolding p(1) quot_rem[OF p(2,3)] using p(2) by simp
  qed
qed

lemma leap_year_4: "leap_year (4 * x) \<longleftrightarrow> x mod 25 \<noteq> 0 \<or> x mod 100 = 0"
  using mod_mult_mult1[of 4 x 25] mod_mult_mult1[of 4 x 100] by (simp add: leap_year_def)

lemma days_before_year_diff:
  assumes "(y - 1 + k) div 4 = (y - 1) div 4 + a" and "(y - 1 + k) div 100 = (y - 1) div 100 + b"
    and "(y - 1 + k) div 400 = (y - 1) div 400 + c"
  shows "days_before_year (y + k) = days_before_year y + 365 * k + (a - b + c)"
proof -
  have "y + k - 1 = y - 1 + k" by simp
  then show ?thesis unfolding days_before_year_def Let_def by (simp only: assms) (simp add: algebra_simps)
qed

lemma leap_count:
  "(b \<Longrightarrow> a) \<Longrightarrow> (c \<Longrightarrow> b) \<Longrightarrow>
   (if a then 1 else 0) - (if b then 1 else 0) + (if c then 1 else 0) = (if a \<and> (\<not> b \<or> c) then 1 else (0::int))"
  by (cases a; cases b; cases c) simp_all

lemma days_before_year_Suc: "days_before_year (y + 1) = days_before_year y + 365 + (if leap_year y then 1 else 0)"
proof -
  have "y mod 4 = 0" if "y mod 100 = 0" using that mod_mod_cancel[of 4 100 y] by simp
  moreover have "y mod 100 = 0" if "y mod 400 = 0" using that mod_mod_cancel[of 100 400 y] by simp
  ultimately show ?thesis
    using days_before_year_diff[OF div_succ div_succ div_succ, of y] leap_count[of "y mod 100 = 0" "y mod 4 = 0" "y mod 400 = 0"]
    by (simp add: leap_year_def del: mod_eq_0_iff_dvd)
qed

lemma days_before_year_add:
  "0 \<le> k \<Longrightarrow> days_before_year y + 365 * k \<le> days_before_year (y + k)
     \<and> days_before_year (y + k) \<le> days_before_year y + 366 * k"
proof (induction k rule: int_ge_induct)
  case (step k)
  have "days_before_year (y + (k + 1)) = days_before_year (y + k) + 365 + (if leap_year (y + k) then 1 else 0)"
    using days_before_year_Suc[of "y + k"] by (simp add: add.assoc)
  with step show ?case by simp
qed simp

lemma quarter_le: "A \<le> B \<Longrightarrow> B div 4 - A div 4 \<le> B - (A::int)"
  by presburger

lemma eight_years: "days_before_year (y + 8) \<le> days_before_year y + 2922"
proof -
  let ?p = "y - 1"
  have "?p div 100 \<le> (?p + 8) div 100" by (rule zdiv_mono1) simp_all
  from quarter_le[OF this] have "(?p + 8) div 400 - ?p div 400 \<le> (?p + 8) div 100 - ?p div 100"
    by (simp only: div_mult2_eq'[of _ 100 4, simplified, symmetric])
  moreover have "(?p + 8) div 4 = ?p div 4 + 2" using div_mult_self2[of 4 ?p 2] by simp
  moreover have "a = b + (a - b)" for a b :: int by simp
  note days_before_year_diff[OF calculation(2) this this]
  ultimately show ?thesis by (simp only:)
qed

lemma next_leap_year:
  obtains y' where "y < y'" "y' \<le> y + 8" "leap_year y'" "leap_year y \<or> y' \<le> y + 7"
proof -
  obtain q r where y: "y = 4 * q + r" "0 \<le> r" "r < 4" by (rule quot_remE[of 4 y]) simp
  show thesis
  proof (cases "(q + 1) mod 25 = 0")
    case True
    then have "(q + 2) mod 25 \<noteq> 0" "q mod 25 \<noteq> 0" by presburger+
    then show thesis using that[of "4 * (q + 2)"] y leap_year_4[of "q + 2"] leap_year_4[of q]
      by (cases "r = 0") auto
  qed (use that[of "4 * (q + 1)"] y leap_year_4[of "q + 1"] in auto)
qed

lemma quot_remE_capped:
  fixes r k c :: int
  assumes "0 \<le> r" "r \<le> k * (c + 1)" "0 < k" "0 \<le> c"
  obtains q s where "r = k * q + s" "0 \<le> q" "q \<le> c" "0 \<le> s" "s < k \<or> q = c \<and> s = k"
proof (cases "r = k * (c + 1)")
  case True
  then show thesis using that[of c k] assms by (simp add: distrib_left)
next
  case False
  obtain q s where q: "r = k * q + s" "0 \<le> s" "s < k" using quot_remE[OF assms(3)] by blast
  then have "k * (- 1) < k * q" "k * q < k * (c + 1)" using assms(1,2) False by linarith+
  then have "- 1 < q" "q < c + 1" using assms(3) by (metis mult_less_cancel_left_pos)+
  then show thesis using that[of q s] q by simp
qed

lemma ordinal_year:
  obtains y k where "n = days_before_year y + k" "1 \<le> k" "k \<le> 365 + (if leap_year y then 1 else 0)"
proof -
  obtain a r where a: "n - 1 = 146097 * a + r" "0 \<le> r" "r < 146097" by (rule quot_remE[of 146097 "n - 1"]) simp
  obtain b s where b: "r = 36524 * b + s" "0 \<le> b" "b \<le> 3" "0 \<le> s" "s < 36524 \<or> b = 3 \<and> s = 36524"
    by (rule quot_remE_capped[of r 36524 3]) (use a in auto)
  obtain c t where c: "s = 1461 * c + t" "0 \<le> t" "t < 1461" by (rule quot_remE[of 1461 s]) simp
  obtain e k where e: "t = 365 * e + k" "0 \<le> e" "e \<le> 3" "0 \<le> k" "k < 365 \<or> e = 3 \<and> k = 365"
    by (rule quot_remE_capped[of t 365 3]) (use c in auto)
  have r: "b < 4" "e < 4" "0 \<le> c" "c < 25" using b c e by linarith+
  note y = split_year[OF refl b(2) r(1,3,4) e(2) r(2), of a]
  show thesis
  proof (rule that[of "400 * a + 100 * b + 4 * c + e + 1" "k + 1"])
    show "n = days_before_year (400 * a + 100 * b + 4 * c + e + 1) + (k + 1)"
      using y(1) a b c e by simp
    show "k + 1 \<le> 365 + (if leap_year (400 * a + 100 * b + 4 * c + e + 1) then 1 else 0)"
      unfolding y(2) using e b c by auto
  qed (use e in simp)
qed

definition longest_month :: "int \<Rightarrow> int" where
  "longest_month m = month_lengths ! nat (m - 1) + (if m = 2 then 1 else 0)"

lemma date_comes_back_yearly:
  assumes m: "m \<in> {1..12}" and d: "1 \<le> d" "d \<le> longest_month m" and no: "\<not> (m = 2 \<and> d = 29)"
  obtains y where "n \<le> ymd2ord y m d" "ymd2ord y m d < n + 732" "d \<le> days_in_month y m"
proof -
  obtain y k where n: "n = days_before_year y + k" "1 \<le> k" "k \<le> 365 + (if leap_year y then 1 else 0)"
    by (rule ordinal_year)
  have dim: "d \<le> days_in_month y' m" for y'
    using d no unfolding days_in_month_def longest_month_def by (auto simp: month_lengths_def split: if_splits)
  have b: "1 \<le> days_before_month y' m + d" "days_before_month y' m + d \<le> 366" for y'
    using day_of_year_bounds(1,2)[OF m d(1) dim[of y']] by (auto split: if_splits)
  show thesis
  proof (cases "n \<le> ymd2ord y m d")
    case True
    then show thesis using that[OF _ _ dim[of y]] b[of y] n by (simp add: ymd2ord_def)
  next
    case False
    then show thesis using that[OF _ _ dim[of "y + 1"]] b[of "y + 1"] b[of y] n days_before_year_Suc[of y]
      by (auto simp: ymd2ord_def split: if_splits)
  qed
qed

lemma date_comes_back:
  assumes m: "m \<in> {1..12}" and d: "1 \<le> d" "d \<le> longest_month m"
  obtains y where "n \<le> ymd2ord y m d" "ymd2ord y m d < n + 2922" "d \<le> days_in_month y m"
proof -
  obtain y k where n: "n = days_before_year y + k" "1 \<le> k" "k \<le> 365 + (if leap_year y then 1 else 0)"
    by (rule ordinal_year)
  show thesis
  proof (cases "m = 2 \<and> d = 29")
    case True
    have feb: "ymd2ord y' 2 29 = days_before_year y' + 60" for y'
      by (simp add: ymd2ord_def days_before_month_def month_starts_def)
    have ok: "d \<le> days_in_month y' m" if "leap_year y'" for y'
      using that True by (simp add: days_in_month_def month_lengths_def)
    show thesis
    proof (cases "leap_year y \<and> k \<le> 60")
      case True
      then show thesis using that[OF _ _ ok[of y]] n feb[of y] \<open>m = 2 \<and> d = 29\<close> by simp
    next
      case False
      obtain y' where y': "y < y'" "y' \<le> y + 8" "leap_year y'" "leap_year y \<or> y' \<le> y + 7"
        by (rule next_leap_year)
      have "days_before_year (y + 1) \<le> days_before_year y'"
        using days_before_year_add[of "y' - (y + 1)" "y + 1"] y'(1) by simp
      moreover have "days_before_year y' \<le> days_before_year (y + 8)"
        using days_before_year_add[of "y + 8 - y'" y'] y'(2) by simp
      moreover have "leap_year y \<or> days_before_year y' \<le> days_before_year y + 366 * 7"
        using days_before_year_add[of "y' - y" y] y' by auto
      ultimately show thesis
        using that[OF _ _ ok[OF y'(3)]] n False feb[of y'] eight_years[of y] days_before_year_Suc[of y]
          \<open>m = 2 \<and> d = 29\<close>
        by (cases "leap_year y") auto
    qed
  next
    case False
    show thesis by (rule date_comes_back_yearly[OF m d False, of n]) (use that in auto)
  qed
qed

lemma date_exists:
  obtains y m d where "n = ymd2ord y m d" "m \<in> {1..12}" "1 \<le> d" "d \<le> days_in_month y m"
proof -
  obtain y k where n: "n = days_before_year y + k" "1 \<le> k" "k \<le> 365 + (if leap_year y then 1 else 0)"
    by (rule ordinal_year)
  have "\<exists>m \<in> {1..12}. days_before_month y m < k \<and> k \<le> days_before_month y m + days_in_month y m"
    using n(2,3) unfolding upto_12 by (cases "leap_year y") (simp_all add: month_tables, linarith+)
  then obtain m where "m \<in> {1..12}" "days_before_month y m < k"
    "k \<le> days_before_month y m + days_in_month y m" by blast
  with that[of y m "k - days_before_month y m"] n show thesis by (simp add: ymd2ord_def)
qed

lemma date_fields_bounds:
  "date_month n \<in> {1..12}" "1 \<le> date_day n" "date_day n \<le> longest_month (date_month n)"
proof -
  obtain y m d where n: "n = ymd2ord y m d" and v: "m \<in> {1..12}" "1 \<le> d" "d \<le> days_in_month y m"
    by (rule date_exists)
  have "days_in_month y m \<le> longest_month m" by (simp add: days_in_month_def longest_month_def)
  with date_fields[OF v] n v show "date_month n \<in> {1..12}" "1 \<le> date_day n"
    "date_day n \<le> longest_month (date_month n)" by auto
qed

lemma weekday_comes_back:
  fixes n w :: int
  assumes "0 \<le> w" "w < 7"
  obtains n' where "n \<le> n'" "n' < n + 7" "n' mod 7 = w"
proof
  show "n \<le> n + (w - n) mod 7" "n + (w - n) mod 7 < n + 7" by simp_all
  show "(n + (w - n) mod 7) mod 7 = w" using assms by (simp add: mod_simps)
qed

lemma date_time_inverse [simp]:
  assumes "0 \<le> tm" "tm < day_micros"
  shows "dt_date (combine day tm) = day" "dt_time (combine day tm) = tm"
  using quot_rem[of tm day_micros "day - 1"] assms
  by (simp_all add: dt_date_def dt_time_def combine_def mult.commute)

lemma combine_date_time [simp]: "combine (dt_date t) (dt_time t) = t"
  by (simp add: combine_def dt_date_def dt_time_def)

lemma combine_less_iff:
  assumes "0 \<le> tm" "tm < day_micros" "0 \<le> tm'" "tm' < day_micros"
  shows "combine day tm < combine day' tm' \<longleftrightarrow> day < day' \<or> day = day' \<and> tm < tm'"
proof -
  have "combine day tm < combine day' tm'" if "day < day'"
  proof -
    have "day * day_micros \<le> (day' - 1) * day_micros" using that by (intro mult_right_mono) (auto simp: day_micros_def)
    then show ?thesis using assms by (simp add: combine_def left_diff_distrib)
  qed
  moreover have "combine day' tm' < combine day tm" if "day' < day"
  proof -
    have "day' * day_micros \<le> (day - 1) * day_micros" using that by (intro mult_right_mono) (auto simp: day_micros_def)
    then show ?thesis using assms by (simp add: combine_def left_diff_distrib)
  qed
  ultimately show ?thesis by (cases day day' rule: linorder_cases) (auto simp: combine_def)
qed

end
