(* ===== verification/Schedule_Calendar.thy ===== *)
theory Schedule_Calendar
  imports Calendar_Dates
begin

text \<open>
  \<open>backend/app/modules/schedules/calendar.py\<close>: parsing of daily times and five-field Cron expressions,
  and the search for the next occurrence of a schedule after a given instant.

  A time zone is the pair of conversions \<open>datetime.astimezone\<close> uses: from local wall-clock time
  (with \<open>fold = 0\<close>) to UTC and back. The zone database is data outside the repository, so it is a
  parameter \<open>zoneinfo\<close> from names to zones. A \<open>frozenset\<close> of integers is the sorted list of its elements.
\<close>

datatype schedule_error =
    ScheduleExpressionError string
  | OverflowError  \<comment> \<open>a date after 9999-12-31\<close>

record zone =
  z_to_utc :: "datetime \<Rightarrow> datetime"
  z_from_utc :: "datetime \<Rightarrow> datetime"

type_synonym zone_database = "string \<Rightarrow> zone option"

definition validate_timezone :: "zone_database \<Rightarrow> string \<Rightarrow> schedule_error + string \<times> zone" where
  "validate_timezone zoneinfo value =
     (let normalized = py_strip value in
      case zoneinfo normalized of
        None \<Rightarrow> Inl (ScheduleExpressionError ''invalid IANA time zone'')
      | Some z \<Rightarrow> Inr (normalized, z))"

section \<open>Numbers and fields\<close>

fun split_on :: "char \<Rightarrow> string \<Rightarrow> string list" where
  "split_on c [] = [[]]"
| "split_on c (x # xs) =
     (if x = c then [] # split_on c xs
      else (case split_on c xs of [] \<Rightarrow> [[x]] | w # ws \<Rightarrow> (x # w) # ws))"

text \<open>\<open>str.partition\<close> at a single character, and \<open>str.split\<close> at white space.\<close>

definition partition_at :: "char \<Rightarrow> string \<Rightarrow> string \<times> bool \<times> string" where
  "partition_at c s =
     (takeWhile (\<lambda>x. x \<noteq> c) s, c \<in> set s, drop (Suc (length (takeWhile (\<lambda>x. x \<noteq> c) s))) s)"

function split_ws :: "string \<Rightarrow> string list" where
  "split_ws s =
     (let t = dropWhile py_space s in
      if t = [] then []
      else takeWhile (\<lambda>c. \<not> py_space c) t # split_ws (dropWhile (\<lambda>c. \<not> py_space c) t))"
  by pat_completeness auto
termination
proof (relation "measure length")
  fix s t :: string
  assume t: "t = dropWhile py_space s" "t \<noteq> []"
  then have "\<not> py_space (hd t)" using hd_dropWhile by metis
  then have "length (dropWhile (\<lambda>c. \<not> py_space c) t) < length t"
    using t(2) by (cases t) (auto simp: le_imp_less_Suc length_dropWhile_le)
  also have "length t \<le> length s" unfolding t(1) by (rule length_dropWhile_le)
  finally show "(dropWhile (\<lambda>c. \<not> py_space c) t, s) \<in> measure length" by simp
qed simp

declare split_ws.simps [simp del]

text \<open>\<open>separator.join(words)\<close>\<close>

fun join_with :: "string \<Rightarrow> string list \<Rightarrow> string" where
  "join_with sep [] = []"
| "join_with sep [w] = w"
| "join_with sep (w # v # ws) = w @ sep @ join_with sep (v # ws)"

definition py_range :: "int \<Rightarrow> int \<Rightarrow> int \<Rightarrow> int list" where
  "py_range start stop step = filter (\<lambda>v. (v - start) mod step = 0) [start..stop - 1]"

definition frozenset :: "int list \<Rightarrow> int list" where
  "frozenset vs = sort (remdups vs)"

text \<open>The values one token of a field stands for.\<close>

definition parse_token ::
  "int \<Rightarrow> int \<Rightarrow> bool \<Rightarrow> string \<Rightarrow> schedule_error + int list" where
  "parse_token minimum maximum normalize_weekday token =
     (if token = [] then Inl (ScheduleExpressionError ''field format'')
      else
        (let (base, separator, step_text) = partition_at (CHR ''/'') token in
         res_bind
           (if separator
            then (case py_int step_text of
                    None \<Rightarrow> Inl (ScheduleExpressionError ''step'')
                  | Some step \<Rightarrow>
                      if step \<le> 0 \<or> step > maximum - minimum + 1
                      then Inl (ScheduleExpressionError ''step out of range'') else Inr step)
            else Inr 1) (\<lambda>step.
         res_bind
           (if base = ''*'' then Inr (minimum, maximum)
            else if CHR ''-'' \<in> set base
            then (let (start_text, _, end_text) = partition_at (CHR ''-'') base in
                  case (py_int start_text, py_int end_text) of
                    (Some a, Some b) \<Rightarrow> Inr (a, b)
                  | _ \<Rightarrow> Inl (ScheduleExpressionError ''range''))
            else (case py_int base of
                    None \<Rightarrow> Inl (ScheduleExpressionError ''value'')
                  | Some a \<Rightarrow> Inr (a, a))) (\<lambda>(start, stop).
         let allowed_maximum = (if normalize_weekday then 7 else maximum) in
         if start < minimum \<or> stop > allowed_maximum \<or> start > stop
         then Inl (ScheduleExpressionError ''value out of range'')
         else Inr (map (\<lambda>value. if normalize_weekday \<and> value = 7 then 0 else value)
                     (py_range start (stop + 1) step))))))"

definition parse_field :: "string \<Rightarrow> int \<Rightarrow> int \<Rightarrow> bool \<Rightarrow> schedule_error + int list \<times> bool" where
  "parse_field source minimum maximum normalize_weekday =
     res_bind (res_map (parse_token minimum maximum normalize_weekday) (split_on (CHR '','') source))
       (\<lambda>vss. Inr (frozenset (concat vss), source = ''*''))"

record cron_spec =
  cs_minutes :: "int list"
  cs_hours :: "int list"
  cs_days :: "int list"
  cs_months :: "int list"
  cs_weekdays :: "int list"
  cs_day_wildcard :: bool
  cs_weekday_wildcard :: bool

definition day_matches :: "cron_spec \<Rightarrow> date \<Rightarrow> bool" where
  "day_matches spec value =
     (let day_ok = date_day value \<in> set (cs_days spec);
          weekday_ok = (weekday value + 1) mod 7 \<in> set (cs_weekdays spec)
      in if cs_day_wildcard spec \<and> cs_weekday_wildcard spec then True
         else if cs_day_wildcard spec then weekday_ok
         else if cs_weekday_wildcard spec then day_ok
         else day_ok \<or> weekday_ok)"

definition parse_cron :: "string \<Rightarrow> schedule_error + cron_spec" where
  "parse_cron expression =
     (case split_on (CHR '' '') (join_with '' '' (split_ws (py_strip expression))) of
        [f0, f1, f2, f3, f4] \<Rightarrow>
          res_bind (parse_field f0 0 59 False) (\<lambda>(minutes, _).
          res_bind (parse_field f1 0 23 False) (\<lambda>(hours, _).
          res_bind (parse_field f2 1 31 False) (\<lambda>(days, day_wildcard).
          res_bind (parse_field f3 1 12 False) (\<lambda>(months, _).
          res_bind (parse_field f4 0 6 True) (\<lambda>(weekdays, weekday_wildcard).
          Inr \<lparr>cs_minutes = minutes, cs_hours = hours, cs_days = days, cs_months = months,
               cs_weekdays = weekdays, cs_day_wildcard = day_wildcard,
               cs_weekday_wildcard = weekday_wildcard\<rparr>)))))
      | _ \<Rightarrow> Inl (ScheduleExpressionError ''Cron needs five fields''))"

section \<open>The next occurrence\<close>

text \<open>A \<open>time\<close> of whole minutes, in microseconds since midnight.\<close>

definition time_of :: "int \<Rightarrow> int \<Rightarrow> int" where
  "time_of hour minute = (hour * 60 + minute) * 60000000"

text \<open>\<open>strptime(value, '%H:%M')\<close>: one or two digits each.\<close>

definition parse_time :: "string \<Rightarrow> schedule_error + int" where
  "parse_time value =
     (let (h, colon, m) = partition_at (CHR '':'') value;
          two_digits = (\<lambda>s. list_all ascii_digit s \<and> (length s = 1 \<or> length s = 2))
      in if colon \<and> two_digits h \<and> two_digits m \<and> digits_value 0 h \<le> 23 \<and> digits_value 0 m \<le> 59
         then Inr (time_of (digits_value 0 h) (digits_value 0 m))
         else Inl (ScheduleExpressionError ''HH:MM''))"

definition valid_local_candidate :: "date \<Rightarrow> int \<Rightarrow> zone \<Rightarrow> datetime option" where
  "valid_local_candidate day local_time z =
     (let utc_candidate = z_to_utc z (combine day local_time);
          round_trip = z_from_utc z utc_candidate
      in if dt_date round_trip \<noteq> day \<or> dt_time round_trip \<noteq> local_time then None
         else Some utc_candidate)"

record schedule_rule =
  sr_type :: string
  sr_timezone :: string
  sr_daily_time :: "string option"
  sr_weekdays :: "int list option"
  sr_cron_expression :: "string option"

text \<open>What the rule allows: a test on days and the times of a day, or the error of the rule.\<close>

definition rule_plan :: "schedule_rule \<Rightarrow> schedule_error + (date \<Rightarrow> bool) \<times> int list" where
  "rule_plan rule =
     (let daily_time = (case sr_daily_time rule of None \<Rightarrow> '''' | Some t \<Rightarrow> t) in
      if sr_type rule = ''DAILY'' then
        res_bind (parse_time daily_time) (\<lambda>t. Inr (\<lambda>_. True, [t]))
      else if sr_type rule = ''WEEKLY'' then
        res_bind (parse_time daily_time) (\<lambda>t.
        let allowed = (case sr_weekdays rule of None \<Rightarrow> [] | Some ws \<Rightarrow> ws) in
        if allowed = [] \<or> \<not> list_all (\<lambda>d. 1 \<le> d \<and> d \<le> 7) allowed
        then Inl (ScheduleExpressionError ''Weekly needs weekdays 1 to 7'')
        else Inr (\<lambda>day. isoweekday day \<in> set allowed, [t]))
      else if sr_type rule = ''CRON'' then
        res_bind (parse_cron (case sr_cron_expression rule of None \<Rightarrow> '''' | Some c \<Rightarrow> c)) (\<lambda>cron.
        Inr (\<lambda>day. date_month day \<in> set (cs_months cron) \<and> day_matches cron day,
             [time_of hour minute. hour \<leftarrow> cs_hours cron, minute \<leftarrow> cs_minutes cron]))
      else Inl (ScheduleExpressionError ''unsupported schedule type''))"

fun search_times :: "zone \<Rightarrow> datetime \<Rightarrow> date \<Rightarrow> int list \<Rightarrow> datetime option" where
  "search_times z after_utc day [] = None"
| "search_times z after_utc day (local_time # local_times) =
     (case valid_local_candidate day local_time z of
        Some candidate \<Rightarrow>
          if candidate > after_utc then Some candidate else search_times z after_utc day local_times
      | None \<Rightarrow> search_times z after_utc day local_times)"

fun search_days ::
  "zone \<Rightarrow> datetime \<Rightarrow> (date \<Rightarrow> bool) \<Rightarrow> int list \<Rightarrow> date \<Rightarrow> nat \<Rightarrow> schedule_error + datetime" where
  "search_days z after_utc day_ok local_times day 0 = Inl (ScheduleExpressionError ''no occurrence in 8 years'')"
| "search_days z after_utc day_ok local_times day (Suc n) =
     (if day > max_date then Inl OverflowError
      else if \<not> day_ok day then search_days z after_utc day_ok local_times (day + 1) n
      else (case search_times z after_utc day local_times of
              Some candidate \<Rightarrow> Inr candidate
            | None \<Rightarrow> search_days z after_utc day_ok local_times (day + 1) n))"

definition search_horizon :: nat where
  "search_horizon = 366 * 8"

definition next_occurrence ::
  "zone_database \<Rightarrow> schedule_rule \<Rightarrow> datetime \<Rightarrow> schedule_error + datetime" where
  "next_occurrence zoneinfo rule after_utc =
     res_bind (validate_timezone zoneinfo (sr_timezone rule)) (\<lambda>(_, z).
     res_bind (rule_plan rule) (\<lambda>(day_ok, local_times).
     search_days z after_utc day_ok local_times (dt_date (z_from_utc z after_utc)) search_horizon))"

section \<open>Parsed fields are well formed\<close>

definition field_ok :: "int \<Rightarrow> int \<Rightarrow> int list \<Rightarrow> bool" where
  "field_ok lo hi vs \<longleftrightarrow> vs \<noteq> [] \<and> sorted vs \<and> distinct vs \<and> list_all (\<lambda>v. lo \<le> v \<and> v \<le> hi) vs"

definition cron_ok :: "cron_spec \<Rightarrow> bool" where
  "cron_ok c \<longleftrightarrow> field_ok 0 59 (cs_minutes c) \<and> field_ok 0 23 (cs_hours c) \<and> field_ok 1 31 (cs_days c)
     \<and> field_ok 1 12 (cs_months c) \<and> field_ok 0 6 (cs_weekdays c)"

lemma frozenset_simps [simp]: "set (frozenset vs) = set vs" "sorted (frozenset vs)" "distinct (frozenset vs)"
  by (simp_all add: frozenset_def)

lemma py_range_bounds: "v \<in> set (py_range a b s) \<Longrightarrow> a \<le> v \<and> v < b"
  by (simp add: py_range_def)

lemma py_range_start: "a < b \<Longrightarrow> a \<in> set (py_range a b s)"
  by (simp add: py_range_def)

lemma parse_token_bounds:
  assumes "parse_token lo hi w tok = Inr vs" and "w \<Longrightarrow> lo = 0 \<and> hi = 6"
  shows "vs \<noteq> [] \<and> (\<forall>v \<in> set vs. lo \<le> v \<and> v \<le> hi)"
proof -
  obtain a b step where ab: "\<not> (a < lo \<or> b > (if w then 7 else hi) \<or> a > b)"
    and vs: "vs = map (\<lambda>v. if w \<and> v = 7 then 0 else v) (py_range a (b + 1) step)"
    using assms(1) unfolding parse_token_def
    by (auto simp: res_simps Let_def split: if_splits prod.splits)
  have "a \<in> set (py_range a (b + 1) step)" using ab by (simp add: py_range_start)
  then have "vs \<noteq> []" unfolding vs by auto
  moreover have "lo \<le> v \<and> v \<le> hi" if "v \<in> set vs" for v
    using that assms(2) ab py_range_bounds unfolding vs by (cases w) (fastforce split: if_splits)+
  ultimately show ?thesis by blast
qed

lemma split_on_not_Nil: "split_on c s \<noteq> []"
  by (induction s) (auto split: list.splits)

lemma parse_field_ok:
  assumes "parse_field src lo hi w = Inr (vs, wild)" and "w \<Longrightarrow> lo = 0 \<and> hi = 6"
  shows "field_ok lo hi vs"
proof -
  obtain vss where vss: "res_map (parse_token lo hi w) (split_on (CHR '','') src) = Inr vss"
    and vs: "vs = frozenset (concat vss)"
    using assms(1) by (auto simp: parse_field_def res_simps)
  have ok: "ws \<noteq> [] \<and> (\<forall>v \<in> set ws. lo \<le> v \<and> v \<le> hi)" if "ws \<in> set vss" for ws
    using res_map_set[OF vss that] parse_token_bounds assms(2) by blast
  have "vss \<noteq> []" using res_map_length[OF vss] split_on_not_Nil by fastforce
  then obtain ws where "ws \<in> set vss" "ws \<noteq> []" using ok by (cases vss) auto
  then have "set (concat vss) \<noteq> {}" by force
  then have "vs \<noteq> []" unfolding vs by (metis frozenset_simps(1) set_empty)
  with ok show ?thesis unfolding field_ok_def vs by (auto simp: list_all_iff)
qed

lemma parse_cron_cron_ok:
  assumes "parse_cron e = Inr c"
  shows "cron_ok c"
  using assms parse_field_ok unfolding parse_cron_def cron_ok_def
  by (auto simp: res_simps split: list.splits prod.splits)

section \<open>The times of a day\<close>

definition times_ok :: "int list \<Rightarrow> bool" where
  "times_ok ts \<longleftrightarrow> ts \<noteq> [] \<and> sorted ts \<and> list_all (\<lambda>t. 0 \<le> t \<and> t < day_micros) ts"

lemma time_of_bounds: "0 \<le> h \<Longrightarrow> h \<le> 23 \<Longrightarrow> 0 \<le> m \<Longrightarrow> m \<le> 59 \<Longrightarrow> 0 \<le> time_of h m \<and> time_of h m < day_micros"
  by (simp add: time_of_def day_micros_def)

lemma sorted_times:
  assumes "sorted_wrt (<) hs" and "sorted ms" and "list_all (\<lambda>m. 0 \<le> m \<and> m \<le> 59) ms"
  shows "sorted (concat (map (\<lambda>h. map (time_of h) ms) hs))"
  using assms(1)
proof (induction hs)
  case (Cons h hs)
  have "sorted (map (time_of h) ms)" using assms(2) by (induction ms) (auto simp: time_of_def)
  moreover have "time_of h m \<le> time_of h' m'" if "m \<in> set ms" "h' \<in> set hs" "m' \<in> set ms" for m h' m'
  proof -
    have "h + 1 \<le> h'" using that(2) Cons.prems by fastforce
    moreover have "m \<le> 59" "0 \<le> m'" using that assms(3) by (auto simp: list_all_iff)
    ultimately have "h * 60 + m \<le> h' * 60 + m'" by linarith
    then show ?thesis by (simp add: time_of_def)
  qed
  ultimately show ?case using Cons by (auto simp: sorted_append)
qed simp

lemma sorted_distinct_strict: "sorted vs \<Longrightarrow> distinct vs \<Longrightarrow> sorted_wrt (<) (vs :: int list)"
  by (simp add: strict_sorted_iff)

lemma digits_value_nonneg: "0 \<le> acc \<Longrightarrow> list_all ascii_digit ds \<Longrightarrow> 0 \<le> digits_value acc ds"
  by (induction ds arbitrary: acc) (auto simp: digit_value_def ascii_digit_def Let_def)

lemma parse_time_ok: "parse_time s = Inr t \<Longrightarrow> times_ok [t]"
  by (auto simp: parse_time_def times_ok_def Let_def split: if_splits prod.splits
      intro: time_of_bounds[THEN conjunct1] time_of_bounds[THEN conjunct2] digits_value_nonneg)

lemma rule_plan_cases:
  assumes "rule_plan rule = Inr (day_ok, ts)"
  obtains (daily) t where "sr_type rule = ''DAILY''" "ts = [t]" "times_ok [t]" "day_ok = (\<lambda>_. True)"
  | (weekly) t ws where "sr_type rule = ''WEEKLY''" "ts = [t]" "times_ok [t]" "ws \<noteq> []"
      "list_all (\<lambda>d. 1 \<le> d \<and> d \<le> 7) ws" "day_ok = (\<lambda>day. isoweekday day \<in> set ws)"
  | (cron) c where "sr_type rule = ''CRON''"
      "parse_cron (case sr_cron_expression rule of None \<Rightarrow> '''' | Some c \<Rightarrow> c) = Inr c"
      "day_ok = (\<lambda>day. date_month day \<in> set (cs_months c) \<and> day_matches c day)"
      "ts = concat (map (\<lambda>h. map (time_of h) (cs_minutes c)) (cs_hours c))"
proof (cases "sr_type rule = ''CRON''")
  case True
  then show thesis using assms cron unfolding rule_plan_def by (auto simp: res_simps)
next
  case False
  then show thesis
    using assms parse_time_ok daily weekly unfolding rule_plan_def
    by (auto simp: res_simps Let_def split: if_splits)
qed

lemma rule_plan_times_ok:
  assumes "rule_plan rule = Inr (day_ok, ts)"
  shows "times_ok ts"
  using assms
proof (cases rule: rule_plan_cases)
  case (cron c)
  then have h: "field_ok 0 23 (cs_hours c)" and m: "field_ok 0 59 (cs_minutes c)"
    using parse_cron_cron_ok by (auto simp: cron_ok_def)
  have "sorted ts" unfolding cron(4)
    using h m by (intro sorted_times sorted_distinct_strict) (auto simp: field_ok_def)
  moreover have "0 \<le> t \<and> t < day_micros" if "t \<in> set ts" for t
    using that h m time_of_bounds unfolding cron(4) by (auto simp: field_ok_def list_all_iff)
  moreover have "ts \<noteq> []" unfolding cron(4) using h m by (cases "cs_hours c") (auto simp: field_ok_def)
  ultimately show ?thesis by (simp add: times_ok_def list_all_iff)
qed simp_all

section \<open>The search\<close>

text \<open>
  What is looked for: an instant whose wall-clock reading is on an allowed day at one of the times.
  When a reading occurs twice (the clock is set back), the first instant counts.
\<close>

definition occurrence :: "zone \<Rightarrow> (date \<Rightarrow> bool) \<Rightarrow> int list \<Rightarrow> datetime \<Rightarrow> bool" where
  "occurrence z day_ok ts t \<longleftrightarrow>
     day_ok (dt_date (z_from_utc z t)) \<and> dt_time (z_from_utc z t) \<in> set ts
     \<and> z_to_utc z (z_from_utc z t) = t"

text \<open>
  Documented behaviour of zones: a wall-clock reading with \<open>fold = 0\<close> is the first instant with that
  reading, and readings that exist come in the order of their instants.
\<close>

definition wall_exists :: "zone \<Rightarrow> datetime \<Rightarrow> bool" where
  "wall_exists z l \<longleftrightarrow> z_from_utc z (z_to_utc z l) = l"

definition zone_lawful :: "zone \<Rightarrow> bool" where
  "zone_lawful z \<longleftrightarrow>
     (\<forall>t. z_to_utc z (z_from_utc z t) \<le> t \<and> wall_exists z (z_from_utc z t))
     \<and> (\<forall>l l'. wall_exists z l \<longrightarrow> wall_exists z l' \<longrightarrow> l < l' \<longrightarrow> z_to_utc z l < z_to_utc z l')"

lemma valid_local_candidate_iff:
  assumes "0 \<le> tm" "tm < day_micros"
  shows "valid_local_candidate day tm z = Some t \<longleftrightarrow>
    z_from_utc z t = combine day tm \<and> z_to_utc z (combine day tm) = t"
proof -
  have "dt_date r = day \<and> dt_time r = tm \<longleftrightarrow> r = combine day tm" for r
    using assms combine_date_time[of r] by auto
  then show ?thesis unfolding valid_local_candidate_def by (auto simp: Let_def)
qed

lemma occurrence_iff:
  assumes "times_ok ts"
  shows "occurrence z day_ok ts t \<longleftrightarrow>
    (\<exists>day tm. day_ok day \<and> tm \<in> set ts \<and> valid_local_candidate day tm z = Some t)"
proof
  assume "occurrence z day_ok ts t"
  moreover from this have "0 \<le> dt_time (z_from_utc z t)" "dt_time (z_from_utc z t) < day_micros"
    using assms by (auto simp: occurrence_def times_ok_def list_all_iff)
  ultimately show "\<exists>day tm. day_ok day \<and> tm \<in> set ts \<and> valid_local_candidate day tm z = Some t"
    by (intro exI[of _ "dt_date (z_from_utc z t)"] exI[of _ "dt_time (z_from_utc z t)"])
       (simp add: valid_local_candidate_iff occurrence_def)
next
  assume "\<exists>day tm. day_ok day \<and> tm \<in> set ts \<and> valid_local_candidate day tm z = Some t"
  then obtain day tm where d: "day_ok day" "tm \<in> set ts" "valid_local_candidate day tm z = Some t" by blast
  then have "0 \<le> tm" "tm < day_micros" using assms by (auto simp: times_ok_def list_all_iff)
  with d show "occurrence z day_ok ts t" by (simp add: valid_local_candidate_iff occurrence_def)
qed

lemma search_times_Some:
  assumes "search_times z after day ts = Some t" and "sorted ts"
  shows "\<exists>tm \<in> set ts. valid_local_candidate day tm z = Some t \<and> after < t
    \<and> (\<forall>tm' \<in> set ts. \<forall>t'. tm' < tm \<longrightarrow> valid_local_candidate day tm' z = Some t' \<longrightarrow> t' \<le> after)"
  using assms
proof (induction ts)
  case (Cons tm ts)
  show ?case
  proof (cases "search_times z after day ts = Some t \<and> (\<forall>c. valid_local_candidate day tm z = Some c \<longrightarrow> c \<le> after)")
    case True
    with Cons.IH Cons.prems(2) show ?thesis by auto
  next
    case False
    with Cons.prems show ?thesis by (auto split: option.splits if_splits)
  qed
qed simp

lemma search_times_None:
  "search_times z after day ts = None \<longleftrightarrow>
     (\<forall>tm \<in> set ts. \<forall>t. valid_local_candidate day tm z = Some t \<longrightarrow> t \<le> after)"
  by (induction ts) (auto split: option.splits)

lemma search_days_Inr:
  assumes "search_days z after day_ok ts day n = Inr t"
  shows "\<exists>d. day \<le> d \<and> day_ok d \<and> search_times z after d ts = Some t
    \<and> (\<forall>d'. day \<le> d' \<longrightarrow> d' < d \<longrightarrow> day_ok d' \<longrightarrow> search_times z after d' ts = None)"
  using assms
proof (induction n arbitrary: day)
  case (Suc n)
  show ?case
  proof (cases "day_ok day \<and> search_times z after day ts \<noteq> None")
    case True
    with Suc.prems show ?thesis by (auto split: if_splits intro!: exI[of _ day])
  next
    case False
    with Suc.prems have "search_days z after day_ok ts (day + 1) n = Inr t" by (auto split: if_splits)
    from Suc.IH[OF this] obtain d where "day + 1 \<le> d" "day_ok d" "search_times z after d ts = Some t"
      "\<forall>d'. day + 1 \<le> d' \<longrightarrow> d' < d \<longrightarrow> day_ok d' \<longrightarrow> search_times z after d' ts = None" by blast
    with False show ?thesis by (intro exI[of _ d]) (metis add1_zle_eq order_le_less order_less_imp_le)
  qed
qed simp

lemma search_days_Inl:
  assumes "search_days z after day_ok ts day n = Inl err"
  shows "err = OverflowError \<and> max_date < day + int n
    \<or> (\<forall>d. day \<le> d \<longrightarrow> d < day + int n \<longrightarrow> day_ok d \<longrightarrow> search_times z after d ts = None)"
  using assms
proof (induction n arbitrary: day)
  case (Suc n)
  show ?case
  proof (cases "max_date < day")
    case False
    with Suc.prems have rest: "search_days z after day_ok ts (day + 1) n = Inl err"
      and here: "day_ok day \<Longrightarrow> search_times z after day ts = None" by (auto split: if_splits option.splits)
    from Suc.IH[OF rest] here show ?thesis by (smt (verit) int_Suc)
  qed (use Suc.prems in auto)
qed simp

section \<open>The search finds the first occurrence\<close>

lemma occurrence_wall:
  assumes "zone_lawful z" and "occurrence z day_ok ts t"
  shows "wall_exists z (z_from_utc z t)"
  using assms by (simp add: zone_lawful_def)

lemma occurrence_order:
  assumes "zone_lawful z" and "occurrence z day_ok ts t" "occurrence z day_ok' ts' t'"
  shows "t \<le> t' \<or> z_from_utc z t' < z_from_utc z t"
proof (rule disjCI)
  assume "\<not> z_from_utc z t' < z_from_utc z t"
  then consider "z_from_utc z t < z_from_utc z t'" | "z_from_utc z t = z_from_utc z t'" by linarith
  then show "t \<le> t'"
  proof cases
    case 1
    with assms have "z_to_utc z (z_from_utc z t) < z_to_utc z (z_from_utc z t')"
      using occurrence_wall by (auto simp: zone_lawful_def)
    with assms(2,3) show ?thesis by (simp add: occurrence_def)
  next
    case 2
    with assms(2,3) show ?thesis by (simp add: occurrence_def)
  qed
qed

lemma occurrence_not_before:
  assumes "zone_lawful z" and "occurrence z day_ok ts t" and "after < t"
  shows "z_from_utc z after \<le> z_from_utc z t"
proof (rule ccontr)
  assume "\<not> z_from_utc z after \<le> z_from_utc z t"
  with assms(1) have "z_to_utc z (z_from_utc z t) < z_to_utc z (z_from_utc z after)"
    "z_to_utc z (z_from_utc z after) \<le> after" by (auto simp: zone_lawful_def)
  with assms(2,3) show False by (simp add: occurrence_def)
qed

lemma div_mono_date: "t \<le> t' \<Longrightarrow> dt_date t \<le> dt_date t'"
  by (simp add: dt_date_def zdiv_mono1 day_micros_def)

lemma search_first_occurrence:
  assumes lawful: "zone_lawful z" and ts: "times_ok ts"
    and found: "search_days z after day_ok ts (dt_date (z_from_utc z after)) n = Inr t"
  shows "after < t" "occurrence z day_ok ts t"
    "\<And>t'. after < t' \<Longrightarrow> occurrence z day_ok ts t' \<Longrightarrow> t \<le> t'"
proof -
  have bounds: "0 \<le> tm \<and> tm < day_micros" if "tm \<in> set ts" for tm
    using ts that by (auto simp: times_ok_def list_all_iff)
  from search_days_Inr[OF found] obtain d where d: "day_ok d" "search_times z after d ts = Some t"
    and before: "\<And>d'. dt_date (z_from_utc z after) \<le> d' \<Longrightarrow> d' < d \<Longrightarrow> day_ok d' \<Longrightarrow> search_times z after d' ts = None"
    by blast
  from search_times_Some[OF d(2)] ts obtain tm where tm: "tm \<in> set ts" "valid_local_candidate d tm z = Some t"
    "after < t" and earlier: "\<And>tm' t'. tm' \<in> set ts \<Longrightarrow> tm' < tm \<Longrightarrow> valid_local_candidate d tm' z = Some t' \<Longrightarrow> t' \<le> after"
    by (auto simp: times_ok_def)
  show "after < t" by (rule tm(3))
  show occ: "occurrence z day_ok ts t" using occurrence_iff[OF ts] d(1) tm by blast
  show "t \<le> t'" if t': "after < t'" and occ': "occurrence z day_ok ts t'" for t'
  proof (rule ccontr)
    assume "\<not> t \<le> t'"
    with occurrence_order[OF lawful occ occ'] have less: "z_from_utc z t' < z_from_utc z t" by simp
    from occ' occurrence_iff[OF ts] obtain d' tm' where d': "day_ok d'" "tm' \<in> set ts"
      "valid_local_candidate d' tm' z = Some t'" by blast
    have wall: "z_from_utc z t' = combine d' tm'" "z_from_utc z t = combine d tm"
      using d' tm valid_local_candidate_iff bounds by simp_all
    have "dt_date (z_from_utc z after) \<le> d'"
      using div_mono_date[OF occurrence_not_before[OF lawful occ' t']] wall(1) bounds[OF d'(2)] by simp
    moreover have "d' < d \<or> d' = d \<and> tm' < tm"
      using less bounds[OF d'(2)] bounds[OF tm(1)] unfolding wall by (simp add: combine_less_iff)
    ultimately show False using before[of d'] earlier[of tm' t'] d' t' search_times_None by fastforce
  qed
qed

lemma search_no_occurrence:
  assumes lawful: "zone_lawful z" and ts: "times_ok ts"
    and failed: "search_days z after day_ok ts (dt_date (z_from_utc z after)) n = Inl err"
    and range: "dt_date (z_from_utc z after) + int n \<le> max_date"
    and occ: "occurrence z day_ok ts t" and t: "after < t"
  shows "dt_date (z_from_utc z after) + int n \<le> dt_date (z_from_utc z t)"
proof (rule ccontr)
  assume far: "\<not> ?thesis"
  from occ occurrence_iff[OF ts] obtain d tm where d: "day_ok d" "tm \<in> set ts"
    "valid_local_candidate d tm z = Some t" by blast
  then have "0 \<le> tm" "tm < day_micros" using ts by (auto simp: times_ok_def list_all_iff)
  then have wall: "dt_date (z_from_utc z t) = d" using d(3) valid_local_candidate_iff by simp
  have "dt_date (z_from_utc z after) \<le> d"
    using div_mono_date[OF occurrence_not_before[OF lawful occ t]] wall by simp
  then have "search_times z after d ts = None"
    using search_days_Inl[OF failed] range far wall d(1) by auto
  with d t show False unfolding search_times_None by fastforce
qed

section \<open>Eight years are enough\<close>

definition times_never_skipped :: "zone \<Rightarrow> int list \<Rightarrow> bool" where
  "times_never_skipped z ts \<longleftrightarrow> (\<forall>day. \<forall>tm \<in> set ts. wall_exists z (combine day tm))"

definition short_folds :: "zone \<Rightarrow> bool" where
  "short_folds z \<longleftrightarrow> (\<forall>t l. wall_exists z l \<longrightarrow> z_from_utc z t + day_micros \<le> l \<longrightarrow> t < z_to_utc z l)"

definition cron_satisfiable :: "cron_spec \<Rightarrow> bool" where
  "cron_satisfiable c \<longleftrightarrow> cs_day_wildcard c \<or> \<not> cs_weekday_wildcard c
     \<or> list_ex (\<lambda>m. list_ex (\<lambda>d. d \<le> longest_month m) (cs_days c)) (cs_months c)"

lemma cron_weekday: "(weekday n + 1) mod 7 = n mod 7"
  by (simp add: weekday_def mod_simps)

lemma longest_month_ge: "m \<in> {1..12} \<Longrightarrow> 29 \<le> longest_month m"
  unfolding upto_12 by (auto simp: longest_month_def month_lengths_def)

lemma days_in_month_ge: "m \<in> {1..12} \<Longrightarrow> 28 \<le> days_in_month y m"
  unfolding upto_12 by (auto simp: days_in_month_def month_lengths_def)

lemma first_week:
  assumes m: "m \<in> {1..12}" and w: "0 \<le> w" "w < 7"
  obtains d where "n \<le> d" "d < n + 739" "date_month d = m" "d mod 7 = w"
proof -
  from longest_month_ge[OF m] have "(1::int) \<le> longest_month m" by simp
  then obtain y where y: "n \<le> ymd2ord y m 1" "ymd2ord y m 1 < n + 732"
    by (rule date_comes_back_yearly[OF m order.refl _, of n]) simp_all
  obtain d where d: "ymd2ord y m 1 \<le> d" "d < ymd2ord y m 1 + 7" "d mod 7 = w"
    by (rule weekday_comes_back[OF w])
  have eq: "d = ymd2ord y m (d - ymd2ord y m 1 + 1)" by (simp add: ymd2ord_def)
  moreover have "date_month (ymd2ord y m (d - ymd2ord y m 1 + 1)) = m"
    using d days_in_month_ge[OF m, of y] by (intro date_fields(1)[OF m]) auto
  ultimately have "date_month d = m" by simp
  with that[of d] d y show thesis by simp
qed

lemma cron_day_exists:
  assumes ok: "cron_ok c" and sat: "cron_satisfiable c"
  shows "\<exists>d. n \<le> d \<and> d < n + 2922 \<and> date_month d \<in> set (cs_months c) \<and> day_matches c d"
proof (cases "cs_day_wildcard c \<or> \<not> cs_weekday_wildcard c")
  case True
  from ok obtain m w where m: "m \<in> set (cs_months c)" and w: "w \<in> set (cs_weekdays c)"
    by (cases "cs_months c"; cases "cs_weekdays c") (auto simp: cron_ok_def field_ok_def)
  with ok have "m \<in> {1..12}" "0 \<le> w" "w < 7" by (auto simp: cron_ok_def field_ok_def list_all_iff)
  then obtain d where "n \<le> d" "d < n + 739" "date_month d = m" "d mod 7 = w" by (rule first_week)
  with m w True show ?thesis by (intro exI[of _ d]) (auto simp: day_matches_def cron_weekday)
next
  case False
  with sat obtain m d where md: "m \<in> set (cs_months c)" "d \<in> set (cs_days c)" "d \<le> longest_month m"
    by (auto simp: cron_satisfiable_def list_ex_iff)
  with ok have b: "m \<in> {1..12}" "1 \<le> d" by (auto simp: cron_ok_def field_ok_def list_all_iff)
  obtain y where y: "n \<le> ymd2ord y m d" "ymd2ord y m d < n + 2922" "d \<le> days_in_month y m"
    by (rule date_comes_back[OF b md(3)])
  with date_fields[OF b y(3)] md False show ?thesis
    by (intro exI[of _ "ymd2ord y m d"]) (auto simp: day_matches_def)
qed

lemma cron_day_needs_satisfiable:
  assumes "date_month d \<in> set (cs_months c)" and "day_matches c d"
  shows "cron_satisfiable c"
  using assms date_fields_bounds(3)[of d]
  by (auto simp: cron_satisfiable_def day_matches_def Let_def list_ex_iff split: if_splits)

lemma search_succeeds:
  assumes never: "times_never_skipped z ts" and short: "short_folds z" and ts: "times_ok ts"
    and d: "day_ok d" "dt_date (z_from_utc z after) + 2 \<le> d" "d < dt_date (z_from_utc z after) + int n"
    and range: "dt_date (z_from_utc z after) + int n \<le> max_date"
  shows "\<exists>t. search_days z after day_ok ts (dt_date (z_from_utc z after)) n = Inr t"
proof (cases "search_days z after day_ok ts (dt_date (z_from_utc z after)) n")
  case (Inl err)
  let ?l = "z_from_utc z after"
  from ts obtain tm where tm: "tm \<in> set ts" "0 \<le> tm" "tm < day_micros"
    by (cases ts) (auto simp: times_ok_def)
  with never have ex: "wall_exists z (combine d tm)" by (simp add: times_never_skipped_def)
  then have cand: "valid_local_candidate d tm z = Some (z_to_utc z (combine d tm))"
    using tm by (simp add: valid_local_candidate_iff wall_exists_def)
  have "?l + day_micros < combine (dt_date ?l + 2) 0"
    using combine_date_time[of ?l] by (simp add: combine_def dt_time_def left_diff_distrib distrib_right day_micros_def)
  also have "\<dots> \<le> combine d tm"
    using d(2) tm(2,3) combine_less_iff[of 0 tm "dt_date ?l + 2" d]
    by (cases "dt_date ?l + 2 = d") (auto simp: combine_def day_micros_def)
  finally have "after < z_to_utc z (combine d tm)" using short ex by (simp add: short_folds_def)
  moreover have "search_times z after d ts = None"
    using search_days_Inl[OF Inl] range d by auto
  ultimately show ?thesis using cand tm(1) unfolding search_times_None by fastforce
qed simp

end
