(* ===== verification/Schedules.thy ===== *)
theory Schedules
  imports Test_Plans Schedule_Calendar
begin

text \<open>
  \<open>schedules/service.py\<close> and the scan of \<open>schedules/coordinator.py\<close>: schedules that start a plan at the
  occurrences their rule gives.

  Claiming an occurrence is one transaction: it writes a trigger row, protected by the unique key of
  schedule and occurrence, and moves \<open>next_run_at\<close> to the first occurrence after it. Dispatching a
  claimed trigger starts the plan with the rights of the creator of the schedule. The tables are those
  of the plans with schedules and triggers added. \<open>roles\<close> is the platform role column of the users.
\<close>

datatype schedule_status = SCHEDULE_ACTIVE | SCHEDULE_ARCHIVED

datatype trigger_status = TRIGGER_CLAIMED | TRIGGER_DISPATCHED | TRIGGER_FAILED | TRIGGER_SKIPPED

record test_schedule =
  sd_id :: int
  sd_project_id :: int
  sd_plan_id :: int
  sd_name :: string
  sd_rule :: schedule_rule
  sd_enabled :: bool
  sd_status :: schedule_status
  sd_next_run_at :: "datetime option"
  sd_last_scheduled_at :: "datetime option"
  sd_last_trigger_status :: "trigger_status option"
  sd_last_error_code :: "string option"
  sd_created_by :: string

record schedule_trigger =
  st_id :: string
  st_schedule_id :: int
  st_project_id :: int
  st_scheduled_for :: datetime
  st_status :: trigger_status
  st_plan_run_id :: "string option"
  st_error_code :: "string option"
  st_completed_at :: "datetime option"

record schedule_db =
  sb_plans :: plan_db
  sb_schedules :: "test_schedule list"
  sb_triggers :: "schedule_trigger list"

record schedule_write =
  sw_project_id :: int
  sw_plan_id :: int
  sw_name :: string
  sw_rule :: schedule_rule
  sw_enabled :: bool

section \<open>Validating a request\<close>

text \<open>
  The field constraints of \<open>ScheduleWrite\<close> are checked on the text as sent; then name and time zone are
  stripped, the blanks of the Cron expression are normalised, and the rule is tried from the first
  instant of 2026. Every \<open>ScheduleExpressionError\<close> becomes a validation error.
\<close>

datatype write_error = ValidationError string | UncaughtError

definition schedule_fields_ok :: "schedule_write \<Rightarrow> bool" where
  "schedule_fields_ok p \<longleftrightarrow>
     sw_project_id p > 0 \<and> sw_plan_id p > 0 \<and> 2 \<le> length (sw_name p) \<and> length (sw_name p) \<le> 255
     \<and> sr_type (sw_rule p) \<in> set [''DAILY'', ''WEEKLY'', ''CRON'']
     \<and> 1 \<le> length (sr_timezone (sw_rule p)) \<and> length (sr_timezone (sw_rule p)) \<le> 64
     \<and> (case sr_daily_time (sw_rule p) of None \<Rightarrow> True | Some t \<Rightarrow> length t \<le> 5)
     \<and> (case sr_weekdays (sw_rule p) of None \<Rightarrow> True | Some ws \<Rightarrow> length ws \<le> 7)
     \<and> (case sr_cron_expression (sw_rule p) of None \<Rightarrow> True | Some c \<Rightarrow> length c \<le> 100)"

definition normalize_cron :: "string option \<Rightarrow> string option" where
  "normalize_cron value =
     (case value of None \<Rightarrow> None | Some c \<Rightarrow> if c = [] then None else Some (join_with '' '' (split_ws c)))"

definition given :: "'a list option \<Rightarrow> bool" where
  "given v \<longleftrightarrow> (case v of None \<Rightarrow> False | Some l \<Rightarrow> l \<noteq> [])"

definition expression_shape :: "schedule_rule \<Rightarrow> schedule_error + schedule_rule" where
  "expression_shape rule =
     (if sr_type rule = ''DAILY'' then
        if \<not> given (sr_daily_time rule) \<or> sr_weekdays rule \<noteq> None \<or> sr_cron_expression rule \<noteq> None
        then Inl (ScheduleExpressionError ''Daily takes a time only'') else Inr rule
      else if sr_type rule = ''WEEKLY'' then
        if \<not> given (sr_daily_time rule) \<or> \<not> given (sr_weekdays rule) \<or> sr_cron_expression rule \<noteq> None
        then Inl (ScheduleExpressionError ''Weekly takes a time and weekdays'')
        else Inr (rule\<lparr>sr_weekdays := map_option frozenset (sr_weekdays rule)\<rparr>)
      else if \<not> given (sr_cron_expression rule) \<or> sr_daily_time rule \<noteq> None \<or> sr_weekdays rule \<noteq> None
      then Inl (ScheduleExpressionError ''Cron takes an expression only'') else Inr rule)"

definition probe_instant :: datetime where
  "probe_instant = combine (ymd2ord 2026 1 1) 0"

definition validate_expression :: "zone_database \<Rightarrow> schedule_rule \<Rightarrow> schedule_error + schedule_rule" where
  "validate_expression zoneinfo rule =
     res_bind (validate_timezone zoneinfo (sr_timezone rule)) (\<lambda>(tz, _).
     res_bind (expression_shape (rule\<lparr>sr_timezone := tz\<rparr>)) (\<lambda>rule1.
     res_bind (if given (sr_cron_expression rule1)
               then res_bind (parse_cron (the (sr_cron_expression rule1))) (\<lambda>_. Inr ()) else Inr ()) (\<lambda>_.
     res_bind (next_occurrence zoneinfo rule1 probe_instant) (\<lambda>_. Inr rule1))))"

definition validate_schedule_write :: "zone_database \<Rightarrow> schedule_write \<Rightarrow> write_error + schedule_write" where
  "validate_schedule_write zoneinfo p =
     (if \<not> schedule_fields_ok p then Inl (ValidationError ''field constraint'')
      else
        let rule = (sw_rule p)\<lparr>sr_timezone := py_strip (sr_timezone (sw_rule p)),
                     sr_cron_expression := normalize_cron (sr_cron_expression (sw_rule p))\<rparr>
        in case validate_expression zoneinfo rule of
             Inl (ScheduleExpressionError m) \<Rightarrow> Inl (ValidationError m)
           | Inl OverflowError \<Rightarrow> Inl UncaughtError
           | Inr rule1 \<Rightarrow> Inr (p\<lparr>sw_name := py_strip (sw_name p), sw_rule := rule1\<rparr>))"

definition get_schedule :: "schedule_db \<Rightarrow> int \<Rightarrow> test_schedule option" where
  "get_schedule s i = get_row sd_id (sb_schedules s) i"

definition put_schedule :: "schedule_db \<Rightarrow> test_schedule \<Rightarrow> schedule_db" where
  "put_schedule s x = s\<lparr>sb_schedules := put_row sd_id x (sb_schedules s)\<rparr>"

definition get_trigger :: "schedule_db \<Rightarrow> string \<Rightarrow> schedule_trigger option" where
  "get_trigger s i = get_row st_id (sb_triggers s) i"

definition put_trigger :: "schedule_db \<Rightarrow> schedule_trigger \<Rightarrow> schedule_db" where
  "put_trigger s x = s\<lparr>sb_triggers := put_row st_id x (sb_triggers s)\<rparr>"

definition sched_projects :: "schedule_db \<Rightarrow> project_db" where
  "sched_projects s = w_db (pb_world (sb_plans s))"

section \<open>Editing schedules\<close>

definition load_schedule :: "schedule_db \<Rightarrow> current_user \<Rightarrow> int \<Rightarrow> app_error + test_schedule" where
  "load_schedule s user schedule_id =
     res_bind (option_to_res (ResourceNotFoundError ''schedule'') (get_schedule s schedule_id)) (\<lambda>schedule.
     res_bind (get_project (sched_projects s) user (sd_project_id schedule)) (\<lambda>_. Inr schedule))"

definition validate_schedule_target :: "schedule_db \<Rightarrow> current_user \<Rightarrow> int \<Rightarrow> int \<Rightarrow> app_error + unit" where
  "validate_schedule_target s user project_id plan_id =
     res_bind (get_project (sched_projects s) user project_id) (\<lambda>project.
     res_bind (ensure_project_writable (sched_projects s) project user) (\<lambda>_.
     if pj_status project = PROJECT_ARCHIVED then Inl (ResourceConflictError ''project archived'')
     else case get_plan (sb_plans s) plan_id of
            None \<Rightarrow> Inl (ResourceConflictError ''plan not usable'')
          | Some plan \<Rightarrow>
              if pn_project_id plan \<noteq> project_id \<or> pn_status plan \<noteq> PLAN_ACTIVE
              then Inl (ResourceConflictError ''plan not usable'') else Inr ()))"

text \<open>A \<open>ScheduleExpressionError\<close> is a \<open>ValueError\<close>: it leaves the service as an internal error.\<close>

definition calculate_next :: "zone_database \<Rightarrow> test_schedule \<Rightarrow> datetime \<Rightarrow> app_error + datetime" where
  "calculate_next zoneinfo schedule after =
     (case next_occurrence zoneinfo (sd_rule schedule) after of
        Inl _ \<Rightarrow> Inl (InternalError ''ScheduleExpressionError'') | Inr t \<Rightarrow> Inr t)"

definition next_if_enabled ::
  "zone_database \<Rightarrow> test_schedule \<Rightarrow> datetime \<Rightarrow> app_error + datetime option" where
  "next_if_enabled zoneinfo schedule now =
     (if sd_enabled schedule then res_bind (calculate_next zoneinfo schedule now) (\<lambda>t. Inr (Some t))
      else Inr None)"

definition create_schedule ::
  "zone_database \<Rightarrow> datetime \<Rightarrow> schedule_db \<Rightarrow> current_user \<Rightarrow> int \<Rightarrow> schedule_write
     \<Rightarrow> app_error + test_schedule \<times> schedule_db" where
  "create_schedule zoneinfo now s user schedule_id payload =
     res_bind (validate_schedule_target s user (sw_project_id payload) (sw_plan_id payload)) (\<lambda>_.
     let schedule = \<lparr>sd_id = schedule_id, sd_project_id = sw_project_id payload,
           sd_plan_id = sw_plan_id payload, sd_name = sw_name payload, sd_rule = sw_rule payload,
           sd_enabled = sw_enabled payload, sd_status = SCHEDULE_ACTIVE, sd_next_run_at = None,
           sd_last_scheduled_at = None, sd_last_trigger_status = None, sd_last_error_code = None,
           sd_created_by = cu_id user\<rparr>
     in res_bind (next_if_enabled zoneinfo schedule now) (\<lambda>next.
        if get_schedule s schedule_id \<noteq> None then Inl (InternalError ''IntegrityError'')
        else Inr (schedule\<lparr>sd_next_run_at := next\<rparr>,
                  s\<lparr>sb_schedules := sb_schedules s @ [schedule\<lparr>sd_next_run_at := next\<rparr>]\<rparr>)))"

definition apply_payload :: "test_schedule \<Rightarrow> schedule_write \<Rightarrow> test_schedule" where
  "apply_payload schedule payload =
     schedule\<lparr>sd_project_id := sw_project_id payload, sd_plan_id := sw_plan_id payload,
              sd_name := sw_name payload, sd_rule := sw_rule payload, sd_enabled := sw_enabled payload,
              sd_last_error_code := None\<rparr>"

definition update_schedule ::
  "zone_database \<Rightarrow> datetime \<Rightarrow> schedule_db \<Rightarrow> current_user \<Rightarrow> int \<Rightarrow> schedule_write
     \<Rightarrow> app_error + test_schedule \<times> schedule_db" where
  "update_schedule zoneinfo now s user schedule_id payload =
     res_bind (load_schedule s user schedule_id) (\<lambda>schedule.
     if sd_project_id schedule \<noteq> sw_project_id payload
     then Inl (ResourceConflictError ''schedule cannot move to another project'')
     else if sd_status schedule \<noteq> SCHEDULE_ACTIVE then Inl (ResourceConflictError ''schedule archived'')
     else
       res_bind (validate_schedule_target s user (sw_project_id payload) (sw_plan_id payload)) (\<lambda>_.
       let schedule1 = apply_payload schedule payload
       in res_bind (next_if_enabled zoneinfo schedule1 now) (\<lambda>next.
          Inr (schedule1\<lparr>sd_next_run_at := next\<rparr>, put_schedule s (schedule1\<lparr>sd_next_run_at := next\<rparr>)))))"

definition set_schedule_status ::
  "zone_database \<Rightarrow> datetime \<Rightarrow> schedule_db \<Rightarrow> current_user \<Rightarrow> int \<Rightarrow> schedule_status
     \<Rightarrow> app_error + test_schedule \<times> schedule_db" where
  "set_schedule_status zoneinfo now s user schedule_id status =
     res_bind (load_schedule s user schedule_id) (\<lambda>schedule.
     res_bind (get_project (sched_projects s) user (sd_project_id schedule)) (\<lambda>project.
     res_bind (ensure_project_writable (sched_projects s) project user) (\<lambda>_.
     let schedule1 = schedule\<lparr>sd_status := status\<rparr>
     in if status = SCHEDULE_ARCHIVED
        then (let schedule2 = schedule1\<lparr>sd_enabled := False, sd_next_run_at := None\<rparr>
              in Inr (schedule2, put_schedule s schedule2))
        else res_bind (next_if_enabled zoneinfo schedule1 now) (\<lambda>next.
             Inr (schedule1\<lparr>sd_next_run_at := next\<rparr>, put_schedule s (schedule1\<lparr>sd_next_run_at := next\<rparr>))))))"

primrec preview_schedule ::
  "zone_database \<Rightarrow> schedule_rule \<Rightarrow> datetime \<Rightarrow> nat \<Rightarrow> schedule_error + datetime list" where
  "preview_schedule zoneinfo rule cursor 0 = Inr []"
| "preview_schedule zoneinfo rule cursor (Suc n) =
     res_bind (next_occurrence zoneinfo rule cursor) (\<lambda>t.
     res_bind (preview_schedule zoneinfo rule t n) (\<lambda>ts. Inr (t # ts)))"

section \<open>Claiming and dispatching occurrences\<close>

definition trigger_exists :: "schedule_db \<Rightarrow> int \<Rightarrow> datetime \<Rightarrow> bool" where
  "trigger_exists s schedule_id t \<longleftrightarrow>
     list_ex (\<lambda>x. st_schedule_id x = schedule_id \<and> st_scheduled_for x = t) (sb_triggers s)"

text \<open>The \<open>IntegrityError\<close> of the unique key rolls the whole transaction back.\<close>

definition claim_due_schedule ::
  "zone_database \<Rightarrow> datetime \<Rightarrow> schedule_db \<Rightarrow> int \<Rightarrow> string \<Rightarrow> app_error + string option \<times> schedule_db" where
  "claim_due_schedule zoneinfo now s schedule_id trigger_id =
     (case get_schedule s schedule_id of
        None \<Rightarrow> Inr (None, s)
      | Some schedule \<Rightarrow>
          if sd_status schedule \<noteq> SCHEDULE_ACTIVE \<or> \<not> sd_enabled schedule then Inr (None, s)
          else
            (case sd_next_run_at schedule of
               None \<Rightarrow> Inr (None, s)
             | Some scheduled_for \<Rightarrow>
                 if scheduled_for > now then Inr (None, s)
                 else
                   res_bind (calculate_next zoneinfo schedule (max now scheduled_for)) (\<lambda>next.
                   let trigger = \<lparr>st_id = trigger_id, st_schedule_id = sd_id schedule,
                         st_project_id = sd_project_id schedule, st_scheduled_for = scheduled_for,
                         st_status = TRIGGER_CLAIMED, st_plan_run_id = None, st_error_code = None,
                         st_completed_at = None\<rparr>;
                       schedule1 = schedule\<lparr>sd_last_scheduled_at := Some scheduled_for,
                         sd_last_trigger_status := Some TRIGGER_CLAIMED, sd_last_error_code := None,
                         sd_next_run_at := Some next\<rparr>
                   in if get_trigger s trigger_id \<noteq> None \<or> trigger_exists s (sd_id schedule) scheduled_for
                      then Inr (None, s)
                      else Inr (Some trigger_id,
                             (put_schedule s schedule1)\<lparr>sb_triggers := sb_triggers s @ [trigger]\<rparr>))))"

definition current_user_for_schedule ::
  "(string \<Rightarrow> string) \<Rightarrow> schedule_db \<Rightarrow> test_schedule \<Rightarrow> app_error + current_user" where
  "current_user_for_schedule roles s schedule =
     (case get_row us_id (pd_users (sched_projects s)) (sd_created_by schedule) of
        None \<Rightarrow> Inl (ResourceConflictError ''creator missing or disabled'')
      | Some user \<Rightarrow>
          if us_status user \<noteq> USER_ACTIVE then Inl (ResourceConflictError ''creator missing or disabled'')
          else Inr \<lparr>cu_id = us_id user, cu_roles = [roles (us_id user)]\<rparr>)"

record dispatch_env =
  de_env :: env
  de_items :: "int \<Rightarrow> item_env"
  de_resolve :: resolver
  de_delivery_ids :: "int \<Rightarrow> string"
  de_plan_run_id :: string
  de_roles :: "string \<Rightarrow> string"

definition finish_trigger ::
  "schedule_db \<Rightarrow> test_schedule \<Rightarrow> schedule_trigger \<Rightarrow> schedule_trigger \<times> schedule_db" where
  "finish_trigger s schedule trigger =
     (trigger, put_schedule (put_trigger s trigger)
        (schedule\<lparr>sd_last_trigger_status := Some (st_status trigger),
                  sd_last_error_code := st_error_code trigger\<rparr>))"

definition start_scheduled_plan ::
  "dispatch_env \<Rightarrow> schedule_db \<Rightarrow> test_schedule \<Rightarrow> (app_error + plan_run_response) \<times> schedule_db" where
  "start_scheduled_plan de s schedule =
     (case current_user_for_schedule (de_roles de) s schedule of
        Inl err \<Rightarrow> (Inl err, s)
      | Inr actor \<Rightarrow>
          (case start_test_plan_run (de_env de) (de_items de) (de_resolve de) (de_delivery_ids de)
                  (de_plan_run_id de) (sb_plans s) actor (sd_plan_id schedule) PLAN_SCHEDULE
                  (Some (sd_id schedule)) of
             (result, plans) \<Rightarrow> (result, s\<lparr>sb_plans := plans\<rparr>)))"

definition dispatch_claimed_trigger ::
  "dispatch_env \<Rightarrow> schedule_db \<Rightarrow> string \<Rightarrow> (app_error + schedule_trigger) \<times> schedule_db" where
  "dispatch_claimed_trigger de s trigger_id =
     (let now = en_now (de_env de) in
      case get_trigger s trigger_id of
        None \<Rightarrow> (Inl (ResourceNotFoundError ''trigger''), s)
      | Some trigger \<Rightarrow>
          (case get_schedule s (st_schedule_id trigger) of
             None \<Rightarrow>
               (let t = trigger\<lparr>st_status := TRIGGER_SKIPPED, st_error_code := Some ''SCHEDULE_NOT_FOUND'',
                                st_completed_at := Some now\<rparr>
                in (Inr t, put_trigger s t))
           | Some schedule \<Rightarrow>
               if st_status trigger \<noteq> TRIGGER_CLAIMED then (Inr trigger, s)
               else if sd_status schedule \<noteq> SCHEDULE_ACTIVE \<or> \<not> sd_enabled schedule
               then apfst Inr (finish_trigger s schedule
                      (trigger\<lparr>st_status := TRIGGER_SKIPPED, st_error_code := Some ''SCHEDULE_DISABLED'',
                               st_completed_at := Some now\<rparr>))
               else
                 (let (result, s1) = start_scheduled_plan de s schedule
                  in case result of
                       Inr response \<Rightarrow>
                         apfst Inr (finish_trigger s1 schedule
                           (trigger\<lparr>st_status := TRIGGER_DISPATCHED, st_plan_run_id := Some (px_id response),
                                    st_error_code := None, st_completed_at := Some now\<rparr>))
                     | Inl err \<Rightarrow>
                         if is_app_error err
                         then apfst Inr (finish_trigger s1 schedule
                                (trigger\<lparr>st_status := TRIGGER_FAILED, st_error_code := Some (error_code err),
                                         st_completed_at := Some now\<rparr>))
                         else (Inl err, s1))))"

definition retry_schedule_trigger ::
  "dispatch_env \<Rightarrow> schedule_db \<Rightarrow> current_user \<Rightarrow> string \<Rightarrow> (app_error + schedule_trigger) \<times> schedule_db" where
  "retry_schedule_trigger de s user trigger_id =
     (case (case get_trigger s trigger_id of
              None \<Rightarrow> Inl (ResourceNotFoundError ''trigger'')
            | Some trigger \<Rightarrow>
                res_bind (get_project (sched_projects s) user (st_project_id trigger)) (\<lambda>project.
                res_bind (ensure_project_writable (sched_projects s) project user) (\<lambda>_.
                if st_status trigger \<noteq> TRIGGER_FAILED \<or> st_plan_run_id trigger \<noteq> None
                then Inl (ResourceConflictError ''only failed triggers without a plan run can be retried'')
                else Inr trigger))) of
        Inl err \<Rightarrow> (Inl err, s)
      | Inr trigger \<Rightarrow>
          dispatch_claimed_trigger de
            (put_trigger s (trigger\<lparr>st_status := TRIGGER_CLAIMED, st_error_code := None,
                                    st_completed_at := None\<rparr>)) trigger_id)"

section \<open>One round of the coordinator\<close>

definition due_schedule_ids :: "datetime \<Rightarrow> schedule_db \<Rightarrow> int list" where
  "due_schedule_ids now s =
     map sd_id (take 100 (sort_key (\<lambda>x. (the (sd_next_run_at x), sd_id x))
       (filter (\<lambda>x. sd_status x = SCHEDULE_ACTIVE \<and> sd_enabled x
                    \<and> (case sd_next_run_at x of None \<Rightarrow> False | Some t \<Rightarrow> t \<le> now)) (sb_schedules s))))"

definition fail_trigger :: "datetime \<Rightarrow> schedule_db \<Rightarrow> string \<Rightarrow> schedule_db" where
  "fail_trigger now s trigger_id =
     (case get_trigger s trigger_id of
        None \<Rightarrow> s
      | Some trigger \<Rightarrow>
          if st_status trigger \<noteq> TRIGGER_CLAIMED then s
          else
            (let t = trigger\<lparr>st_status := TRIGGER_FAILED, st_error_code := Some ''SCHEDULER_INTERNAL_ERROR'',
                             st_completed_at := Some now\<rparr>
             in case get_schedule s (st_schedule_id trigger) of
                  None \<Rightarrow> put_trigger s t
                | Some schedule \<Rightarrow> snd (finish_trigger s schedule t)))"

record scan_result =
  sx_claimed :: "string list"
  sx_dispatched :: "string list"
  sx_failed :: "string list"

text \<open>
  The loop over the due schedules; an exception of \<open>claim_due_schedule\<close> is not caught inside the round
  and ends it (\<open>run_forever\<close> catches it and starts the next round later).
\<close>

fun scan_schedules ::
  "zone_database \<Rightarrow> datetime \<Rightarrow> (int \<Rightarrow> string) \<Rightarrow> (int \<Rightarrow> dispatch_env) \<Rightarrow> int list \<Rightarrow> scan_result \<Rightarrow> schedule_db
     \<Rightarrow> (app_error + scan_result) \<times> schedule_db" where
  "scan_schedules zoneinfo now ids des [] x s = (Inr x, s)"
| "scan_schedules zoneinfo now ids des (i # rest) x s =
     (case claim_due_schedule zoneinfo now s i (ids i) of
        Inl err \<Rightarrow> (Inl err, s)
      | Inr (None, s1) \<Rightarrow> scan_schedules zoneinfo now ids des rest x s1
      | Inr (Some trigger_id, s1) \<Rightarrow>
          (let x1 = x\<lparr>sx_claimed := sx_claimed x @ [trigger_id]\<rparr> in
           case dispatch_claimed_trigger (des i) s1 trigger_id of
             (Inr trigger, s2) \<Rightarrow>
               scan_schedules zoneinfo now ids des rest
                 (if st_status trigger = TRIGGER_DISPATCHED
                  then x1\<lparr>sx_dispatched := sx_dispatched x1 @ [trigger_id]\<rparr>
                  else x1\<lparr>sx_failed := sx_failed x1 @ [trigger_id]\<rparr>) s2
           | (Inl err, s2) \<Rightarrow>
               scan_schedules zoneinfo now ids des rest
                 (x1\<lparr>sx_failed := sx_failed x1 @ [trigger_id]\<rparr>)
                 (fail_trigger now s2 trigger_id)))"

definition schedule_scan_once ::
  "zone_database \<Rightarrow> datetime \<Rightarrow> (int \<Rightarrow> string) \<Rightarrow> (int \<Rightarrow> dispatch_env) \<Rightarrow> schedule_db
     \<Rightarrow> (app_error + scan_result) \<times> schedule_db" where
  "schedule_scan_once zoneinfo now ids des s =
     scan_schedules zoneinfo now ids des (due_schedule_ids now s)
       \<lparr>sx_claimed = [], sx_dispatched = [], sx_failed = []\<rparr> s"

end
