(* ===== verification/Plan_Guarantees.thy ===== *)
theory Plan_Guarantees
  imports Test_Plans Run_Lifecycle Run_Findings
begin

text \<open>
  What plan runs guarantee. The locale \<open>plan_loop\<close> is the contract of one round of a loop over the items
  of a plan run: the round only moves the Runs by steps of the Run machine and leaves the binding
  of the item alone. Cancelling and dispatching again are its two instances.
\<close>

section \<open>Plan operations are paths of the Run machine\<close>

lemma run_path_reachable: "run_step\<^sup>*\<^sup>* w w' \<Longrightarrow> reachable w \<Longrightarrow> reachable w'"
  by (induction rule: rtranclp_induct) (auto intro: reachable.step)

lemma dispatch_run_commits_path:
  assumes "dispatch_run_commits e m w u i = (res, w')" and "reachable w"
  shows "run_step\<^sup>*\<^sup>* w w'"
proof (cases "dispatch_begin e m False w u i")
  case (Inr p)
  then obtain pg w1 where d: "dispatch_begin e m False w u i = Inr (pg, w1)" by (cases p) auto
  show ?thesis
  proof (cases pg)
    case (DispatchDone response)
    with d assms(1) have "w' = w1" by (simp add: dispatch_run_commits_def)
    then show ?thesis using run_step.dispatch_done d DispatchDone by blast
  next
    case (DispatchPublish k pl)
    let ?w2 = "log_sent e k pl w1"
    have step: "run_step w ?w2" using run_step.dispatch_publish d DispatchPublish by blast
    obtain r where "get_run w1 i = Some r" "message_fits r k pl"
      using dispatch_begin_publish[OF d[unfolded DispatchPublish]] reachable_inv[OF assms(2)]
      by (auto simp: world_inv_def)
    then have id: "tp_run_id pl = i" using get_run_id by (auto simp: message_fits_def)
    have sent: "\<lparr>tm_routing_key = k, tm_payload = pl, tm_confirmed = pr_published (en_publish e k pl)\<rparr>
        \<in> set (w_sent ?w2)" by (simp add: log_sent_def)
    have "w' = ?w2 \<or> (\<exists>x. record_publish_result e ?w2 i (en_publish e k pl) = Inr (x, w'))"
      using assms(1) d DispatchPublish by (auto simp: dispatch_run_commits_def Let_def split: sum.splits)
    then show ?thesis
    proof (elim disjE exE)
      fix x assume "record_publish_result e ?w2 i (en_publish e k pl) = Inr (x, w')"
      with id run_step.confirm[OF sent] have "run_step ?w2 w'" by simp
      with step show ?thesis by (meson rtranclp.rtrancl_into_rtrancl rtranclp.rtrancl_refl)
    qed (use step in blast)
  qed
qed (use assms in \<open>auto simp: dispatch_run_commits_def\<close>)

locale plan_loop =
  fixes body :: "plan_run_item \<Rightarrow> world \<Rightarrow> app_error option \<times> plan_run_item \<times> world"
  assumes path: "reachable w \<Longrightarrow> body item w = (err, item', w') \<Longrightarrow> run_step\<^sup>*\<^sup>* w w'"
    and binding: "body item w = (err, item', w') \<Longrightarrow>
      ri_run_id item' = ri_run_id item \<and> ri_plan_item_id item' = ri_plan_item_id item"
begin

lemma loop_path: "reachable w \<Longrightarrow> item_loop body items w = (err, items', w') \<Longrightarrow> run_step\<^sup>*\<^sup>* w w'"
proof (induction items arbitrary: w items' err w')
  case (Cons item rest)
  obtain err1 item1 w1 where b: "body item w = (err1, item1, w1)" by (cases "body item w") auto
  note p = path[OF Cons.prems(1) b]
  show ?case
  proof (cases err1)
    case None
    obtain err2 items2 w2 where l: "item_loop body rest w1 = (err2, items2, w2)"
      by (cases "item_loop body rest w1") auto
    with Cons.prems(2) b None have "w' = w2" by simp
    with Cons.IH[OF run_path_reachable[OF p Cons.prems(1)] l] p show ?thesis by simp
  qed (use Cons.prems(2) b p in simp)
qed simp

lemma loop_binding:
  "item_loop body items w = (err, items', w') \<Longrightarrow>
     map ri_run_id items' = map ri_run_id items \<and> map ri_plan_item_id items' = map ri_plan_item_id items"
proof (induction items arbitrary: w items' err w')
  case (Cons item rest)
  obtain err1 item1 w1 where b: "body item w = (err1, item1, w1)" by (cases "body item w") auto
  obtain err2 items2 w2 where l: "item_loop body rest w1 = (err2, items2, w2)"
    by (cases "item_loop body rest w1") auto
  show ?case using Cons.prems b l binding[OF b] Cons.IH[OF l] by (cases err1) auto
qed simp

end

interpretation cancel_loop: plan_loop "cancel_plan_item e user" for e user
proof
  fix w item err item' w'
  assume "cancel_plan_item e user item w = (err, item', w')"
  then show "run_step\<^sup>*\<^sup>* w w'"
    by (auto simp: cancel_plan_item_def split: option.splits if_splits sum.splits prod.splits
        intro: run_step.cancel)
next
  fix w item err item' w'
  assume "cancel_plan_item e user item w = (err, item', w')"
  then show "ri_run_id item' = ri_run_id item \<and> ri_plan_item_id item' = ri_plan_item_id item"
    by (auto simp: cancel_plan_item_def split: option.splits if_splits sum.splits prod.splits)
qed

interpretation retry_loop: plan_loop "retry_plan_item ies user" for ies user
proof
  fix w item err item' w'
  assume "reachable w" "retry_plan_item ies user item w = (err, item', w')"
  then show "run_step\<^sup>*\<^sup>* w w'"
    using dispatch_run_commits_path
    by (fastforce simp: retry_plan_item_def Let_def split: option.splits if_splits sum.splits prod.splits)
next
  fix w item err item' w'
  assume "retry_plan_item ies user item w = (err, item', w')"
  then show "ri_run_id item' = ri_run_id item \<and> ri_plan_item_id item' = ri_plan_item_id item"
    by (auto simp: retry_plan_item_def Let_def split: option.splits if_splits sum.splits prod.splits)
qed

lemma start_plan_item_path:
  assumes "start_plan_item ie ok res user payload item w = (err, item', w')" and "reachable w"
  shows "run_step\<^sup>*\<^sup>* w w'"
proof (cases "create_run (ie_create ie) ok res (ie_ids ie) w user payload")
  case (Inr p)
  then obtain run w1 where c: "create_run (ie_create ie) ok res (ie_ids ie) w user payload = Inr (run, w1)"
    by (cases p) auto
  then have step: "run_step w w1" by (rule run_step.create)
  obtain r w2 where d: "dispatch_run_commits (ie_dispatch ie) (ie_message_id ie) w1 user (tr_id run) = (r, w2)"
    by (cases "dispatch_run_commits (ie_dispatch ie) (ie_message_id ie) w1 user (tr_id run)") auto
  have "w' = w2" using assms(1) c d by (auto simp: start_plan_item_def Let_def split: sum.splits if_splits)
  moreover have "run_step\<^sup>*\<^sup>* w1 w2"
    using dispatch_run_commits_path[OF d] reachable.step[OF assms(2) step] by blast
  ultimately show ?thesis using step by (meson converse_rtranclp_into_rtranclp)
qed (use assms in \<open>auto simp: start_plan_item_def split: if_splits\<close>)

lemma start_plan_items_path:
  "start_plan_items ies ok res user plan xs w = (err, items, w') \<Longrightarrow> reachable w \<Longrightarrow> run_step\<^sup>*\<^sup>* w w'"
proof (induction xs arbitrary: w items err w')
  case (Cons x xs)
  obtain pi ri where x: "x = (pi, ri)" by (cases x) auto
  obtain err1 item1 w1 where b: "start_plan_item (ies (pi_sequence_no pi)) ok res user
      (item_run_payload plan pi) ri w = (err1, item1, w1)"
    by (metis prod_cases3)
  note p = start_plan_item_path[OF b Cons.prems(2)]
  obtain err2 items2 w2 where l: "start_plan_items ies ok res user plan xs w1 = (err2, items2, w2)"
    by (metis prod_cases3)
  show ?case
  proof (cases err1)
    case None
    with Cons.prems(1) b l x have "w' = w2" by simp
    with Cons.IH[OF l run_path_reachable[OF p Cons.prems(2)]] p show ?thesis by simp
  qed (use Cons.prems(1) b p x in simp)
qed simp

lemma refresh_plan_run_world [simp]:
  "pb_world (snd (refresh_plan_run now ids s r)) = pb_world s"
  by (simp add: refresh_plan_run_def Let_def put_plan_run_def enqueue_test_plan_run_webhooks_def)

lemma get_test_plan_run_world:
  "get_test_plan_run now ids s user i = Inr (resp, s') \<Longrightarrow> pb_world s' = pb_world s"
  by (clarsimp simp: get_test_plan_run_def res_simps) (metis refresh_plan_run_world snd_conv)

lemma put_plan_run_world [simp]: "pb_world (put_plan_run s r) = pb_world s"
  by (simp add: put_plan_run_def)

lemma with_plan_run_items_world:
  assumes "with_plan_run_items now ids body s user i = (res, s')"
  shows "s' = s \<or> (\<exists>items err items'. item_loop body items (pb_world s) = (err, items', pb_world s'))"
proof (cases "s' = s")
  case False
  then obtain r where r: "load_plan_run s user i = Inr r"
    using assms by (auto simp: with_plan_run_items_def Let_def res_bind_def split: sum.splits)
  obtain err items w' where l: "item_loop body (pr_items r) (pb_world s) = (err, items, w')"
    by (metis prod_cases3)
  have "pb_world s' = w'"
    using assms False r l get_test_plan_run_world
    by (fastforce simp: with_plan_run_items_def Let_def res_bind_def split: sum.splits option.splits)
  with l show ?thesis by blast
qed simp

section \<open>A concrete plan\<close>

definition ex_plan_item :: "int \<Rightarrow> bool \<Rightarrow> test_plan_item" where
  "ex_plan_item n on = \<lparr>pi_id = n, pi_sequence_no = n, pi_target_type = API_CASE, pi_target_name = ''case'',
     pi_case_id = Some n, pi_case_version_id = Some n, pi_scenario_id = None, pi_scenario_version_id = None,
     pi_web_case_id = None, pi_web_case_version_id = None, pi_enabled = on\<rparr>"

definition ex_plan :: test_plan where
  "ex_plan = \<lparr>pn_id = 1, pn_project_id = 1, pn_name = ''nightly'', pn_environment_id = 1, pn_runner_id = ''r1'',
     pn_runtime_variables = [], pn_status = PLAN_ACTIVE,
     pn_items = [ex_plan_item 1 True, ex_plan_item 2 False, ex_plan_item 3 True], pn_created_by = ''u1''\<rparr>"

definition ex_endpoint :: webhook_endpoint where
  "ex_endpoint = \<lparr>we_id = 1, we_project_id = 1, we_events = [webhook_event], we_enabled = True,
     we_active = True, we_max_attempts = 3\<rparr>"

definition ex_plan_db :: plan_db where
  "ex_plan_db = \<lparr>pb_world = ex_w0,
     pb_catalog = \<lparr>cg_environments = [\<lparr>ei_id = 1, ei_project_id = 1, ei_enabled = True\<rparr>], cg_cases = [],
       cg_case_versions = [], cg_scenarios = [], cg_scenario_versions = [], cg_web_cases = [],
       cg_web_case_versions = []\<rparr>,
     pb_plans = [ex_plan], pb_plan_runs = [], pb_endpoints = [ex_endpoint], pb_deliveries = []\<rparr>"

text \<open>The second Run of the plan gets the identifier of the first, so its creation fails.\<close>

definition ex_item_env :: "int \<Rightarrow> item_env" where
  "ex_item_env n = \<lparr>ie_create = ex_env 1, ie_dispatch = ex_env 2, ie_ids = ex_ids, ie_message_id = ''msg_1''\<rparr>"

definition ex_plan_start :: "plan_run_response multi_result" where
  "ex_plan_start = start_test_plan_run (ex_env 1) ex_item_env (\<lambda>_. ([], ex_target [])) (\<lambda>_. ''whd_1'')
     ''planrun_1'' ex_plan_db ex_user 1 PLAN_MANUAL None"

definition ex_plan_db1 :: plan_db where
  "ex_plan_db1 = snd ex_plan_start"

definition ex_plan_cancel :: "plan_run_response multi_result" where
  "ex_plan_cancel = cancel_test_plan_run (ex_env 5) (\<lambda>_. ''whd_1'') ex_plan_db1 ex_user ''planrun_1''"

definition ex_plan_db2 :: plan_db where
  "ex_plan_db2 = snd ex_plan_cancel"

lemma ex_plan_started:
  "map_sum id (\<lambda>r. (px_status r, px_total r, px_failed r, px_pending r, map ri_status (px_items r)))
     (fst ex_plan_start) = Inr (RUN_QUEUED, 2, 1, 1, [RUN_QUEUED, RUN_FAILED])"
  by code_simp

lemma ex_plan_cancelled:
  "map_sum id (\<lambda>r. (px_status r, px_total r, px_failed r, map ri_status (px_items r)))
     (fst ex_plan_cancel) = Inr (RUN_FAILED, 2, 2, [RUN_CANCELLED, RUN_FAILED])"
  by code_simp

section \<open>Properties\<close>

lemma start_test_plan_run_shape:
  assumes "start_test_plan_run e ies res ids i s u p tt sid = (x, s')"
  obtains (refused) err where "x = Inl err" "s' = s"
  | (started) plan err items w' where "get_plan s p = Some plan" "get_plan_run s i = None"
      "start_plan_items ies (environment_ok (pb_catalog s)) res u plan
         (zip (filter pi_enabled (pn_items plan)) (pr_items (new_plan_run (en_now e) u plan i tt sid)))
         (pb_world s) = (err, items, w')"
      "let plan_run = (new_plan_run (en_now e) u plan i tt sid);
           s2 = put_plan_run (s\<lparr>pb_plan_runs := pb_plan_runs s @ [plan_run], pb_world := w'\<rparr>)
                  (plan_run\<lparr>pr_items := items\<rparr>)
       in (\<exists>exc. (x, s') = (Inl exc, s2))
          \<or> (\<exists>resp. x = Inr resp \<and> err = None \<and> get_test_plan_run (en_now e) ids s2 u i = Inr (resp, s'))"
proof -
  let ?check = "res_bind (load_plan s u p) (\<lambda>plan.
            res_bind (get_project (w_db (pb_world s)) u (pn_project_id plan)) (\<lambda>project.
            res_bind (ensure_project_writable (w_db (pb_world s)) project u) (\<lambda>_.
            if pn_status plan \<noteq> PLAN_ACTIVE then Inl (ResourceConflictError ''plan archived'')
            else
              res_bind (validate_test_plan e res s u p) (\<lambda>results.
              if \<not> list_all (\<lambda>(_, issues). issues = []) results
              then Inl (RunValidationError (concat (map snd results)))
              else if get_plan_run s i \<noteq> None then Inl (InternalError ''IntegrityError'')
              else Inr plan))))"
  show thesis
  proof (cases ?check)
    case (Inl err)
    with assms have "x = Inl err" "s' = s" by (simp_all add: start_test_plan_run_def Let_def)
    then show thesis by (rule refused)
  next
    case (Inr plan)
    then have plan: "get_plan s p = Some plan" "get_plan_run s i = None"
      by (auto simp: res_simps load_plan_def split: if_splits)
    obtain err items w' where l: "start_plan_items ies (environment_ok (pb_catalog s)) res u plan
         (zip (filter pi_enabled (pn_items plan)) (pr_items (new_plan_run (en_now e) u plan i tt sid)))
         (pb_world s) = (err, items, w')" by (metis prod_cases3)
    show thesis
      by (rule started[OF plan l])
         (use assms Inr l in \<open>auto simp: start_test_plan_run_def Let_def split: option.splits sum.splits\<close>)
  qed
qed

lemma start_test_plan_run_path:
  assumes "start_test_plan_run e ies res ids i s u p tt sid = (x, s')" and "reachable (pb_world s)"
  shows "run_step\<^sup>*\<^sup>* (pb_world s) (pb_world s')"
  using assms(1)
proof (cases rule: start_test_plan_run_shape)
  case (started plan err items w')
  from started(4) have "pb_world s' = w'"
    by (auto simp: Let_def dest!: get_test_plan_run_world)
  with start_plan_items_path[OF started(3) assms(2)] show ?thesis by simp
qed simp


lemma ex_plan_reachable: "reachable (pb_world ex_plan_db)"
  by (rule reachable.init) (simp add: ex_plan_db_def initial_world_def ex_w0_def)


lemma count_if_all: "count_if P xs = int (length xs) \<longleftrightarrow> list_all P xs"
proof -
  have "count_if P xs = int (length xs) \<longleftrightarrow> length (filter P xs) = length xs" by (simp add: count_if_def)
  also have "\<dots> \<longleftrightarrow> list_all P xs" by (metis filter_id_conv length_filter_less list_all_iff less_irrefl)
  finally show ?thesis .
qed

lemma count_if_none: "count_if P xs = 0 \<longleftrightarrow> \<not> list_ex P xs"
  by (auto simp: count_if_def list_ex_iff filter_empty_conv)

lemma status_partition:
  "count_if (\<lambda>st. st = RUN_SUCCESS) sts + count_if (\<lambda>st. terminal_run_status st \<and> st \<noteq> RUN_SUCCESS) sts
     + count_if active_run_status sts + count_if (\<lambda>st. st = RUN_CREATED \<or> st = RUN_QUEUED) sts = int (length sts)"
proof (induction sts)
  case (Cons st sts)
  then show ?case by (cases st) (auto simp: count_if_def active_run_status_def)
qed (simp add: count_if_def)

lemma aggregate_nonterminal:
  assumes "\<not> list_all terminal_run_status sts"
  shows "aggregate_status sts = (if list_ex active_run_status sts then RUN_RUNNING
    else if list_ex (\<lambda>st. st = RUN_QUEUED) sts then RUN_QUEUED else RUN_CREATED)"
proof -
  have same: "terminal_run_status t \<Longrightarrow> \<not> list_all (\<lambda>st. st = t) sts" for t
    using assms by (auto simp: list_all_iff)
  show ?thesis
    using assms same[of RUN_SUCCESS] same[of RUN_CANCELLED] same[of RUN_TIMEOUT]
    by (simp add: aggregate_status_def)
qed

lemma aggregate_terminal: "terminal_run_status (aggregate_status sts) \<longleftrightarrow> list_all terminal_run_status sts"
  using aggregate_nonterminal[of sts] by (cases "list_all terminal_run_status sts") (simp_all add: aggregate_status_def)

lemma nonterminal_counts:
  "list_all terminal_run_status sts \<longleftrightarrow>
     count_if active_run_status sts = 0 \<and> count_if (\<lambda>st. st = RUN_CREATED \<or> st = RUN_QUEUED) sts = 0"
proof -
  have "terminal_run_status st \<longleftrightarrow> \<not> active_run_status st \<and> \<not> (st = RUN_CREATED \<or> st = RUN_QUEUED)" for st
    by (cases st) (auto simp: active_run_status_def)
  then show ?thesis unfolding count_if_none by (auto simp: list_all_iff list_ex_iff)
qed

text \<open>
  The summary of a plan run is consistent: every item is counted exactly once as passed, failed,
  running or pending; the plan run is finished exactly when nothing is running or pending, successful
  exactly when it has items and all passed, RUNNING exactly when some item is being executed, and its
  status is always one the database column admits.
\<close>

theorem plan_run_summary_consistent:
  "let x = fst (refresh_plan_run now ids s r) in
     px_total x = px_passed x + px_failed x + px_running x + px_pending x
     \<and> (terminal_run_status (px_status x) \<longleftrightarrow> px_running x = 0 \<and> px_pending x = 0)
     \<and> (px_status x = RUN_SUCCESS \<longleftrightarrow> 0 < px_total x \<and> px_passed x = px_total x)
     \<and> (px_status x = RUN_RUNNING \<longleftrightarrow> 0 < px_running x)
     \<and> px_status x \<notin> {RUN_ASSIGNED, RUN_CANCELLING}"
proof -
  define x where "x = fst (refresh_plan_run now ids s r)"
  define sts where "sts = map ri_status (map (refresh_item (pb_world s)) (pr_items r))"
  have x: "px_status x = aggregate_status sts" "px_total x = int (length sts)"
    "px_passed x = count_if (\<lambda>st. st = RUN_SUCCESS) sts"
    "px_failed x = count_if (\<lambda>st. terminal_run_status st \<and> st \<noteq> RUN_SUCCESS) sts"
    "px_running x = count_if active_run_status sts"
    "px_pending x = count_if (\<lambda>st. st = RUN_CREATED \<or> st = RUN_QUEUED) sts"
    unfolding x_def sts_def by (simp_all add: refresh_plan_run_def Let_def)
  have "aggregate_status sts = RUN_SUCCESS \<longleftrightarrow> sts \<noteq> [] \<and> list_all (\<lambda>st. st = RUN_SUCCESS) sts"
    by (auto simp: aggregate_status_def)
  moreover have "aggregate_status sts = RUN_RUNNING \<longleftrightarrow> list_ex active_run_status sts"
  proof -
    have "list_ex active_run_status sts \<Longrightarrow> \<not> list_all terminal_run_status sts"
      using nonterminal_counts[of sts] count_if_none[of active_run_status sts] by auto
    moreover have "aggregate_status sts = RUN_RUNNING \<Longrightarrow> list_ex active_run_status sts"
      by (simp add: aggregate_status_def split: if_splits)
    ultimately show ?thesis using aggregate_nonterminal[of sts] by auto
  qed
  moreover have "0 \<le> count_if active_run_status sts" by (simp add: count_if_def)
  then have "0 < count_if active_run_status sts \<longleftrightarrow> list_ex active_run_status sts"
    using count_if_none[of active_run_status sts] by linarith
  moreover have "aggregate_status sts \<notin> {RUN_ASSIGNED, RUN_CANCELLING}" by (simp add: aggregate_status_def)
  ultimately show ?thesis
    unfolding Let_def x_def[symmetric] x using status_partition[of sts] aggregate_terminal[of sts] nonterminal_counts[of sts]
      count_if_all[of "\<lambda>st. st = RUN_SUCCESS" sts] by simp
qed

section \<open>A finished plan run\<close>

lemma refresh_items_again:
  assumes "reachable w" and "run_step\<^sup>*\<^sup>* w w'"
    and "list_all terminal_run_status (map ri_status (map (refresh_item w) items))"
    and "list_all (\<lambda>item. \<forall>i. ri_run_id item = Some i \<longrightarrow> get_run w i \<noteq> None) items"
  shows "map (refresh_item w') (map (refresh_item w) items) = map (refresh_item w) items"
  unfolding map_map
proof (intro map_cong[OF refl], unfold o_apply)
  fix item assume item: "item \<in> set items"
  show "refresh_item w' (refresh_item w item) = refresh_item w item"
  proof (cases "Option.bind (ri_run_id item) (get_run w)")
    case None
    with item assms(4) have "ri_run_id item = None" by (cases "ri_run_id item") (auto simp: list_all_iff)
    then show ?thesis by (simp add: refresh_item_def)
  next
    case (Some r)
    then obtain i where i: "ri_run_id item = Some i" "get_run w i = Some r" by (cases "ri_run_id item") auto
    have upd: "refresh_item w item = item\<lparr>ri_status := tr_status r\<rparr>" using Some by (simp add: refresh_item_def)
    with item assms(3) have "terminal_run_status (tr_status r)" by (force simp: list_all_iff)
    moreover obtain r' where r': "get_run w' i = Some r'" "run_follows r r'"
      using path_follows[OF assms(2,1) i(2)] by blast
    ultimately have "tr_status r' = tr_status r" using edge_path_terminal by (auto simp: run_follows_def)
    with r' i upd show ?thesis by (simp add: refresh_item_def)
  qed
qed

text \<open>
  C38. A finished plan run is final: once its refreshed status is SUCCESS, FAILED, CANCELLED or
  TIMEOUT, refreshing it again after any further steps of the Runs gives the same status, counters
  and items, and the end time it got first is kept.
\<close>

theorem finished_plan_run_is_final:
  assumes "reachable (pb_world s)" and "refresh_plan_run now ids s r = (x, s1)"
    and "terminal_run_status (px_status x)"
    and "list_all (\<lambda>item. \<forall>i. ri_run_id item = Some i \<longrightarrow> get_run (pb_world s) i \<noteq> None) (pr_items r)"
    and "get_plan_run s (pr_id r) = Some r" and "run_step\<^sup>*\<^sup>* (pb_world s) w'"
  shows "\<exists>r1 s2 r2. get_plan_run s1 (pr_id r) = Some r1 \<and> pr_ended_at r1 \<noteq> None
    \<and> refresh_plan_run now' ids' (s1\<lparr>pb_world := w'\<rparr>) r1 = (x, s2)
    \<and> get_plan_run s2 (pr_id r) = Some r2 \<and> pr_ended_at r2 = pr_ended_at r1"
proof -
  define items where "items = map (refresh_item (pb_world s)) (pr_items r)"
  define r1 where "r1 = r\<lparr>pr_items := items, pr_status := aggregate_status (map ri_status items),
     pr_ended_at := (if pr_ended_at r = None then Some now else pr_ended_at r)\<rparr>"
  have x: "px_status x = aggregate_status (map ri_status items)"
    using assms(2) by (auto simp: refresh_plan_run_def Let_def items_def)
  with assms(3) aggregate_terminal have fin: "list_all terminal_run_status (map ri_status items)" by simp
  have s1: "s1 = enqueue_test_plan_run_webhooks now ids (put_plan_run s r1) r1"
    using assms(2) fin by (auto simp: refresh_plan_run_def Let_def items_def r1_def)
  have runs1: "pb_plan_runs (enqueue_test_plan_run_webhooks a b c d) = pb_plan_runs c" for a b c d
    by (simp add: enqueue_test_plan_run_webhooks_def Let_def)
  have get1: "get_plan_run s1 (pr_id r) = Some r1"
    using assms(5) get_put_plan_run[of s r1 "pr_id r"] unfolding s1
    by (simp add: get_plan_run_def runs1 r1_def)
  have again: "map (refresh_item w') items = items"
    using refresh_items_again[OF assms(1,6) _ assms(4)] fin unfolding items_def by simp
  define s2 where "s2 = snd (refresh_plan_run now' ids' (s1\<lparr>pb_world := w'\<rparr>) r1)"
  have "refresh_plan_run now' ids' (s1\<lparr>pb_world := w'\<rparr>) r1 = (x, s2)"
    using assms(2) again unfolding s2_def
    by (auto simp: refresh_plan_run_def Let_def items_def[symmetric] r1_def)
  moreover have "get_plan_run s2 (pr_id r) = Some r1"
  proof -
    have "s2 = enqueue_test_plan_run_webhooks now' ids' (put_plan_run (s1\<lparr>pb_world := w'\<rparr>) r1) r1"
      unfolding s2_def using again fin by (auto simp: refresh_plan_run_def Let_def r1_def)
    then show ?thesis
      using get_put_plan_run[of "s1\<lparr>pb_world := w'\<rparr>" r1 "pr_id r"] get1
      by (simp add: get_plan_run_def runs1 r1_def)
  qed
  ultimately show ?thesis using get1 by (auto simp: r1_def)
qed

lemma ex_plan_facts:
  "map pr_id (pb_plan_runs ex_plan_db2) = [''planrun_1'']"
  "map (map ri_run_id \<circ> pr_items) (pb_plan_runs ex_plan_db2) = [[Some ''run_1'', None]]"
  "map tr_id (w_runs (pb_world ex_plan_db2)) = [''run_1'']"
  "terminal_run_status (px_status (fst (refresh_plan_run 9 (\<lambda>_. []) ex_plan_db2 (hd (pb_plan_runs ex_plan_db2)))))"
  by code_simp+

theorem finished_plan_run_is_final_witness:
  "\<exists>r1 s2. refresh_plan_run 99 (\<lambda>_. []) (snd (refresh_plan_run 9 (\<lambda>_. []) ex_plan_db2 (hd (pb_plan_runs ex_plan_db2)))) r1
     = (fst (refresh_plan_run 9 (\<lambda>_. []) ex_plan_db2 (hd (pb_plan_runs ex_plan_db2))), s2)"
proof -
  let ?r = "hd (pb_plan_runs ex_plan_db2)" and ?res = "refresh_plan_run 9 (\<lambda>_. []) ex_plan_db2 (hd (pb_plan_runs ex_plan_db2))"
  have "ex_plan_start = (fst ex_plan_start, ex_plan_db1)" by (simp add: ex_plan_db1_def)
  then have "reachable (pb_world ex_plan_db1)"
    using start_test_plan_run_path ex_plan_reachable run_path_reachable unfolding ex_plan_start_def by blast
  moreover have "cancel_test_plan_run (ex_env 5) (\<lambda>_. ''whd_1'') ex_plan_db1 ex_user ''planrun_1'' = (fst ex_plan_cancel, ex_plan_db2)"
    by (simp add: ex_plan_db2_def ex_plan_cancel_def)
  ultimately have reach: "reachable (pb_world ex_plan_db2)"
    unfolding cancel_test_plan_run_def
    using with_plan_run_items_world cancel_loop.loop_path run_path_reachable by metis
  have get: "get_plan_run ex_plan_db2 (pr_id ?r) = Some ?r"
    using ex_plan_facts(1) by (cases "pb_plan_runs ex_plan_db2") (auto simp: get_plan_run_def get_row_def)
  have bound: "list_all (\<lambda>item. \<forall>i. ri_run_id item = Some i \<longrightarrow> get_run (pb_world ex_plan_db2) i \<noteq> None) (pr_items ?r)"
    using ex_plan_facts(1-3)
    by (cases "pb_plan_runs ex_plan_db2"; cases "w_runs (pb_world ex_plan_db2)")
       (auto simp: get_run_def get_row_def)
  have "snd ?res\<lparr>pb_world := pb_world ex_plan_db2\<rparr> = snd ?res" using refresh_plan_run_world by (metis plan_db.surjective plan_db.update_convs(1))
  with finished_plan_run_is_final[OF reach prod.collapse[symmetric] ex_plan_facts(4) bound get rtranclp.rtrancl_refl,
      where now' = 99 and ids' = "\<lambda>_. []"]
  show ?thesis by (metis (no_types, lifting))
qed

section \<open>Every item is accounted for\<close>

definition item_settled :: "int \<Rightarrow> world \<Rightarrow> plan_run_item \<Rightarrow> bool" where
  "item_settled project_id w item \<longleftrightarrow>
     (case ri_run_id item of
        None \<Rightarrow> ri_status item = RUN_FAILED \<and> ri_error_code item \<noteq> None
      | Some i \<Rightarrow> \<exists>run. get_run w i = Some run \<and> tr_project_id run = project_id)"

lemma item_settled_path:
  assumes "run_step\<^sup>*\<^sup>* w w'" "reachable w" "item_settled p w item"
  shows "item_settled p w' item"
  using assms(3) path_follows[OF assms(1,2)]
  by (fastforce simp: item_settled_def run_follows_def split: option.splits)

lemma create_run_stored:
  assumes "create_run e ok res ids w u p = Inr (run, w')"
  shows "get_run w' (tr_id run) = Some run" "tr_project_id run = rq_project_id p"
proof -
  obtain c t where new: "run = new_run e u p c t ids" and none: "get_run w (ni_run_id ids) = None"
    and w': "w' = publish_event e run None RUN_CREATED (first_case_id run) None (w\<lparr>w_runs := w_runs w @ [run]\<rparr>)"
    using assms by (auto simp: create_run_def res_simps Let_def split: if_splits prod.splits)
  then show "tr_project_id run = rq_project_id p" by (simp add: new_run_def)
  have "tr_id run = ni_run_id ids" by (simp add: new new_run_def)
  with none show "get_run w' (tr_id run) = Some run"
    unfolding w' by (simp add: get_run_def get_row_append) (simp add: get_row_def)
qed

lemma start_plan_item_settled:
  assumes "start_plan_item ie ok res u payload item w = (None, item', w')" and "reachable w"
    and "ri_run_id item = None"
  shows "ri_plan_item_id item' = ri_plan_item_id item" "item_settled (rq_project_id payload) w' item'"
proof -
  show "ri_plan_item_id item' = ri_plan_item_id item"
    using assms(1) by (auto simp: start_plan_item_def Let_def split: sum.splits prod.splits if_splits)
  show "item_settled (rq_project_id payload) w' item'"
  proof (cases "create_run (ie_create ie) ok res (ie_ids ie) w u payload")
    case (Inl err)
    with assms show ?thesis by (auto simp: start_plan_item_def item_settled_def split: if_splits)
  next
    case (Inr p)
    then obtain run w1 where c: "create_run (ie_create ie) ok res (ie_ids ie) w u payload = Inr (run, w1)"
      by (cases p) auto
    obtain r w2 where d: "dispatch_run_commits (ie_dispatch ie) (ie_message_id ie) w1 u (tr_id run) = (r, w2)"
      by (cases "dispatch_run_commits (ie_dispatch ie) (ie_message_id ie) w1 u (tr_id run)") auto
    have "reachable w1" using reachable.step[OF assms(2) run_step.create[OF c]] .
    with dispatch_run_commits_path[OF d] path_follows create_run_stored[OF c]
    have "\<exists>run'. get_run w2 (tr_id run) = Some run' \<and> tr_project_id run' = rq_project_id payload"
      by (fastforce simp: run_follows_def)
    moreover have "w' = w2" "ri_run_id item' = Some (tr_id run)"
      using assms(1) c d by (auto simp: start_plan_item_def Let_def split: sum.splits if_splits)
    ultimately show ?thesis by (simp add: item_settled_def)
  qed
qed

lemma start_plan_items_settled:
  "start_plan_items ies ok res u plan zs w = (None, items, w') \<Longrightarrow> reachable w \<Longrightarrow>
   (\<And>z. z \<in> set zs \<Longrightarrow> ri_run_id (snd z) = None) \<Longrightarrow>
   map ri_plan_item_id items = map (ri_plan_item_id \<circ> snd) zs \<and> list_all (item_settled (pn_project_id plan) w') items"
proof (induction zs arbitrary: w items w')
  case (Cons z zs)
  obtain pi ri where z: "z = (pi, ri)" by (cases z) auto
  obtain err1 item1 w1 where b: "start_plan_item (ies (pi_sequence_no pi)) ok res u (item_run_payload plan pi) ri w
      = (err1, item1, w1)" by (metis prod_cases3)
  obtain err2 items2 w2 where l: "start_plan_items ies ok res u plan zs w1 = (err2, items2, w2)"
    by (metis prod_cases3)
  have none: "err1 = None" and rest: "err2 = None" "items = item1 # items2" "w' = w2"
    using Cons.prems(1) b l z by (cases err1; simp)+
  note b = b[unfolded none] and l = l[unfolded rest(1)]
  have reach: "reachable w1" using run_path_reachable[OF start_plan_item_path[OF b] ] Cons.prems(2) by blast
  have ri: "ri_run_id ri = None" using Cons.prems(3)[of z] z by simp
  note s1 = start_plan_item_settled[OF b Cons.prems(2) ri]
  have "item_settled (pn_project_id plan) w' item1"
    using item_settled_path[OF start_plan_items_path[OF l reach] reach] s1(2) rest(3)
    by (simp add: item_run_payload_def)
  with Cons.IH[OF l reach] Cons.prems(3) s1(1) rest z show ?case by auto
qed simp

text \<open>
  A started plan run accounts for every enabled item of its plan, in order: the item either has a
  Run of the plan's project, whose status it shows, or it failed and records why. An error of one
  item does not stop the others.
\<close>

theorem started_plan_run_accounts_for_every_item:
  assumes "reachable (pb_world s)"
    and "start_test_plan_run e ies res ids i s u p tt sid = (Inr x, s')"
  shows "\<exists>plan. get_plan s p = Some plan
    \<and> map ri_plan_item_id (px_items x) = map pi_id (filter pi_enabled (pn_items plan))
    \<and> list_all (\<lambda>item. item_settled (pn_project_id plan) (pb_world s') item
         \<and> (\<forall>k run. ri_run_id item = Some k \<longrightarrow> get_run (pb_world s') k = Some run \<longrightarrow> ri_status item = tr_status run))
        (px_items x)"
  using assms(2)
proof (cases rule: start_test_plan_run_shape)
  case (started plan err items w')
  define r where "r = new_plan_run (en_now e) u plan i tt sid"
  let ?s2 = "put_plan_run (s\<lparr>pb_plan_runs := pb_plan_runs s @ [r], pb_world := w'\<rparr>) (r\<lparr>pr_items := items\<rparr>)"
  have err: "err = None" and resp: "get_test_plan_run (en_now e) ids ?s2 u i = Inr (x, s')"
    using started(4) unfolding r_def[symmetric] by (auto simp: Let_def)
  have w': "pb_world s' = w'" using get_test_plan_run_world[OF resp] by simp
  have new: "ri_run_id (snd z) = None" if "z \<in> set (zip (filter pi_enabled (pn_items plan)) (pr_items r))" for z
  proof -
    from that have "snd z \<in> set (pr_items r)" by (metis prod.collapse set_zip_rightD)
    then show ?thesis by (auto simp: r_def new_plan_run_def)
  qed
  note settled = start_plan_items_settled[OF started(3)[unfolded err r_def[symmetric]] assms(1) new]
  have "map (ri_plan_item_id \<circ> snd) (zip (filter pi_enabled (pn_items plan)) (pr_items r))
      = map pi_id (filter pi_enabled (pn_items plan))"
    unfolding map_map[symmetric] map_snd_zip_take r_def new_plan_run_def by simp
  with settled have ids: "map ri_plan_item_id items = map pi_id (filter pi_enabled (pn_items plan))" by simp
  obtain r1 where r1: "get_plan_run ?s2 i = Some r1" and x: "x = fst (refresh_plan_run (en_now e) ids ?s2 r1)"
    using resp by (auto simp: get_test_plan_run_def load_plan_run_def res_simps dest!: arg_cong[of _ _ fst])
  have "pr_id r = i" by (simp add: r_def new_plan_run_def)
  then have "r1 = r\<lparr>pr_items := items\<rparr>"
  proof -
    have "get_plan_run (s\<lparr>pb_plan_runs := pb_plan_runs s @ [r], pb_world := w'\<rparr>) i = Some r"
      using started(2) \<open>pr_id r = i\<close> by (simp add: get_plan_run_def get_row_append) (simp add: get_row_def)
    with r1 \<open>pr_id r = i\<close> show ?thesis by (simp add: get_put_plan_run)
  qed
  then have items: "px_items x = map (refresh_item w') items"
    unfolding x by (simp add: refresh_plan_run_def Let_def)
  have "item_settled (pn_project_id plan) w' (refresh_item w' item)
      \<and> (\<forall>k run. ri_run_id (refresh_item w' item) = Some k \<longrightarrow> get_run w' k = Some run \<longrightarrow>
           ri_status (refresh_item w' item) = tr_status run)" if "item \<in> set items" for item
    using settled that
    by (auto simp: list_all_iff item_settled_def refresh_item_def split: option.splits bind_splits)
  moreover have "ri_plan_item_id (refresh_item w' item) = ri_plan_item_id item" for item
    by (simp add: refresh_item_def split: option.splits)
  ultimately show ?thesis
    using ids started(1) unfolding items w' by (auto simp: list_all_iff comp_def)
qed simp

theorem started_plan_run_accounts_for_every_item_witness:
  "\<exists>x. fst ex_plan_start = Inr x \<and> map ri_plan_item_id (px_items x) = [1, 3]
     \<and> list_all (item_settled 1 (pb_world ex_plan_db1)) (px_items x)"
proof -
  obtain x where x: "fst ex_plan_start = Inr x" using ex_plan_started by (cases "fst ex_plan_start") auto
  then have "ex_plan_start = (Inr x, ex_plan_db1)" unfolding ex_plan_db1_def by (metis prod.collapse)
  then have run: "start_test_plan_run (ex_env 1) ex_item_env (\<lambda>_. ([], ex_target [])) (\<lambda>_. ''whd_1'')
     ''planrun_1'' ex_plan_db ex_user 1 PLAN_MANUAL None = (Inr x, ex_plan_db1)"
    unfolding ex_plan_start_def .
  have "get_plan ex_plan_db 1 = Some ex_plan" "map pi_id (filter pi_enabled (pn_items ex_plan)) = [1, 3]"
    "pn_project_id ex_plan = 1" by code_simp+
  with started_plan_run_accounts_for_every_item[OF ex_plan_reachable run] x
  show ?thesis by (auto simp: list_all_iff)
qed

end
