(* ===== verification/Webhook_Guarantees.thy ===== *)
theory Webhook_Guarantees
  imports Plan_Guarantees
begin

text \<open>
  What the webhook outbox guarantees. \<open>webhook_step\<close> is one transaction on the delivery table: the
  outbox write of a finished plan run, the two phases of sending, and the manual retry. Senders may
  overlap, so the second phase of one attempt may come after the first phase of the next.
\<close>

section \<open>The delivery table\<close>

inductive webhook_step :: "plan_db \<Rightarrow> plan_db \<Rightarrow> bool" where
  enqueue: "s' = enqueue_test_plan_run_webhooks now ids s r \<Longrightarrow> webhook_step s s'"
| send: "delivery_begin now s i = Inr (p, s') \<Longrightarrow> webhook_step s s'"
| finish: "delivery_finish now s i outcome = Inr (d, s') \<Longrightarrow> webhook_step s s'"
| retry: "retry_webhook_delivery now s u i = Inr s' \<Longrightarrow> webhook_step s s'"

definition delivery_key :: "webhook_delivery \<Rightarrow> int \<times> string" where
  "delivery_key d = (wd_endpoint_id d, wd_event_id d)"

text \<open>The part of a delivery that is fixed when it is written.\<close>

definition delivery_content :: "webhook_delivery \<Rightarrow> string \<times> int \<times> string \<times> run_status \<times> int \<times> int \<times> int" where
  "delivery_content d = (wd_id d, wd_endpoint_id d, wd_event_id d, wd_plan_run_status d, wd_total d, wd_passed d, wd_failed d)"

definition webhook_inv :: "plan_db \<Rightarrow> bool" where
  "webhook_inv s \<longleftrightarrow> distinct (map we_id (pb_endpoints s)) \<and> distinct (map delivery_key (pb_deliveries s))"

lemma put_row_map:
  "get_row key rows (key r') = Some r \<Longrightarrow> f r' = f r \<Longrightarrow> map f (put_row key r' rows) = map f rows"
  by (induction rows) (auto simp: get_row_def split: if_splits)

lemma put_delivery_content:
  assumes "get_delivery s (wd_id d') = Some d" and "delivery_content d' = delivery_content d"
  shows "map delivery_content (pb_deliveries (put_delivery s d')) = map delivery_content (pb_deliveries s)"
  using put_row_map[where f = delivery_content, OF _ assms(2)] assms(1)
  by (simp add: put_delivery_def get_delivery_def)

lemma keys_of_content: "map delivery_key ds = map (\<lambda>(_, e, v, _). (e, v)) (map delivery_content ds)"
  by (simp add: delivery_key_def delivery_content_def)

definition due_endpoints :: "webhook_delivery list \<Rightarrow> test_plan_run \<Rightarrow> webhook_endpoint list \<Rightarrow> webhook_endpoint list" where
  "due_endpoints ds r es = filter (\<lambda>e. webhook_event \<in> set (we_events e)
     \<and> \<not> delivery_exists ds (we_id e) (plan_run_event_id (pr_id r))) es"

lemma new_deliveries_map:
  "new_deliveries now ids ds r es = map (\<lambda>e. new_delivery now (ids (we_id e)) e r) (due_endpoints ds r es)"
  by (induction es) (auto simp: due_endpoints_def)

lemma new_deliveries_keys:
  "map delivery_key (new_deliveries now ids ds r es)
     = map (\<lambda>e. (we_id e, plan_run_event_id (pr_id r))) (due_endpoints ds r es)"
  by (simp add: new_deliveries_map delivery_key_def new_delivery_def Let_def)

lemma delivery_exists_key: "delivery_exists ds e v \<longleftrightarrow> (e, v) \<in> set (map delivery_key ds)"
  by (auto simp: delivery_exists_def list_ex_iff delivery_key_def)

lemma enqueue_keeps:
  assumes "webhook_inv s"
  shows "webhook_inv (enqueue_test_plan_run_webhooks now ids s r)"
    "\<exists>ds. pb_deliveries (enqueue_test_plan_run_webhooks now ids s r) = pb_deliveries s @ ds"
proof -
  let ?es = "filter (\<lambda>e. we_project_id e = pr_project_id r \<and> we_active e \<and> we_enabled e) (pb_endpoints s)"
  let ?due = "due_endpoints (pb_deliveries s) r ?es"
  have "distinct (map we_id ?due)"
    using assms by (simp add: webhook_inv_def due_endpoints_def distinct_map_filter)
  then have "distinct (map (\<lambda>e. (we_id e, plan_run_event_id (pr_id r))) ?due)"
    by (simp add: distinct_map inj_on_def)
  moreover have "(we_id e, plan_run_event_id (pr_id r)) \<notin> set (map delivery_key (pb_deliveries s))"
    if "e \<in> set ?due" for e using that by (simp add: due_endpoints_def delivery_exists_key)
  ultimately have "distinct (map delivery_key (pb_deliveries s @ new_deliveries now ids (pb_deliveries s) r ?es))"
    unfolding map_append new_deliveries_keys using assms by (auto simp: webhook_inv_def)
  with assms show "webhook_inv (enqueue_test_plan_run_webhooks now ids s r)"
    by (simp add: webhook_inv_def enqueue_test_plan_run_webhooks_def Let_def)
  show "\<exists>ds. pb_deliveries (enqueue_test_plan_run_webhooks now ids s r) = pb_deliveries s @ ds"
    by (simp add: enqueue_test_plan_run_webhooks_def Let_def)
qed

lemma delivery_phase_shape:
  "delivery_begin now s i = Inr (p, s') \<Longrightarrow>
     s' = s \<or> (\<exists>d d'. s' = put_delivery s d' \<and> get_delivery s i = Some d \<and> delivery_content d' = delivery_content d)"
  "delivery_finish now s i outcome = Inr (d1, s') \<Longrightarrow>
     \<exists>d d'. s' = put_delivery s d' \<and> get_delivery s i = Some d \<and> delivery_content d' = delivery_content d"
  "retry_webhook_delivery now s u i = Inr s' \<Longrightarrow>
     \<exists>d d'. s' = put_delivery s d' \<and> get_delivery s i = Some d \<and> delivery_content d' = delivery_content d"
  by (auto simp: delivery_begin_def delivery_finish_def retry_webhook_delivery_def Let_def delivery_content_def res_simps
      split: option.splits if_splits prod.splits)

lemma webhook_step_keeps:
  assumes "webhook_step s s'" and inv: "webhook_inv s"
  shows "webhook_inv s' \<and> (\<exists>ds. map delivery_content (pb_deliveries s') = map delivery_content (pb_deliveries s) @ ds)"
proof -
  have put: "webhook_inv (put_delivery s d') \<and> map delivery_content (pb_deliveries (put_delivery s d')) =
      map delivery_content (pb_deliveries s)"
    if "get_delivery s i = Some d" "delivery_content d' = delivery_content d" for i d d'
  proof -
    have "get_delivery s (wd_id d') = Some d" using that get_delivery_id by (auto simp: delivery_content_def)
    from put_delivery_content[OF this that(2)] inv show ?thesis
      unfolding webhook_inv_def keys_of_content by (simp add: put_delivery_def)
  qed
  from assms(1) show ?thesis
  proof cases
    case (enqueue now ids r)
    with enqueue_keeps[OF inv] show ?thesis by (metis map_append)
  next
    case (send now i p)
    with delivery_phase_shape(1)[OF this] put inv show ?thesis by (metis append_Nil2)
  next
    case (finish now i outcome d)
    with delivery_phase_shape(2)[OF this] put show ?thesis by (metis append_Nil2)
  next
    case (retry now u i)
    with delivery_phase_shape(3)[OF this] put show ?thesis by (metis append_Nil2)
  qed
qed

lemma enqueue_again:
  "enqueue_test_plan_run_webhooks now' ids' (enqueue_test_plan_run_webhooks now ids s r) r
    = enqueue_test_plan_run_webhooks now ids s r"
proof -
  have "due_endpoints (ds @ new_deliveries now ids ds r es) r es = []" for ds es
    unfolding due_endpoints_def delivery_exists_key map_append new_deliveries_keys filter_empty_conv
    by (auto simp: due_endpoints_def delivery_exists_key)
  then show ?thesis
    by (simp add: enqueue_test_plan_run_webhooks_def Let_def new_deliveries_map[of now'])
qed

section \<open>Properties\<close>

text \<open>
  C39. The webhook outbox records every event once: whatever enqueueing, sending, completing and
  retrying happens in whatever order, there is at most one delivery per endpoint and event, a
  delivery once written keeps its content, and reporting the same finished plan run again adds
  nothing.
\<close>

theorem webhook_outbox_records_each_event_once:
  assumes "webhook_inv s" and "webhook_step\<^sup>*\<^sup>* s s'"
  shows "webhook_inv s'
    \<and> (\<exists>ds. map delivery_content (pb_deliveries s') = map delivery_content (pb_deliveries s) @ ds)
    \<and> enqueue_test_plan_run_webhooks now' ids' (enqueue_test_plan_run_webhooks now ids s' r) r
        = enqueue_test_plan_run_webhooks now ids s' r"
proof -
  from assms(2) have "webhook_inv s'
    \<and> (\<exists>ds. map delivery_content (pb_deliveries s') = map delivery_content (pb_deliveries s) @ ds)"
  proof (induction rule: rtranclp_induct)
    case (step s1 s2)
    with webhook_step_keeps[OF step(2)] show ?case by (metis append.assoc)
  qed (use assms(1) in simp)
  with enqueue_again show ?thesis by blast
qed

definition ex_sent :: plan_db where
  "ex_sent = (case delivery_begin 10 ex_plan_db2 ''whd_1'' of Inr (_, s) \<Rightarrow> s | Inl _ \<Rightarrow> ex_plan_db2)"

lemma ex_webhook_facts:
  "map we_id (pb_endpoints ex_plan_db2) = [1]" "length (pb_deliveries ex_plan_db2) = 1"
  "\<not> isl (delivery_begin 10 ex_plan_db2 ''whd_1'')"
  "map (\<lambda>d. (wd_id d, wd_status d, wd_attempt_count d, wd_next_attempt_at d, wd_endpoint_id d, wd_last_attempt_at d))
     (pb_deliveries ex_sent) = [(''whd_1'', DELIVERY_SENDING, 1, 5, 1, Some 10)]"
  "map_option (\<lambda>e. (we_active e, we_enabled e, we_max_attempts e)) (get_endpoint ex_sent 1) = Some (True, True, 3)"
  by code_simp+

theorem webhook_outbox_records_each_event_once_witness:
  "webhook_inv ex_plan_db2 \<and> webhook_inv ex_sent"
proof -
  have inv: "webhook_inv ex_plan_db2"
    using ex_webhook_facts(1,2) by (cases "pb_deliveries ex_plan_db2") (auto simp: webhook_inv_def)
  obtain p s where ps: "delivery_begin 10 ex_plan_db2 ''whd_1'' = Inr (p, s)"
    using ex_webhook_facts(3) by (cases "delivery_begin 10 ex_plan_db2 ''whd_1''") auto
  then have "webhook_step ex_plan_db2 ex_sent" using webhook_step.send by (simp add: ex_sent_def)
  with webhook_outbox_records_each_event_once[OF inv r_into_rtranclp] inv show ?thesis by blast
qed

lemma retry_delay_bounds:
  assumes "1 \<le> n"
  shows "seconds 30 \<le> retry_delay n \<and> retry_delay n \<le> seconds 900"
proof -
  have "(1::int) \<le> 2 ^ nat (n - 1)" by simp
  then have "seconds 30 * 1 \<le> seconds 30 * 2 ^ nat (n - 1)" by (intro mult_left_mono) (simp_all add: seconds_def)
  then show ?thesis using assms by (simp add: retry_delay_def seconds_def)
qed

text \<open>
  A completed attempt ends as SUCCEEDED exactly for a 2xx answer. Otherwise it is scheduled again only
  while fewer than the allowed number of attempts have been made, no sooner than 30 seconds and no
  later than 15 minutes after the failure, or it ends as FAILED.
\<close>

theorem webhook_retries_are_limited_and_spaced:
  assumes "delivery_finish now s i outcome = Inr (d, s')"
    and "get_endpoint s (wd_endpoint_id d) = Some endpoint" and "1 \<le> wd_attempt_count d"
  shows "(wd_status d = DELIVERY_SUCCEEDED \<longleftrightarrow> (\<exists>c. outcome = SendResponse c \<and> 200 \<le> c \<and> c < 300))
    \<and> (wd_status d = DELIVERY_RETRY \<longrightarrow> wd_attempt_count d < we_max_attempts endpoint
         \<and> now + seconds 30 \<le> wd_next_attempt_at d \<and> wd_next_attempt_at d \<le> now + seconds 900)
    \<and> wd_status d \<in> {DELIVERY_SUCCEEDED, DELIVERY_RETRY, DELIVERY_FAILED}"
proof -
  obtain d0 where d0: "get_delivery s i = Some d0" using assms(1)
    by (auto simp: delivery_finish_def split: option.splits)
  have same: "wd_endpoint_id d = wd_endpoint_id d0" "wd_attempt_count d = wd_attempt_count d0"
    using assms(1) d0 by (auto simp: delivery_finish_def Let_def split: option.splits)
  show ?thesis
  proof (cases "send_error outcome")
    case None
    with assms d0 same show ?thesis
      by (auto simp: delivery_finish_def Let_def send_error_def split: send_outcome.splits if_splits)
  next
    case (Some p)
    obtain code retryable where p: "p = (code, retryable)" by (cases p) auto
    from Some p have "\<not> (\<exists>c. outcome = SendResponse c \<and> 200 \<le> c \<and> c < 300)"
      by (auto simp: send_error_def)
    with assms d0 same Some p retry_delay_bounds[OF assms(3)] show ?thesis
      by (cases "retryable \<and> wd_attempt_count d0 < we_max_attempts endpoint")
         (auto simp: delivery_finish_def Let_def)
  qed
qed

lemma ex_sent_delivery:
  obtains d endpoint where "get_delivery ex_sent ''whd_1'' = Some d" "wd_status d = DELIVERY_SENDING"
    "wd_attempt_count d = 1" "wd_next_attempt_at d = 5" "wd_endpoint_id d = 1" "wd_last_attempt_at d = Some 10"
    "get_endpoint ex_sent 1 = Some endpoint" "we_active endpoint" "we_enabled endpoint" "we_max_attempts endpoint = 3"
  using ex_webhook_facts(4,5) that
  by (cases "pb_deliveries ex_sent") (auto simp: get_delivery_def get_row_def)

theorem webhook_retries_are_limited_and_spaced_witness:
  "\<exists>d s'. delivery_finish 20 ex_sent ''whd_1'' (SendResponse 503) = Inr (d, s')
     \<and> wd_status d = DELIVERY_RETRY \<and> wd_next_attempt_at d \<le> 20 + seconds 900"
proof -
  obtain d endpoint where d: "get_delivery ex_sent ''whd_1'' = Some d" "wd_attempt_count d = 1" "wd_endpoint_id d = 1"
    and endpoint: "get_endpoint ex_sent 1 = Some endpoint" "we_max_attempts endpoint = 3"
    by (rule ex_sent_delivery) blast
  then obtain d' s' where fin: "delivery_finish 20 ex_sent ''whd_1'' (SendResponse 503) = Inr (d', s')"
    and d': "wd_status d' = DELIVERY_RETRY" "wd_attempt_count d' = 1" "wd_endpoint_id d' = 1"
    by (simp add: delivery_finish_def send_error_def Let_def)
  with webhook_retries_are_limited_and_spaced[OF fin, of endpoint] endpoint(1) show ?thesis by auto
qed

section \<open>Attempts without limit\<close>

fun crashing_sends :: "nat \<Rightarrow> datetime \<Rightarrow> plan_db \<Rightarrow> string \<Rightarrow> plan_db" where
  "crashing_sends 0 now s i = s"
| "crashing_sends (Suc n) now s i =
     crashing_sends n (now + sending_lease) (snd (dispatch_webhook_delivery now now (\<lambda>_ _. None) s i)) i"

text \<open>
  The limit of attempts does not hold for a sender that raises an unexpected exception, for example
  because the stored URL cannot be decrypted: the row stays SENDING, is picked up again when its
  lease has run out, and is sent once more however many attempts were made and were allowed.
\<close>

theorem crashing_delivery_is_sent_without_limit:
  assumes "get_delivery s i = Some d" and "wd_status d = DELIVERY_SENDING" and "wd_last_attempt_at d = Some t"
    and "wd_next_attempt_at d \<le> t + sending_lease" and "get_endpoint s (wd_endpoint_id d) = Some endpoint"
    and "we_active endpoint" and "we_enabled endpoint"
  shows "\<exists>d'. get_delivery (crashing_sends n (t + sending_lease) s i) i = Some d'
    \<and> wd_attempt_count d' = wd_attempt_count d + int n"
  using assms
proof (induction n arbitrary: s d t)
  case (Suc n)
  let ?now = "t + sending_lease"
  let ?d = "d\<lparr>wd_status := DELIVERY_SENDING, wd_attempt_count := wd_attempt_count d + 1, wd_last_attempt_at := Some ?now\<rparr>"
  let ?s = "put_delivery s ?d"
  have stale: "stale_sending ?now d" using Suc.prems by (simp add: stale_sending_def)
  have id: "wd_id d = i" using Suc.prems(1) by (rule get_delivery_id)
  have "snd (dispatch_webhook_delivery ?now ?now (\<lambda>_ _. None) s i) = ?s"
    using Suc.prems stale by (simp add: dispatch_webhook_delivery_def delivery_begin_def Let_def)
  moreover have "get_delivery ?s i = Some ?d" using Suc.prems(1) id by (simp add: get_put_delivery)
  moreover have "get_endpoint ?s (wd_endpoint_id ?d) = Some endpoint"
    using Suc.prems(5) by (simp add: get_endpoint_def put_delivery_def)
  moreover have "wd_next_attempt_at ?d \<le> ?now + sending_lease"
    using Suc.prems(4) by (simp add: sending_lease_def seconds_def)
  ultimately show ?case using Suc.IH[of ?s ?d ?now] Suc.prems(6,7) by (simp add: add.assoc)
qed simp

theorem crashing_delivery_is_sent_without_limit_witness:
  "\<exists>d'. get_delivery (crashing_sends 1000 (10 + sending_lease) ex_sent ''whd_1'') ''whd_1'' = Some d'
     \<and> wd_attempt_count d' = 1001"
proof -
  obtain d endpoint where d: "get_delivery ex_sent ''whd_1'' = Some d" "wd_status d = DELIVERY_SENDING"
    "wd_attempt_count d = 1" "wd_next_attempt_at d = 5" "wd_endpoint_id d = 1" "wd_last_attempt_at d = Some 10"
    and endpoint: "get_endpoint ex_sent 1 = Some endpoint" "we_active endpoint" "we_enabled endpoint"
    by (rule ex_sent_delivery) blast
  from crashing_delivery_is_sent_without_limit[OF d(1,2,6) _ _ endpoint(2,3), of 1000] d(3-5) endpoint(1)
  show ?thesis by (simp add: sending_lease_def seconds_def)
qed

end
