(* ===== verification/Schedule_Guarantees.thy ===== *)
theory Schedule_Guarantees
  imports Schedule_Calendar
begin

text \<open>
  What the calendar of the scheduler guarantees: the next occurrence is the first one, the search
  horizon of eight years is enough, and Cron expressions can be printed and parsed back.
\<close>

section \<open>A concrete zone\<close>

text \<open>China standard time, the default zone of a schedule: eight hours ahead of UTC all year.\<close>

definition shanghai :: zone where
  "shanghai = \<lparr>z_to_utc = (\<lambda>l. l - 28800000000), z_from_utc = (\<lambda>t. t + 28800000000)\<rparr>"

definition ex_zones :: zone_database where
  "ex_zones name = (if name = ''Asia/Shanghai'' then Some shanghai else None)"

definition ex_rule :: "string \<Rightarrow> schedule_rule" where
  "ex_rule cron = \<lparr>sr_type = ''CRON'', sr_timezone = ''Asia/Shanghai'', sr_daily_time = None,
     sr_weekdays = None, sr_cron_expression = Some cron\<rparr>"

lemma shanghai_laws: "zone_lawful shanghai" "short_folds shanghai" "times_never_skipped shanghai ts"
  by (simp_all add: zone_lawful_def short_folds_def times_never_skipped_def wall_exists_def shanghai_def
      day_micros_def)

lemma search_days_code [code]:
  "search_days z after_utc day_ok ts day n =
     (if n = 0 then Inl (ScheduleExpressionError ''no occurrence in 8 years'')
      else if day > max_date then Inl OverflowError
      else if \<not> day_ok day then search_days z after_utc day_ok ts (day + 1) (n - 1)
      else (case search_times z after_utc day ts of
              Some candidate \<Rightarrow> Inr candidate
            | None \<Rightarrow> search_days z after_utc day_ok ts (day + 1) (n - 1)))"
  by (cases n) (simp_all split: option.split)

section \<open>The first occurrence\<close>

lemma next_occurrence_search:
  assumes "zoneinfo (py_strip (sr_timezone rule)) = Some z" and "rule_plan rule = Inr (day_ok, ts)"
  shows "next_occurrence zoneinfo rule after
    = search_days z after day_ok ts (dt_date (z_from_utc z after)) search_horizon"
  using assms by (simp add: next_occurrence_def validate_timezone_def Let_def)

text \<open>
  C34. The calculated run time is the first one: it lies strictly after the given instant, its local
  wall-clock reading is on a day and at a time the rule allows, and no such instant lies between.
\<close>

theorem next_occurrence_is_first:
  assumes "zoneinfo (py_strip (sr_timezone rule)) = Some z" and "zone_lawful z"
    and "rule_plan rule = Inr (day_ok, ts)" and "next_occurrence zoneinfo rule after = Inr t"
  shows "after < t \<and> occurrence z day_ok ts t
    \<and> (\<forall>t'. after < t' \<longrightarrow> occurrence z day_ok ts t' \<longrightarrow> t \<le> t')"
proof -
  from assms have "search_days z after day_ok ts (dt_date (z_from_utc z after)) search_horizon = Inr t"
    using next_occurrence_search[of zoneinfo rule z] by simp
  from search_first_occurrence[OF assms(2) rule_plan_times_ok[OF assms(3)] this] show ?thesis by blast
qed

text \<open>Friday 2026-01-02 10:00 UTC; working days at 09:30 local time: Monday 2026-01-05 01:30 UTC.\<close>

theorem next_occurrence_is_first_witness:
  "combine (ymd2ord 2026 1 2) (time_of 10 0) < combine (ymd2ord 2026 1 5) (time_of 1 30)
   \<and> dt_time (z_from_utc shanghai (combine (ymd2ord 2026 1 5) (time_of 1 30))) = time_of 9 30"
proof -
  have found: "next_occurrence ex_zones (ex_rule ''30 9 * * 1-5'') (combine (ymd2ord 2026 1 2) (time_of 10 0))
    = Inr (combine (ymd2ord 2026 1 5) (time_of 1 30))" by code_simp
  have zone: "ex_zones (py_strip (sr_timezone (ex_rule ''30 9 * * 1-5''))) = Some shanghai"
    by (simp add: ex_zones_def ex_rule_def py_strip_def py_space_code)
  have "\<not> isl (rule_plan (ex_rule ''30 9 * * 1-5''))"
    and "map_sum id snd (rule_plan (ex_rule ''30 9 * * 1-5'')) = Inr [time_of 9 30]" by code_simp+
  then obtain day_ok where "rule_plan (ex_rule ''30 9 * * 1-5'') = Inr (day_ok, [time_of 9 30])"
    by (cases "rule_plan (ex_rule ''30 9 * * 1-5'')") auto
  from next_occurrence_is_first[OF zone shanghai_laws(1) this found]
  show ?thesis by (simp add: occurrence_def)
qed

section \<open>Eight years suffice\<close>

lemma rule_day_exists:
  assumes "rule_plan rule = Inr (day_ok, ts)"
    and "sr_type rule = ''CRON'' \<longrightarrow>
      (\<exists>c. parse_cron (case sr_cron_expression rule of None \<Rightarrow> '''' | Some c \<Rightarrow> c) = Inr c \<and> cron_satisfiable c)"
  shows "\<exists>d. n \<le> d \<and> d < n + 2922 \<and> day_ok d"
  using assms(1)
proof (cases rule: rule_plan_cases)
  case daily
  then show ?thesis by (intro exI[of _ n]) simp
next
  case (weekly t ws)
  then have w: "1 \<le> hd ws" "hd ws \<le> 7" "hd ws \<in> set ws" by (cases ws; simp)+
  obtain d where d: "n \<le> d" "d < n + 7" "d mod 7 = (if hd ws = 7 then 0 else hd ws)"
    by (rule weekday_comes_back[of "if hd ws = 7 then 0 else hd ws" n]) (use w in auto)
  then have "isoweekday d = hd ws" using w by (auto simp: isoweekday_def split: if_splits)
  with d w(3) weekly(6) show ?thesis by (intro exI[of _ d]) simp
next
  case (cron c)
  with assms(2) have "cron_satisfiable c" by simp
  from cron_day_exists[OF parse_cron_cron_ok[OF cron(2)] this, of n] cron(3) show ?thesis by blast
qed

lemma next_occurrence_found_iff:
  assumes zone: "zoneinfo (py_strip (sr_timezone rule)) = Some z" and lawful: "zone_lawful z"
    and short: "short_folds z" and plan: "rule_plan rule = Inr (day_ok, ts)"
    and never: "times_never_skipped z ts"
    and range: "dt_date (z_from_utc z after) + int search_horizon \<le> max_date"
  shows "(\<exists>t. next_occurrence zoneinfo rule after = Inr t) \<longleftrightarrow>
    (sr_type rule = ''CRON'' \<longrightarrow>
      (\<exists>c. parse_cron (case sr_cron_expression rule of None \<Rightarrow> '''' | Some c \<Rightarrow> c) = Inr c \<and> cron_satisfiable c))"
    (is "?found \<longleftrightarrow> ?sat")
proof
  let ?first = "dt_date (z_from_utc z after)"
  have search: "next_occurrence zoneinfo rule after = search_days z after day_ok ts ?first search_horizon"
    using next_occurrence_search[of zoneinfo rule z] zone plan by simp
  note ts = rule_plan_times_ok[OF plan]
  { assume ?sat
    from rule_day_exists[OF plan this, of "?first + 2"] obtain d
      where "?first + 2 \<le> d" "d < ?first + 2 + 2922" "day_ok d" by blast
    then show ?found
      using search_succeeds[OF never short ts _ _ _ range, of day_ok d] unfolding search
      by (simp add: search_horizon_def) }
  assume ?found
  then obtain t where "search_days z after day_ok ts ?first search_horizon = Inr t" unfolding search by blast
  from search_first_occurrence(2)[OF lawful ts this] have ok: "day_ok (dt_date (z_from_utc z t))"
    by (simp add: occurrence_def)
  from plan show ?sat
  proof (cases rule: rule_plan_cases)
    case (cron c)
    with ok cron_day_needs_satisfiable show ?thesis by auto
  qed simp_all
qed

text \<open>
  C35. Eight years are enough. In a zone whose repeated hours are shorter than a day and that never
  skips the times of the rule, a daily or weekly schedule always has a next run time, and a Cron
  schedule has one exactly when its day and month fields name a day that exists: the error is
  reported only for schedules that can never run (30 February), and even 29 February is found.
\<close>

theorem next_occurrence_exists_iff:
  assumes zone: "zoneinfo (py_strip (sr_timezone rule)) = Some z" and lawful: "zone_lawful z"
    and short: "short_folds z" and plan: "rule_plan rule = Inr (day_ok, ts)"
    and never: "times_never_skipped z ts"
    and range: "dt_date (z_from_utc z after) + int search_horizon \<le> max_date"
  shows "(\<exists>t. next_occurrence zoneinfo rule after = Inr t) \<longleftrightarrow>
    (sr_type rule = ''CRON'' \<longrightarrow>
      (\<exists>c. parse_cron (case sr_cron_expression rule of None \<Rightarrow> '''' | Some c \<Rightarrow> c) = Inr c \<and> cron_satisfiable c))"
  using assms by (rule next_occurrence_found_iff)

text \<open>The day after 29 February 2096 the next one is eight years away; 30 February never comes.\<close>

theorem next_occurrence_exists_iff_witness:
  "(\<exists>t. next_occurrence ex_zones (ex_rule ''0 0 29 2 *'') (combine (ymd2ord 2096 3 1) 0) = Inr t)
   \<and> \<not> (\<exists>t. next_occurrence ex_zones (ex_rule ''0 0 30 2 *'') (combine (ymd2ord 2096 3 1) 0) = Inr t)"
proof -
  let ?after = "combine (ymd2ord 2096 3 1) 0"
  have zone: "ex_zones (py_strip (sr_timezone (ex_rule e))) = Some shanghai" for e
    by (simp add: ex_zones_def ex_rule_def py_strip_def py_space_code)
  have range: "dt_date (z_from_utc shanghai ?after) + int search_horizon \<le> max_date" by code_simp
  have plan: "\<not> isl (rule_plan (ex_rule ''0 0 29 2 *''))" "\<not> isl (rule_plan (ex_rule ''0 0 30 2 *''))"
    and sat: "map_sum id cron_satisfiable (parse_cron ''0 0 29 2 *'') = Inr True"
      "map_sum id cron_satisfiable (parse_cron ''0 0 30 2 *'') = Inr False" by code_simp+
  have iff: "(\<exists>t. next_occurrence ex_zones (ex_rule e) ?after = Inr t) \<longleftrightarrow>
      (\<exists>c. parse_cron e = Inr c \<and> cron_satisfiable c)" if "\<not> isl (rule_plan (ex_rule e))" for e
  proof -
    from that obtain day_ok ts where "rule_plan (ex_rule e) = Inr (day_ok, ts)"
      by (cases "rule_plan (ex_rule e)") auto
    from next_occurrence_exists_iff[of ex_zones "ex_rule e" shanghai, OF zone shanghai_laws(1,2) this
        shanghai_laws(3) range]
    show ?thesis by (simp add: ex_rule_def)
  qed
  show ?thesis using iff[OF plan(1)] iff[OF plan(2)] sat by (auto simp: map_sum_Inr_iff)
qed

section \<open>Printing and parsing\<close>

text \<open>The expression with the values of every field listed, and a star for a wildcard.\<close>

fun decimal :: "nat \<Rightarrow> string" where
  "decimal n = (if n < 10 then [char_of (48 + n)] else decimal (n div 10) @ [char_of (48 + n mod 10)])"

declare decimal.simps [simp del]

definition print_field :: "bool \<Rightarrow> int list \<Rightarrow> string" where
  "print_field wildcard vs = (if wildcard then ''*'' else join_with '','' (map (\<lambda>v. decimal (nat v)) vs))"

definition print_cron :: "cron_spec \<Rightarrow> string" where
  "print_cron c = join_with '' ''
     [print_field False (cs_minutes c), print_field False (cs_hours c),
      print_field (cs_day_wildcard c) (cs_days c), print_field False (cs_months c),
      print_field (cs_weekday_wildcard c) (cs_weekdays c)]"

definition wildcards_ok :: "cron_spec \<Rightarrow> bool" where
  "wildcards_ok c \<longleftrightarrow> (cs_day_wildcard c \<longrightarrow> cs_days c = [1..31])
     \<and> (cs_weekday_wildcard c \<longrightarrow> cs_weekdays c = [0..6])"

lemma digit_char:
  assumes "k < 10"
  shows "ascii_digit (char_of (48 + k :: nat))" "digit_value (char_of (48 + k)) = int k"
  using assms by (simp_all add: ascii_digit_def digit_value_def)

lemma digits_value_snoc: "digits_value acc (ds @ [c]) = 10 * digits_value acc ds + digit_value c"
  by (induction ds arbitrary: acc) simp_all

lemma decimal_digits:
  "decimal n \<noteq> [] \<and> list_all ascii_digit (decimal n) \<and> digits_value 0 (decimal n) = int n
     \<and> (n < 100 \<longrightarrow> length (decimal n) \<le> 2)"
proof (induction n rule: decimal.induct)
  case (1 n)
  show ?case
  proof (cases "n < 10")
    case True
    then show ?thesis by (subst (1 2 3 4) decimal.simps) (simp add: digit_char)
  next
    case False
    have "length (decimal (n div 10)) \<le> 1" if "n < 100"
    proof -
      have "n div 10 < 10" using that by simp
      then show ?thesis by (subst decimal.simps) simp
    qed
    moreover have "10 * int (n div 10) + int (n mod 10) = int n"
      using mult_div_mod_eq[of 10 n] by (metis of_nat_add of_nat_mult of_nat_numeral)
    ultimately show ?thesis using False 1 digit_char[of "n mod 10"]
      by (subst (1 2 3 4) decimal.simps) (simp add: digits_value_snoc)
  qed
qed

lemma int_digits_id: "ds \<noteq> [] \<Longrightarrow> list_all ascii_digit ds \<Longrightarrow> int_digits ds = Some ds"
  by (induction ds rule: int_digits.induct) (auto simp: ascii_digit_code)

lemma py_int_digits:
  assumes "ds \<noteq> []" "list_all ascii_digit ds" "length ds \<le> 4300"
  shows "py_int ds = Some (digits_value 0 ds)"
proof -
  have "\<not> py_space c" if "ascii_digit c" for c
    using that by (simp add: py_space_def ascii_digit_def Let_def)
  then have "py_strip ds = ds" using assms by (intro py_strip_id) (auto simp: list_all_iff)
  moreover have "hd ds \<noteq> CHR ''-''" "hd ds \<noteq> CHR ''+''"
    using assms by (cases ds; auto simp: ascii_digit_code)+
  ultimately show ?thesis
    using int_digits_id[OF assms(1,2)] assms by (cases ds) (simp_all add: py_int_def)
qed

lemma decimal_facts:
  assumes "0 \<le> v" "v < 60"
  shows "py_int (decimal (nat v)) = Some v" "decimal (nat v) \<noteq> []" "list_all ascii_digit (decimal (nat v))"
  using assms decimal_digits[of "nat v"] py_int_digits[of "decimal (nat v)"] by auto

lemma split_on_append: "c \<notin> set w \<Longrightarrow> split_on c (w @ c # s) = w # split_on c s"
  by (induction w) auto

lemma split_on_single: "c \<notin> set w \<Longrightarrow> split_on c w = [w]"
  by (induction w) auto

lemma split_on_join: "ws \<noteq> [] \<Longrightarrow> list_all (\<lambda>w. c \<notin> set w) ws \<Longrightarrow> split_on c (join_with [c] ws) = ws"
  by (induction "[c]" ws rule: join_with.induct) (simp_all add: split_on_single split_on_append)

lemma parse_token_decimal:
  assumes "lo \<le> v" "v \<le> hi" "0 \<le> lo" "hi < 60" "w \<Longrightarrow> v < 7 \<and> hi \<le> 7"
  shows "parse_token lo hi w (decimal (nat v)) = Inr [v]"
proof -
  have v: "0 \<le> v" "v < 60" using assms by simp_all
  note d = decimal_facts[OF v]
  have no: "CHR ''/'' \<notin> set (decimal (nat v))" "CHR ''-'' \<notin> set (decimal (nat v))"
    "CHR ''*'' \<notin> set (decimal (nat v))"
    using d(3) by (auto simp: list_all_iff ascii_digit_code)
  then have "takeWhile (\<lambda>x. x \<noteq> CHR ''/'') (decimal (nat v)) = decimal (nat v)"
    by (auto simp: takeWhile_eq_all_conv)
  with no(1) have part: "partition_at (CHR ''/'') (decimal (nat v)) = (decimal (nat v), False, [])"
    by (simp only: partition_at_def) simp
  have star: "decimal (nat v) \<noteq> ''*''" using no(3) by auto
  have range: "py_range v (v + 1) 1 = [v]" by (simp add: py_range_def)
  have "\<not> (v < lo \<or> (if w then 7 else hi) < v)" "\<not> (w \<and> v = 7)" using assms by (auto split: if_splits)
  then show ?thesis
    unfolding parse_token_def part using d(1,2) no(2) star by (simp add: range)
qed

lemma res_map_singletons:
  "(\<And>x. x \<in> set xs \<Longrightarrow> f (g x) = Inr [x]) \<Longrightarrow> res_map f (map g xs) = Inr (map (\<lambda>x. [x]) xs)"
  by (induction xs) auto

lemma frozenset_id: "sorted vs \<Longrightarrow> distinct vs \<Longrightarrow> frozenset vs = vs"
  by (simp add: frozenset_def distinct_remdups_id sorted_sort_id)

lemma parse_print_list:
  assumes "field_ok lo hi vs" "0 \<le> lo" "hi < 60" "w \<Longrightarrow> hi < 7"
  shows "parse_field (print_field False vs) lo hi w = Inr (vs, False)"
proof -
  let ?ws = "map (\<lambda>v. decimal (nat v)) vs"
  have b: "lo \<le> v \<and> v \<le> hi" if "v \<in> set vs" for v using assms(1) that by (auto simp: field_ok_def list_all_iff)
  have word: "CHR '','' \<notin> set (decimal (nat v)) \<and> CHR ''*'' \<notin> set (decimal (nat v))" if "v \<in> set vs" for v
    using b[OF that] assms(2,3) decimal_facts(3)[of v] by (auto simp: list_all_iff ascii_digit_code)
  have vs: "vs \<noteq> []" using assms(1) by (simp add: field_ok_def)
  have "split_on (CHR '','') (join_with '','' ?ws) = ?ws"
    using vs word by (intro split_on_join) (auto simp: list_all_iff)
  moreover have "res_map (parse_token lo hi w) ?ws = Inr (map (\<lambda>x. [x]) vs)"
    using b assms(2-4) by (intro res_map_singletons parse_token_decimal) force+
  moreover have "join_with '','' ?ws \<noteq> ''*''"
  proof
    assume "join_with '','' ?ws = ''*''"
    with \<open>split_on (CHR '','') (join_with '','' ?ws) = ?ws\<close> have "?ws = [''*'']" by simp
    with word show False by (cases vs) auto
  qed
  ultimately show ?thesis
    using assms(1) by (simp add: parse_field_def print_field_def frozenset_id field_ok_def)
qed

definition word :: "string \<Rightarrow> bool" where
  "word w \<longleftrightarrow> w \<noteq> [] \<and> list_all (\<lambda>c. \<not> py_space c) w"

lemma join_comma_word: "ws \<noteq> [] \<Longrightarrow> list_all word ws \<Longrightarrow> word (join_with '','' ws)"
  by (induction "'',''" ws rule: join_with.induct) (simp_all add: word_def py_space_code)

lemma print_field_word:
  assumes "field_ok lo hi vs" "0 \<le> lo" "hi < 60"
  shows "word (print_field wildcard vs)"
proof -
  have digit: "\<not> py_space c" if "ascii_digit c" for c
    using that by (simp add: py_space_def ascii_digit_def Let_def)
  have "word (decimal (nat v))" if "v \<in> set vs" for v
  proof -
    from that assms have "0 \<le> v" "v < 60" by (auto simp: field_ok_def list_all_iff)
    from decimal_facts[OF this] digit show ?thesis by (auto simp: word_def list_all_iff)
  qed
  then have "list_all word (map (\<lambda>v. decimal (nat v)) vs)" by (simp add: list_all_iff)
  moreover have "word ''*''" by (simp add: word_def py_space_code)
  ultimately show ?thesis
    using assms(1) join_comma_word[of "map (\<lambda>v. decimal (nat v)) vs"] by (simp add: print_field_def field_ok_def)
qed

lemma split_ws_word:
  assumes "w \<noteq> []" "list_all (\<lambda>c. \<not> py_space c) w"
  shows "split_ws (w @ CHR '' '' # s) = w # split_ws s" "split_ws w = [w]"
proof -
  have sp: "py_space (CHR '' '')" by (simp add: py_space_code)
  have "\<not> py_space (hd w)" using assms by (cases w) auto
  then have d: "dropWhile py_space (w @ u) = w @ u" for u using assms(1) by (cases w) auto
  have t: "takeWhile (\<lambda>c. \<not> py_space c) (w @ CHR '' '' # s) = w"
    and r: "dropWhile (\<lambda>c. \<not> py_space c) (w @ CHR '' '' # s) = CHR '' '' # s"
    using assms(2) sp by (simp_all add: takeWhile_append dropWhile_append list_all_iff)
  have "split_ws (CHR '' '' # s) = split_ws s" using sp by (subst (1 2) split_ws.simps) simp
  then show "split_ws (w @ CHR '' '' # s) = w # split_ws s"
    using assms(1) by (subst split_ws.simps) (simp add: d t r Let_def)
  have "takeWhile (\<lambda>c. \<not> py_space c) w = w" "dropWhile (\<lambda>c. \<not> py_space c) w = []"
    using assms(2) by (auto simp: list_all_iff)
  moreover have "split_ws [] = []" by (subst split_ws.simps) simp
  moreover have "dropWhile py_space w = w" using d[of "[]"] by simp
  ultimately show "split_ws w = [w]" using assms(1) by (subst split_ws.simps) (simp only: Let_def if_False)
qed

lemma split_ws_join: "list_all word ws \<Longrightarrow> split_ws (join_with '' '' ws) = ws"
proof (induction "'' ''" ws rule: join_with.induct)
  case 1
  show ?case by (subst split_ws.simps) simp
qed (simp_all add: split_ws_word word_def)

lemma join_ends:
  assumes "ws \<noteq> []" "list_all word ws"
  shows "join_with sep ws \<noteq> []" "\<not> py_space (hd (join_with sep ws))" "\<not> py_space (last (join_with sep ws))"
  using assms
  by (induction sep ws rule: join_with.induct) (auto simp: word_def list_all_iff last_append)

lemma parse_print_wildcard: "parse_field ''*'' 1 31 False = Inr ([1..31], True)"
  "parse_field ''*'' 0 6 True = Inr ([0..6], True)"
  by code_simp+

text \<open>
  C36. Cron expressions mean what they list: a specification whose fields are sorted lists of values in
  range, printed value by value, is parsed back to exactly that specification; and every
  specification the parser returns has such fields.
\<close>

theorem cron_round_trip:
  "(cron_ok c \<longrightarrow> wildcards_ok c \<longrightarrow> parse_cron (print_cron c) = Inr c)
   \<and> (parse_cron e = Inr c' \<longrightarrow> cron_ok c')"
proof (intro conjI impI)
  assume ok: "cron_ok c" and wild: "wildcards_ok c"
  let ?ws = "[print_field False (cs_minutes c), print_field False (cs_hours c),
      print_field (cs_day_wildcard c) (cs_days c), print_field False (cs_months c),
      print_field (cs_weekday_wildcard c) (cs_weekdays c)]"
  have words: "list_all word ?ws" using ok print_field_word by (fastforce simp: cron_ok_def)
  have "list_all (\<lambda>w. CHR '' '' \<notin> set w) ?ws"
    using words by (auto simp: word_def list_all_iff py_space_code)
  then have split: "split_on (CHR '' '') (join_with '' '' ?ws) = ?ws" by (intro split_on_join) auto
  have strip: "py_strip (join_with '' '' ?ws) = join_with '' '' ?ws"
    using join_ends[OF _ words, of "'' ''"] by (intro py_strip_id) blast+
  have days: "parse_field (print_field (cs_day_wildcard c) (cs_days c)) 1 31 False = Inr (cs_days c, cs_day_wildcard c)"
    using ok wild parse_print_list[of 1 31 "cs_days c"]
    by (cases "cs_day_wildcard c") (simp_all add: cron_ok_def wildcards_ok_def parse_print_wildcard print_field_def)
  have weekdays: "parse_field (print_field (cs_weekday_wildcard c) (cs_weekdays c)) 0 6 True
      = Inr (cs_weekdays c, cs_weekday_wildcard c)"
    using ok wild parse_print_list[of 0 6 "cs_weekdays c" True]
    by (cases "cs_weekday_wildcard c") (simp_all add: cron_ok_def wildcards_ok_def parse_print_wildcard print_field_def)
  show "parse_cron (print_cron c) = Inr c"
    using ok unfolding parse_cron_def print_cron_def strip split_ws_join[OF words] split
    by (simp add: days weekdays cron_ok_def parse_print_list)
qed (rule parse_cron_cron_ok)

theorem cron_round_trip_witness:
  "parse_cron ''0,30 9 * 1,12 1,2,3,4,5'' = Inr \<lparr>cs_minutes = [0, 30], cs_hours = [9], cs_days = [1..31],
     cs_months = [1, 12], cs_weekdays = [1, 2, 3, 4, 5], cs_day_wildcard = True, cs_weekday_wildcard = False\<rparr>"
proof -
  let ?c = "\<lparr>cs_minutes = [0, 30], cs_hours = [9], cs_days = [1..31], cs_months = [1, 12],
    cs_weekdays = [1, 2, 3, 4, 5], cs_day_wildcard = True, cs_weekday_wildcard = False\<rparr>"
  have "cron_ok ?c" "wildcards_ok ?c" "print_cron ?c = ''0,30 9 * 1,12 1,2,3,4,5''" by code_simp+
  with cron_round_trip[of ?c] show ?thesis by simp
qed

end
