(* ===== verification/Schedule_Triggers.thy ===== *)
theory Schedule_Triggers
  imports Schedules Webhook_Guarantees Schedule_Guarantees
begin

text \<open>
  What the scheduler guarantees about the triggers it writes. \<open>sched_step now\<close> is one transaction of the
  service at time \<open>now\<close>, \<open>sched_path\<close> a sequence of transactions under a clock that does not run backwards.
  Changes of plans, Runs and projects by other services are the rule \<open>outside\<close>.
\<close>

section \<open>The trigger table\<close>

inductive sched_step :: "datetime \<Rightarrow> schedule_db \<Rightarrow> schedule_db \<Rightarrow> bool" where
  create: "create_schedule zi now s u i p = Inr (x, s') \<Longrightarrow> sched_step now s s'"
| update: "update_schedule zi now s u i p = Inr (x, s') \<Longrightarrow> sched_step now s s'"
| set_status: "set_schedule_status zi now s u i st = Inr (x, s') \<Longrightarrow> sched_step now s s'"
| claim: "claim_due_schedule zi now s i tid = Inr (y, s') \<Longrightarrow> sched_step now s s'"
| dispatch: "dispatch_claimed_trigger de s tid = (z, s') \<Longrightarrow> sched_step now s s'"
| retry: "retry_schedule_trigger de s u tid = (z, s') \<Longrightarrow> sched_step now s s'"
| fail: "s' = fail_trigger now s tid \<Longrightarrow> sched_step now s s'"
| outside: "s' = s\<lparr>sb_plans := p\<rparr> \<Longrightarrow> sched_step now s s'"

inductive sched_path :: "datetime \<Rightarrow> schedule_db \<Rightarrow> datetime \<Rightarrow> schedule_db \<Rightarrow> bool" for t0 s0 where
  start: "sched_path t0 s0 t0 s0"
| step: "sched_path t0 s0 t s \<Longrightarrow> t \<le> now \<Longrightarrow> sched_step now s s' \<Longrightarrow> sched_path t0 s0 now s'"

definition occurrence_key :: "schedule_trigger \<Rightarrow> int \<times> datetime" where
  "occurrence_key t = (st_schedule_id t, st_scheduled_for t)"

definition sched_inv :: "datetime \<Rightarrow> schedule_db \<Rightarrow> bool" where
  "sched_inv now s \<longleftrightarrow>
     distinct (map sd_id (sb_schedules s)) \<and> distinct (map occurrence_key (sb_triggers s))
     \<and> (\<forall>t \<in> set (sb_triggers s). st_scheduled_for t \<le> now)
     \<and> (\<forall>x \<in> set (sb_schedules s). \<forall>n. sd_next_run_at x = Some n \<longrightarrow>
          (\<forall>t \<in> set (sb_triggers s). st_schedule_id t = sd_id x \<longrightarrow> st_scheduled_for t < n))"

lemma next_occurrence_after:
  assumes "next_occurrence zi rule after = Inr t"
  shows "after < t"
proof -
  have times: "search_times z a d ts = Some t \<Longrightarrow> a < t" for z a d ts
    by (induction ts) (auto split: option.splits if_splits)
  have days: "search_days z a ok ts d n = Inr t \<Longrightarrow> a < t" for z a ok ts d n
    by (induction n arbitrary: d) (auto split: if_splits option.splits dest: times)
  from assms show ?thesis by (auto simp: next_occurrence_def res_simps dest: days)
qed

lemma next_if_enabled_after: "next_if_enabled zi x now = Inr (Some t) \<Longrightarrow> now < t"
  by (auto simp: next_if_enabled_def calculate_next_def res_simps next_occurrence_after
      split: if_splits sum.splits)

lemma put_row_distinct_members:
  "distinct (map key rows) \<Longrightarrow> x \<in> set (put_row key r rows) \<Longrightarrow> x = r \<or> x \<in> set rows \<and> key x \<noteq> key r"
proof (induction rows)
  case (Cons a rows)
  then show ?case by (cases "key a = key r") (auto simp: image_iff dest: sym)
qed simp

lemma get_row_member: "get_row key rows k = Some r \<Longrightarrow> r \<in> set rows \<and> key r = k"
  by (auto dest: get_row_in_set row_table.get_key)

text \<open>Writing a schedule whose next run, if any, lies in the future or was not moved.\<close>

lemma put_schedule_inv:
  assumes "sched_inv now s" and "get_schedule s (sd_id x) = Some x0"
    and "\<And>n. sd_next_run_at x = Some n \<Longrightarrow> now < n \<or> sd_next_run_at x0 = Some n"
  shows "sched_inv now (put_schedule s x)"
proof -
  have x0: "x0 \<in> set (sb_schedules s)" "sd_id x0 = sd_id x"
    using get_row_member[of sd_id "sb_schedules s"] assms(2) by (auto simp: get_schedule_def)
  have "st_scheduled_for t < n" if "sd_next_run_at x = Some n" "t \<in> set (sb_triggers s)" "st_schedule_id t = sd_id x" for n t
    using assms(1,3) that x0 by (fastforce simp: sched_inv_def)
  with assms(1) show ?thesis
    by (auto simp: sched_inv_def put_schedule_def put_row_keys dest!: put_row_set)
qed

text \<open>Writing a trigger without touching what it is for.\<close>

lemma put_trigger_inv:
  assumes "sched_inv now s" and "get_trigger s (st_id t) = Some t0" and "occurrence_key t = occurrence_key t0"
  shows "sched_inv now (put_trigger s t)"
proof -
  have "map occurrence_key (put_row st_id t (sb_triggers s)) = map occurrence_key (sb_triggers s)"
    using put_row_map assms(2,3) by (auto simp: get_trigger_def)
  moreover have "t0 \<in> set (sb_triggers s)" using get_row_member[of st_id "sb_triggers s"] assms(2) by (auto simp: get_trigger_def)
  ultimately show ?thesis
    using assms(1,3) by (auto simp: sched_inv_def put_trigger_def occurrence_key_def dest!: put_row_set)
qed

lemma sched_inv_plans [simp]: "sched_inv now (s\<lparr>sb_plans := p\<rparr>) = sched_inv now s"
  by (simp add: sched_inv_def)

lemma get_schedule_plans [simp]: "get_schedule (s\<lparr>sb_plans := p\<rparr>) i = get_schedule s i"
  "get_trigger (s\<lparr>sb_plans := p\<rparr>) j = get_trigger s j"
  by (simp_all add: get_schedule_def get_trigger_def)

lemma get_schedule_id: "get_schedule s i = Some x \<Longrightarrow> sd_id x = i"
  by (auto simp: get_schedule_def dest: row_table.get_key)

lemma get_trigger_id: "get_trigger s i = Some x \<Longrightarrow> st_id x = i"
  by (auto simp: get_trigger_def dest: row_table.get_key)

lemma get_put_trigger:
  "get_trigger (put_trigger s x) i =
     (if i = st_id x then (case get_trigger s i of None \<Rightarrow> None | Some _ \<Rightarrow> Some x) else get_trigger s i)"
  by (simp add: get_trigger_def put_trigger_def row_table.get_put)

lemma finish_trigger_inv:
  assumes "sched_inv now s" and "get_trigger s (st_id t) = Some t0" and "occurrence_key t = occurrence_key t0"
    and "get_schedule s (sd_id x) = Some x"
  shows "sched_inv now (snd (finish_trigger s x t))"
  unfolding finish_trigger_def snd_conv
  by (rule put_schedule_inv[OF put_trigger_inv[OF assms(1-3)], of _ x])
     (use assms(4) in \<open>simp_all add: get_schedule_def put_trigger_def\<close>)

lemma apfst_state: "apfst f p = (z, s') \<Longrightarrow> s' = snd p"
  by (cases p) simp

lemma dispatch_claimed_trigger_shape:
  assumes "dispatch_claimed_trigger de s i = (z, s')" and "get_trigger s i = Some t"
    and "get_schedule s (st_schedule_id t) = Some x" and "start_scheduled_plan de s x = (r, s1)"
  shows "s' = s \<or> s' = s1 \<or> (\<exists>t'. st_id t' = st_id t \<and> occurrence_key t' = occurrence_key t
        \<and> (s' = snd (finish_trigger s1 x t') \<or> s' = snd (finish_trigger s x t')))"
proof -
  show ?thesis
  proof (rule ccontr)
    assume no: "\<not> ?thesis"
    then have ns: "s' \<noteq> s" "s' \<noteq> s1" by blast+
    have nofin: False if "apfst Inr (finish_trigger s2 x t') = (z, s')" "s2 = s \<or> s2 = s1" "st_id t' = st_id t"
      "st_schedule_id t' = st_schedule_id t" "st_scheduled_for t' = st_scheduled_for t" for s2 t'
      using no apfst_state[OF that(1)] that(2-5) by (auto simp: occurrence_key_def)
    show False
      using assms ns
      by (auto simp: dispatch_claimed_trigger_def Let_def split: if_splits sum.splits dest!: nofin)
  qed
qed

lemma dispatch_claimed_trigger_inv:
  assumes "dispatch_claimed_trigger de s i = (z, s')" and inv: "sched_inv now s"
  shows "sched_inv now s'"
proof (cases "get_trigger s i")
  case (Some t)
  then have tid: "get_trigger s (st_id t) = Some t" using get_trigger_id by auto
  show ?thesis
  proof (cases "get_schedule s (st_schedule_id t)")
    case None
    with Some assms(1) put_trigger_inv[OF inv] tid show ?thesis
      by (auto simp: dispatch_claimed_trigger_def Let_def occurrence_key_def)
  next
    case (Some x)
    then have xid: "get_schedule s (sd_id x) = Some x" using get_schedule_id by auto
    have fin: "sched_inv now (snd (finish_trigger s1 x t'))"
      if "s1 = s \<or> (\<exists>p. s1 = s\<lparr>sb_plans := p\<rparr>)" "st_id t' = st_id t" "occurrence_key t' = occurrence_key t" for t' s1
      using that finish_trigger_inv[of now s1 t' t x] inv tid xid by auto
    obtain r s1 where rs: "start_scheduled_plan de s x = (r, s1)" by (metis surj_pair)
    have s1: "s1 = s \<or> (\<exists>p. s1 = s\<lparr>sb_plans := p\<rparr>)"
      using rs by (auto simp: start_scheduled_plan_def split: sum.splits prod.splits)
    have "s' = s \<or> s' = s1 \<or> (\<exists>t'. st_id t' = st_id t \<and> occurrence_key t' = occurrence_key t
        \<and> (s' = snd (finish_trigger s1 x t') \<or> s' = snd (finish_trigger s x t')))"
      using dispatch_claimed_trigger_shape[OF assms(1) \<open>get_trigger s i = Some t\<close> Some rs] by blast
    then show ?thesis using fin inv s1 by auto
  qed
qed (use assms in \<open>auto simp: dispatch_claimed_trigger_def Let_def\<close>)

lemma sched_inv_later: "sched_inv t s \<Longrightarrow> t \<le> now \<Longrightarrow> sched_inv now s"
  unfolding sched_inv_def by fastforce

lemma claim_due_schedule_shape:
  assumes "claim_due_schedule zi now s i tid = Inr (y, s')"
  shows "y = None \<and> s' = s \<or> (\<exists>x n m. y = Some tid \<and> get_schedule s i = Some x \<and> sd_status x = SCHEDULE_ACTIVE
      \<and> sd_enabled x \<and> sd_next_run_at x = Some n \<and> n \<le> now \<and> calculate_next zi x (max now n) = Inr m
      \<and> get_trigger s tid = None \<and> \<not> trigger_exists s (sd_id x) n
      \<and> s' = (put_schedule s (x\<lparr>sd_last_scheduled_at := Some n, sd_last_trigger_status := Some TRIGGER_CLAIMED,
                sd_last_error_code := None, sd_next_run_at := Some m\<rparr>))
             \<lparr>sb_triggers := sb_triggers s @ [\<lparr>st_id = tid, st_schedule_id = sd_id x, st_project_id = sd_project_id x,
                st_scheduled_for = n, st_status = TRIGGER_CLAIMED, st_plan_run_id = None, st_error_code = None,
                st_completed_at = None\<rparr>]\<rparr>)"
  using assms unfolding claim_due_schedule_def
  by (auto simp: res_simps Let_def split: option.splits if_splits)

lemma claim_due_schedule_inv:
  assumes "claim_due_schedule zi now s i tid = Inr (y, s')" and inv: "sched_inv now s"
  shows "sched_inv now s'"
  using claim_due_schedule_shape[OF assms(1)]
proof (elim disjE exE conjE)
  fix x n m
  assume x: "get_schedule s i = Some x" "sd_next_run_at x = Some n" "n \<le> now"
    and m: "calculate_next zi x (max now n) = Inr m"
    and s': "s' = (put_schedule s (x\<lparr>sd_last_scheduled_at := Some n, sd_last_trigger_status := Some TRIGGER_CLAIMED,
                sd_last_error_code := None, sd_next_run_at := Some m\<rparr>))
             \<lparr>sb_triggers := sb_triggers s @ [\<lparr>st_id = tid, st_schedule_id = sd_id x, st_project_id = sd_project_id x,
                st_scheduled_for = n, st_status = TRIGGER_CLAIMED, st_plan_run_id = None, st_error_code = None,
                st_completed_at = None\<rparr>]\<rparr>"
  let ?x = "x\<lparr>sd_last_scheduled_at := Some n, sd_last_trigger_status := Some TRIGGER_CLAIMED,
                sd_last_error_code := None, sd_next_run_at := Some m\<rparr>"
  have xm: "x \<in> set (sb_schedules s)" using get_row_member[of sd_id "sb_schedules s"] x(1) by (auto simp: get_schedule_def)
  have before: "st_scheduled_for t < n" if "t \<in> set (sb_triggers s)" "st_schedule_id t = sd_id x" for t
    using inv xm x(2) that by (auto simp: sched_inv_def)
  have "next_occurrence zi (sd_rule x) (max now n) = Inr m" using m by (simp add: calculate_next_def split: sum.splits)
  from next_occurrence_after[OF this] have m': "now < m" "n < m" by simp_all
  have ids: "distinct (map sd_id (sb_schedules s))" using inv by (simp add: sched_inv_def)
  have keys: "distinct (map occurrence_key (sb_triggers s')) \<and> (\<forall>t \<in> set (sb_triggers s'). st_scheduled_for t \<le> now)"
  proof -
    have "(sd_id x, n) \<notin> occurrence_key ` set (sb_triggers s)"
    proof
      assume "(sd_id x, n) \<in> occurrence_key ` set (sb_triggers s)"
      then obtain t where "t \<in> set (sb_triggers s)" "st_schedule_id t = sd_id x" "st_scheduled_for t = n"
        by (auto simp: occurrence_key_def)
      with before[of t] show False by simp
    qed
    with inv x(3) show ?thesis by (auto simp: sched_inv_def s' occurrence_key_def)
  qed
  have "st_scheduled_for t < k"
    if y: "y \<in> set (sb_schedules s')" "sd_next_run_at y = Some k" and t: "t \<in> set (sb_triggers s')" "st_schedule_id t = sd_id y"
    for y k t
  proof -
    from y(1) have "y = ?x \<or> y \<in> set (sb_schedules s) \<and> sd_id y \<noteq> sd_id x"
      using put_row_distinct_members[OF ids] by (fastforce simp: s' put_schedule_def)
    then show ?thesis
    proof (elim disjE conjE)
      assume "y = ?x"
      with y(2) t m' before show ?thesis by (force simp: s')
    next
      assume "y \<in> set (sb_schedules s)" "sd_id y \<noteq> sd_id x"
      with y(2) t inv show ?thesis by (auto simp: s' sched_inv_def)
    qed
  qed
  moreover have "distinct (map sd_id (sb_schedules s'))"
    using ids by (simp add: s' put_schedule_def put_row_keys)
  ultimately show "sched_inv now s'" using keys unfolding sched_inv_def by blast
qed (use inv in simp)

lemma fail_trigger_inv:
  assumes "sched_inv now s"
  shows "sched_inv now (fail_trigger n s i)"
proof (cases "get_trigger s i")
  case (Some t)
  then have t: "get_trigger s (st_id t) = Some t" using get_trigger_id by auto
  show ?thesis
  proof (cases "get_schedule s (st_schedule_id t)")
    case None
    with Some assms t put_trigger_inv[OF assms, of "t\<lparr>st_status := a, st_error_code := b, st_completed_at := c\<rparr>" t for a b c]
    show ?thesis by (simp add: fail_trigger_def Let_def occurrence_key_def)
  next
    case (Some x)
    then have "get_schedule s (sd_id x) = Some x" using get_schedule_id by auto
    with Some \<open>get_trigger s i = Some t\<close> assms t
      finish_trigger_inv[OF assms, of "t\<lparr>st_status := a, st_error_code := b, st_completed_at := c\<rparr>" t x for a b c]
    show ?thesis by (simp add: fail_trigger_def Let_def occurrence_key_def)
  qed
qed (use assms in \<open>simp add: fail_trigger_def\<close>)

lemma create_schedule_inv:
  assumes "create_schedule zi now s u i p = Inr (x, s')" and inv: "sched_inv now s"
  shows "sched_inv now s'"
proof -
  from assms(1) have new: "get_schedule s i = None" "sd_id x = i" "\<And>n. sd_next_run_at x = Some n \<Longrightarrow> now < n"
    and s': "s' = s\<lparr>sb_schedules := sb_schedules s @ [x]\<rparr>"
    by (auto simp: create_schedule_def res_simps Let_def next_if_enabled_after split: if_splits)
  have "i \<notin> set (map sd_id (sb_schedules s))" using new(1) by (simp add: get_schedule_def get_row_None_iff)
  with inv new show ?thesis unfolding s' by (fastforce simp: sched_inv_def)
qed

lemma sched_step_inv:
  assumes "sched_step now s s'" and inv: "sched_inv now s"
  shows "sched_inv now s'"
  using assms(1)
proof cases
  case (create zi u i p x)
  then show ?thesis using create_schedule_inv inv by blast
next
  case (update zi u i p x)
  then have "\<exists>x0. get_schedule s i = Some x0 \<and> sd_id x = sd_id x0 \<and> s' = put_schedule s x"
    "\<And>n. sd_next_run_at x = Some n \<Longrightarrow> now < n"
    by (auto simp: update_schedule_def load_schedule_def res_simps Let_def apply_payload_def next_if_enabled_after
        split: if_splits)
  with put_schedule_inv[OF inv, of x] get_schedule_id show ?thesis by metis
next
  case (set_status zi u i st x)
  then have "\<exists>x0. get_schedule s i = Some x0 \<and> sd_id x = sd_id x0 \<and> s' = put_schedule s x"
    "\<And>n. sd_next_run_at x = Some n \<Longrightarrow> now < n"
    by (auto simp: set_schedule_status_def load_schedule_def res_simps Let_def next_if_enabled_after split: if_splits)
  with put_schedule_inv[OF inv, of x] get_schedule_id show ?thesis by metis
next
  case (claim zi i tid y)
  then show ?thesis using claim_due_schedule_inv inv by blast
next
  case (dispatch de tid z)
  then show ?thesis using dispatch_claimed_trigger_inv inv by blast
next
  case (retry de u tid z)
  show ?thesis
  proof (cases "s' = s")
    case False
    with retry obtain t where t: "get_trigger s tid = Some t"
      "dispatch_claimed_trigger de (put_trigger s (t\<lparr>st_status := TRIGGER_CLAIMED, st_error_code := None,
         st_completed_at := None\<rparr>)) tid = (z, s')"
      by (auto simp: retry_schedule_trigger_def res_bind_def split: option.splits sum.splits if_splits)
    from put_trigger_inv[OF inv, of "t\<lparr>st_status := TRIGGER_CLAIMED, st_error_code := None, st_completed_at := None\<rparr>" t]
    have "sched_inv now (put_trigger s (t\<lparr>st_status := TRIGGER_CLAIMED, st_error_code := None, st_completed_at := None\<rparr>))"
      using t(1) get_trigger_id by (auto simp: occurrence_key_def)
    with t(2) show ?thesis by (rule dispatch_claimed_trigger_inv)
  qed (use inv in simp)
next
  case (fail tid)
  then show ?thesis using fail_trigger_inv[OF inv] by simp
next
  case (outside p)
  then show ?thesis using inv by simp
qed

lemma sched_path_inv: "sched_path t0 s0 t s \<Longrightarrow> sched_inv t0 s0 \<Longrightarrow> sched_inv t s \<and> t0 \<le> t"
  by (induction rule: sched_path.induct) (auto intro: sched_step_inv sched_inv_later)

lemma empty_sched_inv: "sb_schedules s = [] \<Longrightarrow> sb_triggers s = [] \<Longrightarrow> sched_inv now s"
  by (simp add: sched_inv_def)

lemma get_put_schedule:
  "get_schedule (put_schedule s x) i =
     (if i = sd_id x then (case get_schedule s i of None \<Rightarrow> None | Some _ \<Rightarrow> Some x) else get_schedule s i)"
  by (simp add: get_schedule_def put_schedule_def row_table.get_put)

lemma inv_trigger_free:
  assumes "sched_inv now s" and "get_schedule s i = Some x" and "sd_next_run_at x = Some n"
  shows "\<not> trigger_exists s (sd_id x) n"
proof -
  have "x \<in> set (sb_schedules s)"
    using get_row_member[of sd_id "sb_schedules s"] assms(2) by (auto simp: get_schedule_def)
  then have "\<forall>t \<in> set (sb_triggers s). st_schedule_id t = sd_id x \<longrightarrow> st_scheduled_for t < n"
    using assms(1,3) unfolding sched_inv_def by blast
  then show ?thesis by (auto simp: trigger_exists_def list_ex_iff)
qed

section \<open>The guarantees\<close>

text \<open>
  C40. Every occurrence is claimed at most once and none is lost to the unique key: starting from empty
  tables, along every sequence of transactions of the scheduler and of its editing operations under a
  clock that does not run backwards, the triggers are for different occurrences, and whenever an
  active schedule is due and its rule has a next occurrence, the next claim with a new identifier succeeds.
\<close>

theorem each_occurrence_is_claimed_once:
  assumes "sb_schedules s0 = []" and "sb_triggers s0 = []" and "sched_path t0 s0 t s"
  shows "distinct (map occurrence_key (sb_triggers s))
    \<and> (t \<le> now \<and> get_schedule s i = Some x \<and> sd_status x = SCHEDULE_ACTIVE \<and> sd_enabled x
        \<and> sd_next_run_at x = Some n \<and> n \<le> now \<and> get_trigger s tid = None \<and> calculate_next zi x now = Inr m
       \<longrightarrow> (\<exists>s'. claim_due_schedule zi now s i tid = Inr (Some tid, s')))"
proof (intro conjI impI)
  have inv: "sched_inv t s" using sched_path_inv[OF assms(3)] empty_sched_inv[OF assms(1,2)] by blast
  then show "distinct (map occurrence_key (sb_triggers s))" by (simp add: sched_inv_def)
  assume due: "t \<le> now \<and> get_schedule s i = Some x \<and> sd_status x = SCHEDULE_ACTIVE \<and> sd_enabled x
        \<and> sd_next_run_at x = Some n \<and> n \<le> now \<and> get_trigger s tid = None \<and> calculate_next zi x now = Inr m"
  then have "\<not> trigger_exists s (sd_id x) n" using inv_trigger_free[OF inv] by blast
  with due show "\<exists>s'. claim_due_schedule zi now s i tid = Inr (Some tid, s')"
    by (simp add: claim_due_schedule_def Let_def max_absorb1)
qed

definition ex_sched_db :: schedule_db where
  "ex_sched_db = \<lparr>sb_plans = ex_plan_db, sb_schedules = [], sb_triggers = []\<rparr>"

definition ex_sched_write :: schedule_write where
  "ex_sched_write = \<lparr>sw_project_id = 1, sw_plan_id = 1, sw_name = ''nightly'',
     sw_rule = ex_rule ''30 9 * * 1-5'', sw_enabled = True\<rparr>"

text \<open>Created on Friday 2 January 2026; scanned again on Tuesday evening, after a weekend and two missed runs.\<close>

definition ex_created_at :: datetime where "ex_created_at = combine (ymd2ord 2026 1 2) (time_of 10 0)"
definition ex_monday :: datetime where "ex_monday = combine (ymd2ord 2026 1 5) (time_of 1 30)"
definition ex_tuesday :: datetime where "ex_tuesday = combine (ymd2ord 2026 1 6) (time_of 10 0)"
definition ex_wednesday :: datetime where "ex_wednesday = combine (ymd2ord 2026 1 7) (time_of 1 30)"

definition ex_sched_row :: test_schedule where
  "ex_sched_row = \<lparr>sd_id = 7, sd_project_id = 1, sd_plan_id = 1, sd_name = ''nightly'',
     sd_rule = ex_rule ''30 9 * * 1-5'', sd_enabled = True, sd_status = SCHEDULE_ACTIVE,
     sd_next_run_at = Some ex_monday, sd_last_scheduled_at = None, sd_last_trigger_status = None,
     sd_last_error_code = None, sd_created_by = ''u1''\<rparr>"

definition ex_sched_db1 :: schedule_db where
  "ex_sched_db1 = ex_sched_db\<lparr>sb_schedules := [ex_sched_row]\<rparr>"

lemma ex_next:
  "next_occurrence ex_zones (ex_rule ''30 9 * * 1-5'') ex_created_at = Inr ex_monday"
  "next_occurrence ex_zones (ex_rule ''30 9 * * 1-5'') ex_tuesday = Inr ex_wednesday"
  by code_simp+

lemma ex_order: "ex_created_at \<le> ex_tuesday" "ex_monday \<le> ex_tuesday"
  by code_simp+

lemma ex_target_ok: "validate_schedule_target ex_sched_db ex_user 1 1 = Inr ()" "cu_id ex_user = ''u1''"
  by code_simp+

lemma ex_schedule_created:
  "create_schedule ex_zones ex_created_at ex_sched_db ex_user 7 ex_sched_write = Inr (ex_sched_row, ex_sched_db1)"
  using ex_target_ok ex_next(1)
  by (simp add: create_schedule_def ex_sched_write_def next_if_enabled_def calculate_next_def Let_def
      ex_sched_db1_def ex_sched_row_def get_schedule_def get_row_def ex_sched_db_def)

theorem each_occurrence_is_claimed_once_witness:
  "\<exists>s'. claim_due_schedule ex_zones ex_tuesday ex_sched_db1 7 ''schedule_1'' = Inr (Some ''schedule_1'', s')"
proof -
  have "sched_path ex_created_at ex_sched_db ex_created_at ex_sched_db1"
    by (rule sched_path.step[OF sched_path.start order_refl sched_step.create[OF ex_schedule_created]])
  moreover have "get_schedule ex_sched_db1 7 = Some ex_sched_row" "get_trigger ex_sched_db1 ''schedule_1'' = None"
    by (simp_all add: get_schedule_def get_trigger_def get_row_def ex_sched_db1_def ex_sched_row_def ex_sched_db_def)
  moreover have "calculate_next ex_zones ex_sched_row ex_tuesday = Inr ex_wednesday"
    using ex_next(2) by (simp add: calculate_next_def ex_sched_row_def)
  ultimately show ?thesis
    using each_occurrence_is_claimed_once[of ex_sched_db ex_created_at ex_created_at ex_sched_db1 ex_tuesday 7
        ex_sched_row ex_monday "''schedule_1''" ex_zones ex_wednesday] ex_order
    by (simp add: ex_sched_db_def ex_sched_row_def)
qed

text \<open>
  What a claim does. It writes one trigger for the occurrence that was due, marks the schedule as
  claimed and moves its next run to the first occurrence after the current time: runs missed while the
  service was down are replaced by the one that is claimed, not made up one by one. Other schedules
  are left alone.
\<close>

theorem claim_moves_to_next_occurrence:
  assumes "claim_due_schedule zoneinfo now s i tid = Inr (Some tid', s')" and "get_schedule s i = Some x"
    and "zoneinfo (py_strip (sr_timezone (sd_rule x))) = Some z" and "zone_lawful z"
    and "rule_plan (sd_rule x) = Inr (day_ok, ts)"
  shows "\<exists>n m x'. tid' = tid \<and> sd_next_run_at x = Some n \<and> n \<le> now
    \<and> map occurrence_key (sb_triggers s') = map occurrence_key (sb_triggers s) @ [(i, n)]
    \<and> get_schedule s' i = Some x' \<and> sd_last_scheduled_at x' = Some n \<and> sd_next_run_at x' = Some m
    \<and> now < m \<and> occurrence z day_ok ts m \<and> (\<forall>t. now < t \<longrightarrow> occurrence z day_ok ts t \<longrightarrow> m \<le> t)
    \<and> (\<forall>j. j \<noteq> i \<longrightarrow> get_schedule s' j = get_schedule s j)"
proof -
  from claim_due_schedule_shape[OF assms(1)] assms(2) obtain n m where
    n: "tid' = tid" "sd_next_run_at x = Some n" "n \<le> now" "calculate_next zoneinfo x (max now n) = Inr m"
    and s': "s' = (put_schedule s (x\<lparr>sd_last_scheduled_at := Some n, sd_last_trigger_status := Some TRIGGER_CLAIMED,
                sd_last_error_code := None, sd_next_run_at := Some m\<rparr>))
             \<lparr>sb_triggers := sb_triggers s @ [\<lparr>st_id = tid, st_schedule_id = sd_id x, st_project_id = sd_project_id x,
                st_scheduled_for = n, st_status = TRIGGER_CLAIMED, st_plan_run_id = None, st_error_code = None,
                st_completed_at = None\<rparr>]\<rparr>" by auto
  have xid: "sd_id x = i" using get_schedule_id[OF assms(2)] .
  have drop: "get_schedule (s1\<lparr>sb_triggers := ts'\<rparr>) j = get_schedule s1 j" for s1 ts' j
    by (simp add: get_schedule_def)
  have "next_occurrence zoneinfo (sd_rule x) now = Inr m"
    using n(3,4) by (simp add: calculate_next_def max_absorb1 split: sum.splits)
  then have "search_days z now day_ok ts (dt_date (z_from_utc z now)) search_horizon = Inr m"
    using next_occurrence_search[of zoneinfo "sd_rule x" z day_ok ts now] assms(3,5) by simp
  from search_first_occurrence[OF assms(4) rule_plan_times_ok[OF assms(5)] this]
  have first: "now < m" "occurrence z day_ok ts m" "\<forall>t. now < t \<longrightarrow> occurrence z day_ok ts t \<longrightarrow> m \<le> t" by blast+
  show ?thesis
    by (intro exI[of _ n] exI[of _ m]
        exI[of _ "x\<lparr>sd_last_scheduled_at := Some n, sd_last_trigger_status := Some TRIGGER_CLAIMED,
                sd_last_error_code := None, sd_next_run_at := Some m\<rparr>"])
      (use n first xid assms(2) in \<open>simp add: s' drop get_put_schedule occurrence_key_def\<close>)
qed

lemma ex_occurrence_claimed:
  "map_sum id (\<lambda>(y, s). (y, map sd_next_run_at (sb_schedules s)))
     (claim_due_schedule ex_zones ex_tuesday ex_sched_db1 7 ''schedule_1'')
   = Inr (Some ''schedule_1'', [Some ex_wednesday])"
  by code_simp

theorem claim_moves_to_next_occurrence_witness:
  "\<exists>s' x'. claim_due_schedule ex_zones ex_tuesday ex_sched_db1 7 ''schedule_1'' = Inr (Some ''schedule_1'', s')
     \<and> map occurrence_key (sb_triggers s') = [(7, ex_monday)] \<and> get_schedule s' 7 = Some x'
     \<and> ex_tuesday < the (sd_next_run_at x')"
proof -
  have row: "get_schedule ex_sched_db1 7 = Some ex_sched_row"
    by (simp add: get_schedule_def get_row_def ex_sched_db1_def ex_sched_row_def)
  have zone: "ex_zones (py_strip (sr_timezone (sd_rule ex_sched_row))) = Some shanghai"
    by (simp add: ex_zones_def ex_rule_def ex_sched_row_def py_strip_def py_space_code)
  have "\<not> isl (rule_plan (sd_rule ex_sched_row))" by code_simp
  then obtain day_ok ts where plan: "rule_plan (sd_rule ex_sched_row) = Inr (day_ok, ts)"
    by (cases "rule_plan (sd_rule ex_sched_row)") auto
  obtain s' where claim: "claim_due_schedule ex_zones ex_tuesday ex_sched_db1 7 ''schedule_1'' = Inr (Some ''schedule_1'', s')"
    using ex_occurrence_claimed by (auto simp: map_sum_Inr_iff)
  have "sd_next_run_at ex_sched_row = Some ex_monday" "sb_triggers ex_sched_db1 = []"
    by (simp_all add: ex_sched_row_def ex_sched_db1_def ex_sched_db_def)
  with claim_moves_to_next_occurrence[OF claim row zone shanghai_laws(1) plan] claim show ?thesis by auto
qed

section \<open>Interrupted triggers\<close>

lemma finish_trigger_other:
  "j \<noteq> st_id t \<Longrightarrow> get_trigger (snd (finish_trigger s x t)) j = get_trigger s j"
  by (simp add: finish_trigger_def get_put_trigger get_trigger_def put_schedule_def put_trigger_def row_table.get_put)

lemma dispatch_other:
  assumes "dispatch_claimed_trigger de s i = (z, s')" and "j \<noteq> i"
  shows "get_trigger s' j = get_trigger s j"
proof (cases "get_trigger s i")
  case (Some t)
  then have tid: "st_id t = i" by (rule get_trigger_id)
  show ?thesis
  proof (cases "get_schedule s (st_schedule_id t)")
    case None
    with Some assms tid show ?thesis by (auto simp: dispatch_claimed_trigger_def Let_def get_put_trigger)
  next
    case (Some x)
    obtain r s1 where rs: "start_scheduled_plan de s x = (r, s1)" by (metis surj_pair)
    have s1: "get_trigger s1 j = get_trigger s j"
      using rs by (auto simp: start_scheduled_plan_def split: sum.splits prod.splits)
    from dispatch_claimed_trigger_shape[OF assms(1) \<open>get_trigger s i = Some t\<close> Some rs] assms(2) tid s1
    show ?thesis by (auto simp: finish_trigger_other)
  qed
qed (use assms in \<open>auto simp: dispatch_claimed_trigger_def Let_def\<close>)

lemma fail_trigger_other: "j \<noteq> i \<Longrightarrow> get_trigger (fail_trigger now s i) j = get_trigger s j"
  by (auto simp: fail_trigger_def Let_def get_put_trigger finish_trigger_other dest: get_trigger_id split: option.split)

lemma get_trigger_append:
  "get_trigger (s\<lparr>sb_triggers := sb_triggers s1 @ [x]\<rparr>) j =
     (case get_trigger s1 j of Some t \<Rightarrow> Some t | None \<Rightarrow> if st_id x = j then Some x else None)"
  using get_row_append[of st_id "sb_triggers s1" "[x]" j]
  by (auto simp: get_trigger_def get_row_def split: option.split)

lemma claim_other:
  assumes "claim_due_schedule zi now s i tid = Inr (y, s')" and "j \<noteq> tid"
  shows "get_trigger s' j = get_trigger s j"
  using claim_due_schedule_shape[OF assms(1)] assms(2)
  by (auto simp: get_trigger_append split: option.split)

lemma claim_id: "claim_due_schedule zi now s i tid = Inr (Some t, s') \<Longrightarrow> t = tid"
  using claim_due_schedule_shape by fastforce

lemma scan_schedules_other:
  assumes "scan_schedules zi now ids des due x s = (r, s')" and "\<And>i. ids i \<noteq> j"
  shows "get_trigger s' j = get_trigger s j"
  using assms(1)
proof (induction due arbitrary: x s)
  case (Cons i rest)
  show ?case
  proof (cases "claim_due_schedule zi now s i (ids i)")
    case (Inr p)
    obtain y s1 where p: "p = (y, s1)" by (cases p)
    have s1: "get_trigger s1 j = get_trigger s j" using claim_other Inr p assms(2) by metis
    show ?thesis
    proof (cases y)
      case None
      with Cons Inr p s1 show ?thesis by auto
    next
      case (Some t)
      then have t: "j \<noteq> t" using claim_id Inr p assms(2) by metis
      obtain q s2 where d: "dispatch_claimed_trigger (des i) s1 t = (q, s2)" by (metis surj_pair)
      from dispatch_other[OF d t] s1 have "get_trigger s2 j = get_trigger s j" by simp
      with Cons Inr p Some d fail_trigger_other[OF t] show ?thesis by (cases q) (auto simp: Let_def)
    qed
  qed (use Cons in auto)
qed simp

text \<open>
  The operations the service offers: the three editing calls, the retry of a trigger, and the rounds of
  the coordinator with new identifiers.
\<close>

inductive entry_step :: "string \<Rightarrow> schedule_db \<Rightarrow> schedule_db \<Rightarrow> bool" for tid where
  create: "create_schedule zi now s u i p = Inr (x, s') \<Longrightarrow> entry_step tid s s'"
| update: "update_schedule zi now s u i p = Inr (x, s') \<Longrightarrow> entry_step tid s s'"
| set_status: "set_schedule_status zi now s u i st = Inr (x, s') \<Longrightarrow> entry_step tid s s'"
| retry: "retry_schedule_trigger de s u j = (z, s') \<Longrightarrow> entry_step tid s s'"
| scan: "schedule_scan_once zi now ids des s = (r, s') \<Longrightarrow> (\<And>i. ids i \<noteq> tid) \<Longrightarrow> entry_step tid s s'"
| outside: "s' = s\<lparr>sb_plans := p\<rparr> \<Longrightarrow> entry_step tid s s'"

lemma retry_claimed:
  assumes "retry_schedule_trigger de s u j = (z, s')" and "get_trigger s tid = Some t" and "st_status t = TRIGGER_CLAIMED"
  shows "get_trigger s' tid = Some t" "j = tid \<Longrightarrow> s' = s \<and> isl z"
proof -
  show stuck: "j = tid \<Longrightarrow> s' = s \<and> isl z"
    using assms by (auto simp: retry_schedule_trigger_def res_bind_def split: sum.splits)
  show "get_trigger s' tid = Some t"
  proof (cases "j = tid \<or> s' = s")
    case False
    with assms(1) obtain t1 where t1: "get_trigger s j = Some t1"
      "dispatch_claimed_trigger de (put_trigger s (t1\<lparr>st_status := TRIGGER_CLAIMED, st_error_code := None,
         st_completed_at := None\<rparr>)) j = (z, s')"
      by (auto simp: retry_schedule_trigger_def res_bind_def split: option.splits sum.splits if_splits)
    with dispatch_other[OF t1(2), of tid] False assms(2) get_trigger_id[OF t1(1)] show ?thesis
      by (auto simp: get_put_trigger)
  qed (use stuck assms(2) in auto)
qed

lemma entry_step_claimed:
  assumes "entry_step tid s s'" and "get_trigger s tid = Some t" and "st_status t = TRIGGER_CLAIMED"
  shows "get_trigger s' tid = Some t"
  using assms(1)
proof cases
  case (retry de u j z)
  then show ?thesis using retry_claimed(1) assms(2,3) by blast
next
  case (scan zi now ids des r)
  then show ?thesis using scan_schedules_other assms(2) unfolding schedule_scan_once_def by metis
qed (use assms(2) in \<open>auto simp: create_schedule_def update_schedule_def set_schedule_status_def res_simps Let_def
      get_trigger_def put_schedule_def split: if_splits\<close>)

text \<open>
  A trigger whose dispatch was interrupted stays behind: once a trigger is claimed and the process
  stops before it is dispatched, no operation of the service and no later round of the coordinator
  changes it, and a retry of it is refused, although the occurrence was never run.
\<close>

theorem interrupted_trigger_is_never_dispatched:
  assumes "get_trigger s tid = Some t" and "st_status t = TRIGGER_CLAIMED" and "(entry_step tid)\<^sup>*\<^sup>* s s'"
  shows "get_trigger s' tid = Some t
    \<and> (\<exists>err. retry_schedule_trigger de s' user tid = (Inl err, s'))"
proof -
  from assms(3) have kept: "get_trigger s' tid = Some t"
    by induction (use assms(1,2) entry_step_claimed in blast)+
  obtain z s2 where r: "retry_schedule_trigger de s' user tid = (z, s2)" by (metis surj_pair)
  from retry_claimed(2)[OF r kept assms(2) refl] have "s2 = s' \<and> isl z" .
  with r kept show ?thesis by (cases z) auto
qed

definition ex_dispatch :: dispatch_env where
  "ex_dispatch = \<lparr>de_env = ex_env 1, de_items = ex_item_env, de_resolve = (\<lambda>_. ([], ex_target [])),
     de_delivery_ids = (\<lambda>_. ''whd_1''), de_plan_run_id = ''planrun_1'', de_roles = (\<lambda>_. ''USER'')\<rparr>"

theorem interrupted_trigger_is_never_dispatched_witness:
  "\<exists>s1 s2 t err. claim_due_schedule ex_zones ex_tuesday ex_sched_db1 7 ''schedule_1'' = Inr (Some ''schedule_1'', s1)
     \<and> snd (schedule_scan_once ex_zones ex_wednesday (\<lambda>_. ''schedule_2'') (\<lambda>_. ex_dispatch) s1) = s2
     \<and> get_trigger s2 ''schedule_1'' = Some t \<and> st_status t = TRIGGER_CLAIMED
     \<and> retry_schedule_trigger ex_dispatch s2 ex_user ''schedule_1'' = (Inl err, s2)"
proof -
  obtain s1 where claim: "claim_due_schedule ex_zones ex_tuesday ex_sched_db1 7 ''schedule_1'' = Inr (Some ''schedule_1'', s1)"
    using ex_occurrence_claimed by (auto simp: map_sum_Inr_iff)
  from claim_due_schedule_shape[OF claim] obtain t where t: "get_trigger s1 ''schedule_1'' = Some t" "st_status t = TRIGGER_CLAIMED"
    by (auto simp: get_trigger_append)
  obtain r s2 where scan: "schedule_scan_once ex_zones ex_wednesday (\<lambda>_. ''schedule_2'') (\<lambda>_. ex_dispatch) s1 = (r, s2)"
    by (metis surj_pair)
  then have "entry_step ''schedule_1'' s1 s2" by (rule entry_step.scan) simp
  then have "(entry_step ''schedule_1'')\<^sup>*\<^sup>* s1 s2" by simp
  from interrupted_trigger_is_never_dispatched[OF t this, of ex_dispatch ex_user] claim scan t(2) show ?thesis
    by auto
qed

section \<open>Accepted schedules\<close>

text \<open>
  A schedule the validator accepts can always be moved forward: in a zone that never skips the times
  of its rule, the rule that is stored has a next occurrence after every instant (up to the end of the
  calendar), so that creating, updating and claiming never fail on it. In particular an expression
  such as 30 February is refused when it is entered.
\<close>

theorem accepted_schedule_always_has_next_run:
  assumes "validate_schedule_write zoneinfo p = Inr p'"
    and zone: "zoneinfo (py_strip (sr_timezone (sw_rule p'))) = Some z" "zone_lawful z" "short_folds z"
    and never: "\<And>day_ok ts. rule_plan (sw_rule p') = Inr (day_ok, ts) \<Longrightarrow> times_never_skipped z ts"
    and early: "dt_date (z_from_utc z probe_instant) + int search_horizon \<le> max_date"
    and range: "dt_date (z_from_utc z after) + int search_horizon \<le> max_date"
  shows "\<exists>t. next_occurrence zoneinfo (sw_rule p') after = Inr t"
proof -
  from assms(1) obtain t0 where t0: "next_occurrence zoneinfo (sw_rule p') probe_instant = Inr t0"
    by (auto simp: validate_schedule_write_def validate_expression_def res_simps Let_def
        split: if_splits sum.splits schedule_error.splits)
  then obtain day_ok ts where plan: "rule_plan (sw_rule p') = Inr (day_ok, ts)"
    by (auto simp: next_occurrence_def res_simps)
  note iff = next_occurrence_found_iff[of zoneinfo "sw_rule p'", OF zone plan never[OF plan]]
  from iff[OF early] t0 iff[OF range] show ?thesis by blast
qed

theorem accepted_schedule_always_has_next_run_witness:
  "validate_schedule_write ex_zones (ex_sched_write\<lparr>sw_rule := ex_rule '' 30  9 * * 1-5''\<rparr>) = Inr ex_sched_write
   \<and> (\<exists>t. next_occurrence ex_zones (ex_rule ''30 9 * * 1-5'') (combine (ymd2ord 2096 3 1) 0) = Inr t)"
proof -
  have ok: "validate_schedule_write ex_zones (ex_sched_write\<lparr>sw_rule := ex_rule '' 30  9 * * 1-5''\<rparr>) = Inr ex_sched_write"
    by code_simp
  have zone: "ex_zones (py_strip (sr_timezone (sw_rule ex_sched_write))) = Some shanghai"
    by (simp add: ex_zones_def ex_rule_def ex_sched_write_def py_strip_def py_space_code)
  have "dt_date (z_from_utc shanghai probe_instant) + int search_horizon \<le> max_date"
    "dt_date (z_from_utc shanghai (combine (ymd2ord 2096 3 1) 0)) + int search_horizon \<le> max_date" by code_simp+
  from accepted_schedule_always_has_next_run[OF ok zone shanghai_laws(1,2,3) this] ok show ?thesis
    by (simp add: ex_sched_write_def)
qed

end
