(* ===== verification/Runner_Slots.thy ===== *)
theory Runner_Slots
  imports Run_Types
begin

text \<open>
  \<open>runner/slots.py\<close> and \<open>runner/topology.py\<close>: how many tasks of each kind a Runner executes at once and
  the queue and routing keys it binds.

  Every method of \<open>SlotState\<close> runs under its lock and is one step. \<open>SlotLease.release\<close> takes two locks one
  after the other: it marks the lease as released (\<open>mark_released\<close>) and then gives the slot back
  (\<open>give_back\<close>). Other threads may run between the two, so they are separate steps. The callback of a
  change is only a hint for the heartbeat and its exceptions are swallowed; it is not modelled.
\<close>

section \<open>Slots\<close>

datatype runner_error = RunnerError string | ConfigurationError string

definition SLOT_TYPES :: "string list" where
  "SLOT_TYPES = [''API'', ''WEB'', ''PERFORMANCE'']"

record slot_lease =
  ls_slot_type :: string
  ls_released :: bool  \<comment> \<open>marked under the lock of the lease\<close>
  ls_returned :: bool  \<comment> \<open>given back under the lock of the state\<close>

record slot_state =
  ss_totals :: "string \<Rightarrow> int"
  ss_available :: "string \<Rightarrow> int"
  ss_leases :: "slot_lease list"  \<comment> \<open>every lease handed out so far\<close>

definition new_slot_state :: "(string \<times> int) list \<Rightarrow> runner_error + slot_state" where
  "new_slot_state totals =
     (let value = (\<lambda>t. case map_of totals t of None \<Rightarrow> 0 | Some v \<Rightarrow> v) in
      if list_all (\<lambda>t. 0 \<le> value t \<and> value t \<le> 10000) SLOT_TYPES
      then Inr \<lparr>ss_totals = value, ss_available = value, ss_leases = []\<rparr>
      else Inl (RunnerError ''slot totals must be between 0 and 10000''))"

definition normalize_slot_type :: "string \<Rightarrow> runner_error + string" where
  "normalize_slot_type slot_type =
     (if py_upper slot_type \<in> set SLOT_TYPES then Inr (py_upper slot_type)
      else Inl (RunnerError ''invalid slot type''))"

text \<open>The result is the number of the new lease, or \<open>None\<close> when no slot is free.\<close>

definition try_acquire :: "slot_state \<Rightarrow> string \<Rightarrow> runner_error + nat option \<times> slot_state" where
  "try_acquire s slot_type =
     res_bind (normalize_slot_type slot_type) (\<lambda>t.
     if ss_available s t \<le> 0 then Inr (None, s)
     else Inr (Some (length (ss_leases s)),
            s\<lparr>ss_available := (ss_available s)(t := ss_available s t - 1),
              ss_leases := ss_leases s @ [\<lparr>ls_slot_type = t, ls_released = False, ls_returned = False\<rparr>]\<rparr>))"

text \<open>\<open>SlotState._release\<close>\<close>

definition slot_release :: "slot_state \<Rightarrow> string \<Rightarrow> runner_error + slot_state" where
  "slot_release s t =
     (if ss_available s t \<ge> ss_totals s t then Inl (RunnerError ''slot released twice'')
      else Inr (s\<lparr>ss_available := (ss_available s)(t := ss_available s t + 1)\<rparr>))"

definition mark_released :: "slot_state \<Rightarrow> nat \<Rightarrow> bool \<times> slot_state" where
  "mark_released s k =
     (if ls_released (ss_leases s ! k) then (False, s)
      else (True, s\<lparr>ss_leases := (ss_leases s)[k := (ss_leases s ! k)\<lparr>ls_released := True\<rparr>]\<rparr>))"

definition give_back :: "slot_state \<Rightarrow> nat \<Rightarrow> runner_error + slot_state" where
  "give_back s k =
     res_bind (slot_release s (ls_slot_type (ss_leases s ! k))) (\<lambda>s1.
     Inr (s1\<lparr>ss_leases := (ss_leases s1)[k := (ss_leases s1 ! k)\<lparr>ls_returned := True\<rparr>]\<rparr>))"

text \<open>\<open>SlotLease.release\<close> without another thread in between.\<close>

definition lease_release :: "slot_state \<Rightarrow> nat \<Rightarrow> runner_error + slot_state" where
  "lease_release s k = (case mark_released s k of (False, s1) \<Rightarrow> Inr s1 | (True, s1) \<Rightarrow> give_back s1 k)"

section \<open>Queue and routing keys\<close>

definition validate_runner_id :: "string \<Rightarrow> runner_error + unit" where
  "validate_runner_id runner_id =
     (if safe_id runner_id \<and> length runner_id \<le> 64 then Inr ()
      else Inl (ConfigurationError ''invalid runner_id''))"

definition runner_queue_name :: "string \<Rightarrow> runner_error + string" where
  "runner_queue_name runner_id =
     res_bind (validate_runner_id runner_id) (\<lambda>_. Inr (''ai_test.runner.'' @ runner_id @ ''.v1''))"

definition runner_routing_key :: "string \<Rightarrow> string \<Rightarrow> runner_error + string" where
  "runner_routing_key runner_id slot_type =
     res_bind (validate_runner_id runner_id) (\<lambda>_.
     if py_upper slot_type \<notin> set SLOT_TYPES then Inl (ConfigurationError ''invalid routing slot type'')
     else Inr (''runner.'' @ runner_id @ ''.'' @ py_lower (py_upper slot_type)))"

definition active_slot_types :: "(string \<times> int) list \<Rightarrow> runner_error + string list" where
  "active_slot_types slots =
     (let value = (\<lambda>t. case map_of slots t of None \<Rightarrow> 0 | Some v \<Rightarrow> v) in
      if list_ex (\<lambda>t. value t < 0) SLOT_TYPES then Inl (ConfigurationError ''invalid slots'')
      else Inr (filter (\<lambda>t. value t > 0) SLOT_TYPES))"

record runner_topology =
  tp_owner :: string
  tp_queue :: string
  tp_bindings :: "string list"

definition declare_runner_topology :: "string \<Rightarrow> (string \<times> int) list \<Rightarrow> runner_error + runner_topology" where
  "declare_runner_topology runner_id slots =
     res_bind (runner_queue_name runner_id) (\<lambda>queue.
     res_bind (active_slot_types slots) (\<lambda>active.
     res_bind (res_map (runner_routing_key runner_id) active) (\<lambda>bindings.
     Inr \<lparr>tp_owner = runner_id, tp_queue = queue, tp_bindings = bindings\<rparr>)))"

section \<open>No slot is lost or created\<close>

definition held :: "slot_state \<Rightarrow> string \<Rightarrow> int" where
  "held s t = int (length (filter (\<lambda>l. ls_slot_type l = t \<and> \<not> ls_returned l) (ss_leases s)))"

definition slots_inv :: "slot_state \<Rightarrow> bool" where
  "slots_inv s \<longleftrightarrow>
     (\<forall>t. ss_available s t + held s t = ss_totals s t) \<and> (\<forall>t \<in> set SLOT_TYPES. 0 \<le> ss_available s t)
     \<and> (\<forall>l \<in> set (ss_leases s). ls_returned l \<longrightarrow> ls_released l)"

text \<open>
  One step of one thread: acquiring, the first half of a release, or the second half by the thread that
  marked the lease.
\<close>

inductive slot_step :: "slot_state \<Rightarrow> slot_state \<Rightarrow> bool" where
  acquire: "try_acquire s t = Inr (x, s') \<Longrightarrow> slot_step s s'"
| mark: "k < length (ss_leases s) \<Longrightarrow> mark_released s k = (x, s') \<Longrightarrow> slot_step s s'"
| return: "k < length (ss_leases s) \<Longrightarrow> ls_released (ss_leases s ! k) \<Longrightarrow> \<not> ls_returned (ss_leases s ! k) \<Longrightarrow>
    give_back s k = Inr s' \<Longrightarrow> slot_step s s'"

lemma filter_update_length:
  assumes "k < length xs"
  shows "int (length (filter P (xs[k := y]))) =
    int (length (filter P xs)) - (if P (xs ! k) then 1 else 0) + (if P y then 1 else 0)"
proof -
  have split: "xs = take k xs @ xs ! k # drop (Suc k) xs" using assms by (simp add: id_take_nth_drop)
  have "xs[k := y] = take k xs @ y # drop (Suc k) xs" using assms by (simp add: upd_conv_take_nth_drop)
  moreover have "filter P xs = filter P (take k xs) @ filter P (xs ! k # drop (Suc k) xs)"
    by (subst split) (simp only: filter_append)
  ultimately show ?thesis by simp
qed

lemma held_positive:
  assumes "k < length (ss_leases s)" and "\<not> ls_returned (ss_leases s ! k)"
  shows "0 < held s (ls_slot_type (ss_leases s ! k))"
proof -
  have "ss_leases s ! k \<in> set (filter (\<lambda>l. ls_slot_type l = ls_slot_type (ss_leases s ! k) \<and> \<not> ls_returned l) (ss_leases s))"
    using assms by simp
  then show ?thesis unfolding held_def by (metis length_pos_if_in_set of_nat_0_less_iff)
qed

lemma held_update:
  assumes "k < length (ss_leases s)" and "ss_leases s' = (ss_leases s)[k := y]"
  shows "held s' t = held s t - (if ls_slot_type (ss_leases s ! k) = t \<and> \<not> ls_returned (ss_leases s ! k) then 1 else 0)
    + (if ls_slot_type y = t \<and> \<not> ls_returned y then 1 else 0)"
  using assms by (simp only: held_def filter_update_length)

lemma mark_released_inv:
  assumes "slots_inv s" and "k < length (ss_leases s)" and "mark_released s k = (x, s')"
  shows "slots_inv s'"
proof -
  have "held s' t = held s t" for t
  proof (cases "ls_released (ss_leases s ! k)")
    case False
    then have "ss_leases s' = (ss_leases s)[k := (ss_leases s ! k)\<lparr>ls_released := True\<rparr>]"
      using assms(3) by (auto simp: mark_released_def)
    from held_update[OF assms(2) this] show ?thesis by simp
  qed (use assms(3) in \<open>simp add: mark_released_def\<close>)
  then show ?thesis using assms
    by (auto simp: slots_inv_def mark_released_def split: if_splits dest!: set_update_subset_insert[THEN subsetD])
qed

lemma give_back_inv:
  assumes inv: "slots_inv s" and k: "k < length (ss_leases s)"
    and l: "ls_released (ss_leases s ! k)" "\<not> ls_returned (ss_leases s ! k)"
  shows "\<exists>s'. give_back s k = Inr s' \<and> slots_inv s'"
proof -
  let ?t = "ls_slot_type (ss_leases s ! k)"
  define s' where "s' = s\<lparr>ss_available := (ss_available s)(?t := ss_available s ?t + 1),
    ss_leases := (ss_leases s)[k := (ss_leases s ! k)\<lparr>ls_returned := True\<rparr>]\<rparr>"
  have "ss_available s ?t < ss_totals s ?t"
    using inv held_positive[OF k l(2)] unfolding slots_inv_def by (metis add_le_same_cancel1 not_le)
  then have ok: "give_back s k = Inr s'" by (simp add: give_back_def slot_release_def s'_def)
  have "held s' t = (if t = ?t then held s t - 1 else held s t)" for t
    using l(2) held_update[OF k, of s' "(ss_leases s ! k)\<lparr>ls_returned := True\<rparr>" t] by (simp add: s'_def)
  moreover have "ls_released l" if "l \<in> set (ss_leases s')" "ls_returned l" for l
    using that inv l(1) by (auto simp: slots_inv_def s'_def dest!: set_update_subset_insert[THEN subsetD])
  moreover have "0 \<le> ss_available s' t" if "t \<in> set SLOT_TYPES" for t
    using inv that by (fastforce simp: slots_inv_def s'_def)
  ultimately have "slots_inv s'"
    using inv unfolding slots_inv_def by (auto simp: s'_def)
  with ok show ?thesis by blast
qed

lemma lease_release_ok:
  assumes inv: "slots_inv s" and k: "k < length (ss_leases s)"
  shows "\<exists>s'. lease_release s k = Inr s'"
proof (cases "ls_released (ss_leases s ! k)")
  case False
  obtain s1 where s1: "mark_released s k = (True, s1)" using False by (simp add: mark_released_def)
  then have "slots_inv s1" using mark_released_inv[OF inv k] by blast
  moreover have "\<not> ls_returned (ss_leases s ! k)" using inv k False by (auto simp: slots_inv_def)
  ultimately show ?thesis
    using give_back_inv[of s1 k] s1 k False
    by (auto simp: lease_release_def mark_released_def split: if_splits)
qed (simp add: lease_release_def mark_released_def)

lemma try_acquire_inv:
  assumes "slots_inv s" and "try_acquire s t = Inr (x, s')"
  shows "slots_inv s'"
  using assms
  by (auto simp: slots_inv_def try_acquire_def res_simps held_def split: if_splits)

text \<open>Taking a slot and giving it back leaves the free slots as they were.\<close>

lemma acquire_release:
  assumes "slots_inv s" and "try_acquire s t = Inr (Some k, s1)"
  shows "\<exists>s2. lease_release s1 k = Inr s2 \<and> ss_available s2 = ss_available s"
proof -
  from assms(2) obtain u where u: "k = length (ss_leases s)" "s1 = s\<lparr>ss_available := (ss_available s)(u := ss_available s u - 1),
      ss_leases := ss_leases s @ [\<lparr>ls_slot_type = u, ls_released = False, ls_returned = False\<rparr>]\<rparr>"
    by (auto simp: try_acquire_def res_simps split: if_splits)
  obtain s2 where s2: "lease_release s1 k = Inr s2"
    using lease_release_ok[OF try_acquire_inv[OF assms]] u by auto
  then have "ss_available s2 = ss_available s"
    using u by (auto simp: lease_release_def mark_released_def give_back_def slot_release_def res_simps split: if_splits)
  with s2 show ?thesis by blast
qed

lemma slot_path_inv:
  assumes "slot_step\<^sup>*\<^sup>* s s'" and "slots_inv s"
  shows "slots_inv s' \<and> ss_totals s' = ss_totals s"
  using assms
proof (induction rule: rtranclp_induct)
  case (step s1 s2)
  then have inv: "slots_inv s1" "ss_totals s1 = ss_totals s" by blast+
  from step(2) show ?case
  proof cases
    case (acquire t x)
    then show ?thesis using try_acquire_inv[OF inv(1)] inv(2)
      by (auto simp: try_acquire_def res_simps split: if_splits)
  next
    case (mark k x)
    then show ?thesis using mark_released_inv[OF inv(1)] inv(2)
      by (auto simp: mark_released_def split: if_splits)
  next
    case (return k)
    then show ?thesis using give_back_inv[OF inv(1)] inv(2)
      by (force simp: give_back_def slot_release_def res_simps split: if_splits)
  qed
qed simp

text \<open>
  C11. Slots are conserved. However acquisitions and releases of any number of threads interleave, the
  free slots of a kind and the leases not yet given back add up to the configured total, a slot is
  handed out only when one is free, giving back a released lease never fails, and releasing
  the same lease again changes nothing.
\<close>

theorem slots_are_conserved:
  assumes "new_slot_state totals = Inr s0" and "slot_step\<^sup>*\<^sup>* s0 s" and "t \<in> set SLOT_TYPES"
  shows "0 \<le> ss_available s t \<and> 0 \<le> held s t \<and> ss_available s t + held s t = ss_totals s0 t
    \<and> (k < length (ss_leases s) \<longrightarrow> (\<exists>s'. lease_release s k = Inr s')
        \<and> (ls_released (ss_leases s ! k) \<longrightarrow> lease_release s k = Inr s
            \<and> (\<not> ls_returned (ss_leases s ! k) \<longrightarrow> (\<exists>s'. give_back s k = Inr s'))))"
proof -
  have "slots_inv s0" using assms(1)
    by (auto simp: new_slot_state_def slots_inv_def held_def Let_def SLOT_TYPES_def split: if_splits)
  with slot_path_inv[OF assms(2)] have inv: "slots_inv s" "ss_totals s = ss_totals s0" by blast+
  then have "0 \<le> ss_available s t \<and> 0 \<le> held s t \<and> ss_available s t + held s t = ss_totals s0 t"
    using assms(3) by (auto simp: slots_inv_def held_def)
  moreover have "\<exists>s'. lease_release s k = Inr s'" if "k < length (ss_leases s)"
    using lease_release_ok[OF inv(1) that] .
  ultimately show ?thesis
    using give_back_inv[OF inv(1), of k] by (auto simp: lease_release_def mark_released_def)
qed

definition ex_slots :: slot_state where
  "ex_slots = \<lparr>ss_totals = (\<lambda>t. if t = ''API'' then 2 else if t = ''WEB'' then 1 else 0),
     ss_available = (\<lambda>t. if t = ''API'' then 2 else if t = ''WEB'' then 1 else 0), ss_leases = []\<rparr>"

definition ex_slots1 :: slot_state where
  "ex_slots1 = (case try_acquire ex_slots ''api'' of Inr (_, s) \<Rightarrow> s | Inl _ \<Rightarrow> ex_slots)"

theorem slots_are_conserved_witness:
  "ss_available ex_slots1 ''API'' = 1 \<and> held ex_slots1 ''API'' = 1
   \<and> ss_available ex_slots1 ''API'' + held ex_slots1 ''API'' = ss_totals ex_slots ''API''"
proof -
  have new: "new_slot_state [(''API'', 2), (''WEB'', 1)] = Inr ex_slots"
    by (auto simp: new_slot_state_def ex_slots_def SLOT_TYPES_def Let_def)
  have "\<not> isl (try_acquire ex_slots ''api'')" by code_simp
  then obtain x where "try_acquire ex_slots ''api'' = Inr (x, ex_slots1)"
    by (cases "try_acquire ex_slots ''api''") (auto simp: ex_slots1_def)
  then have "slot_step ex_slots ex_slots1" by (rule slot_step.acquire)
  then have "slot_step\<^sup>*\<^sup>* ex_slots ex_slots1" by simp
  from slots_are_conserved[OF new this, of "''API''"]
  have "ss_available ex_slots1 ''API'' + held ex_slots1 ''API'' = ss_totals ex_slots ''API''"
    by (simp add: SLOT_TYPES_def)
  moreover have "ss_available ex_slots1 ''API'' = 1" "ss_totals ex_slots ''API'' = 2" by code_simp+
  ultimately show ?thesis by simp
qed

end
