(* ===== verification/Runner_Consumer.thy ===== *)
theory Runner_Consumer
  imports Runner_Slots
begin

text \<open>
  \<open>runner/consumer.py\<close>: how a Runner works off one task message of an API Run, as the Worker runs it (with
  isolated task processes, a stop event and slots).

  A method of the consumer is a \<open>task\<close>: a function on the state of the consumer that either goes on with a
  value or stops early. \<open>Returned\<close> is a \<open>return\<close> of a \<open>ConsumeOutcome\<close>, \<open>Raised\<close> an exception that
  leaves the method, \<open>Running\<close> means that the given number of polls or iterations is used up. The state
  holds the outside world (\<open>'w\<close>: backend, clock, task process), the slots and the log of what was done with
  the delivery on the channel. The outside world is reached only through the operations of
  \<open>runner_client\<close>; times are microseconds.
\<close>

section \<open>Tasks\<close>

datatype channel_action = BasicAck | BasicNack | BasicReject | StopConsuming

datatype consume_outcome = EMPTY | ACKED | REQUEUED | REJECTED | STOPPED_AUTH

datatype stop = Returned consume_outcome | Raised | Running

record 'w consumer_state =
  cm_world :: 'w
  cm_slots :: slot_state
  cm_log :: "channel_action list"

type_synonym ('w, 'a) task = "'w consumer_state \<Rightarrow> (stop + 'a) \<times> 'w consumer_state"

definition done_with :: "'a \<Rightarrow> ('w, 'a) task" where
  "done_with x s = (Inr x, s)"

definition stop_with :: "stop \<Rightarrow> ('w, 'a) task" where
  "stop_with e s = (Inl e, s)"

definition task_bind :: "('w, 'a) task \<Rightarrow> ('a \<Rightarrow> ('w, 'b) task) \<Rightarrow> ('w, 'b) task" where
  "task_bind m f s = (case m s of (Inl e, s') \<Rightarrow> (Inl e, s') | (Inr x, s') \<Rightarrow> f x s')"

lemma task_bind_cong [fundef_cong]:
  "m s = m' s' \<Longrightarrow> (\<And>x t. m s = (Inr x, t) \<Longrightarrow> f x t = g x t) \<Longrightarrow> task_bind m f s = task_bind m' g s'"
  unfolding task_bind_def by (auto split: prod.split sum.split)

text \<open>An operation on the outside world, and \<open>finally\<close>.\<close>

definition outside :: "('w \<Rightarrow> 'a \<times> 'w) \<Rightarrow> ('w, 'a) task" where
  "outside f s = (case f (cm_world s) of (x, w) \<Rightarrow> (Inr x, s\<lparr>cm_world := w\<rparr>))"

definition finally_outside :: "('w, 'a) task \<Rightarrow> ('w \<Rightarrow> 'w) \<Rightarrow> ('w, 'a) task" where
  "finally_outside m f s = (case m s of (r, s') \<Rightarrow> (r, s'\<lparr>cm_world := f (cm_world s')\<rparr>))"

definition settle :: "channel_action list \<Rightarrow> consume_outcome \<Rightarrow> ('w, 'a) task" where
  "settle actions x s = (Inl (Returned x), s\<lparr>cm_log := cm_log s @ actions\<rparr>)"

definition ack :: "('w, 'a) task" where "ack = settle [BasicAck] ACKED"
definition nack :: "('w, 'a) task" where "nack = settle [BasicNack] REQUEUED"
definition reject :: "('w, 'a) task" where "reject = settle [BasicReject] REJECTED"
definition stop_auth :: "('w, 'a) task" where "stop_auth = settle [BasicReject, StopConsuming] STOPPED_AUTH"

section \<open>The outside world\<close>

datatype client_error = ClientAuthentication | ClientTransport | ClientProtocol | ClientConfiguration | ClientOther

record retry_policy =
  rp_max_retries :: int
  rp_backoff_ms :: int
  rp_retry_on :: "string list"

record api_plan =
  pl_case_run_id :: int
  pl_total_timeout_ms :: int
  pl_has_pipeline :: bool
  pl_retry_policy :: retry_policy

record start_result =
  sv_status :: run_status
  sv_started_at :: "datetime option"

record control_state =
  kc_cancellation_requested :: bool
  kc_force_stop_requested :: bool

record evaluation_result =
  ev_cleanup_outcome :: string
  ev_token :: string

record completion =
  co_outcome :: string
  co_response :: "(string \<times> json) list option"
  co_error_type :: "string option"
  co_error_message :: "string option"
  co_retry_count :: int
  co_resources :: "json list"
  co_action_traces :: json
  co_evaluation_token :: "string option"

record complete_result =
  xr_outcome :: string
  xr_run_status :: run_status
  xr_case_status :: run_node_status

record isolated_outcome =
  io_kind :: string
  io_result :: "(string \<times> json) list option"
  io_error_type :: "string option"
  io_error_message :: "string option"

datatype task_exception = KeyboardInterrupt | OtherException

datatype isolated_task =
    RequestTask api_plan
  | CleanupTask api_plan "(string \<times> json) list" "json list" string

record 'w runner_client =
  rc_claim :: "string \<Rightarrow> string \<Rightarrow> 'w \<Rightarrow> (client_error + run_status) \<times> 'w"
  rc_plan :: "string \<Rightarrow> string \<Rightarrow> 'w \<Rightarrow> (client_error + api_plan) \<times> 'w"
  rc_start :: "string \<Rightarrow> string \<Rightarrow> int \<Rightarrow> 'w \<Rightarrow> (client_error + start_result) \<times> 'w"
  rc_cancellation :: "string \<Rightarrow> string \<Rightarrow> int \<Rightarrow> 'w \<Rightarrow> (client_error + control_state) \<times> 'w"
  rc_evaluate :: "string \<Rightarrow> string \<Rightarrow> int \<Rightarrow> (string \<times> json) list \<Rightarrow> 'w \<Rightarrow> (client_error + evaluation_result) \<times> 'w"
  rc_complete :: "string \<Rightarrow> string \<Rightarrow> int \<Rightarrow> completion \<Rightarrow> 'w \<Rightarrow> (client_error + complete_result) \<times> 'w"
  rc_clock :: "'w \<Rightarrow> datetime \<times> 'w"
  rc_stop_is_set :: "'w \<Rightarrow> bool \<times> 'w"
  rc_stop_wait :: "int \<Rightarrow> 'w \<Rightarrow> bool \<times> 'w"
  rc_stop_set :: "'w \<Rightarrow> 'w"
  rc_process_start :: "isolated_task \<Rightarrow> 'w \<Rightarrow> (task_exception + unit) \<times> 'w"
  rc_process_alive :: "'w \<Rightarrow> bool \<times> 'w"
  rc_process_poll :: "'w \<Rightarrow> bool \<times> 'w"
  rc_process_terminate :: "'w \<Rightarrow> 'w"
  rc_process_outcome :: "'w \<Rightarrow> isolated_outcome option \<times> 'w"
  rc_process_close :: "'w \<Rightarrow> 'w"

text \<open>The \<open>except\<close> clauses around a call of the backend; \<open>other\<close> is what the last one does.\<close>

definition client_failure :: "('w, 'a) task \<Rightarrow> client_error \<Rightarrow> ('w, 'a) task" where
  "client_failure other err =
     (case err of
        ClientAuthentication \<Rightarrow> stop_auth
      | ClientTransport \<Rightarrow> nack
      | ClientProtocol \<Rightarrow> reject
      | ClientConfiguration \<Rightarrow> reject
      | ClientOther \<Rightarrow> other)"

definition call :: "('w, 'a) task \<Rightarrow> ('w \<Rightarrow> (client_error + 'a) \<times> 'w) \<Rightarrow> ('w, 'a) task" where
  "call other f =
     task_bind (outside f) (\<lambda>r. case r of Inl err \<Rightarrow> client_failure other err | Inr x \<Rightarrow> done_with x)"

section \<open>Reporting\<close>

record task_ids =
  ti_run_id :: string
  ti_message_id :: string
  ti_case_run_id :: int

definition complete_disposition :: "complete_result \<Rightarrow> ('w, 'a) task" where
  "complete_disposition r =
     (let (runs, nodes) =
        (if xr_outcome r = ''TIMEOUT'' then ([RUN_TIMEOUT], [NODE_TIMEOUT])
         else if xr_outcome r = ''CANCELLED'' then ([RUN_CANCELLED], [NODE_CANCELLED])
         else if xr_outcome r = ''HTTP_RESPONSE'' \<or> xr_outcome r = ''EXECUTION_ERROR''
         then ([RUN_SUCCESS, RUN_FAILED], [NODE_SUCCESS, NODE_FAILED, NODE_REVIEW])
         else ([], []))
      in if xr_run_status r \<notin> set runs \<or> xr_case_status r \<notin> set nodes then reject else ack)"

definition report :: "'w runner_client \<Rightarrow> task_ids \<Rightarrow> completion \<Rightarrow> ('w, 'a) task" where
  "report c ids p =
     task_bind (call nack (rc_complete c (ti_run_id ids) (ti_message_id ids) (ti_case_run_id ids) p))
       complete_disposition"

definition error_completion :: "string \<Rightarrow> string \<Rightarrow> string \<Rightarrow> int \<Rightarrow> json list \<Rightarrow> completion" where
  "error_completion result type msg retry_count resources =
     \<lparr>co_outcome = result, co_response = None, co_error_type = Some type, co_error_message = Some msg,
      co_retry_count = retry_count, co_resources = resources, co_action_traces = JList [],
      co_evaluation_token = None\<rparr>"

definition complete_total_timeout :: "'w runner_client \<Rightarrow> task_ids \<Rightarrow> int \<Rightarrow> ('w, 'a) task" where
  "complete_total_timeout c ids retry_count =
     report c ids (error_completion ''TIMEOUT'' ''TOTAL_TIMEOUT'' ''total timeout'' retry_count [])"

definition complete_execution_error ::
  "'w runner_client \<Rightarrow> task_ids \<Rightarrow> string \<Rightarrow> string \<Rightarrow> int \<Rightarrow> ('w, 'a) task" where
  "complete_execution_error c ids type msg retry_count =
     report c ids (error_completion ''EXECUTION_ERROR'' type msg retry_count [])"

definition is_object :: "json \<Rightarrow> bool" where
  "is_object v \<longleftrightarrow> (case v of JObj _ \<Rightarrow> True | _ \<Rightarrow> False)"

definition complete_cancelled ::
  "'w runner_client \<Rightarrow> task_ids \<Rightarrow> int \<Rightarrow> string \<Rightarrow> string \<Rightarrow> json list \<Rightarrow> ('w, 'a) task" where
  "complete_cancelled c ids retry_count type msg resources =
     report c ids (error_completion ''CANCELLED'' type msg retry_count
       (if list_all is_object resources then resources else []))"

datatype control = FORCE_STOP | CANCEL

definition complete_control_result ::
  "'w runner_client \<Rightarrow> task_ids \<Rightarrow> control \<Rightarrow> int \<Rightarrow> json list \<Rightarrow> ('w, 'a) task" where
  "complete_control_result c ids control retry_count resources =
     (case control of
        FORCE_STOP \<Rightarrow> complete_cancelled c ids retry_count ''FORCE_STOP_REQUESTED'' ''force stopped'' resources
      | CANCEL \<Rightarrow> complete_cancelled c ids retry_count ''CANCEL_REQUESTED'' ''cancelled'' resources)"

definition check_control :: "'w runner_client \<Rightarrow> task_ids \<Rightarrow> ('w, control option) task" where
  "check_control c ids =
     task_bind (call reject (rc_cancellation c (ti_run_id ids) (ti_message_id ids) (ti_case_run_id ids)))
       (\<lambda>k. done_with (if kc_force_stop_requested k then Some FORCE_STOP
                       else if kc_cancellation_requested k then Some CANCEL else None))"

text \<open>\<open>deadline is not None and self._clock() >= deadline\<close>\<close>

definition past_deadline :: "'w runner_client \<Rightarrow> datetime option \<Rightarrow> ('w, bool) task" where
  "past_deadline c deadline =
     (case deadline of
        None \<Rightarrow> done_with False
      | Some d \<Rightarrow> task_bind (outside (rc_clock c)) (\<lambda>now. done_with (d \<le> now)))"

section \<open>One isolated execution\<close>

definition plain_outcome :: "string \<Rightarrow> isolated_outcome" where
  "plain_outcome kind = \<lparr>io_kind = kind, io_result = None, io_error_type = None, io_error_message = None\<rparr>"

definition isolated_result :: "'w runner_client \<Rightarrow> datetime option \<Rightarrow> ('w, isolated_outcome) task" where
  "isolated_result c deadline =
     task_bind (outside (rc_process_poll c)) (\<lambda>_.
     task_bind (outside (rc_process_outcome c)) (\<lambda>r.
     case r of
       Some outcome \<Rightarrow> done_with outcome
     | None \<Rightarrow>
         task_bind (past_deadline c deadline) (\<lambda>late.
         done_with (if late then plain_outcome ''TOTAL_TIMEOUT''
           else (plain_outcome ''EXECUTION_ERROR'')\<lparr>io_error_type := Some ''EXECUTOR_ERROR'',
                  io_error_message := Some ''isolated execution ended abnormally''\<rparr>))))"

text \<open>The polling loop; the first number bounds the polls. Control is asked once per second.\<close>

definition force_stop_poll :: int where "force_stop_poll = 1000000"

definition terminated :: "'w runner_client \<Rightarrow> string \<Rightarrow> ('w, isolated_outcome) task" where
  "terminated c kind = task_bind (outside (\<lambda>w. ((), rc_process_terminate c w))) (\<lambda>_. done_with (plain_outcome kind))"

text \<open>A failed control request terminates the process before the method returns.\<close>

definition check_control_terminating ::
  "'w runner_client \<Rightarrow> task_ids \<Rightarrow> ('w, control option) task" where
  "check_control_terminating c ids s =
     (case check_control c ids s of
        (Inl e, s1) \<Rightarrow> (Inl e, s1\<lparr>cm_world := rc_process_terminate c (cm_world s1)\<rparr>)
      | (Inr x, s1) \<Rightarrow> (Inr x, s1))"

fun poll_loop ::
  "'w runner_client \<Rightarrow> task_ids \<Rightarrow> datetime option \<Rightarrow> nat \<Rightarrow> datetime \<Rightarrow> ('w, isolated_outcome) task" where
  "poll_loop c ids deadline 0 last_check = stop_with Running"
| "poll_loop c ids deadline (Suc n) last_check =
     task_bind (outside (rc_process_alive c)) (\<lambda>alive.
     if \<not> alive then isolated_result c deadline
     else
       task_bind (outside (rc_process_poll c)) (\<lambda>ready.
       if ready then isolated_result c deadline
       else
         task_bind (outside (rc_clock c)) (\<lambda>now.
         task_bind (if now - last_check \<ge> force_stop_poll then check_control_terminating c ids
                    else done_with None) (\<lambda>control.
         if control = Some FORCE_STOP then terminated c ''FORCE_STOPPED''
         else
           task_bind (past_deadline c deadline) (\<lambda>late.
           if late then terminated c ''TOTAL_TIMEOUT''
           else poll_loop c ids deadline n
                  (if now - last_check \<ge> force_stop_poll then now else last_check))))))"

definition execute_isolated ::
  "'w runner_client \<Rightarrow> nat \<Rightarrow> task_ids \<Rightarrow> isolated_task \<Rightarrow> datetime option
     \<Rightarrow> ('w, task_exception + isolated_outcome) task" where
  "execute_isolated c polls ids target deadline =
     finally_outside
       (task_bind (outside (rc_process_start c target)) (\<lambda>r.
        case r of
          Inl exc \<Rightarrow> done_with (Inl exc)
        | Inr _ \<Rightarrow> task_bind (poll_loop c ids deadline polls 0) (\<lambda>x. done_with (Inr x))))
       (rc_process_close c)"

section \<open>Executing with retries\<close>

definition jget :: "string \<Rightarrow> (string \<times> json) list \<Rightarrow> json option" where
  "jget key kvs = map_of kvs key"

fun truthy :: "json \<Rightarrow> bool" where
  "truthy JNull = False"
| "truthy (JBool b) = b"
| "truthy (JInt n) = (n \<noteq> 0)"
| "truthy (JFloat r) = (r \<noteq> 0)"
| "truthy (JStr s) = (s \<noteq> [])"
| "truthy (JList xs) = (xs \<noteq> [])"
| "truthy (JObj kvs) = (kvs \<noteq> [])"

definition allowed_retry_on :: "string list" where
  "allowed_retry_on = [''TARGET_NETWORK_ERROR'', ''TARGET_TIMEOUT'', ''HTTP_5XX'']"

definition retry_policy_valid :: "retry_policy \<Rightarrow> bool" where
  "retry_policy_valid p \<longleftrightarrow>
     0 \<le> rp_max_retries p \<and> rp_max_retries p \<le> 1 \<and> 0 \<le> rp_backoff_ms p \<and> rp_backoff_ms p \<le> 30000
     \<and> length (rp_retry_on p) \<le> 3 \<and> list_all (\<lambda>x. x \<in> set allowed_retry_on) (rp_retry_on p)
     \<and> distinct (rp_retry_on p) \<and> (rp_max_retries p > 0 \<longrightarrow> rp_retry_on p \<noteq> [])"

definition no_retries :: retry_policy where
  "no_retries = \<lparr>rp_max_retries = 0, rp_backoff_ms = 0, rp_retry_on = []\<rparr>"

record run_kwargs = completion +
  rk_internal_retry :: json
  rk_cleanup_pending :: bool
  rk_cleanup_context :: "(string \<times> json) list option"

definition error_kwargs :: "string \<Rightarrow> string \<Rightarrow> string \<Rightarrow> json \<Rightarrow> json \<Rightarrow> run_kwargs" where
  "error_kwargs result type msg internal traces =
     \<lparr>co_outcome = result, co_response = None, co_error_type = Some type, co_error_message = Some msg,
      co_retry_count = 0, co_resources = [], co_action_traces = traces, co_evaluation_token = None,
      rk_internal_retry = internal, rk_cleanup_pending = False, rk_cleanup_context = None\<rparr>"

definition as_list :: "json option \<Rightarrow> json list option" where
  "as_list v = (case v of None \<Rightarrow> Some [] | Some (JList xs) \<Rightarrow> Some xs | Some _ \<Rightarrow> None)"

definition as_object :: "json option \<Rightarrow> (string \<times> json) list option" where
  "as_object v = (case v of Some (JObj kvs) \<Rightarrow> Some kvs | _ \<Rightarrow> None)"

definition pipeline_kwargs :: "(string \<times> json) list \<Rightarrow> run_kwargs" where
  "pipeline_kwargs r =
     (case (as_object (jget ''response'' r), as_list (jget ''resources'' r), as_list (jget ''action_traces'' r)) of
        (Some response, Some resources, Some traces) \<Rightarrow>
          \<lparr>co_outcome = ''HTTP_RESPONSE'', co_response = Some response, co_error_type = None,
           co_error_message = None, co_retry_count = 0, co_resources = resources, co_action_traces = JList traces,
           co_evaluation_token = None,
           rk_internal_retry = (case jget ''retry_count'' r of None \<Rightarrow> JInt 0 | Some v \<Rightarrow> v),
           rk_cleanup_pending = (case jget ''cleanup_pending'' r of None \<Rightarrow> False | Some v \<Rightarrow> truthy v),
           rk_cleanup_context = as_object (jget ''cleanup_context'' r)\<rparr>
      | _ \<Rightarrow> error_kwargs ''EXECUTION_ERROR'' ''EXECUTOR_ERROR'' ''invalid pipeline response'' (JInt 0) (JList []))"

definition completion_kwargs_from_outcome :: "isolated_outcome \<Rightarrow> run_kwargs" where
  "completion_kwargs_from_outcome x =
     (case io_result x of
        Some r \<Rightarrow>
          if io_kind x = ''HTTP_RESPONSE''
          then (error_kwargs ''HTTP_RESPONSE'' '''' '''' (JInt 0) (JList []))
                 \<lparr>co_response := Some r, co_error_type := None, co_error_message := None\<rparr>
          else if io_kind x = ''API_PIPELINE_RESULT'' then pipeline_kwargs r
          else
            (let traces = (case jget ''action_traces'' r of Some v \<Rightarrow> v | None \<Rightarrow> JList []);
                 internal = (case jget ''retry_count'' r of None \<Rightarrow> JInt 0 | Some v \<Rightarrow> v)
             in if io_kind x = ''TARGET_TIMEOUT''
                then error_kwargs ''TIMEOUT'' ''TARGET_TIMEOUT'' ''target timed out'' internal traces
                else if io_kind x = ''TARGET_NETWORK_ERROR''
                then error_kwargs ''EXECUTION_ERROR'' ''TARGET_NETWORK_ERROR'' ''target request failed'' internal traces
                else error_kwargs ''EXECUTION_ERROR''
                       (case io_error_type x of Some (c # cs) \<Rightarrow> c # cs | _ \<Rightarrow> ''EXECUTOR_ERROR'')
                       (case io_error_message x of Some (c # cs) \<Rightarrow> c # cs | _ \<Rightarrow> ''unhandled executor error'')
                       internal traces)
      | None \<Rightarrow>
          if io_kind x = ''TARGET_TIMEOUT''
          then error_kwargs ''TIMEOUT'' ''TARGET_TIMEOUT'' ''target timed out'' (JInt 0) (JList [])
          else if io_kind x = ''TARGET_NETWORK_ERROR''
          then error_kwargs ''EXECUTION_ERROR'' ''TARGET_NETWORK_ERROR'' ''target request failed'' (JInt 0) (JList [])
          else error_kwargs ''EXECUTION_ERROR''
                 (case io_error_type x of Some (c # cs) \<Rightarrow> c # cs | _ \<Rightarrow> ''EXECUTOR_ERROR'')
                 (case io_error_message x of Some (c # cs) \<Rightarrow> c # cs | _ \<Rightarrow> ''unhandled executor error'')
                 (JInt 0) (JList []))"

text \<open>
  The response of an outcome as \<open>ApiExecutionResult\<close>: \<open>None\<close> when there is none, \<open>Some None\<close> when building it
  raises. Only the status code is used afterwards.
\<close>

definition int_converts :: "json option \<Rightarrow> bool" where
  "int_converts v =
     (case v of None \<Rightarrow> True
      | Some x \<Rightarrow> \<not> truthy x \<or> (case x of JBool _ \<Rightarrow> True | JInt _ \<Rightarrow> True | JFloat _ \<Rightarrow> True
                               | JStr s \<Rightarrow> py_int s \<noteq> None | _ \<Rightarrow> False))"

definition hashable :: "json \<Rightarrow> bool" where
  "hashable v \<longleftrightarrow> (case v of JList _ \<Rightarrow> False | JObj _ \<Rightarrow> False | _ \<Rightarrow> True)"

definition dict_converts :: "json option \<Rightarrow> bool" where
  "dict_converts v =
     (case v of None \<Rightarrow> True
      | Some x \<Rightarrow> \<not> truthy x \<or> (case x of JObj _ \<Rightarrow> True
          | JList items \<Rightarrow> list_all (\<lambda>i. case i of JList [a, _] \<Rightarrow> hashable a | JStr s \<Rightarrow> length s = 2
                                          | JObj kvs \<Rightarrow> length kvs = 2 | _ \<Rightarrow> False) items
          | _ \<Rightarrow> False))"

definition result_status :: "isolated_outcome \<Rightarrow> json option option" where
  "result_status x =
     (let wire = (if io_kind x = ''API_PIPELINE_RESULT'' \<and> io_result x \<noteq> None
                  then as_object (jget ''response'' (the (io_result x))) else io_result x) in
      if io_kind x \<noteq> ''HTTP_RESPONSE'' \<and> io_kind x \<noteq> ''API_PIPELINE_RESULT'' then None
      else case wire of
             None \<Rightarrow> None
           | Some r \<Rightarrow>
               if dict_converts (jget ''headers'' r) \<and> dict_converts (jget ''cookies'' r)
                  \<and> int_converts (jget ''elapsed_ms'' r) \<and> int_converts (jget ''response_time_ms'' r)
               then Some (jget ''status_code'' r) else Some None)"

definition executor_error :: run_kwargs where
  "executor_error = error_kwargs ''EXECUTION_ERROR'' ''EXECUTOR_ERROR'' ''unhandled executor error'' (JInt 0) (JList [])"

definition interrupted :: run_kwargs where
  "interrupted = error_kwargs ''EXECUTION_ERROR'' ''EXECUTOR_INTERRUPTED'' ''stop signal'' (JInt 0) (JList [])"

text \<open>\<open>_retry_reason\<close>; comparing a status code that is not a number raises (\<open>Inl\<close>).\<close>

definition retry_reason :: "json option \<Rightarrow> run_kwargs \<Rightarrow> unit + string option" where
  "retry_reason status k =
     (let in_range = (case status of
          None \<Rightarrow> Inr False
        | Some (JInt n) \<Rightarrow> Inr (500 \<le> n \<and> n \<le> 599)
        | Some (JFloat r) \<Rightarrow> Inr (500 \<le> r \<and> r \<le> 599)
        | Some (JBool _) \<Rightarrow> Inr False
        | Some _ \<Rightarrow> Inl ())
      in res_bind in_range (\<lambda>b.
         Inr (if b then Some ''HTTP_5XX''
              else if co_outcome k = ''TIMEOUT'' then Some ''TARGET_TIMEOUT''
              else if co_outcome k = ''EXECUTION_ERROR'' \<and> co_error_type k = Some ''TARGET_NETWORK_ERROR''
              then Some ''TARGET_NETWORK_ERROR'' else None)))"

definition internal_retries :: "run_kwargs \<Rightarrow> int" where
  "internal_retries k = (case rk_internal_retry k of JInt n \<Rightarrow> n | _ \<Rightarrow> 0)"

text \<open>The body of one attempt: the status of the response, if any, and what to report.\<close>

definition one_attempt ::
  "'w runner_client \<Rightarrow> nat \<Rightarrow> task_ids \<Rightarrow> isolated_task \<Rightarrow> datetime option \<Rightarrow> int
     \<Rightarrow> ('w, json option \<times> run_kwargs) task" where
  "one_attempt c polls ids target deadline retry_count =
     task_bind (execute_isolated c polls ids target deadline) (\<lambda>r.
     case r of
       Inl KeyboardInterrupt \<Rightarrow>
         task_bind (outside (\<lambda>w. ((), rc_stop_set c w))) (\<lambda>_. done_with (None, interrupted))
     | Inl OtherException \<Rightarrow> done_with (None, executor_error)
     | Inr x \<Rightarrow>
         if io_kind x = ''FORCE_STOPPED''
         then complete_cancelled c ids retry_count ''FORCE_STOP_REQUESTED'' ''force stopped'' []
         else if io_kind x = ''TOTAL_TIMEOUT'' then complete_total_timeout c ids retry_count
         else
           task_bind (past_deadline c deadline) (\<lambda>late.
           if late then complete_total_timeout c ids retry_count
           else
             (case result_status x of
                None \<Rightarrow> done_with (None, completion_kwargs_from_outcome x)
              | Some None \<Rightarrow> done_with (None, executor_error)
              | Some (Some code) \<Rightarrow> done_with (Some code, completion_kwargs_from_outcome x))))"

text \<open>
  \<open>_wait_retry_with_control\<close>: whether to finish without a further attempt, or a control request. The wait is
  cut into pieces of half a second.
\<close>

function wait_loop ::
  "'w runner_client \<Rightarrow> task_ids \<Rightarrow> datetime option \<Rightarrow> int \<Rightarrow> int \<Rightarrow> ('w, bool \<times> control option) task" where
  "wait_loop c ids deadline retry_count remaining s =
     task_bind (case deadline of
                  None \<Rightarrow> done_with None
                | Some d \<Rightarrow> task_bind (outside (rc_clock c)) (\<lambda>now. done_with (Some (d - now)))) (\<lambda>left.
     if (case left of None \<Rightarrow> False | Some l \<Rightarrow> l \<le> 0) then complete_total_timeout c ids retry_count
     else
       (let step = (case left of None \<Rightarrow> min 500000 remaining | Some l \<Rightarrow> min 500000 (min remaining l)) in
        task_bind (outside (rc_stop_wait c step)) (\<lambda>stopped.
        if stopped then done_with (True, None)
        else
          task_bind (past_deadline c deadline) (\<lambda>late.
          if late then complete_total_timeout c ids retry_count
          else
            task_bind (check_control c ids) (\<lambda>control.
            if control \<noteq> None then done_with (True, control)
            else if remaining - step \<le> 0 then done_with (False, None)
            else wait_loop c ids deadline retry_count (remaining - step)))))) s"
  by pat_completeness auto
termination
  by (relation "measure (\<lambda>(_, _, _, _, remaining, _). nat remaining)") (auto split: option.splits)

definition wait_retry_with_control ::
  "'w runner_client \<Rightarrow> task_ids \<Rightarrow> retry_policy \<Rightarrow> int \<Rightarrow> datetime option \<Rightarrow> ('w, bool \<times> control option) task" where
  "wait_retry_with_control c ids policy retry_count deadline =
     (let delay_ms = min 30000 (rp_backoff_ms policy * 2 ^ nat retry_count) in
      if delay_ms \<le> 0
      then
        task_bind (past_deadline c deadline) (\<lambda>late.
        if late then complete_total_timeout c ids retry_count
        else
          task_bind (outside (rc_stop_is_set c)) (\<lambda>stopped.
          if stopped then done_with (True, None)
          else task_bind (check_control c ids) (\<lambda>control. done_with (False, control))))
      else wait_loop c ids deadline retry_count (milliseconds delay_ms))"

function attempt_loop ::
  "'w runner_client \<Rightarrow> nat \<Rightarrow> task_ids \<Rightarrow> isolated_task \<Rightarrow> retry_policy \<Rightarrow> datetime option \<Rightarrow> int
     \<Rightarrow> ('w, run_kwargs) task" where
  "attempt_loop c polls ids target policy deadline retry_count s =
     task_bind (past_deadline c deadline) (\<lambda>late.
     if late then complete_total_timeout c ids retry_count
     else
       task_bind (one_attempt c polls ids target deadline retry_count) (\<lambda>(code, k).
       case retry_reason code k of
         Inl _ \<Rightarrow> stop_with Raised
       | Inr reason \<Rightarrow>
           if retry_count \<ge> rp_max_retries policy
              \<or> (case reason of None \<Rightarrow> True | Some x \<Rightarrow> x \<notin> set (rp_retry_on policy))
           then done_with (k\<lparr>co_retry_count := min 3 (retry_count + internal_retries k)\<rparr>)
           else
             task_bind (check_control c ids) (\<lambda>control.
             case control of
               Some x \<Rightarrow> complete_control_result c ids x retry_count []
             | None \<Rightarrow>
                 task_bind (wait_retry_with_control c ids policy retry_count deadline) (\<lambda>(finish, control2).
                 case control2 of
                   Some x \<Rightarrow> complete_control_result c ids x retry_count []
                 | None \<Rightarrow>
                     if finish then done_with (k\<lparr>co_retry_count := retry_count\<rparr>)
                     else attempt_loop c polls ids target policy deadline (retry_count + 1))))) s"
  by pat_completeness auto
termination
  by (relation "measure (\<lambda>(_, _, _, _, policy, _, retry_count, _). nat (rp_max_retries policy - retry_count))") auto

definition execute_with_retries ::
  "'w runner_client \<Rightarrow> nat \<Rightarrow> task_ids \<Rightarrow> isolated_task \<Rightarrow> retry_policy \<Rightarrow> datetime option
     \<Rightarrow> ('w, run_kwargs) task" where
  "execute_with_retries c polls ids target policy deadline =
     (if \<not> retry_policy_valid policy then reject
      else attempt_loop c polls ids target policy deadline 0)"

section \<open>The whole delivery\<close>

text \<open>
  \<open>_execute_deferred_cleanup\<close>. Its first two branches return \<open>REJECTED\<close> without rejecting the delivery; an
  exception of the process start is not caught here.
\<close>

definition execute_deferred_cleanup ::
  "'w runner_client \<Rightarrow> nat \<Rightarrow> task_ids \<Rightarrow> api_plan \<Rightarrow> (string \<times> json) list \<Rightarrow> json list \<Rightarrow> string
     \<Rightarrow> datetime option \<Rightarrow> ('w, json list) task" where
  "execute_deferred_cleanup c polls ids plan context resources outcome deadline =
     (if \<not> list_all is_object resources then stop_with (Returned REJECTED)
      else
        task_bind (execute_isolated c polls ids (CleanupTask plan context resources outcome) deadline) (\<lambda>r.
        case r of
          Inl _ \<Rightarrow> stop_with Raised
        | Inr x \<Rightarrow>
            if io_kind x = ''FORCE_STOPPED''
            then complete_cancelled c ids 0 ''FORCE_STOP_REQUESTED'' ''force stopped'' []
            else if io_kind x = ''TOTAL_TIMEOUT'' then complete_total_timeout c ids 0
            else
              (case (io_kind x = ''API_CLEANUP_RESULT'', io_result x) of
                 (True, Some res) \<Rightarrow>
                   (case jget ''resources'' res of
                      Some (JList rs) \<Rightarrow> done_with rs
                    | _ \<Rightarrow> complete_execution_error c ids ''CLEANUP_EXECUTION_ERROR'' ''cleanup failed'' 0)
               | _ \<Rightarrow> complete_execution_error c ids ''CLEANUP_EXECUTION_ERROR'' ''cleanup failed'' 0)))"

definition deadline_from :: "datetime option \<Rightarrow> int \<Rightarrow> datetime option" where
  "deadline_from started_at total_timeout_ms = map_option (\<lambda>t. t + milliseconds total_timeout_ms) started_at"

text \<open>What is reported after an execution that was neither stopped nor timed out.\<close>

definition final_completion ::
  "'w runner_client \<Rightarrow> nat \<Rightarrow> task_ids \<Rightarrow> api_plan \<Rightarrow> datetime option \<Rightarrow> run_kwargs \<Rightarrow> ('w, completion) task" where
  "final_completion c polls ids plan deadline k =
     (if \<not> rk_cleanup_pending k then done_with (completion.truncate k)
      else
        (case (co_response k, rk_cleanup_context k) of
           (Some response, Some context) \<Rightarrow>
             task_bind (call nack (rc_evaluate c (ti_run_id ids) (ti_message_id ids) (ti_case_run_id ids) response))
               (\<lambda>ev.
             task_bind (execute_deferred_cleanup c polls ids plan context (co_resources k)
                         (ev_cleanup_outcome ev) deadline) (\<lambda>resources.
             done_with ((completion.truncate k)\<lparr>co_resources := resources, co_evaluation_token := Some (ev_token ev)\<rparr>)))
         | _ \<Rightarrow> reject))"

text \<open>One round of the loop over the iterations: a plan, its execution and its report.\<close>

definition api_iteration ::
  "'w runner_client \<Rightarrow> nat \<Rightarrow> string \<Rightarrow> string \<Rightarrow> ('w, complete_result) task" where
  "api_iteration c polls run_id message_id =
     task_bind (call reject (rc_plan c run_id message_id)) (\<lambda>plan.
     let ids = \<lparr>ti_run_id = run_id, ti_message_id = message_id, ti_case_run_id = pl_case_run_id plan\<rparr> in
     if \<not> retry_policy_valid (pl_retry_policy plan) then reject
     else
       task_bind (call reject (rc_start c run_id message_id (pl_case_run_id plan))) (\<lambda>started.
       if sv_status started = RUN_CANCELLING
       then complete_cancelled c ids 0 ''CANCEL_REQUESTED'' ''cancelled'' []
       else
         task_bind (check_control c ids) (\<lambda>control.
         case control of
           Some x \<Rightarrow> complete_control_result c ids x 0 []
         | None \<Rightarrow>
             (let deadline = deadline_from (sv_started_at started) (pl_total_timeout_ms plan) in
              task_bind (execute_with_retries c polls ids (RequestTask plan)
                          (if pl_has_pipeline plan then no_retries else pl_retry_policy plan) deadline) (\<lambda>k.
              if rk_cleanup_pending k \<and> rk_cleanup_context k = None then reject
              else
                task_bind (check_control c ids) (\<lambda>control2.
                case control2 of
                  Some x \<Rightarrow>
                    task_bind (if rk_cleanup_pending k
                               then execute_deferred_cleanup c polls ids plan (the (rk_cleanup_context k))
                                      (co_resources k) ''CANCELLED'' deadline
                               else done_with (co_resources k))
                      (\<lambda>resources. complete_control_result c ids x (co_retry_count k) resources)
                | None \<Rightarrow>
                    task_bind (final_completion c polls ids plan deadline k) (\<lambda>p.
                    call nack (rc_complete c run_id message_id (pl_case_run_id plan) p))))))))"

text \<open>The loop; the first number bounds the iterations.\<close>

fun api_loop :: "'w runner_client \<Rightarrow> nat \<Rightarrow> nat \<Rightarrow> string \<Rightarrow> string \<Rightarrow> ('w, unit) task" where
  "api_loop c 0 polls run_id message_id = stop_with Running"
| "api_loop c (Suc n) polls run_id message_id =
     task_bind (api_iteration c polls run_id message_id) (\<lambda>r.
     if xr_run_status r \<noteq> RUN_RUNNING then complete_disposition r
     else if xr_case_status r \<notin> set [NODE_SUCCESS, NODE_FAILED, NODE_REVIEW, NODE_TIMEOUT] then reject
     else api_loop c n polls run_id message_id)"

definition process_api_delivery ::
  "'w runner_client \<Rightarrow> nat \<Rightarrow> nat \<Rightarrow> string \<Rightarrow> string \<Rightarrow> ('w, unit) task" where
  "process_api_delivery c cases polls run_id message_id =
     task_bind (call reject (rc_claim c run_id message_id)) (\<lambda>status.
     if status = RUN_CANCELLED then ack else api_loop c cases polls run_id message_id)"

text \<open>
  \<open>process_execution_delivery\<close> for an envelope that names an API case: the slot is taken first and given
  back whatever happens (\<open>finally\<close>).
\<close>

definition process_execution_delivery ::
  "'w runner_client \<Rightarrow> nat \<Rightarrow> nat \<Rightarrow> string \<Rightarrow> string \<Rightarrow> ('w, unit) task" where
  "process_execution_delivery c cases polls run_id message_id s =
     (case try_acquire (cm_slots s) ''API'' of
        Inl _ \<Rightarrow> (Inl Raised, s)
      | Inr (None, _) \<Rightarrow> nack s
      | Inr (Some lease, slots) \<Rightarrow>
          (case process_api_delivery c cases polls run_id message_id (s\<lparr>cm_slots := slots\<rparr>) of
             (Inl Running, s1) \<Rightarrow> (Inl Running, s1)
           | (r, s1) \<Rightarrow>
               (case lease_release (cm_slots s1) lease of
                  Inl _ \<Rightarrow> (Inl Raised, s1)
                | Inr slots1 \<Rightarrow> (r, s1\<lparr>cm_slots := slots1\<rparr>))))"

text \<open>\<open>process_delivery\<close>, the entry that only claims.\<close>

definition process_delivery :: "'w runner_client \<Rightarrow> string \<Rightarrow> string \<Rightarrow> ('w, unit) task" where
  "process_delivery c run_id message_id = task_bind (call reject (rc_claim c run_id message_id)) (\<lambda>_. ack)"

end
