(* ===== verification/Runner_Protocol.thy ===== *)
theory Runner_Protocol
  imports Runner_Consumer Run_Execution
begin

text \<open>
  \<open>runner/protocol.py\<close>: the HTTP client of the Runner. The request loop with its retries, the request of
  every call of the API execution protocol and the strict reading of the answers.

  Answers are JSON values; an object is a list of key/value pairs as a \<open>dict\<close> has them. Parameters are
  what lies outside the program: the transport (\<open>tp_send\<close>, \<open>tp_sleep\<close>), \<open>datetime.fromisoformat\<close>
  (\<open>cd_fromiso\<close>: \<open>None\<close> for a \<open>ValueError\<close>, \<open>Some None\<close> for a time without offset) and the size of the
  UTF-8 text \<open>json.dumps\<close> gives (\<open>cd_dumps\<close>: \<open>None\<close> when it raises). The validators of the parts of an
  execution plan are arguments of \<open>plan_answer\<close>.
\<close>

section \<open>Requests\<close>

record identity =
  id_runner_id :: string
  id_credential :: string

record http_request =
  rq_method :: string
  rq_run_id :: string
  rq_endpoint :: string
  rq_credential :: string
  rq_body :: "(string \<times> json) list"  \<comment> \<open>the JSON body of a POST, the query of a GET\<close>

record http_response =
  hr_status :: int
  hr_body :: json

datatype transport_result =
    Answered http_response
  | TransportFailed bool  \<comment> \<open>TransportError with its \<open>transient\<close>\<close>
  | NetworkFailed         \<comment> \<open>ConnectionError, OSError, TimeoutError\<close>

record 'w transport =
  tp_send :: "http_request \<Rightarrow> 'w \<Rightarrow> transport_result \<times> 'w"
  tp_sleep :: "int \<Rightarrow> 'w \<Rightarrow> 'w"

record client_config =
  cc_max_attempts :: nat
  cc_backoff_base :: int
  cc_backoff_max :: int

definition new_client :: "int \<Rightarrow> int \<Rightarrow> int \<Rightarrow> client_error + client_config" where
  "new_client max_attempts backoff_base backoff_max =
     (if \<not> (1 \<le> max_attempts \<and> max_attempts \<le> 5) then Inl ClientConfiguration
      else Inr \<lparr>cc_max_attempts = nat max_attempts, cc_backoff_base = max 0 backoff_base,
                cc_backoff_max = max 0 backoff_max\<rparr>)"

definition sleep_before_retry :: "client_config \<Rightarrow> 'w transport \<Rightarrow> nat \<Rightarrow> 'w \<Rightarrow> 'w" where
  "sleep_before_retry cfg tp attempt w =
     (let delay = min (cc_backoff_max cfg) (cc_backoff_base cfg * 2 ^ attempt) in
      if delay > 0 then tp_sleep tp delay w else w)"

definition success_code :: "int \<Rightarrow> bool" where
  "success_code n \<longleftrightarrow> 200 \<le> n \<and> n < 300"

text \<open>The loop of \<open>_request\<close> with \<open>retryable=True\<close>; the number is how many attempts are left.\<close>

fun request_loop ::
  "client_config \<Rightarrow> 'w transport \<Rightarrow> http_request \<Rightarrow> nat \<Rightarrow> 'w \<Rightarrow> (client_error + http_response) \<times> 'w" where
  "request_loop cfg tp q 0 w = (Inl ClientTransport, w)"
| "request_loop cfg tp q (Suc n) w =
     (case tp_send tp q w of
        (TransportFailed transient, w') \<Rightarrow>
          if \<not> transient \<or> n = 0 then (Inl ClientTransport, w')
          else request_loop cfg tp q n (sleep_before_retry cfg tp (cc_max_attempts cfg - Suc n) w')
      | (NetworkFailed, w') \<Rightarrow>
          if n = 0 then (Inl ClientTransport, w')
          else request_loop cfg tp q n (sleep_before_retry cfg tp (cc_max_attempts cfg - Suc n) w')
      | (Answered r, w') \<Rightarrow>
          if success_code (hr_status r) then (Inr r, w')
          else if hr_status r = 401 \<or> hr_status r = 403 then (Inl ClientAuthentication, w')
          else if 500 \<le> hr_status r \<and> hr_status r \<le> 599
          then (if n = 0 then (Inl ClientTransport, w')
                else request_loop cfg tp q n (sleep_before_retry cfg tp (cc_max_attempts cfg - Suc n) w'))
          else (Inl ClientProtocol, w'))"

definition client_request ::
  "client_config \<Rightarrow> 'w transport \<Rightarrow> http_request \<Rightarrow> 'w \<Rightarrow> (client_error + http_response) \<times> 'w" where
  "client_request cfg tp q w = request_loop cfg tp q (cc_max_attempts cfg) w"

text \<open>A call: the local checks, the request and the reading of the answer.\<close>

definition response_object :: "http_response \<Rightarrow> client_error + (string \<times> json) list" where
  "response_object r = (case hr_body r of JObj body \<Rightarrow> Inr body | _ \<Rightarrow> Inl ClientProtocol)"

definition remote_call ::
  "client_config \<Rightarrow> 'w transport \<Rightarrow> client_error + http_request
     \<Rightarrow> ((string \<times> json) list \<Rightarrow> client_error + 'r) \<Rightarrow> 'w \<Rightarrow> (client_error + 'r) \<times> 'w" where
  "remote_call cfg tp q read w =
     (case q of
        Inl err \<Rightarrow> (Inl err, w)
      | Inr req \<Rightarrow>
          (case client_request cfg tp req w of
             (Inl err, w') \<Rightarrow> (Inl err, w')
           | (Inr r, w') \<Rightarrow> (res_bind (response_object r) read, w')))"

section \<open>Fields\<close>

record codec =
  cd_fromiso :: "string \<Rightarrow> datetime option option"
  cd_dumps :: "json \<Rightarrow> int option"

definition check :: "client_error \<Rightarrow> bool \<Rightarrow> client_error + unit" where
  "check err ok = (if ok then Inr () else Inl err)"

definition field :: "(string \<times> json) list \<Rightarrow> string \<Rightarrow> json" where
  "field body key = (case jget key body of None \<Rightarrow> JNull | Some v \<Rightarrow> v)"

lemma field_Cons [simp]:
  "field ((k, v) # body) key = (if k = key then v else field body key)" "field [] key = JNull"
  by (simp_all add: field_def jget_def)

definition required_text :: "(string \<times> json) list \<Rightarrow> string \<Rightarrow> int \<Rightarrow> client_error + string" where
  "required_text body key max_length =
     (case field body key of
        JStr s \<Rightarrow> if s \<noteq> [] \<and> int (length s) \<le> max_length then Inr s else Inl ClientProtocol
      | _ \<Rightarrow> Inl ClientProtocol)"

definition required_positive_int :: "json \<Rightarrow> client_error + int" where
  "required_positive_int v =
     (case v of JInt n \<Rightarrow> if n \<le> 0 then Inl ClientProtocol else Inr n | _ \<Rightarrow> Inl ClientProtocol)"

definition required_bool :: "json \<Rightarrow> client_error + bool" where
  "required_bool v = (case v of JBool b \<Rightarrow> Inr b | _ \<Rightarrow> Inl ClientProtocol)"

definition required_retry_count :: "json \<Rightarrow> client_error + int" where
  "required_retry_count v =
     (case v of JInt n \<Rightarrow> if 0 \<le> n \<and> n \<le> 3 then Inr n else Inl ClientProtocol | _ \<Rightarrow> Inl ClientProtocol)"

definition optional_text :: "json \<Rightarrow> int \<Rightarrow> client_error + string option" where
  "optional_text v max_length =
     (case v of
        JNull \<Rightarrow> Inr None
      | JStr s \<Rightarrow> if int (length s) \<le> max_length then Inr (Some s) else Inl ClientProtocol
      | _ \<Rightarrow> Inl ClientProtocol)"

definition require_exact_keys :: "(string \<times> json) list \<Rightarrow> string list \<Rightarrow> client_error + unit" where
  "require_exact_keys body expected = check ClientProtocol (set (map fst body) = set expected)"

definition replace_zulu :: "string \<Rightarrow> string" where
  "replace_zulu s = concat (map (\<lambda>c. if c = CHR ''Z'' then ''+00:00'' else [c]) s)"

definition parse_datetime :: "codec \<Rightarrow> json \<Rightarrow> client_error + datetime" where
  "parse_datetime cd v =
     (case v of
        JStr s \<Rightarrow>
          if py_strip s = [] then Inl ClientProtocol
          else (case cd_fromiso cd (replace_zulu s) of Some (Some t) \<Rightarrow> Inr t | _ \<Rightarrow> Inl ClientProtocol)
      | _ \<Rightarrow> Inl ClientProtocol)"

text \<open>\<open>type(schema_version) is int and schema_version == 1\<close>\<close>

definition schema_one :: "(string \<times> json) list \<Rightarrow> client_error + unit" where
  "schema_one body = check ClientProtocol (field body ''schema_version'' = JInt 1)"

definition valid_identifier :: "nat \<Rightarrow> string \<Rightarrow> bool" where
  "valid_identifier max_length s \<longleftrightarrow> safe_id s \<and> length s \<le> max_length"

definition validate_identity :: "identity \<Rightarrow> client_error + unit" where
  "validate_identity i =
     res_bind (check ClientConfiguration (valid_identifier 64 (id_runner_id i))) (\<lambda>_.
     check ClientAuthentication (16 \<le> length (id_credential i) \<and> length (id_credential i) \<le> 512))"

definition validate_execution_identifiers :: "string \<Rightarrow> string \<Rightarrow> client_error + unit" where
  "validate_execution_identifiers run_id message_id =
     check ClientConfiguration (valid_identifier 128 run_id \<and> valid_identifier 64 message_id)"

definition validate_case_run_id :: "int \<Rightarrow> client_error + unit" where
  "validate_case_run_id n = check ClientConfiguration (0 < n)"

section \<open>Status texts\<close>

fun run_status_value :: "run_status \<Rightarrow> string" where
  "run_status_value RUN_CREATED = ''CREATED''"
| "run_status_value RUN_QUEUED = ''QUEUED''"
| "run_status_value RUN_ASSIGNED = ''ASSIGNED''"
| "run_status_value RUN_RUNNING = ''RUNNING''"
| "run_status_value RUN_CANCELLING = ''CANCELLING''"
| "run_status_value RUN_SUCCESS = ''SUCCESS''"
| "run_status_value RUN_FAILED = ''FAILED''"
| "run_status_value RUN_CANCELLED = ''CANCELLED''"
| "run_status_value RUN_TIMEOUT = ''TIMEOUT''"

fun node_status_value :: "run_node_status \<Rightarrow> string" where
  "node_status_value NODE_CREATED = ''CREATED''"
| "node_status_value NODE_ASSIGNED = ''ASSIGNED''"
| "node_status_value NODE_RUNNING = ''RUNNING''"
| "node_status_value NODE_CANCELLING = ''CANCELLING''"
| "node_status_value NODE_SUCCESS = ''SUCCESS''"
| "node_status_value NODE_FAILED = ''FAILED''"
| "node_status_value NODE_REVIEW = ''REVIEW''"
| "node_status_value NODE_CANCELLED = ''CANCELLED''"
| "node_status_value NODE_TIMEOUT = ''TIMEOUT''"
| "node_status_value NODE_SKIPPED = ''SKIPPED''"

text \<open>A text that is one of the given states; any other is a protocol error.\<close>

definition one_of :: "('s \<Rightarrow> string) \<Rightarrow> 's list \<Rightarrow> string \<Rightarrow> client_error + 's" where
  "one_of value states s = option_to_res ClientProtocol (find (\<lambda>x. value x = s) states)"

lemma one_of_value: "one_of value states s = Inr x \<Longrightarrow> value x = s \<and> x \<in> set states"
  by (auto simp: one_of_def option_to_res_def find_Some_iff split: option.splits)

section \<open>Claim\<close>

record claim_result =
  kr_status :: run_status
  kr_claimed_at :: "datetime option"
  kr_idempotent :: bool

definition claim_request :: "identity \<Rightarrow> string \<Rightarrow> string \<Rightarrow> client_error + http_request" where
  "claim_request i run_id message_id =
     res_bind (validate_identity i) (\<lambda>_.
     res_bind (validate_execution_identifiers run_id message_id) (\<lambda>_.
     Inr \<lparr>rq_method = ''POST'', rq_run_id = run_id, rq_endpoint = ''claim'', rq_credential = id_credential i,
          rq_body = [(''message_id'', JStr message_id)]\<rparr>))"

definition claim_answer ::
  "codec \<Rightarrow> identity \<Rightarrow> string \<Rightarrow> string \<Rightarrow> (string \<times> json) list \<Rightarrow> client_error + claim_result" where
  "claim_answer cd i run_id message_id body =
     res_bind (required_text body ''run_id'' 128) (\<lambda>response_run_id.
     res_bind (required_text body ''message_id'' 64) (\<lambda>response_message_id.
     res_bind (required_text body ''runner_id'' 64) (\<lambda>response_runner_id.
     res_bind (required_text body ''status'' 16) (\<lambda>status.
     res_bind (if status = ''ASSIGNED''
               then res_bind (parse_datetime cd (field body ''claimed_at'')) (\<lambda>t. Inr (Some t))
               else Inr None) (\<lambda>claimed_at.
     res_bind (required_bool (field body ''idempotent'')) (\<lambda>idempotent.
     res_bind (check ClientProtocol (response_run_id = run_id \<and> response_message_id = message_id
                \<and> response_runner_id = id_runner_id i)) (\<lambda>_.
     res_bind (check ClientProtocol
                (status = ''CANCELLED'' \<longrightarrow> field body ''claimed_at'' = JNull \<and> idempotent)) (\<lambda>_.
     res_bind (one_of run_status_value [RUN_ASSIGNED, RUN_CANCELLED] status) (\<lambda>st.
     res_bind (require_exact_keys body
                [''run_id'', ''message_id'', ''runner_id'', ''status'', ''claimed_at'', ''idempotent'']) (\<lambda>_.
     Inr \<lparr>kr_status = st, kr_claimed_at = claimed_at, kr_idempotent = idempotent\<rparr>))))))))))"

section \<open>Execution plan\<close>

text \<open>The validators of the parts of a plan. \<open>pp_request\<close> gives the retry policy of the request.\<close>

record plan_parts =
  pp_request :: "json \<Rightarrow> client_error + retry_policy"
  pp_context :: "json \<Rightarrow> client_error + (string \<times> json) list"
  pp_pre_actions :: "json \<Rightarrow> client_error + json list"
  pp_extractors :: "json \<Rightarrow> client_error + json list"
  pp_post_actions :: "json \<Rightarrow> client_error + json list"
  pp_connections :: "json \<Rightarrow> client_error + json list"
  pp_secrets :: "json \<Rightarrow> client_error + json list"
  pp_cleanups :: "json \<Rightarrow> client_error + json list"

definition required_plan_keys :: "string list" where
  "required_plan_keys = [''schema_version'', ''run_id'', ''message_id'', ''runner_id'', ''case_run_id'',
     ''case_version_id'', ''request'', ''total_timeout_ms'']"

definition optional_plan_keys :: "string list" where
  "optional_plan_keys = [''initial_context'', ''pre_actions'', ''extractors'', ''post_actions'',
     ''sql_connections'', ''secrets'', ''cleanups'', ''defer_cleanup_until_assertions'']"

definition field_or :: "json \<Rightarrow> (string \<times> json) list \<Rightarrow> string \<Rightarrow> json" where
  "field_or d body key = (case jget key body of None \<Rightarrow> d | Some v \<Rightarrow> v)"

definition plan_request :: "identity \<Rightarrow> string \<Rightarrow> string \<Rightarrow> client_error + http_request" where
  "plan_request i run_id message_id =
     res_bind (validate_identity i) (\<lambda>_.
     res_bind (validate_execution_identifiers run_id message_id) (\<lambda>_.
     Inr \<lparr>rq_method = ''GET'', rq_run_id = run_id, rq_endpoint = ''execution-plan'',
          rq_credential = id_credential i, rq_body = [(''message_id'', JStr message_id)]\<rparr>))"

definition plan_answer ::
  "plan_parts \<Rightarrow> identity \<Rightarrow> string \<Rightarrow> string \<Rightarrow> (string \<times> json) list \<Rightarrow> client_error + api_plan" where
  "plan_answer pp i run_id message_id body =
     res_bind (check ClientProtocol (set required_plan_keys \<subseteq> set (map fst body)
                \<and> set (map fst body) - set required_plan_keys - set optional_plan_keys = {})) (\<lambda>_.
     res_bind (schema_one body) (\<lambda>_.
     res_bind (required_text body ''run_id'' 128) (\<lambda>response_run_id.
     res_bind (required_text body ''message_id'' 64) (\<lambda>response_message_id.
     res_bind (required_text body ''runner_id'' 64) (\<lambda>response_runner_id.
     res_bind (required_positive_int (field body ''case_run_id'')) (\<lambda>case_run_id.
     res_bind (required_positive_int (field body ''case_version_id'')) (\<lambda>_.
     res_bind (case field body ''total_timeout_ms'' of
                 JInt n \<Rightarrow> if 1000 \<le> n \<and> n \<le> 86400000 then Inr n else Inl ClientProtocol
               | _ \<Rightarrow> Inl ClientProtocol) (\<lambda>total_timeout_ms.
     res_bind (check ClientProtocol (response_run_id = run_id \<and> response_message_id = message_id
                \<and> response_runner_id = id_runner_id i)) (\<lambda>_.
     res_bind (pp_request pp (field body ''request'')) (\<lambda>policy.
     res_bind (pp_context pp (field_or (JObj []) body ''initial_context'')) (\<lambda>initial_context.
     res_bind (pp_pre_actions pp (field_or (JList []) body ''pre_actions'')) (\<lambda>pre_actions.
     res_bind (pp_extractors pp (field_or (JList []) body ''extractors'')) (\<lambda>extractors.
     res_bind (pp_post_actions pp (field_or (JList []) body ''post_actions'')) (\<lambda>post_actions.
     res_bind (pp_connections pp (field_or (JList []) body ''sql_connections'')) (\<lambda>_.
     res_bind (pp_secrets pp (field_or (JList []) body ''secrets'')) (\<lambda>_.
     res_bind (pp_cleanups pp (field_or (JList []) body ''cleanups'')) (\<lambda>cleanups.
     res_bind (required_bool (field_or (JBool False) body ''defer_cleanup_until_assertions'')) (\<lambda>defer_cleanup.
     res_bind (check ClientProtocol (defer_cleanup \<longrightarrow> cleanups \<noteq> [])) (\<lambda>_.
     res_bind (check ClientProtocol
                (initial_context \<noteq> [] \<longrightarrow> pre_actions \<noteq> [] \<or> extractors \<noteq> [] \<or> post_actions \<noteq> [])) (\<lambda>_.
     Inr \<lparr>pl_case_run_id = case_run_id, pl_total_timeout_ms = total_timeout_ms,
          pl_has_pipeline = (pre_actions \<noteq> [] \<or> extractors \<noteq> [] \<or> post_actions \<noteq> [] \<or> cleanups \<noteq> []),
          pl_retry_policy = policy\<rparr>))))))))))))))))))))"

section \<open>Start and control\<close>

definition case_request ::
  "string \<Rightarrow> string \<Rightarrow> identity \<Rightarrow> string \<Rightarrow> string \<Rightarrow> int \<Rightarrow> client_error + http_request" where
  "case_request verb endpoint i run_id message_id case_run_id =
     res_bind (validate_identity i) (\<lambda>_.
     res_bind (validate_execution_identifiers run_id message_id) (\<lambda>_.
     res_bind (validate_case_run_id case_run_id) (\<lambda>_.
     Inr \<lparr>rq_method = verb, rq_run_id = run_id, rq_endpoint = endpoint, rq_credential = id_credential i,
          rq_body = [(''message_id'', JStr message_id), (''case_run_id'', JInt case_run_id)]\<rparr>)))"

definition start_answer ::
  "codec \<Rightarrow> identity \<Rightarrow> string \<Rightarrow> string \<Rightarrow> int \<Rightarrow> (string \<times> json) list \<Rightarrow> client_error + start_result" where
  "start_answer cd i run_id message_id case_run_id body =
     res_bind (require_exact_keys body [''schema_version'', ''run_id'', ''message_id'', ''runner_id'',
                ''case_run_id'', ''status'', ''started_at'', ''idempotent'']) (\<lambda>_.
     res_bind (schema_one body) (\<lambda>_.
     res_bind (required_text body ''run_id'' 128) (\<lambda>response_run_id.
     res_bind (required_text body ''message_id'' 64) (\<lambda>response_message_id.
     res_bind (required_text body ''runner_id'' 64) (\<lambda>response_runner_id.
     res_bind (required_positive_int (field body ''case_run_id'')) (\<lambda>response_case_run_id.
     res_bind (required_text body ''status'' 32) (\<lambda>status.
     res_bind (if status = ''RUNNING''
               then res_bind (parse_datetime cd (field body ''started_at'')) (\<lambda>t. Inr (Some t))
               else if status = ''CANCELLING''
               then (if field body ''started_at'' \<noteq> JNull then Inl ClientProtocol else Inr None)
               else Inl ClientProtocol) (\<lambda>started_at.
     res_bind (required_bool (field body ''idempotent'')) (\<lambda>_.
     res_bind (one_of run_status_value [RUN_RUNNING, RUN_CANCELLING] status) (\<lambda>st.
     res_bind (check ClientProtocol (response_run_id = run_id \<and> response_message_id = message_id
                \<and> response_runner_id = id_runner_id i \<and> response_case_run_id = case_run_id)) (\<lambda>_.
     Inr \<lparr>sv_status = st, sv_started_at = started_at\<rparr>)))))))))))"

definition cancellation_answer ::
  "string \<Rightarrow> string \<Rightarrow> int \<Rightarrow> (string \<times> json) list \<Rightarrow> client_error + control_state" where
  "cancellation_answer run_id message_id case_run_id body =
     res_bind (require_exact_keys body [''schema_version'', ''run_id'', ''message_id'', ''case_run_id'',
                ''status'', ''cancellation_requested'', ''force_stop_requested'']) (\<lambda>_.
     res_bind (schema_one body) (\<lambda>_.
     res_bind (required_text body ''run_id'' 128) (\<lambda>response_run_id.
     res_bind (required_text body ''message_id'' 64) (\<lambda>response_message_id.
     res_bind (required_positive_int (field body ''case_run_id'')) (\<lambda>response_case_run_id.
     res_bind (required_text body ''status'' 32) (\<lambda>status.
     res_bind (required_bool (field body ''cancellation_requested'')) (\<lambda>cancellation_requested.
     res_bind (required_bool (field body ''force_stop_requested'')) (\<lambda>force_stop_requested.
     res_bind (check ClientProtocol (response_run_id = run_id \<and> response_message_id = message_id
                \<and> response_case_run_id = case_run_id)) (\<lambda>_.
     res_bind (check ClientProtocol
                (status = ''RUNNING'' \<longrightarrow> \<not> cancellation_requested \<and> \<not> force_stop_requested)) (\<lambda>_.
     res_bind (check ClientProtocol
                (status = ''CANCELLING'' \<or> status = ''CANCELLED'' \<longrightarrow> cancellation_requested)) (\<lambda>_.
     res_bind (check ClientProtocol (status \<in> set [''RUNNING'', ''CANCELLING'', ''CANCELLED''])) (\<lambda>_.
     Inr \<lparr>kc_cancellation_requested = cancellation_requested,
          kc_force_stop_requested = force_stop_requested\<rparr>))))))))))))"

section \<open>Evaluation\<close>

text \<open>The response of the tested system as it is sent to the backend.\<close>

definition wire_response_map :: "json \<Rightarrow> client_error + json" where
  "wire_response_map v =
     (case v of
        JObj kvs \<Rightarrow>
          if 100 < length kvs then Inl ClientConfiguration
          else if list_all (\<lambda>(name, item). case item of
                   JStr s \<Rightarrow> length name \<le> 255 \<and> int (length s) \<le> 10000 | _ \<Rightarrow> False) kvs
          then Inr (JObj kvs) else Inl ClientConfiguration
      | _ \<Rightarrow> Inl ClientConfiguration)"

definition optional_nonnegative_int :: "json \<Rightarrow> client_error + json" where
  "optional_nonnegative_int v =
     (case v of
        JNull \<Rightarrow> Inr JNull
      | JInt n \<Rightarrow> if 0 \<le> n \<and> n \<le> 86400000 then Inr v else Inl ClientConfiguration
      | _ \<Rightarrow> Inl ClientConfiguration)"

definition execution_response_snapshot :: "codec \<Rightarrow> (string \<times> json) list \<Rightarrow> client_error + json" where
  "execution_response_snapshot cd value =
     res_bind (check ClientConfiguration (set (map fst value) \<subseteq> set [''status_code'', ''json_body'', ''text'',
                ''headers'', ''cookies'', ''elapsed_ms'', ''response_time_ms''])) (\<lambda>_.
     res_bind (check ClientConfiguration
                (case field value ''status_code'' of JInt n \<Rightarrow> 100 \<le> n \<and> n \<le> 599 | _ \<Rightarrow> False)) (\<lambda>_.
     res_bind (check ClientConfiguration
                (case field value ''text'' of JNull \<Rightarrow> True | JStr s \<Rightarrow> int (length s) \<le> 2000000 | _ \<Rightarrow> False)) (\<lambda>_.
     res_bind (check ClientConfiguration
                (case cd_dumps cd (JObj [(''json_body'', field value ''json_body''), (''text'', field value ''text'')]) of
                   None \<Rightarrow> False | Some n \<Rightarrow> n \<le> 2000000)) (\<lambda>_.
     res_bind (wire_response_map (field_or (JObj []) value ''headers'')) (\<lambda>headers.
     res_bind (wire_response_map (field_or (JObj []) value ''cookies'')) (\<lambda>cookies.
     res_bind (optional_nonnegative_int (field value ''elapsed_ms'')) (\<lambda>elapsed_ms.
     res_bind (optional_nonnegative_int (field value ''response_time_ms'')) (\<lambda>response_time_ms.
     res_bind (check ClientConfiguration (elapsed_ms \<noteq> JNull \<longrightarrow> response_time_ms \<noteq> JNull \<longrightarrow>
                elapsed_ms = response_time_ms)) (\<lambda>_.
     Inr (JObj [(''status_code'', field value ''status_code''), (''json_body'', field value ''json_body''),
            (''text'', field value ''text''), (''headers'', headers), (''cookies'', cookies),
            (''elapsed_ms'', elapsed_ms), (''response_time_ms'', response_time_ms)]))))))))))"

definition with_body :: "(string \<times> json) list \<Rightarrow> http_request \<Rightarrow> http_request" where
  "with_body extra q = q\<lparr>rq_body := rq_body q @ extra\<rparr>"

definition evaluate_request ::
  "codec \<Rightarrow> identity \<Rightarrow> string \<Rightarrow> string \<Rightarrow> int \<Rightarrow> (string \<times> json) list \<Rightarrow> client_error + http_request" where
  "evaluate_request cd i run_id message_id case_run_id response =
     res_bind (case_request ''POST'' ''execution-evaluate'' i run_id message_id case_run_id) (\<lambda>q.
     res_bind (execution_response_snapshot cd response) (\<lambda>snapshot.
     Inr (with_body [(''response'', snapshot)] q)))"

text \<open>\<open>_parse_assertion_results\<close>: the checks of one item, and of the array.\<close>

definition required_result_keys :: "string list" where
  "required_result_keys = [''sequence'', ''name'', ''type'', ''status'', ''message'', ''duration_ms'']"

definition optional_result_keys :: "string list" where
  "optional_result_keys = [''expected'', ''actual'', ''confidence'', ''reason'', ''ai_call_id'', ''actual_model'',
     ''fallback_used'', ''repair_used'']"

definition is_text :: "json \<Rightarrow> bool" where
  "is_text v \<longleftrightarrow> (case v of JStr _ \<Rightarrow> True | _ \<Rightarrow> False)"

text \<open>\<open>value in {...}\<close> on a set of texts: asking for a value that cannot be hashed raises \<open>TypeError\<close>.\<close>

definition text_among :: "string list \<Rightarrow> json \<Rightarrow> client_error + bool" where
  "text_among texts v = (if hashable v then Inr (v \<in> set (map JStr texts)) else Inl ClientOther)"

definition assertion_item :: "json \<Rightarrow> client_error + unit" where
  "assertion_item v =
     (case v of
        JObj item \<Rightarrow>
          res_bind (check ClientProtocol
             (set required_result_keys \<subseteq> set (map fst item)
              \<and> set (map fst item) - set (required_result_keys @ optional_result_keys) = {}
              \<and> (case field item ''sequence'' of JInt n \<Rightarrow> 1 \<le> n | _ \<Rightarrow> False)
              \<and> is_text (field item ''name'') \<and> is_text (field item ''type''))) (\<lambda>_.
          res_bind (text_among [''PASS'', ''FAIL'', ''REVIEW'', ''SKIPPED''] (field item ''status'')) (\<lambda>known.
          check ClientProtocol
             (known \<and> is_text (field item ''message'')
              \<and> (case field item ''duration_ms'' of JInt n \<Rightarrow> 0 \<le> n | _ \<Rightarrow> False)
              \<and> (case field item ''confidence'' of
                   JNull \<Rightarrow> True | JInt n \<Rightarrow> 0 \<le> n \<and> n \<le> 1 | JFloat r \<Rightarrow> 0 \<le> r \<and> r \<le> 1 | _ \<Rightarrow> False)
              \<and> (case field item ''ai_call_id'' of JNull \<Rightarrow> True | JInt n \<Rightarrow> 0 < n | _ \<Rightarrow> False)
              \<and> list_all (\<lambda>key. case field item key of JNull \<Rightarrow> True | JBool _ \<Rightarrow> True | _ \<Rightarrow> False)
                  [''fallback_used'', ''repair_used'']
              \<and> list_all (\<lambda>key. case field item key of JNull \<Rightarrow> True | JStr _ \<Rightarrow> True | _ \<Rightarrow> False)
                  [''reason'', ''actual_model''])))
      | _ \<Rightarrow> Inl ClientProtocol)"

definition parse_assertion_results :: "json \<Rightarrow> client_error + json list" where
  "parse_assertion_results v =
     (case v of
        JList items \<Rightarrow>
          if 100 < length items then Inl ClientProtocol
          else res_bind (res_map assertion_item items) (\<lambda>_. Inr items)
      | _ \<Rightarrow> Inl ClientProtocol)"

definition evaluate_answer ::
  "identity \<Rightarrow> string \<Rightarrow> string \<Rightarrow> int \<Rightarrow> (string \<times> json) list \<Rightarrow> client_error + evaluation_result" where
  "evaluate_answer i run_id message_id case_run_id body =
     res_bind (require_exact_keys body [''schema_version'', ''run_id'', ''message_id'', ''runner_id'',
                ''case_run_id'', ''assertion_status'', ''cleanup_outcome'', ''assertion_results'',
                ''evaluation_token'']) (\<lambda>_.
     res_bind (check ClientProtocol
                (field body ''schema_version'' \<in> set [JInt 1, JBool True, JFloat 1])) (\<lambda>_.
     res_bind (required_text body ''run_id'' 128) (\<lambda>response_run_id.
     res_bind (required_text body ''message_id'' 64) (\<lambda>response_message_id.
     res_bind (required_text body ''runner_id'' 64) (\<lambda>response_runner_id.
     res_bind (required_positive_int (field body ''case_run_id'')) (\<lambda>response_case_run_id.
     res_bind (required_text body ''assertion_status'' 16) (\<lambda>assertion_status.
     res_bind (required_text body ''cleanup_outcome'' 16) (\<lambda>cleanup_outcome.
     res_bind (parse_assertion_results (field body ''assertion_results'')) (\<lambda>_.
     res_bind (required_text body ''evaluation_token'' 64000) (\<lambda>evaluation_token.
     res_bind (check ClientProtocol (response_run_id = run_id \<and> response_message_id = message_id
                \<and> response_runner_id = id_runner_id i \<and> response_case_run_id = case_run_id
                \<and> assertion_status \<in> set [''PASS'', ''FAIL'', ''REVIEW'']
                \<and> cleanup_outcome \<in> set [''SUCCESS'', ''FAILURE'']
                \<and> (assertion_status = ''PASS'') = (cleanup_outcome = ''SUCCESS''))) (\<lambda>_.
     Inr \<lparr>ev_cleanup_outcome = cleanup_outcome, ev_token = evaluation_token\<rparr>)))))))))))"

section \<open>Completion\<close>

definition validate_api_pipeline_json :: "codec \<Rightarrow> json \<Rightarrow> client_error + unit" where
  "validate_api_pipeline_json cd v =
     (case cd_dumps cd v of
        None \<Rightarrow> Inl ClientProtocol
      | Some n \<Rightarrow> if 64000 < n then Inl ClientProtocol else Inr ())"

text \<open>\<open>_api_action_trace_payload\<close>\<close>

definition trace_phases :: "string list" where
  "trace_phases = [''PRE'', ''AUTH_REFRESH'', ''EXTRACTOR'', ''POST'']"

definition trace_item :: "json \<Rightarrow> client_error + unit" where
  "trace_item v =
     (case v of
        JObj item \<Rightarrow>
          res_bind (check ClientConfiguration
             (set (map fst item)
                = set [''sequence'', ''phase'', ''type'', ''name'', ''status'', ''duration_ms'', ''error_type'']
              \<and> (case field item ''sequence'' of JInt n \<Rightarrow> 1 \<le> n \<and> n \<le> 1000 | _ \<Rightarrow> False))) (\<lambda>_.
          res_bind (text_among trace_phases (field item ''phase'')) (\<lambda>known_phase.
          res_bind (check ClientConfiguration
             (known_phase
              \<and> (case field item ''type'' of JStr s \<Rightarrow> 1 \<le> length s \<and> length s \<le> 64 | _ \<Rightarrow> False)
              \<and> (case field item ''name'' of JNull \<Rightarrow> True | JStr s \<Rightarrow> length s \<le> 255 | _ \<Rightarrow> False))) (\<lambda>_.
          res_bind (text_among [''SUCCESS'', ''FAILED'', ''SKIPPED''] (field item ''status'')) (\<lambda>known_status.
          check ClientConfiguration
             (known_status
              \<and> (case field item ''duration_ms'' of JInt n \<Rightarrow> 0 \<le> n \<and> n \<le> 86400000 | _ \<Rightarrow> False)
              \<and> (case field item ''error_type'' of JNull \<Rightarrow> True | JStr s \<Rightarrow> length s \<le> 100 | _ \<Rightarrow> False)
              \<and> (field item ''status'' = JStr ''FAILED'' \<longrightarrow> truthy (field item ''error_type''))
              \<and> (field item ''status'' \<noteq> JStr ''FAILED'' \<longrightarrow> field item ''error_type'' = JNull)
              \<and> (field item ''phase'' = JStr ''AUTH_REFRESH'' \<longrightarrow> field item ''type'' = JStr ''GET_TOKEN''))))))
      | _ \<Rightarrow> Inl ClientConfiguration)"

definition phase_sequences :: "string \<Rightarrow> json list \<Rightarrow> json list" where
  "phase_sequences phase items =
     concat (map (\<lambda>v. case v of
        JObj item \<Rightarrow> if field item ''phase'' = JStr phase then [field item ''sequence''] else []
      | _ \<Rightarrow> []) items)"

definition api_action_trace_payload :: "json \<Rightarrow> client_error + json list" where
  "api_action_trace_payload v =
     (case v of
        JList items \<Rightarrow>
          if 500 < length items then Inl ClientConfiguration
          else
            res_bind (res_map trace_item items) (\<lambda>_.
            if list_all (\<lambda>phase. let sequences = phase_sequences phase items in
                 sequences = map JInt [1..int (length sequences)]) trace_phases
            then Inr items else Inl ClientConfiguration)
      | _ \<Rightarrow> Inl ClientConfiguration)"

definition sized_text :: "int \<Rightarrow> string option \<Rightarrow> bool" where
  "sized_text max_length v = (case v of None \<Rightarrow> False | Some s \<Rightarrow> s \<noteq> [] \<and> int (length s) \<le> max_length)"

definition error_fields :: "completion \<Rightarrow> (string \<times> json) list" where
  "error_fields p = [(''error_type'', JStr (the (co_error_type p))), (''error_message'', JStr (the (co_error_message p)))]"

text \<open>The fields that depend on the outcome.\<close>

definition outcome_fields :: "codec \<Rightarrow> completion \<Rightarrow> client_error + (string \<times> json) list" where
  "outcome_fields cd p =
     (if co_outcome p = ''HTTP_RESPONSE''
      then (case co_response p of
              None \<Rightarrow> Inl ClientConfiguration
            | Some response \<Rightarrow>
                if co_error_type p \<noteq> None \<or> co_error_message p \<noteq> None then Inl ClientConfiguration
                else res_bind (execution_response_snapshot cd response) (\<lambda>s. Inr [(''response'', s)]))
      else if co_outcome p = ''EXECUTION_ERROR'' \<or> co_outcome p = ''TIMEOUT''
      then res_bind (check ClientConfiguration (co_response p = None \<and> sized_text 100 (co_error_type p)
                      \<and> sized_text 2000 (co_error_message p))) (\<lambda>_. Inr (error_fields p))
      else if co_outcome p = ''CANCELLED''
      then res_bind (check ClientConfiguration (co_response p = None
                      \<and> co_error_type p \<in> set [Some ''CANCEL_REQUESTED'', Some ''FORCE_STOP_REQUESTED'']
                      \<and> sized_text 2000 (co_error_message p))) (\<lambda>_. Inr (error_fields p))
      else Inl ClientConfiguration)"

definition complete_request ::
  "codec \<Rightarrow> identity \<Rightarrow> string \<Rightarrow> string \<Rightarrow> int \<Rightarrow> completion \<Rightarrow> client_error + http_request" where
  "complete_request cd i run_id message_id case_run_id p =
     res_bind (case_request ''POST'' ''execution-complete'' i run_id message_id case_run_id) (\<lambda>q.
     res_bind (check ClientConfiguration (0 \<le> co_retry_count p \<and> co_retry_count p \<le> 3)) (\<lambda>_.
     res_bind (if co_resources p = [] then Inr []
               else
                 res_bind (check ClientConfiguration
                            (length (co_resources p) \<le> 100 \<and> list_all is_object (co_resources p))) (\<lambda>_.
                 res_bind (validate_api_pipeline_json cd (JList (co_resources p))) (\<lambda>_.
                 Inr [(''resources'', JList (co_resources p))]))) (\<lambda>resources.
     res_bind (if \<not> truthy (co_action_traces p) then Inr []
               else res_bind (api_action_trace_payload (co_action_traces p))
                      (\<lambda>ts. Inr [(''action_traces'', JList ts)])) (\<lambda>traces.
     res_bind (case co_evaluation_token p of
                 None \<Rightarrow> Inr []
               | Some token \<Rightarrow>
                   if co_outcome p \<noteq> ''HTTP_RESPONSE'' \<or> \<not> sized_text 64000 (Some token)
                   then Inl ClientConfiguration else Inr [(''evaluation_token'', JStr token)]) (\<lambda>token.
     res_bind (outcome_fields cd p) (\<lambda>specific.
     Inr (with_body ([(''outcome'', JStr (co_outcome p)), (''retry_count'', JInt (co_retry_count p))]
                      @ resources @ traces @ token @ specific) q)))))))"

text \<open>Which states of the Run and of the CaseRun go with an outcome.\<close>

definition complete_states :: "string \<Rightarrow> run_status list \<times> run_node_status list" where
  "complete_states outc =
     (if outc = ''TIMEOUT'' then ([RUN_RUNNING, RUN_TIMEOUT], [NODE_TIMEOUT])
      else if outc = ''CANCELLED'' then ([RUN_CANCELLED], [NODE_CANCELLED])
      else ([RUN_RUNNING, RUN_SUCCESS, RUN_FAILED, RUN_TIMEOUT], [NODE_SUCCESS, NODE_FAILED, NODE_REVIEW]))"

definition complete_answer ::
  "codec \<Rightarrow> identity \<Rightarrow> string \<Rightarrow> string \<Rightarrow> int \<Rightarrow> completion \<Rightarrow> (string \<times> json) list
     \<Rightarrow> client_error + complete_result" where
  "complete_answer cd i run_id message_id case_run_id p body =
     res_bind (require_exact_keys body [''schema_version'', ''run_id'', ''message_id'', ''runner_id'',
                ''case_run_id'', ''outcome'', ''run_status'', ''case_run_status'', ''assertion_results'',
                ''error_type'', ''error_message'', ''completed_at'', ''idempotent'', ''retry_count'']) (\<lambda>_.
     res_bind (schema_one body) (\<lambda>_.
     res_bind (required_text body ''run_id'' 128) (\<lambda>response_run_id.
     res_bind (required_text body ''message_id'' 64) (\<lambda>response_message_id.
     res_bind (required_text body ''runner_id'' 64) (\<lambda>response_runner_id.
     res_bind (required_positive_int (field body ''case_run_id'')) (\<lambda>response_case_run_id.
     res_bind (required_text body ''outcome'' 32) (\<lambda>response_outcome.
     res_bind (required_text body ''run_status'' 32) (\<lambda>run_status.
     res_bind (required_text body ''case_run_status'' 32) (\<lambda>case_run_status.
     res_bind (parse_assertion_results (field body ''assertion_results'')) (\<lambda>assertion_results.
     res_bind (optional_text (field body ''error_type'') 100) (\<lambda>error_type.
     res_bind (optional_text (field body ''error_message'') 2000) (\<lambda>error_message.
     res_bind (check ClientProtocol (response_outcome \<in> set [''TIMEOUT'', ''CANCELLED''] \<longrightarrow>
                error_type \<notin> set [None, Some []] \<and> error_message \<notin> set [None, Some []])) (\<lambda>_.
     res_bind (check ClientProtocol (response_outcome = ''CANCELLED'' \<longrightarrow>
                error_type \<in> set [Some ''CANCEL_REQUESTED'', Some ''FORCE_STOP_REQUESTED'']
                \<and> assertion_results = [])) (\<lambda>_.
     res_bind (parse_datetime cd (field body ''completed_at'')) (\<lambda>_.
     res_bind (required_bool (field body ''idempotent'')) (\<lambda>_.
     res_bind (required_retry_count (field body ''retry_count'')) (\<lambda>response_retry_count.
     let cancelled_override = (response_outcome = ''CANCELLED'' \<and> co_outcome p \<noteq> ''CANCELLED'') in
     res_bind (check ClientProtocol (response_run_id = run_id \<and> response_message_id = message_id
                \<and> response_runner_id = id_runner_id i \<and> response_case_run_id = case_run_id
                \<and> (response_outcome = co_outcome p \<or> cancelled_override)
                \<and> response_retry_count = co_retry_count p)) (\<lambda>_.
     res_bind (one_of run_status_value (fst (complete_states response_outcome)) run_status) (\<lambda>rs.
     res_bind (one_of node_status_value (snd (complete_states response_outcome)) case_run_status) (\<lambda>ns.
     Inr \<lparr>xr_outcome = response_outcome, xr_run_status = rs, xr_case_status = ns\<rparr>))))))))))))))))))))"

section \<open>The client\<close>

record 'w client_setup =
  cs_config :: client_config
  cs_identity :: identity
  cs_codec :: codec
  cs_parts :: plan_parts
  cs_transport :: "'w transport"
  cs_machine :: "'w runner_client"  \<comment> \<open>clock, stop event and task process\<close>

definition client_claim :: "'w client_setup \<Rightarrow> string \<Rightarrow> string \<Rightarrow> 'w \<Rightarrow> (client_error + run_status) \<times> 'w" where
  "client_claim h run_id message_id w =
     remote_call (cs_config h) (cs_transport h) (claim_request (cs_identity h) run_id message_id)
       (\<lambda>body. res_bind (claim_answer (cs_codec h) (cs_identity h) run_id message_id body) (\<lambda>x. Inr (kr_status x))) w"

definition client_plan :: "'w client_setup \<Rightarrow> string \<Rightarrow> string \<Rightarrow> 'w \<Rightarrow> (client_error + api_plan) \<times> 'w" where
  "client_plan h run_id message_id w =
     remote_call (cs_config h) (cs_transport h) (plan_request (cs_identity h) run_id message_id)
       (plan_answer (cs_parts h) (cs_identity h) run_id message_id) w"

definition execution_start ::
  "'w client_setup \<Rightarrow> string \<Rightarrow> string \<Rightarrow> int \<Rightarrow> 'w \<Rightarrow> (client_error + start_result) \<times> 'w" where
  "execution_start h run_id message_id case_run_id w =
     remote_call (cs_config h) (cs_transport h)
       (case_request ''POST'' ''execution-start'' (cs_identity h) run_id message_id case_run_id)
       (start_answer (cs_codec h) (cs_identity h) run_id message_id case_run_id) w"

definition client_cancellation ::
  "'w client_setup \<Rightarrow> string \<Rightarrow> string \<Rightarrow> int \<Rightarrow> 'w \<Rightarrow> (client_error + control_state) \<times> 'w" where
  "client_cancellation h run_id message_id case_run_id w =
     remote_call (cs_config h) (cs_transport h)
       (case_request ''GET'' ''execution-cancellation'' (cs_identity h) run_id message_id case_run_id)
       (cancellation_answer run_id message_id case_run_id) w"

definition execution_evaluate ::
  "'w client_setup \<Rightarrow> string \<Rightarrow> string \<Rightarrow> int \<Rightarrow> (string \<times> json) list \<Rightarrow> 'w
     \<Rightarrow> (client_error + evaluation_result) \<times> 'w" where
  "execution_evaluate h run_id message_id case_run_id response w =
     remote_call (cs_config h) (cs_transport h)
       (evaluate_request (cs_codec h) (cs_identity h) run_id message_id case_run_id response)
       (evaluate_answer (cs_identity h) run_id message_id case_run_id) w"

definition execution_complete ::
  "'w client_setup \<Rightarrow> string \<Rightarrow> string \<Rightarrow> int \<Rightarrow> completion \<Rightarrow> 'w \<Rightarrow> (client_error + complete_result) \<times> 'w" where
  "execution_complete h run_id message_id case_run_id p w =
     remote_call (cs_config h) (cs_transport h)
       (complete_request (cs_codec h) (cs_identity h) run_id message_id case_run_id p)
       (complete_answer (cs_codec h) (cs_identity h) run_id message_id case_run_id p) w"

definition http_client :: "'w client_setup \<Rightarrow> 'w runner_client" where
  "http_client h =
     (cs_machine h)
       \<lparr>rc_claim := client_claim h, rc_plan := client_plan h, rc_start := execution_start h,
        rc_cancellation := client_cancellation h, rc_evaluate := execution_evaluate h,
        rc_complete := execution_complete h\<rparr>"

end
