(* ===== verification/Runner_Delivery.thy ===== *)
theory Runner_Delivery
  imports Runner_Consumer
begin

text \<open>
  What the consumer does with a delivery: it settles it exactly once, and acknowledges it only when the
  backend has told it that the Run is finished.

  \<open>settled_result\<close> relates the result of a task to the log of the channel: a returned outcome has settled
  the delivery in the way it says, anything else has left it alone. The locale \<open>delivery\<close> states what a
  client has to promise about the answers of the backend for one Run and message, with \<open>finished\<close>
  as the property of the outside world an acknowledgement has to rest on; inside it every method of
  the consumer is shown to keep the contract.
\<close>

fun settled :: "consume_outcome \<Rightarrow> channel_action list \<Rightarrow> bool" where
  "settled EMPTY l = False"  \<comment> \<open>only for an empty queue\<close>
| "settled ACKED l = (l = [BasicAck])"
| "settled REQUEUED l = (l = [BasicNack])"
| "settled REJECTED l = (l = [BasicReject])"
| "settled STOPPED_AUTH l = (l = [BasicReject, StopConsuming])"

fun settled_result :: "'w set \<Rightarrow> ('a \<Rightarrow> 'w \<Rightarrow> bool) \<Rightarrow> stop + 'a \<Rightarrow> channel_action list \<Rightarrow> 'w \<Rightarrow> bool" where
  "settled_result F Q (Inl (Returned x)) l w = (settled x l \<and> (x = ACKED \<longrightarrow> w \<in> F))"
| "settled_result F Q (Inl Raised) l w = (l = [])"
| "settled_result F Q (Inl Running) l w = (l = [])"
| "settled_result F Q (Inr x) l w = (l = [] \<and> Q x w)"

lemma settled_result_weaken:
  "settled_result F P r l w \<Longrightarrow> (\<And>x. P x w \<Longrightarrow> Q x w) \<Longrightarrow> settled_result F Q r l w"
  by (induction F P r l w rule: settled_result.induct) simp_all

text \<open>Outcomes of task processes whose registered resources are objects, as the worker side builds them.\<close>

definition objects_only :: "isolated_outcome \<Rightarrow> bool" where
  "objects_only x \<longleftrightarrow>
     (\<forall>r rs. io_kind x = ''API_PIPELINE_RESULT'' \<longrightarrow> io_result x = Some r \<longrightarrow>
        as_list (jget ''resources'' r) = Some rs \<longrightarrow> list_all is_object rs)"

definition proper_processes :: "'w runner_client \<Rightarrow> bool" where
  "proper_processes c \<longleftrightarrow> (\<forall>w. case fst (rc_process_outcome c w) of None \<Rightarrow> True | Some x \<Rightarrow> objects_only x)"

lemma objects_only_plain [simp]: "k \<noteq> ''API_PIPELINE_RESULT'' \<Longrightarrow> objects_only (plain_outcome k)"
  by (simp add: objects_only_def plain_outcome_def)

definition resources_ok :: "'a completion_scheme \<Rightarrow> bool" where
  "resources_ok k \<longleftrightarrow> list_all is_object (co_resources k)"

lemma resources_ok_kwargs [simp]:
  "resources_ok (error_kwargs a b d i t)" "resources_ok executor_error" "resources_ok interrupted"
  "resources_ok (k\<lparr>co_retry_count := n\<rparr>) = resources_ok k"
  by (simp_all add: resources_ok_def error_kwargs_def executor_error_def interrupted_def)

lemma pipeline_kwargs_resources:
  assumes "\<And>rs. as_list (jget ''resources'' r) = Some rs \<Longrightarrow> list_all is_object rs"
  shows "resources_ok (pipeline_kwargs r)"
  using assms by (simp add: pipeline_kwargs_def resources_ok_def error_kwargs_def split: option.split)

lemma resources_ok_outcome:
  assumes "objects_only x"
  shows "resources_ok (completion_kwargs_from_outcome x)"
proof (cases "io_kind x = ''API_PIPELINE_RESULT''")
  case True
  with assms pipeline_kwargs_resources show ?thesis
    by (auto simp: completion_kwargs_from_outcome_def objects_only_def Let_def split: option.split)
next
  case False
  then show ?thesis
    by (simp add: completion_kwargs_from_outcome_def resources_ok_def error_kwargs_def Let_def split: option.split)
qed

named_theorems settle_rules

section \<open>The contract of a client\<close>

locale delivery =
  fixes c :: "'w runner_client" and run_id message_id :: string and finished :: "'w set"
  assumes proper: "proper_processes c"
    and claim_cancelled: "rc_claim c run_id message_id w = (Inr RUN_CANCELLED, w') \<Longrightarrow> w' \<in> finished"
    and complete_terminal: "rc_complete c run_id message_id k p w = (Inr r, w') \<Longrightarrow>
      terminal_run_status (xr_run_status r) \<Longrightarrow> w' \<in> finished"
    and process_end: "w \<in> finished \<Longrightarrow> rc_process_close c w \<in> finished"
begin

definition valid :: "('w \<Rightarrow> bool) \<Rightarrow> ('w, 'a) task \<Rightarrow> ('a \<Rightarrow> 'w \<Rightarrow> bool) \<Rightarrow> bool" where
  "valid P m Q \<longleftrightarrow> (\<forall>s r t. cm_log s = [] \<longrightarrow> P (cm_world s) \<longrightarrow> m s = (r, t) \<longrightarrow>
     settled_result finished Q r (cm_log t) (cm_world t) \<and> cm_slots t = cm_slots s)"

definition settles_with :: "('a \<Rightarrow> 'w \<Rightarrow> bool) \<Rightarrow> ('w, 'a) task \<Rightarrow> bool" where
  "settles_with Q m \<longleftrightarrow> valid (\<lambda>_. True) m Q"

lemma valid_bind:
  assumes "valid P m Q" and "\<And>x. valid (Q x) (f x) R"
  shows "valid P (task_bind m f) R"
  unfolding valid_def
proof (intro allI impI)
  fix s r' t'
  assume fresh: "cm_log s = []" "P (cm_world s)" and bound: "task_bind m f s = (r', t')"
  obtain r t where m: "m s = (r, t)" by (metis surj_pair)
  with assms(1) fresh have r: "settled_result finished Q r (cm_log t) (cm_world t) \<and> cm_slots t = cm_slots s"
    by (simp add: valid_def)
  show "settled_result finished R r' (cm_log t') (cm_world t') \<and> cm_slots t' = cm_slots s"
  proof (cases r)
    case (Inl e)
    with r m bound show ?thesis by (cases e) (auto simp: task_bind_def)
  next
    case (Inr x)
    with r assms(2)[of x] m bound show ?thesis by (auto simp: task_bind_def valid_def)
  qed
qed

lemma valid_settles: "settles_with Q m \<Longrightarrow> valid P m Q"
  by (auto simp: settles_with_def valid_def)

section \<open>Rules\<close>

lemma settles_done [settle_rules]: "(\<And>w. Q x w) \<Longrightarrow> settles_with Q (done_with x)"
  by (simp add: settles_with_def valid_def done_with_def)

lemma settles_stop [settle_rules]: "settles_with Q (stop_with Running)" "settles_with Q (stop_with Raised)"
  by (simp_all add: settles_with_def valid_def stop_with_def)

lemma settles_settle [settle_rules]:
  "settles_with Q nack" "settles_with Q reject" "settles_with Q stop_auth"
  by (simp_all add: settles_with_def valid_def nack_def reject_def stop_auth_def settle_def)

lemma valid_ack: "valid (\<lambda>w. w \<in> finished) ack Q"
  by (simp add: valid_def ack_def settle_def)

lemma settles_outside: "(\<And>w. Q (fst (f w)) (snd (f w))) \<Longrightarrow> settles_with Q (outside f)"
  by (auto simp: settles_with_def valid_def outside_def split: prod.splits) (metis fst_conv snd_conv)

lemma settles_outside_any [settle_rules]: "settles_with (\<lambda>_ _. True) (outside f)"
  by (rule settles_outside) simp

lemma settles_bind:
  assumes "settles_with (\<lambda>x _. P x) m" and "\<And>x. P x \<Longrightarrow> settles_with Q (f x)"
  shows "settles_with Q (task_bind m f)"
  unfolding settles_with_def
  by (rule valid_bind[where Q = "\<lambda>x _. P x"])
    (use assms in \<open>auto simp: settles_with_def valid_def\<close>)

lemma settles_then [settle_rules]:
  "settles_with (\<lambda>_ _. True) m \<Longrightarrow> (\<And>x. settles_with Q (f x)) \<Longrightarrow> settles_with Q (task_bind m f)"
  by (rule settles_bind[where P = "\<lambda>_. True"])

lemma settles_if [settle_rules]:
  "(b \<Longrightarrow> settles_with Q m) \<Longrightarrow> (\<not> b \<Longrightarrow> settles_with Q n) \<Longrightarrow> settles_with Q (if b then m else n)"
  by simp

lemma settles_option [settle_rules]:
  "(v = None \<Longrightarrow> settles_with Q m) \<Longrightarrow> (\<And>x. v = Some x \<Longrightarrow> settles_with Q (f x)) \<Longrightarrow>
     settles_with Q (case v of None \<Rightarrow> m | Some x \<Rightarrow> f x)"
  by (cases v) simp_all

lemma settles_finally:
  assumes "settles_with (\<lambda>x _. Q x) m" and "\<And>w. w \<in> finished \<Longrightarrow> f w \<in> finished"
  shows "settles_with (\<lambda>x _. Q x) (finally_outside m f)"
proof -
  have "settled_result finished (\<lambda>x _. Q x) r l (f w)" if "settled_result finished (\<lambda>x _. Q x) r l w" for r l w
    using that assms(2) by (induction finished "\<lambda>x (_ :: 'w). Q x" r l w rule: settled_result.induct) auto
  with assms(1) show ?thesis
    by (auto simp: settles_with_def valid_def finally_outside_def split: prod.splits)
qed

section \<open>The methods\<close>

lemma settles_client_failure: "settles_with Q other \<Longrightarrow> settles_with Q (client_failure other err)"
  by (cases err) (simp_all add: client_failure_def settle_rules)

text \<open>A call settles the delivery when it fails; otherwise the answer belongs to the world after it.\<close>

lemma settles_call_result:
  assumes "settles_with Q other" and "\<And>w r w'. f w = (Inr r, w') \<Longrightarrow> Q r w'"
  shows "settles_with Q (call other f)"
  unfolding call_def settles_with_def
proof (rule valid_bind)
  show "valid (\<lambda>_. True) (outside f) (\<lambda>r w. \<exists>w0. f w0 = (r, w))"
    using settles_outside[of "\<lambda>r w. \<exists>w0. f w0 = (r, w)" f] by (force simp: settles_with_def)
  show "valid (\<lambda>w. \<exists>w0. f w0 = (r, w)) (case r of Inl err \<Rightarrow> client_failure other err | Inr x \<Rightarrow> done_with x) Q" for r
  proof (cases r)
    case (Inl err)
    show ?thesis unfolding Inl sum.case by (rule valid_settles[OF settles_client_failure[OF assms(1)]])
  next
    case (Inr x)
    with assms(2) show ?thesis by (auto simp: valid_def done_with_def)
  qed
qed

lemma settles_call [settle_rules]:
  "settles_with (\<lambda>_ _. True) other \<Longrightarrow> settles_with (\<lambda>_ _. True) (call other f)"
  by (rule settles_call_result) simp_all

lemma valid_disposition:
  "valid (\<lambda>w. terminal_run_status (xr_run_status r) \<longrightarrow> w \<in> finished) (complete_disposition r) Q"
  by (auto simp: complete_disposition_def Let_def valid_def reject_def ack_def settle_def split: if_splits)

lemma settles_complete_call:
  "settles_with (\<lambda>r w. terminal_run_status (xr_run_status r) \<longrightarrow> w \<in> finished)
     (call nack (rc_complete c run_id message_id k p))"
  by (rule settles_call_result) (auto intro: settle_rules dest: complete_terminal)

definition my_ids :: "task_ids \<Rightarrow> bool" where
  "my_ids ids \<longleftrightarrow> ti_run_id ids = run_id \<and> ti_message_id ids = message_id"

lemma settles_report [settle_rules]:
  assumes "my_ids ids"
  shows "settles_with Q (report c ids p)"
  using valid_bind[OF settles_complete_call[unfolded settles_with_def] valid_disposition, of "ti_case_run_id ids" p Q] assms
  by (simp add: report_def settles_with_def my_ids_def)

lemma settles_completions [settle_rules]:
  "my_ids ids \<Longrightarrow> settles_with Q (complete_total_timeout c ids n)"
  "my_ids ids \<Longrightarrow> settles_with Q (complete_execution_error c ids t msg n)"
  "my_ids ids \<Longrightarrow> settles_with Q (complete_cancelled c ids n t msg rs)"
  by (simp_all add: complete_total_timeout_def complete_execution_error_def complete_cancelled_def settle_rules)

lemma settles_control_result [settle_rules]:
  "my_ids ids \<Longrightarrow> settles_with Q (complete_control_result c ids x n rs)"
  by (cases x) (simp_all add: complete_control_result_def settle_rules)

lemma settles_check_control [settle_rules]: "settles_with (\<lambda>_ _. True) (check_control c ids)"
  unfolding check_control_def by (intro settle_rules TrueI)

lemma check_control_no_ack: "check_control c ids s = (Inl (Returned ACKED), t) \<Longrightarrow> False"
  by (auto simp: check_control_def call_def task_bind_def outside_def client_failure_def done_with_def
      stop_auth_def nack_def reject_def settle_def split: prod.splits sum.splits client_error.splits)

lemma settles_check_terminating [settle_rules]: "settles_with (\<lambda>_ _. True) (check_control_terminating c ids)"
proof -
  have "settled_result finished (\<lambda>_ _. True) (Inl e) (cm_log t) w"
    if "check_control c ids s = (Inl e, t)" "cm_log s = []" for s e t w
  proof -
    have "settled_result finished (\<lambda>_ _. True) (Inl e :: stop + control option) (cm_log t) (cm_world t)"
      using settles_check_control[of ids] that by (auto simp: settles_with_def valid_def)
    then show ?thesis using check_control_no_ack[of ids s t] that(1) by (cases e) auto
  qed
  moreover have "cm_slots t = cm_slots s" if "check_control c ids s = (r, t)" "cm_log s = []" for s r t
    using settles_check_control[of ids] that by (auto simp: settles_with_def valid_def)
  moreover have "cm_log t = []" if "check_control c ids s = (Inr x, t)" "cm_log s = []" for s x t
    using settles_check_control[of ids] that by (fastforce simp: settles_with_def valid_def)
  ultimately show ?thesis
    by (auto simp: settles_with_def valid_def check_control_terminating_def split: prod.splits sum.splits)
qed

lemma settles_past_deadline [settle_rules]: "settles_with (\<lambda>_ _. True) (past_deadline c d)"
  unfolding past_deadline_def by (intro settle_rules TrueI)

lemma settles_isolated_result: "settles_with (\<lambda>x _. objects_only x) (isolated_result c d)"
proof -
  let ?ok = "\<lambda>r. \<forall>x. r = Some x \<longrightarrow> objects_only x"
  have out: "settles_with (\<lambda>r _. ?ok r) (outside (rc_process_outcome c))"
  proof (rule settles_outside)
    fix w
    from proper show "?ok (fst (rc_process_outcome c w))"
      unfolding proper_processes_def by (auto split: option.splits dest: spec[of _ w])
  qed
  have rest: "settles_with (\<lambda>x _. objects_only x)
      (case r of Some outcome \<Rightarrow> done_with outcome
       | None \<Rightarrow> task_bind (past_deadline c d) (\<lambda>late. done_with
           (if late then plain_outcome ''TOTAL_TIMEOUT''
            else (plain_outcome ''EXECUTION_ERROR'')\<lparr>io_error_type := Some ''EXECUTOR_ERROR'',
                   io_error_message := Some ''isolated execution ended abnormally''\<rparr>)))" if "?ok r" for r
    using that by (cases r) (auto intro!: settle_rules simp: objects_only_def plain_outcome_def split: if_splits)
  show ?thesis unfolding isolated_result_def
    by (rule settles_then[OF settles_outside_any settles_bind[OF out rest]])
qed

lemma settles_terminated: "k \<noteq> ''API_PIPELINE_RESULT'' \<Longrightarrow> settles_with (\<lambda>x _. objects_only x) (terminated c k)"
  unfolding terminated_def by (intro settle_rules) simp

lemma settles_poll_loop: "settles_with (\<lambda>x _. objects_only x) (poll_loop c ids d n t)"
proof (induction n arbitrary: t)
  case (Suc n)
  then show ?case
    by (auto intro!: settle_rules settles_isolated_result settles_terminated Suc)
qed (simp add: settle_rules)

lemma settles_execute_isolated:
  "settles_with (\<lambda>r _. \<forall>x. r = Inr x \<longrightarrow> objects_only x) (execute_isolated c n ids target d)"
proof -
  have "settles_with (\<lambda>r _. \<forall>x. r = Inr x \<longrightarrow> objects_only x)
      (case r of Inl exc \<Rightarrow> done_with (Inl exc)
       | Inr _ \<Rightarrow> task_bind (poll_loop c ids d n 0) (\<lambda>x. done_with (Inr x)))" for r :: "task_exception + unit"
    by (cases r) (auto intro!: settle_rules settles_bind[OF settles_poll_loop])
  then show ?thesis
    unfolding execute_isolated_def by (intro settles_finally settles_then[OF settles_outside_any] process_end)
qed

lemma settles_one_attempt:
  assumes "my_ids ids"
  shows "settles_with (\<lambda>x _. resources_ok (snd x)) (one_attempt c n ids target d rc)"
  unfolding one_attempt_def
  by (rule settles_bind[OF settles_execute_isolated])
    (auto intro!: settle_rules assms simp: resources_ok_outcome split: sum.split task_exception.split option.split)

lemma settles_wait_loop:
  assumes "my_ids ids"
  shows "settles_with (\<lambda>_ _. True) (wait_loop c ids d rc remaining)"
proof (induction "nat remaining" arbitrary: remaining rule: less_induct)
  case less
  let ?left = "case d of None \<Rightarrow> done_with None
    | Some x \<Rightarrow> task_bind (outside (rc_clock c)) (\<lambda>now. done_with (Some (x - now)))"
  have left: "settles_with (\<lambda>_ _. True) ?left" by (auto intro!: settle_rules split: option.split)
  show ?case
    apply (subst wait_loop.simps[abs_def])
    apply (rule settles_then[OF left])
    subgoal for l
      by (cases l) (auto simp: Let_def intro!: settle_rules assms less)
    done
qed

lemma settles_wait [settle_rules]:
  "my_ids ids \<Longrightarrow> settles_with (\<lambda>_ _. True) (wait_retry_with_control c ids p rc d)"
  by (auto simp: wait_retry_with_control_def Let_def intro!: settle_rules settles_wait_loop)

lemma settles_attempt_loop:
  assumes "my_ids ids"
  shows "settles_with (\<lambda>k _. resources_ok k) (attempt_loop c n ids target p d rc)"
proof (induction "nat (rp_max_retries p - rc)" arbitrary: rc rule: less_induct)
  case less
  have again: "settles_with (\<lambda>k _. resources_ok k) (attempt_loop c n ids target p d (rc + 1))"
    if "\<not> rp_max_retries p \<le> rc"
    using less[of "rc + 1"] that by simp
  show ?case
    apply (subst attempt_loop.simps[abs_def])
    apply (rule settles_then[OF settles_past_deadline])
    apply (rule settles_if)
     apply (intro settle_rules assms)
    apply (rule settles_bind[OF settles_one_attempt[OF assms]])
    by (auto intro!: settle_rules assms again split: sum.split option.split prod.split)
qed

lemma settles_with_retries:
  "my_ids ids \<Longrightarrow> settles_with (\<lambda>k _. resources_ok k) (execute_with_retries c n ids target p d)"
  unfolding execute_with_retries_def by (intro settle_rules settles_attempt_loop)

section \<open>The delivery\<close>

lemma settles_cleanup:
  assumes "my_ids ids" and "list_all is_object rs"
  shows "settles_with (\<lambda>_ _. True) (execute_deferred_cleanup c n ids plan ctx rs out d)"
  unfolding execute_deferred_cleanup_def using assms
  by (auto intro!: settle_rules settles_bind[OF settles_execute_isolated]
      split: sum.split option.split bool.split json.split)

lemma settles_final_completion:
  assumes "my_ids ids" and "resources_ok k"
  shows "settles_with (\<lambda>_ _. True) (final_completion c n ids plan d k)"
  unfolding final_completion_def using assms
  by (auto intro!: settle_rules settles_cleanup simp: resources_ok_def split: option.split)

lemma settles_iteration:
  "settles_with (\<lambda>r w. terminal_run_status (xr_run_status r) \<longrightarrow> w \<in> finished)
     (api_iteration c n run_id message_id)"
  unfolding api_iteration_def Let_def
  apply (rule settles_then, intro settle_rules)
  apply (rule settles_if, intro settle_rules)
  apply (rule settles_then, intro settle_rules)
  apply (rule settles_if, intro settle_rules)
   apply (simp add: my_ids_def)
  apply (rule settles_then, intro settle_rules)
  subgoal for plan started control
  proof (cases control)
    case None
    show ?thesis unfolding None option.case
      by (rule settles_bind[OF settles_with_retries])
        (auto intro!: settle_rules settles_complete_call settles_cleanup settles_final_completion
          simp: resources_ok_def my_ids_def split: option.split)
  qed (simp add: settle_rules my_ids_def)
  done

lemma settles_api_loop: "settles_with Q (api_loop c cases n run_id message_id)"
proof (induction cases)
  case (Suc cases)
  let ?fin = "\<lambda>r w. terminal_run_status (xr_run_status r) \<longrightarrow> w \<in> finished"
  have "valid (?fin r) (if xr_run_status r \<noteq> RUN_RUNNING then complete_disposition r
      else if xr_case_status r \<notin> set [NODE_SUCCESS, NODE_FAILED, NODE_REVIEW, NODE_TIMEOUT] then reject
      else api_loop c cases n run_id message_id) Q" for r
    using valid_disposition[of r Q] valid_settles[OF Suc] valid_settles[OF settles_settle(2)] by auto
  from valid_bind[OF settles_iteration[unfolded settles_with_def] this]
  show ?case by (simp add: settles_with_def)
qed (simp add: settle_rules)

lemma settles_api_delivery: "settles_with Q (process_api_delivery c cases n run_id message_id)"
proof -
  have claim: "settles_with (\<lambda>r w. r = RUN_CANCELLED \<longrightarrow> w \<in> finished) (call reject (rc_claim c run_id message_id))"
    by (rule settles_call_result) (auto intro: settle_rules dest: claim_cancelled)
  have "valid (\<lambda>w. r = RUN_CANCELLED \<longrightarrow> w \<in> finished)
      (if r = RUN_CANCELLED then ack else api_loop c cases n run_id message_id) Q" for r
    using valid_ack valid_settles[OF settles_api_loop] by auto
  from valid_bind[OF claim[unfolded settles_with_def] this] show ?thesis
    by (simp add: process_api_delivery_def settles_with_def)
qed

text \<open>The whole method with its slot.\<close>

lemma delivery_result:
  assumes "cm_log s = []" and "slots_inv (cm_slots s)"
    and "process_execution_delivery c cases polls run_id message_id s = (r, t)"
  shows "settled_result finished (\<lambda>_ _. False) r (cm_log t) (cm_world t)
    \<and> (if r = Inl Running then ss_available (cm_slots t) ''API'' = ss_available (cm_slots s) ''API'' - 1
       else ss_available (cm_slots t) = ss_available (cm_slots s))"
proof -
  have "py_upper ''API'' = ''API''" by code_simp
  then obtain got slots where acq: "try_acquire (cm_slots s) ''API'' = Inr (got, slots)"
    and slots: "got = None \<Longrightarrow> slots = cm_slots s"
      "got \<noteq> None \<Longrightarrow> ss_available slots ''API'' = ss_available (cm_slots s) ''API'' - 1"
    by (cases "ss_available (cm_slots s) ''API'' \<le> 0") (auto simp: try_acquire_def normalize_slot_type_def SLOT_TYPES_def)
  show ?thesis
  proof (cases got)
    case None
    then show ?thesis using assms acq slots(1)
      by (auto simp: process_execution_delivery_def nack_def settle_def)
  next
    case (Some k)
    obtain r1 s1 where run: "process_api_delivery c cases polls run_id message_id (s\<lparr>cm_slots := slots\<rparr>) = (r1, s1)"
      by (metis surj_pair)
    have s1: "settled_result finished (\<lambda>_ _. False) r1 (cm_log s1) (cm_world s1) \<and> cm_slots s1 = slots"
      using settles_api_delivery[of "\<lambda>_ _. False" cases polls] run assms(1)
      unfolding settles_with_def valid_def by (auto dest!: spec[of _ "s\<lparr>cm_slots := slots\<rparr>"])
    obtain slots2 where freed: "lease_release slots k = Inr slots2" "ss_available slots2 = ss_available (cm_slots s)"
      using acquire_release[OF assms(2)] acq Some by blast
    obtain e where e: "r1 = Inl e" using s1 by (cases r1) auto
    show ?thesis
      using assms(3) acq Some run s1 freed slots(2) e
      by (cases e) (auto simp: process_execution_delivery_def)
  qed
qed

end


text \<open>
  Evaluation: the methods of the consumer are unfolded only when the state is given, so that a method
  is not evaluated symbolically inside the continuation of another.
\<close>

lemmas consumer_code [code] =
  fun_cong[OF ack_def] fun_cong[OF nack_def] fun_cong[OF reject_def] fun_cong[OF stop_auth_def]
  fun_cong[OF client_failure_def] fun_cong[OF call_def] fun_cong[OF complete_disposition_def]
  fun_cong[OF report_def] fun_cong[OF complete_total_timeout_def] fun_cong[OF complete_execution_error_def]
  fun_cong[OF complete_cancelled_def] fun_cong[OF complete_control_result_def] fun_cong[OF check_control_def]
  fun_cong[OF past_deadline_def] fun_cong[OF isolated_result_def] fun_cong[OF terminated_def]
  fun_cong[OF poll_loop.simps(1)] fun_cong[OF poll_loop.simps(2)] fun_cong[OF execute_isolated_def]
  fun_cong[OF one_attempt_def] fun_cong[OF wait_retry_with_control_def] fun_cong[OF execute_with_retries_def]
  fun_cong[OF execute_deferred_cleanup_def] fun_cong[OF final_completion_def] fun_cong[OF api_iteration_def]
  fun_cong[OF api_loop.simps(1)] fun_cong[OF api_loop.simps(2)] fun_cong[OF process_api_delivery_def]

text \<open>A scripted client: one iteration, answered with a finished Run.\<close>

definition ex_script :: "unit runner_client" where
  "ex_script =
     \<lparr>rc_claim = (\<lambda>_ _ s. (Inr RUN_ASSIGNED, s)),
      rc_plan = (\<lambda>_ _ s. (Inr \<lparr>pl_case_run_id = 1, pl_total_timeout_ms = 1000, pl_has_pipeline = False,
        pl_retry_policy = no_retries\<rparr>, s)),
      rc_start = (\<lambda>_ _ _ s. (Inr \<lparr>sv_status = RUN_RUNNING, sv_started_at = Some 0\<rparr>, s)),
      rc_cancellation = (\<lambda>_ _ _ s. (Inr \<lparr>kc_cancellation_requested = False, kc_force_stop_requested = False\<rparr>, s)),
      rc_evaluate = (\<lambda>_ _ _ _ s. (Inl ClientTransport, s)),
      rc_complete = (\<lambda>_ _ _ p s. (Inr \<lparr>xr_outcome = co_outcome p, xr_run_status = RUN_SUCCESS,
        xr_case_status = NODE_SUCCESS\<rparr>, s)),
      rc_clock = (\<lambda>s. (0, s)), rc_stop_is_set = (\<lambda>s. (False, s)), rc_stop_wait = (\<lambda>_ s. (False, s)),
      rc_stop_set = id, rc_process_start = (\<lambda>_ s. (Inr (), s)), rc_process_alive = (\<lambda>s. (False, s)),
      rc_process_poll = (\<lambda>s. (True, s)), rc_process_terminate = id,
      rc_process_outcome = (\<lambda>s. (Some ((plain_outcome ''HTTP_RESPONSE'')
        \<lparr>io_result := Some [(''status_code'', JInt 200)]\<rparr>), s)),
      rc_process_close = id\<rparr>"

definition ex_channel :: "unit consumer_state" where
  "ex_channel = \<lparr>cm_world = (), cm_slots = ex_slots, cm_log = []\<rparr>"

definition ex_settled :: "(stop + unit) \<times> unit consumer_state" where
  "ex_settled = process_execution_delivery ex_script 1 1 ''run_1'' ''msg_1'' ex_channel"


end
