(* ===== verification/Runner_Envelope.thy ===== *)
theory Runner_Envelope
  imports Runner_Protocol Runner_Delivery Run_Examples Run_Lifecycle
begin

text \<open>
  \<open>runner/envelope.py\<close>: the strict reading of a task message, and the entry of the consumer that starts
  with it. A message is what \<open>json.loads\<close> makes of its bytes (\<open>wb_json\<close>: \<open>None\<close> when decoding fails, a
  field occurs twice or a constant is not finite) and its size.

  The section at the end connects it with the dispatch of the control plane: which messages reach the
  queue of a Runner and are accepted there.
\<close>

section \<open>Fields\<close>

datatype envelope_error = EnvelopeInvalid | EnvelopeTypeError

record wire_body =
  wb_size :: int
  wb_json :: "json option"

definition MAX_ENVELOPE_BYTES :: int where "MAX_ENVELOPE_BYTES = 64 * 1024"

definition ensure :: "bool \<Rightarrow> envelope_error + unit" where
  "ensure ok = (if ok then Inr () else Inl EnvelopeInvalid)"

definition decode_object :: "wire_body \<Rightarrow> envelope_error + (string \<times> json) list" where
  "decode_object body =
     (if MAX_ENVELOPE_BYTES < wb_size body then Inl EnvelopeInvalid
      else case wb_json body of Some (JObj payload) \<Rightarrow> Inr payload | _ \<Rightarrow> Inl EnvelopeInvalid)"

text \<open>\<open>payload.get("schema_version") == 1\<close> and not a \<open>bool\<close>; \<open>1.0\<close> passes\<close>

definition version_one :: "(string \<times> json) list \<Rightarrow> bool" where
  "version_one payload \<longleftrightarrow> field payload ''schema_version'' \<in> {JInt 1, JFloat 1}"

definition identifier_field :: "(string \<times> json) list \<Rightarrow> string \<Rightarrow> nat \<Rightarrow> envelope_error + string" where
  "identifier_field payload key max_length =
     (case field payload key of
        JStr s \<Rightarrow> if length s \<le> max_length \<and> safe_id s then Inr s else Inl EnvelopeInvalid
      | _ \<Rightarrow> Inl EnvelopeInvalid)"

definition plain_text :: "(string \<times> json) list \<Rightarrow> string \<Rightarrow> nat \<Rightarrow> envelope_error + string" where
  "plain_text payload key max_length =
     (case field payload key of
        JStr s \<Rightarrow> if s \<noteq> [] \<and> length s \<le> max_length then Inr s else Inl EnvelopeInvalid
      | _ \<Rightarrow> Inl EnvelopeInvalid)"

text \<open>\<open>value not in {...}\<close> on texts; a list or an object is not hashable and raises \<open>TypeError\<close>.\<close>

definition text_field :: "string list \<Rightarrow> json \<Rightarrow> envelope_error + string" where
  "text_field allowed v =
     (if \<not> hashable v then Inl EnvelopeTypeError
      else case v of JStr s \<Rightarrow> if s \<in> set allowed then Inr s else Inl EnvelopeInvalid | _ \<Rightarrow> Inl EnvelopeInvalid)"

definition int_between :: "int \<Rightarrow> int \<Rightarrow> json \<Rightarrow> envelope_error + int" where
  "int_between lo hi v =
     (case v of JInt n \<Rightarrow> if lo \<le> n \<and> n \<le> hi then Inr n else Inl EnvelopeInvalid | _ \<Rightarrow> Inl EnvelopeInvalid)"

text \<open>\<open>_DATETIME_PATTERN\<close>: a character class per position, then an optional fraction and the offset.\<close>

fun shape :: "string \<Rightarrow> string \<Rightarrow> string option" where
  "shape [] s = Some s"
| "shape (p # ps) [] = None"
| "shape (p # ps) (c # cs) = (if (if p = CHR ''d'' then ascii_digit c else c = p) then shape ps cs else None)"

definition offset_text :: "string \<Rightarrow> bool" where
  "offset_text s \<longleftrightarrow> s = ''Z'' \<or> shape ''+dd:dd'' s = Some [] \<or> shape ''-dd:dd'' s = Some []"

definition datetime_pattern :: "string \<Rightarrow> bool" where
  "datetime_pattern s \<longleftrightarrow>
     (case shape ''dddd-dd-ddTdd:dd:dd'' s of
        None \<Rightarrow> False
      | Some rest \<Rightarrow>
          offset_text rest
          \<or> (case rest of
               c # cs \<Rightarrow> c = CHR ''.'' \<and> list_ex (\<lambda>n. case shape (replicate n CHR ''d'') cs of
                  Some r \<Rightarrow> offset_text r | None \<Rightarrow> False) [1, 2, 3, 4, 5, 6]
             | [] \<Rightarrow> False))"

definition parse_enqueued_at :: "codec \<Rightarrow> json \<Rightarrow> envelope_error + datetime" where
  "parse_enqueued_at cd v =
     (case v of
        JStr s \<Rightarrow>
          if length s \<le> 64 \<and> datetime_pattern s
          then (case cd_fromiso cd (replace_zulu s) of Some (Some t) \<Rightarrow> Inr t | _ \<Rightarrow> Inl EnvelopeInvalid)
          else Inl EnvelopeInvalid
      | _ \<Rightarrow> Inl EnvelopeInvalid)"

section \<open>Envelopes\<close>

record session_envelope =
  se_id :: string
  se_message_id :: string
  se_runner_id :: string
  se_project_id :: int
  se_attempt :: int
  se_enqueued_at :: datetime

datatype envelope = RunTask task_payload | RecordingTask session_envelope | ExplorationTask session_envelope

definition allowed_fields :: "string list" where
  "allowed_fields = [''schema_version'', ''message_id'', ''run_id'', ''runner_id'', ''run_type'',
     ''required_slot_type'', ''attempt'', ''enqueued_at'']"

definition slot_matches :: "string \<Rightarrow> string \<Rightarrow> bool" where
  "slot_matches run_type slot_type \<longleftrightarrow>
     \<not> (run_type = ''WEB_CASE'' \<and> slot_type \<noteq> ''WEB''
        \<or> (run_type = ''API_CASE'' \<or> run_type = ''SCENARIO'') \<and> slot_type \<notin> set [''API'', ''PERFORMANCE''])"

definition parse_task_envelope :: "codec \<Rightarrow> string \<Rightarrow> wire_body \<Rightarrow> envelope_error + task_payload" where
  "parse_task_envelope cd expected_runner_id body =
     res_bind (decode_object body) (\<lambda>payload.
     res_bind (ensure (set (map fst payload) = set allowed_fields)) (\<lambda>_.
     res_bind (ensure (version_one payload)) (\<lambda>_.
     res_bind (identifier_field payload ''message_id'' 64) (\<lambda>message_id.
     res_bind (identifier_field payload ''run_id'' 128) (\<lambda>run_id.
     res_bind (identifier_field payload ''runner_id'' 64) (\<lambda>runner_id.
     res_bind (ensure (runner_id = expected_runner_id)) (\<lambda>_.
     res_bind (text_field [''API_CASE'', ''SCENARIO'', ''WEB_CASE''] (field payload ''run_type'')) (\<lambda>run_type.
     res_bind (text_field [''API'', ''WEB'', ''PERFORMANCE''] (field payload ''required_slot_type'')) (\<lambda>slot_type.
     res_bind (ensure (slot_matches run_type slot_type)) (\<lambda>_.
     res_bind (int_between 1 10 (field payload ''attempt'')) (\<lambda>attempt.
     res_bind (parse_enqueued_at cd (field payload ''enqueued_at'')) (\<lambda>enqueued_at.
     Inr \<lparr>tp_schema_version = 1, tp_message_id = message_id, tp_run_id = run_id, tp_runner_id = runner_id,
          tp_run_type = run_type, tp_required_slot_type = slot_type, tp_attempt = attempt,
          tp_enqueued_at = enqueued_at\<rparr>))))))))))))"

text \<open>The envelopes of Web recordings and explorations differ in \<open>task_type\<close> and the name of the id.\<close>

definition parse_session_envelope ::
  "string \<Rightarrow> string \<Rightarrow> codec \<Rightarrow> string \<Rightarrow> wire_body \<Rightarrow> envelope_error + session_envelope" where
  "parse_session_envelope task_type id_key cd expected_runner_id body =
     res_bind (decode_object body) (\<lambda>payload.
     res_bind (ensure (set (map fst payload) = set [''schema_version'', ''task_type'', id_key, ''message_id'',
                ''runner_id'', ''project_id'', ''attempt'', ''enqueued_at''])) (\<lambda>_.
     res_bind (ensure (version_one payload)) (\<lambda>_.
     res_bind (ensure (field payload ''task_type'' = JStr task_type)) (\<lambda>_.
     res_bind (plain_text payload id_key 128) (\<lambda>session_id.
     res_bind (identifier_field payload ''message_id'' 64) (\<lambda>message_id.
     res_bind (plain_text payload ''runner_id'' 64) (\<lambda>runner_id.
     res_bind (ensure (runner_id = expected_runner_id)) (\<lambda>_.
     res_bind (case field payload ''project_id'' of
                 JInt n \<Rightarrow> if n \<le> 0 then Inl EnvelopeInvalid else Inr n | _ \<Rightarrow> Inl EnvelopeInvalid) (\<lambda>project_id.
     res_bind (int_between 1 10 (field payload ''attempt'')) (\<lambda>attempt.
     res_bind (parse_enqueued_at cd (field payload ''enqueued_at'')) (\<lambda>enqueued_at.
     Inr \<lparr>se_id = session_id, se_message_id = message_id, se_runner_id = runner_id, se_project_id = project_id,
          se_attempt = attempt, se_enqueued_at = enqueued_at\<rparr>)))))))))))"

definition parse_web_recording_envelope :: "codec \<Rightarrow> string \<Rightarrow> wire_body \<Rightarrow> envelope_error + session_envelope" where
  "parse_web_recording_envelope = parse_session_envelope ''WEB_RECORDING'' ''recording_id''"

definition parse_web_exploration_envelope :: "codec \<Rightarrow> string \<Rightarrow> wire_body \<Rightarrow> envelope_error + session_envelope" where
  "parse_web_exploration_envelope = parse_session_envelope ''WEB_EXPLORATION'' ''exploration_id''"

definition parse_task_or_recording_envelope :: "codec \<Rightarrow> string \<Rightarrow> wire_body \<Rightarrow> envelope_error + envelope" where
  "parse_task_or_recording_envelope cd expected_runner_id body =
     res_bind (decode_object body) (\<lambda>payload.
     if field payload ''task_type'' = JStr ''WEB_RECORDING''
     then res_bind (parse_web_recording_envelope cd expected_runner_id body) (\<lambda>x. Inr (RecordingTask x))
     else if field payload ''task_type'' = JStr ''WEB_EXPLORATION''
     then res_bind (parse_web_exploration_envelope cd expected_runner_id body) (\<lambda>x. Inr (ExplorationTask x))
     else res_bind (parse_task_envelope cd expected_runner_id body) (\<lambda>x. Inr (RunTask x)))"

section \<open>The entry of the consumer\<close>

text \<open>
  \<open>process_execution_delivery\<close> from the bytes on, with an API executor configured. Deliveries of other
  kinds are the argument \<open>others\<close>. Only \<open>EnvelopeError\<close> is caught.
\<close>

definition process_message ::
  "'w runner_client \<Rightarrow> codec \<Rightarrow> (envelope \<Rightarrow> ('w, unit) task) \<Rightarrow> nat \<Rightarrow> nat \<Rightarrow> string \<Rightarrow> wire_body \<Rightarrow> ('w, unit) task" where
  "process_message c cd others cases polls runner_id body =
     (case parse_task_or_recording_envelope cd runner_id body of
        Inl EnvelopeInvalid \<Rightarrow> reject
      | Inl EnvelopeTypeError \<Rightarrow> stop_with Raised
      | Inr envelope \<Rightarrow>
          (case envelope of
             RunTask p \<Rightarrow>
               if tp_run_type p = ''API_CASE'' \<and> tp_required_slot_type p = ''API''
               then process_execution_delivery c cases polls (tp_run_id p) (tp_message_id p)
               else others envelope
           | _ \<Rightarrow> others envelope))"

section \<open>From dispatch to the Runner\<close>

text \<open>The body of a message: \<open>RunTaskEnvelope.model_dump(mode="json")\<close>; \<open>isoformat\<close> is \<open>to_utc_isoformat\<close>.\<close>

definition envelope_json :: "(datetime \<Rightarrow> string) \<Rightarrow> task_payload \<Rightarrow> json" where
  "envelope_json isoformat p =
     JObj [(''schema_version'', JInt (tp_schema_version p)), (''message_id'', JStr (tp_message_id p)),
       (''run_id'', JStr (tp_run_id p)), (''runner_id'', JStr (tp_runner_id p)), (''run_type'', JStr (tp_run_type p)),
       (''required_slot_type'', JStr (tp_required_slot_type p)), (''attempt'', JInt (tp_attempt p)),
       (''enqueued_at'', JStr (isoformat (tp_enqueued_at p)))]"

lemma parse_valid_envelope:
  assumes "envelope_valid p" and "n \<le> MAX_ENVELOPE_BYTES"
    and "parse_enqueued_at cd (JStr (isoformat (tp_enqueued_at p))) = Inr (tp_enqueued_at p)"
  shows "parse_task_or_recording_envelope cd (tp_runner_id p) \<lparr>wb_size = n, wb_json = Some (envelope_json isoformat p)\<rparr>
    = (if slot_matches (tp_run_type p) (tp_required_slot_type p) then Inr (RunTask p) else Inl EnvelopeInvalid)"
proof -
  have "text_field [''API_CASE'', ''SCENARIO'', ''WEB_CASE''] (JStr (tp_run_type p)) = Inr (tp_run_type p)"
    "text_field [''API'', ''WEB'', ''PERFORMANCE''] (JStr (tp_required_slot_type p)) = Inr (tp_required_slot_type p)"
    using assms(1)
    by (auto simp: envelope_valid_def text_field_def hashable_def parse_run_type_def parse_slot_type_def split: if_splits)
  then show ?thesis
    using assms
    by (auto simp: parse_task_or_recording_envelope_def parse_task_envelope_def decode_object_def envelope_json_def
        allowed_fields_def ensure_def version_one_def identifier_field_def int_between_def envelope_valid_def
        id_field_ok_def)
qed

lemma routing_key_bound:
  assumes "declare_runner_topology rid slots = Inr tpl" and "map_of slots t = Some n" and "0 < n" and "t \<in> set SLOT_TYPES"
  shows "''runner.'' @ rid @ ''.'' @ py_lower t \<in> set (tp_bindings tpl)"
proof -
  obtain active where active: "active_slot_types slots = Inr active"
    and b: "res_map (runner_routing_key rid) active = Inr (tp_bindings tpl)"
    using assms(1) by (auto simp: declare_runner_topology_def res_simps)
  have t: "t \<in> set active"
    using active assms(2-4) by (auto simp: active_slot_types_def Let_def split: if_splits)
  have up: "py_upper t = t" using assms(4) by (auto simp: SLOT_TYPES_def) code_simp+
  have "\<exists>y \<in> set ys. runner_routing_key rid t = Inr y" if "res_map (runner_routing_key rid) xs = Inr ys" "t \<in> set xs" for xs ys
    using that by (induction xs arbitrary: ys) (auto split: sum.splits)
  from this[OF b t] show ?thesis using up by (auto simp: runner_routing_key_def res_simps split: if_splits)
qed

text \<open>
  C10. Every message the control plane ever hands to the broker reaches its Runner and is read there as it
  was sent. It is bound to the queue the Runner declares for its slots, and the Runner's parser
  returns exactly the payload, provided the slot type belongs to the type of the Run: a Web slot for
  Web cases and no other. A message that violates this is refused, and nothing in the dispatch
  rules it out for API cases and scenarios. Assumed is that the Runner offers the slot, that the
  message is not larger than 64 KiB and that the time it carries can be read back.
\<close>

theorem sent_message_reaches_its_runner:
  assumes "reachable w" and "tm \<in> set (w_sent w)" and "p = tm_payload tm"
    and "declare_runner_topology (tp_runner_id p) slots = Inr tpl"
    and "map_of slots (tp_required_slot_type p) = Some n" and "0 < n" and "bytes \<le> MAX_ENVELOPE_BYTES"
    and "parse_enqueued_at cd (JStr (isoformat (tp_enqueued_at p))) = Inr (tp_enqueued_at p)"
  shows "tm_routing_key tm \<in> set (tp_bindings tpl)
    \<and> parse_task_or_recording_envelope cd (tp_runner_id p) \<lparr>wb_size = bytes, wb_json = Some (envelope_json isoformat p)\<rparr>
      = (if slot_matches (tp_run_type p) (tp_required_slot_type p) then Inr (RunTask p) else Inl EnvelopeInvalid)"
proof -
  obtain r where fits: "message_fits r (tm_routing_key tm) p"
    using reachable_inv[OF assms(1)] assms(2,3) by (auto simp: world_inv_def sent_ok_def)
  have slot: "tp_required_slot_type p = slot_type_value (tr_required_slot_type r)"
    and key: "tm_routing_key tm = ''runner.'' @ tp_runner_id p @ ''.'' @ py_lower (tp_required_slot_type p)"
    using fits by (auto simp: message_fits_def expected_dispatch_routing_key_def)
  have "tp_required_slot_type p \<in> set SLOT_TYPES"
    unfolding slot by (cases "tr_required_slot_type r") (simp_all add: SLOT_TYPES_def)
  from routing_key_bound[OF assms(4-6) this] key parse_valid_envelope[of p bytes cd isoformat] assms(7,8) fits
  show ?thesis by (simp add: message_fits_def)
qed

definition ex_codec :: codec where
  "ex_codec = \<lparr>cd_fromiso = (\<lambda>_. Some (Some 2)), cd_dumps = (\<lambda>_. Some 0)\<rparr>"

definition ex_isoformat :: "datetime \<Rightarrow> string" where
  "ex_isoformat t = ''1970-01-01T00:00:00.000002+00:00''"

definition ex_topology :: runner_topology where
  "ex_topology = \<lparr>tp_owner = ''r1'', tp_queue = ''ai_test.runner.r1.v1'', tp_bindings = [''runner.r1.api'']\<rparr>"

theorem sent_message_reaches_its_runner_witness:
  "fst ex_message \<in> set (tp_bindings ex_topology)
   \<and> parse_task_or_recording_envelope ex_codec ''r1''
       \<lparr>wb_size = 300, wb_json = Some (envelope_json ex_isoformat (snd ex_message))\<rparr> = Inr (RunTask (snd ex_message))"
proof -
  have fields: "tp_runner_id (snd ex_message) = ''r1''" "tp_required_slot_type (snd ex_message) = ''API''"
    "tp_run_type (snd ex_message) = ''API_CASE''" "tp_enqueued_at (snd ex_message) = 2"
    by code_simp+
  have "declare_runner_topology (tp_runner_id (snd ex_message)) [(''API'', 2)] = Inr ex_topology" by code_simp
  moreover have "parse_enqueued_at ex_codec (JStr (ex_isoformat (tp_enqueued_at (snd ex_message)))) = Inr (tp_enqueued_at (snd ex_message))"
    by code_simp
  ultimately show ?thesis
    using sent_message_reaches_its_runner[OF ex_reachable2 conjunct1[OF ex_message_sent] refl, of "[(''API'', 2)]" ex_topology 2 300
        ex_codec ex_isoformat] fields
    by (simp add: slot_matches_def MAX_ENVELOPE_BYTES_def)
qed

end
