(* ===== verification/Run_Api.thy ===== *)
theory Run_Api
  imports Run_Completion Runner_Protocol
begin

text \<open>
  The control plane behind the Runner's HTTP requests: the routes of \<open>runs/router.py\<close> for the API execution
  protocol, the status codes of \<open>core/exceptions.py\<close> and the JSON of the answers (\<open>runs/schemas.py\<close>).

  Pydantic validates the bodies of requests: \<open>ap_claim\<close>, \<open>ap_case\<close>, \<open>ap_complete\<close> (\<open>None\<close> is the 422
  answer). It also writes an assertion result (\<open>ap_assertion\<close>), and \<open>ap_iso\<close> is \<open>to_utc_isoformat\<close>. The
  content of an execution plan (\<open>ap_plan\<close>) and the evaluation of assertions ahead of the completion
  (\<open>ap_evaluate\<close>) are parameters too. Of an error answer only status code and error code are modelled;
  the client reads no more than the status.
\<close>

record api_boundary =
  ap_claim :: "(string \<times> json) list \<Rightarrow> string option"
  ap_case :: "(string \<times> json) list \<Rightarrow> (string \<times> int) option"
  ap_complete :: "(string \<times> json) list \<Rightarrow> api_completion option"
  ap_plan_query :: "(string \<times> json) list \<Rightarrow> (string \<times> int option) option"
  ap_plan :: "exec_context \<Rightarrow> api_case_content \<Rightarrow> app_error + json"
  ap_evaluate :: "env \<Rightarrow> world \<Rightarrow> string \<Rightarrow> string \<Rightarrow> (string \<times> json) list \<Rightarrow> json handler_result"
  ap_assertion :: "assertion_result \<Rightarrow> json"
  ap_iso :: "datetime \<Rightarrow> string"

section \<open>Answers\<close>

fun http_status :: "app_error \<Rightarrow> int" where
  "http_status (AuthenticationError _) = 401"
| "http_status (AuthorizationError _) = 403"
| "http_status (ResourceNotFoundError _) = 404"
| "http_status (ResourceConflictError _) = 409"
| "http_status (RedisUnavailableError _) = 503"
| "http_status (RunValidationError _) = 409"
| "http_status (RunStateConflictError _) = 409"
| "http_status RunDispatchPendingError = 503"
| "http_status (RunExecutionUnsupportedError _) = 409"
| "http_status (EvidenceStorageError _) = 503"
| "http_status ApiStepRetryLimitError = 409"
| "http_status (SecurityConfigurationError _) = 503"
| "http_status (InternalError _) = 500"

definition error_response :: "int \<Rightarrow> string \<Rightarrow> http_response" where
  "error_response status code = \<lparr>hr_status = status, hr_body = JObj [(''code'', JStr code)]\<rparr>"

definition unprocessable :: http_response where
  "unprocessable = error_response 422 ''VALIDATION_ERROR''"

definition answer :: "('r \<Rightarrow> json) \<Rightarrow> world \<Rightarrow> 'r handler_result \<Rightarrow> http_response \<times> world" where
  "answer render w r =
     (case r of
        Inl err \<Rightarrow> (error_response (http_status err) (error_code err), w)
      | Inr (x, w') \<Rightarrow> (\<lparr>hr_status = 200, hr_body = render x\<rparr>, w'))"

definition iso_json :: "api_boundary \<Rightarrow> datetime option \<Rightarrow> json" where
  "iso_json ap t = (case t of None \<Rightarrow> JNull | Some x \<Rightarrow> JStr (ap_iso ap x))"

definition text_json :: "string option \<Rightarrow> json" where
  "text_json t = (case t of None \<Rightarrow> JNull | Some s \<Rightarrow> JStr s)"

definition claim_json :: "api_boundary \<Rightarrow> claim_response \<Rightarrow> json" where
  "claim_json ap r =
     JObj [(''run_id'', JStr (cl_run_id r)), (''message_id'', JStr (cl_message_id r)),
       (''runner_id'', JStr (cl_runner_id r)), (''status'', JStr (run_status_value (cl_status r))),
       (''claimed_at'', iso_json ap (cl_claimed_at r)), (''idempotent'', JBool (cl_idempotent r))]"

definition start_json :: "api_boundary \<Rightarrow> start_response \<Rightarrow> json" where
  "start_json ap r =
     JObj [(''schema_version'', JInt 1), (''run_id'', JStr (st_run_id r)), (''message_id'', JStr (st_message_id r)),
       (''runner_id'', JStr (st_runner_id r)), (''case_run_id'', JInt (st_case_run_id r)),
       (''status'', JStr (run_status_value (st_status r))), (''started_at'', iso_json ap (st_started_at r)),
       (''idempotent'', JBool (st_idempotent r))]"

definition cancellation_json :: "string \<Rightarrow> string \<Rightarrow> int \<Rightarrow> cancellation_response \<Rightarrow> json" where
  "cancellation_json run_id message_id case_run_id r =
     JObj [(''schema_version'', JInt 1), (''run_id'', JStr run_id), (''message_id'', JStr message_id),
       (''case_run_id'', JInt case_run_id), (''status'', JStr (run_status_value (cn_status r))),
       (''cancellation_requested'', JBool (cn_cancellation_requested r)),
       (''force_stop_requested'', JBool (cn_force_stop_requested r))]"

definition complete_json :: "api_boundary \<Rightarrow> api_complete_response \<Rightarrow> json" where
  "complete_json ap r =
     (let x = cp_result r in
      JObj [(''schema_version'', JInt 1), (''run_id'', JStr (er_run_id x)), (''message_id'', JStr (er_message_id x)),
        (''runner_id'', JStr (cp_runner_id r)), (''case_run_id'', JInt (er_case_run_id x)),
        (''outcome'', JStr (er_outcome x)), (''run_status'', JStr (run_status_value (cp_run_status r))),
        (''case_run_status'', JStr (node_status_value (er_status x))), (''retry_count'', JInt (er_retry_count x)),
        (''assertion_results'', JList (map (ap_assertion ap) (er_assertion_results x))),
        (''error_type'', text_json (er_error_type x)), (''error_message'', text_json (er_error_message x)),
        (''completed_at'', JStr (ap_iso ap (er_completed_at x))), (''idempotent'', JBool (cp_idempotent r))])"

section \<open>Routes\<close>

definition get_execution_plan ::
  "api_boundary \<Rightarrow> env \<Rightarrow> world \<Rightarrow> string \<Rightarrow> string \<Rightarrow> string \<Rightarrow> int option \<Rightarrow> app_error + json" where
  "get_execution_plan ap e w run_id credential message_id case_run_id =
     res_bind (execution_context e w run_id credential message_id case_run_id) (\<lambda>cx.
     let run = cx_run cx in
     if tr_status run \<noteq> RUN_ASSIGNED \<and> tr_status run \<noteq> RUN_RUNNING \<and> tr_status run \<noteq> RUN_CANCELLING
     then run_conflict ''only ASSIGNED/RUNNING/CANCELLING runs have a plan''
     else
       res_bind (en_api_case e run (tr_status run = RUN_ASSIGNED)) (\<lambda>content.
       if \<not> ac_has_request content then Inl (RunExecutionUnsupportedError ''no request'')
       else ap_plan ap cx content))"

definition serve :: "api_boundary \<Rightarrow> env \<Rightarrow> http_request \<Rightarrow> world \<Rightarrow> http_response \<times> world" where
  "serve ap e q w =
     (let run_id = rq_run_id q; credential = rq_credential q; route = (rq_method q, rq_endpoint q) in
      if \<not> (1 \<le> length run_id \<and> length run_id \<le> 128) then (unprocessable, w)
      else if route = (''POST'', ''claim'')
      then (case ap_claim ap (rq_body q) of
              None \<Rightarrow> (unprocessable, w)
            | Some message_id \<Rightarrow> answer (claim_json ap) w (claim_run e w run_id credential message_id))
      else if route = (''GET'', ''execution-plan'')
      then (case ap_plan_query ap (rq_body q) of
              None \<Rightarrow> (unprocessable, w)
            | Some (message_id, case_run_id) \<Rightarrow>
                answer id w (res_bind (get_execution_plan ap e w run_id credential message_id case_run_id)
                              (\<lambda>p. Inr (p, w))))
      else if route = (''GET'', ''execution-cancellation'')
      then (case ap_case ap (rq_body q) of
              None \<Rightarrow> (unprocessable, w)
            | Some (message_id, case_run_id) \<Rightarrow>
                answer (cancellation_json run_id message_id case_run_id) w
                  (res_bind (get_execution_cancellation e w run_id credential message_id case_run_id)
                    (\<lambda>r. Inr (r, w))))
      else if route = (''POST'', ''execution-start'')
      then (case ap_case ap (rq_body q) of
              None \<Rightarrow> (unprocessable, w)
            | Some (message_id, case_run_id) \<Rightarrow>
                answer (start_json ap) w (start_api_execution e w run_id credential message_id case_run_id))
      else if route = (''POST'', ''execution-complete'')
      then (case ap_complete ap (rq_body q) of
              None \<Rightarrow> (unprocessable, w)
            | Some payload \<Rightarrow> answer (complete_json ap) w (complete_api_execution e w run_id credential payload))
      else if route = (''POST'', ''execution-evaluate'')
      then answer id w (ap_evaluate ap e w run_id credential (rq_body q))
      else (error_response 404 ''HTTP_ERROR'', w))"

section \<open>Reading what was written\<close>

lemma error_response_fails [simp]: "\<not> success_code (hr_status (error_response (http_status err) x))"
  by (cases err) (simp_all add: success_code_def error_response_def)

lemma unprocessable_fails [simp]: "\<not> success_code (hr_status unprocessable)"
  by (simp add: success_code_def error_response_def unprocessable_def)

lemma answer_success:
  "answer render w r = (a, w') \<Longrightarrow> success_code (hr_status a) \<Longrightarrow> \<exists>x. r = Inr (x, w') \<and> hr_body a = render x"
  by (auto simp: answer_def split: sum.splits)

lemma run_status_value_inject [simp]: "run_status_value s = run_status_value t \<longleftrightarrow> s = t"
  by (cases s; cases t) simp_all

lemma node_status_value_inject [simp]: "node_status_value s = node_status_value t \<longleftrightarrow> s = t"
  by (cases s; cases t) simp_all

lemma claim_response_cancelled:
  assumes "claim_run e w run_id credential message_id = Inr (r, w')" and "cl_status r = RUN_CANCELLED"
  shows "\<exists>run. get_run w' run_id = Some run \<and> tr_status run = RUN_CANCELLED"
proof -
  obtain run runner ob where run: "get_run w run_id = Some run"
    and auth: "authenticate_runner_for_run e w run credential = Inr runner" and ob: "tr_dispatch_outbox run = Some ob"
    using assms(1) by (auto simp: claim_run_def res_simps split: option.splits)
  consider "w' = w" "tr_status run = RUN_CANCELLED" | "claim_cancelling e w run ob runner = Inr (r, w')"
    using assms run auth ob
    by (auto simp: claim_run_def claim_queued_def make_claim_response_def res_simps Let_def split: if_splits)
  then show ?thesis
  proof cases
    case 1
    with run show ?thesis by blast
  next
    case 2
    then obtain ob' where "finalize_cancelling_run_on_claim e w (run\<lparr>tr_dispatch_outbox := Some ob'\<rparr>) = Inr w'"
      by (auto simp: claim_cancelling_def res_simps Let_def split: if_splits)
    from finalize_evolves[OF this] obtain r' where r': "tr_id r' = run_id" "tr_status r' = RUN_CANCELLED"
      and w': "w' = commit_run e w r' RUN_CANCELLING RUN_CANCELLED (first_case_id r')"
      using get_run_id[OF run] by (auto simp: run_evolves_def)
    with run show ?thesis by (auto simp: commit_run_def get_put_run)
  qed
qed

lemma complete_response_status_is:
  assumes "complete_api_execution e w run_id credential p = Inr (r, w')"
  shows "\<exists>run. get_run w' run_id = Some run \<and> tr_status run = cp_run_status r"
  using assms
proof (cases rule: complete_api_cases)
  case (1 cx)
  then show ?thesis using execution_contextD(1) by fastforce
next
  case (2 cx)
  from complete_api_new_shape[OF 2(3,1,2)] show ?thesis using execution_contextD(1) by blast
qed

end
