(* ===== verification/Runner_System.thy ===== *)
theory Runner_System
  imports Run_Api Runner_Delivery
begin

text \<open>
  The Runner's consumer, its HTTP client and the control plane together, over a network that may lose
  requests and answers.

  The state of the system is the control plane's world, the number of requests sent so far and the state
  of the Runner's machine (clock, stop event, task process). For every attempt to send a request an
  oracle says which environment the control plane has, what other clients made of its world in the
  meantime (\<open>at_drift\<close>), and what the network does. The client's contract of \<open>Runner_Delivery\<close> is
  discharged for this system, with the finished Runs of the control plane as the states an
  acknowledgement rests on.
\<close>

datatype network = Delivered | RequestLost transport_result | AnswerLost transport_result

record attempt =
  at_env :: env
  at_drift :: "world \<Rightarrow> world"
  at_network :: network

record 'm system =
  sy_world :: world
  sy_tick :: nat
  sy_machine :: 'm

definition no_success :: "transport_result \<Rightarrow> bool" where
  "no_success r \<longleftrightarrow> (case r of Answered a \<Rightarrow> \<not> success_code (hr_status a) | _ \<Rightarrow> True)"

text \<open>The network invents no successful answer; a gateway may answer with an error of its own.\<close>

definition honest :: "attempt \<Rightarrow> bool" where
  "honest a \<longleftrightarrow> (case at_network a of
     Delivered \<Rightarrow> True | RequestLost r \<Rightarrow> no_success r | AnswerLost r \<Rightarrow> no_success r)"

definition send_attempt ::
  "api_boundary \<Rightarrow> attempt \<Rightarrow> http_request \<Rightarrow> 'm system \<Rightarrow> transport_result \<times> 'm system" where
  "send_attempt ap a q s =
     (let w = at_drift a (sy_world s); (r, w') = serve ap (at_env a) q w;
          next = (\<lambda>x. s\<lparr>sy_world := x, sy_tick := Suc (sy_tick s)\<rparr>) in
      case at_network a of
        Delivered \<Rightarrow> (Answered r, next w')
      | RequestLost f \<Rightarrow> (f, next w)
      | AnswerLost f \<Rightarrow> (f, next w'))"

text \<open>What runs on the Runner's machine leaves the control plane alone.\<close>

definition on_machine :: "('m \<Rightarrow> 'a \<times> 'm) \<Rightarrow> 'm system \<Rightarrow> 'a \<times> 'm system" where
  "on_machine f s = (case f (sy_machine s) of (x, m) \<Rightarrow> (x, s\<lparr>sy_machine := m\<rparr>))"

definition on_machine_only :: "('m \<Rightarrow> 'm) \<Rightarrow> 'm system \<Rightarrow> 'm system" where
  "on_machine_only f s = s\<lparr>sy_machine := f (sy_machine s)\<rparr>"

definition machine_client :: "'m runner_client \<Rightarrow> 'm system runner_client" where
  "machine_client m =
     \<lparr>rc_claim = (\<lambda>_ _ s. (Inl ClientOther, s)), rc_plan = (\<lambda>_ _ s. (Inl ClientOther, s)),
      rc_start = (\<lambda>_ _ _ s. (Inl ClientOther, s)), rc_cancellation = (\<lambda>_ _ _ s. (Inl ClientOther, s)),
      rc_evaluate = (\<lambda>_ _ _ _ s. (Inl ClientOther, s)), rc_complete = (\<lambda>_ _ _ _ s. (Inl ClientOther, s)),
      rc_clock = on_machine (rc_clock m), rc_stop_is_set = on_machine (rc_stop_is_set m),
      rc_stop_wait = (\<lambda>t. on_machine (rc_stop_wait m t)), rc_stop_set = on_machine_only (rc_stop_set m),
      rc_process_start = (\<lambda>t. on_machine (rc_process_start m t)),
      rc_process_alive = on_machine (rc_process_alive m), rc_process_poll = on_machine (rc_process_poll m),
      rc_process_terminate = on_machine_only (rc_process_terminate m),
      rc_process_outcome = on_machine (rc_process_outcome m),
      rc_process_close = on_machine_only (rc_process_close m)\<rparr>"

record 'm runner_setup =
  ru_config :: client_config
  ru_identity :: identity
  ru_codec :: codec
  ru_parts :: plan_parts
  ru_boundary :: api_boundary
  ru_sleep :: "int \<Rightarrow> 'm \<Rightarrow> 'm"
  ru_machine :: "'m runner_client"
  ru_oracle :: "nat \<Rightarrow> attempt"

definition system_send :: "'m runner_setup \<Rightarrow> http_request \<Rightarrow> 'm system \<Rightarrow> transport_result \<times> 'm system" where
  "system_send u q s = send_attempt (ru_boundary u) (ru_oracle u (sy_tick s)) q s"

definition system_client :: "'m runner_setup \<Rightarrow> 'm system runner_client" where
  "system_client u =
     http_client \<lparr>cs_config = ru_config u, cs_identity = ru_identity u, cs_codec = ru_codec u,
       cs_parts = ru_parts u,
       cs_transport = \<lparr>tp_send = system_send u,
                       tp_sleep = (\<lambda>t. on_machine_only (ru_sleep u t))\<rparr>,
       cs_machine = machine_client (ru_machine u)\<rparr>"

definition run_finished :: "string \<Rightarrow> 'm system set" where
  "run_finished run_id =
     {s. \<exists>run. get_run (sy_world s) run_id = Some run \<and> terminal_run_status (tr_status run)}"

section \<open>A successful answer is the backend's\<close>

lemma request_loop_answer:
  "request_loop cfg tp q n w = (Inr r, w') \<Longrightarrow> \<exists>w0. tp_send tp q w0 = (Answered r, w') \<and> success_code (hr_status r)"
proof (induction n arbitrary: w)
  case (Suc n)
  then show ?case
    by (cases "tp_send tp q w") (auto split: transport_result.splits if_splits)
qed simp

lemma remote_call_answer:
  assumes "remote_call cfg tp req read w = (Inr x, w')"
  obtains q r body w0 where "req = Inr q" "tp_send tp q w0 = (Answered r, w')" "success_code (hr_status r)"
    "hr_body r = JObj body" "read body = Inr x"
proof -
  obtain q where q: "req = Inr q" using assms by (cases req) (auto simp: remote_call_def)
  obtain r where r: "client_request cfg tp q w = (Inr r, w')" "res_bind (response_object r) read = Inr x"
    using assms q by (auto simp: remote_call_def split: prod.splits sum.splits)
  obtain body where "hr_body r = JObj body" "read body = Inr x"
    using r(2) by (auto simp: response_object_def res_simps split: json.splits)
  with q request_loop_answer[OF r(1)[unfolded client_request_def]] that show thesis by blast
qed

lemma send_attempt_answer:
  assumes "send_attempt ap a q s = (Answered r, s')" and "success_code (hr_status r)" and "honest a"
  shows "\<exists>w. serve ap (at_env a) q w = (r, sy_world s')"
  using assms
  by (auto simp: send_attempt_def honest_def no_success_def Let_def split: network.splits prod.splits)

lemma claim_request_route: "claim_request i r m = Inr q \<Longrightarrow> rq_method q = ''POST'' \<and> rq_endpoint q = ''claim'' \<and> rq_run_id q = r"
  by (auto simp: claim_request_def res_simps)

lemma complete_request_route:
  "complete_request cd i r m k p = Inr q \<Longrightarrow>
     rq_method q = ''POST'' \<and> rq_endpoint q = ''execution-complete'' \<and> rq_run_id q = r"
  by (auto simp: complete_request_def case_request_def with_body_def res_simps)

lemma claim_answer_status:
  "claim_answer cd i r m body = Inr x \<Longrightarrow> field body ''status'' = JStr (run_status_value (kr_status x))"
  by (auto simp: claim_answer_def required_text_def res_simps dest!: one_of_value split: json.splits if_splits)

lemma complete_answer_status:
  "complete_answer cd i r m k p body = Inr x \<Longrightarrow> field body ''run_status'' = JStr (run_status_value (xr_run_status x))"
  by (auto simp: complete_answer_def required_text_def res_simps Let_def dest!: one_of_value split: json.splits if_splits)

lemma served_claim:
  assumes "serve ap e q w = (r, w')" and "success_code (hr_status r)" and "hr_body r = JObj body"
    and "claim_request i run_id m = Inr q" and "claim_answer cd i run_id m body = Inr x" and "kr_status x = RUN_CANCELLED"
  shows "\<exists>run. get_run w' run_id = Some run \<and> terminal_run_status (tr_status run)"
proof -
  note q = claim_request_route[OF assms(4)]
  obtain msg where "answer (claim_json ap) w (claim_run e w run_id (rq_credential q) msg) = (r, w')"
    using assms(1,2) q by (auto simp: serve_def Let_def split: option.splits if_splits)
  from answer_success[OF this assms(2)] obtain rsp where
    rsp: "claim_run e w run_id (rq_credential q) msg = Inr (rsp, w')" "hr_body r = claim_json ap rsp" by blast
  have "cl_status rsp = RUN_CANCELLED"
    using claim_answer_status[OF assms(5)] assms(3,6) rsp(2)
    by (auto simp: claim_json_def field_def jget_def) (metis run_status_value.simps(8) run_status_value_inject)
  from claim_response_cancelled[OF rsp(1) this] show ?thesis by auto
qed

lemma served_completion:
  assumes "serve ap e q w = (r, w')" and "success_code (hr_status r)" and "hr_body r = JObj body"
    and "complete_request cd i run_id m k p = Inr q" and "complete_answer cd i run_id m k p body = Inr x"
  shows "\<exists>run. get_run w' run_id = Some run \<and> tr_status run = xr_run_status x"
proof -
  note q = complete_request_route[OF assms(4)]
  obtain payload where "answer (complete_json ap) w (complete_api_execution e w run_id (rq_credential q) payload) = (r, w')"
    using assms(1,2) q by (auto simp: serve_def Let_def split: option.splits if_splits)
  from answer_success[OF this assms(2)] obtain rsp where
    rsp: "complete_api_execution e w run_id (rq_credential q) payload = Inr (rsp, w')" "hr_body r = complete_json ap rsp"
    by blast
  have "cp_run_status rsp = xr_run_status x"
    using complete_answer_status[OF assms(5)] assms(3) rsp(2)
    by (auto simp: complete_json_def field_def jget_def Let_def)
  with complete_response_status_is[OF rsp(1)] show ?thesis by auto
qed

section \<open>The contract of the consumer holds for the system\<close>

lemma system_delivery:
  assumes proper: "proper_processes (ru_machine u)" and honest: "\<And>n. honest (ru_oracle u n)"
  shows "delivery (system_client u) run_id message_id (run_finished run_id)"
proof
  show "proper_processes (system_client u)"
    using proper
    by (auto simp: proper_processes_def system_client_def http_client_def machine_client_def on_machine_def Let_def
        split: prod.splits option.splits) (metis fst_conv option.distinct(1) option.inject)
next
  fix s s' :: "'a system"
  assume "rc_claim (system_client u) run_id message_id s = (Inr RUN_CANCELLED, s')"
  then show "s' \<in> run_finished run_id"
    unfolding system_client_def http_client_def
    by (auto elim!: remote_call_answer
        simp: client_claim_def execution_complete_def system_send_def res_simps run_finished_def
        dest!: send_attempt_answer[OF _ _ honest] dest: served_claim)
next
  fix k p r and s s' :: "'a system"
  assume "rc_complete (system_client u) run_id message_id k p s = (Inr r, s')" "terminal_run_status (xr_run_status r)"
  then show "s' \<in> run_finished run_id"
    unfolding system_client_def http_client_def
    by (auto elim!: remote_call_answer
        simp: client_claim_def execution_complete_def system_send_def res_simps run_finished_def
        dest!: send_attempt_answer[OF _ _ honest]) (metis served_completion)
next
  fix s :: "'a system"
  assume "s \<in> run_finished run_id"
  then show "rc_process_close (system_client u) s \<in> run_finished run_id"
    by (simp add: run_finished_def system_client_def http_client_def machine_client_def on_machine_only_def Let_def)
qed

text \<open>A Runner whose task processes are proper, on a network that invents no success.\<close>

locale runner_system =
  fixes u :: "'m runner_setup" and run_id message_id :: string
  assumes proper_machine: "proper_processes (ru_machine u)"
    and honest_network: "honest (ru_oracle u n)"

sublocale runner_system \<subseteq> delivery "system_client u" run_id message_id "run_finished run_id"
  by (rule system_delivery[OF proper_machine honest_network])

context runner_system
begin

lemma finished_when_acknowledged:
  assumes "cm_log s = []" and "slots_inv (cm_slots s)"
    and "process_execution_delivery (system_client u) cases polls run_id message_id s = (Inl (Returned ACKED), t)"
  shows "cm_world t \<in> run_finished run_id"
  using delivery_result[OF assms] by simp

end

end
