(* ===== verification/Runner_Examples.thy ===== *)
theory Runner_Examples
  imports Run_Examples Runner_System
begin

text \<open>
  A concrete Runner on the control plane of \<open>Run_Examples\<close>: one slot, a task process that ends at once with a
  response of status 200, and a network that delivers everything or loses every second answer. Both data
  rows of the Run are executed before the message is acknowledged.
\<close>

definition ex_process :: "unit runner_client" where
  "ex_process =
     \<lparr>rc_claim = (\<lambda>_ _ s. (Inl ClientOther, s)), rc_plan = (\<lambda>_ _ s. (Inl ClientOther, s)),
      rc_start = (\<lambda>_ _ _ s. (Inl ClientOther, s)), rc_cancellation = (\<lambda>_ _ _ s. (Inl ClientOther, s)),
      rc_evaluate = (\<lambda>_ _ _ _ s. (Inl ClientOther, s)), rc_complete = (\<lambda>_ _ _ _ s. (Inl ClientOther, s)),
      rc_clock = (\<lambda>s. (0, s)), rc_stop_is_set = (\<lambda>s. (False, s)), rc_stop_wait = (\<lambda>_ s. (False, s)),
      rc_stop_set = id, rc_process_start = (\<lambda>_ s. (Inr (), s)), rc_process_alive = (\<lambda>s. (False, s)),
      rc_process_poll = (\<lambda>s. (True, s)), rc_process_terminate = id,
      rc_process_outcome = (\<lambda>s. (Some ((plain_outcome ''HTTP_RESPONSE'')
        \<lparr>io_result := Some [(''status_code'', JInt 200)]\<rparr>), s)),
      rc_process_close = id\<rparr>"

definition ex_text :: "json \<Rightarrow> string" where
  "ex_text v = (case v of JStr s \<Rightarrow> s | _ \<Rightarrow> [])"

definition ex_int :: "json \<Rightarrow> int" where
  "ex_int v = (case v of JInt n \<Rightarrow> n | _ \<Rightarrow> 0)"

definition ex_boundary :: api_boundary where
  "ex_boundary =
     \<lparr>ap_claim = (\<lambda>b. Some (ex_text (field b ''message_id''))),
      ap_case = (\<lambda>b. Some (ex_text (field b ''message_id''), ex_int (field b ''case_run_id''))),
      ap_complete = (\<lambda>b. Some (ex_completion (ex_int (field b ''case_run_id'')))),
      ap_plan_query = (\<lambda>b. Some (ex_text (field b ''message_id''), None)),
      ap_plan = (\<lambda>cx _. Inr (JObj [(''schema_version'', JInt 1), (''run_id'', JStr (tr_id (cx_run cx))),
        (''message_id'', JStr (ob_message_id (cx_outbox cx))), (''runner_id'', JStr (rn_id (cx_runner cx))),
        (''case_run_id'', JInt (cr_id (cx_case cx))), (''case_version_id'', JInt 1), (''request'', JNull),
        (''total_timeout_ms'', JInt 1000)])),
      ap_evaluate = (\<lambda>_ _ _ _ _. run_conflict ''no evaluation''),
      ap_assertion = (\<lambda>a. JObj [(''sequence'', JInt (as_sequence a)), (''name'', JStr (as_name a)),
        (''type'', JStr (as_type a)), (''status'', JStr ''PASS''), (''message'', JStr (as_message a)),
        (''duration_ms'', JInt (as_duration_ms a))]),
      ap_iso = (\<lambda>_. ''now'')\<rparr>"

definition ex_setup :: "(nat \<Rightarrow> network) \<Rightarrow> unit runner_setup" where
  "ex_setup net =
     \<lparr>ru_config = \<lparr>cc_max_attempts = 4, cc_backoff_base = 0, cc_backoff_max = 0\<rparr>,
      ru_identity = \<lparr>id_runner_id = ''r1'', id_credential = ''0123456789abcdef''\<rparr>,
      ru_codec = \<lparr>cd_fromiso = (\<lambda>_. Some (Some 5)), cd_dumps = (\<lambda>_. Some 0)\<rparr>,
      ru_parts = \<lparr>pp_request = (\<lambda>_. Inr no_retries), pp_context = (\<lambda>_. Inr []), pp_pre_actions = (\<lambda>_. Inr []),
        pp_extractors = (\<lambda>_. Inr []), pp_post_actions = (\<lambda>_. Inr []), pp_connections = (\<lambda>_. Inr []),
        pp_secrets = (\<lambda>_. Inr []), pp_cleanups = (\<lambda>_. Inr [])\<rparr>,
      ru_boundary = ex_boundary, ru_sleep = (\<lambda>_. id), ru_machine = ex_process,
      ru_oracle = (\<lambda>n. \<lparr>at_env = ex_env 5, at_drift = id, at_network = net n\<rparr>)\<rparr>"

definition ex_reliable :: "nat \<Rightarrow> network" where
  "ex_reliable n = Delivered"

definition ex_lossy :: "nat \<Rightarrow> network" where
  "ex_lossy n = (if even n then AnswerLost (TransportFailed True) else Delivered)"

definition ex_consumer :: "world \<Rightarrow> unit system consumer_state" where
  "ex_consumer w =
     \<lparr>cm_world = \<lparr>sy_world = w, sy_tick = 0, sy_machine = ()\<rparr>,
      cm_slots = ex_slots, cm_log = []\<rparr>"

definition ex_cancelled :: world where
  "ex_cancelled = world_of (cancel_run (ex_env 4) ex_w3 ex_user ''run_1'')"

definition ex_cancelling :: world where
  "ex_cancelling = world_of (cancel_run (ex_env 7) ex_w6 ex_user ''run_1'')"

lemma ex_process_proper: "proper_processes ex_process"
  by (simp add: proper_processes_def ex_process_def objects_only_def plain_outcome_def)

lemma ex_slots_inv: "slots_inv ex_slots"
  by (simp add: slots_inv_def ex_slots_def held_def SLOT_TYPES_def)

interpretation example: runner_system "ex_setup ex_lossy" "''run_1''" "''msg_1''"
  by unfold_locales (simp_all add: ex_setup_def ex_process_proper honest_def ex_lossy_def no_success_def)

end
