(* ===== verification/Runner_Guarantees.thy ===== *)
theory Runner_Guarantees
  imports Runner_Examples
begin

text \<open>
  What the Runner guarantees on top of the control plane, and whether the two understand each other. A
  message is acknowledged only when its Run is finished. A claim answer is read back exactly as it was
  written. The answer to a start is not always accepted: the handler reports the start time of a
  Run that is being cancelled, and the client insists on \<open>null\<close> there.
\<close>

section \<open>Acknowledgement\<close>


definition ex_acknowledged :: "(stop + unit) \<times> unit system consumer_state" where
  "ex_acknowledged =
     process_execution_delivery (system_client (ex_setup ex_lossy)) 0 0 ''run_1'' ''msg_1'' (ex_consumer ex_cancelled)"


section \<open>Claim\<close>

lemma claim_response_shape:
  assumes "claim_run e w run_id credential message_id = Inr (r, w')"
  shows "cl_run_id r = run_id \<and> cl_message_id r = message_id
    \<and> (cl_status r = RUN_ASSIGNED \<and> cl_claimed_at r \<noteq> None
       \<or> cl_status r = RUN_CANCELLED \<and> cl_claimed_at r = None \<and> cl_idempotent r)"
proof -
  obtain run runner ob where run: "get_run w run_id = Some run"
    and auth: "authenticate_runner_for_run e w run credential = Inr runner" and ob: "tr_dispatch_outbox run = Some ob"
    using assms by (auto simp: claim_run_def res_simps split: option.splits)
  have id: "tr_id run = run_id" using get_run_id[OF run] .
  have "tr_id run2 = run_id" if "set_run_status t (run\<lparr>tr_dispatch_outbox := o', tr_total_timeout_ms := n\<rparr>) s u = Inr (b, run2)"
    for t o' n s u b run2
    using set_run_status_frame(1)[OF that] id by simp
  then show ?thesis
    using assms run auth ob id
    by (auto simp: claim_run_def claim_queued_def claim_cancelling_def make_claim_response_def res_simps Let_def
        split: if_splits)
qed

lemma one_of_member:
  "x \<in> set states \<Longrightarrow> (\<And>a b. value a = value b \<Longrightarrow> a = b) \<Longrightarrow> one_of value states (value x) = Inr x"
  by (induction states) (auto simp: one_of_def option_to_res_def)

lemma claim_request_valid:
  assumes "claim_request i run_id message_id = Inr q"
  shows "run_id \<noteq> [] \<and> length run_id \<le> 128 \<and> message_id \<noteq> [] \<and> length message_id \<le> 64
    \<and> id_runner_id i \<noteq> [] \<and> length (id_runner_id i) \<le> 64"
  using assms
  by (auto simp: claim_request_def validate_identity_def validate_execution_identifiers_def check_def
      valid_identifier_def safe_id_def res_simps split: if_splits)

text \<open>
  A claim is understood. When the control plane accepts a claim of this Runner, the client reads
  from the JSON answer exactly what the handler wrote: the status, the claim time of an assigned Run, and
  whether it was a repetition. No accepted claim is mistaken for a protocol error, which would
  make the consumer reject the message. Assumed is that \<open>datetime.fromisoformat\<close> reads what
  \<open>isoformat\<close> wrote and that the request passed the client's own checks.
\<close>

theorem accepted_claim_is_understood:
  assumes "claim_run e w run_id credential message_id = Inr (r, w')"
    and "claim_request i run_id message_id = Inr q" and "cl_runner_id r = id_runner_id i"
    and "\<And>t. cl_claimed_at r = Some t \<Longrightarrow> parse_datetime cd (JStr (ap_iso ap t)) = Inr t" and "claim_json ap r = JObj body"
  shows "claim_answer cd i run_id message_id body
    = Inr \<lparr>kr_status = cl_status r, kr_claimed_at = cl_claimed_at r, kr_idempotent = cl_idempotent r\<rparr>"
proof -
  note shape = claim_response_shape[OF assms(1)] and valid = claim_request_valid[OF assms(2)]
  have body: "body = [(''run_id'', JStr run_id), (''message_id'', JStr message_id),
       (''runner_id'', JStr (id_runner_id i)), (''status'', JStr (run_status_value (cl_status r))),
       (''claimed_at'', iso_json ap (cl_claimed_at r)), (''idempotent'', JBool (cl_idempotent r))]"
    using assms(3,5) shape by (simp add: claim_json_def)
  have texts: "required_text body ''run_id'' 128 = Inr run_id" "required_text body ''message_id'' 64 = Inr message_id"
    "required_text body ''runner_id'' 64 = Inr (id_runner_id i)"
    using valid by (auto simp: body required_text_def)
  have status: "cl_status r = RUN_ASSIGNED \<or> cl_status r = RUN_CANCELLED" using shape by blast
  have "required_text body ''status'' 16 = Inr (run_status_value (cl_status r))"
    using status by (auto simp: body required_text_def)
  moreover have "one_of run_status_value [RUN_ASSIGNED, RUN_CANCELLED] (run_status_value (cl_status r)) = Inr (cl_status r)"
    using status by (intro one_of_member) auto
  moreover have "require_exact_keys body
     [''run_id'', ''message_id'', ''runner_id'', ''status'', ''claimed_at'', ''idempotent''] = Inr ()"
    by (simp add: body require_exact_keys_def check_def)
  ultimately show ?thesis
    using shape assms(4) unfolding claim_answer_def texts
    by (auto simp: res_simps check_def required_bool_def body iso_json_def)
qed

definition ex_claim_answer :: claim_response where
  "ex_claim_answer = make_claim_response (hd (w_runs ex_w3)) (the (tr_dispatch_outbox (hd (w_runs ex_w3)))) ex_runner
     RUN_ASSIGNED (Some 5) False"

theorem accepted_claim_is_understood_witness:
  "\<exists>body. claim_json ex_boundary ex_claim_answer = JObj body
     \<and> claim_answer (ru_codec (ex_setup ex_reliable)) (ru_identity (ex_setup ex_reliable)) ''run_1'' ''msg_1'' body
       = Inr \<lparr>kr_status = RUN_ASSIGNED, kr_claimed_at = Some 5, kr_idempotent = False\<rparr>"
proof -
  obtain body where body: "claim_json ex_boundary ex_claim_answer = JObj body" by (simp add: claim_json_def)
  have "response_of (claim_run (ex_env 5) ex_w3 ''run_1'' ''secret'' ''msg_1'') = Some ex_claim_answer" by code_simp
  from response_world[OF this] obtain w' where claim:
    "claim_run (ex_env 5) ex_w3 ''run_1'' ''secret'' ''msg_1'' = Inr (ex_claim_answer, w')" by blast
  have "\<not> isl (claim_request (ru_identity (ex_setup ex_reliable)) ''run_1'' ''msg_1'')" by code_simp
  then obtain q where q: "claim_request (ru_identity (ex_setup ex_reliable)) ''run_1'' ''msg_1'' = Inr q"
    by (cases "claim_request (ru_identity (ex_setup ex_reliable)) ''run_1'' ''msg_1''") auto
  have time: "parse_datetime (ru_codec (ex_setup ex_reliable)) (JStr (ap_iso ex_boundary 5)) = Inr 5" by code_simp
  have fields: "cl_status ex_claim_answer = RUN_ASSIGNED" "cl_claimed_at ex_claim_answer = Some 5"
    "cl_idempotent ex_claim_answer = False" "cl_runner_id ex_claim_answer = id_runner_id (ru_identity (ex_setup ex_reliable))"
    by (simp_all add: ex_claim_answer_def make_claim_response_def ex_runner_def ex_setup_def)
  show ?thesis
    using accepted_claim_is_understood[OF claim q fields(4) _ body] body fields time by auto
qed

section \<open>Start\<close>

lemma start_of_cancelling:
  assumes "execution_context e w run_id credential message_id (Some k) = Inr cx"
    and "tr_status (cx_run cx) = RUN_CANCELLING"
  shows "start_api_execution e w run_id credential message_id k
    = Inr (make_start_response cx RUN_CANCELLING (tr_started_at (cx_run cx)) True, w)"
  using assms by (simp add: start_api_execution_def)

text \<open>Reading an answer fails with nothing but a protocol error.\<close>

definition protocol_only :: "client_error + 'a \<Rightarrow> bool" where
  "protocol_only m \<longleftrightarrow> (\<forall>err. m = Inl err \<longrightarrow> err = ClientProtocol)"

lemma protocol_only_bind: "protocol_only m \<Longrightarrow> (\<And>x. protocol_only (f x)) \<Longrightarrow> protocol_only (res_bind m f)"
  by (auto simp: protocol_only_def res_bind_def split: sum.splits)

lemma protocol_only_field [simp]:
  "protocol_only (Inr x)" "protocol_only (Inl ClientProtocol)" "protocol_only (required_text body key n)"
  "protocol_only (required_positive_int v)" "protocol_only (required_bool v)" "protocol_only (schema_one body)"
  "protocol_only (require_exact_keys body keys)" "protocol_only (check ClientProtocol b)"
  "protocol_only (parse_datetime cd v)" "protocol_only (one_of value states s)"
  by (auto simp: protocol_only_def required_text_def required_positive_int_def required_bool_def schema_one_def
      require_exact_keys_def check_def parse_datetime_def one_of_def option_to_res_def split: json.splits if_splits option.splits)

lemma start_answer_protocol_only: "protocol_only (start_answer cd i run_id message_id k body)"
  unfolding start_answer_def by (intro protocol_only_bind) (simp_all add: protocol_only_bind)

lemma start_answer_needs_null:
  assumes "start_json ap r = JObj body" and "st_status r = RUN_CANCELLING" and "st_started_at r \<noteq> None"
  shows "start_answer cd i run_id message_id k body = Inl ClientProtocol"
proof -
  have "field body ''status'' = JStr ''CANCELLING''" "field body ''started_at'' \<noteq> JNull"
    using assms by (auto simp: start_json_def iso_json_def)
  then have "start_answer cd i run_id message_id k body \<noteq> Inr x" for x
    by (auto simp: start_answer_def required_text_def res_simps)
  then show ?thesis
    using start_answer_protocol_only[of cd i run_id message_id k body]
    by (cases "start_answer cd i run_id message_id k body") (auto simp: protocol_only_def)
qed

lemma case_request_route:
  "case_request v ep i run_id message_id k = Inr q \<Longrightarrow>
     rq_method q = v \<and> rq_endpoint q = ep \<and> rq_run_id q = run_id \<and> rq_credential q = id_credential i
     \<and> run_id \<noteq> [] \<and> length run_id \<le> 128"
  by (auto simp: case_request_def validate_execution_identifiers_def check_def valid_identifier_def safe_id_def
      res_simps split: if_splits)

lemma serve_start_cancelling:
  assumes "case_request ''POST'' ''execution-start'' i run_id message_id k = Inr q"
    and "ap_case ap (rq_body q) = Some (message_id, k)"
    and "execution_context e w run_id (id_credential i) message_id (Some k) = Inr cx"
    and "tr_status (cx_run cx) = RUN_CANCELLING"
  shows "serve ap e q w = (\<lparr>hr_status = 200,
    hr_body = start_json ap (make_start_response cx RUN_CANCELLING (tr_started_at (cx_run cx)) True)\<rparr>, w)"
  using case_request_route[OF assms(1)] assms(2) start_of_cancelling[OF assms(3,4)]
  by (cases run_id) (auto simp: serve_def answer_def Let_def)

text \<open>
  C30. A Run cancelled after its first start is not cancelled by its Runner but rejected. When a Run is
  CANCELLING and has been started (the next iteration of a data-driven Run, or a redelivered
  message), the handler answers the start request with the time of the start, and the client
  takes exactly that for a protocol error: the consumer rejects the message, reports nothing and
  the Run stays CANCELLING.
\<close>

theorem started_run_under_cancellation_is_rejected:
  assumes "a = ru_oracle u (sy_tick (cm_world s))" and "at_network a = Delivered"
    and "execution_context (at_env a) (at_drift a (sy_world (cm_world s))) run_id
      (id_credential (ru_identity u)) message_id (Some k) = Inr cx"
    and "tr_status (cx_run cx) = RUN_CANCELLING" and "tr_started_at (cx_run cx) \<noteq> None"
    and "case_request ''POST'' ''execution-start'' (ru_identity u) run_id message_id k = Inr q"
    and "ap_case (ru_boundary u) (rq_body q) = Some (message_id, k)" and "1 \<le> cc_max_attempts (ru_config u)"
    and "call reject (rc_start (system_client u) run_id message_id k) s = (r, t)"
  shows "r = Inl (Returned REJECTED) \<and> cm_log t = cm_log s @ [BasicReject]
    \<and> sy_world (cm_world t) = at_drift a (sy_world (cm_world s))"
proof -
  let ?rsp = "make_start_response cx RUN_CANCELLING (tr_started_at (cx_run cx)) True"
  obtain body where body: "start_json (ru_boundary u) ?rsp = JObj body" by (simp add: start_json_def)
  have refused: "start_answer (ru_codec u) (ru_identity u) run_id message_id k body = Inl ClientProtocol"
    using start_answer_needs_null[OF body] assms(5) by (simp add: make_start_response_def)
  obtain n where n: "cc_max_attempts (ru_config u) = Suc n" using assms(8) by (cases "cc_max_attempts (ru_config u)") auto
  have "system_send u q (cm_world s) = (Answered \<lparr>hr_status = 200, hr_body = JObj body\<rparr>,
      (cm_world s)\<lparr>sy_world := at_drift a (sy_world (cm_world s)), sy_tick := Suc (sy_tick (cm_world s))\<rparr>)"
    using serve_start_cancelling[OF assms(6,7,3,4)] assms(1,2) body
    by (simp add: system_send_def send_attempt_def Let_def)
  then have "rc_start (system_client u) run_id message_id k (cm_world s) = (Inl ClientProtocol,
      (cm_world s)\<lparr>sy_world := at_drift a (sy_world (cm_world s)), sy_tick := Suc (sy_tick (cm_world s))\<rparr>)"
    using refused assms(6) n
    by (simp add: system_client_def http_client_def execution_start_def remote_call_def client_request_def
        response_object_def success_code_def)
  then show ?thesis
    using assms(9)
    by (auto simp: call_def task_bind_def outside_def client_failure_def reject_def settle_def)
qed

definition ex_rejected :: "(stop + start_result) \<times> unit system consumer_state" where
  "ex_rejected = call reject (rc_start (system_client (ex_setup ex_reliable)) ''run_1'' ''msg_1'' 2) (ex_consumer ex_cancelling)"

theorem started_run_under_cancellation_is_rejected_witness:
  "fst ex_rejected = Inl (Returned REJECTED) \<and> cm_log (snd ex_rejected) = [BasicReject]
   \<and> sy_world (cm_world (snd ex_rejected)) = ex_cancelling"
proof -
  let ?u = "ex_setup ex_reliable" and ?s = "ex_consumer ex_cancelling"
  let ?cx = "execution_context (ex_env 5) ex_cancelling ''run_1'' (id_credential (ru_identity ?u)) ''msg_1'' (Some 2)"
  let ?q = "case_request ''POST'' ''execution-start'' (ru_identity ?u) ''run_1'' ''msg_1'' 2"
  have "\<not> isl ?cx \<and> tr_status (cx_run (projr ?cx)) = RUN_CANCELLING \<and> tr_started_at (cx_run (projr ?cx)) \<noteq> None"
    by code_simp
  then obtain cx where cx: "?cx = Inr cx" "tr_status (cx_run cx) = RUN_CANCELLING" "tr_started_at (cx_run cx) \<noteq> None"
    by (cases ?cx) auto
  have "\<not> isl ?q \<and> ap_case ex_boundary (rq_body (projr ?q)) = Some (''msg_1'', 2)" by code_simp
  then obtain q where q: "?q = Inr q" "ap_case ex_boundary (rq_body q) = Some (''msg_1'', 2)" by (cases ?q) auto
  have run: "call reject (rc_start (system_client ?u) ''run_1'' ''msg_1'' 2) ?s = (fst ex_rejected, snd ex_rejected)"
    by (simp add: ex_rejected_def)
  show ?thesis
    using started_run_under_cancellation_is_rejected[OF refl _ _ cx(2,3) q(1) _ _ run] cx(1) q(2)
    by (simp add: ex_setup_def ex_reliable_def ex_consumer_def)
qed

end
