(* ===== verification/Runner_Snapshots.thy ===== *)
theory Runner_Snapshots
  imports Run_World
begin

text \<open>
  The environment report of a Runner, on both sides of the wire: \<open>collect_snapshot\<close> of
  \<open>runner/snapshot.py\<close> with \<open>normalize_tags\<close> of \<open>runner/config.py\<close>, which builds it, and
  \<open>RunnerSnapshotFields\<close> of the backend's \<open>runners/schemas.py\<close>, which accepts it.

  A report is a typed record; reading the JSON object (aliases of field names, unknown fields, types)
  is Pydantic's part. What the probes of the host return is the record \<open>probe\<close>; a probe that raises gives
  \<open>None\<close>, as \<open>_probe_call\<close> does. Texts have code points below 256, so the fixed reason of an
  unavailable capability is given in Latin letters.
\<close>

section \<open>Tags\<close>

text \<open>\<open>str.isalnum\<close> on code points below 256.\<close>

definition latin_alnum :: "char \<Rightarrow> bool" where
  "latin_alnum c \<longleftrightarrow>
     (let n = of_char c :: nat in
      (48 \<le> n \<and> n \<le> 57) \<or> (65 \<le> n \<and> n \<le> 90) \<or> (97 \<le> n \<and> n \<le> 122)
      \<or> n = 170 \<or> n = 178 \<or> n = 179 \<or> n = 181 \<or> n = 185 \<or> n = 186 \<or> (188 \<le> n \<and> n \<le> 190)
      \<or> (192 \<le> n \<and> n \<noteq> 215 \<and> n \<noteq> 247))"

definition tag_char :: "char \<Rightarrow> bool" where
  "tag_char c \<longleftrightarrow> latin_alnum c \<or> c \<in> set ''_.-''"

definition normalize_tag :: "string \<Rightarrow> string option" where
  "normalize_tag value =
     (let tag = map latin_lower_char (py_strip value) in
      if tag = [] \<or> 64 < length tag then None
      else if \<not> list_all tag_char tag then None
      else Some tag)"

primrec tags_loop :: "string list \<Rightarrow> string list \<Rightarrow> string list option" where
  "tags_loop normalized [] = Some normalized"
| "tags_loop normalized (v # vs) =
     (case normalize_tag v of
        None \<Rightarrow> None
      | Some tag \<Rightarrow> tags_loop (if tag \<in> set normalized then normalized else normalized @ [tag]) vs)"

definition normalize_tags :: "string list \<Rightarrow> string list option" where
  "normalize_tags values = tags_loop [] values"

section \<open>Reports and their schema\<close>

record capability_input =
  ci_name :: string
  ci_ready :: bool  \<comment> \<open>status READY; otherwise UNAVAILABLE\<close>
  ci_reason :: "string option"

record runner_snapshot =
  sp_name :: string
  sp_hostname :: string
  sp_ip_address :: "string option"
  sp_os :: "string option"
  sp_cpu :: "string option"
  sp_ram :: "string option"
  sp_disk :: "string option"
  sp_python :: "string option"
  sp_chrome :: "string option"
  sp_playwright :: "string option"
  sp_java :: "string option"
  sp_jmeter :: "string option"
  sp_tags :: "string list"
  sp_capabilities :: "capability_input list"
  sp_slots :: "runner_slot list"

definition capability_names :: "string list" where
  "capability_names = [''API'', ''WEB'', ''SQL'', ''SCRIPT'', ''SSE'', ''JMETER'']"

definition validate_capability :: "capability_input \<Rightarrow> capability_input option" where
  "validate_capability c =
     (let reason = Option.bind (ci_reason c) strip_or_none in
      if ci_name c \<notin> set capability_names
         \<or> (case ci_reason c of None \<Rightarrow> False | Some t \<Rightarrow> 256 < length t)
         \<or> (\<not> ci_ready c \<and> reason = None)
      then None else Some (c\<lparr>ci_reason := reason\<rparr>))"

definition validate_slot :: "runner_slot \<Rightarrow> runner_slot option" where
  "validate_slot s =
     (if 0 \<le> rs_total s \<and> rs_total s \<le> 10000 \<and> 0 \<le> rs_available s \<and> rs_available s \<le> 10000
         \<and> rs_available s \<le> rs_total s
      then Some s else None)"

definition required_name :: "nat \<Rightarrow> string \<Rightarrow> string option" where
  "required_name max_length value =
     (if value = [] \<or> max_length < length value then None else strip_or_none value)"

definition optional_info :: "nat \<Rightarrow> string option \<Rightarrow> string option option" where
  "optional_info max_length value =
     (case Option.bind value strip_or_none of
        None \<Rightarrow> Some None
      | Some t \<Rightarrow> if max_length < length t then None else Some (Some t))"

fun opt_map :: "('a \<Rightarrow> 'b option) \<Rightarrow> 'a list \<Rightarrow> 'b list option" where
  "opt_map f [] = Some []"
| "opt_map f (x # xs) = Option.bind (f x) (\<lambda>y. map_option (Cons y) (opt_map f xs))"

text \<open>\<open>RunnerSnapshotFields\<close>: \<open>None\<close> is the answer 422 before the handler is called.\<close>

definition validate_snapshot :: "runner_snapshot \<Rightarrow> runner_snapshot option" where
  "validate_snapshot p =
     (if 50 < length (sp_tags p) \<or> 20 < length (sp_capabilities p) \<or> 10 < length (sp_slots p) then None
      else
        Option.bind (required_name 128 (sp_name p)) (\<lambda>name.
        Option.bind (required_name 255 (sp_hostname p)) (\<lambda>hostname.
        Option.bind (optional_info 64 (sp_ip_address p)) (\<lambda>ip_address.
        Option.bind (optional_info 128 (sp_os p)) (\<lambda>os.
        Option.bind (optional_info 128 (sp_cpu p)) (\<lambda>cpu.
        Option.bind (optional_info 128 (sp_ram p)) (\<lambda>ram.
        Option.bind (optional_info 128 (sp_disk p)) (\<lambda>disk.
        Option.bind (optional_info 64 (sp_python p)) (\<lambda>python.
        Option.bind (optional_info 64 (sp_chrome p)) (\<lambda>chrome.
        Option.bind (optional_info 64 (sp_playwright p)) (\<lambda>playwright.
        Option.bind (optional_info 64 (sp_java p)) (\<lambda>java.
        Option.bind (optional_info 64 (sp_jmeter p)) (\<lambda>jmeter.
        Option.bind (normalize_tags (sp_tags p)) (\<lambda>tags.
        Option.bind (opt_map validate_capability (sp_capabilities p)) (\<lambda>capabilities.
        Option.bind (opt_map validate_slot (sp_slots p)) (\<lambda>slots.
        if \<not> distinct (map ci_name capabilities) \<or> \<not> distinct (map rs_slot_type slots) then None
        else Some \<lparr>sp_name = name, sp_hostname = hostname, sp_ip_address = ip_address, sp_os = os,
                   sp_cpu = cpu, sp_ram = ram, sp_disk = disk, sp_python = python, sp_chrome = chrome,
                   sp_playwright = playwright, sp_java = java, sp_jmeter = jmeter, sp_tags = tags,
                   sp_capabilities = capabilities, sp_slots = slots\<rparr>))))))))))))))))"

text \<open>What the columns, keys and check constraints of \<open>runners/models.py\<close> ask of a stored report.\<close>

definition text_fits :: "nat \<Rightarrow> string \<Rightarrow> bool" where
  "text_fits n s \<longleftrightarrow> s \<noteq> [] \<and> length s \<le> n \<and> py_strip s = s"

definition info_fits :: "nat \<Rightarrow> string option \<Rightarrow> bool" where
  "info_fits n v \<longleftrightarrow> (case v of None \<Rightarrow> True | Some s \<Rightarrow> text_fits n s)"

definition slot_fits :: "runner_slot \<Rightarrow> bool" where
  "slot_fits s \<longleftrightarrow> 0 \<le> rs_available s \<and> rs_available s \<le> rs_total s \<and> rs_total s \<le> 10000"

definition capability_fits :: "capability_input \<Rightarrow> bool" where
  "capability_fits c \<longleftrightarrow> ci_name c \<in> set capability_names \<and> info_fits 256 (ci_reason c)
     \<and> (ci_ready c \<or> ci_reason c \<noteq> None)"

definition tag_fits :: "string \<Rightarrow> bool" where
  "tag_fits t \<longleftrightarrow> t \<noteq> [] \<and> length t \<le> 64 \<and> list_all tag_char t \<and> map latin_lower_char t = t"

definition snapshot_fits :: "runner_snapshot \<Rightarrow> bool" where
  "snapshot_fits p \<longleftrightarrow>
     text_fits 128 (sp_name p) \<and> text_fits 255 (sp_hostname p) \<and> info_fits 64 (sp_ip_address p)
     \<and> info_fits 128 (sp_os p) \<and> info_fits 128 (sp_cpu p) \<and> info_fits 128 (sp_ram p) \<and> info_fits 128 (sp_disk p)
     \<and> info_fits 64 (sp_python p) \<and> info_fits 64 (sp_chrome p) \<and> info_fits 64 (sp_playwright p)
     \<and> info_fits 64 (sp_java p) \<and> info_fits 64 (sp_jmeter p)
     \<and> list_all tag_fits (sp_tags p) \<and> distinct (sp_tags p) \<and> length (sp_tags p) \<le> 50
     \<and> list_all capability_fits (sp_capabilities p) \<and> distinct (map ci_name (sp_capabilities p))
     \<and> length (sp_capabilities p) \<le> 20
     \<and> list_all slot_fits (sp_slots p) \<and> distinct (map rs_slot_type (sp_slots p)) \<and> length (sp_slots p) \<le> 10"

section \<open>Building a report\<close>

record probe =
  pb_web_ready :: bool
  pb_hostname :: "string option"
  pb_ip_address :: "string \<Rightarrow> string option"
  pb_os :: "string option"
  pb_cpu :: "string option"
  pb_ram :: "string option"
  pb_disk :: "string option"
  pb_python :: "string option"
  pb_chrome :: "string option"
  pb_chrome_cache :: "string option"  \<comment> \<open>the cached browser version, for the default probe only\<close>
  pb_playwright :: "string option"
  pb_java :: "string option"
  pb_jmeter :: "string option"

datatype snapshot_error = SnapshotValueError | SnapshotConfigurationError

definition bounded_text :: "nat \<Rightarrow> string \<Rightarrow> string option" where
  "bounded_text limit value = (let t = take limit (py_strip value) in if t = [] then None else Some t)"

definition bounded_info :: "nat \<Rightarrow> string option \<Rightarrow> string option" where
  "bounded_info limit value = Option.bind value (bounded_text limit)"

definition unavailable_capability_reason :: string where
  "unavailable_capability_reason = ''executor of this kind is not enabled''"

definition ready_capabilities :: "string list" where
  "ready_capabilities = [''API'', ''SQL'', ''SCRIPT'', ''SSE'']"

definition available_or_total :: "(string \<Rightarrow> int option) option \<Rightarrow> string \<Rightarrow> int \<Rightarrow> int" where
  "available_or_total available kind configured =
     (case available of None \<Rightarrow> configured | Some m \<Rightarrow> (case m kind of None \<Rightarrow> configured | Some n \<Rightarrow> n))"

text \<open>The report, once the arguments are checked.\<close>

definition snapshot_report ::
  "string \<Rightarrow> string list \<Rightarrow> int \<times> int \<Rightarrow> int \<times> int \<Rightarrow> int \<times> int \<Rightarrow> probe \<Rightarrow> runner_snapshot" where
  "snapshot_report name tags api web performance pb =
     (let hostname = (case bounded_text 255 (case pb_hostname pb of None \<Rightarrow> ''unknown-host'' | Some h \<Rightarrow> h) of
                        None \<Rightarrow> ''unknown-host'' | Some h \<Rightarrow> h);
          chrome_value = (if pb_chrome pb = None \<and> pb_web_ready pb then pb_chrome_cache pb else pb_chrome pb);
          jmeter = bounded_info 64 (pb_jmeter pb);
          ready = ready_capabilities @ (if pb_web_ready pb then [''WEB''] else [])
                    @ (if jmeter \<noteq> None then [''JMETER''] else [])
      in \<lparr>sp_name = name, sp_hostname = hostname,
          sp_ip_address = bounded_info 64 (pb_ip_address pb hostname),
          sp_os = bounded_info 128 (pb_os pb), sp_cpu = bounded_info 128 (pb_cpu pb),
          sp_ram = bounded_info 128 (pb_ram pb), sp_disk = bounded_info 128 (pb_disk pb),
          sp_python = bounded_info 64 (pb_python pb), sp_chrome = bounded_info 64 chrome_value,
          sp_playwright = bounded_info 64 (pb_playwright pb), sp_java = bounded_info 64 (pb_java pb),
          sp_jmeter = jmeter, sp_tags = tags,
          sp_capabilities = map (\<lambda>c. \<lparr>ci_name = c, ci_ready = c \<in> set ready,
              ci_reason = (if c \<in> set ready then None
                           else bounded_text 256 unavailable_capability_reason)\<rparr>) capability_names,
          sp_slots =
            [\<lparr>rs_slot_type = SLOT_API, rs_total = fst api, rs_available = snd api\<rparr>,
             \<lparr>rs_slot_type = SLOT_WEB, rs_total = fst web, rs_available = (if pb_web_ready pb then snd web else 0)\<rparr>,
             \<lparr>rs_slot_type = SLOT_PERFORMANCE, rs_total = fst performance, rs_available = snd performance\<rparr>]\<rparr>)"

definition slots_in_range :: "int \<times> int \<Rightarrow> bool" where
  "slots_in_range s \<longleftrightarrow> 0 \<le> snd s \<and> snd s \<le> fst s"

definition collect_snapshot ::
  "string \<Rightarrow> string list \<Rightarrow> int \<Rightarrow> int \<Rightarrow> int \<Rightarrow> (string \<Rightarrow> int option) option \<Rightarrow> probe
     \<Rightarrow> snapshot_error + runner_snapshot" where
  "collect_snapshot name tags api_slots web_slots performance_slots available_slots pb =
     (let api = (api_slots, available_or_total available_slots ''API'' api_slots);
          web = (web_slots, available_or_total available_slots ''WEB'' web_slots);
          performance = (performance_slots, available_or_total available_slots ''PERFORMANCE'' performance_slots)
      in if py_strip name = [] then Inl SnapshotValueError
         else if \<not> list_all (\<lambda>n. 0 \<le> n \<and> n \<le> 10000) [api_slots, web_slots, performance_slots]
         then Inl SnapshotValueError
         else if \<not> list_all slots_in_range [api, web, performance] then Inl SnapshotValueError
         else
           (case normalize_tags tags of
              None \<Rightarrow> Inl SnapshotConfigurationError
            | Some normalized \<Rightarrow>
                Inr (snapshot_report (take 128 (py_strip name)) normalized api web performance pb)))"

section \<open>Texts\<close>

lemma py_strip_Nil [simp]: "py_strip [] = []"
  by (simp add: py_strip_def)

lemma last_dropWhile: "dropWhile P s \<noteq> [] \<Longrightarrow> last (dropWhile P s) = last s"
  by (induction s) (auto split: if_splits)

lemma py_strip_ends:
  assumes "py_strip s \<noteq> []"
  shows "\<not> py_space (hd (py_strip s))" "\<not> py_space (last (py_strip s))"
proof -
  let ?l = "dropWhile py_space s"
  have r: "dropWhile py_space (rev ?l) \<noteq> []" using assms by (simp add: py_strip_def)
  have "?l \<noteq> []"
  proof
    assume "?l = []"
    with r show False by simp
  qed
  have "\<not> py_space (hd (dropWhile py_space (rev ?l)))" using hd_dropWhile r by blast
  then show "\<not> py_space (last (py_strip s))" using r by (simp add: py_strip_def last_rev)
  have "hd (py_strip s) = hd ?l"
    using last_dropWhile[OF r] r \<open>?l \<noteq> []\<close> by (simp add: py_strip_def hd_rev last_rev)
  then show "\<not> py_space (hd (py_strip s))" using hd_dropWhile \<open>?l \<noteq> []\<close> by metis
qed

lemma py_strip_idem [simp]: "py_strip (py_strip s) = py_strip s"
  by (cases "py_strip s = []") (simp_all add: py_strip_id py_strip_ends)

lemma py_strip_length: "length (py_strip s) \<le> length s"
  by (metis py_strip_def length_rev length_dropWhile_le order_trans)

lemma strip_nonspace_hd:
  assumes "s \<noteq> []" "\<not> py_space (hd s)"
  shows "py_strip s \<noteq> []"
proof -
  have "\<exists>x \<in> set (rev s). \<not> py_space x" using assms by (cases s) auto
  then have "dropWhile py_space (rev s) \<noteq> []" by (simp add: dropWhile_eq_Nil_conv)
  moreover have "dropWhile py_space s = s" using assms by (cases s) auto
  ultimately show ?thesis by (simp add: py_strip_def)
qed

lemma take_strip_accepted:
  assumes "take n (py_strip s) \<noteq> []"
  shows "py_strip (take n (py_strip s)) \<noteq> []"
  using assms py_strip_ends(1)[of s] by (intro strip_nonspace_hd) (auto simp: hd_take)

lemma tag_char_not_space: "tag_char c \<Longrightarrow> \<not> py_space c"
  by (auto simp: tag_char_def latin_alnum_def py_space_def Let_def)

lemma latin_lower_idem [simp]: "latin_lower_char (latin_lower_char c) = latin_lower_char c"
proof -
  have "of_char c < (256 :: nat)" by simp
  then show ?thesis by (auto simp: latin_lower_char_def Let_def)
qed

section \<open>Normal forms\<close>

lemma strip_or_none_normal:
  "strip_or_none s = Some t \<Longrightarrow> t \<noteq> [] \<and> py_strip t = t \<and> length t \<le> length s"
  by (auto simp: strip_or_none_def Let_def py_strip_length split: if_splits)

lemma strip_or_none_fits: "text_fits n s \<Longrightarrow> strip_or_none s = Some s"
  by (simp add: text_fits_def strip_or_none_def)

lemma required_name_normal: "required_name n s = Some t \<Longrightarrow> text_fits n t"
  by (fastforce simp: required_name_def text_fits_def dest: strip_or_none_normal split: if_splits)

lemma required_name_fits: "text_fits n s \<Longrightarrow> required_name n s = Some s"
  by (simp add: required_name_def strip_or_none_fits) (simp add: text_fits_def)

lemma optional_info_normal: "optional_info n v = Some w \<Longrightarrow> info_fits n w"
  by (auto simp: optional_info_def info_fits_def text_fits_def bind_eq_Some_conv
      dest: strip_or_none_normal split: option.splits if_splits)

lemma optional_info_fits: "info_fits n v \<Longrightarrow> optional_info n v = Some v"
  by (auto simp: optional_info_def info_fits_def strip_or_none_fits text_fits_def strip_or_none_def
      split: option.splits)

lemma validate_capability_normal:
  "validate_capability c = Some d \<Longrightarrow> capability_fits d \<and> ci_name d = ci_name c \<and> ci_ready d = ci_ready c"
proof (cases "ci_reason c")
  case (Some t)
  assume "validate_capability c = Some d"
  with Some show ?thesis
    using strip_or_none_normal[of t]
    by (cases "strip_or_none t")
       (auto simp: validate_capability_def capability_fits_def info_fits_def text_fits_def Let_def split: if_splits)
qed (auto simp: validate_capability_def capability_fits_def info_fits_def Let_def split: if_splits)

lemma validate_capability_fits: "capability_fits c \<Longrightarrow> validate_capability c = Some c"
  by (cases "ci_reason c")
     (auto simp: validate_capability_def capability_fits_def info_fits_def strip_or_none_fits text_fits_def Let_def)

lemma validate_slot_iff: "validate_slot s = Some t \<longleftrightarrow> t = s \<and> slot_fits s"
  by (auto simp: validate_slot_def slot_fits_def)

lemma opt_map_iff: "opt_map f xs = Some ys \<longleftrightarrow> list_all2 (\<lambda>x y. f x = Some y) xs ys"
  by (induction xs arbitrary: ys) (auto simp: bind_eq_Some_conv list_all2_Cons1)

lemma opt_map_normal:
  assumes "opt_map f xs = Some ys" and "\<And>x y. f x = Some y \<Longrightarrow> P y"
  shows "list_all P ys \<and> length ys = length xs"
  using assms by (auto simp: opt_map_iff list_all_length list_all2_conv_all_nth)

lemma opt_map_same: "list_all P xs \<Longrightarrow> (\<And>x. P x \<Longrightarrow> f x = Some x) \<Longrightarrow> opt_map f xs = Some xs"
  by (auto simp: opt_map_iff list_all2_conv_all_nth list_all_length)

lemma normalize_tag_normal: "normalize_tag v = Some t \<Longrightarrow> tag_fits t"
  by (auto simp: normalize_tag_def tag_fits_def Let_def comp_def split: if_splits)

lemma normalize_tag_fits: "tag_fits t \<Longrightarrow> normalize_tag t = Some t"
proof -
  assume fits: "tag_fits t"
  then have "\<not> py_space (hd t)" "\<not> py_space (last t)"
    by (auto simp: tag_fits_def list_all_iff intro!: tag_char_not_space)
  with fits have "py_strip t = t" by (intro py_strip_id) (auto simp: tag_fits_def)
  with fits show ?thesis by (simp add: normalize_tag_def tag_fits_def)
qed

lemma tags_loop_normal:
  assumes "tags_loop acc vs = Some ts" and "list_all tag_fits acc" and "distinct acc"
  shows "list_all tag_fits ts \<and> distinct ts \<and> length ts \<le> length acc + length vs"
  using assms
proof (induction vs arbitrary: acc)
  case (Cons v vs)
  then obtain t where t: "normalize_tag v = Some t"
    and rest: "tags_loop (if t \<in> set acc then acc else acc @ [t]) vs = Some ts"
    by (auto split: option.splits)
  show ?case
    using Cons.IH[OF rest] Cons.prems(2,3) normalize_tag_normal[OF t] by (cases "t \<in> set acc") auto
qed simp

lemma tags_loop_fits:
  "list_all tag_fits ts \<Longrightarrow> distinct (acc @ ts) \<Longrightarrow> tags_loop acc ts = Some (acc @ ts)"
  by (induction ts arbitrary: acc) (auto simp: normalize_tag_fits)

lemmas normalize_tags_normal = tags_loop_normal[of "[]", folded normalize_tags_def, simplified]
lemmas normalize_tags_fits = tags_loop_fits[of _ "[]", folded normalize_tags_def, simplified]

lemma validate_snapshot_normal:
  assumes "validate_snapshot p = Some q"
  shows "snapshot_fits q"
  using assms
    opt_map_normal[of validate_capability "sp_capabilities p" _ capability_fits] validate_capability_normal
    opt_map_normal[of validate_slot "sp_slots p" _ slot_fits] validate_slot_iff
    normalize_tags_normal[of "sp_tags p"]
  by (fastforce simp: validate_snapshot_def snapshot_fits_def bind_eq_Some_conv
      dest: required_name_normal optional_info_normal split: if_splits)

lemma validate_snapshot_fits:
  assumes "snapshot_fits p"
  shows "validate_snapshot p = Some p"
proof -
  have "opt_map validate_capability (sp_capabilities p) = Some (sp_capabilities p)"
    using assms by (intro opt_map_same[of capability_fits]) (auto simp: snapshot_fits_def validate_capability_fits)
  moreover have "opt_map validate_slot (sp_slots p) = Some (sp_slots p)"
    using assms by (intro opt_map_same[of slot_fits]) (auto simp: snapshot_fits_def validate_slot_iff)
  ultimately show ?thesis
    using assms
    by (simp add: validate_snapshot_def snapshot_fits_def required_name_fits optional_info_fits normalize_tags_fits)
qed

section \<open>A collected report is accepted\<close>

definition trim_snapshot :: "runner_snapshot \<Rightarrow> runner_snapshot" where
  "trim_snapshot p =
     p\<lparr>sp_name := py_strip (sp_name p), sp_hostname := py_strip (sp_hostname p),
       sp_ip_address := map_option py_strip (sp_ip_address p), sp_os := map_option py_strip (sp_os p),
       sp_cpu := map_option py_strip (sp_cpu p), sp_ram := map_option py_strip (sp_ram p),
       sp_disk := map_option py_strip (sp_disk p), sp_python := map_option py_strip (sp_python p),
       sp_chrome := map_option py_strip (sp_chrome p), sp_playwright := map_option py_strip (sp_playwright p),
       sp_java := map_option py_strip (sp_java p), sp_jmeter := map_option py_strip (sp_jmeter p)\<rparr>"

lemma bounded_text_Some:
  assumes "bounded_text n s = Some t"
  shows "t \<noteq> [] \<and> length t \<le> n \<and> strip_or_none t = Some (py_strip t)"
  using assms take_strip_accepted[of n s]
  by (auto simp: bounded_text_def strip_or_none_def Let_def split: if_splits)

lemma optional_info_bounded: "optional_info n (bounded_info n v) = Some (map_option py_strip (bounded_info n v))"
  using py_strip_length order_trans
  by (cases v; cases "bounded_text n (the v)")
     (fastforce simp: optional_info_def bounded_info_def dest: bounded_text_Some)+

lemma required_name_bounded: "bounded_text n s = Some t \<Longrightarrow> required_name n t = Some (py_strip t)"
  by (auto simp: required_name_def dest: bounded_text_Some)

lemma hostname_accepted:
  "required_name 255 (case bounded_text 255 h of None \<Rightarrow> ''unknown-host'' | Some x \<Rightarrow> x)
     = Some (py_strip (case bounded_text 255 h of None \<Rightarrow> ''unknown-host'' | Some x \<Rightarrow> x))"
  by (cases "bounded_text 255 h")
     (simp_all add: required_name_bounded,
      simp add: required_name_def strip_or_none_def py_strip_def py_space_code)

lemma unavailable_reason: "bounded_text 256 unavailable_capability_reason = Some unavailable_capability_reason"
  "strip_or_none unavailable_capability_reason = Some unavailable_capability_reason"
  by (simp_all add: bounded_text_def unavailable_capability_reason_def strip_or_none_def py_strip_def py_space_code)

lemma unavailable_reason_fits: "text_fits 256 unavailable_capability_reason"
  using strip_or_none_normal[OF unavailable_reason(2)] by (simp add: text_fits_def unavailable_capability_reason_def)

lemma collect_snapshotD:
  assumes "collect_snapshot name tags api_slots web_slots performance_slots available pb = Inr s"
  shows "\<exists>normalized api web performance.
     normalize_tags tags = Some normalized \<and> py_strip name \<noteq> []
     \<and> list_all (\<lambda>n. slots_in_range n \<and> fst n \<le> 10000) [api, web, performance]
     \<and> s = snapshot_report (take 128 (py_strip name)) normalized api web performance pb"
  using assms unfolding collect_snapshot_def Let_def
  by (simp split: if_splits option.splits) (metis fst_conv snd_conv)

lemma report_texts_accepted:
  assumes "r = snapshot_report n ts a w p pb"
  shows "required_name 255 (sp_hostname r) = Some (py_strip (sp_hostname r))"
    and "optional_info 64 (sp_ip_address r) = Some (map_option py_strip (sp_ip_address r))"
    and "optional_info 128 (sp_os r) = Some (map_option py_strip (sp_os r))"
    and "optional_info 128 (sp_cpu r) = Some (map_option py_strip (sp_cpu r))"
    and "optional_info 128 (sp_ram r) = Some (map_option py_strip (sp_ram r))"
    and "optional_info 128 (sp_disk r) = Some (map_option py_strip (sp_disk r))"
    and "optional_info 64 (sp_python r) = Some (map_option py_strip (sp_python r))"
    and "optional_info 64 (sp_chrome r) = Some (map_option py_strip (sp_chrome r))"
    and "optional_info 64 (sp_playwright r) = Some (map_option py_strip (sp_playwright r))"
    and "optional_info 64 (sp_java r) = Some (map_option py_strip (sp_java r))"
    and "optional_info 64 (sp_jmeter r) = Some (map_option py_strip (sp_jmeter r))"
  by (simp_all only: assms snapshot_report_def Let_def runner_snapshot.select_convs optional_info_bounded hostname_accepted)

lemma report_fields:
  assumes "r = snapshot_report n ts a w p pb"
  shows "sp_name r = n" "sp_tags r = ts" "map ci_name (sp_capabilities r) = capability_names"
    "map rs_slot_type (sp_slots r) = [SLOT_API, SLOT_WEB, SLOT_PERFORMANCE]"
    "length (sp_capabilities r) = 6" "length (sp_slots r) = 3"
  by (simp_all add: assms snapshot_report_def Let_def comp_def capability_names_def)

lemma report_capabilities_fit: "list_all capability_fits (sp_capabilities (snapshot_report n ts a w p pb))"
  using unavailable_reason_fits
  by (simp add: snapshot_report_def Let_def list_all_iff capability_fits_def info_fits_def unavailable_reason)

lemma report_slots_fit:
  "list_all (\<lambda>n. slots_in_range n \<and> fst n \<le> 10000) [a, w, p] \<Longrightarrow> list_all slot_fits (sp_slots (snapshot_report n ts a w p pb))"
  by (auto simp: snapshot_report_def Let_def slot_fits_def slots_in_range_def)

text \<open>
  C14. The report \<open>collect_snapshot\<close> of the Runner builds, on whatever the probes of the host return, is
  accepted by the schema of the backend exactly when it has at most 50 tags, and is then stored as it was
  reported, but for white space that cutting a text to its limit left at its end.
\<close>

theorem collected_snapshot_is_accepted:
  assumes "collect_snapshot name tags api_slots web_slots performance_slots available pb = Inr s"
  shows "validate_snapshot s = (if length (sp_tags s) \<le> 50 then Some (trim_snapshot s) else None)"
proof -
  from collect_snapshotD[OF assms] obtain ts a w p
    where ts: "normalize_tags tags = Some ts" and name: "py_strip name \<noteq> []"
      and range: "list_all (\<lambda>n. slots_in_range n \<and> fst n \<le> 10000) [a, w, p]"
      and s: "s = snapshot_report (take 128 (py_strip name)) ts a w p pb" by blast
  have nm: "required_name 128 (take 128 (py_strip name)) = Some (py_strip (take 128 (py_strip name)))"
    using name by (intro required_name_bounded[of _ name]) (simp add: bounded_text_def)
  have tags: "normalize_tags ts = Some ts"
    using normalize_tags_normal[OF ts] by (simp add: normalize_tags_fits)
  have caps: "opt_map validate_capability (sp_capabilities s) = Some (sp_capabilities s)"
    unfolding s by (rule opt_map_same[OF report_capabilities_fit]) (simp add: validate_capability_fits)
  have slots: "opt_map validate_slot (sp_slots s) = Some (sp_slots s)"
    unfolding s by (rule opt_map_same[OF report_slots_fit[OF range]]) (simp add: validate_slot_iff)
  show ?thesis
    using nm tags caps slots
    by (simp add: validate_snapshot_def report_texts_accepted[OF s] report_fields[OF s])
       (simp add: trim_snapshot_def capability_names_def report_fields[OF s])
qed

definition ex_probe :: probe where
  "ex_probe = \<lparr>pb_web_ready = True, pb_hostname = Some ''lab-7'', pb_ip_address = (\<lambda>h. Some ''10.0.0.7''), pb_os = Some ''Linux 6'',
     pb_cpu = None, pb_ram = None, pb_disk = None, pb_python = Some ''3.12.1'', pb_chrome = None,
     pb_chrome_cache = Some ''Google Chrome 131'', pb_playwright = Some ''1.49'', pb_java = None, pb_jmeter = None\<rparr>"

definition ex_tags :: "nat \<Rightarrow> string list" where
  "ex_tags n = map (\<lambda>i. replicate (Suc i) (CHR ''a'')) [0..<n]"

lemma ex_tags_normal:
  assumes "n \<le> 64"
  shows "normalize_tags (ex_tags n) = Some (ex_tags n)"
proof (rule normalize_tags_fits)
  show "list_all tag_fits (ex_tags n)"
    using assms by (auto simp: ex_tags_def list_all_iff tag_fits_def tag_char_def latin_alnum_def latin_lower_char_def)
  show "distinct (ex_tags n)"
    unfolding ex_tags_def distinct_map by (auto intro!: inj_onI dest: arg_cong[of _ _ length])
qed

lemma collect_ex_tags:
  assumes "n \<le> 64"
  shows "\<exists>s. collect_snapshot ''lab'' (ex_tags n) 2 1 0 None ex_probe = Inr s \<and> sp_tags s = ex_tags n"
  using assms
  by (simp add: collect_snapshot_def ex_tags_normal available_or_total_def slots_in_range_def py_strip_def py_space_code
      report_fields(2)[OF refl])

theorem collected_snapshot_is_accepted_witness:
  "(\<exists>s. collect_snapshot ''lab'' (ex_tags 50) 2 1 0 None ex_probe = Inr s \<and> validate_snapshot s = Some (trim_snapshot s))
   \<and> (\<exists>s. collect_snapshot ''lab'' (ex_tags 51) 2 1 0 None ex_probe = Inr s \<and> validate_snapshot s = None)"
proof -
  obtain s1 where 1: "collect_snapshot ''lab'' (ex_tags 50) 2 1 0 None ex_probe = Inr s1" "sp_tags s1 = ex_tags 50"
    using collect_ex_tags[of 50] by auto
  obtain s2 where 2: "collect_snapshot ''lab'' (ex_tags 51) 2 1 0 None ex_probe = Inr s2" "sp_tags s2 = ex_tags 51"
    using collect_ex_tags[of 51] by auto
  show ?thesis
    using 1 2 collected_snapshot_is_accepted[OF 1(1)] collected_snapshot_is_accepted[OF 2(1)]
    by (auto simp: ex_tags_def)
qed

end
