(* ===== verification/Runners.thy ===== *)
theory Runners
  imports Runner_Snapshots "HOL-Library.List_Lexorder" "HOL-Library.Product_Lexorder"
begin

text \<open>
  \<open>runners/service.py\<close> with \<open>models.py\<close>: registration tokens, the registration of Runners, their
  heartbeats and revocation, and the heartbeat store of \<open>infrastructure/redis/client.py\<close>.

  \<open>ne_digest\<close> is the keyed hash of \<open>security.py\<close>; generated secrets and identifiers are arguments. A
  heartbeat is committed before Redis is written, so an operation returns the tables together with an
  error. Redis holds for each Runner the time its key expires; the column \<open>updated_at\<close>, which no code
  reads, is left out.
\<close>

section \<open>Rows\<close>

datatype registration_token_status = TOKEN_ACTIVE | TOKEN_CONSUMED | TOKEN_REVOKED | TOKEN_EXPIRED

record registration_token =
  rt_id :: int
  rt_digest :: string
  rt_status :: registration_token_status
  rt_expires_at :: datetime
  rt_consumed_at :: "datetime option"
  rt_revoked_at :: "datetime option"
  rt_consumed_runner_id :: "string option"
  rt_created_by :: string
  rt_created_at :: datetime

text \<open>The columns of \<open>runners\<close> the Run services read are \<open>runner_row\<close>; the others are added here.\<close>

record runner = runner_row +
  rf_system :: runner_snapshot  \<comment> \<open>name, host and versions as last reported\<close>
  rf_heartbeat_interval_seconds :: int
  rf_revoked_at :: "datetime option"
  rf_created_at :: datetime

record runner_db =
  rd_tokens :: "registration_token list"
  rd_next_token_id :: int
  rd_runners :: "runner list"
  rd_heartbeats :: "string \<Rightarrow> datetime option"

record runner_env =
  ne_now :: datetime
  ne_digest :: "string \<Rightarrow> string"
  ne_redis_ok :: bool
  ne_token_ttl_seconds :: int
  ne_heartbeat_interval_seconds :: int
  ne_heartbeat_ttl_seconds :: int

type_synonym 'r runner_result = "(app_error + 'r) \<times> runner_db"

definition require_admin :: "current_user \<Rightarrow> app_error + unit" where
  "require_admin user =
     (if is_admin user then Inr () else Inl (AuthorizationError ''only administrators manage runners''))"

definition refused :: "app_error \<Rightarrow> runner_db \<Rightarrow> 'r runner_result" where
  "refused err db = (Inl err, db)"

section \<open>Registration tokens\<close>

definition token_status :: "datetime \<Rightarrow> registration_token \<Rightarrow> registration_token_status" where
  "token_status now t =
     (if rt_status t = TOKEN_ACTIVE \<and> rt_expires_at t \<le> now then TOKEN_EXPIRED else rt_status t)"

record token_metadata_response =
  tk_id :: int
  tk_status :: registration_token_status
  tk_expires_at :: datetime
  tk_consumed_at :: "datetime option"
  tk_revoked_at :: "datetime option"
  tk_consumed_runner_id :: "string option"
  tk_created_by :: string
  tk_created_at :: datetime

definition token_metadata :: "datetime \<Rightarrow> registration_token \<Rightarrow> token_metadata_response" where
  "token_metadata now t =
     \<lparr>tk_id = rt_id t, tk_status = token_status now t, tk_expires_at = rt_expires_at t,
      tk_consumed_at = rt_consumed_at t, tk_revoked_at = rt_revoked_at t,
      tk_consumed_runner_id = rt_consumed_runner_id t, tk_created_by = rt_created_by t,
      tk_created_at = rt_created_at t\<rparr>"

definition get_token :: "runner_db \<Rightarrow> int \<Rightarrow> registration_token option" where
  "get_token db i = get_row rt_id (rd_tokens db) i"

definition put_token :: "runner_db \<Rightarrow> registration_token \<Rightarrow> runner_db" where
  "put_token db t = db\<lparr>rd_tokens := put_row rt_id t (rd_tokens db)\<rparr>"

definition create_registration_token ::
  "runner_env \<Rightarrow> runner_db \<Rightarrow> current_user \<Rightarrow> int option \<Rightarrow> string \<Rightarrow> (int \<times> string \<times> datetime) runner_result" where
  "create_registration_token e db user expires_in_seconds plaintext =
     (case require_admin user of
        Inl err \<Rightarrow> refused err db
      | Inr _ \<Rightarrow>
          (let expires_in = (case expires_in_seconds of None \<Rightarrow> ne_token_ttl_seconds e | Some s \<Rightarrow> s);
               t = \<lparr>rt_id = rd_next_token_id db, rt_digest = ne_digest e plaintext, rt_status = TOKEN_ACTIVE,
                    rt_expires_at = ne_now e + seconds expires_in, rt_consumed_at = None, rt_revoked_at = None,
                    rt_consumed_runner_id = None, rt_created_by = cu_id user, rt_created_at = ne_now e\<rparr>
           in if rt_digest t \<in> rt_digest ` set (rd_tokens db)
              then refused (ResourceConflictError ''registration token'') db
              else (Inr (rt_id t, plaintext, rt_expires_at t),
                    db\<lparr>rd_tokens := rd_tokens db @ [t], rd_next_token_id := rd_next_token_id db + 1\<rparr>)))"

text \<open>\<open>RegistrationTokenCreateRequest\<close>\<close>

definition token_request_ok :: "int option \<Rightarrow> bool" where
  "token_request_ok expires_in_seconds \<longleftrightarrow>
     (case expires_in_seconds of None \<Rightarrow> True | Some s \<Rightarrow> 60 \<le> s \<and> s \<le> 3600)"

definition list_registration_tokens ::
  "runner_env \<Rightarrow> runner_db \<Rightarrow> current_user \<Rightarrow> app_error + token_metadata_response list \<times> nat" where
  "list_registration_tokens e db user =
     res_bind (require_admin user) (\<lambda>_.
       let tokens = rev (sort_key (\<lambda>t. (rt_created_at t, rt_id t)) (rd_tokens db))
       in Inr (map (token_metadata (ne_now e)) tokens, length tokens))"

definition revoke_registration_token ::
  "runner_env \<Rightarrow> runner_db \<Rightarrow> current_user \<Rightarrow> int \<Rightarrow> token_metadata_response runner_result" where
  "revoke_registration_token e db user token_id =
     (case require_admin user of
        Inl err \<Rightarrow> refused err db
      | Inr _ \<Rightarrow>
          (case get_token db token_id of
             None \<Rightarrow> refused (ResourceNotFoundError ''registration token'') db
           | Some t \<Rightarrow>
               if rt_status t = TOKEN_CONSUMED
               then refused (ResourceConflictError ''a consumed token cannot be revoked'') db
               else if rt_status t = TOKEN_REVOKED then (Inr (token_metadata (ne_now e) t), db)
               else
                 (let t' = t\<lparr>rt_status := TOKEN_REVOKED, rt_revoked_at := Some (ne_now e)\<rparr>
                  in (Inr (token_metadata (ne_now e) t'), put_token db t'))))"

section \<open>Registration\<close>

definition get_runner_row :: "runner_db \<Rightarrow> string \<Rightarrow> runner option" where
  "get_runner_row db i = get_row rn_id (rd_runners db) i"

definition put_runner_row :: "runner_db \<Rightarrow> runner \<Rightarrow> runner_db" where
  "put_runner_row db r = db\<lparr>rd_runners := put_row rn_id r (rd_runners db)\<rparr>"

definition apply_snapshot :: "runner_snapshot \<Rightarrow> runner \<Rightarrow> runner" where
  "apply_snapshot p r =
     r\<lparr>rn_chrome_version := sp_chrome p, rn_tags := sp_tags p,
       rn_capabilities := map (\<lambda>c. \<lparr>rc_capability = ci_name c, rc_ready = ci_ready c\<rparr>) (sp_capabilities p),
       rn_slots := sp_slots p, rf_system := p\<rparr>"

definition new_runner :: "runner_env \<Rightarrow> string \<Rightarrow> string \<Rightarrow> runner_snapshot \<Rightarrow> runner" where
  "new_runner e runner_id credential payload =
     apply_snapshot payload
       \<lparr>rn_id = runner_id, rn_status = RUNNER_ACTIVE, rn_credential_digest = ne_digest e credential,
        rn_chrome_version = None, rn_last_heartbeat_at = None, rn_tags = [], rn_capabilities = [], rn_slots = [],
        rf_system = payload, rf_heartbeat_interval_seconds = ne_heartbeat_interval_seconds e,
        rf_revoked_at = None, rf_created_at = ne_now e\<rparr>"

text \<open>
  The guarded update that consumes the token comes after the new Runner row; when it does not match, the
  whole transaction is rolled back. A generated id or credential that is already taken fails in
  the flush, outside any handler.
\<close>

definition register_runner ::
  "runner_env \<Rightarrow> runner_db \<Rightarrow> string \<Rightarrow> runner_snapshot \<Rightarrow> string \<Rightarrow> string \<Rightarrow> (string \<times> string \<times> int) runner_result" where
  "register_runner e db token payload runner_id credential =
     (let bad = AuthenticationError ''registration token invalid or expired''; now = ne_now e in
      if \<not> (16 \<le> length token \<and> length token \<le> 512) then refused bad db
      else
        (case find (\<lambda>t. rt_digest t = ne_digest e token) (rd_tokens db) of
           None \<Rightarrow> refused bad db
         | Some t \<Rightarrow>
             (let r = new_runner e runner_id credential payload;
                  t' = t\<lparr>rt_status := TOKEN_CONSUMED, rt_consumed_at := Some now,
                         rt_consumed_runner_id := Some runner_id\<rparr>
              in if runner_id \<in> rn_id ` set (rd_runners db)
                    \<or> ne_digest e credential \<in> rn_credential_digest ` set (rd_runners db)
                 then refused (InternalError ''IntegrityError'') db
                 else if rt_status t = TOKEN_ACTIVE \<and> now < rt_expires_at t
                 then (Inr (runner_id, credential, rf_heartbeat_interval_seconds r),
                       (put_token db t')\<lparr>rd_runners := rd_runners db @ [r]\<rparr>)
                 else refused bad db)))"

section \<open>Heartbeats\<close>

definition set_heartbeat :: "runner_env \<Rightarrow> string \<Rightarrow> int \<Rightarrow> runner_db \<Rightarrow> runner_db" where
  "set_heartbeat e runner_id ttl db =
     db\<lparr>rd_heartbeats := (rd_heartbeats db)(runner_id := Some (ne_now e + seconds ttl))\<rparr>"

definition get_heartbeat :: "bool \<Rightarrow> datetime \<Rightarrow> runner_db \<Rightarrow> string \<Rightarrow> heartbeat_lookup" where
  "get_heartbeat redis_ok now db runner_id =
     (if \<not> redis_ok then HeartbeatUnavailable
      else case rd_heartbeats db runner_id of
             Some t \<Rightarrow> if now < t then HeartbeatPresent else HeartbeatMissing
           | None \<Rightarrow> HeartbeatMissing)"

definition delete_heartbeat :: "string \<Rightarrow> runner_db \<Rightarrow> runner_db" where
  "delete_heartbeat runner_id db = db\<lparr>rd_heartbeats := (rd_heartbeats db)(runner_id := None)\<rparr>"

text \<open>\<open>_online_state\<close> of a row of this table; \<open>online_state\<close> of the Run services is the same reading.\<close>

definition runner_online_state :: "runner_env \<Rightarrow> runner_db \<Rightarrow> runner \<Rightarrow> online_status \<times> bool \<times> bool" where
  "runner_online_state e db r =
     (case get_heartbeat (ne_redis_ok e) (ne_now e) db (rn_id r) of
        HeartbeatUnavailable \<Rightarrow> (ONLINE_UNKNOWN, False, False)
      | hb \<Rightarrow>
          if rn_status r \<noteq> RUNNER_ACTIVE then (OFFLINE, False, True)
          else if hb = HeartbeatMissing then (OFFLINE, False, True)
          else (ONLINE, True, True))"

record runner_response =
  rp_id :: string
  rp_system :: runner_snapshot  \<comment> \<open>name, host, versions; tags, capabilities and slots sorted\<close>
  rp_status :: runner_status
  rp_online :: bool
  rp_online_status :: online_status
  rp_redis_available :: bool
  rp_heartbeat_interval_seconds :: int
  rp_last_heartbeat_at :: "datetime option"
  rp_revoked_at :: "datetime option"
  rp_created_at :: datetime

definition runner_response_of :: "runner_env \<Rightarrow> runner_db \<Rightarrow> runner \<Rightarrow> runner_response" where
  "runner_response_of e db r =
     (case runner_online_state e db r of
        (status, online, redis_available) \<Rightarrow>
          \<lparr>rp_id = rn_id r,
           rp_system = (rf_system r)\<lparr>sp_tags := sort (rn_tags r),
             sp_capabilities := sort_key ci_name (sp_capabilities (rf_system r)),
             sp_slots := sort_key (\<lambda>s. slot_type_value (rs_slot_type s)) (rn_slots r)\<rparr>,
           rp_status = rn_status r, rp_online = online, rp_online_status = status,
           rp_redis_available = redis_available, rp_heartbeat_interval_seconds = rf_heartbeat_interval_seconds r,
           rp_last_heartbeat_at = rn_last_heartbeat_at r, rp_revoked_at = rf_revoked_at r,
           rp_created_at = rf_created_at r\<rparr>)"

definition list_runners :: "runner_env \<Rightarrow> runner_db \<Rightarrow> current_user \<Rightarrow> app_error + runner_response list \<times> nat" where
  "list_runners e db user =
     res_bind (require_admin user) (\<lambda>_.
       let runners = rev (sort_key (\<lambda>r. (rf_created_at r, rn_id r)) (rd_runners db))
       in Inr (map (runner_response_of e db) runners, length runners))"

definition get_runner_detail :: "runner_env \<Rightarrow> runner_db \<Rightarrow> current_user \<Rightarrow> string \<Rightarrow> app_error + runner_response" where
  "get_runner_detail e db user runner_id =
     res_bind (require_admin user) (\<lambda>_.
     res_bind (option_to_res (ResourceNotFoundError ''runner'') (get_runner_row db runner_id)) (\<lambda>r.
     Inr (runner_response_of e db r)))"

definition revoke_runner :: "runner_env \<Rightarrow> runner_db \<Rightarrow> current_user \<Rightarrow> string \<Rightarrow> runner_response runner_result" where
  "revoke_runner e db user runner_id =
     (case require_admin user of
        Inl err \<Rightarrow> refused err db
      | Inr _ \<Rightarrow>
          (case get_runner_row db runner_id of
             None \<Rightarrow> refused (ResourceNotFoundError ''runner'') db
           | Some r \<Rightarrow>
               (let r' = (if rn_status r \<noteq> RUNNER_REVOKED
                          then r\<lparr>rn_status := RUNNER_REVOKED, rf_revoked_at := Some (ne_now e)\<rparr> else r);
                    db1 = put_runner_row db r';
                    db2 = (if ne_redis_ok e then delete_heartbeat runner_id db1 else db1)
                in (Inr (runner_response_of e db2 r'), db2))))"

definition heartbeat_runner ::
  "runner_env \<Rightarrow> runner_db \<Rightarrow> string \<Rightarrow> string \<Rightarrow> runner_snapshot \<Rightarrow> (string \<times> int \<times> datetime) runner_result" where
  "heartbeat_runner e db runner_id credential payload =
     (case get_runner_row db runner_id of
        None \<Rightarrow> refused (ResourceNotFoundError ''runner'') db
      | Some r \<Rightarrow>
          if credential = [] \<or> 512 < length credential \<or> rn_status r \<noteq> RUNNER_ACTIVE
             \<or> ne_digest e credential \<noteq> rn_credential_digest r
          then refused (AuthenticationError ''runner credential'') db
          else
            (let r' = (apply_snapshot payload r)\<lparr>rn_last_heartbeat_at := Some (ne_now e)\<rparr>;
                 db1 = put_runner_row db r'
             in if \<not> ne_redis_ok e then refused (RedisUnavailableError ''redis'') db1
                else (Inr (runner_id, rf_heartbeat_interval_seconds r', ne_now e),
                      set_heartbeat e runner_id (ne_heartbeat_ttl_seconds e) db1)))"

section \<open>The tables as the Run services see them\<close>

definition runner_rows :: "runner_db \<Rightarrow> runner_row list" where
  "runner_rows db = map runner_row.truncate (rd_runners db)"

text \<open>
  One step of any client; a request the schema refuses changes nothing. Redis is a separate store: its keys may change or vanish at any time, also
  between the commit of a heartbeat and the write of its key.
\<close>

inductive runner_step :: "runner_db \<Rightarrow> runner_db \<Rightarrow> bool" where
  create_token: "runner_step db (snd (create_registration_token e db user s plaintext))" if "token_request_ok s"
| revoke_token: "runner_step db (snd (revoke_registration_token e db user i))"
| register: "runner_step db (snd (register_runner e db token p rid cred))" if "validate_snapshot raw = Some p"
| heartbeat: "runner_step db (snd (heartbeat_runner e db rid cred p))" if "validate_snapshot raw = Some p"
| revoke: "runner_step db (snd (revoke_runner e db user rid))"
| redis: "runner_step db (db\<lparr>rd_heartbeats := h\<rparr>)"

definition empty_runner_db :: runner_db where
  "empty_runner_db = \<lparr>rd_tokens = [], rd_next_token_id = 1, rd_runners = [], rd_heartbeats = (\<lambda>_. None)\<rparr>"

section \<open>The invariant\<close>

definition token_ok :: "registration_token \<Rightarrow> bool" where
  "token_ok t \<longleftrightarrow>
     (rt_status t = TOKEN_CONSUMED \<longleftrightarrow> rt_consumed_runner_id t \<noteq> None)
     \<and> (rt_status t = TOKEN_CONSUMED \<longrightarrow> (\<exists>c. rt_consumed_at t = Some c \<and> c < rt_expires_at t))"

definition consumers :: "registration_token list \<Rightarrow> string list" where
  "consumers ts = concat (map (\<lambda>t. case rt_consumed_runner_id t of None \<Rightarrow> [] | Some i \<Rightarrow> [i]) ts)"

definition report_stored :: "runner \<Rightarrow> bool" where
  "report_stored r \<longleftrightarrow>
     snapshot_fits (rf_system r) \<and> rn_tags r = sp_tags (rf_system r) \<and> rn_slots r = sp_slots (rf_system r)
     \<and> map rc_capability (rn_capabilities r) = map ci_name (sp_capabilities (rf_system r))"

definition runners_inv :: "runner_db \<Rightarrow> bool" where
  "runners_inv db \<longleftrightarrow>
     distinct (map rt_id (rd_tokens db)) \<and> distinct (map rt_digest (rd_tokens db))
     \<and> list_all (\<lambda>t. rt_id t < rd_next_token_id db \<and> token_ok t) (rd_tokens db)
     \<and> distinct (map rn_id (rd_runners db)) \<and> distinct (map rn_credential_digest (rd_runners db))
     \<and> list_all report_stored (rd_runners db)
     \<and> distinct (consumers (rd_tokens db)) \<and> set (consumers (rd_tokens db)) = rn_id ` set (rd_runners db)"

lemma consumers_simps [simp]:
  "consumers [] = []"
  "consumers (t # ts) = (case rt_consumed_runner_id t of None \<Rightarrow> [] | Some i \<Rightarrow> [i]) @ consumers ts"
  "consumers (ts @ us) = consumers ts @ consumers us"
  by (simp_all add: consumers_def)

lemma set_consumers: "set (consumers ts) = {i. \<exists>t \<in> set ts. rt_consumed_runner_id t = Some i}"
  by (induction ts) (auto split: option.splits)

lemma put_row_absent: "key r \<notin> key ` set rows \<Longrightarrow> put_row key r rows = rows"
  by (induction rows) auto

lemma put_row_all: "list_all P rows \<Longrightarrow> P r \<Longrightarrow> list_all P (put_row key r rows)"
  by (auto simp: list_all_iff dest!: put_row_set)

lemma map_put_row_same:
  assumes "distinct (map key rows)" and "x \<in> set rows" and "key r = key x" and "f r = f x"
  shows "map f (put_row key r rows) = map f rows"
  using assms by (induction rows) (auto simp: put_row_absent image_iff)

lemma consumers_put_same:
  assumes "distinct (map rt_id ts)" and "t \<in> set ts" and "rt_id t' = rt_id t"
    and "rt_consumed_runner_id t' = rt_consumed_runner_id t"
  shows "consumers (put_row rt_id t' ts) = consumers ts"
  unfolding consumers_def using assms
  by (intro arg_cong[where f = concat] map_put_row_same[where x = t]) auto

lemma consumers_put_new:
  assumes "distinct (map rt_id ts)" and "t \<in> set ts" and "rt_id t' = rt_id t"
    and "rt_consumed_runner_id t = None" and "rt_consumed_runner_id t' = Some i" and "i \<notin> set (consumers ts)"
    and "distinct (consumers ts)"
  shows "distinct (consumers (put_row rt_id t' ts)) \<and> set (consumers (put_row rt_id t' ts)) = insert i (set (consumers ts))"
  using assms
proof (induction ts)
  case (Cons x ts)
  show ?case
  proof (cases "x = t")
    case True
    with Cons.prems show ?thesis by (auto simp: image_iff)
  next
    case False
    with Cons.prems have "t \<in> set ts" "rt_id x \<noteq> rt_id t'" by (auto simp: image_iff)
    with Cons show ?thesis by (auto split: option.splits)
  qed
qed simp

section \<open>Operations keep the invariant\<close>

lemma get_token_SomeD: "get_token db i = Some t \<Longrightarrow> t \<in> set (rd_tokens db) \<and> rt_id t = i"
  by (auto simp: get_token_def get_row_in_set dest: row_table.get_key)

lemma get_runner_row_SomeD: "get_runner_row db i = Some r \<Longrightarrow> r \<in> set (rd_runners db) \<and> rn_id r = i"
  by (auto simp: get_runner_row_def get_row_in_set dest: row_table.get_key)

lemma inv_heartbeats: "runners_inv (db\<lparr>rd_heartbeats := h\<rparr>) = runners_inv db"
  by (simp add: runners_inv_def)

lemma inv_put_token:
  assumes "runners_inv db" and "t \<in> set (rd_tokens db)" and "rt_id t' = rt_id t" and "rt_digest t' = rt_digest t"
    and "rt_consumed_runner_id t' = rt_consumed_runner_id t" and "token_ok t'"
  shows "runners_inv (put_token db t')"
  using assms unfolding runners_inv_def put_token_def
  by (auto simp: map_put_row_same[where x = t] consumers_put_same[where t = t] put_row_keys list_all_iff dest!: put_row_set)

lemma inv_put_runner:
  assumes "runners_inv db" and "r \<in> set (rd_runners db)" and "rn_id r' = rn_id r"
    and "rn_credential_digest r' = rn_credential_digest r" and "report_stored r'"
  shows "runners_inv (put_runner_row db r')"
proof -
  have "rn_id ` set (put_row rn_id r' (rd_runners db)) = rn_id ` set (rd_runners db)"
    using arg_cong[OF put_row_keys, of set] by (metis list.set_map)
  with assms show ?thesis
    unfolding runners_inv_def put_runner_row_def
    by (simp add: map_put_row_same[where x = r] put_row_keys put_row_all)
qed

lemma inv_create_token:
  assumes "runners_inv db"
  shows "runners_inv (snd (create_registration_token e db user s plaintext))"
  using assms
  by (auto simp: create_registration_token_def refused_def Let_def runners_inv_def token_ok_def list_all_iff image_iff
      split: sum.splits)

lemma inv_revoke_token:
  assumes "runners_inv db"
  shows "runners_inv (snd (revoke_registration_token e db user i))"
proof (cases "snd (revoke_registration_token e db user i) = db")
  case False
  then obtain t where t: "get_token db i = Some t" "rt_status t \<noteq> TOKEN_CONSUMED"
    and eq: "snd (revoke_registration_token e db user i) =
      put_token db (t\<lparr>rt_status := TOKEN_REVOKED, rt_revoked_at := Some (ne_now e)\<rparr>)"
    by (auto simp: revoke_registration_token_def refused_def Let_def split: sum.splits option.splits if_splits)
  have "token_ok t" using assms get_token_SomeD[OF t(1)] by (auto simp: runners_inv_def list_all_iff)
  with assms t get_token_SomeD[OF t(1)] show ?thesis
    unfolding eq by (intro inv_put_token[where t = t]) (auto simp: token_ok_def)
qed (simp add: assms)

lemma apply_snapshot_stored: "snapshot_fits p \<Longrightarrow> report_stored (apply_snapshot p r)"
  by (simp add: report_stored_def apply_snapshot_def comp_def)

lemma apply_snapshot_keys [simp]:
  "rn_id (apply_snapshot p r) = rn_id r" "rn_status (apply_snapshot p r) = rn_status r"
  "rn_credential_digest (apply_snapshot p r) = rn_credential_digest r"
  by (simp_all add: apply_snapshot_def)

lemma inv_heartbeat:
  assumes "runners_inv db" and "snapshot_fits p"
  shows "runners_inv (snd (heartbeat_runner e db rid cred p))"
proof (cases "get_runner_row db rid")
  case (Some r)
  have "report_stored ((apply_snapshot p r)\<lparr>rn_last_heartbeat_at := Some (ne_now e)\<rparr>)"
    using apply_snapshot_stored[OF assms(2), of r] by (simp add: report_stored_def)
  then have "runners_inv (put_runner_row db ((apply_snapshot p r)\<lparr>rn_last_heartbeat_at := Some (ne_now e)\<rparr>))"
    using assms get_runner_row_SomeD[OF Some] by (intro inv_put_runner[where r = r]) auto
  with assms(1) Some show ?thesis
    by (simp add: heartbeat_runner_def refused_def Let_def set_heartbeat_def inv_heartbeats)
qed (simp add: heartbeat_runner_def refused_def assms)

lemma inv_revoke:
  assumes "runners_inv db"
  shows "runners_inv (snd (revoke_runner e db user rid))"
proof (cases "get_runner_row db rid")
  case (Some r)
  have "report_stored r" using assms get_runner_row_SomeD[OF Some] by (auto simp: runners_inv_def list_all_iff)
  then have "runners_inv (put_runner_row db (if rn_status r \<noteq> RUNNER_REVOKED
      then r\<lparr>rn_status := RUNNER_REVOKED, rf_revoked_at := Some (ne_now e)\<rparr> else r))"
    using assms get_runner_row_SomeD[OF Some] by (intro inv_put_runner[where r = r]) (auto simp: report_stored_def)
  with assms Some show ?thesis
    by (simp add: revoke_runner_def refused_def Let_def delete_heartbeat_def inv_heartbeats split: sum.split)
qed (simp add: revoke_runner_def refused_def assms split: sum.split)

lemma new_runner_keys [simp]:
  "rn_id (new_runner e rid cred p) = rid" "rn_status (new_runner e rid cred p) = RUNNER_ACTIVE"
  "rn_credential_digest (new_runner e rid cred p) = ne_digest e cred"
  by (simp_all add: new_runner_def)

lemma new_runner_stored: "snapshot_fits p \<Longrightarrow> report_stored (new_runner e rid cred p)"
  by (simp add: new_runner_def apply_snapshot_stored)

definition consume :: "runner_env \<Rightarrow> string \<Rightarrow> registration_token \<Rightarrow> registration_token" where
  "consume e rid t = t\<lparr>rt_status := TOKEN_CONSUMED, rt_consumed_at := Some (ne_now e), rt_consumed_runner_id := Some rid\<rparr>"

lemma register_runnerD:
  assumes "snd (register_runner e db token p rid cred) \<noteq> db \<or> fst (register_runner e db token p rid cred) = Inr x"
  shows "\<exists>t. t \<in> set (rd_tokens db) \<and> rt_digest t = ne_digest e token \<and> rt_status t = TOKEN_ACTIVE
     \<and> ne_now e < rt_expires_at t \<and> rid \<notin> rn_id ` set (rd_runners db)
     \<and> ne_digest e cred \<notin> rn_credential_digest ` set (rd_runners db)
     \<and> snd (register_runner e db token p rid cred) =
         (put_token db (consume e rid t))\<lparr>rd_runners := rd_runners db @ [new_runner e rid cred p]\<rparr>"
proof (cases "find (\<lambda>t. rt_digest t = ne_digest e token) (rd_tokens db)")
  case (Some t)
  with assms show ?thesis
    by (intro exI[where x = t])
       (auto simp: register_runner_def refused_def Let_def consume_def split: if_splits dest: find_SomeD)
qed (use assms in \<open>auto simp: register_runner_def refused_def Let_def split: if_splits\<close>)

lemma inv_register:
  assumes "runners_inv db" and "snapshot_fits p"
  shows "runners_inv (snd (register_runner e db token p rid cred))"
proof (cases "snd (register_runner e db token p rid cred) = db")
  case False
  then obtain t where t: "t \<in> set (rd_tokens db)" "rt_status t = TOKEN_ACTIVE" "ne_now e < rt_expires_at t"
    and fresh: "rid \<notin> rn_id ` set (rd_runners db)" "ne_digest e cred \<notin> rn_credential_digest ` set (rd_runners db)"
    and eq: "snd (register_runner e db token p rid cred) =
      (put_token db (consume e rid t))\<lparr>rd_runners := rd_runners db @ [new_runner e rid cred p]\<rparr>"
    using register_runnerD by blast
  have "token_ok t" using assms t by (auto simp: runners_inv_def list_all_iff)
  with t have none: "rt_consumed_runner_id t = None" by (auto simp: token_ok_def)
  have keys: "rt_id (consume e rid t) = rt_id t" "rt_digest (consume e rid t) = rt_digest t"
    "rt_consumed_runner_id (consume e rid t) = Some rid" by (simp_all add: consume_def)
  have "distinct (consumers (put_row rt_id (consume e rid t) (rd_tokens db)))
      \<and> set (consumers (put_row rt_id (consume e rid t) (rd_tokens db))) = insert rid (set (consumers (rd_tokens db)))"
    using assms(1) t fresh none keys
    by (intro consumers_put_new[where t = t]) (auto simp: runners_inv_def)
  moreover have "list_all (\<lambda>t. rt_id t < rd_next_token_id db \<and> token_ok t) (put_row rt_id (consume e rid t) (rd_tokens db))"
    using assms(1) t by (intro put_row_all) (auto simp: runners_inv_def list_all_iff token_ok_def consume_def)
  ultimately show ?thesis
    using assms t(1) fresh new_runner_stored[OF assms(2)] unfolding eq runners_inv_def put_token_def
    by (simp add: put_row_keys map_put_row_same[where x = t] keys)
qed (simp add: assms)

lemma runner_step_inv: "runner_step db db' \<Longrightarrow> runners_inv db \<Longrightarrow> runners_inv db'"
  by (induction rule: runner_step.induct)
     (auto simp: inv_heartbeats intro: inv_create_token inv_revoke_token inv_register inv_heartbeat inv_revoke
        validate_snapshot_normal)

lemma reachable_runners_inv: "runner_step\<^sup>*\<^sup>* empty_runner_db db \<Longrightarrow> runners_inv db"
  by (induction rule: rtranclp_induct) (auto simp: runner_step_inv, simp add: empty_runner_db_def runners_inv_def)

end
