(* ===== verification/Runner_Registry.thy ===== *)
theory Runner_Registry
  imports Runners
begin

text \<open>
  What the registry of Runners guarantees along every sequence of requests, from empty tables: a
  registration token admits one Runner, the stored reports satisfy the constraints of the tables, and a revoked
  Runner stays locked out, also of the Run services, which read the same rows.
\<close>

lemma truncate_keys [simp]:
  "rn_id (runner_row.truncate r) = rn_id r" "rn_status (runner_row.truncate r) = rn_status r"
  "rn_credential_digest (runner_row.truncate r) = rn_credential_digest r"
  by (simp_all add: runner_row.defs)

section \<open>Tokens and Runners\<close>

lemma consumers_unique:
  assumes "distinct (consumers ts)" and "t \<in> set ts" and "t' \<in> set ts"
    and "rt_consumed_runner_id t = Some i" and "rt_consumed_runner_id t' = Some i"
  shows "t = t'"
  using assms by (induction ts) (auto simp: set_consumers split: option.splits)

text \<open>
  C12. Whatever requests of administrators and Runners are served, in any order: every Runner was admitted by
  exactly one registration token, and every consumed token admitted exactly one Runner, before it expired.
\<close>

theorem registration_token_admits_one_runner:
  assumes "runner_step\<^sup>*\<^sup>* empty_runner_db db"
  shows "(\<forall>r \<in> set (rd_runners db). \<exists>!t. t \<in> set (rd_tokens db) \<and> rt_consumed_runner_id t = Some (rn_id r))
    \<and> (\<forall>t \<in> set (rd_tokens db). rt_status t = TOKEN_CONSUMED \<longrightarrow>
         (\<exists>!r. r \<in> set (rd_runners db) \<and> rt_consumed_runner_id t = Some (rn_id r))
         \<and> (\<exists>c. rt_consumed_at t = Some c \<and> c < rt_expires_at t))"
proof (intro conjI ballI impI)
  have inv: "runners_inv db" by (rule reachable_runners_inv[OF assms])
  fix r assume "r \<in> set (rd_runners db)"
  then have "rn_id r \<in> set (consumers (rd_tokens db))" using inv by (auto simp: runners_inv_def)
  then obtain t where "t \<in> set (rd_tokens db)" "rt_consumed_runner_id t = Some (rn_id r)"
    by (auto simp: set_consumers)
  with inv show "\<exists>!t. t \<in> set (rd_tokens db) \<and> rt_consumed_runner_id t = Some (rn_id r)"
    by (auto simp: runners_inv_def intro: consumers_unique)
next
  have inv: "runners_inv db" by (rule reachable_runners_inv[OF assms])
  fix t assume t: "t \<in> set (rd_tokens db)" "rt_status t = TOKEN_CONSUMED"
  with inv have ok: "token_ok t" by (auto simp: runners_inv_def list_all_iff)
  with t show "\<exists>c. rt_consumed_at t = Some c \<and> c < rt_expires_at t" by (simp add: token_ok_def)
  from ok t obtain i where i: "rt_consumed_runner_id t = Some i" by (auto simp: token_ok_def)
  with t have "i \<in> set (consumers (rd_tokens db))" by (auto simp: set_consumers)
  then obtain r where "r \<in> set (rd_runners db)" "rn_id r = i" using inv by (auto simp: runners_inv_def)
  with i inv show "\<exists>!r. r \<in> set (rd_runners db) \<and> rt_consumed_runner_id t = Some (rn_id r)"
    by (auto simp: runners_inv_def distinct_map inj_on_def)
qed

section \<open>Stored reports\<close>

definition runner_constraints :: "runner_row \<Rightarrow> bool" where
  "runner_constraints r \<longleftrightarrow>
     distinct (rn_tags r) \<and> (\<forall>t \<in> set (rn_tags r). t \<noteq> [] \<and> length t \<le> 64)
     \<and> distinct (map rc_capability (rn_capabilities r))
     \<and> (\<forall>c \<in> set (rn_capabilities r). rc_capability c \<in> {''API'', ''WEB'', ''SQL'', ''SCRIPT'', ''SSE'', ''JMETER''})
     \<and> distinct (map rs_slot_type (rn_slots r))
     \<and> (\<forall>s \<in> set (rn_slots r). 0 \<le> rs_total s \<and> 0 \<le> rs_available s \<and> rs_available s \<le> rs_total s)"

lemma report_stored_constraints:
  assumes "report_stored r"
  shows "runner_constraints (runner_row.truncate r)"
proof -
  have "set (map rc_capability (rn_capabilities r)) = set (map ci_name (sp_capabilities (rf_system r)))"
    using assms by (simp only: report_stored_def)
  moreover have "ci_name d \<in> set capability_names" if "d \<in> set (sp_capabilities (rf_system r))" for d
    using assms that by (auto simp: report_stored_def snapshot_fits_def list_all_iff capability_fits_def)
  ultimately have "rc_capability c \<in> set capability_names" if "c \<in> set (rn_capabilities r)" for c
    using that by (metis (no_types, lifting) imageE imageI list.set_map)
  with assms show ?thesis
    by (auto simp: report_stored_def snapshot_fits_def runner_constraints_def runner_row.defs list_all_iff tag_fits_def
        capability_names_def slot_fits_def)
qed


section \<open>Revoked Runners\<close>

definition revoked :: "runner_db \<Rightarrow> string \<Rightarrow> bool" where
  "revoked db rid \<longleftrightarrow> (\<exists>r. get_runner_row db rid = Some r \<and> rn_status r = RUNNER_REVOKED)"

lemma revoked_frame [simp]:
  "revoked (db\<lparr>rd_heartbeats := h\<rparr>) rid = revoked db rid" "revoked (put_token db t) rid = revoked db rid"
  "revoked (db\<lparr>rd_tokens := ts, rd_next_token_id := n\<rparr>) rid = revoked db rid"
  by (simp_all add: revoked_def get_runner_row_def put_token_def)

lemma revoked_put:
  "revoked db rid \<Longrightarrow> rn_id r \<noteq> rid \<or> rn_status r = RUNNER_REVOKED \<Longrightarrow> revoked (put_runner_row db r) rid"
  by (auto simp: revoked_def get_runner_row_def put_runner_row_def row_table.get_put split: option.splits)

lemma revoked_append: "revoked db rid \<Longrightarrow> revoked ((put_token db t)\<lparr>rd_runners := rd_runners db @ rs\<rparr>) rid"
  by (auto simp: revoked_def get_runner_row_def get_row_append)

lemma revoked_heartbeat:
  "revoked db rid \<Longrightarrow> heartbeat_runner e db rid cred p = (Inl (AuthenticationError ''runner credential''), db)"
  by (auto simp: revoked_def heartbeat_runner_def refused_def)

lemma runner_step_revoked: "runner_step db db' \<Longrightarrow> revoked db rid \<Longrightarrow> revoked db' rid"
proof (induction rule: runner_step.induct)
  case (create_token s db e user plaintext)
  then show ?case by (auto simp: create_registration_token_def refused_def Let_def split: sum.split)
next
  case (revoke_token db e user i)
  then show ?case
    by (auto simp: revoke_registration_token_def refused_def Let_def split: sum.split option.split)
next
  case (register raw p db e token rid' cred)
  then show ?case
    using register_runnerD[of e db token p rid' cred] revoked_append
    by (cases "snd (register_runner e db token p rid' cred) = db") auto
next
  case (heartbeat raw p db e rid' cred)
  show ?case
  proof (cases "rid' = rid")
    case False
    with heartbeat show ?thesis
      by (auto simp: heartbeat_runner_def refused_def Let_def set_heartbeat_def split: option.split
          dest!: get_runner_row_SomeD intro!: revoked_put)
  qed (simp add: revoked_heartbeat heartbeat)
next
  case (revoke db e user rid')
  then show ?case
    by (auto simp: revoke_runner_def refused_def Let_def delete_heartbeat_def split: sum.split option.split
        dest!: get_runner_row_SomeD intro!: revoked_put)
qed simp

lemma revoked_stays: "runner_step\<^sup>*\<^sup>* db db' \<Longrightarrow> revoked db rid \<Longrightarrow> revoked db' rid"
  by (induction rule: rtranclp_induct) (auto intro: runner_step_revoked)

lemma find_map: "find P (map f xs) = map_option f (find (\<lambda>x. P (f x)) xs)"
  by (induction xs) auto

lemma get_runner_rows: "get_row rn_id (runner_rows db) rid = map_option runner_row.truncate (get_runner_row db rid)"
  by (simp add: runner_rows_def get_runner_row_def get_row_def find_map)

text \<open>
  C13. Once a Runner is revoked nothing brings it back: after any further requests, and whatever happens in
  Redis, it is still revoked, its heartbeats are refused and change nothing, it is not reported online, and no
  endpoint of the Run services accepts its credential.
\<close>

theorem revoked_runner_is_locked_out:
  assumes "get_runner_row db rid = Some r" and "rn_status r = RUNNER_REVOKED" and "runner_step\<^sup>*\<^sup>* db db'"
  shows "(\<exists>r'. get_runner_row db' rid = Some r' \<and> rn_status r' = RUNNER_REVOKED
            \<and> fst (runner_online_state e db' r') \<noteq> ONLINE)
    \<and> heartbeat_runner e db' rid credential p = (Inl (AuthenticationError ''runner credential''), db')
    \<and> (tr_runner_id run = Some rid \<longrightarrow>
         authenticate_runner_for_run en (w\<lparr>w_runners := runner_rows db'\<rparr>) run credential
           = Inl (AuthenticationError ''runner credential''))"
proof -
  have "revoked db' rid" using assms revoked_stays by (auto simp: revoked_def)
  then obtain r' where r': "get_runner_row db' rid = Some r'" "rn_status r' = RUNNER_REVOKED"
    by (auto simp: revoked_def)
  then have "get_runner (w\<lparr>w_runners := runner_rows db'\<rparr>) rid = Some (runner_row.truncate r')"
    by (simp add: get_runner_def get_runner_rows)
  with r' revoked_heartbeat[OF \<open>revoked db' rid\<close>] show ?thesis
    by (auto simp: runner_online_state_def authenticate_runner_for_run_def Let_def split: heartbeat_lookup.split)
qed
section \<open>A worked registry\<close>

definition ex_admin :: current_user where
  "ex_admin = \<lparr>cu_id = ''u1'', cu_roles = [''ADMIN'']\<rparr>"

definition ex_registry_env :: "int \<Rightarrow> runner_env" where
  "ex_registry_env s =
     \<lparr>ne_now = seconds s, ne_digest = (\<lambda>x. ''#'' @ x), ne_redis_ok = True, ne_token_ttl_seconds = 600,
      ne_heartbeat_interval_seconds = 30, ne_heartbeat_ttl_seconds = 90\<rparr>"

definition ex_report :: runner_snapshot where
  "ex_report = \<lparr>sp_name = ''lab'', sp_hostname = ''lab-7'', sp_ip_address = None, sp_os = Some ''Linux'', sp_cpu = None,
     sp_ram = None, sp_disk = None, sp_python = None, sp_chrome = None, sp_playwright = None, sp_java = None,
     sp_jmeter = None, sp_tags = [''a''], sp_capabilities = [\<lparr>ci_name = ''API'', ci_ready = True, ci_reason = None\<rparr>],
     sp_slots = [\<lparr>rs_slot_type = SLOT_API, rs_total = 2, rs_available = 2\<rparr>]\<rparr>"

definition ex_token :: string where "ex_token = ''rt_0123456789abcdef''"

definition ex_db1 :: runner_db where
  "ex_db1 = snd (create_registration_token (ex_registry_env 0) empty_runner_db ex_admin None ex_token)"

definition ex_db2 :: runner_db where
  "ex_db2 = snd (register_runner (ex_registry_env 10) ex_db1 ex_token ex_report ''r1'' ''rc_0123456789abcdef'')"

definition ex_db3 :: runner_db where
  "ex_db3 = snd (revoke_runner (ex_registry_env 20) ex_db2 ex_admin ''r1'')"

lemma ex_report_accepted: "validate_snapshot ex_report = Some ex_report"
  by (rule validate_snapshot_fits)
     (simp add: snapshot_fits_def ex_report_def text_fits_def info_fits_def py_strip_def py_space_code tag_fits_def
        tag_char_def latin_alnum_def latin_lower_char_def capability_fits_def capability_names_def slot_fits_def)

lemma ex_db2_reachable: "runner_step\<^sup>*\<^sup>* empty_runner_db ex_db2"
proof -
  have "runner_step empty_runner_db ex_db1" unfolding ex_db1_def by (rule create_token) (simp add: token_request_ok_def)
  moreover have "runner_step ex_db1 ex_db2" unfolding ex_db2_def by (rule register[OF ex_report_accepted])
  ultimately show ?thesis by (meson r_into_rtranclp rtranclp.rtrancl_into_rtrancl)
qed

lemma ex_tables:
  "map (\<lambda>t. (rt_id t, rt_status t, rt_consumed_runner_id t)) (rd_tokens ex_db2) = [(1, TOKEN_CONSUMED, Some ''r1'')]"
  "map (\<lambda>r. (rn_id r, rn_status r)) (rd_runners ex_db2) = [(''r1'', RUNNER_ACTIVE)]"
  "map_option rn_status (get_runner_row ex_db3 ''r1'') = Some RUNNER_REVOKED"
  by code_simp+

theorem registration_token_admits_one_runner_witness:
  "\<exists>r \<in> set (rd_runners ex_db2). rn_id r = ''r1''
     \<and> (\<exists>!t. t \<in> set (rd_tokens ex_db2) \<and> rt_consumed_runner_id t = Some (rn_id r))"
proof -
  obtain r where "r \<in> set (rd_runners ex_db2)" "rn_id r = ''r1''" using ex_tables(2) by auto
  then show ?thesis using registration_token_admits_one_runner[OF ex_db2_reachable] by blast
qed


theorem revoked_runner_is_locked_out_witness:
  "fst (heartbeat_runner (ex_registry_env 30) (ex_db3\<lparr>rd_heartbeats := \<lambda>_. Some (seconds 500)\<rparr>) ''r1'' ''rc_0123456789abcdef'' ex_report)
     = Inl (AuthenticationError ''runner credential'')"
proof -
  obtain r where r: "get_runner_row ex_db3 ''r1'' = Some r" "rn_status r = RUNNER_REVOKED" using ex_tables(3) by auto
  have step: "runner_step\<^sup>*\<^sup>* ex_db3 (ex_db3\<lparr>rd_heartbeats := \<lambda>_. Some (seconds 500)\<rparr>)"
    by (intro r_into_rtranclp redis)
  note revoked_runner_is_locked_out[OF r step, THEN conjunct2, THEN conjunct1,
      of "ex_registry_env 30" "''rc_0123456789abcdef''" ex_report]
  then show ?thesis by simp
qed

end
