(* ===== verification/Json_Values.thy ===== *)
theory Json_Values
  imports Prelude "HOL-Library.List_Lexorder"
begin

text \<open>
  Python's \<open>==\<close>, \<open><\<close> and \<open>in\<close> on values decoded from JSON. Booleans are numbers, numbers compare across
  their types, lists compare at the first unequal place, objects are equal as mappings. A comparison that raises
  \<open>TypeError\<close> gives \<open>None\<close>. Floats are rational numbers, so the values that are not numbers are left out.
\<close>

lemma size_list_member [termination_simp]:
  "x \<in> set xs \<Longrightarrow> size x < Suc (size_list size xs)"
  "(x, y) \<in> set (zip xs ys) \<Longrightarrow> size x < Suc (size_list size xs)"
  by (auto simp: less_Suc_eq_le dest!: set_zip_leftD intro: size_list_estimation')

lemma size_obj_member [termination_simp]:
  "(k, v) \<in> set m \<Longrightarrow> size v < Suc (size_list (\<lambda>x. Suc (size (snd x))) m)"
  "map_of m k = Some v \<Longrightarrow> size v < Suc (size_list (\<lambda>x. Suc (size (snd x))) m)"
proof -
  show "size v < Suc (size_list (\<lambda>x. Suc (size (snd x))) m)" if "(k, v) \<in> set m"
    using that by (induction m) auto
  then show "map_of m k = Some v \<Longrightarrow> size v < Suc (size_list (\<lambda>x. Suc (size (snd x))) m)"
    using map_of_SomeD by fastforce
qed

lemma size_values:
  "v \<in> snd ` set ps \<Longrightarrow> size v < size (JObj ps)" "v \<in> set xs \<Longrightarrow> size v < size (JList xs)"
  by (auto simp: size_prod_simp dest: size_obj_member(1) size_list_member(1))

lemma size_nested:
  assumes "map_of m k = Some w" and "size v < size w"
  shows "size v < Suc (size_list (\<lambda>x. Suc (size (snd x))) m)"
  using size_obj_member(2)[OF assms(1)] assms(2) by (rule order.strict_trans[rotated])

fun py_num :: "json \<Rightarrow> rat option" where
  "py_num (JBool b) = Some (if b then 1 else 0)"
| "py_num (JInt n) = Some (of_int n)"
| "py_num (JFloat r) = Some r"
| "py_num _ = None"

fun py_eq :: "json \<Rightarrow> json \<Rightarrow> bool" where
  "py_eq (JStr s) v = (v = JStr s)"
| "py_eq JNull v = (v = JNull)"
| "py_eq (JList xs) v =
     (case v of JList ys \<Rightarrow> length xs = length ys \<and> list_all (\<lambda>(x, y). py_eq x y) (zip xs ys) | _ \<Rightarrow> False)"
| "py_eq (JObj m) v =
     (case v of
        JObj n \<Rightarrow> length m = length n
          \<and> list_all (\<lambda>(k, x). case map_of n k of None \<Rightarrow> False | Some y \<Rightarrow> py_eq x y) m
      | _ \<Rightarrow> False)"
| "py_eq u v = (py_num v \<noteq> None \<and> py_num u = py_num v)"

text \<open>\<open>left < right\<close>\<close>

fun py_lt :: "json \<Rightarrow> json \<Rightarrow> bool option" and py_lt_list :: "json list \<Rightarrow> json list \<Rightarrow> bool option" where
  "py_lt (JStr s) v = (case v of JStr t \<Rightarrow> Some (s < t) | _ \<Rightarrow> None)"
| "py_lt (JList xs) v = (case v of JList ys \<Rightarrow> py_lt_list xs ys | _ \<Rightarrow> None)"
| "py_lt u v = (case (py_num u, py_num v) of (Some a, Some b) \<Rightarrow> Some (a < b) | _ \<Rightarrow> None)"
| "py_lt_list xs [] = Some False"
| "py_lt_list [] (y # ys) = Some True"
| "py_lt_list (x # xs) (y # ys) = (if py_eq x y then py_lt_list xs ys else py_lt x y)"

definition py_le :: "json \<Rightarrow> json \<Rightarrow> bool option" where
  "py_le u v = map_option (\<lambda>b. b \<or> py_eq u v) (py_lt u v)"

fun is_substring :: "string \<Rightarrow> string \<Rightarrow> bool" where
  "is_substring s [] = (s = [])"
| "is_substring s (c # cs) = (take (length s) (c # cs) = s \<or> is_substring s cs)"

text \<open>Values that can be looked up in a mapping or a set.\<close>

fun hashable :: "json \<Rightarrow> bool" where
  "hashable (JList _) = False"
| "hashable (JObj _) = False"
| "hashable _ = True"

text \<open>\<open>value in container\<close>\<close>

fun py_in :: "json \<Rightarrow> json \<Rightarrow> bool option" where
  "py_in v (JList xs) = Some (list_ex (py_eq v) xs)"
| "py_in v (JStr s) = (case v of JStr t \<Rightarrow> Some (is_substring t s) | _ \<Rightarrow> None)"
| "py_in v (JObj m) = (if hashable v then Some (case v of JStr k \<Rightarrow> k \<in> fst ` set m | _ \<Rightarrow> False) else None)"
| "py_in v _ = None"

text \<open>\<open>type(left) is type(right)\<close>\<close>

fun same_type :: "json \<Rightarrow> json \<Rightarrow> bool" where
  "same_type JNull v = (v = JNull)"
| "same_type (JBool _) v = (case v of JBool _ \<Rightarrow> True | _ \<Rightarrow> False)"
| "same_type (JInt _) v = (case v of JInt _ \<Rightarrow> True | _ \<Rightarrow> False)"
| "same_type (JFloat _) v = (case v of JFloat _ \<Rightarrow> True | _ \<Rightarrow> False)"
| "same_type (JStr _) v = (case v of JStr _ \<Rightarrow> True | _ \<Rightarrow> False)"
| "same_type (JList _) v = (case v of JList _ \<Rightarrow> True | _ \<Rightarrow> False)"
| "same_type (JObj _) v = (case v of JObj _ \<Rightarrow> True | _ \<Rightarrow> False)"

text \<open>\<open>isinstance(value, int)\<close>, which holds for booleans\<close>

fun py_int_value :: "json \<Rightarrow> int option" where
  "py_int_value (JInt n) = Some n"
| "py_int_value (JBool b) = Some (if b then 1 else 0)"
| "py_int_value _ = None"

end
