(* ===== verification/Safe_Regex.thy ===== *)
theory Safe_Regex
  imports Prelude
begin

text \<open>
  \<open>test_cases/safe_regex.py\<close>: the check that keeps regular expressions of assertions from backtracking
  without bound. The scanner reads the pattern character by character; \<open>scan\<close> has the rest of the pattern
  where the code has an index. Its guarantee is stated over patterns as they are written in Python: the
  datatype \<open>rx_body\<close> with its printer, and \<open>simple_body\<close>, the patterns in which no group that is
  repeated contains an alternation or a repetition.
\<close>

section \<open>The scanner\<close>

datatype regex_issue =
    PatternNotString
  | PatternEmpty
  | PatternTooLong
  | UnclosedEscape
  | Backreference
  | ExtendedGroup
  | UnpairedAlternation
  | UnpairedGroup
  | QuantifierWithoutItem
  | NestedQuantifier
  | QuantifiedComplexGroup
  | UnclosedClass
  | UnclosedGroup

record group_state =
  gs_alternation :: bool
  gs_quantifier :: bool
  gs_optional :: bool

datatype regex_atom = AtomClass | AtomEscaped | AtomGroup group_state | AtomQuantifier | AtomLiteral

record scan_state =
  sc_errors :: "regex_issue list"
  sc_groups :: "group_state list"  \<comment> \<open>the innermost open group first\<close>
  sc_last :: "regex_atom option"
  sc_in_class :: bool

definition new_group :: group_state where
  "new_group = \<lparr>gs_alternation = False, gs_quantifier = False, gs_optional = False\<rparr>"

definition merge_group :: "group_state \<Rightarrow> group_state \<Rightarrow> group_state" where
  "merge_group parent child =
     \<lparr>gs_alternation = gs_alternation parent \<or> gs_alternation child,
      gs_quantifier = gs_quantifier parent \<or> gs_quantifier child,
      gs_optional = gs_optional parent \<or> gs_optional child\<rparr>"

definition merge_top :: "group_state \<Rightarrow> group_state list \<Rightarrow> group_state list" where
  "merge_top child groups = (case groups of [] \<Rightarrow> [] | parent # rest \<Rightarrow> merge_group parent child # rest)"

definition add_error :: "regex_issue \<Rightarrow> scan_state \<Rightarrow> scan_state" where
  "add_error issue st =
     (if issue \<in> set (sc_errors st) then st else st\<lparr>sc_errors := sc_errors st @ [issue]\<rparr>)"

definition mark_current_quantifier :: "bool \<Rightarrow> scan_state \<Rightarrow> scan_state" where
  "mark_current_quantifier optional st =
     st\<lparr>sc_groups := merge_top \<lparr>gs_alternation = False, gs_quantifier = True, gs_optional = optional\<rparr> (sc_groups st)\<rparr>"

definition check_quantified :: "scan_state \<Rightarrow> scan_state" where
  "check_quantified st =
     (case sc_last st of
        Some AtomQuantifier \<Rightarrow> add_error NestedQuantifier st
      | Some (AtomGroup g) \<Rightarrow>
          if gs_alternation g \<or> gs_quantifier g \<or> gs_optional g then add_error QuantifiedComplexGroup st else st
      | _ \<Rightarrow> st)"

definition apply_quantifier :: "bool \<Rightarrow> scan_state \<Rightarrow> scan_state" where
  "apply_quantifier optional st =
     (let st1 = (if sc_last st = None then add_error QuantifierWithoutItem st else check_quantified st)
      in (mark_current_quantifier optional st1)\<lparr>sc_last := Some AtomQuantifier\<rparr>)"

definition apply_braced :: "bool \<Rightarrow> scan_state \<Rightarrow> scan_state" where
  "apply_braced optional st =
     (if sc_last st = None then add_error QuantifierWithoutItem st
      else (mark_current_quantifier optional (check_quantified st))\<lparr>sc_last := Some AtomQuantifier\<rparr>)"

definition literal :: "scan_state \<Rightarrow> scan_state" where
  "literal st = st\<lparr>sc_last := Some AtomLiteral\<rparr>"

text \<open>\<open>str.isdigit\<close> below code point 256; \<open>int\<close> raises \<open>ValueError\<close> on the superscript digits.\<close>

definition latin_digit :: "char \<Rightarrow> bool" where
  "latin_digit c \<longleftrightarrow> ascii_digit c \<or> (let n = of_char c :: nat in n = 178 \<or> n = 179 \<or> n = 185)"

definition escaped :: "char \<Rightarrow> scan_state \<Rightarrow> scan_state" where
  "escaped c st =
     (if latin_digit c \<or> c \<in> set ''kKgG'' then add_error Backreference st else st)\<lparr>sc_last := Some AtomEscaped\<rparr>"

definition open_group :: "string \<Rightarrow> scan_state \<Rightarrow> scan_state" where
  "open_group rest st =
     (let st1 = (if rest \<noteq> [] \<and> hd rest = CHR ''?'' \<and> (tl rest = [] \<or> hd (tl rest) \<noteq> CHR '':'')
                 then add_error ExtendedGroup st else st)
      in st1\<lparr>sc_groups := new_group # sc_groups st, sc_last := None\<rparr>)"

definition alternation :: "scan_state \<Rightarrow> scan_state" where
  "alternation st =
     (if sc_groups st = [] then add_error UnpairedAlternation st
      else st\<lparr>sc_groups := merge_top (new_group\<lparr>gs_alternation := True\<rparr>) (sc_groups st)\<rparr>)\<lparr>sc_last := None\<rparr>"

definition close_group :: "scan_state \<Rightarrow> scan_state" where
  "close_group st =
     (case sc_groups st of
        [] \<Rightarrow> (add_error UnpairedGroup st)\<lparr>sc_last := Some (AtomGroup new_group)\<rparr>
      | g # rest \<Rightarrow> st\<lparr>sc_groups := merge_top g rest, sc_last := Some (AtomGroup g)\<rparr>)"

text \<open>
  \<open>_parse_braced_quantifier\<close> on the text after the brace: \<open>Inl\<close> is the \<open>ValueError\<close> of \<open>int\<close>; otherwise
  whether the lower bound is zero, and the text after the quantifier.
\<close>

definition int_of_digits :: "string \<Rightarrow> unit + int" where
  "int_of_digits ds = (if list_all ascii_digit ds then Inr (digits_value 0 ds) else Inl ())"

definition parse_braced_quantifier :: "string \<Rightarrow> unit + (bool \<times> string) option" where
  "parse_braced_quantifier s =
     (let ds = takeWhile latin_digit s; r = dropWhile latin_digit s in
      if ds = [] then Inr None
      else res_bind (int_of_digits ds) (\<lambda>lower.
        case r of
          [] \<Rightarrow> Inr None
        | c # r1 \<Rightarrow>
            if c = CHR ''}'' then Inr (Some (lower = 0, r1))
            else if c \<noteq> CHR '','' then Inr None
            else
              (let us = takeWhile latin_digit r1; r2 = dropWhile latin_digit r1 in
               res_bind (if us = [] then Inr None else res_bind (int_of_digits us) (\<lambda>u. Inr (Some u))) (\<lambda>upper.
               if r2 = [] \<or> hd r2 \<noteq> CHR ''}'' then Inr None
               else (case upper of
                       Some u \<Rightarrow> if u < lower then Inr None else Inr (Some (lower = 0, tl r2))
                     | None \<Rightarrow> Inr (Some (lower = 0, tl r2)))))))"

lemma parse_braced_shorter:
  assumes "parse_braced_quantifier s = Inr (Some (z, r))"
  shows "length r < length s"
proof -
  have "length (dropWhile latin_digit t) \<le> length t" for t by (rule length_dropWhile_le)
  note this[of s] this[of "tl (dropWhile latin_digit s)"]
  with assms show ?thesis
    by (cases "dropWhile latin_digit s")
       (auto simp: parse_braced_quantifier_def Let_def res_bind_def split: sum.splits if_splits option.splits)
qed

function scan :: "scan_state \<Rightarrow> string \<Rightarrow> unit + scan_state" where
  "scan st [] = Inr st"
| "scan st (c # cs) =
     (if sc_in_class st then
        (if c = CHR 0x5C then scan st (tl cs)
         else if c = CHR '']'' then scan (st\<lparr>sc_in_class := False, sc_last := Some AtomClass\<rparr>) cs
         else scan st cs)
      else if c = CHR 0x5C then
        (case cs of [] \<Rightarrow> Inr (add_error UnclosedEscape st) | d # ds \<Rightarrow> scan (escaped d st) ds)
      else if c = CHR ''['' then scan (st\<lparr>sc_in_class := True, sc_last := Some AtomClass\<rparr>) cs
      else if c = CHR ''('' then scan (open_group cs st) (if take 2 cs = ''?:'' then drop 2 cs else cs)
      else if c = CHR ''|'' then scan (alternation st) cs
      else if c = CHR '')'' then scan (close_group st) cs
      else if c \<in> set ''*+?'' then scan (apply_quantifier (c \<noteq> CHR ''+'') st) cs
      else if c = CHR ''{'' then
        (case parse_braced_quantifier cs of
           Inl err \<Rightarrow> Inl err
         | Inr None \<Rightarrow> scan (literal st) cs
         | Inr (Some (optional, rest)) \<Rightarrow> scan (apply_braced optional st) rest)
      else scan (literal st) cs)"
  by pat_completeness auto
termination
  by (relation "measure (\<lambda>(st, s). length s)") (auto dest: parse_braced_shorter)

definition safe_regex_errors :: "json \<Rightarrow> unit + regex_issue list" where
  "safe_regex_errors pattern =
     (case pattern of
        JStr p \<Rightarrow>
          if p = [] then Inr [PatternEmpty]
          else if 1000 < length p then Inr [PatternTooLong]
          else res_bind (scan \<lparr>sc_errors = [], sc_groups = [], sc_last = None, sc_in_class = False\<rparr> p) (\<lambda>st.
            Inr (sc_errors st @ (if sc_in_class st then [UnclosedClass] else [])
                 @ (if sc_groups st \<noteq> [] then [UnclosedGroup] else [])))
      | _ \<Rightarrow> Inr [PatternNotString])"

section \<open>Patterns as Python reads them\<close>

datatype quantifier =
    QStar | QPlus | QQuestion
  | QExact string         \<comment> \<open>m\<close>
  | QAtLeast string       \<comment> \<open>m and more\<close>
  | QBetween string string
  | QUpTo string          \<comment> \<open>the lower bound is left out, which means zero; without digits there is no upper bound\<close>

datatype rx_atom = Lit char | Esc char | Cls string | Grp bool rx_body
and rx_body = Done | Piece rx_atom rx_body | Rep rx_atom quantifier rx_body | Bar rx_body

primrec print_quantifier :: "quantifier \<Rightarrow> string" where
  "print_quantifier QStar = ''*''"
| "print_quantifier QPlus = ''+''"
| "print_quantifier QQuestion = ''?''"
| "print_quantifier (QExact m) = ''{'' @ m @ ''}''"
| "print_quantifier (QAtLeast m) = ''{'' @ m @ '',}''"
| "print_quantifier (QBetween m n) = ''{'' @ m @ '','' @ n @ ''}''"
| "print_quantifier (QUpTo n) = ''{,'' @ n @ ''}''"

primrec print_atom :: "rx_atom \<Rightarrow> string" and print_body :: "rx_body \<Rightarrow> string" where
  "print_atom (Lit c) = [c]"
| "print_atom (Esc c) = [CHR 0x5C, c]"
| "print_atom (Cls s) = ''['' @ s @ '']''"
| "print_atom (Grp capture b) = ''('' @ (if capture then [] else ''?:'') @ print_body b @ '')''"
| "print_body Done = []"
| "print_body (Piece a b) = print_atom a @ print_body b"
| "print_body (Rep a q b) = print_atom a @ print_quantifier q @ print_body b"
| "print_body (Bar b) = ''|'' @ print_body b"

fun class_body :: "string \<Rightarrow> bool" where
  "class_body [] = True"
| "class_body (c # cs) =
     (if c = CHR 0x5C then (case cs of [] \<Rightarrow> False | d # ds \<Rightarrow> class_body ds) else c \<noteq> CHR '']'' \<and> class_body cs)"

definition digits :: "string \<Rightarrow> bool" where
  "digits ds \<longleftrightarrow> ds \<noteq> [] \<and> list_all ascii_digit ds"

primrec wf_quantifier :: "quantifier \<Rightarrow> bool" where
  "wf_quantifier QStar = True"
| "wf_quantifier QPlus = True"
| "wf_quantifier QQuestion = True"
| "wf_quantifier (QExact m) = digits m"
| "wf_quantifier (QAtLeast m) = digits m"
| "wf_quantifier (QBetween m n) = (digits m \<and> digits n \<and> digits_value 0 m \<le> digits_value 0 n)"
| "wf_quantifier (QUpTo n) = list_all ascii_digit n"

primrec wf_atom :: "rx_atom \<Rightarrow> bool" and wf_body :: "rx_body \<Rightarrow> bool" where
  "wf_atom (Lit c) = (c \<notin> {CHR 0x5C, CHR ''['', CHR ''('', CHR '')'', CHR ''|'', CHR ''*'', CHR ''+'', CHR ''?'', CHR ''{''})"
| "wf_atom (Esc c) = (\<not> latin_digit c \<and> c \<notin> set ''kKgG'')"
| "wf_atom (Cls s) = (s \<noteq> [] \<and> s \<noteq> ''^'' \<and> class_body s)"
| "wf_atom (Grp capture b) = wf_body b"
| "wf_body Done = True"
| "wf_body (Piece a b) = (wf_atom a \<and> wf_body b)"
| "wf_body (Rep a q b) = (wf_atom a \<and> wf_quantifier q \<and> wf_body b)"
| "wf_body (Bar b) = wf_body b"

text \<open>A flat item contains neither an alternation nor a repetition; in a simple pattern every repeated item is flat.\<close>

primrec flat_atom :: "rx_atom \<Rightarrow> bool" and flat_body :: "rx_body \<Rightarrow> bool" where
  "flat_atom (Lit c) = True"
| "flat_atom (Esc c) = True"
| "flat_atom (Cls s) = True"
| "flat_atom (Grp capture b) = flat_body b"
| "flat_body Done = True"
| "flat_body (Piece a b) = (flat_atom a \<and> flat_body b)"
| "flat_body (Rep a q b) = False"
| "flat_body (Bar b) = False"

primrec simple_atom :: "rx_atom \<Rightarrow> bool" and simple_body :: "rx_body \<Rightarrow> bool" where
  "simple_atom (Lit c) = True"
| "simple_atom (Esc c) = True"
| "simple_atom (Cls s) = True"
| "simple_atom (Grp capture b) = simple_body b"
| "simple_body Done = True"
| "simple_body (Piece a b) = (simple_atom a \<and> simple_body b)"
| "simple_body (Rep a q b) = (simple_atom a \<and> flat_atom a \<and> simple_body b)"
| "simple_body (Bar b) = simple_body b"

primrec outer_bar :: "rx_body \<Rightarrow> bool" where
  "outer_bar Done = False"
| "outer_bar (Piece a b) = outer_bar b"
| "outer_bar (Rep a q b) = outer_bar b"
| "outer_bar (Bar b) = True"

text \<open>No quantifier leaves out its lower bound.\<close>

primrec bounded_atom :: "rx_atom \<Rightarrow> bool" and bounded_body :: "rx_body \<Rightarrow> bool" where
  "bounded_atom (Lit c) = True"
| "bounded_atom (Esc c) = True"
| "bounded_atom (Cls s) = True"
| "bounded_atom (Grp capture b) = bounded_body b"
| "bounded_body Done = True"
| "bounded_body (Piece a b) = (bounded_atom a \<and> bounded_body b)"
| "bounded_body (Rep a q b) = (bounded_atom a \<and> (\<forall>n. q \<noteq> QUpTo n) \<and> bounded_body b)"
| "bounded_body (Bar b) = bounded_body b"

section \<open>The scanner on printed patterns\<close>

text \<open>What the scanner has done after an item: the same operations, applied along the structure of the pattern.\<close>

primrec run_quantifier :: "quantifier \<Rightarrow> scan_state \<Rightarrow> scan_state" where
  "run_quantifier QStar st = apply_quantifier True st"
| "run_quantifier QPlus st = apply_quantifier False st"
| "run_quantifier QQuestion st = apply_quantifier True st"
| "run_quantifier (QExact m) st = apply_braced (digits_value 0 m = 0) st"
| "run_quantifier (QAtLeast m) st = apply_braced (digits_value 0 m = 0) st"
| "run_quantifier (QBetween m n) st = apply_braced (digits_value 0 m = 0) st"
| "run_quantifier (QUpTo n) st = literal st"

primrec run_atom :: "rx_atom \<Rightarrow> scan_state \<Rightarrow> scan_state" and run_body :: "rx_body \<Rightarrow> scan_state \<Rightarrow> scan_state" where
  "run_atom (Lit c) st = literal st"
| "run_atom (Esc c) st = escaped c st"
| "run_atom (Cls s) st = st\<lparr>sc_last := Some AtomClass\<rparr>"
| "run_atom (Grp capture b) st = close_group (run_body b (open_group [] st))"
| "run_body Done st = st"
| "run_body (Piece a b) st = run_body b (run_atom a st)"
| "run_body (Rep a q b) st = run_body b (run_quantifier q (run_atom a st))"
| "run_body (Bar b) st = run_body b (alternation st)"

lemma in_class_frame [simp]:
  "sc_in_class (add_error i st) = sc_in_class st" "sc_in_class (literal st) = sc_in_class st"
  "sc_in_class (mark_current_quantifier z st) = sc_in_class st" "sc_in_class (check_quantified st) = sc_in_class st"
  "sc_in_class (apply_quantifier z st) = sc_in_class st" "sc_in_class (apply_braced z st) = sc_in_class st"
  "sc_in_class (escaped c st) = sc_in_class st" "sc_in_class (open_group r st) = sc_in_class st"
  "sc_in_class (alternation st) = sc_in_class st" "sc_in_class (close_group st) = sc_in_class st"
  "sc_in_class (run_quantifier q st) = sc_in_class st"
  by (simp_all add: add_error_def literal_def mark_current_quantifier_def check_quantified_def apply_quantifier_def
      apply_braced_def escaped_def open_group_def alternation_def close_group_def Let_def split: option.split
      regex_atom.split list.split, cases q, simp_all add: literal_def apply_quantifier_def apply_braced_def
      add_error_def mark_current_quantifier_def check_quantified_def Let_def split: option.split regex_atom.split)

lemma in_class_run [simp]:
  "sc_in_class (run_atom a st) = sc_in_class st" "sc_in_class (run_body b st) = sc_in_class st"
  by (induction a and b arbitrary: st and st) simp_all

lemma ascii_latin_digit: "ascii_digit c \<Longrightarrow> latin_digit c"
  by (simp add: latin_digit_def)

lemma special_not_digit [simp]:
  "\<not> latin_digit (CHR ''}'')" "\<not> latin_digit (CHR '','')" "\<not> ascii_digit (CHR ''}'')" "\<not> ascii_digit (CHR '','')"
  by (simp_all add: latin_digit_def ascii_digit_def)

lemma digits_span:
  assumes "list_all ascii_digit ds" and "\<not> latin_digit c"
  shows "takeWhile latin_digit (ds @ c # r) = ds" "dropWhile latin_digit (ds @ c # r) = c # r"
  using assms ascii_latin_digit by (induction ds) auto

lemma parse_braced_printed:
  "digits m \<Longrightarrow> parse_braced_quantifier (m @ CHR ''}'' # r) = Inr (Some (digits_value 0 m = 0, r))"
  "digits m \<Longrightarrow> parse_braced_quantifier (m @ CHR '','' # CHR ''}'' # r) = Inr (Some (digits_value 0 m = 0, r))"
  "digits m \<Longrightarrow> digits n \<Longrightarrow> digits_value 0 m \<le> digits_value 0 n \<Longrightarrow>
     parse_braced_quantifier (m @ CHR '','' # n @ CHR ''}'' # r) = Inr (Some (digits_value 0 m = 0, r))"
  "parse_braced_quantifier (CHR '','' # r) = Inr None"
  by (auto simp: parse_braced_quantifier_def digits_def digits_span int_of_digits_def res_bind_def Let_def)

lemma scan_digits:
  assumes "\<not> sc_in_class st" and "list_all ascii_digit ds"
  shows "scan st (ds @ rest) = scan (if ds = [] then st else literal st) rest"
  using assms
proof (induction ds arbitrary: st)
  case (Cons c ds)
  have "c \<notin> {CHR 0x5C, CHR ''['', CHR ''('', CHR '')'', CHR ''|'', CHR ''*'', CHR ''+'', CHR ''?'', CHR ''{''}"
    using Cons.prems(2) by (auto simp: ascii_digit_def)
  with Cons show ?case by (simp add: literal_def)
qed simp

lemma scan_quantifier:
  assumes "\<not> sc_in_class st" and "wf_quantifier q"
  shows "scan st (print_quantifier q @ rest) = scan (run_quantifier q st) rest"
  using assms
proof (cases q)
  case (QUpTo n)
  with assms have "scan st (print_quantifier q @ rest) = scan (literal (literal st)) (n @ CHR ''}'' # rest)"
    by (simp add: parse_braced_printed)
  also have "\<dots> = scan (literal st) rest"
    using assms QUpTo by (simp add: scan_digits literal_def)
  finally show ?thesis using QUpTo by simp
qed (simp_all add: parse_braced_printed)

lemma scan_class:
  assumes "sc_in_class st" and "class_body s"
  shows "scan st (s @ CHR '']'' # rest) = scan (st\<lparr>sc_in_class := False, sc_last := Some AtomClass\<rparr>) rest"
  using assms
proof (induction s rule: class_body.induct)
  case (2 c cs)
  then show ?case by (cases cs) (auto split: if_splits)
qed simp

lemma print_not_question:
  "wf_atom a \<Longrightarrow> print_atom a \<noteq> [] \<and> hd (print_atom a) \<noteq> CHR ''?''"
  "wf_body b \<Longrightarrow> hd (print_body b @ CHR '')'' # rest) \<noteq> CHR ''?''"
  by (induction a and b) (auto simp: hd_append)

lemma open_group_printed:
  assumes "wf_body b"
  shows "open_group ((if capture then [] else ''?:'') @ print_body b @ CHR '')'' # rest) st = open_group [] st"
  using print_not_question(2)[OF assms, of rest] by (auto simp: open_group_def Let_def)

lemma take_not_question:
  "xs \<noteq> [] \<Longrightarrow> hd xs \<noteq> CHR ''?'' \<Longrightarrow> take 2 xs \<noteq> ''?:''"
  by (cases xs) auto

lemma scan_group:
  assumes "\<not> sc_in_class st" and "wf_body b"
    and body: "\<And>st rest. \<not> sc_in_class st \<Longrightarrow> scan st (print_body b @ rest) = scan (run_body b st) rest"
  shows "scan st (print_atom (Grp capture b) @ rest) = scan (run_atom (Grp capture b) st) rest"
proof -
  let ?cs = "(if capture then [] else ''?:'') @ print_body b @ CHR '')'' # rest"
  have "take 2 ?cs \<noteq> ''?:''" if capture
    using that print_not_question(2)[OF assms(2), of rest] by (intro take_not_question) auto
  then have "(if take 2 ?cs = ''?:'' then drop 2 ?cs else ?cs) = print_body b @ CHR '')'' # rest" by auto
  moreover have "scan st (CHR ''('' # ?cs) = scan (open_group ?cs st) (if take 2 ?cs = ''?:'' then drop 2 ?cs else ?cs)"
    using assms(1) by simp
  ultimately have "scan st (CHR ''('' # ?cs) = scan (open_group [] st) (print_body b @ CHR '')'' # rest)"
    using open_group_printed[OF assms(2)] by presburger
  also have "\<dots> = scan (close_group (run_body b (open_group [] st))) rest"
    using assms(1) by (simp add: body)
  finally show ?thesis by simp
qed

lemma scan_printed:
  "wf_atom a \<Longrightarrow> \<not> sc_in_class st \<Longrightarrow> scan st (print_atom a @ rest) = scan (run_atom a st) rest"
  "wf_body b \<Longrightarrow> \<not> sc_in_class st \<Longrightarrow> scan st (print_body b @ rest) = scan (run_body b st) rest"
proof (induction a and b arbitrary: st rest and st rest)
  case (Lit c)
  then show ?case by simp
next
  case (Esc c)
  then show ?case by simp
next
  case (Cls s)
  then show ?case by (cases st) (simp add: scan_class)
next
  case (Grp capture b)
  then show ?case by (intro scan_group) auto
next
  case (Rep a q b)
  then show ?case by (simp add: scan_quantifier)
qed simp_all

section \<open>What the scanner accepts\<close>

text \<open>The flags of a group, and the errors the items of a pattern raise.\<close>

definition quantifier_flags :: "quantifier \<Rightarrow> group_state" where
  "quantifier_flags q =
     (case q of
        QUpTo n \<Rightarrow> new_group
      | QPlus \<Rightarrow> new_group\<lparr>gs_quantifier := True\<rparr>
      | QExact m \<Rightarrow> new_group\<lparr>gs_quantifier := True, gs_optional := digits_value 0 m = 0\<rparr>
      | QAtLeast m \<Rightarrow> new_group\<lparr>gs_quantifier := True, gs_optional := digits_value 0 m = 0\<rparr>
      | QBetween m n \<Rightarrow> new_group\<lparr>gs_quantifier := True, gs_optional := digits_value 0 m = 0\<rparr>
      | _ \<Rightarrow> new_group\<lparr>gs_quantifier := True, gs_optional := True\<rparr>)"

primrec atom_flags :: "rx_atom \<Rightarrow> group_state" and body_flags :: "rx_body \<Rightarrow> group_state" where
  "atom_flags (Lit c) = new_group"
| "atom_flags (Esc c) = new_group"
| "atom_flags (Cls s) = new_group"
| "atom_flags (Grp capture b) = body_flags b"
| "body_flags Done = new_group"
| "body_flags (Piece a b) = merge_group (atom_flags a) (body_flags b)"
| "body_flags (Rep a q b) = merge_group (atom_flags a) (merge_group (quantifier_flags q) (body_flags b))"
| "body_flags (Bar b) = merge_group (new_group\<lparr>gs_alternation := True\<rparr>) (body_flags b)"

definition unflagged :: "group_state \<Rightarrow> bool" where
  "unflagged g \<longleftrightarrow> \<not> (gs_alternation g \<or> gs_quantifier g \<or> gs_optional g)"

lemma merge_group_assoc: "merge_group (merge_group a b) c = merge_group a (merge_group b c)"
  by (simp add: merge_group_def disj_assoc)

lemma merge_group_new [simp]: "merge_group g new_group = g" "merge_group new_group g = g"
  by (simp_all add: merge_group_def new_group_def)

lemma merge_top_merge [simp]: "merge_top b (merge_top a gs) = merge_top (merge_group a b) gs"
  by (simp add: merge_top_def merge_group_assoc split: list.split)

lemma merge_top_new [simp]: "merge_top new_group gs = gs"
  by (simp add: merge_top_def split: list.split)

lemma merge_top_Nil_iff [simp]: "merge_top g gs = [] \<longleftrightarrow> gs = []" "merge_top g [] = []"
  by (simp_all add: merge_top_def split: list.split)

lemma merge_top_Cons [simp]: "merge_top g (h # gs) = merge_group h g # gs"
  by (simp add: merge_top_def)

lemma add_error_frame [simp]:
  "sc_groups (add_error i st) = sc_groups st" "sc_last (add_error i st) = sc_last st" "sc_errors (add_error i st) \<noteq> []"
  by (auto simp: add_error_def)

lemma check_quantified_frame [simp]: "sc_groups (check_quantified st) = sc_groups st"
  by (simp add: check_quantified_def split: option.split regex_atom.split)

primrec atom_kind :: "rx_atom \<Rightarrow> regex_atom" where
  "atom_kind (Lit c) = AtomLiteral"
| "atom_kind (Esc c) = AtomEscaped"
| "atom_kind (Cls s) = AtomClass"
| "atom_kind (Grp capture b) = AtomGroup (body_flags b)"

definition quantifiable :: "regex_atom \<Rightarrow> bool" where
  "quantifiable k \<longleftrightarrow> (case k of AtomQuantifier \<Rightarrow> False | AtomGroup g \<Rightarrow> unflagged g | _ \<Rightarrow> True)"

lemma check_quantified_errors:
  "sc_last st = Some k \<Longrightarrow> sc_errors (check_quantified st) = [] \<longleftrightarrow> sc_errors st = [] \<and> quantifiable k"
  by (cases k) (auto simp: check_quantified_def quantifiable_def unflagged_def)

lemma apply_effect:
  assumes "sc_last st = Some k"
  shows "sc_groups (apply_quantifier z st) = merge_top (new_group\<lparr>gs_quantifier := True, gs_optional := z\<rparr>) (sc_groups st)"
    and "sc_groups (apply_braced z st) = merge_top (new_group\<lparr>gs_quantifier := True, gs_optional := z\<rparr>) (sc_groups st)"
    and "sc_errors (apply_quantifier z st) = [] \<longleftrightarrow> sc_errors st = [] \<and> quantifiable k"
    and "sc_errors (apply_braced z st) = [] \<longleftrightarrow> sc_errors st = [] \<and> quantifiable k"
  using assms check_quantified_errors[OF assms]
  by (simp_all add: apply_quantifier_def apply_braced_def mark_current_quantifier_def new_group_def)

lemma quantifiable_atom: "quantifiable (atom_kind a) \<longleftrightarrow> unflagged (atom_flags a)"
  by (cases a) (simp_all add: quantifiable_def unflagged_def new_group_def)

lemma run_quantifier_effect:
  assumes "sc_last st = Some (atom_kind a)"
  shows "sc_groups (run_quantifier q st) = merge_top (quantifier_flags q) (sc_groups st)
    \<and> (sc_errors (run_quantifier q st) = [] \<longleftrightarrow>
         sc_errors st = [] \<and> ((\<exists>n. q = QUpTo n) \<or> unflagged (atom_flags a)))"
  by (cases q) (simp_all add: apply_effect[OF assms] quantifiable_atom quantifier_flags_def literal_def new_group_def
      merge_top_new[unfolded new_group_def])

lemma flat_flags:
  "bounded_atom a \<Longrightarrow> unflagged (atom_flags a) \<longleftrightarrow> flat_atom a"
  "bounded_body b \<Longrightarrow> unflagged (body_flags b) \<longleftrightarrow> flat_body b"
proof (induction a and b)
  case (Rep a q b)
  then show ?case by (cases q) (simp_all add: unflagged_def merge_group_def quantifier_flags_def)
qed (auto simp: unflagged_def merge_group_def new_group_def)

lemma run_effect:
  "wf_atom a \<Longrightarrow> sc_groups (run_atom a st) = merge_top (atom_flags a) (sc_groups st)
     \<and> sc_last (run_atom a st) = Some (atom_kind a)
     \<and> (bounded_atom a \<longrightarrow> (sc_errors (run_atom a st) = [] \<longleftrightarrow> sc_errors st = [] \<and> simple_atom a))"
  "wf_body b \<Longrightarrow> sc_groups (run_body b st) = merge_top (body_flags b) (sc_groups st)
     \<and> (bounded_body b \<longrightarrow> (sc_errors (run_body b st) = [] \<longleftrightarrow>
          sc_errors st = [] \<and> simple_body b \<and> (sc_groups st = [] \<longrightarrow> \<not> outer_bar b)))"
proof (induction a and b arbitrary: st and st)
  case (Grp capture b)
  have "sc_groups (open_group [] st) = new_group # sc_groups st" "sc_errors (open_group [] st) = sc_errors st"
    by (simp_all add: open_group_def)
  with Grp show ?case by (simp add: close_group_def)
next
  case (Rep a q b)
  let ?st = "run_atom a st"
  have "sc_last ?st = Some (atom_kind a)" using Rep by simp
  note q = run_quantifier_effect[OF this, of q]
  show ?case using Rep q flat_flags(1)[of a] by (auto simp: merge_group_assoc)
next
  case (Bar b)
  then show ?case by (auto simp: alternation_def)
qed (auto simp: literal_def escaped_def)

lemma safe_regex_printed:
  assumes "wf_body r"
  shows "safe_regex_errors (JStr (print_body r)) = Inr [] \<longleftrightarrow>
     print_body r \<noteq> [] \<and> length (print_body r) \<le> 1000
     \<and> sc_errors (run_body r \<lparr>sc_errors = [], sc_groups = [], sc_last = None, sc_in_class = False\<rparr>) = []"
  using scan_printed(2)[OF assms, of _ "[]"] run_effect(2)[OF assms]
  by (simp add: safe_regex_errors_def res_bind_def)



text \<open>
  A quantifier that leaves out its lower bound, as in \<open>(a+){,}\<close>, is read as literal text by the check. So
  every accepted group may be repeated with it, whatever it contains, and the pattern is accepted
  although Python reads nested quantifiers.
\<close>

theorem quantifier_without_lower_bound_is_not_checked:
  assumes "wf_body b" and "bounded_body b" and "simple_body b" and "list_all ascii_digit n"
    and "length (print_body (Rep (Grp capture b) (QUpTo n) Done)) \<le> 1000"
  shows "safe_regex_errors (JStr (print_body (Rep (Grp capture b) (QUpTo n) Done))) = Inr []"
proof -
  let ?st = "\<lparr>sc_errors = [], sc_groups = [], sc_last = None, sc_in_class = False\<rparr>"
  have "sc_errors (run_atom (Grp capture b) ?st) = []"
    using run_effect(1)[of "Grp capture b" ?st] assms(1-3) by simp
  then have "sc_errors (run_body (Rep (Grp capture b) (QUpTo n) Done) ?st) = []" by (simp add: literal_def)
  then show ?thesis
    using safe_regex_printed[of "Rep (Grp capture b) (QUpTo n) Done"] assms(1,4,5) by simp
qed

theorem quantifier_without_lower_bound_is_not_checked_witness:
  "safe_regex_errors (JStr ''(a+){,}'') = Inr []
   \<and> print_body (Rep (Grp True (Rep (Lit CHR ''a'') QPlus Done)) (QUpTo []) Done) = ''(a+){,}''
   \<and> \<not> simple_body (Rep (Grp True (Rep (Lit CHR ''a'') QPlus Done)) (QUpTo []) Done)"
  using quantifier_without_lower_bound_is_not_checked[of "Rep (Lit CHR ''a'') QPlus Done" "[]" True] by simp

end
