(* ===== verification/Json_Schema.thy ===== *)
theory Json_Schema
  imports Json_Values Safe_Regex
begin

text \<open>
  The JSON Schemas of assertions: \<open>schema_pattern_errors\<close> of \<open>test_cases/safe_regex.py\<close>, the checks of
  \<open>test_cases/assertions.py\<close> on a schema and on the value it is applied to, and the validator
  \<open>prompt_center/validator.py\<close>.

  \<open>Inl\<close> is an exception. The path in front of each message is left out. \<open>re_search\<close> stands for \<open>re.search\<close>
  without flags and gives \<open>None\<close> where it raises \<open>re.error\<close>.
\<close>

datatype eval_error =
    TargetMissing    \<comment> \<open>KeyError\<close>
  | EvaluationError  \<comment> \<open>AssertionEvaluationError\<close>
  | OtherException   \<comment> \<open>any other exception\<close>

datatype schema_issue =
    SchemaNotObject
  | PatternNotText
  | PatternUnsafe regex_issue
  | TypeUnsupported
  | RequiredNotStrings
  | PropertiesNotObject

lemma res_map_cong [fundef_cong]:
  assumes "xs = ys" and "\<And>x. x \<in> set ys \<Longrightarrow> f x = g x"
  shows "res_map f xs = res_map g ys"
proof -
  have "res_map f ys = res_map g ys"
    using assms(2)
  proof (induction ys)
    case (Cons y ys)
    have "res_map f ys = res_map g ys" by (rule Cons.IH) (simp add: Cons.prems)
    with Cons.prems show ?case by (simp split: sum.split)
  qed simp
  with assms(1) show ?thesis by simp
qed

section \<open>Patterns of a schema\<close>

definition object_children :: "(string \<times> json) list \<Rightarrow> string \<Rightarrow> json list" where
  "object_children m keyword = (case map_of m keyword of Some (JObj children) \<Rightarrow> map snd children | _ \<Rightarrow> [])"

definition object_child :: "(string \<times> json) list \<Rightarrow> string \<Rightarrow> json list" where
  "object_child m keyword = (case map_of m keyword of Some (JObj child) \<Rightarrow> [JObj child] | _ \<Rightarrow> [])"

definition list_children :: "(string \<times> json) list \<Rightarrow> string \<Rightarrow> json list" where
  "list_children m keyword = (case map_of m keyword of Some (JList children) \<Rightarrow> children | _ \<Rightarrow> [])"

definition subschemas :: "(string \<times> json) list \<Rightarrow> json list" where
  "subschemas m =
     concat (map (object_children m) [''properties'', ''patternProperties'', ''dependentSchemas''])
     @ concat (map (object_child m) [''items'', ''additionalProperties'', ''contains'', ''propertyNames'', ''not'', ''if'',
                  ''then'', ''else''])
     @ concat (map (list_children m) [''allOf'', ''anyOf'', ''oneOf'', ''prefixItems''])"

definition own_pattern_errors :: "(string \<times> json) list \<Rightarrow> eval_error + schema_issue list" where
  "own_pattern_errors m =
     (case map_of m ''pattern'' of
        None \<Rightarrow> Inr []
      | Some (JStr p) \<Rightarrow>
          (case safe_regex_errors (JStr p) of Inl _ \<Rightarrow> Inl OtherException | Inr issues \<Rightarrow> Inr (map PatternUnsafe issues))
      | Some _ \<Rightarrow> Inr [PatternNotText])"

lemma size_subschemas [termination_simp]:
  assumes "s \<in> set (subschemas m)"
  shows "size s < Suc (size_list (\<lambda>x. Suc (size (snd x))) m)"
proof -
  consider k where "s \<in> set (object_children m k)" | k where "s \<in> set (object_child m k)"
    | k where "s \<in> set (list_children m k)"
    using assms by (auto simp: subschemas_def)
  then show ?thesis
  proof cases
    case (1 k)
    then obtain ps where "map_of m k = Some (JObj ps)" "s \<in> snd ` set ps"
      by (cases "map_of m k") (fastforce simp: object_children_def split: json.splits)+
    then show ?thesis using size_nested size_values(1) by metis
  next
    case (2 k)
    then have "map_of m k = Some s"
      by (cases "map_of m k") (auto simp: object_child_def split: json.splits)
    then show ?thesis by (rule size_obj_member(2))
  next
    case (3 k)
    then obtain xs where "map_of m k = Some (JList xs)" "s \<in> set xs"
      by (cases "map_of m k") (fastforce simp: list_children_def split: json.splits)+
    then show ?thesis using size_nested size_values(2) by metis
  qed
qed

fun schema_pattern_errors :: "json \<Rightarrow> eval_error + schema_issue list" where
  "schema_pattern_errors (JObj m) =
     res_bind (own_pattern_errors m) (\<lambda>own.
     res_bind (res_map schema_pattern_errors (subschemas m)) (\<lambda>children. Inr (own @ concat children)))"
| "schema_pattern_errors _ = Inr [SchemaNotObject]"

text \<open>\<open>_schema_definition_errors\<close>\<close>

definition schema_types :: "string list" where
  "schema_types = [''object'', ''array'', ''string'', ''number'', ''integer'', ''boolean'', ''null'']"

definition type_errors :: "(string \<times> json) list \<Rightarrow> eval_error + schema_issue list" where
  "type_errors m =
     (case map_of m ''type'' of
        None \<Rightarrow> Inr []
      | Some JNull \<Rightarrow> Inr []
      | Some t \<Rightarrow>
          (let ts = (case t of JList xs \<Rightarrow> xs | _ \<Rightarrow> [t]);
               known = (\<lambda>v. case v of JStr s \<Rightarrow> s \<in> set schema_types | _ \<Rightarrow> False)
           in if ts = [] then Inr [TypeUnsupported]
              else (case find (\<lambda>v. \<not> known v) ts of
                      None \<Rightarrow> Inr []
                    | Some v \<Rightarrow> if hashable v then Inr [TypeUnsupported] else Inl OtherException)))"

definition required_errors :: "(string \<times> json) list \<Rightarrow> schema_issue list" where
  "required_errors m =
     (case map_of m ''required'' of
        None \<Rightarrow> []
      | Some JNull \<Rightarrow> []
      | Some (JList xs) \<Rightarrow>
          (if list_all (\<lambda>x. case x of JStr _ \<Rightarrow> True | _ \<Rightarrow> False) xs then [] else [RequiredNotStrings])
      | Some _ \<Rightarrow> [RequiredNotStrings])"

lemma size_properties [termination_simp]:
  "map_of m k = Some (JObj ps) \<Longrightarrow> v \<in> snd ` set ps \<Longrightarrow> size v < Suc (size_list (\<lambda>x. Suc (size (snd x))) m)"
  using size_nested size_values(1) by metis

fun schema_definition_errors :: "json \<Rightarrow> eval_error + schema_issue list" where
  "schema_definition_errors (JObj m) =
     res_bind (schema_pattern_errors (JObj m)) (\<lambda>patterns.
     res_bind (type_errors m) (\<lambda>types.
     res_bind (case map_of m ''properties'' of
                 None \<Rightarrow> Inr []
               | Some JNull \<Rightarrow> Inr []
               | Some (JObj ps) \<Rightarrow> res_bind (res_map schema_definition_errors (map snd ps)) (\<lambda>es. Inr (concat es))
               | Some _ \<Rightarrow> Inr [PropertiesNotObject]) (\<lambda>properties.
     res_bind (case map_of m ''items'' of
                 None \<Rightarrow> Inr []
               | Some s \<Rightarrow> if s = JNull then Inr [] else schema_definition_errors s) (\<lambda>items.
     Inr (patterns @ types @ required_errors m @ properties @ items)))))"
| "schema_definition_errors _ = Inr [SchemaNotObject]"

fun schema_contains_pattern :: "json \<Rightarrow> bool" where
  "schema_contains_pattern (JObj m) =
     (''pattern'' \<in> fst ` set m \<or> list_ex (\<lambda>(k, child). schema_contains_pattern child) m)"
| "schema_contains_pattern (JList xs) = list_ex schema_contains_pattern xs"
| "schema_contains_pattern _ = False"

text \<open>\<open>_reject_overlong_strings\<close> raises when this holds.\<close>

fun has_overlong_string :: "json \<Rightarrow> bool" where
  "has_overlong_string (JStr s) = (20000 < length s)"
| "has_overlong_string (JObj m) = list_ex (\<lambda>(k, child). has_overlong_string child) m"
| "has_overlong_string (JList xs) = list_ex has_overlong_string xs"
| "has_overlong_string _ = False"

section \<open>Applying a schema\<close>

datatype violation =
    WrongType
  | NotInEnum
  | NotConst
  | FieldMissing
  | FieldNotAllowed
  | TooFewItems
  | TooManyItems
  | TextTooShort
  | PatternMismatch
  | BelowMinimum
  | AboveMaximum

fun matches_type :: "json \<Rightarrow> string \<Rightarrow> bool" where
  "matches_type v expected =
     (if expected = ''object'' then (case v of JObj _ \<Rightarrow> True | _ \<Rightarrow> False)
      else if expected = ''array'' then (case v of JList _ \<Rightarrow> True | _ \<Rightarrow> False)
      else if expected = ''string'' then (case v of JStr _ \<Rightarrow> True | _ \<Rightarrow> False)
      else if expected = ''integer'' then (case v of JInt _ \<Rightarrow> True | _ \<Rightarrow> False)
      else if expected = ''number'' then (case v of JInt _ \<Rightarrow> True | JFloat _ \<Rightarrow> True | _ \<Rightarrow> False)
      else if expected = ''boolean'' then (case v of JBool _ \<Rightarrow> True | _ \<Rightarrow> False)
      else if expected = ''null'' then v = JNull
      else True)"

text \<open>\<open>any(_matches_type(value, item) for item in expected)\<close>; looking up a list or an object raises.\<close>

primrec matches_any_type :: "json \<Rightarrow> json list \<Rightarrow> eval_error + bool" where
  "matches_any_type v [] = Inr False"
| "matches_any_type v (t # ts) =
     (if \<not> hashable t then Inl OtherException
      else if (case t of JStr s \<Rightarrow> matches_type v s | _ \<Rightarrow> True) then Inr True
      else matches_any_type v ts)"

text \<open>Whether the type of the value is refused, which ends the validation.\<close>

definition type_refused :: "json \<Rightarrow> (string \<times> json) list \<Rightarrow> eval_error + bool" where
  "type_refused v m =
     (case map_of m ''type'' of
        Some (JStr s) \<Rightarrow> Inr (\<not> matches_type v s)
      | Some (JList ts) \<Rightarrow> res_bind (matches_any_type v ts) (\<lambda>ok. Inr (\<not> ok))
      | _ \<Rightarrow> Inr False)"

definition violation_if :: "violation \<Rightarrow> bool option \<Rightarrow> eval_error + violation list" where
  "violation_if x b = (case b of None \<Rightarrow> Inl OtherException | Some b \<Rightarrow> Inr (if b then [x] else []))"

definition enum_violations :: "json \<Rightarrow> (string \<times> json) list \<Rightarrow> eval_error + violation list" where
  "enum_violations v m =
     (case map_of m ''enum'' of None \<Rightarrow> Inr [] | Some c \<Rightarrow> violation_if NotInEnum (map_option Not (py_in v c)))"

definition const_violations :: "json \<Rightarrow> (string \<times> json) list \<Rightarrow> violation list" where
  "const_violations v m =
     (case map_of m ''const'' of None \<Rightarrow> [] | Some c \<Rightarrow> if py_eq v c then [] else [NotConst])"

definition required_violations :: "(string \<times> json) list \<Rightarrow> (string \<times> json) list \<Rightarrow> eval_error + violation list" where
  "required_violations obj m =
     (case map_of m ''required'' of
        Some (JList ks) \<Rightarrow>
          res_bind (res_map (\<lambda>k. violation_if FieldMissing (map_option Not (py_in k (JObj obj)))) ks) (\<lambda>vs. Inr (concat vs))
      | _ \<Rightarrow> Inr [])"

definition extra_violations :: "(string \<times> json) list \<Rightarrow> (string \<times> json) list \<Rightarrow> (string \<times> json) list \<Rightarrow> violation list" where
  "extra_violations obj m properties =
     (if map_of m ''additionalProperties'' = Some (JBool False)
      then map (\<lambda>_. FieldNotAllowed) (filter (\<lambda>(k, _). k \<notin> fst ` set properties) obj) else [])"

definition length_violations :: "nat \<Rightarrow> (string \<times> json) list \<Rightarrow> violation list" where
  "length_violations n m =
     (case Option.bind (map_of m ''minItems'') py_int_value of
        Some lo \<Rightarrow> if int n < lo then [TooFewItems] else [] | None \<Rightarrow> [])
     @ (case Option.bind (map_of m ''maxItems'') py_int_value of
          Some hi \<Rightarrow> if hi < int n then [TooManyItems] else [] | None \<Rightarrow> [])"

definition text_violations ::
  "(string \<Rightarrow> string \<Rightarrow> bool option) \<Rightarrow> string \<Rightarrow> (string \<times> json) list \<Rightarrow> eval_error + violation list" where
  "text_violations re_search s m =
     (let short = (case Option.bind (map_of m ''minLength'') py_int_value of
                     Some lo \<Rightarrow> if int (length s) < lo then [TextTooShort] else [] | None \<Rightarrow> [])
      in case map_of m ''pattern'' of
           Some (JStr p) \<Rightarrow>
             res_bind (violation_if PatternMismatch (map_option Not (re_search p s))) (\<lambda>vs. Inr (short @ vs))
         | _ \<Rightarrow> Inr short)"

definition number_violations :: "json \<Rightarrow> (string \<times> json) list \<Rightarrow> eval_error + violation list" where
  "number_violations v m =
     res_bind (case map_of m ''minimum'' of None \<Rightarrow> Inr [] | Some lo \<Rightarrow> violation_if BelowMinimum (py_lt v lo)) (\<lambda>below.
     res_bind (case map_of m ''maximum'' of None \<Rightarrow> Inr [] | Some hi \<Rightarrow> violation_if AboveMaximum (py_lt hi v)) (\<lambda>above.
     Inr (below @ above)))"

text \<open>\<open>_validate\<close>: the violations in the order the code appends them.\<close>

fun validate_schema :: "(string \<Rightarrow> string \<Rightarrow> bool option) \<Rightarrow> json \<Rightarrow> json \<Rightarrow> eval_error + violation list" where
  "validate_schema re_search v (JObj m) =
     res_bind (type_refused v m) (\<lambda>refused.
     if refused then Inr [WrongType]
     else
       res_bind (enum_violations v m) (\<lambda>enum.
       res_bind
         (case v of
            JObj obj \<Rightarrow>
              res_bind (required_violations obj m) (\<lambda>required.
              case map_of m ''properties'' of
                None \<Rightarrow> Inr (required @ extra_violations obj m [])
              | Some (JObj ps) \<Rightarrow>
                  res_bind (res_map (\<lambda>(k, s). case map_of obj k of None \<Rightarrow> Inr [] | Some x \<Rightarrow> validate_schema re_search x s) ps)
                    (\<lambda>vs. Inr (required @ concat vs @ extra_violations obj m ps))
              | Some _ \<Rightarrow> Inr required)
          | JList xs \<Rightarrow>
              (case map_of m ''items'' of
                 Some (JObj s) \<Rightarrow>
                   res_bind (res_map (\<lambda>x. validate_schema re_search x (JObj s)) xs)
                     (\<lambda>vs. Inr (length_violations (length xs) m @ concat vs))
               | _ \<Rightarrow> Inr (length_violations (length xs) m))
          | JStr s \<Rightarrow> text_violations re_search s m
          | JInt _ \<Rightarrow> number_violations v m
          | JFloat _ \<Rightarrow> number_violations v m
          | _ \<Rightarrow> Inr []) (\<lambda>specific.
       Inr (enum @ const_violations v m @ specific))))"
| "validate_schema re_search v _ = Inr []"

section \<open>Regular expressions the validator runs\<close>

definition safe_search :: "string \<Rightarrow> string \<Rightarrow> bool" where
  "safe_search p s \<longleftrightarrow> safe_regex_errors (JStr p) = Inr [] \<and> length s \<le> 20000"

lemma schema_pattern_errors_none:
  assumes "schema_pattern_errors (JObj m) = Inr []"
  shows "own_pattern_errors m = Inr []" and "s \<in> set (subschemas m) \<Longrightarrow> schema_pattern_errors s = Inr []"
proof -
  obtain own es where 1: "own_pattern_errors m = Inr own" "res_map schema_pattern_errors (subschemas m) = Inr es"
    and 2: "own @ concat es = []"
    using assms by (auto simp: res_bind_def split: sum.splits)
  then show "own_pattern_errors m = Inr []" by simp
  assume "s \<in> set (subschemas m)"
  then obtain y where "y \<in> set es" "schema_pattern_errors s = Inr y" using res_map_set_source[OF 1(2)] by blast
  with 2 show "schema_pattern_errors s = Inr []" by auto
qed

lemma child_schemas:
  "map_of m ''properties'' = Some (JObj ps) \<Longrightarrow> (k, s) \<in> set ps \<Longrightarrow> s \<in> set (subschemas m)"
  "map_of m ''items'' = Some (JObj s') \<Longrightarrow> JObj s' \<in> set (subschemas m)"
proof -
  assume 1: "map_of m ''properties'' = Some (JObj ps)" and 2: "(k, s) \<in> set ps"
  then have "s \<in> set (object_children m ''properties'')" by (force simp: object_children_def)
  then show "s \<in> set (subschemas m)" by (simp add: subschemas_def)
next
  assume "map_of m ''items'' = Some (JObj s')"
  then have "JObj s' \<in> set (object_child m ''items'')" by (simp add: object_child_def)
  then show "JObj s' \<in> set (subschemas m)" by (simp add: subschemas_def)
qed

lemma contains_pattern_child:
  "map_of m kw = Some (JObj ps) \<Longrightarrow> (k, s) \<in> set ps \<Longrightarrow> schema_contains_pattern s \<Longrightarrow> schema_contains_pattern (JObj m)"
  "map_of m kw = Some s \<Longrightarrow> schema_contains_pattern s \<Longrightarrow> schema_contains_pattern (JObj m)"
  by (fastforce simp: list_ex_iff dest!: map_of_SomeD)+

lemma overlong_child:
  "map_of obj k = Some x \<Longrightarrow> has_overlong_string x \<Longrightarrow> has_overlong_string (JObj obj)"
  "x \<in> set xs \<Longrightarrow> has_overlong_string x \<Longrightarrow> has_overlong_string (JList xs)"
  by (fastforce simp: list_ex_iff dest!: map_of_SomeD)+

lemma text_violations_agree:
  assumes "\<And>p s. safe_search p s \<Longrightarrow> f p s = g p s"
    and "own_pattern_errors m = Inr []" and "''pattern'' \<in> fst ` set m \<longrightarrow> length s \<le> 20000"
  shows "text_violations f s m = text_violations g s m"
proof (cases "map_of m ''pattern''")
  case (Some v)
  then have "length s \<le> 20000" using assms(3) by (force dest: map_of_SomeD)
  with Some assms(1,2) show ?thesis
    by (cases v) (auto simp: text_violations_def own_pattern_errors_def safe_search_def split: sum.splits)
qed (simp add: text_violations_def)

lemma res_map_agree: "(\<And>x. x \<in> set xs \<Longrightarrow> f x = g x) \<Longrightarrow> res_map f xs = res_map g xs"
  by (rule res_map_cong) simp_all

text \<open>The validator runs regular expressions only on checked patterns and texts of bounded length.\<close>

lemma validate_schema_agree:
  assumes "\<And>p s. safe_search p s \<Longrightarrow> f p s = g p s"
    and "schema_pattern_errors schema = Inr []" and "schema_contains_pattern schema \<longrightarrow> \<not> has_overlong_string v"
  shows "validate_schema f v schema = validate_schema g v schema"
  using assms(2,3)
proof (induction schema arbitrary: v rule: measure_induct_rule[where f = size])
  case (less schema)
  show ?case
  proof (cases schema)
    case (JObj m)
    note own = schema_pattern_errors_none(1)[OF less.prems(1)[unfolded JObj]]
      and sub = schema_pattern_errors_none(2)[OF less.prems(1)[unfolded JObj]]
    have field: "validate_schema f x s = validate_schema g x s"
      if "map_of m ''properties'' = Some (JObj ps)" "(k, s) \<in> set ps" "v = JObj obj" "map_of obj k = Some x"
      for ps k s obj x
    proof (rule less.IH)
      have "s \<in> snd ` set ps" using that(2) by force
      from size_properties[OF that(1) this] show "size s < size schema" by (simp add: JObj size_prod_simp)
      show "schema_pattern_errors s = Inr []" by (rule sub[OF child_schemas(1)[OF that(1,2)]])
      show "schema_contains_pattern s \<longrightarrow> \<not> has_overlong_string x"
        using that less.prems(2) contains_pattern_child(1)[OF that(1,2)] overlong_child(1)[OF that(4)]
        by (auto simp: JObj)
    qed
    have item: "validate_schema f x (JObj s) = validate_schema g x (JObj s)"
      if "map_of m ''items'' = Some (JObj s)" "v = JList xs" "x \<in> set xs" for s xs x
      using that less.prems(2) contains_pattern_child(2)[OF that(1)] overlong_child(2)[OF that(3)]
        size_obj_member(2)[OF that(1)]
      by (intro less.IH sub child_schemas(2)) (auto simp: JObj size_prod_simp)
    have props: "res_map (\<lambda>(k, s). case map_of obj k of None \<Rightarrow> Inr [] | Some x \<Rightarrow> validate_schema f x s) ps
        = res_map (\<lambda>(k, s). case map_of obj k of None \<Rightarrow> Inr [] | Some x \<Rightarrow> validate_schema g x s) ps"
      if "map_of m ''properties'' = Some (JObj ps)" "v = JObj obj" for ps obj
      using field[OF that(1) _ that(2)] by (intro res_map_agree) (auto split: option.split)
    have items: "res_map (\<lambda>x. validate_schema f x (JObj s)) xs = res_map (\<lambda>x. validate_schema g x (JObj s)) xs"
      if "map_of m ''items'' = Some (JObj s)" "v = JList xs" for s xs
      using item[OF that] by (intro res_map_agree) auto
    have texts: "text_violations f s m = text_violations g s m" if "v = JStr s" for s
      using that less.prems(2) own assms(1) by (intro text_violations_agree) (auto simp: JObj)
    have "validate_schema f v (JObj m) = validate_schema g v (JObj m)"
    proof (cases v)
      case (JObj obj)
      note eq = props[OF _ JObj]
      show ?thesis
      proof (cases "map_of m ''properties''")
        case (Some w)
        then show ?thesis unfolding JObj by (cases w) (simp_all add: eq cong: if_cong)
      qed (simp add: JObj cong: if_cong)
    next
      case (JList xs)
      note eq = items[OF _ JList]
      show ?thesis
      proof (cases "map_of m ''items''")
        case (Some w)
        then show ?thesis unfolding JList
          by (cases w) (simp_all add: eq validate_schema.simps(1)[of _ "JList xs" m] del: validate_schema.simps cong: if_cong)
      qed (simp add: JList cong: if_cong)
    qed (simp_all add: texts cong: if_cong)
    then show ?thesis by (simp only: JObj)
  qed simp_all
qed

end
