(* ===== verification/Assertion_Engine.thy ===== *)
theory Assertion_Engine
  imports Json_Schema Assertion_Results
begin

text \<open>
  \<open>test_cases/assertions.py\<close> and the class \<open>Assertion\<close> of \<open>test_cases/schemas.py\<close>: the definition of an
  assertion, its evaluation against the snapshot of a response, and the status it gets.

  Messages and the displayed values of a result are left out. Parameters are \<open>json.dumps\<close>, the regular
  expression engine (\<open>ev_search ascii pattern text\<close>, \<open>None\<close> for \<open>re.error\<close>; \<open>ev_compiles\<close> for \<open>re.compile\<close>) and the
  answer of the AI gateway.
\<close>

section \<open>Definitions\<close>

datatype assertion_source =
    SRC_STATUS_CODE | SRC_JSON_BODY | SRC_JSONPATH | SRC_RESPONSE_TEXT | SRC_HEADER | SRC_COOKIE | SRC_RESPONSE_TIME

datatype assertion_operator = OP_EQ | OP_CONTAINS | OP_LT | OP_LTE | OP_GT | OP_GTE

record assertion =
  an_kind :: assertion_kind
  an_type :: string
  an_name :: string
  an_enabled :: bool
  an_source :: "assertion_source option"
  an_expression :: "string option"
  an_operator :: "assertion_operator option"
  an_expected :: json
  an_prompt_id :: "int option"
  an_criteria :: "string option"
  an_confidence_threshold :: "rat option"

record response_snapshot =
  rsn_status_code :: int
  rsn_json_body :: json
  rsn_text :: "string option"
  rsn_headers :: "(string \<times> string) list"
  rsn_cookies :: "(string \<times> string) list"
  rsn_response_time_ms :: "int option"

record evaluation_env =
  ev_dumps :: "json \<Rightarrow> string"
  ev_search :: "bool \<Rightarrow> string \<Rightarrow> string \<Rightarrow> bool option"
  ev_compiles :: "string \<Rightarrow> bool"

definition source_or :: "assertion_source \<Rightarrow> assertion \<Rightarrow> assertion" where
  "source_or s a = a\<lparr>an_source := Some (case an_source a of None \<Rightarrow> s | Some t \<Rightarrow> t)\<rparr>"

definition operator_or :: "assertion_operator \<Rightarrow> assertion \<Rightarrow> assertion" where
  "operator_or o1 a = a\<lparr>an_operator := Some (case an_operator a of None \<Rightarrow> o1 | Some p \<Rightarrow> p)\<rparr>"

definition require_source :: "assertion_source list \<Rightarrow> assertion \<Rightarrow> bool" where
  "require_source allowed a = (case an_source a of None \<Rightarrow> False | Some s \<Rightarrow> s \<in> set allowed)"

definition require_operator :: "assertion_operator list \<Rightarrow> assertion \<Rightarrow> bool" where
  "require_operator allowed a = (case an_operator a of None \<Rightarrow> False | Some p \<Rightarrow> p \<in> set allowed)"

definition require_expression :: "assertion \<Rightarrow> bool" where
  "require_expression a = (case an_expression a of None \<Rightarrow> False | Some x \<Rightarrow> py_strip x \<noteq> [])"

definition require_expression_jsonpath :: "assertion \<Rightarrow> bool" where
  "require_expression_jsonpath a =
     (require_expression a \<and> (case an_expression a of Some (c # _) \<Rightarrow> c = CHR ''$'' | _ \<Rightarrow> False))"

definition ordering_operators :: "assertion_operator list" where
  "ordering_operators = [OP_EQ, OP_LT, OP_LTE, OP_GT, OP_GTE]"

fun is_text :: "json \<Rightarrow> bool" where
  "is_text (JStr s) = True"
| "is_text _ = False"

definition jsonpath_if_expression :: "assertion \<Rightarrow> assertion_source" where
  "jsonpath_if_expression a = (case an_expression a of Some (_ # _) \<Rightarrow> SRC_JSONPATH | _ \<Rightarrow> SRC_JSON_BODY)"

text \<open>The part of \<open>validate_definition\<close> for deterministic assertions: \<open>None\<close> is a refused definition.\<close>

definition accept_if :: "bool \<Rightarrow> assertion \<Rightarrow> assertion option" where
  "accept_if ok a = (if ok then Some a else None)"

definition validate_deterministic :: "evaluation_env \<Rightarrow> assertion \<Rightarrow> assertion option" where
  "validate_deterministic e a =
     (let t = an_type a; x = an_expected a in
      if an_prompt_id a \<noteq> None \<or> an_criteria a \<noteq> None \<or> an_confidence_threshold a \<noteq> None then None
      else if t = ''STATUS_CODE'' then
        (let b = operator_or OP_EQ (source_or SRC_STATUS_CODE a) in
         accept_if (require_source [SRC_STATUS_CODE] b \<and> require_operator [OP_EQ] b
           \<and> (case x of JInt n \<Rightarrow> 100 \<le> n \<and> n \<le> 599 | _ \<Rightarrow> False)) b)
      else if t = ''JSONPATH_EQUAL'' then
        (let b = operator_or OP_EQ (source_or SRC_JSON_BODY a) in
         accept_if (require_source [SRC_JSON_BODY, SRC_JSONPATH] b \<and> require_expression_jsonpath b
           \<and> require_operator [OP_EQ] b) b)
      else if t = ''CONTAINS'' then
        (let b = operator_or OP_CONTAINS (source_or SRC_RESPONSE_TEXT a) in
         accept_if (require_source [SRC_RESPONSE_TEXT, SRC_JSON_BODY, SRC_JSONPATH, SRC_HEADER, SRC_COOKIE] b
           \<and> (require_source [SRC_JSONPATH, SRC_HEADER, SRC_COOKIE] b \<longrightarrow> require_expression b)
           \<and> require_operator [OP_CONTAINS] b \<and> is_text x \<and> x \<noteq> JStr []) b)
      else if t = ''REGEX'' then
        (let b = operator_or OP_EQ (source_or SRC_RESPONSE_TEXT a) in
         accept_if (require_source [SRC_RESPONSE_TEXT, SRC_JSONPATH, SRC_HEADER, SRC_COOKIE] b
           \<and> (an_source b \<noteq> Some SRC_RESPONSE_TEXT \<longrightarrow> require_expression b)
           \<and> require_operator [OP_EQ] b \<and> is_text x \<and> x \<noteq> JStr []
           \<and> safe_regex_errors x = Inr [] \<and> (case x of JStr p \<Rightarrow> ev_compiles e p | _ \<Rightarrow> False)) b)
      else if t = ''HEADER'' \<or> t = ''COOKIE'' then
        (let s = (if t = ''HEADER'' then SRC_HEADER else SRC_COOKIE); b = operator_or OP_EQ (source_or s a) in
         accept_if (require_source [s] b \<and> require_expression b \<and> require_operator [OP_EQ, OP_CONTAINS] b \<and> is_text x) b)
      else if t = ''JSON_SCHEMA'' then
        (let b = operator_or OP_EQ (source_or SRC_JSON_BODY a) in
         accept_if (require_source [SRC_JSON_BODY] b \<and> require_operator [OP_EQ] b
           \<and> (case x of JObj _ \<Rightarrow> True | _ \<Rightarrow> False) \<and> schema_pattern_errors x = Inr []) b)
      else if t = ''RESPONSE_TIME'' then
        (let b = operator_or OP_LTE (source_or SRC_RESPONSE_TIME a) in
         accept_if (require_source [SRC_RESPONSE_TIME] b \<and> require_operator ordering_operators b
           \<and> (case x of JInt n \<Rightarrow> 0 \<le> n | JFloat r \<Rightarrow> 0 \<le> r | _ \<Rightarrow> False)) b)
      else if t = ''EXISTS'' \<or> t = ''NOT_EXISTS'' then
        (let b = source_or SRC_JSONPATH a in
         accept_if (require_source [SRC_JSONPATH, SRC_HEADER, SRC_COOKIE] b \<and> require_expression b
           \<and> (an_operator b = None \<or> require_operator [OP_EQ] b) \<and> x = JNull) b)
      else if t = ''ARRAY_LENGTH'' then
        (let b = operator_or OP_EQ (source_or (jsonpath_if_expression a) a) in
         accept_if (require_source [SRC_JSON_BODY, SRC_JSONPATH] b
           \<and> (an_source b = Some SRC_JSONPATH \<longrightarrow> require_expression_jsonpath b)
           \<and> require_operator ordering_operators b \<and> (case x of JInt n \<Rightarrow> 0 \<le> n | _ \<Rightarrow> False)) b)
      else if t = ''TYPE'' then
        (let b = operator_or OP_EQ (source_or (jsonpath_if_expression a) a) in
         accept_if (require_source [SRC_JSON_BODY, SRC_JSONPATH] b
           \<and> (an_source b = Some SRC_JSONPATH \<longrightarrow> require_expression_jsonpath b)
           \<and> require_operator [OP_EQ] b \<and> (case x of JStr s \<Rightarrow> s \<in> set schema_types | _ \<Rightarrow> False)) b)
      else None)"

definition assertion_fields_ok :: "assertion \<Rightarrow> bool" where
  "assertion_fields_ok a \<longleftrightarrow>
     an_type a \<noteq> [] \<and> length (an_type a) \<le> 32 \<and> an_name a \<noteq> [] \<and> length (an_name a) \<le> 255
     \<and> (case an_expression a of None \<Rightarrow> True | Some x \<Rightarrow> int (length x) \<le> 4000)
     \<and> (case an_prompt_id a of None \<Rightarrow> True | Some i \<Rightarrow> 0 < i)
     \<and> (case an_criteria a of None \<Rightarrow> True | Some x \<Rightarrow> int (length x) \<le> 4000)
     \<and> (case an_confidence_threshold a of None \<Rightarrow> True | Some c \<Rightarrow> 0 \<le> c \<and> c \<le> 1)"

definition validate_definition :: "evaluation_env \<Rightarrow> assertion \<Rightarrow> assertion option" where
  "validate_definition e a0 =
     (let a = a0\<lparr>an_name := py_strip (an_name a0), an_type := py_upper (py_strip (an_type a0))\<rparr> in
      if \<not> assertion_fields_ok a0 \<or> an_name a = [] then None
      else if an_kind a = AI_SEMANTIC \<or> an_type a = ''AI_SEMANTIC'' then
        (if an_type a \<noteq> ''AI_SEMANTIC'' \<or> an_source a \<noteq> None \<or> an_expression a \<noteq> None \<or> an_operator a \<noteq> None
            \<or> an_expected a \<noteq> JNull \<or> an_prompt_id a = None
            \<or> (case an_criteria a of None \<Rightarrow> True | Some c \<Rightarrow> py_strip c = [])
         then None
         else Some (a\<lparr>an_kind := AI_SEMANTIC,
                      an_confidence_threshold := Some (case an_confidence_threshold a of None \<Rightarrow> 8 / 10 | Some c \<Rightarrow> c)\<rparr>))
      else validate_deterministic e a)"

section \<open>The value an assertion looks at\<close>

datatype path_step = PathKey string | PathIndex nat

definition path_name_start :: "char \<Rightarrow> bool" where
  "path_name_start c \<longleftrightarrow> ascii_upper c \<or> ascii_lower c \<or> c = CHR ''_''"

definition path_quote :: "char \<Rightarrow> bool" where
  "path_quote c \<longleftrightarrow> c = CHR 0x27 \<or> c = CHR 0x22"

text \<open>\<open>_PATH_TOKEN.match\<close>: a step and the rest of the expression. \<open>safe_id_char\<close> is the class \<open>[A-Za-z0-9_-]\<close>.\<close>

definition path_token :: "string \<Rightarrow> (path_step \<times> string) option" where
  "path_token s =
     (case s of
        [] \<Rightarrow> None
      | c # cs \<Rightarrow>
          if c = CHR ''.'' then
            (if cs \<noteq> [] \<and> path_name_start (hd cs)
             then Some (PathKey (takeWhile safe_id_char cs), dropWhile safe_id_char cs) else None)
          else if c = CHR ''['' then
            (let ds = takeWhile ascii_digit cs; r = dropWhile ascii_digit cs in
             if ds \<noteq> [] then
               (if r \<noteq> [] \<and> hd r = CHR '']'' then Some (PathIndex (nat (digits_value 0 ds)), tl r) else None)
             else if cs \<noteq> [] \<and> path_quote (hd cs) then
               (let k = takeWhile (\<lambda>d. \<not> path_quote d) (tl cs); r1 = dropWhile (\<lambda>d. \<not> path_quote d) (tl cs) in
                if k \<noteq> [] \<and> r1 \<noteq> [] \<and> tl r1 \<noteq> [] \<and> hd (tl r1) = CHR '']'' then Some (PathKey k, tl (tl r1)) else None)
             else None)
          else None)"

text \<open>\<open>current[step]\<close>: text can be indexed like a list; every exception becomes \<open>KeyError\<close>.\<close>

fun path_apply :: "path_step \<Rightarrow> json \<Rightarrow> json option" where
  "path_apply (PathKey k) (JObj m) = map_of m k"
| "path_apply (PathIndex i) (JList xs) = (if i < length xs then Some (xs ! i) else None)"
| "path_apply (PathIndex i) (JStr s) = (if i < length s then Some (JStr [s ! i]) else None)"
| "path_apply _ _ = None"

lemma path_token_shorter:
  assumes "path_token s = Some (st, r)"
  shows "length r < length s"
proof -
  have drop: "length (dropWhile P t) \<le> length t" for P and t :: string by (rule length_dropWhile_le)
  obtain c cs where s: "s = c # cs" using assms by (cases s) (auto simp: path_token_def)
  show ?thesis
    using assms drop[of safe_id_char cs] drop[of ascii_digit cs] drop[of "\<lambda>d. \<not> path_quote d" "tl cs"]
    by (auto simp: s path_token_def Let_def split: if_splits)
qed

function path_loop :: "json \<Rightarrow> string \<Rightarrow> eval_error + json" where
  "path_loop current s =
     (if s = [] then Inr current
      else
        (case path_token s of
           None \<Rightarrow> Inl EvaluationError
         | Some (st, r) \<Rightarrow>
             (case path_apply st current of None \<Rightarrow> Inl TargetMissing | Some v \<Rightarrow> path_loop v r)))"
  by pat_completeness auto
termination
  by (relation "measure (\<lambda>(v, s). length s)") (auto dest: path_token_shorter)

declare path_loop.simps [simp del]

definition jsonpath_get :: "json \<Rightarrow> string \<Rightarrow> eval_error + json" where
  "jsonpath_get document expression =
     (if expression = ''$'' then Inr document
      else if expression = [] \<or> hd expression \<noteq> CHR ''$'' then Inl EvaluationError
      else path_loop document (tl expression))"

definition case_insensitive_get :: "(string \<times> string) list \<Rightarrow> string \<Rightarrow> eval_error + json" where
  "case_insensitive_get values name =
     (case find (\<lambda>(k, v). map latin_lower_char k = map latin_lower_char name) values of
        None \<Rightarrow> Inl TargetMissing
      | Some (k, v) \<Rightarrow> Inr (JStr v))"

definition source_value :: "evaluation_env \<Rightarrow> assertion \<Rightarrow> response_snapshot \<Rightarrow> eval_error + json" where
  "source_value e a sn =
     (let expression = (case an_expression a of None \<Rightarrow> [] | Some x \<Rightarrow> x) in
      case an_source a of
        Some SRC_STATUS_CODE \<Rightarrow> Inr (JInt (rsn_status_code sn))
      | Some SRC_JSON_BODY \<Rightarrow>
          if expression \<noteq> [] then jsonpath_get (rsn_json_body sn) expression else Inr (rsn_json_body sn)
      | Some SRC_RESPONSE_TEXT \<Rightarrow>
          Inr (JStr (case rsn_text sn of
                       Some t \<Rightarrow> t
                     | None \<Rightarrow> (case rsn_json_body sn of JStr t \<Rightarrow> t | v \<Rightarrow> ev_dumps e v)))
      | Some SRC_RESPONSE_TIME \<Rightarrow> Inr (case rsn_response_time_ms sn of None \<Rightarrow> JNull | Some n \<Rightarrow> JInt n)
      | Some SRC_JSONPATH \<Rightarrow> jsonpath_get (rsn_json_body sn) expression
      | Some SRC_HEADER \<Rightarrow> case_insensitive_get (rsn_headers sn) expression
      | Some SRC_COOKIE \<Rightarrow> case_insensitive_get (rsn_cookies sn) expression
      | None \<Rightarrow> Inl EvaluationError)"

section \<open>Evaluation\<close>

definition strict_equal :: "json \<Rightarrow> json \<Rightarrow> bool" where
  "strict_equal l r \<longleftrightarrow> same_type l r \<and> py_eq l r"

definition compare_values :: "json \<Rightarrow> assertion_operator \<Rightarrow> json \<Rightarrow> eval_error + bool" where
  "compare_values l op r =
     (if op = OP_EQ then Inr (strict_equal l r)
      else if op = OP_CONTAINS then
        (case (l, r) of (JStr s, JStr t) \<Rightarrow> Inr (is_substring t s) | _ \<Rightarrow> Inl EvaluationError)
      else if \<not> same_type l r \<or> (case l of JBool _ \<Rightarrow> True | _ \<Rightarrow> False) then Inl EvaluationError
      else option_to_res EvaluationError
        (case op of OP_LT \<Rightarrow> py_lt l r | OP_LTE \<Rightarrow> py_le l r | OP_GT \<Rightarrow> py_lt r l | _ \<Rightarrow> py_le r l))"

fun type_name :: "json \<Rightarrow> string" where
  "type_name JNull = ''null''"
| "type_name (JBool _) = ''boolean''"
| "type_name (JInt _) = ''integer''"
| "type_name (JFloat _) = ''number''"
| "type_name (JStr _) = ''string''"
| "type_name (JList _) = ''array''"
| "type_name (JObj _) = ''object''"

definition evaluate_schema :: "evaluation_env \<Rightarrow> assertion \<Rightarrow> response_snapshot \<Rightarrow> eval_error + bool" where
  "evaluate_schema e a sn =
     res_bind (schema_definition_errors (an_expected a)) (\<lambda>issues.
     if issues \<noteq> [] then Inl EvaluationError
     else
       res_bind (source_value e a sn) (\<lambda>actual.
       if schema_contains_pattern (an_expected a) \<and> has_overlong_string actual then Inl EvaluationError
       else
         res_bind (validate_schema (ev_search e False) actual (an_expected a)) (\<lambda>errors. Inr (errors = []))))"

definition evaluate_regex :: "evaluation_env \<Rightarrow> json \<Rightarrow> json \<Rightarrow> eval_error + bool" where
  "evaluate_regex e expected actual =
     (case actual of
        JStr s \<Rightarrow>
          (case safe_regex_errors expected of
             Inl _ \<Rightarrow> Inl OtherException
           | Inr issues \<Rightarrow>
               if issues \<noteq> [] \<or> 20000 < length s then Inl EvaluationError
               else
                 (case expected of
                    JStr p \<Rightarrow> option_to_res EvaluationError (ev_search e True p s)
                  | _ \<Rightarrow> Inl OtherException))
      | _ \<Rightarrow> Inl EvaluationError)"

definition evaluate_deterministic_assertion ::
  "evaluation_env \<Rightarrow> assertion \<Rightarrow> response_snapshot \<Rightarrow> eval_error + bool" where
  "evaluate_deterministic_assertion e a sn =
     (let t = py_upper (an_type a);
          op = (case an_operator a of None \<Rightarrow> OP_EQ | Some p \<Rightarrow> p)
      in if t = ''STATUS_CODE'' then
           res_bind (source_value e a sn) (\<lambda>actual. Inr (strict_equal actual (an_expected a)))
         else if t = ''JSON_SCHEMA'' then evaluate_schema e a sn
         else if t = ''EXISTS'' \<or> t = ''NOT_EXISTS'' then
           (case source_value e a sn of
              Inr _ \<Rightarrow> Inr (t = ''EXISTS'')
            | Inl TargetMissing \<Rightarrow> Inr (t \<noteq> ''EXISTS'')
            | Inl err \<Rightarrow> Inl err)
         else
           res_bind (source_value e a sn) (\<lambda>actual.
             if t = ''ARRAY_LENGTH'' then
               (case actual of
                  JList xs \<Rightarrow> compare_values (JInt (int (length xs))) op (an_expected a)
                | _ \<Rightarrow> Inl EvaluationError)
             else if t = ''TYPE'' then compare_values (JStr (type_name actual)) op (an_expected a)
             else if t = ''REGEX'' then evaluate_regex e (an_expected a) actual
             else compare_values actual op (an_expected a)))"

text \<open>What the AI gateway and the reading of its output give.\<close>

datatype ai_answer =
    NoContext      \<comment> \<open>no project, session or user\<close>
  | GatewayFailed  \<comment> \<open>AppError\<close>
  | OutputNotJson
  | OutputInvalid
  | AiOutput bool rat  \<comment> \<open>passed, confidence\<close>

definition evaluate_ai_assertion :: "assertion \<Rightarrow> ai_answer \<Rightarrow> assertion_status" where
  "evaluate_ai_assertion a answer =
     (case answer of
        AiOutput passed confidence \<Rightarrow>
          if confidence < (case an_confidence_threshold a of None \<Rightarrow> 8 / 10 | Some c \<Rightarrow> c) then ASSERT_REVIEW
          else if passed then ASSERT_PASS else ASSERT_FAIL
      | _ \<Rightarrow> ASSERT_REVIEW)"

definition run_assertion :: "evaluation_env \<Rightarrow> ai_answer \<Rightarrow> assertion \<Rightarrow> response_snapshot \<Rightarrow> assertion_status" where
  "run_assertion e answer a sn =
     (if \<not> an_enabled a then ASSERT_SKIPPED
      else if an_kind a = AI_SEMANTIC then evaluate_ai_assertion a answer
      else
        (case evaluate_deterministic_assertion e a sn of
           Inr passed \<Rightarrow> if passed then ASSERT_PASS else ASSERT_FAIL
         | Inl _ \<Rightarrow> ASSERT_FAIL))"

section \<open>A worked example\<close>

definition ex_assertion :: "string \<Rightarrow> json \<Rightarrow> assertion" where
  "ex_assertion t expected =
     \<lparr>an_kind = DETERMINISTIC, an_type = t, an_name = ''check'', an_enabled = True, an_source = None, an_expression = None,
      an_operator = None, an_expected = expected, an_prompt_id = None, an_criteria = None, an_confidence_threshold = None\<rparr>"

definition ex_snapshot :: "int \<Rightarrow> response_snapshot" where
  "ex_snapshot ms =
     \<lparr>rsn_status_code = 200, rsn_json_body = JNull, rsn_text = Some ''aaaa'', rsn_headers = [], rsn_cookies = [],
      rsn_response_time_ms = Some ms\<rparr>"

definition ex_eval :: evaluation_env where
  "ex_eval = \<lparr>ev_dumps = (\<lambda>_. ''null''), ev_search = (\<lambda>_ _ _. Some True), ev_compiles = (\<lambda>_. True)\<rparr>"

lemma nested_pattern_refused: "safe_regex_errors (JStr ''(a+)+'') \<noteq> Inr []"
  by code_simp

lemma validate_definition_time:
  assumes "validate_definition e d = Some a" and "an_type a = ''RESPONSE_TIME''"
  shows "an_kind a = DETERMINISTIC \<and> an_source a = Some SRC_RESPONSE_TIME"
  using assms
  by (cases "an_kind d")
     (auto simp: validate_definition_def validate_deterministic_def accept_if_def require_source_def source_or_def
        operator_or_def Let_def split: if_splits)

section \<open>What the engine promises\<close>

lemma definition_errors_cover_patterns:
  "schema_definition_errors s = Inr [] \<Longrightarrow> schema_pattern_errors s = Inr []"
  by (cases s) (auto simp: res_bind_def split: sum.splits simp del: schema_pattern_errors.simps)

lemma source_value_frame [simp]: "source_value (e\<lparr>ev_search := f\<rparr>) a sn = source_value e a sn"
  by (simp add: source_value_def Let_def split: option.split assertion_source.split json.split)

lemma evaluate_schema_agree:
  assumes "\<And>ascii p s. safe_search p s \<Longrightarrow> f ascii p s = g ascii p s"
  shows "evaluate_schema (e\<lparr>ev_search := f\<rparr>) a sn = evaluate_schema (e\<lparr>ev_search := g\<rparr>) a sn"
proof (cases "schema_definition_errors (an_expected a) = Inr [] \<and> (\<exists>v. source_value e a sn = Inr v)")
  case True
  then obtain v where v: "source_value e a sn = Inr v" "schema_definition_errors (an_expected a) = Inr []" by blast
  have "validate_schema (f False) v (an_expected a) = validate_schema (g False) v (an_expected a)"
    if "\<not> (schema_contains_pattern (an_expected a) \<and> has_overlong_string v)"
    using that assms definition_errors_cover_patterns[OF v(2)] by (intro validate_schema_agree) auto
  with v show ?thesis by (simp add: evaluate_schema_def res_bind_def)
next
  case False
  then show ?thesis
    by (cases "schema_definition_errors (an_expected a)"; cases "source_value e a sn")
       (auto simp: evaluate_schema_def res_bind_def)
qed

lemma evaluate_regex_agree:
  assumes "\<And>ascii p s. safe_search p s \<Longrightarrow> f ascii p s = g ascii p s"
  shows "evaluate_regex (e\<lparr>ev_search := f\<rparr>) x v = evaluate_regex (e\<lparr>ev_search := g\<rparr>) x v"
  using assms by (cases x) (auto simp: evaluate_regex_def safe_search_def split: json.split sum.split)

text \<open>
  C19. However an assertion and a response look, the regular expression engine is only ever run on patterns the
  safety check accepts and on texts of at most 20000 characters: two engines that agree on those give every
  assertion the same status. This covers REGEX assertions and the patterns anywhere in a JSON Schema.
\<close>

theorem regex_engine_runs_only_checked_patterns:
  assumes "\<And>ascii p s. safe_regex_errors (JStr p) = Inr [] \<Longrightarrow> length s \<le> 20000 \<Longrightarrow> f ascii p s = g ascii p s"
  shows "run_assertion (e\<lparr>ev_search := f\<rparr>) answer a sn = run_assertion (e\<lparr>ev_search := g\<rparr>) answer a sn"
proof -
  have agree: "\<And>ascii p s. safe_search p s \<Longrightarrow> f ascii p s = g ascii p s" using assms by (simp add: safe_search_def)
  have "evaluate_deterministic_assertion (e\<lparr>ev_search := f\<rparr>) a sn = evaluate_deterministic_assertion (e\<lparr>ev_search := g\<rparr>) a sn"
    by (simp add: evaluate_deterministic_assertion_def Let_def evaluate_schema_agree[OF agree]
        evaluate_regex_agree[OF agree] cong: if_cong)
  then show ?thesis by (simp add: run_assertion_def)
qed

theorem regex_engine_runs_only_checked_patterns_witness:
  "run_assertion (ex_eval\<lparr>ev_search := \<lambda>_ p s. None\<rparr>) NoContext (ex_assertion ''REGEX'' (JStr ''(a+)+'')) (ex_snapshot 120)
   = run_assertion (ex_eval\<lparr>ev_search := \<lambda>_ p s. if p = ''(a+)+'' then Some True else None\<rparr>) NoContext
       (ex_assertion ''REGEX'' (JStr ''(a+)+'')) (ex_snapshot 120)"
  by (rule regex_engine_runs_only_checked_patterns)
     (use nested_pattern_refused in auto)

text \<open>
  A RESPONSE_TIME assertion whose limit is written with a decimal point is accepted by the schema and fails
  on every response, however fast: the measured time is an integer, and the comparison refuses operands of
  different types.
\<close>

theorem decimal_response_time_limit_always_fails:
  assumes "validate_definition e d = Some a" and "an_type a = ''RESPONSE_TIME''" and "an_expected a = JFloat r"
    and "an_enabled a"
  shows "run_assertion e answer a sn = ASSERT_FAIL"
proof -
  have "an_kind a = DETERMINISTIC" and "an_source a = Some SRC_RESPONSE_TIME"
    using assms validate_definition_time by blast+
  then show ?thesis
    using assms(2-4)
    by (auto simp: run_assertion_def evaluate_deterministic_assertion_def py_upper_def upper_char_code Let_def
        source_value_def res_bind_def compare_values_def strict_equal_def option_to_res_def split: option.split
        assertion_operator.split)
qed

theorem decimal_response_time_limit_always_fails_witness:
  "validate_definition ex_eval (ex_assertion ''RESPONSE_TIME'' (JFloat (1000 / 2)))
     = Some ((ex_assertion ''RESPONSE_TIME'' (JFloat (1000 / 2)))\<lparr>an_source := Some SRC_RESPONSE_TIME, an_operator := Some OP_LTE\<rparr>)
   \<and> run_assertion ex_eval NoContext
       ((ex_assertion ''RESPONSE_TIME'' (JFloat (1000 / 2)))\<lparr>an_source := Some SRC_RESPONSE_TIME, an_operator := Some OP_LTE\<rparr>)
       (ex_snapshot 120) = ASSERT_FAIL"
proof -
  have v: "validate_definition ex_eval (ex_assertion ''RESPONSE_TIME'' (JFloat (1000 / 2)))
     = Some ((ex_assertion ''RESPONSE_TIME'' (JFloat (1000 / 2)))\<lparr>an_source := Some SRC_RESPONSE_TIME, an_operator := Some OP_LTE\<rparr>)"
    by (simp add: validate_definition_def assertion_fields_ok_def ex_assertion_def py_upper_def upper_char_code py_strip_def
        py_space_code validate_deterministic_def Let_def accept_if_def source_or_def operator_or_def require_source_def
        require_operator_def ordering_operators_def)
  have "run_assertion ex_eval NoContext
       ((ex_assertion ''RESPONSE_TIME'' (JFloat (1000 / 2)))\<lparr>an_source := Some SRC_RESPONSE_TIME, an_operator := Some OP_LTE\<rparr>)
       (ex_snapshot 120) = ASSERT_FAIL"
    by (rule decimal_response_time_limit_always_fails[OF v]) (simp_all add: ex_assertion_def)
  with v show ?thesis by simp
qed

end
