(* ===== verification/Safe_Script.thy ===== *)
theory Safe_Script
  imports Prelude "HOL-Library.AList"
begin

text \<open>
  The restricted Python of scenario scripts: \<open>scenarios/safe_script.py\<close> of the control plane, which validates
  scripts and runs them in previews, and \<open>runner/safe_script.py\<close>, which runs them in tests. Both are the
  same validator and the same evaluator but for the places a \<open>script_policy\<close> lists.

  A script is the tree \<open>ast.parse\<close> gives; every kind of node the code does not name is \<open>EOther\<close> or \<open>SOther\<close>.
  Python's operators, built-in functions and \<open>json.dumps\<close> are the record \<open>python_ops\<close>; the theorems hold
  for every such record. The variable \<open>context\<close> holds a reference to the dictionary the caller passed, the
  value \<open>VContext\<close>, so operators also take the present content of that dictionary.
\<close>

section \<open>Trees and values\<close>

datatype binary_op = Add | Sub | Mult | Div | FloorDiv | Modulo | OtherBinary

datatype unary_op = NotOp | USub | UAdd | Invert

datatype compare_op = CmpEq | CmpNotEq | CmpGt | CmpGtE | CmpLt | CmpLtE | CmpIn | CmpNotIn | OtherCompare

datatype pyval =
    VNone | VBool bool | VInt int | VFloat rat | VStr string
  | VList "pyval list" | VTuple "pyval list" | VDict "(pyval \<times> pyval) list"
  | VContext
  | VOther nat  \<comment> \<open>bytes, complex numbers, Ellipsis\<close>

datatype pexpr =
    EConstant pyval
  | EName string
  | EList "pexpr list"
  | ETuple "pexpr list"
  | EDict "(pexpr option \<times> pexpr) list"  \<comment> \<open>a key that is \<open>None\<close> is an unpacking\<close>
  | ESubscript pexpr pexpr
  | EBinOp binary_op pexpr pexpr
  | EUnaryOp unary_op pexpr
  | EBoolOp bool "pexpr list"  \<comment> \<open>\<open>True\<close> for \<open>and\<close>\<close>
  | ECompare pexpr "(compare_op \<times> pexpr) list"
  | EIfExp pexpr pexpr pexpr
  | ECall string "pexpr list" bool  \<comment> \<open>a call of a name; the flag says that there are keyword arguments\<close>
  | EOther

datatype pstmt =
    SAssign "pexpr list" pexpr
  | SIf pexpr "pstmt list" "pstmt list"
  | SExpr pexpr
  | SOther

text \<open>The exceptions of Python the two modules name; \<open>ArithmeticError\<close> is the last two of its subclasses here.\<close>

datatype py_exception =
  IndexError | KeyError | TypeError | ValueError | OverflowError | ZeroDivisionError | OtherException

datatype script_error =
    Unsupported      \<comment> \<open>a construct, constant, function or target the evaluator does not know\<close>
  | ScriptRefused    \<comment> \<open>any other error the evaluator raises itself\<close>
  | BudgetExceeded
  | Raised py_exception

type_synonym py_context = "(string \<times> pyval) list"

record python_ops =
  py_truthy :: "py_context \<Rightarrow> pyval \<Rightarrow> bool"
  py_binary :: "py_context \<Rightarrow> binary_op \<Rightarrow> pyval \<Rightarrow> pyval \<Rightarrow> py_exception + pyval"
  py_unary :: "py_context \<Rightarrow> unary_op \<Rightarrow> pyval \<Rightarrow> py_exception + pyval"
  py_compare :: "py_context \<Rightarrow> compare_op \<Rightarrow> pyval \<Rightarrow> pyval \<Rightarrow> py_exception + bool"
  py_subscript :: "py_context \<Rightarrow> pyval \<Rightarrow> pyval \<Rightarrow> py_exception + pyval"
  py_call :: "py_context \<Rightarrow> string \<Rightarrow> pyval list \<Rightarrow> py_exception + pyval"
  py_store :: "py_context \<Rightarrow> (pyval \<times> pyval) list \<Rightarrow> pyval \<Rightarrow> pyval \<Rightarrow> py_exception + (pyval \<times> pyval) list"
  py_json_dumps :: "py_context \<Rightarrow> pyval \<Rightarrow> py_exception + string"
  py_utf8_length :: "string \<Rightarrow> py_exception + int"

record script_policy =
  sp_compare :: "compare_op list"  \<comment> \<open>\<open>_COMPARE_OPERATORS\<close>\<close>
  sp_unpacking_shape :: bool       \<comment> \<open>the validator lets dictionary unpackings pass\<close>
  sp_any_constant :: bool
  sp_check_json :: bool            \<comment> \<open>results must be small JSON values\<close>
  sp_check_collection :: bool      \<comment> \<open>collections computed by an operator have at most 10000 items\<close>
  sp_wrap :: bool                  \<comment> \<open>exceptions of operators become errors of the evaluator\<close>
  sp_context_limits :: bool

definition backend_policy :: script_policy where
  "backend_policy =
     \<lparr>sp_compare = [CmpEq, CmpNotEq, CmpGt, CmpGtE, CmpLt, CmpLtE, CmpIn, CmpNotIn], sp_unpacking_shape = True,
      sp_any_constant = True, sp_check_json = False, sp_check_collection = True, sp_wrap = False, sp_context_limits = False\<rparr>"

definition runner_policy :: script_policy where
  "runner_policy =
     \<lparr>sp_compare = [CmpEq, CmpNotEq, CmpGt, CmpGtE, CmpLt, CmpIn, CmpNotIn], sp_unpacking_shape = False,
      sp_any_constant = False, sp_check_json = True, sp_check_collection = False, sp_wrap = True, sp_context_limits = True\<rparr>"

definition script_functions :: "string list" where
  "script_functions = [''len'', ''str'', ''int'', ''float'', ''bool'', ''min'', ''max'', ''sum'', ''round'']"

definition script_operators :: "binary_op list" where
  "script_operators = [Add, Sub, Mult, Div, FloorDiv, Modulo]"

section \<open>Validation\<close>

fun validate_expression_shape :: "script_policy \<Rightarrow> pexpr \<Rightarrow> bool" where
  "validate_expression_shape P (EConstant c) = True"
| "validate_expression_shape P (EName x) = True"
| "validate_expression_shape P (EList es) = list_all (validate_expression_shape P) es"
| "validate_expression_shape P (ETuple es) = list_all (validate_expression_shape P) es"
| "validate_expression_shape P (EDict items) =
     list_all (\<lambda>(k, v). (case k of None \<Rightarrow> sp_unpacking_shape P | Some x \<Rightarrow> validate_expression_shape P x) \<and> validate_expression_shape P v) items"
| "validate_expression_shape P (ESubscript e s) = (validate_expression_shape P e \<and> validate_expression_shape P s)"
| "validate_expression_shape P (EBinOp op l r) = (op \<in> set script_operators \<and> validate_expression_shape P l \<and> validate_expression_shape P r)"
| "validate_expression_shape P (EUnaryOp op e) = (op \<noteq> Invert \<and> validate_expression_shape P e)"
| "validate_expression_shape P (EBoolOp is_and es) = list_all (validate_expression_shape P) es"
| "validate_expression_shape P (ECompare l rs) =
     (validate_expression_shape P l \<and> list_all (\<lambda>(op, r). validate_expression_shape P r) rs
      \<and> list_all (\<lambda>(op, r). op \<in> set (sp_compare P)) rs)"
| "validate_expression_shape P (EIfExp t b o1) = (validate_expression_shape P t \<and> validate_expression_shape P b \<and> validate_expression_shape P o1)"
| "validate_expression_shape P (ECall f args keywords) =
     (f \<in> set script_functions \<and> \<not> keywords \<and> list_all (validate_expression_shape P) args)"
| "validate_expression_shape P EOther = False"

fun validate_statement :: "script_policy \<Rightarrow> pstmt \<Rightarrow> bool" where
  "validate_statement P (SAssign targets e) = (length targets = 1 \<and> validate_expression_shape P e)"
| "validate_statement P (SIf t body orelse) =
     (validate_expression_shape P t \<and> list_all (validate_statement P) body \<and> list_all (validate_statement P) orelse)"
| "validate_statement P (SExpr e) = validate_expression_shape P e"
| "validate_statement P SOther = False"

text \<open>
  \<open>parse\<close> is \<open>ast.parse\<close> (\<open>None\<close> for \<open>SyntaxError\<close>) with the number of nodes \<open>ast.walk\<close> finds, which only the
  Runner limits.
\<close>

definition parse_script :: "(string \<Rightarrow> (pstmt list \<times> nat) option) \<Rightarrow> bool \<Rightarrow> string \<Rightarrow> pstmt list option" where
  "parse_script parse limited script =
     (if py_strip script = [] \<or> 5000 < length script then None
      else case parse script of
             None \<Rightarrow> None
           | Some (tree, nodes) \<Rightarrow> if limited \<and> 1000 < nodes then None else Some tree)"

definition backend_validate_safe_script :: "(string \<Rightarrow> (pstmt list \<times> nat) option) \<Rightarrow> string \<Rightarrow> bool" where
  "backend_validate_safe_script parse script =
     (case parse_script parse False script of
        None \<Rightarrow> False | Some tree \<Rightarrow> list_all (validate_statement backend_policy) tree)"

definition runner_validate_safe_script :: "(string \<Rightarrow> (pstmt list \<times> nat) option) \<Rightarrow> string \<Rightarrow> bool" where
  "runner_validate_safe_script parse script =
     (case parse_script parse True script of
        None \<Rightarrow> False | Some tree \<Rightarrow> list_all (validate_statement runner_policy) tree)"

section \<open>Evaluation\<close>

record script_state =
  ss_names :: "(string \<times> pyval) list"
  ss_context :: py_context
  ss_steps :: int

type_synonym 'a script_task = "script_state \<Rightarrow> (script_error + 'a) \<times> script_state"

definition task_return :: "'a \<Rightarrow> 'a script_task" where
  "task_return x s = (Inr x, s)"

definition task_fail :: "script_error \<Rightarrow> 'a script_task" where
  "task_fail err s = (Inl err, s)"

definition task_then :: "'a script_task \<Rightarrow> ('a \<Rightarrow> 'b script_task) \<Rightarrow> 'b script_task" where
  "task_then m f s = (case m s of (Inl err, s') \<Rightarrow> (Inl err, s') | (Inr x, s') \<Rightarrow> f x s')"

definition tick :: "int \<Rightarrow> unit script_task" where
  "tick max_steps s =
     (let s' = s\<lparr>ss_steps := ss_steps s + 1\<rparr> in
      if ss_steps s' > max_steps then (Inl BudgetExceeded, s') else (Inr (), s'))"

text \<open>An operator of Python, and \<open>try ... except\<close> around a task: only the Runner has the latter.\<close>

definition op_result :: "(py_context \<Rightarrow> py_exception + 'a) \<Rightarrow> 'a script_task" where
  "op_result op s = (case op (ss_context s) of Inr v \<Rightarrow> (Inr v, s) | Inl exc \<Rightarrow> (Inl (Raised exc), s))"

definition catching :: "script_policy \<Rightarrow> py_exception list \<Rightarrow> 'a script_task \<Rightarrow> 'a script_task" where
  "catching P excs m s =
     (case m s of
        (Inl (Raised exc), s') \<Rightarrow> (Inl (if sp_wrap P \<and> exc \<in> set excs then ScriptRefused else Raised exc), s')
      | r \<Rightarrow> r)"

definition check_json_size :: "script_policy \<Rightarrow> python_ops \<Rightarrow> pyval \<Rightarrow> unit script_task" where
  "check_json_size P ops v =
     (if \<not> sp_check_json P then task_return ()
      else task_then
             (catching P [TypeError, ValueError, OverflowError] (op_result (\<lambda>ctx. py_json_dumps ops ctx v)))
             (\<lambda>encoded. task_then (op_result (\<lambda>ctx. py_utf8_length ops encoded))
             (\<lambda>bytes. if bytes > 64000 then task_fail ScriptRefused else task_return ())))"

fun sequence_length :: "pyval \<Rightarrow> int option" where
  "sequence_length (VStr s) = Some (int (length s))"
| "sequence_length (VList xs) = Some (int (length xs))"
| "sequence_length (VTuple xs) = Some (int (length xs))"
| "sequence_length _ = None"

fun repetitions :: "pyval \<Rightarrow> int option" where
  "repetitions (VInt n) = (if n \<ge> 0 then Some n else None)"
| "repetitions (VBool b) = Some (if b then 1 else 0)"
| "repetitions _ = None"

definition grows_too_much :: "pyval \<Rightarrow> pyval \<Rightarrow> bool" where
  "grows_too_much l r \<longleftrightarrow>
     (case (sequence_length l, repetitions r) of (Some n, Some k) \<Rightarrow> n * k > 10000 | _ \<Rightarrow> False)
     \<or> (case (sequence_length r, repetitions l) of (Some n, Some k) \<Rightarrow> n * k > 10000 | _ \<Rightarrow> False)"

fun collection_size :: "pyval \<Rightarrow> int option" where
  "collection_size (VDict m) = Some (int (length m))"
| "collection_size v = sequence_length v"

text \<open>The limits around an operator: the Runner before and after, the control plane after it.\<close>

definition check_collection :: "script_policy \<Rightarrow> pyval \<Rightarrow> unit script_task" where
  "check_collection P v s =
     (if sp_check_collection P \<and> (case collection_size v of Some n \<Rightarrow> n > 10000 | None \<Rightarrow> False)
      then (Inl ScriptRefused, s) else (Inr (), s))"

definition check_sequence_growth :: "script_policy \<Rightarrow> pyval \<Rightarrow> pyval \<Rightarrow> unit script_task" where
  "check_sequence_growth P l r s =
     (if sp_check_json P \<and> grows_too_much l r then (Inl ScriptRefused, s) else (Inr (), s))"

fun plain_constant :: "pyval \<Rightarrow> bool" where
  "plain_constant (VOther _) = False"
| "plain_constant _ = True"

definition lookup_name :: "string \<Rightarrow> pyval script_task" where
  "lookup_name x s = (case map_of (ss_names s) x of Some v \<Rightarrow> (Inr v, s) | None \<Rightarrow> (Inl ScriptRefused, s))"


text \<open>
  \<open>_SafeEvaluator.expression\<close>. The arguments of a call and the two parts of a subscript are evaluated inside the
  \<open>try\<close> of the Runner, so that an exception they let escape is caught there too; all other nodes evaluate their
  children before it.
\<close>

lemmas task_defs = task_return_def task_fail_def task_then_def

definition arithmetic_errors :: "py_exception list" where
  "arithmetic_errors = [OverflowError, ZeroDivisionError, TypeError, ValueError]"

definition apply_binary :: "script_policy \<Rightarrow> python_ops \<Rightarrow> binary_op \<Rightarrow> pyval \<Rightarrow> pyval \<Rightarrow> pyval script_task" where
  "apply_binary P ops op l r =
     task_then (check_sequence_growth P l r) (\<lambda>_.
     task_then (catching P arithmetic_errors (op_result (\<lambda>ctx. py_binary ops ctx op l r))) (\<lambda>v.
     task_then (check_collection P v) (\<lambda>_.
     task_then (check_json_size P ops v) (\<lambda>_. task_return v))))"

definition apply_unary :: "script_policy \<Rightarrow> python_ops \<Rightarrow> unary_op \<Rightarrow> pyval \<Rightarrow> pyval script_task" where
  "apply_unary P ops op v =
     (if op = Invert then task_fail Unsupported
      else catching P arithmetic_errors (op_result (\<lambda>ctx. py_unary ops ctx op v)))"

definition test_value :: "python_ops \<Rightarrow> pyval \<Rightarrow> bool script_task" where
  "test_value ops v s = (Inr (py_truthy ops (ss_context s) v), s)"

definition apply_compare :: "script_policy \<Rightarrow> python_ops \<Rightarrow> compare_op \<Rightarrow> pyval \<Rightarrow> pyval \<Rightarrow> bool script_task" where
  "apply_compare P ops op l r =
     (if op \<notin> set (sp_compare P) then (if sp_wrap P then task_fail Unsupported else task_return False)
      else catching P [TypeError, ValueError] (op_result (\<lambda>ctx. py_compare ops ctx op l r)))"

function (sequential) expression :: "script_policy \<Rightarrow> python_ops \<Rightarrow> int \<Rightarrow> pexpr \<Rightarrow> pyval script_task"
  and expressions :: "script_policy \<Rightarrow> python_ops \<Rightarrow> int \<Rightarrow> pexpr list \<Rightarrow> pyval list script_task"
  and dict_items :: "script_policy \<Rightarrow> python_ops \<Rightarrow> int \<Rightarrow> (pexpr option \<times> pexpr) list
                       \<Rightarrow> (pyval \<times> pyval) list \<Rightarrow> (pyval \<times> pyval) list script_task"
  and comparisons :: "script_policy \<Rightarrow> python_ops \<Rightarrow> int \<Rightarrow> pyval \<Rightarrow> (compare_op \<times> pexpr) list \<Rightarrow> pyval script_task"
where
  "expression P ops m (EConstant c) =
     task_then (tick m) (\<lambda>_. if sp_any_constant P \<or> plain_constant c then task_return c else task_fail Unsupported)"
| "expression P ops m (EName x) = task_then (tick m) (\<lambda>_. lookup_name x)"
| "expression P ops m (EList es) =
     task_then (tick m) (\<lambda>_. task_then (expressions P ops m es) (\<lambda>vs. task_return (VList vs)))"
| "expression P ops m (ETuple es) =
     task_then (tick m) (\<lambda>_. task_then (expressions P ops m es) (\<lambda>vs. task_return (VTuple vs)))"
| "expression P ops m (EDict items) =
     task_then (tick m) (\<lambda>_.
       if \<not> sp_unpacking_shape P \<and> list_ex (\<lambda>(k, v). k = None) items then task_fail Unsupported
       else task_then (dict_items P ops m items []) (\<lambda>d.
            task_then (check_json_size P ops (VDict d)) (\<lambda>_. task_return (VDict d))))"
| "expression P ops m (ESubscript e i) =
     task_then (tick m) (\<lambda>_.
       catching P [IndexError, KeyError, TypeError]
         (task_then (expression P ops m e) (\<lambda>v.
          task_then (expression P ops m i) (\<lambda>k. op_result (\<lambda>ctx. py_subscript ops ctx v k)))))"
| "expression P ops m (EBinOp op l r) =
     task_then (tick m) (\<lambda>_.
       if op \<notin> set script_operators then task_fail Unsupported
       else task_then (expression P ops m l) (\<lambda>lv.
            task_then (expression P ops m r) (\<lambda>rv. apply_binary P ops op lv rv)))"
| "expression P ops m (EUnaryOp op e) =
     task_then (tick m) (\<lambda>_. task_then (expression P ops m e) (apply_unary P ops op))"
| "expression P ops m (EBoolOp is_and es) =
     task_then (tick m) (\<lambda>_. task_then (expressions P ops m es) (\<lambda>vs s.
       (Inr (VBool (if is_and then list_all (py_truthy ops (ss_context s)) vs
                    else list_ex (py_truthy ops (ss_context s)) vs)), s)))"
| "expression P ops m (ECompare l rs) =
     task_then (tick m) (\<lambda>_. task_then (expression P ops m l) (\<lambda>v. comparisons P ops m v rs))"
| "expression P ops m (EIfExp t b o1) =
     task_then (tick m) (\<lambda>_. task_then (expression P ops m t) (\<lambda>v. task_then (test_value ops v) (\<lambda>c.
       if c then expression P ops m b else expression P ops m o1)))"
| "expression P ops m (ECall f args keywords) =
     task_then (tick m) (\<lambda>_.
       if f \<notin> set script_functions \<or> keywords then task_fail Unsupported
       else task_then
              (catching P arithmetic_errors
                (task_then (expressions P ops m args) (\<lambda>vs. op_result (\<lambda>ctx. py_call ops ctx f vs))))
              (\<lambda>v. task_then (check_json_size P ops v) (\<lambda>_. task_return v)))"
| "expression P ops m EOther = task_then (tick m) (\<lambda>_. task_fail Unsupported)"
| "expressions P ops m [] = task_return []"
| "expressions P ops m (e # es) =
     task_then (expression P ops m e) (\<lambda>v. task_then (expressions P ops m es) (\<lambda>vs. task_return (v # vs)))"
| "dict_items P ops m [] d = task_return d"
| "dict_items P ops m ((None, e) # items) d = task_then (tick m) (\<lambda>_. task_fail Unsupported)"
| "dict_items P ops m ((Some k, e) # items) d =
     task_then (expression P ops m k) (\<lambda>kv. task_then (expression P ops m e) (\<lambda>v.
     task_then (op_result (\<lambda>ctx. py_store ops ctx d kv v)) (\<lambda>d'. dict_items P ops m items d')))"
| "comparisons P ops m l [] = task_return (VBool True)"
| "comparisons P ops m l ((op, e) # rs) =
     task_then (expression P ops m e) (\<lambda>r. task_then (apply_compare P ops op l r) (\<lambda>passed.
       if passed then comparisons P ops m r rs else task_return (VBool False)))"
  by pat_completeness auto

termination expression
  by (relation "measure (\<lambda>x. case x of
         Inl (Inl (_, _, _, e)) \<Rightarrow> size e
       | Inl (Inr (_, _, _, es)) \<Rightarrow> size_list size es
       | Inr (Inl (_, _, _, items, _)) \<Rightarrow> size_list (size_prod (size_option size) size) items
       | Inr (Inr (_, _, _, _, rs)) \<Rightarrow> size_list (size_prod (\<lambda>_. 0) size) rs)") auto

text \<open>\<open>_SafeEvaluator.assign\<close> and \<open>statement\<close>.\<close>

definition context_keys :: "py_context \<Rightarrow> string list" where
  "context_keys ctx = map fst ctx"

definition store_context :: "script_policy \<Rightarrow> python_ops \<Rightarrow> pyval \<Rightarrow> pyval \<Rightarrow> unit script_task" where
  "store_context P ops key v =
     (case key of
        VStr k \<Rightarrow>
          if k = [] \<or> sp_context_limits P \<and> 128 < length k then task_fail ScriptRefused
          else task_then (\<lambda>s. if sp_context_limits P \<and> k \<notin> set (context_keys (ss_context s)) \<and> 200 \<le> length (ss_context s)
                              then (Inl ScriptRefused, s)
                              else (Inr (), s\<lparr>ss_context := AList.update k v (ss_context s)\<rparr>))
                 (\<lambda>_. check_json_size P ops VContext)
      | _ \<Rightarrow> task_fail ScriptRefused)"

definition assign :: "script_policy \<Rightarrow> python_ops \<Rightarrow> int \<Rightarrow> pexpr \<Rightarrow> pyval \<Rightarrow> unit script_task" where
  "assign P ops m target v =
     (case target of
        EName x \<Rightarrow>
          if x \<in> set script_functions \<or> x = ''context'' then task_fail ScriptRefused
          else (\<lambda>s. (Inr (), s\<lparr>ss_names := AList.update x v (ss_names s)\<rparr>))
      | ESubscript (EName x) i \<Rightarrow>
          if x = ''context'' then task_then (expression P ops m i) (\<lambda>key. store_context P ops key v)
          else task_fail Unsupported
      | _ \<Rightarrow> task_fail Unsupported)"

fun statement :: "script_policy \<Rightarrow> python_ops \<Rightarrow> int \<Rightarrow> pstmt \<Rightarrow> unit script_task"
  and statements :: "script_policy \<Rightarrow> python_ops \<Rightarrow> int \<Rightarrow> pstmt list \<Rightarrow> unit script_task"
where
  "statement P ops m (SAssign targets e) =
     task_then (tick m) (\<lambda>_. case targets of
         [target] \<Rightarrow> task_then (expression P ops m e) (\<lambda>v. assign P ops m target v)
       | _ \<Rightarrow> task_fail Unsupported)"
| "statement P ops m (SIf t body orelse) =
     task_then (tick m) (\<lambda>_. task_then (expression P ops m t) (\<lambda>v. task_then (test_value ops v) (\<lambda>c.
       if c then statements P ops m body else statements P ops m orelse)))"
| "statement P ops m (SExpr e) = task_then (tick m) (\<lambda>_. task_then (expression P ops m e) (\<lambda>v. task_return ()))"
| "statement P ops m SOther = task_then (tick m) (\<lambda>_. task_fail Unsupported)"
| "statements P ops m [] = task_return ()"
| "statements P ops m (st # sts) = task_then (statement P ops m st) (\<lambda>_. statements P ops m sts)"

text \<open>The evaluator a run creates, and \<open>run_safe_script\<close> of both sides.\<close>

definition initial_script_state :: "py_context \<Rightarrow> script_state" where
  "initial_script_state ctx = \<lparr>ss_names = [(''context'', VContext)], ss_context = ctx, ss_steps = 0\<rparr>"

definition backend_run_safe_script ::
    "(string \<Rightarrow> (pstmt list \<times> nat) option) \<Rightarrow> python_ops \<Rightarrow> string \<Rightarrow> py_context \<Rightarrow> int
     \<Rightarrow> (script_error + unit) \<times> script_state" where
  "backend_run_safe_script parse ops script ctx max_steps =
     (case parse_script parse False script of
        None \<Rightarrow> (Inl ScriptRefused, initial_script_state ctx)
      | Some tree \<Rightarrow> statements backend_policy ops max_steps tree (initial_script_state ctx))"

definition runner_run_safe_script ::
    "(string \<Rightarrow> (pstmt list \<times> nat) option) \<Rightarrow> python_ops \<Rightarrow> string \<Rightarrow> py_context \<Rightarrow> int
     \<Rightarrow> (script_error + unit) \<times> script_state" where
  "runner_run_safe_script parse ops script ctx max_steps =
     (if 200 < length ctx then (Inl ScriptRefused, initial_script_state ctx)
      else task_then (check_json_size runner_policy ops VContext) (\<lambda>_.
             if \<not> runner_validate_safe_script parse script then task_fail ScriptRefused
             else case parse_script parse True script of
                    None \<Rightarrow> task_fail ScriptRefused
                  | Some tree \<Rightarrow>
                      task_then (statements runner_policy ops (max 1 (min max_steps 500)) tree)
                                (\<lambda>_. check_json_size runner_policy ops VContext))
           (initial_script_state ctx))"

section \<open>Differences between the two validators\<close>

text \<open>All nodes of an expression, as \<open>ast.walk\<close> lists them, and the expressions of a statement that are validated.\<close>

fun pexpr_parts :: "pexpr \<Rightarrow> pexpr list" where
  "pexpr_parts (EList es) = EList es # concat (map pexpr_parts es)"
| "pexpr_parts (ETuple es) = ETuple es # concat (map pexpr_parts es)"
| "pexpr_parts (EDict items) =
     EDict items # concat (map (\<lambda>(k, v). (case k of None \<Rightarrow> [] | Some x \<Rightarrow> pexpr_parts x) @ pexpr_parts v) items)"
| "pexpr_parts (ESubscript e i) = ESubscript e i # pexpr_parts e @ pexpr_parts i"
| "pexpr_parts (EBinOp op l r) = EBinOp op l r # pexpr_parts l @ pexpr_parts r"
| "pexpr_parts (EUnaryOp op e) = EUnaryOp op e # pexpr_parts e"
| "pexpr_parts (EBoolOp is_and es) = EBoolOp is_and es # concat (map pexpr_parts es)"
| "pexpr_parts (ECompare l rs) = ECompare l rs # pexpr_parts l @ concat (map (\<lambda>(op, r). pexpr_parts r) rs)"
| "pexpr_parts (EIfExp t b o1) = EIfExp t b o1 # pexpr_parts t @ pexpr_parts b @ pexpr_parts o1"
| "pexpr_parts (ECall f args keywords) = ECall f args keywords # concat (map pexpr_parts args)"
| "pexpr_parts e = [e]"

fun pstmt_parts :: "pstmt \<Rightarrow> pexpr list" where
  "pstmt_parts (SAssign targets e) = pexpr_parts e"
| "pstmt_parts (SIf t body orelse) =
     pexpr_parts t @ concat (map pstmt_parts body) @ concat (map pstmt_parts orelse)"
| "pstmt_parts (SExpr e) = pexpr_parts e"
| "pstmt_parts SOther = []"

definition script_parts :: "pstmt list \<Rightarrow> pexpr list" where
  "script_parts tree = concat (map pstmt_parts tree)"

fun refused_by_runner :: "pexpr \<Rightarrow> bool" where
  "refused_by_runner (ECompare l rs) = (CmpLtE \<in> fst ` set rs)"
| "refused_by_runner (EDict items) = (None \<in> fst ` set items)"
| "refused_by_runner _ = False"

lemmas policy_defs = backend_policy_def runner_policy_def

lemma list_all_conj_not:
  assumes "\<And>x. x \<in> set xs \<Longrightarrow> f x \<longleftrightarrow> g x \<and> \<not> h x"
  shows "list_all f xs \<longleftrightarrow> list_all g xs \<and> \<not> list_ex h xs"
  using assms by (auto simp: list_all_iff list_ex_iff)

lemma list_ex_concat_map: "list_ex P (concat (map f xs)) \<longleftrightarrow> list_ex (\<lambda>x. list_ex P (f x)) xs"
  by (induction xs) auto

lemma compare_runner: "op \<in> set (sp_compare runner_policy) \<longleftrightarrow> op \<in> set (sp_compare backend_policy) \<and> op \<noteq> CmpLtE"
  by (cases op) (simp_all add: policy_defs)

definition refused_in :: "pexpr \<Rightarrow> bool" where
  "refused_in e = list_ex refused_by_runner (pexpr_parts e)"

lemma validate_expression_shape_runner:
  "validate_expression_shape runner_policy e \<longleftrightarrow> validate_expression_shape backend_policy e \<and> \<not> refused_in e"
proof (induction e)
  case (EDict items)
  have "list_all (\<lambda>(k, v). (case k of None \<Rightarrow> sp_unpacking_shape runner_policy
                              | Some x \<Rightarrow> validate_expression_shape runner_policy x) \<and> validate_expression_shape runner_policy v) items
    \<longleftrightarrow> list_all (\<lambda>(k, v). (case k of None \<Rightarrow> sp_unpacking_shape backend_policy
                              | Some x \<Rightarrow> validate_expression_shape backend_policy x) \<and> validate_expression_shape backend_policy v) items
      \<and> \<not> list_ex (\<lambda>(k, v). k = None \<or> (case k of None \<Rightarrow> False | Some x \<Rightarrow> refused_in x) \<or> refused_in v) items"
  proof (rule list_all_conj_not)
    fix x assume x: "x \<in> set items"
    obtain k v where [simp]: "x = (k, v)"
      by (cases x)
    show "(case x of (k, v) \<Rightarrow> (case k of None \<Rightarrow> sp_unpacking_shape runner_policy
              | Some x \<Rightarrow> validate_expression_shape runner_policy x) \<and> validate_expression_shape runner_policy v)
      \<longleftrightarrow> (case x of (k, v) \<Rightarrow> (case k of None \<Rightarrow> sp_unpacking_shape backend_policy
              | Some x \<Rightarrow> validate_expression_shape backend_policy x) \<and> validate_expression_shape backend_policy v)
        \<and> \<not> (case x of (k, v) \<Rightarrow> k = None \<or> (case k of None \<Rightarrow> False | Some x \<Rightarrow> refused_in x) \<or> refused_in v)"
      using EDict[OF x] by (cases k) (auto simp: policy_defs)
  qed
  moreover have "refused_in (EDict items)
    \<longleftrightarrow> list_ex (\<lambda>(k, v). k = None \<or> (case k of None \<Rightarrow> False | Some x \<Rightarrow> refused_in x) \<or> refused_in v) items"
    by (induction items) (auto simp: refused_in_def split: option.splits)
  ultimately show ?case
    by simp
next
  case (ECompare l rs)
  have "list_all (\<lambda>(op, r). validate_expression_shape runner_policy r) rs
    \<longleftrightarrow> list_all (\<lambda>(op, r). validate_expression_shape backend_policy r) rs \<and> \<not> list_ex (\<lambda>(op, r). refused_in r) rs"
    using ECompare(2) by (intro list_all_conj_not) auto
  moreover have "list_all (\<lambda>(op, r). op \<in> set (sp_compare runner_policy)) rs
    \<longleftrightarrow> list_all (\<lambda>(op, r). op \<in> set (sp_compare backend_policy)) rs \<and> \<not> list_ex (\<lambda>(op, r). op = CmpLtE) rs"
    by (intro list_all_conj_not) (auto simp: compare_runner)
  moreover have "refused_in (ECompare l rs)
    \<longleftrightarrow> list_ex (\<lambda>(op, r). op = CmpLtE) rs \<or> refused_in l \<or> list_ex (\<lambda>(op, r). refused_in r) rs"
    by (induction rs) (auto simp: refused_in_def)
  ultimately show ?case
    using ECompare(1) by auto
next
  case (EList es)
  then show ?case
    using list_all_conj_not[of es] by (simp add: refused_in_def list_ex_concat_map)
next
  case (ETuple es)
  then show ?case
    using list_all_conj_not[of es] by (simp add: refused_in_def list_ex_concat_map)
next
  case (EBoolOp is_and es)
  then show ?case
    using list_all_conj_not[of es] by (simp add: refused_in_def list_ex_concat_map)
next
  case (ECall f es kw)
  then show ?case
    using list_all_conj_not[of es] by (auto simp: refused_in_def list_ex_concat_map)
qed (auto simp: refused_in_def)

lemma validate_statement_runner:
  "validate_statement runner_policy st
   \<longleftrightarrow> validate_statement backend_policy st \<and> \<not> list_ex refused_by_runner (pstmt_parts st)"
proof (induction st)
  case (SIf t body orelse)
  then show ?case
    using list_all_conj_not[of body] list_all_conj_not[of orelse]
    by (auto simp: validate_expression_shape_runner refused_in_def list_ex_concat_map)
qed (simp_all add: validate_expression_shape_runner refused_in_def)

lemma script_shape_runner:
  "list_all (validate_statement runner_policy) tree
   \<longleftrightarrow> list_all (validate_statement backend_policy) tree \<and> \<not> list_ex refused_by_runner (script_parts tree)"
  unfolding script_parts_def list_ex_concat_map by (intro list_all_conj_not validate_statement_runner)

section \<open>Invariants of the evaluator\<close>

text \<open>
  \<open>task_inv I J m\<close>: started in a state of \<open>I\<close>, the task ends in one of \<open>I\<close>, or fails with an error and a state
  that \<open>J\<close> relates.
\<close>

definition task_inv :: "(script_state \<Rightarrow> bool) \<Rightarrow> (script_error \<Rightarrow> script_state \<Rightarrow> bool) \<Rightarrow> 'a script_task \<Rightarrow> bool" where
  "task_inv I J m \<longleftrightarrow> (\<forall>s r s'. I s \<longrightarrow> m s = (r, s') \<longrightarrow> (case r of Inr x \<Rightarrow> I s' | Inl err \<Rightarrow> J err s'))"

lemma task_invD:
  assumes "task_inv I J m" and "I s" and "m s = (r, s')"
  shows "case r of Inr x \<Rightarrow> I s' | Inl err \<Rightarrow> J err s'"
  using assms unfolding task_inv_def by blast

lemma task_invI:
  assumes "\<And>s x s'. I s \<Longrightarrow> m s = (Inr x, s') \<Longrightarrow> I s'" and "\<And>s err s'. I s \<Longrightarrow> m s = (Inl err, s') \<Longrightarrow> J err s'"
  shows "task_inv I J m"
  using assms unfolding task_inv_def by (auto split: sum.split)

lemma task_inv_then:
  assumes m: "task_inv I J m" and f: "\<And>x. task_inv I J (f x)"
  shows "task_inv I J (task_then m f)"
  unfolding task_inv_def
proof (intro allI impI)
  fix s r s' assume s: "I s" and run: "task_then m f s = (r, s')"
  obtain r1 s1 where m1: "m s = (r1, s1)"
    by fastforce
  show "case r of Inr x \<Rightarrow> I s' | Inl err \<Rightarrow> J err s'"
  proof (cases r1)
    case (Inl err)
    then show ?thesis
      using task_invD[OF m s m1] run m1 by (auto simp: task_then_def)
  next
    case (Inr x)
    then have "I s1" and "f x s1 = (r, s')"
      using task_invD[OF m s m1] run m1 by (auto simp: task_then_def)
    then show ?thesis
      by (rule task_invD[OF f])
  qed
qed

lemma task_inv_return: "task_inv I J (task_return x)"
  by (simp add: task_inv_def task_return_def)

text \<open>The expressions and targets the evaluator knows, which is more than the validator asks.\<close>

fun known_constant :: "pexpr \<Rightarrow> bool" where
  "known_constant (EConstant c) = plain_constant c"
| "known_constant _ = True"

definition known_expression :: "script_policy \<Rightarrow> pexpr \<Rightarrow> bool" where
  "known_expression P e \<longleftrightarrow> validate_expression_shape P e \<and> list_all known_constant (pexpr_parts e)"

fun known_target :: "script_policy \<Rightarrow> pexpr \<Rightarrow> bool" where
  "known_target P (EName x) = True"
| "known_target P (ESubscript (EName x) i) = (x = ''context'' \<and> known_expression P i)"
| "known_target P _ = False"

fun known_statement :: "script_policy \<Rightarrow> pstmt \<Rightarrow> bool" where
  "known_statement P (SAssign targets e) = (length targets = 1 \<and> list_all (known_target P) targets \<and> known_expression P e)"
| "known_statement P (SIf t body orelse) =
     (known_expression P t \<and> list_all (known_statement P) body \<and> list_all (known_statement P) orelse)"
| "known_statement P (SExpr e) = known_expression P e"
| "known_statement P SOther = False"

lemma list_all_concat_map: "list_all P (concat (map f xs)) \<longleftrightarrow> list_all (\<lambda>x. list_all P (f x)) xs"
  by (induction xs) auto

definition known_item :: "script_policy \<Rightarrow> pexpr option \<times> pexpr \<Rightarrow> bool" where
  "known_item P = (\<lambda>(k, v). (case k of None \<Rightarrow> sp_unpacking_shape P | Some x \<Rightarrow> known_expression P x) \<and> known_expression P v)"

lemma known_expression_parts [simp]:
  "known_expression P (EConstant c) \<longleftrightarrow> plain_constant c"
  "known_expression P (EList es) \<longleftrightarrow> list_all (known_expression P) es"
  "known_expression P (ETuple es) \<longleftrightarrow> list_all (known_expression P) es"
  "known_expression P (EDict items) \<longleftrightarrow> list_all (known_item P) items"
  "known_expression P (ESubscript e i) \<longleftrightarrow> known_expression P e \<and> known_expression P i"
  "known_expression P (EBinOp op l r)
     \<longleftrightarrow> op \<in> set script_operators \<and> known_expression P l \<and> known_expression P r"
  "known_expression P (EUnaryOp uop e) \<longleftrightarrow> uop \<noteq> Invert \<and> known_expression P e"
  "known_expression P (EBoolOp is_and es) \<longleftrightarrow> list_all (known_expression P) es"
  "known_expression P (ECompare l rs)
     \<longleftrightarrow> known_expression P l \<and> list_all (\<lambda>(op, r). op \<in> set (sp_compare P) \<and> known_expression P r) rs"
  "known_expression P (EIfExp t b o1) \<longleftrightarrow> known_expression P t \<and> known_expression P b \<and> known_expression P o1"
  "known_expression P (ECall f es keywords)
     \<longleftrightarrow> f \<in> set script_functions \<and> \<not> keywords \<and> list_all (known_expression P) es"
  "\<not> known_expression P EOther"
            apply (auto simp: known_expression_def list_all_concat_map list_all_iff)[3]
         apply (induct_tac items, (auto simp: known_expression_def known_item_def split: option.splits)[2])
        apply (auto simp: known_expression_def)[3]
     apply (auto simp: known_expression_def list_all_concat_map list_all_iff)[1]
    apply (induct_tac rs, (auto simp: known_expression_def)[2])
   apply (auto simp: known_expression_def list_all_concat_map list_all_iff)
  done

text \<open>
  What is asked of an invariant so that every script keeps it: the clock, the assignments of locals and the
  assignments of \<open>context\<close> keep it, and it allows the errors. \<open>strict\<close> restricts the scripts to known constructs and
  then does not ask that \<open>Unsupported\<close> is allowed.
\<close>

locale script_invariant =
  fixes P :: script_policy and ops :: python_ops and m :: int and strict :: bool
    and I :: "script_state \<Rightarrow> bool" and J :: "script_error \<Rightarrow> script_state \<Rightarrow> bool"
  assumes tick_inv: "task_inv I J (tick m)"
    and names_inv: "I s \<Longrightarrow> x \<noteq> ''context'' \<Longrightarrow> I (s\<lparr>ss_names := AList.update x v (ss_names s)\<rparr>)"
    and store_inv: "I s \<Longrightarrow> k \<noteq> []
           \<Longrightarrow> (sp_context_limits P
                \<Longrightarrow> length k \<le> 128 \<and> (k \<in> set (context_keys (ss_context s)) \<or> length (ss_context s) < 200))
           \<Longrightarrow> I (s\<lparr>ss_context := AList.update k v (ss_context s)\<rparr>)"
    and refused: "I s \<Longrightarrow> J ScriptRefused s"
    and raised: "I s \<Longrightarrow> J (Raised exc) s"
    and caught: "J (Raised exc) s \<Longrightarrow> J ScriptRefused s"
    and unsupported: "\<not> strict \<Longrightarrow> I s \<Longrightarrow> J Unsupported s"
    and no_unpacking: "strict \<Longrightarrow> \<not> sp_unpacking_shape P"
begin

lemma fail_refused: "task_inv I J (task_fail ScriptRefused)"
  by (rule task_invI) (auto simp: task_fail_def refused)

lemma fail_unsupported: "\<not> strict \<Longrightarrow> task_inv I J (task_fail Unsupported)"
  by (rule task_invI) (auto simp: task_fail_def unsupported)

lemma op_inv: "task_inv I J (op_result op)"
  by (rule task_invI) (auto simp: op_result_def raised split: sum.splits)

lemma catching_inv:
  assumes "task_inv I J t"
  shows "task_inv I J (catching P excs t)"
proof (rule task_invI)
  fix s x s' assume s: "I s" and run: "catching P excs t s = (Inr x, s')"
  then have "t s = (Inr x, s')"
    by (auto simp: catching_def split: prod.splits sum.splits script_error.splits if_splits)
  then show "I s'"
    using task_invD[OF assms s] by fastforce
next
  fix s err s' assume s: "I s" and run: "catching P excs t s = (Inl err, s')"
  then consider "t s = (Inl err, s')" | exc where "t s = (Inl (Raised exc), s')" and "err = ScriptRefused"
    by (auto simp: catching_def split: prod.splits sum.splits script_error.splits if_splits)
  then show "J err s'"
    using task_invD[OF assms s] caught by cases fastforce+
qed

lemma pure_inv: "(\<And>s. \<exists>x. t s = (Inr x, s)) \<Longrightarrow> task_inv I J t"
  by (rule task_invI) (metis Pair_inject sum.inject(2), metis Pair_inject sum.distinct(1))

lemma check_inv: "task_inv I J (\<lambda>s. if c s then (Inl ScriptRefused, s) else (Inr (), s))"
  by (rule task_invI) (auto simp: refused split: if_splits)

lemma json_size_inv: "task_inv I J (check_json_size P ops v)"
  unfolding check_json_size_def
  by (auto intro!: task_inv_then task_inv_return catching_inv op_inv fail_refused)

lemma lookup_inv: "task_inv I J (lookup_name x)"
  by (rule task_invI) (auto simp: lookup_name_def refused split: option.splits)

lemma test_inv: "task_inv I J (test_value ops v)"
  by (rule pure_inv) (simp add: test_value_def)

lemma bool_inv: "task_inv I J (\<lambda>s. (Inr (g s), s))"
  by (rule pure_inv) simp

lemmas keep_inv = task_inv_then task_inv_return catching_inv op_inv json_size_inv fail_refused tick_inv lookup_inv
  test_inv check_inv bool_inv

lemma apply_binary_inv: "task_inv I J (apply_binary P ops bop l r)"
  unfolding apply_binary_def check_sequence_growth_def check_collection_def by (intro keep_inv)

lemma apply_unary_inv: "(strict \<Longrightarrow> uop \<noteq> Invert) \<Longrightarrow> task_inv I J (apply_unary P ops uop v)"
  unfolding apply_unary_def using fail_unsupported by (auto intro!: catching_inv op_inv)

lemma apply_compare_inv: "(strict \<Longrightarrow> cop \<in> set (sp_compare P)) \<Longrightarrow> task_inv I J (apply_compare P ops cop l r)"
  unfolding apply_compare_def using fail_unsupported by (auto intro!: catching_inv op_inv task_inv_return)

lemma expressions_inv:
  "(\<And>e. e \<in> set es \<Longrightarrow> task_inv I J (expression P ops m e)) \<Longrightarrow> task_inv I J (expressions P ops m es)"
  by (induction es) (auto intro!: task_inv_then task_inv_return)

lemma dict_items_inv:
  assumes "\<And>k e. (Some k, e) \<in> set items \<Longrightarrow> task_inv I J (expression P ops m k)"
    and "\<And>k e. (k, e) \<in> set items \<Longrightarrow> task_inv I J (expression P ops m e)"
    and "strict \<Longrightarrow> \<forall>(k, e) \<in> set items. k \<noteq> None"
  shows "task_inv I J (dict_items P ops m items d)"
  using assms
proof (induction items arbitrary: d)
  case Nil
  then show ?case
    by (simp add: task_inv_return)
next
  case (Cons item items)
  have rest: "task_inv I J (dict_items P ops m items d)" for d
    using Cons.prems by (intro Cons.IH) auto
  obtain k e where item: "item = (k, e)"
    by (cases item)
  show ?case
  proof (cases k)
    case None
    then have "\<not> strict"
      using Cons.prems(3) item by auto
    then show ?thesis
      using None item by (auto intro!: task_inv_then tick_inv fail_unsupported)
  next
    case (Some x)
    then show ?thesis
      using Cons.prems(1)[of x e] Cons.prems(2)[of k e] rest item by (auto intro!: task_inv_then op_inv)
  qed
qed

lemma comparisons_inv:
  assumes "\<forall>(op, e) \<in> set rs. task_inv I J (expression P ops m e) \<and> (strict \<longrightarrow> op \<in> set (sp_compare P))"
  shows "task_inv I J (comparisons P ops m l rs)"
  using assms by (induction rs arbitrary: l) (auto intro!: task_inv_then task_inv_return apply_compare_inv)

lemma expression_inv: "(strict \<Longrightarrow> known_expression P e) \<Longrightarrow> task_inv I J (expression P ops m e)"
proof (induction e)
  case (EConstant c)
  then show ?case
    using fail_unsupported by (auto intro!: keep_inv)
next
  case (EDict items)
  have keys: "strict \<Longrightarrow> \<forall>(k, e) \<in> set items. k \<noteq> None"
    using EDict.prems no_unpacking by (fastforce simp: known_item_def list_all_iff split: option.splits)
  have "task_inv I J (dict_items P ops m items [])"
    using EDict keys by (intro dict_items_inv) (force simp: known_item_def list_all_iff)+
  moreover have "\<not> strict" if "list_ex (\<lambda>(k, v). k = None) items"
    using that keys by (auto simp: list_ex_iff)
  ultimately show ?case
    using fail_unsupported by (auto intro!: keep_inv)
next
  case (EBinOp op l r)
  then show ?case
    using fail_unsupported by (auto intro!: keep_inv apply_binary_inv)
next
  case (EUnaryOp op e)
  then show ?case
    by (auto intro!: keep_inv apply_unary_inv)
next
  case (ECompare l rs)
  have "task_inv I J (expression P ops m e) \<and> (strict \<longrightarrow> op \<in> set (sp_compare P))" if "(op, e) \<in> set rs" for op e
    using ECompare.IH(2)[OF that] ECompare.prems that by (fastforce simp: list_all_iff)
  then have "task_inv I J (comparisons P ops m v rs)" for v
    by (intro comparisons_inv) auto
  then show ?case
    using ECompare by (auto intro!: keep_inv)
next
  case (ECall f es kw)
  have "task_inv I J (expressions P ops m es)"
    using ECall by (intro expressions_inv) (auto simp: list_all_iff)
  moreover have "\<not> strict" if "f \<notin> set script_functions \<or> kw"
    using that ECall.prems by auto
  ultimately show ?case
    using fail_unsupported by (auto intro!: keep_inv)
next
  case EOther
  then show ?case
    using fail_unsupported by (auto intro!: keep_inv)
qed (auto intro!: keep_inv expressions_inv simp: list_all_iff)

lemma store_context_inv: "task_inv I J (store_context P ops key v)"
proof (cases key)
  case (VStr k)
  have "task_inv I J (\<lambda>s. if sp_context_limits P \<and> k \<notin> set (context_keys (ss_context s)) \<and> 200 \<le> length (ss_context s)
          then (Inl ScriptRefused, s) else (Inr (), s\<lparr>ss_context := AList.update k v (ss_context s)\<rparr>))"
    if "\<not> (k = [] \<or> sp_context_limits P \<and> 128 < length k)"
    using that by (intro task_invI) (auto simp: refused intro!: store_inv split: if_splits)
  then show ?thesis
    unfolding store_context_def VStr by (auto intro!: keep_inv)
qed (auto simp: store_context_def intro!: fail_refused)

lemma assign_inv:
  assumes "strict \<Longrightarrow> known_target P target"
  shows "task_inv I J (assign P ops m target v)"
proof -
  have "task_inv I J (\<lambda>s. (Inr (), s\<lparr>ss_names := AList.update x v (ss_names s)\<rparr>))" if "x \<noteq> ''context''" for x
    using that by (intro task_invI) (auto intro: names_inv)
  then show ?thesis
    using assms fail_unsupported
    by (cases "(P, target)" rule: known_target.cases)
      (auto simp: assign_def intro!: keep_inv store_context_inv expression_inv)
qed

lemma statements_inv:
  "(\<And>st. st \<in> set sts \<Longrightarrow> task_inv I J (statement P ops m st)) \<Longrightarrow> task_inv I J (statements P ops m sts)"
  by (induction sts) (auto intro!: task_inv_then task_inv_return)

lemma statement_inv: "(strict \<Longrightarrow> known_statement P st) \<Longrightarrow> task_inv I J (statement P ops m st)"
proof (induction st)
  case (SAssign targets e)
  show ?case
  proof (cases "\<exists>target. targets = [target]")
    case True
    then show ?thesis
      using SAssign by (auto intro!: keep_inv assign_inv expression_inv)
  next
    case False
    then have "\<not> strict"
      using SAssign by (auto simp: length_Suc_conv)
    then show ?thesis
      using False by (auto intro!: keep_inv fail_unsupported split: list.split)
  qed
next
  case (SIf t body orelse)
  then show ?case
    by (auto intro!: keep_inv expression_inv statements_inv simp: list_all_iff)
next
  case SOther
  then show ?case
    using fail_unsupported by (auto intro!: keep_inv)
qed (auto intro!: keep_inv expression_inv)

lemma script_inv: "(strict \<Longrightarrow> list_all (known_statement P) sts) \<Longrightarrow> task_inv I J (statements P ops m sts)"
  by (intro statements_inv statement_inv) (auto simp: list_all_iff)

end

section \<open>What a script can do\<close>

text \<open>
  The invariant of a run: the clock is within the budget (one past it when the budget error is raised), the caller's
  keys are all still there, keys are not duplicated and what the script added has the form the policy asks for.
\<close>

definition context_kept :: "script_policy \<Rightarrow> py_context \<Rightarrow> py_context \<Rightarrow> bool" where
  "context_kept P before after \<longleftrightarrow>
     set (context_keys before) \<subseteq> set (context_keys after) \<and> distinct (context_keys after)
     \<and> (\<forall>k \<in> set (context_keys after) - set (context_keys before). k \<noteq> [] \<and> (sp_context_limits P \<longrightarrow> length k \<le> 128))
     \<and> (sp_context_limits P \<longrightarrow> length after \<le> 200)"

definition names_kept :: "script_state \<Rightarrow> bool" where
  "names_kept s \<longleftrightarrow> map_of (ss_names s) ''context'' = Some VContext"

lemma length_AList_update:
  "length (AList.update k v al) = (if k \<in> fst ` set al then length al else Suc (length al))"
  by (induction al) auto

lemma context_kept_update:
  assumes "context_kept P before ctx" and "k \<noteq> []"
    and "sp_context_limits P \<Longrightarrow> length k \<le> 128 \<and> (k \<in> set (context_keys ctx) \<or> length ctx < 200)"
  shows "context_kept P before (AList.update k v ctx)"
proof -
  have keys: "set (context_keys (AList.update k v ctx)) = insert k (set (context_keys ctx))"
    by (simp add: context_keys_def dom_update image_image)
  have "distinct (context_keys (AList.update k v ctx))"
    using assms(1) by (simp add: context_kept_def context_keys_def distinct_update)
  moreover have "length (AList.update k v ctx) \<le> 200" if "sp_context_limits P"
    using assms that by (auto simp: length_AList_update context_kept_def context_keys_def)
  ultimately show ?thesis
    using assms unfolding context_kept_def keys by auto
qed

interpretation budget: script_invariant P ops m False
    "\<lambda>s. ss_steps s \<le> m \<and> context_kept P before (ss_context s) \<and> names_kept s"
    "\<lambda>err s. ss_steps s \<le> m + 1 \<and> context_kept P before (ss_context s) \<and> names_kept s"
  for P ops m before
  by unfold_locales
    (auto simp: task_inv_def tick_def Let_def names_kept_def update_conv' intro: context_kept_update split: if_splits sum.split)

interpretation known: script_invariant runner_policy ops m True "\<lambda>s. True" "\<lambda>err s. err \<noteq> Unsupported"
  for ops m
  by unfold_locales (auto simp: task_inv_def tick_def Let_def runner_policy_def split: if_splits sum.split)

lemma initial_kept:
  assumes "distinct (context_keys ctx)" and "sp_context_limits P \<Longrightarrow> length ctx \<le> 200"
  shows "context_kept P ctx (ss_context (initial_script_state ctx))" and "names_kept (initial_script_state ctx)"
  using assms by (simp_all add: context_kept_def initial_script_state_def names_kept_def)

lemma check_json_size_state: "check_json_size P ops v s = (r, s') \<Longrightarrow> s' = s"
  by (auto simp: check_json_size_def task_defs catching_def op_result_def
      split: if_splits sum.splits prod.splits script_error.splits)

lemma check_json_size_ok:
  assumes "check_json_size P ops v s = (Inr (), s')" and "sp_check_json P"
  shows "\<exists>encoded n. py_json_dumps ops (ss_context s) v = Inr encoded \<and> py_utf8_length ops encoded = Inr n \<and> n \<le> 64000"
  using assms by (auto simp: check_json_size_def task_defs catching_def op_result_def
      split: if_splits sum.splits prod.splits script_error.splits)

lemma check_json_size_error: "check_json_size P ops v s = (Inl err, s') \<Longrightarrow> err \<noteq> Unsupported"
  by (auto simp: check_json_size_def task_defs catching_def op_result_def
      split: if_splits sum.splits prod.splits script_error.splits)

text \<open>The ways a run on the Runner goes: refused before the first statement, or statements and the final check.\<close>

lemma runner_run_cases:
  assumes "runner_run_safe_script parse ops script ctx max_steps = (r, s')"
  obtains (refused) err where "r = Inl err" and "err \<noteq> Unsupported" and "s' = initial_script_state ctx"
  | (stopped) tree err where "parse_script parse True script = Some tree" and "r = Inl err"
      and "statements runner_policy ops (max 1 (min max_steps 500)) tree (initial_script_state ctx) = (Inl err, s')"
  | (checked) tree where "parse_script parse True script = Some tree"
      and "statements runner_policy ops (max 1 (min max_steps 500)) tree (initial_script_state ctx) = (Inr (), s')"
      and "check_json_size runner_policy ops VContext s' = (r, s')"
proof -
  let ?s = "initial_script_state ctx" and ?m = "max 1 (min max_steps 500)"
  obtain r0 s0 where json: "check_json_size runner_policy ops VContext ?s = (r0, s0)"
    by fastforce
  then have s0: "s0 = ?s"
    by (rule check_json_size_state)
  show thesis
  proof (cases "length ctx \<le> 200 \<and> r0 = Inr () \<and> runner_validate_safe_script parse script")
    case True
    then obtain tree where tree: "parse_script parse True script = Some tree"
      by (auto simp: runner_validate_safe_script_def split: option.splits)
    obtain r1 s1 where body: "statements runner_policy ops ?m tree ?s = (r1, s1)"
      by fastforce
    have run: "task_then (statements runner_policy ops ?m tree) (\<lambda>_. check_json_size runner_policy ops VContext) ?s = (r, s')"
      using assms True json tree s0 by (simp add: runner_run_safe_script_def task_then_def[of "check_json_size _ _ _"])
    show thesis
    proof (cases r1)
      case (Inl err)
      then show thesis
        using run body tree by (auto simp: task_then_def intro: stopped)
    next
      case (Inr x)
      then have "check_json_size runner_policy ops VContext s1 = (r, s')"
        using run body by (auto simp: task_then_def)
      moreover from this have "s' = s1"
        by (rule check_json_size_state)
      ultimately show thesis
        using checked[OF tree] body Inr by simp
    qed
  next
    case False
    then have "s' = ?s \<and> (\<exists>err. r = Inl err \<and> err \<noteq> Unsupported)"
      using assms json s0 check_json_size_error[of runner_policy ops VContext ?s _ s0]
      by (auto simp: runner_run_safe_script_def task_defs split: if_splits sum.splits)
    then show thesis
      using refused by blast
  qed
qed

lemma runner_statements_kept:
  assumes "statements runner_policy ops m tree (initial_script_state ctx) = (r, s')"
    and "distinct (context_keys ctx)" and "length ctx \<le> 200" and "0 \<le> m"
  shows "case r of Inr x \<Rightarrow> ss_steps s' \<le> m | Inl err \<Rightarrow> ss_steps s' \<le> m + 1"
    and "context_kept runner_policy ctx (ss_context s')"
proof -
  have "case r of
      Inr x \<Rightarrow> ss_steps s' \<le> m \<and> context_kept runner_policy ctx (ss_context s') \<and> names_kept s'
    | Inl err \<Rightarrow> ss_steps s' \<le> m + 1 \<and> context_kept runner_policy ctx (ss_context s') \<and> names_kept s'"
    using initial_kept[of ctx runner_policy] assms(2-4)
    by (intro task_invD[OF budget.script_inv _ assms(1)]) (simp_all add: initial_script_state_def)
  then show "case r of Inr x \<Rightarrow> ss_steps s' \<le> m | Inl err \<Rightarrow> ss_steps s' \<le> m + 1"
    and "context_kept runner_policy ctx (ss_context s')"
    by (auto split: sum.splits)
qed

text \<open>The squaring script of the last property below: \<open>x = 2\<close> and then \<open>n\<close> times \<open>x = x * x\<close>.\<close>

definition square_step :: pstmt where
  "square_step = SAssign [EName ''x''] (EBinOp Mult (EName ''x'') (EName ''x''))"

definition squarings :: "nat \<Rightarrow> pstmt list" where
  "squarings n = SAssign [EName ''x''] (EConstant (VInt 2)) # replicate n square_step"

lemma statement_square_step:
  assumes mult: "\<And>ctx a b. py_binary ops ctx Mult (VInt a) (VInt b) = Inr (VInt (a * b))"
    and x: "map_of (ss_names s) ''x'' = Some (VInt a)" and steps: "ss_steps s + 4 \<le> m"
  shows "\<exists>s'. statement backend_policy ops m square_step s = (Inr (), s') \<and> ss_steps s' = ss_steps s + 4
              \<and> map_of (ss_names s') ''x'' = Some (VInt (a * a))"
  using assms by (simp add: square_step_def task_defs tick_def lookup_name_def apply_binary_def check_sequence_growth_def
      check_collection_def check_json_size_def catching_def op_result_def assign_def policy_defs script_operators_def
      script_functions_def update_conv' Let_def)

lemma statements_square_steps:
  assumes mult: "\<And>ctx a b. py_binary ops ctx Mult (VInt a) (VInt b) = Inr (VInt (a * b))"
    and "map_of (ss_names s) ''x'' = Some (VInt a)" and "ss_steps s + 4 * int n \<le> m"
  shows "\<exists>s'. statements backend_policy ops m (replicate n square_step) s = (Inr (), s')
              \<and> ss_steps s' = ss_steps s + 4 * int n \<and> map_of (ss_names s') ''x'' = Some (VInt (a ^ 2 ^ n))"
  using assms(2,3)
proof (induction n arbitrary: s a)
  case 0
  then show ?case
    by (simp add: task_return_def)
next
  case (Suc n)
  obtain s1 where one: "statement backend_policy ops m square_step s = (Inr (), s1)" "ss_steps s1 = ss_steps s + 4"
      "map_of (ss_names s1) ''x'' = Some (VInt (a * a))"
    using statement_square_step[OF mult Suc.prems(1), of m] Suc.prems(2) by auto
  obtain s2 where rest: "statements backend_policy ops m (replicate n square_step) s1 = (Inr (), s2)"
      "ss_steps s2 = ss_steps s1 + 4 * int n" "map_of (ss_names s2) ''x'' = Some (VInt ((a * a) ^ 2 ^ n))"
    using Suc.IH[OF one(3)] one(2) Suc.prems(2) by auto
  have "(a * a) ^ 2 ^ n = a ^ 2 ^ Suc n"
    by (simp add: power_mult_distrib flip: power_add mult_2)
  then show ?case
    using one rest by (simp add: task_then_def)
qed

text \<open>A sample of Python's operators, enough for the scripts evaluated below.\<close>

fun sample_binary :: "binary_op \<Rightarrow> pyval \<Rightarrow> pyval \<Rightarrow> py_exception + pyval" where
  "sample_binary Mult (VInt a) (VInt b) = Inr (VInt (a * b))"
| "sample_binary Add (VInt a) (VInt b) = Inr (VInt (a + b))"
| "sample_binary _ _ _ = Inl TypeError"

fun sample_dumps :: "py_context \<Rightarrow> pyval \<Rightarrow> py_exception + string" where
  "sample_dumps ctx (VBool b) = Inr (if b then ''true'' else ''false'')"
| "sample_dumps ctx VContext =
     (if list_all (\<lambda>(k, v). v = VBool True) ctx
      then Inr (''{'' @ concat (map (\<lambda>(k, v). [CHR 34] @ k @ [CHR 34] @ '':true'') ctx) @ ''}'') else Inl ValueError)"
| "sample_dumps ctx _ = Inl TypeError"

definition sample_ops :: python_ops where
  "sample_ops = \<lparr>py_truthy = (\<lambda>ctx v. v = VBool True), py_binary = (\<lambda>ctx. sample_binary),
     py_unary = (\<lambda>ctx op v. Inl TypeError), py_compare = (\<lambda>ctx op l r. Inl TypeError),
     py_subscript = (\<lambda>ctx v k. Inl TypeError), py_call = (\<lambda>ctx f vs. Inl TypeError),
     py_store = (\<lambda>ctx d k v. Inr (AList.update k v d)), py_json_dumps = sample_dumps,
     py_utf8_length = (\<lambda>t. Inr (int (length t)))\<rparr>"

definition sample_script :: string where
  "sample_script = ''context['' @ [CHR 34] @ ''a'' @ [CHR 34] @ ''] = True''"

definition sample_tree :: "pstmt list" where
  "sample_tree = [SAssign [ESubscript (EName ''context'') (EConstant (VStr ''a''))] (EConstant (VBool True))]"

definition sample_parse :: "string \<Rightarrow> (pstmt list \<times> nat) option" where
  "sample_parse script =
     (if script = sample_script then Some (sample_tree, 8)
      else if script = ''x=2;x=x*x'' then Some (squarings 1, 16) else None)"

section \<open>Properties\<close>

text \<open>
C24. The Runner accepts a script exactly when the control plane does, its tree has at most 1000 nodes and no validated
part of it is a comparison with \<open><=\<close> or a dictionary unpacking. Nothing the control plane refuses gets past the
Runner; but a script with \<open><=\<close>, which the control plane accepts, is always refused when the test runs.
\<close>
theorem runner_validator_is_the_stricter_one:
  "runner_validate_safe_script parse script \<longleftrightarrow>
     backend_validate_safe_script parse script
     \<and> (case parse script of
          None \<Rightarrow> False
        | Some (tree, nodes) \<Rightarrow> nodes \<le> 1000 \<and> \<not> list_ex refused_by_runner (script_parts tree))"
  by (auto simp: runner_validate_safe_script_def backend_validate_safe_script_def parse_script_def script_shape_runner
      split: option.splits)

text \<open>
C23. Whatever a script does on the Runner, for every behaviour of Python's operators and functions: it takes at most the
allowed steps (never more than 500) before it is stopped, it removes no key of the context, the keys it adds are
non-empty and at most 128 characters long, the context never has more than 200 keys, and when the run succeeds the
context is a JSON value of at most 64000 bytes. All but the last hold when the run fails as well.
\<close>
theorem script_run_is_confined:
  assumes "runner_run_safe_script parse ops script ctx max_steps = (r, s')"
    and "distinct (context_keys ctx)" and "length ctx \<le> 200"
  shows "ss_steps s' \<le> (if r = Inr () then max 1 (min max_steps 500) else max 1 (min max_steps 500) + 1)
    \<and> context_kept runner_policy ctx (ss_context s')
    \<and> (r = Inr () \<longrightarrow> (\<exists>encoded n. py_json_dumps ops (ss_context s') VContext = Inr encoded
                         \<and> py_utf8_length ops encoded = Inr n \<and> n \<le> 64000))"
  using assms(1)
proof (cases rule: runner_run_cases)
  case (refused err)
  then show ?thesis
    using initial_kept[of ctx runner_policy] assms(2,3) by (simp add: initial_script_state_def)
next
  case (stopped tree err)
  then show ?thesis
    using runner_statements_kept[OF stopped(3) assms(2,3)] by simp
next
  case (checked tree)
  have "ss_steps s' \<le> max 1 (min max_steps 500)" and "context_kept runner_policy ctx (ss_context s')"
    using runner_statements_kept[OF checked(2) assms(2,3)] by simp_all
  moreover have "sp_check_json runner_policy"
    by (simp add: runner_policy_def)
  ultimately show ?thesis
    using check_json_size_ok[of runner_policy ops VContext s' s'] checked(3) by auto
qed

theorem script_run_is_confined_witness:
  "\<exists>s'. runner_run_safe_script sample_parse sample_ops sample_script [] 20 = (Inr (), s')
     \<and> ss_context s' = [(''a'', VBool True)] \<and> ss_steps s' \<le> 20 \<and> context_kept runner_policy [] (ss_context s')"
proof -
  obtain r s' where run: "runner_run_safe_script sample_parse sample_ops sample_script [] 20 = (r, s')"
    by fastforce
  moreover have "r = Inr () \<and> ss_context s' = [(''a'', VBool True)]"
    using run by (code_simp, auto)
  ultimately show ?thesis
    using script_run_is_confined[OF run] by (auto simp: context_keys_def)
qed

text \<open>
Where the validator stops short, and that nothing else is missing: a script on the Runner that assigns only to
names and to \<open>context[...]\<close>, and whose constants are neither bytes nor complex numbers nor \<open>...\<close>, never fails because of an unsupported
construct. The validator checks neither targets nor constants, so the hypothesis is not implied by validation.
\<close>
theorem known_script_is_never_unsupported:
  assumes "parse script = Some (tree, nodes)" and "list_all (known_statement runner_policy) tree"
    and "runner_run_safe_script parse ops script ctx max_steps = (r, s')"
  shows "r \<noteq> Inl Unsupported"
  using assms(3)
proof (cases rule: runner_run_cases)
  case (stopped tree' err)
  then have "tree' = tree"
    using assms(1) by (auto simp: parse_script_def split: if_splits)
  then have "err \<noteq> Unsupported"
    using task_invD[OF known.script_inv _ stopped(3)] assms(2) by simp
  then show ?thesis
    using stopped by simp
next
  case (checked tree')
  then show ?thesis
    using check_json_size_error by blast
qed simp

theorem known_script_is_never_unsupported_witness:
  "list_all (known_statement runner_policy) sample_tree
   \<and> fst (runner_run_safe_script sample_parse sample_ops sample_script [] 20) \<noteq> Inl Unsupported"
proof -
  have known: "list_all (known_statement runner_policy) sample_tree"
    by (simp add: sample_tree_def known_expression_def runner_policy_def)
  have "sample_parse sample_script = Some (sample_tree, 8)"
    by (simp add: sample_parse_def)
  then show ?thesis
    using known_script_is_never_unsupported[OF _ known, of sample_parse sample_script 8 sample_ops "[]" 20] known
    by (metis prod.collapse)
qed

text \<open>
C25. The step budget of the control plane does not bound the work of a preview: numbers have no size limit there, so
\<open>x = 2\<close> followed by \<open>n\<close> times \<open>x = x * x\<close> is a valid script that takes \<open>4 n + 2\<close> steps and computes
\<open>2 ^ (2 ^ n)\<close>. With \<open>n = 124\<close> it is within the 500 steps. That is for operators that multiply integers.
\<close>
theorem preview_budget_does_not_bound_integers:
  assumes mult: "\<And>ctx a b. py_binary ops ctx Mult (VInt a) (VInt b) = Inr (VInt (a * b))"
    and parse: "parse script = Some (squarings n, nodes)" and text_ok: "py_strip script \<noteq> []" "length script \<le> 5000"
    and n: "n \<le> 124"
  shows "backend_validate_safe_script parse script
    \<and> (\<exists>s'. backend_run_safe_script parse ops script ctx 500 = (Inr (), s')
         \<and> ss_steps s' = 4 * int n + 2 \<and> map_of (ss_names s') ''x'' = Some (VInt (2 ^ 2 ^ n)))"
proof
  have tree: "parse_script parse False script = Some (squarings n)"
    using parse text_ok by (simp add: parse_script_def)
  then show "backend_validate_safe_script parse script"
    by (simp add: backend_validate_safe_script_def squarings_def square_step_def script_operators_def list_all_iff)
  let ?s = "initial_script_state ctx\<lparr>ss_names := [(''context'', VContext), (''x'', VInt 2)], ss_steps := 2\<rparr>"
  obtain s' where "statements backend_policy ops 500 (replicate n square_step) ?s = (Inr (), s')"
      "ss_steps s' = ss_steps ?s + 4 * int n" "map_of (ss_names s') ''x'' = Some (VInt (2 ^ 2 ^ n))"
    using statements_square_steps[OF mult, of ?s 2 n 500] n by auto
  moreover have "statement backend_policy ops 500 (SAssign [EName ''x''] (EConstant (VInt 2))) (initial_script_state ctx)
      = (Inr (), ?s)"
    by (simp add: task_defs tick_def assign_def policy_defs script_functions_def initial_script_state_def)
  ultimately show "\<exists>s'. backend_run_safe_script parse ops script ctx 500 = (Inr (), s')
         \<and> ss_steps s' = 4 * int n + 2 \<and> map_of (ss_names s') ''x'' = Some (VInt (2 ^ 2 ^ n))"
    using tree by (simp add: backend_run_safe_script_def squarings_def task_then_def)
qed

theorem preview_budget_does_not_bound_integers_witness:
  "\<exists>s'. backend_run_safe_script sample_parse sample_ops ''x=2;x=x*x'' [] 500 = (Inr (), s')
      \<and> map_of (ss_names s') ''x'' = Some (VInt 4)"
proof -
  have "py_binary sample_ops ctx Mult (VInt a) (VInt b) = Inr (VInt (a * b))" for ctx a b
    by (simp add: sample_ops_def)
  moreover have "sample_parse ''x=2;x=x*x'' = Some (squarings 1, 16)"
    by (simp add: sample_parse_def sample_script_def)
  moreover have "py_strip ''x=2;x=x*x'' \<noteq> []"
    by code_simp
  ultimately show ?thesis
    using preview_budget_does_not_bound_integers[of sample_ops sample_parse "''x=2;x=x*x''" 1 16 "[]"] by auto
qed

end
