(* ===== verification/Auth.thy ===== *)
theory Auth
  imports Projects "HOL-Library.List_Lexorder" "HOL-Library.Product_Lexorder"
begin

text \<open>
  Users, logins and access tokens: \<open>auth/service.py\<close> with \<open>models.py\<close>, \<open>schemas.py\<close> and the dependency of
  \<open>api/deps.py\<close> that authenticates every request of a user.

  Argon2, SHA-256, PyJWT and the Unicode normalisation are fields of \<open>auth_env\<close>; salts are part of the hash
  function, generated identifiers are arguments. Request bodies are taken after schema validation. The column
  \<open>updated_at\<close>, which no code reads, is left out. A handler runs in one transaction under row locks and
  returns the new tables only when it commits.
\<close>

section \<open>Rows\<close>

datatype platform_role = PLATFORM_ADMIN | PLATFORM_USER

fun role_text :: "platform_role \<Rightarrow> string" where
  "role_text PLATFORM_ADMIN = ''ADMIN''"
| "role_text PLATFORM_USER = ''USER''"

text \<open>The columns of \<open>users\<close> the project services read are \<open>user_row\<close>; the others are added here.\<close>

record platform_user = user_row +
  uf_username :: string
  uf_display_name :: string
  uf_password_hash :: string
  uf_platform_role :: platform_role
  uf_auth_version :: int
  uf_created_at :: datetime

record auth_session =
  as_session_digest :: string
  as_user_id :: string
  as_auth_version :: int
  as_issued_at :: datetime
  as_expires_at :: datetime
  as_revoked_at :: "datetime option"

record auth_db =
  ad_users :: "platform_user list"
  ad_sessions :: "auth_session list"
  ad_guard :: bool  \<comment> \<open>the row of \<open>auth_admin_guards\<close> the migration inserts\<close>

type_synonym claims = "(string \<times> json) list"

record auth_env =
  ae_now :: datetime
  ae_hash :: "string \<Rightarrow> string"
  ae_verify :: "string \<Rightarrow> string \<Rightarrow> bool"
  ae_needs_rehash :: "string \<Rightarrow> bool"
  ae_sha256 :: "string \<Rightarrow> string"
  ae_jwt_encode :: "claims \<Rightarrow> string"
  ae_jwt_decode :: "datetime \<Rightarrow> string \<Rightarrow> claims option"  \<comment> \<open>\<open>None\<close> for \<open>InvalidTokenError\<close>\<close>
  ae_nfkc :: "string \<Rightarrow> string"
  ae_casefold :: "string \<Rightarrow> string"
  ae_access_token_expire_minutes :: int
  ae_issuer :: string
  ae_audience :: string

record principal =
  pr_user :: current_user
  pr_session_digest :: string

record token_response =
  to_access_token :: string
  to_expires_in :: int
  to_user :: current_user

record user_create =
  uc_username :: string
  uc_display_name :: string
  uc_password :: string
  uc_platform_role :: platform_role
  uc_status :: user_status

record user_update =
  uu_display_name :: "string option"
  uu_platform_role :: "platform_role option"
  uu_status :: "user_status option"

definition invalid_token :: app_error where
  "invalid_token = AuthenticationError ''invalid or expired token''"

definition get_user :: "auth_db \<Rightarrow> string \<Rightarrow> platform_user option" where
  "get_user db i = get_row us_id (ad_users db) i"

definition put_user :: "auth_db \<Rightarrow> platform_user \<Rightarrow> auth_db" where
  "put_user db u = db\<lparr>ad_users := put_row us_id u (ad_users db)\<rparr>"

definition get_session :: "auth_db \<Rightarrow> string \<Rightarrow> auth_session option" where
  "get_session db d = get_row as_session_digest (ad_sessions db) d"

section \<open>Passwords and tokens\<close>

definition hash_password :: "auth_env \<Rightarrow> string \<Rightarrow> app_error + string" where
  "hash_password e password =
     (if 8 \<le> length password \<and> length password \<le> 256 then Inr (ae_hash e password)
      else Inl (InternalError ''ValueError''))"

definition as_current_user :: "platform_user \<Rightarrow> current_user" where
  "as_current_user u = \<lparr>cu_id = us_id u, cu_roles = [role_text (uf_platform_role u)]\<rparr>"

definition token_claims :: "auth_env \<Rightarrow> string \<Rightarrow> string \<Rightarrow> int \<Rightarrow> int \<Rightarrow> int \<Rightarrow> claims" where
  "token_claims e subject session_id auth_version issued_at expires_at =
     [(''sub'', JStr subject), (''sid'', JStr session_id), (''av'', JInt auth_version), (''iat'', JInt issued_at),
      (''exp'', JInt expires_at), (''iss'', JStr (ae_issuer e)), (''aud'', JStr (ae_audience e))]"

definition encode_token :: "auth_env \<Rightarrow> platform_user \<Rightarrow> string \<Rightarrow> int \<Rightarrow> int \<Rightarrow> string" where
  "encode_token e user session_id issued_at expires_at =
     ae_jwt_encode e (token_claims e (us_id user) session_id (uf_auth_version user) issued_at expires_at)"

definition valid_session_id :: "string \<Rightarrow> bool" where
  "valid_session_id s \<longleftrightarrow> list_all safe_id_char s \<and> 32 \<le> length s \<and> length s \<le> 128"

record token_payload =
  tp_sub :: string
  tp_sid :: string
  tp_av :: int
  tp_iat :: int
  tp_exp :: int

definition decode_token :: "auth_env \<Rightarrow> string \<Rightarrow> app_error + token_payload" where
  "decode_token e token =
     (if \<not> (1 \<le> length token \<and> length token \<le> 4096) then Inl invalid_token
      else case ae_jwt_decode e (ae_now e) token of
             None \<Rightarrow> Inl invalid_token
           | Some payload \<Rightarrow>
               (case (map_of payload ''sub'', map_of payload ''sid'', map_of payload ''av'', map_of payload ''iat'',
                      map_of payload ''exp'', map_of payload ''iss'', map_of payload ''aud'') of
                  (Some (JStr subject), Some (JStr session_id), Some (JInt auth_version), Some (JInt issued_at),
                   Some (JInt expires_at), Some (JStr issuer), Some (JStr audience)) \<Rightarrow>
                     if 1 \<le> length subject \<and> length subject \<le> 64 \<and> valid_session_id session_id
                        \<and> 1 \<le> auth_version \<and> 1 \<le> issued_at \<and> issued_at < expires_at
                        \<and> issuer = ae_issuer e \<and> audience = ae_audience e
                     then Inr \<lparr>tp_sub = subject, tp_sid = session_id, tp_av = auth_version, tp_iat = issued_at,
                               tp_exp = expires_at\<rparr>
                     else Inl invalid_token
                | _ \<Rightarrow> Inl invalid_token))"

text \<open>\<open>login\<close>; \<open>session_id\<close> is what \<open>secrets.token_urlsafe\<close> returns. Times are cut to whole seconds.\<close>

definition whole_seconds :: "datetime \<Rightarrow> int" where
  "whole_seconds t = t div 1000000"

definition dummy_password_hash :: string where
  "dummy_password_hash = ''$argon2id$v=19$m=19456,t=2,p=1$5otAe5r7LjAjUh4Ys/OifA$CWuAE0tuEW/IyOtVjjrbOmNow7iA79q9CJ6uZwewLVg''"

definition rehashed :: "auth_env \<Rightarrow> platform_user \<Rightarrow> string \<Rightarrow> app_error + platform_user" where
  "rehashed e user password =
     (if ae_needs_rehash e (uf_password_hash user)
      then res_bind (hash_password e password) (\<lambda>h. Inr (user\<lparr>uf_password_hash := h\<rparr>))
      else Inr user)"

definition expires_in :: "auth_env \<Rightarrow> int" where
  "expires_in e = ae_access_token_expire_minutes e * 60"

definition session_row :: "auth_env \<Rightarrow> platform_user \<Rightarrow> string \<Rightarrow> auth_session" where
  "session_row e user session_id =
     \<lparr>as_session_digest = ae_sha256 e session_id, as_user_id = us_id user, as_auth_version = uf_auth_version user,
      as_issued_at = seconds (whole_seconds (ae_now e)),
      as_expires_at = seconds (whole_seconds (ae_now e) + expires_in e), as_revoked_at = None\<rparr>"

definition login ::
  "auth_env \<Rightarrow> auth_db \<Rightarrow> string \<Rightarrow> string \<Rightarrow> string \<Rightarrow> app_error + token_response \<times> auth_db" where
  "login e db username password session_id =
     (let found = find (\<lambda>u. uf_username u = username) (ad_users db);
          candidate_hash = (case found of None \<Rightarrow> dummy_password_hash | Some u \<Rightarrow> uf_password_hash u);
          password_valid = ae_verify e candidate_hash password
      in case found of
           None \<Rightarrow> Inl (AuthenticationError ''invalid login'')
         | Some user \<Rightarrow>
             if \<not> password_valid \<or> us_status user \<noteq> USER_ACTIVE then Inl (AuthenticationError ''invalid login'')
             else
               res_bind (rehashed e user password) (\<lambda>user'.
                 let issued = whole_seconds (ae_now e);
                     row = session_row e user' session_id;
                     token = encode_token e user' session_id issued (issued + expires_in e)
                 in if get_session db (as_session_digest row) \<noteq> None
                    then Inl (AuthenticationError ''login unavailable'')
                    else Inr (\<lparr>to_access_token = token, to_expires_in = expires_in e, to_user = as_current_user user'\<rparr>,
                              (put_user db user')\<lparr>ad_sessions := ad_sessions db @ [row]\<rparr>)))"

definition authenticate_access_token :: "auth_env \<Rightarrow> auth_db \<Rightarrow> string \<Rightarrow> app_error + principal" where
  "authenticate_access_token e db token =
     res_bind (decode_token e token) (\<lambda>payload.
       let digest = ae_sha256 e (tp_sid payload)
       in case get_session db digest of
            None \<Rightarrow> Inl invalid_token
          | Some auth_session \<Rightarrow>
              (case get_user db (as_user_id auth_session) of
                 None \<Rightarrow> Inl invalid_token
               | Some user \<Rightarrow>
                   if as_user_id auth_session \<noteq> tp_sub payload \<or> as_revoked_at auth_session \<noteq> None
                      \<or> as_expires_at auth_session \<le> ae_now e \<or> us_status user \<noteq> USER_ACTIVE
                      \<or> as_auth_version auth_session \<noteq> tp_av payload \<or> uf_auth_version user \<noteq> tp_av payload
                      \<or> whole_seconds (as_issued_at auth_session) \<noteq> tp_iat payload
                      \<or> whole_seconds (as_expires_at auth_session) \<noteq> tp_exp payload
                   then Inl invalid_token
                   else Inr \<lparr>pr_user = as_current_user user, pr_session_digest = digest\<rparr>))"

text \<open>\<open>get_authenticated_principal\<close> of \<open>api/deps.py\<close>: the header is a scheme and credentials.\<close>

definition get_authenticated_principal ::
  "auth_env \<Rightarrow> auth_db \<Rightarrow> (string \<times> string) option \<Rightarrow> app_error + principal" where
  "get_authenticated_principal e db header =
     (case header of
        None \<Rightarrow> Inl (AuthenticationError ''login first'')
      | Some (scheme, credentials) \<Rightarrow>
          if py_lower scheme \<noteq> ''bearer'' then Inl (AuthenticationError ''login first'')
          else authenticate_access_token e db credentials)"

section \<open>Operations\<close>

definition logout :: "auth_env \<Rightarrow> auth_db \<Rightarrow> principal \<Rightarrow> app_error + unit \<times> auth_db" where
  "logout e db p =
     (case get_session db (pr_session_digest p) of
        None \<Rightarrow> Inl invalid_token
      | Some s \<Rightarrow>
          if as_revoked_at s \<noteq> None then Inl invalid_token
          else Inr ((), db\<lparr>ad_sessions :=
                           put_row as_session_digest (s\<lparr>as_revoked_at := Some (ae_now e)\<rparr>) (ad_sessions db)\<rparr>))"

definition revoked_session :: "string \<Rightarrow> datetime \<Rightarrow> auth_session \<Rightarrow> auth_session" where
  "revoked_session user_id revoked_at s =
     (if as_user_id s = user_id \<and> as_revoked_at s = None then s\<lparr>as_revoked_at := Some revoked_at\<rparr> else s)"

definition revoke_all_sessions :: "auth_db \<Rightarrow> string \<Rightarrow> datetime \<Rightarrow> auth_db" where
  "revoke_all_sessions db user_id revoked_at =
     db\<lparr>ad_sessions := map (revoked_session user_id revoked_at) (ad_sessions db)\<rparr>"

definition change_password ::
  "auth_env \<Rightarrow> auth_db \<Rightarrow> principal \<Rightarrow> string \<Rightarrow> string \<Rightarrow> app_error + unit \<times> auth_db" where
  "change_password e db p current_password new_password =
     (case get_user db (cu_id (pr_user p)) of
        None \<Rightarrow> Inl invalid_token
      | Some user \<Rightarrow>
          if us_status user \<noteq> USER_ACTIVE then Inl invalid_token
          else if \<not> ae_verify e (uf_password_hash user) current_password
          then Inl (AuthenticationError ''wrong current password'')
          else res_bind (hash_password e new_password) (\<lambda>h.
               let user' = user\<lparr>uf_password_hash := h, uf_auth_version := uf_auth_version user + 1\<rparr>
               in Inr ((), revoke_all_sessions (put_user db user') (us_id user) (ae_now e))))"

definition require_platform_admin :: "current_user \<Rightarrow> app_error + unit" where
  "require_platform_admin user =
     (if is_admin user then Inr () else Inl (AuthorizationError ''only administrators manage users''))"

definition lock_admin_guard :: "auth_db \<Rightarrow> app_error + unit" where
  "lock_admin_guard db = (if ad_guard db then Inr () else Inl (SecurityConfigurationError ''admin guard''))"

definition list_users :: "auth_db \<Rightarrow> current_user \<Rightarrow> nat \<Rightarrow> nat \<Rightarrow> app_error + platform_user list \<times> nat" where
  "list_users db actor page page_size =
     res_bind (require_platform_admin actor) (\<lambda>_.
       Inr (take page_size (drop ((page - 1) * page_size) (sort_key (\<lambda>u. (uf_created_at u, us_id u)) (ad_users db))),
            length (ad_users db)))"

text \<open>The unique keys of \<open>users\<close>; a violation is the \<open>IntegrityError\<close>.\<close>

definition add_user :: "auth_db \<Rightarrow> platform_user \<Rightarrow> auth_db option" where
  "add_user db u =
     (if us_id u \<in> us_id ` set (ad_users db) \<or> uf_username u \<in> uf_username ` set (ad_users db) then None
      else Some (db\<lparr>ad_users := ad_users db @ [u]\<rparr>))"

definition create_user ::
  "auth_env \<Rightarrow> auth_db \<Rightarrow> current_user \<Rightarrow> user_create \<Rightarrow> string \<Rightarrow> app_error + platform_user \<times> auth_db" where
  "create_user e db actor payload token_hex =
     res_bind (require_platform_admin actor) (\<lambda>_.
     res_bind (lock_admin_guard db) (\<lambda>_.
     res_bind (hash_password e (uc_password payload)) (\<lambda>h.
       let user = \<lparr>us_id = ''usr_'' @ token_hex, us_status = uc_status payload, uf_username = uc_username payload,
                   uf_display_name = uc_display_name payload, uf_password_hash = h,
                   uf_platform_role = uc_platform_role payload, uf_auth_version = 1, uf_created_at = ae_now e\<rparr>
       in case add_user db user of
            None \<Rightarrow> Inl (ResourceConflictError ''username exists'')
          | Some db' \<Rightarrow> Inr (user, db'))))"

definition active_admin :: "platform_user \<Rightarrow> bool" where
  "active_admin u \<longleftrightarrow> uf_platform_role u = PLATFORM_ADMIN \<and> us_status u = USER_ACTIVE"

text \<open>The row \<open>update_user\<close> is about to write, and whether role or status change.\<close>

definition updated :: "user_update \<Rightarrow> platform_user \<Rightarrow> platform_user" where
  "updated payload u =
     u\<lparr>us_status := (case uu_status payload of Some s \<Rightarrow> s | None \<Rightarrow> us_status u),
       uf_platform_role := (case uu_platform_role payload of Some r \<Rightarrow> r | None \<Rightarrow> uf_platform_role u),
       uf_display_name := (case uu_display_name payload of Some d \<Rightarrow> d | None \<Rightarrow> uf_display_name u)\<rparr>"

definition security_changed :: "user_update \<Rightarrow> platform_user \<Rightarrow> bool" where
  "security_changed payload u \<longleftrightarrow>
     uf_platform_role (updated payload u) \<noteq> uf_platform_role u \<or> us_status (updated payload u) \<noteq> us_status u"

definition update_user ::
  "auth_env \<Rightarrow> auth_db \<Rightarrow> current_user \<Rightarrow> string \<Rightarrow> user_update \<Rightarrow> app_error + platform_user \<times> auth_db" where
  "update_user e db actor user_id payload =
     res_bind (require_platform_admin actor) (\<lambda>_.
     res_bind (if uu_platform_role payload \<noteq> None \<or> uu_status payload \<noteq> None then lock_admin_guard db else Inr ()) (\<lambda>_.
       case get_user db user_id of
         None \<Rightarrow> Inl (ResourceNotFoundError ''user'')
       | Some user \<Rightarrow>
           (let user1 = updated payload user
            in if active_admin user \<and> \<not> active_admin user1 \<and> length (filter active_admin (ad_users db)) \<le> 1
               then Inl (ResourceConflictError ''the last active administrator'')
               else if security_changed payload user
               then (let user2 = user1\<lparr>uf_auth_version := uf_auth_version user + 1\<rparr>
                     in Inr (user2, revoke_all_sessions (put_user db user2) (us_id user) (ae_now e)))
               else Inr (user1, put_user db user1))))"

definition username_char :: "char \<Rightarrow> bool" where
  "username_char c \<longleftrightarrow> ascii_lower c \<or> ascii_digit c \<or> c \<in> {CHR ''_'', CHR ''.'', CHR ''@'', CHR ''-''}"

definition normalize_username :: "auth_env \<Rightarrow> string \<Rightarrow> app_error + string" where
  "normalize_username e value =
     (let normalized = ae_casefold e (py_strip (ae_nfkc e value))
      in if 1 \<le> length normalized \<and> length normalized \<le> 64 \<and> list_all username_char normalized
         then Inr normalized else Inl (InternalError ''ValueError''))"

definition bootstrap_development_admin ::
  "auth_env \<Rightarrow> auth_db \<Rightarrow> string \<Rightarrow> string \<Rightarrow> string \<Rightarrow> app_error + (string \<times> string \<times> string) \<times> auth_db" where
  "bootstrap_development_admin e db username password display_name =
     res_bind (normalize_username e username) (\<lambda>normalized_username.
     if \<not> (1 \<le> length (py_strip display_name) \<and> length (py_strip display_name) \<le> 128)
     then Inl (InternalError ''ValueError'')
     else
       res_bind (lock_admin_guard db) (\<lambda>_.
         let existing = filter (\<lambda>u. us_id u = ''dev-admin'' \<or> uf_username u = normalized_username) (ad_users db)
         in if existing \<noteq> []
            then (if length existing = 1 \<and> us_id (hd existing) = ''dev-admin'' \<and> uf_username (hd existing) = normalized_username
                  then Inr ((''ALREADY_EXISTS'', ''dev-admin'', normalized_username), db)
                  else Inl (ResourceConflictError ''id or username is taken''))
            else
              res_bind (hash_password e password) (\<lambda>h.
                let user = \<lparr>us_id = ''dev-admin'', us_status = USER_ACTIVE, uf_username = normalized_username,
                            uf_display_name = py_strip display_name, uf_password_hash = h,
                            uf_platform_role = PLATFORM_ADMIN, uf_auth_version = 1, uf_created_at = ae_now e\<rparr>
                in case add_user db user of
                     None \<Rightarrow> Inl (ResourceConflictError ''concurrent bootstrap'')
                   | Some db' \<Rightarrow> Inr ((''CREATED'', us_id user, uf_username user), db'))))"

section \<open>Sequences of requests\<close>

text \<open>
  A principal or an administrator is whatever an earlier authentication returned, perhaps long ago: the
  operations take any.
\<close>

datatype auth_op =
    AuLogin string string string
  | AuLogout principal
  | AuChangePassword principal string string
  | AuCreateUser current_user user_create string
  | AuUpdateUser current_user string user_update
  | AuBootstrap string string string

definition committed :: "auth_db \<Rightarrow> app_error + 'r \<times> auth_db \<Rightarrow> auth_db" where
  "committed db r = (case r of Inl err \<Rightarrow> db | Inr (x, db') \<Rightarrow> db')"

fun auth_apply :: "auth_env \<Rightarrow> auth_db \<Rightarrow> auth_op \<Rightarrow> auth_db" where
  "auth_apply e db (AuLogin username password session_id) = committed db (login e db username password session_id)"
| "auth_apply e db (AuLogout p) = committed db (logout e db p)"
| "auth_apply e db (AuChangePassword p current_password new_password) =
     committed db (change_password e db p current_password new_password)"
| "auth_apply e db (AuCreateUser actor payload token_hex) = committed db (create_user e db actor payload token_hex)"
| "auth_apply e db (AuUpdateUser actor user_id payload) = committed db (update_user e db actor user_id payload)"
| "auth_apply e db (AuBootstrap username password display_name) =
     committed db (bootstrap_development_admin e db username password display_name)"

fun auth_run :: "auth_db \<Rightarrow> (auth_env \<times> auth_op) list \<Rightarrow> auth_db" where
  "auth_run db [] = db"
| "auth_run db ((e, op) # ops) = auth_run (auth_apply e db op) ops"

definition empty_auth_db :: auth_db where
  "empty_auth_db = \<lparr>ad_users = [], ad_sessions = [], ad_guard = True\<rparr>"

end
