(* ===== verification/Auth_Guarantees.thy ===== *)
theory Auth_Guarantees
  imports Auth
begin

text \<open>
  What users, logins and tokens guarantee along every sequence of requests: an active administrator always
  remains, the tables satisfy their constraints, and the token of a login is accepted until it expires or
  an operation ends its session, and never afterwards.

  Every operation is a sequence of a few edits of the tables (\<open>auth_edit\<close>), over which invariants are shown by
  rule induction.
\<close>

section \<open>Edits\<close>

inductive auth_edit :: "auth_db \<Rightarrow> auth_db \<Rightarrow> bool" where
  profile: "get_user db i = Some u \<Longrightarrow> us_id u' = us_id u \<Longrightarrow> uf_username u' = uf_username u \<Longrightarrow> us_status u' = us_status u
     \<Longrightarrow> uf_platform_role u' = uf_platform_role u \<Longrightarrow> uf_auth_version u' = uf_auth_version u
     \<Longrightarrow> auth_edit db (put_user db u')"
| security: "get_user db i = Some u \<Longrightarrow> us_id u' = us_id u \<Longrightarrow> uf_username u' = uf_username u
     \<Longrightarrow> uf_auth_version u' = uf_auth_version u + 1
     \<Longrightarrow> active_admin u \<Longrightarrow> \<not> active_admin u' \<Longrightarrow> 1 < length (filter active_admin (ad_users db))
     \<Longrightarrow> auth_edit db (revoke_all_sessions (put_user db u') (us_id u) t)"
| security_safe: "get_user db i = Some u \<Longrightarrow> us_id u' = us_id u \<Longrightarrow> uf_username u' = uf_username u
     \<Longrightarrow> uf_auth_version u' = uf_auth_version u + 1 \<Longrightarrow> active_admin u \<longrightarrow> active_admin u'
     \<Longrightarrow> auth_edit db (revoke_all_sessions (put_user db u') (us_id u) t)"
| new_session: "get_user db (as_user_id s) = Some u \<Longrightarrow> as_auth_version s = uf_auth_version u
     \<Longrightarrow> get_session db (as_session_digest s) = None \<Longrightarrow> auth_edit db (db\<lparr>ad_sessions := ad_sessions db @ [s]\<rparr>)"
| end_session: "get_session db d = Some s \<Longrightarrow>
     auth_edit db (db\<lparr>ad_sessions := put_row as_session_digest (s\<lparr>as_revoked_at := Some t\<rparr>) (ad_sessions db)\<rparr>)"
| new_user: "add_user db u = Some db' \<Longrightarrow> uf_auth_version u = 1 \<Longrightarrow> auth_edit db db'"

lemma get_user_id: "get_user db i = Some u \<Longrightarrow> us_id u = i"
  unfolding get_user_def by (rule row_table.get_key)

lemma find_get_user:
  assumes "find P (ad_users db) = Some u" and "distinct (map us_id (ad_users db))"
  shows "get_user db (us_id u) = Some u"
  using assms find_SomeD[OF assms(1)] by (auto simp: get_user_def intro: get_row_distinct)

lemma put_user_session [simp]: "ad_sessions (put_user db u) = ad_sessions db" "get_session (put_user db u) d = get_session db d"
  by (simp_all add: put_user_def get_session_def)

lemma put_user_users: "ad_users (put_user db u) = put_row us_id u (ad_users db)"
  by (simp add: put_user_def)

lemma get_put_user:
  "get_user (put_user db u) i = (if i = us_id u then (case get_user db i of None \<Rightarrow> None | Some _ \<Rightarrow> Some u) else get_user db i)"
  unfolding get_user_def put_user_def by (simp add: row_table.get_put)

lemma get_user_sessions [simp]: "get_user (db\<lparr>ad_sessions := ss\<rparr>) i = get_user db i"
  by (simp add: get_user_def)

lemma revoke_all_users [simp]:
  "ad_users (revoke_all_sessions db uid t) = ad_users db" "get_user (revoke_all_sessions db uid t) i = get_user db i"
  by (simp_all add: revoke_all_sessions_def get_user_def)

lemma get_row_map:
  assumes "\<And>r. key (f r) = key r"
  shows "get_row key (map f rows) k = map_option f (get_row key rows k)"
  by (induction rows) (auto simp: get_row_def assms)

lemma revoked_session_fields [simp]:
  "as_session_digest (revoked_session uid t s) = as_session_digest s" "as_user_id (revoked_session uid t s) = as_user_id s"
  "as_auth_version (revoked_session uid t s) = as_auth_version s"
  "as_revoked_at s = Some r \<Longrightarrow> revoked_session uid t s = s"
  by (simp_all add: revoked_session_def)

lemma get_session_revoke_all:
  "get_session (revoke_all_sessions db uid t) d = map_option (revoked_session uid t) (get_session db d)"
  by (simp add: get_session_def revoke_all_sessions_def get_row_map)

lemma committed_simps [simp]: "committed db (Inl err) = db" "committed db (Inr (x, db')) = db'"
  by (simp_all add: committed_def)

lemma login_cases:
  assumes "login e db username password sid = Inr (resp, db')"
  obtains u u' where "find (\<lambda>u. uf_username u = username) (ad_users db) = Some u"
    and "us_id u' = us_id u" and "uf_username u' = uf_username u" and "us_status u' = us_status u"
    and "uf_platform_role u' = uf_platform_role u" and "uf_auth_version u' = uf_auth_version u"
    and "us_status u = USER_ACTIVE" and "get_session db (ae_sha256 e sid) = None"
    and "to_access_token resp
           = encode_token e u' sid (whole_seconds (ae_now e)) (whole_seconds (ae_now e) + expires_in e)"
    and "to_user resp = as_current_user u'"
    and "db' = (put_user db u')\<lparr>ad_sessions := ad_sessions db @ [session_row e u' sid]\<rparr>"
proof -
  obtain u u' where u: "find (\<lambda>u. uf_username u = username) (ad_users db) = Some u" "us_status u = USER_ACTIVE"
      and u': "rehashed e u password = Inr u'" and fresh: "get_session db (ae_sha256 e sid) = None"
      and resp: "to_access_token resp
           = encode_token e u' sid (whole_seconds (ae_now e)) (whole_seconds (ae_now e) + expires_in e)"
        "to_user resp = as_current_user u'"
      and db': "db' = (put_user db u')\<lparr>ad_sessions := ad_sessions db @ [session_row e u' sid]\<rparr>"
    using assms by (auto simp: login_def Let_def res_simps session_row_def split: option.splits if_splits)
  have "\<exists>h. u' = u\<lparr>uf_password_hash := h\<rparr>"
    using u' by (auto simp: rehashed_def res_simps split: if_splits intro: exI[of _ "uf_password_hash u"])
  then show thesis
    using that[of u u'] u fresh resp db' by auto
qed

lemma login_edits:
  assumes "distinct (map us_id (ad_users db))" and "login e db username password sid = Inr (resp, db')"
  shows "auth_edit\<^sup>*\<^sup>* db db'"
  using assms(2)
proof (cases rule: login_cases)
  case (1 u u')
  have u: "get_user db (us_id u) = Some u"
    by (rule find_get_user[OF 1(1) assms(1)])
  have "auth_edit db (put_user db u')"
    using profile[OF u 1(2-6)] .
  moreover have "auth_edit (put_user db u') db'"
    using new_session[of "put_user db u'" "session_row e u' sid" u'] u 1(2,8) unfolding 1(11)
    by (simp add: session_row_def get_put_user)
  ultimately show ?thesis
    by (auto intro: converse_rtranclp_into_rtranclp)
qed

lemma change_password_edit:
  assumes "change_password e db p c n = Inr (x, db')"
  shows "auth_edit db db'"
proof -
  obtain u h where u: "get_user db (cu_id (pr_user p)) = Some u"
      and db': "db' = revoke_all_sessions (put_user db (u\<lparr>uf_password_hash := h, uf_auth_version := uf_auth_version u + 1\<rparr>))
                        (us_id u) (ae_now e)"
    using assms by (auto simp: change_password_def res_simps Let_def split: option.splits if_splits)
  show ?thesis
    unfolding db' by (rule security_safe[OF u]) (auto simp: active_admin_def)
qed

lemma update_user_cases:
  assumes "update_user e db actor uid payload = Inr (x, db')"
  obtains (changed) u where "get_user db uid = Some u" and "security_changed payload u"
      and "active_admin u \<Longrightarrow> \<not> active_admin (updated payload u) \<Longrightarrow> 1 < length (filter active_admin (ad_users db))"
      and "db' = revoke_all_sessions (put_user db ((updated payload u)\<lparr>uf_auth_version := uf_auth_version u + 1\<rparr>))
                   (us_id u) (ae_now e)"
  | (unchanged) u where "get_user db uid = Some u" and "\<not> security_changed payload u" and "db' = put_user db (updated payload u)"
proof -
  obtain u where u: "get_user db uid = Some u"
    using assms by (auto simp: update_user_def res_simps split: option.splits)
  then show thesis
    using assms changed[OF u] unchanged[OF u]
    by (cases "security_changed payload u") (auto simp: update_user_def res_simps Let_def split: if_splits)
qed

lemma update_user_edit:
  assumes "update_user e db actor uid payload = Inr (x, db')"
  shows "auth_edit db db'"
  using assms
proof (cases rule: update_user_cases)
  case (changed u)
  let ?u' = "(updated payload u)\<lparr>uf_auth_version := uf_auth_version u + 1\<rparr>"
  have "active_admin ?u' \<longleftrightarrow> active_admin (updated payload u)" "us_id ?u' = us_id u" "uf_username ?u' = uf_username u"
    by (simp_all add: active_admin_def updated_def)
  then show ?thesis
    using changed security[OF changed(1), of ?u'] security_safe[OF changed(1), of ?u'] by fastforce
next
  case (unchanged u)
  then show ?thesis
    by (auto simp: security_changed_def updated_def intro!: profile)
qed

lemma create_user_edit:
  assumes "create_user e db actor payload hex = Inr (x, db')"
  shows "auth_edit db db'"
  using assms by (auto simp: create_user_def res_simps Let_def intro!: new_user split: option.splits)

lemma bootstrap_edit:
  assumes "bootstrap_development_admin e db username password name = Inr (x, db')"
  shows "db' = db \<or> auth_edit db db'"
  using assms
  by (auto simp: bootstrap_development_admin_def res_simps Let_def intro!: new_user split: option.splits if_splits)

lemma logout_edit:
  assumes "logout e db p = Inr (x, db')"
  shows "auth_edit db db'"
  using assms by (auto simp: logout_def intro!: end_session split: option.splits if_splits)

section \<open>Invariants\<close>

text \<open>
  The keys and check constraints of the tables; moreover a session that is not revoked carries the present
  version of its user.
\<close>

definition session_fits :: "auth_db \<Rightarrow> auth_session \<Rightarrow> bool" where
  "session_fits db s \<longleftrightarrow> 1 \<le> as_auth_version s
     \<and> (\<exists>u. get_user db (as_user_id s) = Some u \<and> as_auth_version s \<le> uf_auth_version u
            \<and> (as_revoked_at s = None \<longrightarrow> as_auth_version s = uf_auth_version u))"

definition auth_inv :: "auth_db \<Rightarrow> bool" where
  "auth_inv db \<longleftrightarrow>
     distinct (map us_id (ad_users db)) \<and> distinct (map uf_username (ad_users db))
     \<and> distinct (map as_session_digest (ad_sessions db))
     \<and> (\<forall>u \<in> set (ad_users db). 1 \<le> uf_auth_version u) \<and> (\<forall>s \<in> set (ad_sessions db). session_fits db s)"

lemma session_fits_mono:
  assumes "session_fits db s" and "\<And>i u. get_user db i = Some u \<Longrightarrow> \<exists>u'. get_user db' i = Some u' \<and> uf_auth_version u' = uf_auth_version u"
  shows "session_fits db' s"
  using assms by (fastforce simp: session_fits_def)

lemma put_user_names:
  assumes "get_user db i = Some u" and "us_id u' = us_id u" and "uf_username u' = uf_username u"
    and "distinct (map us_id (ad_users db))" and "distinct (map uf_username (ad_users db))"
  shows "distinct (map us_id (put_row us_id u' (ad_users db)))" and "distinct (map uf_username (put_row us_id u' (ad_users db)))"
proof -
  show "distinct (map us_id (put_row us_id u' (ad_users db)))"
    using assms(4) by (simp add: put_row_keys)
  have "uf_username q \<noteq> uf_username u'" if "q \<in> set (ad_users db)" and "us_id q \<noteq> us_id u'" for q
  proof
    assume "uf_username q = uf_username u'"
    then have "q = u"
      using assms(1,3,5) that(1) by (auto simp: get_user_def distinct_map inj_on_def dest: get_row_in_set)
    then show False
      using that(2) assms(2) by simp
  qed
  then show "distinct (map uf_username (put_row us_id u' (ad_users db)))"
    using assms(4,5) by (rule put_row_distinct[rotated 2])
qed

lemma auth_inv_put_user:
  assumes inv: "auth_inv db" and u: "get_user db i = Some u" and u': "us_id u' = us_id u" "uf_username u' = uf_username u"
    and version: "1 \<le> uf_auth_version u'"
    and fits: "\<And>s. s \<in> set (ad_sessions db) \<Longrightarrow> session_fits (put_user db u') s"
  shows "auth_inv (put_user db u')"
  using put_user_names[OF u u'] inv version fits
  by (auto simp: auth_inv_def put_user_users dest: put_row_set)

lemma auth_inv_revoke_all:
  assumes db: "auth_inv db" and u: "get_user db i = Some u" and u': "us_id u' = us_id u" "uf_username u' = uf_username u"
    "uf_auth_version u' = uf_auth_version u + 1"
  shows "auth_inv (revoke_all_sessions (put_user db u') (us_id u) t)"
proof -
  have i: "i = us_id u"
    using get_user_id[OF u] by simp
  have "1 \<le> uf_auth_version u"
    using db u by (auto simp: auth_inv_def get_user_def dest: get_row_in_set)
  then have "session_fits (revoke_all_sessions (put_user db u') (us_id u) t) (revoked_session (us_id u) t s)"
    if "s \<in> set (ad_sessions db)" for s
    using db that u u' i by (fastforce simp: auth_inv_def session_fits_def get_put_user revoked_session_def)
  moreover have "distinct (map us_id (put_row us_id u' (ad_users db)))" "distinct (map uf_username (put_row us_id u' (ad_users db)))"
    using put_user_names[OF u u'(1,2)] db by (auto simp: auth_inv_def)
  moreover have "1 \<le> uf_auth_version v" if "v \<in> set (put_row us_id u' (ad_users db))" for v
    using db that u' \<open>1 \<le> uf_auth_version u\<close> by (auto simp: auth_inv_def dest!: put_row_set)
  moreover have sessions: "ad_sessions (revoke_all_sessions (put_user db u') (us_id u) t)
      = map (revoked_session (us_id u) t) (ad_sessions db)"
    by (simp add: revoke_all_sessions_def)
  moreover have "distinct (map as_session_digest (map (revoked_session (us_id u) t) (ad_sessions db)))"
    using db by (simp add: auth_inv_def comp_def)
  ultimately show ?thesis
    unfolding auth_inv_def sessions by (simp add: put_user_users)
qed

lemma auth_edit_inv: "auth_edit db db' \<Longrightarrow> auth_inv db \<Longrightarrow> auth_inv db'"
proof (induction rule: auth_edit.induct)
  case (profile db i u u')
  have "1 \<le> uf_auth_version u'"
    using profile by (auto simp: auth_inv_def get_user_def dest: get_row_in_set)
  moreover have "session_fits (put_user db u') s" if "s \<in> set (ad_sessions db)" for s
  proof (rule session_fits_mono[where db = db])
    show "session_fits db s"
      using profile.prems that by (simp add: auth_inv_def)
    show "\<exists>v'. get_user (put_user db u') j = Some v' \<and> uf_auth_version v' = uf_auth_version v"
      if "get_user db j = Some v" for j v
      using that profile.hyps get_user_id[OF profile.hyps(1)] by (auto simp: get_put_user)
  qed
  ultimately show ?case
    using profile by (intro auth_inv_put_user)
next
  case (security db i u u' t)
  then show ?case
    by (intro auth_inv_revoke_all)
next
  case (security_safe db i u u' t)
  then show ?case
    by (intro auth_inv_revoke_all)
next
  case (new_session db s u)
  then have "1 \<le> uf_auth_version u"
    by (auto simp: auth_inv_def get_user_def dest: get_row_in_set)
  then show ?case
    using new_session by (auto simp: auth_inv_def session_fits_def get_session_def get_row_None_iff)
next
  case (end_session db d s t)
  have "session_fits (db\<lparr>ad_sessions := ss\<rparr>) (s\<lparr>as_revoked_at := Some t\<rparr>)" for ss
    using end_session by (auto simp: auth_inv_def session_fits_def get_session_def dest: get_row_in_set)
  moreover have "session_fits (db\<lparr>ad_sessions := ss\<rparr>) s'" if "s' \<in> set (ad_sessions db)" for s' ss
    using end_session(2) that by (auto simp: auth_inv_def session_fits_def)
  ultimately show ?case
    using end_session(2) by (auto simp: auth_inv_def put_row_keys dest!: put_row_set)
next
  case (new_user db u db')
  then have db': "db' = db\<lparr>ad_users := ad_users db @ [u]\<rparr>" and fresh: "us_id u \<notin> us_id ` set (ad_users db)"
    "uf_username u \<notin> uf_username ` set (ad_users db)"
    by (auto simp: add_user_def split: if_splits)
  have "session_fits db' s" if "s \<in> set (ad_sessions db)" for s
  proof (rule session_fits_mono[where db = db])
    show "session_fits db s"
      using new_user.prems that by (simp add: auth_inv_def)
    show "\<exists>v'. get_user db' i = Some v' \<and> uf_auth_version v' = uf_auth_version v" if "get_user db i = Some v" for i v
      using that by (simp add: db' get_user_def get_row_append)
  qed
  then show ?case
    using new_user fresh by (auto simp: auth_inv_def db')
qed

lemma auth_edits_inv: "auth_edit\<^sup>*\<^sup>* db db' \<Longrightarrow> auth_inv db \<Longrightarrow> auth_inv db'"
  by (induction rule: rtranclp_induct) (auto intro: auth_edit_inv)

lemma committed_edits:
  "(\<And>x db'. r = Inr (x, db') \<Longrightarrow> auth_edit\<^sup>*\<^sup>* db db') \<Longrightarrow> auth_edit\<^sup>*\<^sup>* db (committed db r)"
  by (auto simp: committed_def split: sum.split)

lemma auth_apply_edits:
  assumes "auth_inv db"
  shows "auth_edit\<^sup>*\<^sup>* db (auth_apply e db op)"
proof (cases op)
  case (AuLogin username password sid)
  have "distinct (map us_id (ad_users db))"
    using assms by (simp add: auth_inv_def)
  then show ?thesis
    unfolding AuLogin auth_apply.simps by (intro committed_edits login_edits)
next
  case (AuLogout p)
  show ?thesis
    unfolding AuLogout auth_apply.simps by (intro committed_edits r_into_rtranclp) (rule logout_edit)
next
  case (AuChangePassword p c n)
  show ?thesis
    unfolding AuChangePassword auth_apply.simps by (intro committed_edits r_into_rtranclp) (rule change_password_edit)
next
  case (AuCreateUser actor payload hex)
  show ?thesis
    unfolding AuCreateUser auth_apply.simps by (intro committed_edits r_into_rtranclp) (rule create_user_edit)
next
  case (AuUpdateUser actor uid payload)
  show ?thesis
    unfolding AuUpdateUser auth_apply.simps by (intro committed_edits r_into_rtranclp) (rule update_user_edit)
next
  case (AuBootstrap username password name)
  show ?thesis
    unfolding AuBootstrap auth_apply.simps by (intro committed_edits) (auto dest: bootstrap_edit)
qed

lemma auth_run_edits: "auth_inv db \<Longrightarrow> auth_edit\<^sup>*\<^sup>* db (auth_run db ops)"
proof (induction ops arbitrary: db)
  case (Cons eop ops)
  obtain e op where [simp]: "eop = (e, op)"
    by (cases eop)
  have "auth_edit\<^sup>*\<^sup>* db (auth_apply e db op)"
    using Cons.prems by (rule auth_apply_edits)
  moreover from this have "auth_edit\<^sup>*\<^sup>* (auth_apply e db op) (auth_run (auth_apply e db op) ops)"
    by (intro Cons.IH auth_edits_inv[OF _ Cons.prems])
  ultimately show ?case
    by (simp add: rtranclp_trans)
qed simp

lemma auth_inv_empty: "auth_inv empty_auth_db"
  by (simp add: auth_inv_def empty_auth_db_def)

lemma auth_run_append: "auth_run db (xs @ ys) = auth_run (auth_run db xs) ys"
  by (induction db xs rule: auth_run.induct) auto

definition some_active_admin :: "auth_db \<Rightarrow> bool" where
  "some_active_admin db \<longleftrightarrow> (\<exists>u \<in> set (ad_users db). active_admin u)"

lemma put_row_others:
  "q \<in> set rows \<Longrightarrow> key q \<noteq> key r \<Longrightarrow> q \<in> set (put_row key r rows)"
  by (induction rows) auto

lemma put_row_self: "get_row key rows (key r) = Some r0 \<Longrightarrow> r \<in> set (put_row key r rows)"
  by (induction rows) (auto simp: get_row_def split: if_splits)

lemma put_user_admin:
  assumes "get_user db i = Some u" and "us_id u' = us_id u" and "active_admin u \<longrightarrow> active_admin u'"
    and "auth_inv db" and "some_active_admin db"
  shows "some_active_admin (put_user db u')"
proof -
  obtain q where q: "q \<in> set (ad_users db)" "active_admin q"
    using assms(5) by (auto simp: some_active_admin_def)
  show ?thesis
  proof (cases "us_id q = us_id u'")
    case True
    then have "q = u"
      using q(1) assms(1,2,4) by (auto simp: auth_inv_def distinct_map inj_on_def get_user_def dest: get_row_in_set)
    moreover have "u' \<in> set (put_row us_id u' (ad_users db))"
      using assms(1,2) get_user_id[OF assms(1)] by (auto simp: get_user_def intro: put_row_self)
    ultimately show ?thesis
      using q assms(3) by (auto simp: some_active_admin_def put_user_users)
  next
    case False
    then show ?thesis
      using q put_row_others[of q "ad_users db" us_id u'] by (auto simp: some_active_admin_def put_user_users)
  qed
qed

lemma auth_edit_admin:
  assumes "auth_edit db db'" and "auth_inv db" and "some_active_admin db"
  shows "some_active_admin db'"
  using assms
proof (induction rule: auth_edit.induct)
  case (security db i u u' t)
  have "\<exists>q \<in> set (filter active_admin (ad_users db)). q \<noteq> u"
  proof (rule ccontr)
    assume "\<not> ?thesis"
    then have "set (filter active_admin (ad_users db)) \<subseteq> {u}"
      by auto
    then have "length (filter active_admin (ad_users db)) \<le> 1"
      using security.prems(1) by (auto simp: auth_inv_def distinct_map distinct_card[symmetric] dest: card_mono[rotated])
    then show False
      using security.hyps by simp
  qed
  then obtain q where q: "q \<in> set (ad_users db)" "active_admin q" "q \<noteq> u"
    by auto
  have "us_id q \<noteq> us_id u'"
    using q security.hyps(1,2) security.prems(1) by (auto simp: auth_inv_def distinct_map inj_on_def get_user_def dest: get_row_in_set)
  then show ?case
    using q put_row_others[of q "ad_users db" us_id u'] by (auto simp: some_active_admin_def put_user_users)
next
  case (profile db i u u')
  then show ?case
    by (intro put_user_admin) (auto simp: active_admin_def)
next
  case (security_safe db i u u' t)
  then have "some_active_admin (put_user db u')"
    by (intro put_user_admin) auto
  then show ?case
    by (simp add: some_active_admin_def)
next
  case (new_user db u db')
  then show ?case
    by (auto simp: some_active_admin_def add_user_def split: if_splits)
qed (auto simp: some_active_admin_def)

lemma auth_run_admin:
  assumes "auth_inv db" and "some_active_admin db"
  shows "some_active_admin (auth_run db ops)"
  using auth_run_edits[OF assms(1), of ops]
proof (induction rule: rtranclp_induct)
  case (step db1 db2)
  then show ?case
    using auth_edit_admin auth_edits_inv[OF step.hyps(1) assms(1)] by blast
qed (rule assms(2))

section \<open>The life of a session\<close>

text \<open>The operations that end the session \<open>d\<close> of the user \<open>uid\<close>, and whether one occurs in a sequence.\<close>

fun ends_session :: "auth_env \<Rightarrow> auth_db \<Rightarrow> string \<Rightarrow> string \<Rightarrow> auth_op \<Rightarrow> bool" where
  "ends_session e db uid d (AuLogout p) \<longleftrightarrow> pr_session_digest p = d"
| "ends_session e db uid d (AuChangePassword p current_password new_password) \<longleftrightarrow>
     cu_id (pr_user p) = uid \<and> \<not> isl (change_password e db p current_password new_password)"
| "ends_session e db uid d (AuUpdateUser actor user_id payload) \<longleftrightarrow>
     user_id = uid \<and> \<not> isl (update_user e db actor user_id payload)
     \<and> (case get_user db uid of None \<Rightarrow> False | Some u \<Rightarrow> security_changed payload u)"
| "ends_session e db uid d _ \<longleftrightarrow> False"

fun session_ended :: "string \<Rightarrow> string \<Rightarrow> auth_db \<Rightarrow> (auth_env \<times> auth_op) list \<Rightarrow> bool" where
  "session_ended uid d db [] \<longleftrightarrow> False"
| "session_ended uid d db ((e, op) # ops) \<longleftrightarrow> ends_session e db uid d op \<or> session_ended uid d (auth_apply e db op) ops"

definition alive :: "auth_db \<Rightarrow> auth_session \<Rightarrow> current_user \<Rightarrow> bool" where
  "alive db s cu \<longleftrightarrow> get_session db (as_session_digest s) = Some s \<and> as_revoked_at s = None
     \<and> (\<exists>u. get_user db (as_user_id s) = Some u \<and> us_status u = USER_ACTIVE \<and> uf_auth_version u = as_auth_version s
            \<and> as_current_user u = cu)"

definition revoked_row :: "auth_db \<Rightarrow> string \<Rightarrow> bool" where
  "revoked_row db d \<longleftrightarrow> (\<exists>s. get_session db d = Some s \<and> as_revoked_at s \<noteq> None)"

lemma get_session_append:
  "get_session (db\<lparr>ad_sessions := ad_sessions db @ [s]\<rparr>) d =
     (case get_session db d of None \<Rightarrow> if as_session_digest s = d then Some s else None | Some r \<Rightarrow> Some r)"
  by (simp add: get_session_def get_row_append get_row_def[of _ "[s]"] split: option.split)

lemma get_session_put:
  "get_session (db\<lparr>ad_sessions := put_row as_session_digest s (ad_sessions db)\<rparr>) d =
     (if d = as_session_digest s then (case get_session db d of None \<Rightarrow> None | Some _ \<Rightarrow> Some s) else get_session db d)"
  by (simp add: get_session_def row_table.get_put)

lemma auth_edit_revoked: "auth_edit db db' \<Longrightarrow> revoked_row db d \<Longrightarrow> revoked_row db' d"
proof (induction rule: auth_edit.induct)
  case (new_user db u db')
  then show ?case
    by (auto simp: revoked_row_def add_user_def get_session_def split: if_splits)
next
  case (end_session db d' s t)
  have "as_session_digest s = d'"
    using end_session(1) unfolding get_session_def by (rule row_table.get_key)
  then show ?case
    using end_session by (auto simp: revoked_row_def get_session_put)
qed (auto simp: revoked_row_def get_session_revoke_all get_session_append)

lemma auth_run_revoked:
  assumes "auth_inv db" and "revoked_row db d"
  shows "revoked_row (auth_run db ops) d"
  using auth_run_edits[OF assms(1), of ops]
  by (induction rule: rtranclp_induct) (auto intro: auth_edit_revoked assms(2))

lemma get_session_digest: "get_session db d = Some s \<Longrightarrow> as_session_digest s = d"
  unfolding get_session_def by (rule row_table.get_key)

lemma revoke_all_ends:
  assumes "get_session db d = Some s" and "as_user_id s = uid"
  shows "revoked_row (revoke_all_sessions db uid t) d"
  using assms by (auto simp: revoked_row_def get_session_revoke_all revoked_session_def)

lemma alive_put_user:
  assumes "alive db s cu" and "get_user db (us_id u) = Some u0" and "us_status u = us_status u0"
    and "uf_platform_role u = uf_platform_role u0" and "uf_auth_version u = uf_auth_version u0"
  shows "alive (put_user db u) s cu"
  using assms get_user_id[OF assms(2)] by (auto simp: alive_def get_put_user as_current_user_def)

lemma alive_other_user:
  assumes "alive db s cu" and "us_id u \<noteq> as_user_id s"
  shows "alive (revoke_all_sessions (put_user db u) (us_id u) t) s cu"
  using assms by (auto simp: alive_def get_session_revoke_all get_put_user revoked_session_def)

lemma alive_secured:
  assumes "alive db s cu" and "us_id u' = uid"
  shows "if uid = as_user_id s then revoked_row (revoke_all_sessions (put_user db u') uid t) (as_session_digest s)
         else alive (revoke_all_sessions (put_user db u') uid t) s cu"
  using assms alive_other_user[OF assms(1), of u' t] by (auto simp: alive_def intro: revoke_all_ends)

lemma alive_new_user:
  assumes "alive db s cu" and "add_user db u = Some db'"
  shows "alive db' s cu"
  using assms by (auto simp: alive_def add_user_def get_user_def get_session_def get_row_append split: if_splits)

lemma alive_new_session:
  assumes "alive db s cu"
  shows "alive (db\<lparr>ad_sessions := ad_sessions db @ [s']\<rparr>) s cu"
  using assms by (auto simp: alive_def get_session_append)

lemma alive_step:
  assumes inv: "auth_inv db" and alive: "alive db s cu"
  shows "if ends_session e db (as_user_id s) (as_session_digest s) op
         then revoked_row (auth_apply e db op) (as_session_digest s) else alive (auth_apply e db op) s cu"
proof (cases op)
  case (AuLogin username password sid)
  show ?thesis
  proof (cases "login e db username password sid")
    case (Inr r)
    obtain resp db' where r: "login e db username password sid = Inr (resp, db')"
      using Inr by (cases r) auto
    then show ?thesis
    proof (cases rule: login_cases)
      case (1 u u')
      have "get_user db (us_id u') = Some u"
        using find_get_user[OF 1(1)] inv 1(2) by (simp add: auth_inv_def)
      then have "alive (put_user db u') s cu"
        using alive 1 by (intro alive_put_user) auto
      then have "alive db' s cu"
        unfolding 1(11) using alive_new_session by fastforce
      then show ?thesis
        using AuLogin r by simp
    qed
  qed (use AuLogin alive in simp)
next
  case (AuLogout p)
  show ?thesis
  proof (cases "pr_session_digest p = as_session_digest s")
    case True
    then show ?thesis
      using AuLogout alive by (auto simp: logout_def alive_def revoked_row_def get_session_put)
  next
    case False
    then show ?thesis
      using AuLogout alive
      by (auto simp: logout_def alive_def get_session_put committed_def dest: get_session_digest split: option.split)
  qed
next
  case (AuChangePassword p c n)
  show ?thesis
  proof (cases "change_password e db p c n")
    case (Inr r)
    then obtain u h where u: "get_user db (cu_id (pr_user p)) = Some u"
        and db': "snd r = revoke_all_sessions (put_user db (u\<lparr>uf_password_hash := h, uf_auth_version := uf_auth_version u + 1\<rparr>))
                        (us_id u) (ae_now e)"
      by (auto simp: change_password_def res_simps Let_def split: option.splits if_splits)
    note i = get_user_id[OF u]
    have "auth_apply e db op = snd r"
      using AuChangePassword Inr by (simp add: committed_def split: prod.split)
    moreover have "ends_session e db (as_user_id s) (as_session_digest s) op \<longleftrightarrow> us_id u = as_user_id s"
      using AuChangePassword Inr i by simp
    ultimately show ?thesis
      unfolding db' by (simp only:) (rule alive_secured[OF alive], simp)
  qed (use AuChangePassword alive in simp)
next
  case (AuCreateUser actor payload hex)
  then show ?thesis
    using alive by (auto simp: create_user_def committed_def res_bind_def Let_def intro: alive_new_user split: sum.split option.split)
next
  case (AuUpdateUser actor uid payload)
  show ?thesis
  proof (cases "update_user e db actor uid payload")
    case (Inr r)
    obtain x db' where r: "update_user e db actor uid payload = Inr (x, db')"
      using Inr by (cases r) auto
    then show ?thesis
    proof (cases rule: update_user_cases)
      case (changed u)
      have "ends_session e db (as_user_id s) (as_session_digest s) op \<longleftrightarrow> us_id u = as_user_id s"
        using AuUpdateUser r changed(1,2) get_user_id[OF changed(1)] by auto
      moreover have "auth_apply e db op = db'"
        using AuUpdateUser r by simp
      ultimately show ?thesis
        unfolding changed(4) by (simp only:) (rule alive_secured[OF alive], simp add: updated_def)
    next
      case (unchanged u)
      have "alive (put_user db (updated payload u)) s cu"
        using unchanged get_user_id[OF unchanged(1)]
        by (intro alive_put_user[OF alive]) (auto simp: security_changed_def updated_def)
      then show ?thesis
        using AuUpdateUser r unchanged by auto
    qed
  qed (use AuUpdateUser alive in simp)
next
  case (AuBootstrap username password name)
  then show ?thesis
    using alive
    by (auto simp: bootstrap_development_admin_def committed_def res_bind_def Let_def intro: alive_new_user
        split: sum.split option.split)
qed

lemma alive_run:
  assumes "auth_inv db" and "alive db s cu"
  shows "if session_ended (as_user_id s) (as_session_digest s) db ops
         then revoked_row (auth_run db ops) (as_session_digest s) else alive (auth_run db ops) s cu"
  using assms
proof (induction ops arbitrary: db)
  case (Cons eop ops)
  obtain e op where [simp]: "eop = (e, op)"
    by (cases eop)
  have inv: "auth_inv (auth_apply e db op)"
    using auth_edits_inv[OF auth_apply_edits] Cons.prems(1) by blast
  show ?case
  proof (cases "ends_session e db (as_user_id s) (as_session_digest s) op")
    case True
    then have "revoked_row (auth_apply e db op) (as_session_digest s)"
      using alive_step[OF Cons.prems, of e op] by simp
    then show ?thesis
      using True auth_run_revoked[OF inv] by simp
  next
    case False
    then have "alive (auth_apply e db op) s cu"
      using alive_step[OF Cons.prems, of e op] by simp
    then show ?thesis
      using False Cons.IH[OF inv] by simp
  qed
qed simp

section \<open>Tokens\<close>

text \<open>
  What the code relies on of PyJWT: the token of such claims decodes to them, under the same key, when its issue
  time has come and its expiry has not. Two readings of the environment belong to the same installation when keys
  and settings are the same.
\<close>

definition jwt_round_trip :: "auth_env \<Rightarrow> bool" where
  "jwt_round_trip e \<longleftrightarrow>
     (\<forall>subject sid version iat until now. seconds iat \<le> now \<longrightarrow> now < seconds until
        \<longrightarrow> ae_jwt_decode e now (ae_jwt_encode e (token_claims e subject sid version iat until))
            = Some (token_claims e subject sid version iat until))"

definition same_installation :: "auth_env \<Rightarrow> auth_env \<Rightarrow> bool" where
  "same_installation e e' \<longleftrightarrow>
     ae_sha256 e' = ae_sha256 e \<and> ae_jwt_decode e' = ae_jwt_decode e \<and> ae_issuer e' = ae_issuer e \<and> ae_audience e' = ae_audience e"

lemma decode_encoded_token:
  assumes "jwt_round_trip e" and "same_installation e e'"
    and "seconds iat \<le> ae_now e'" and "ae_now e' < seconds until" and "1 \<le> iat" and "valid_session_id sid"
    and "1 \<le> length (us_id u)" and "length (us_id u) \<le> 64" and "1 \<le> uf_auth_version u"
    and "1 \<le> length (encode_token e u sid iat until)" and "length (encode_token e u sid iat until) \<le> 4096"
  shows "decode_token e' (encode_token e u sid iat until)
    = Inr \<lparr>tp_sub = us_id u, tp_sid = sid, tp_av = uf_auth_version u, tp_iat = iat, tp_exp = until\<rparr>"
proof -
  have "iat < until"
    using assms(3,4) by (simp add: seconds_def)
  moreover have "ae_jwt_decode e' (ae_now e') (encode_token e u sid iat until)
      = Some (token_claims e (us_id u) sid (uf_auth_version u) iat until)"
    using assms(1-4) by (simp add: jwt_round_trip_def same_installation_def encode_token_def)
  ultimately show ?thesis
    using assms by (simp add: decode_token_def same_installation_def token_claims_def)
qed

lemma whole_seconds_seconds [simp]: "whole_seconds (seconds n) = n"
  by (simp add: whole_seconds_def seconds_def)

lemma whole_seconds_le: "seconds (whole_seconds t) \<le> t"
  by (simp add: whole_seconds_def seconds_def)

text \<open>
C17. From an empty database, whatever requests are served: once there is an active administrator, there is always one;
ids, user names and session digests are unique, versions are positive, every session belongs to a user, and a
session that is not revoked carries the present version of its user.
\<close>
theorem an_active_administrator_remains:
  assumes "active_admin u" and "u \<in> set (ad_users (auth_run empty_auth_db ops))"
  shows "(\<exists>v \<in> set (ad_users (auth_run empty_auth_db (ops @ later))). active_admin v)
    \<and> auth_inv (auth_run empty_auth_db (ops @ later))"
proof
  have inv: "auth_inv (auth_run empty_auth_db ops)"
    by (rule auth_edits_inv[OF auth_run_edits[OF auth_inv_empty] auth_inv_empty])
  then show "\<exists>v \<in> set (ad_users (auth_run empty_auth_db (ops @ later))). active_admin v"
    using auth_run_admin[OF inv, of later] assms by (auto simp: some_active_admin_def auth_run_append)
  show "auth_inv (auth_run empty_auth_db (ops @ later))"
    using auth_edits_inv[OF auth_run_edits[OF auth_inv_empty] auth_inv_empty] .
qed

text \<open>
C16. The token of a login is accepted, as the same user in the same role, at every time from its issue to its expiry
until the first operation that ends its session: its own logout, a successful change of the user's password, or an
update that changes role or status of the user. After such an operation it is never accepted again, whatever is
done. No other operation has an influence.
\<close>
theorem token_is_accepted_until_its_session_ends:
  assumes db: "db = auth_run empty_auth_db before"
    and login: "login e db username password sid = Inr (response, db')"
    and keys: "jwt_round_trip e" "same_installation e e'"
    and times: "1000000 \<le> ae_now e" "ae_now e \<le> ae_now e'" "ae_now e' < seconds (whole_seconds (ae_now e) + expires_in e)"
    and sizes: "valid_session_id sid" "1 \<le> length (cu_id (to_user response))" "length (cu_id (to_user response)) \<le> 64"
      "1 \<le> length (to_access_token response)" "length (to_access_token response) \<le> 4096"
  shows "authenticate_access_token e' (auth_run db' later) (to_access_token response) =
    (if session_ended (cu_id (to_user response)) (ae_sha256 e sid) db' later then Inl invalid_token
     else Inr \<lparr>pr_user = to_user response, pr_session_digest = ae_sha256 e sid\<rparr>)"
  using login
proof (cases rule: login_cases)
  case (1 u u')
  let ?iat = "whole_seconds (ae_now e)" and ?row = "session_row e u' sid"
  have inv: "auth_inv db"
    unfolding db by (rule auth_edits_inv[OF auth_run_edits[OF auth_inv_empty] auth_inv_empty])
  then have distinct: "distinct (map us_id (ad_users db))"
    by (simp add: auth_inv_def)
  have u: "get_user db (us_id u) = Some u"
    by (rule find_get_user[OF 1(1) distinct])
  have inv': "auth_inv db'"
    using auth_edits_inv[OF login_edits[OF distinct login] inv] .
  have alive: "alive db' ?row (to_user response)"
    using u 1 by (auto simp: alive_def get_session_append[of "put_user db u'", simplified] get_put_user session_row_def)
  have "1 \<le> uf_auth_version u'"
    using inv u 1(6) by (auto simp: auth_inv_def get_user_def dest: get_row_in_set)
  then have decoded: "decode_token e' (to_access_token response) = Inr \<lparr>tp_sub = us_id u', tp_sid = sid,
      tp_av = uf_auth_version u', tp_iat = ?iat, tp_exp = ?iat + expires_in e\<rparr>"
    unfolding 1(9) using times whole_seconds_le[of "ae_now e"] sizes 1(9,10) keys
    by (intro decode_encoded_token) (auto simp: as_current_user_def whole_seconds_def)
  have sha: "ae_sha256 e' = ae_sha256 e"
    using keys(2) by (simp add: same_installation_def)
  have ids: "as_user_id ?row = cu_id (to_user response)" "as_session_digest ?row = ae_sha256 e sid"
    by (simp_all add: session_row_def 1(10) as_current_user_def)
  show ?thesis
  proof (cases "session_ended (cu_id (to_user response)) (ae_sha256 e sid) db' later")
    case True
    then have "revoked_row (auth_run db' later) (ae_sha256 e sid)"
      using alive_run[OF inv' alive, of later] by (simp add: ids)
    then show ?thesis
      using True by (auto simp: authenticate_access_token_def decoded sha revoked_row_def split: option.split)
  next
    case False
    then have "alive (auth_run db' later) ?row (to_user response)"
      using alive_run[OF inv' alive, of later] by (simp add: ids)
    then show ?thesis
      using False times by (auto simp: authenticate_access_token_def decoded sha alive_def session_row_def)
  qed
qed

section \<open>Examples\<close>

text \<open>A transparent password hash and an unsigned token format, with which the laws hold.\<close>

fun sample_value :: "json \<Rightarrow> string" where
  "sample_value (JStr s) = concat (map (\<lambda>c. [CHR ''x'', c]) s) @ ''.''"
| "sample_value (JInt n) = replicate (nat n) (CHR ''1'') @ replicate (nat (- n)) (CHR ''0'') @ ''.''"
| "sample_value _ = []"

fun read_text :: "string \<Rightarrow> string \<times> string" where
  "read_text (a # c # r) = (if a = CHR ''x'' then (c # fst (read_text r), snd (read_text r)) else ([], c # r))"
| "read_text _ = ([], [])"

definition read_number :: "string \<Rightarrow> int \<times> string" where
  "read_number t =
     (int (length (takeWhile (\<lambda>c. c = CHR ''1'') t)) - int (length (takeWhile (\<lambda>c. c = CHR ''0'') t)),
      tl (dropWhile (\<lambda>c. c \<noteq> CHR ''.'') t))"

lemma read_text_value: "read_text (concat (map (\<lambda>c. [CHR ''x'', c]) s) @ CHR ''.'' # rest) = (s, rest)"
proof (induction s)
  case Nil
  then show ?case
    by (cases rest) auto
qed simp

lemma read_number_value: "read_number (replicate (nat n) (CHR ''1'') @ replicate (nat (- n)) (CHR ''0'') @ CHR ''.'' # rest) = (n, rest)"
  by (cases "0 \<le> n") (auto simp: read_number_def takeWhile_append dropWhile_append takeWhile_replicate)

definition sample_auth_env :: "datetime \<Rightarrow> auth_env" where
  "sample_auth_env now =
     \<lparr>ae_now = now, ae_hash = (\<lambda>p. ''#'' @ p), ae_verify = (\<lambda>h p. h = ''#'' @ p), ae_needs_rehash = (\<lambda>h. False),
      ae_sha256 = rev, ae_jwt_encode = (\<lambda>cs. concat (map (\<lambda>(k, v). sample_value v) (take 5 cs))),
      ae_jwt_decode = (\<lambda>now t.
        let (subject, t1) = read_text t; (sid, t2) = read_text t1; (version, t3) = read_number t2;
            (iat, t4) = read_number t3; (until, t5) = read_number t4
        in if seconds iat \<le> now \<and> now < seconds until
           then Some [(''sub'', JStr subject), (''sid'', JStr sid), (''av'', JInt version), (''iat'', JInt iat),
                      (''exp'', JInt until), (''iss'', JStr ''platform''), (''aud'', JStr ''api'')]
           else None),
      ae_nfkc = id, ae_casefold = py_lower, ae_access_token_expire_minutes = 1, ae_issuer = ''platform'', ae_audience = ''api''\<rparr>"

lemma sample_round_trip: "jwt_round_trip (sample_auth_env t)"
  by (simp add: jwt_round_trip_def sample_auth_env_def token_claims_def read_text_value read_number_value)

definition sample_bootstrap :: "auth_env \<times> auth_op" where
  "sample_bootstrap = (sample_auth_env 1000000, AuBootstrap ''Root'' ''password1'' ''Administrator'')"

definition sample_admin :: current_user where
  "sample_admin = \<lparr>cu_id = ''dev-admin'', cu_roles = [''ADMIN'']\<rparr>"

definition sample_disable :: "auth_env \<times> auth_op" where
  "sample_disable = (sample_auth_env 2000000, AuUpdateUser sample_admin ''dev-admin''
     \<lparr>uu_display_name = None, uu_platform_role = None, uu_status = Some USER_DISABLED\<rparr>)"

definition sample_rename :: "auth_env \<times> auth_op" where
  "sample_rename = (sample_auth_env 3000000, AuUpdateUser sample_admin ''dev-admin''
     \<lparr>uu_display_name = Some ''Root'', uu_platform_role = None, uu_status = None\<rparr>)"

definition sample_sid :: string where
  "sample_sid = replicate 32 (CHR ''s'')"

definition sample_logout :: "auth_env \<times> auth_op" where
  "sample_logout = (sample_auth_env 4000000, AuLogout \<lparr>pr_user = sample_admin, pr_session_digest = sample_sid\<rparr>)"

definition sample_dev_admin :: platform_user where
  "sample_dev_admin = \<lparr>us_id = ''dev-admin'', us_status = USER_ACTIVE, uf_username = ''root'', uf_display_name = ''Administrator'',
     uf_password_hash = ''#password1'', uf_platform_role = PLATFORM_ADMIN, uf_auth_version = 1, uf_created_at = 1000000\<rparr>"

theorem an_active_administrator_remains_witness:
  "\<exists>v \<in> set (ad_users (auth_run empty_auth_db ([sample_bootstrap] @ [sample_disable]))). active_admin v"
proof -
  have "active_admin sample_dev_admin"
    by code_simp
  moreover have "sample_dev_admin \<in> set (ad_users (auth_run empty_auth_db [sample_bootstrap]))"
    by code_simp
  ultimately show ?thesis
    using an_active_administrator_remains by blast
qed

theorem token_is_accepted_until_its_session_ends_witness:
  "\<exists>response db'. login (sample_auth_env 2000000) (auth_run empty_auth_db [sample_bootstrap]) ''root'' ''password1'' sample_sid
       = Inr (response, db')
     \<and> authenticate_access_token (sample_auth_env 5000000) (auth_run db' [sample_rename]) (to_access_token response)
       = Inr \<lparr>pr_user = sample_admin, pr_session_digest = sample_sid\<rparr>
     \<and> authenticate_access_token (sample_auth_env 5000000) (auth_run db' [sample_rename, sample_logout]) (to_access_token response)
       = Inl invalid_token"
proof -
  let ?e = "sample_auth_env 2000000" and ?e' = "sample_auth_env 5000000"
  let ?db = "auth_run empty_auth_db [sample_bootstrap]"
  have ok: "case login ?e ?db ''root'' ''password1'' sample_sid of
      Inl err \<Rightarrow> False
    | Inr (response, db') \<Rightarrow> to_user response = sample_admin
        \<and> 1 \<le> length (to_access_token response) \<and> length (to_access_token response) \<le> 4096
        \<and> \<not> session_ended ''dev-admin'' sample_sid db' [sample_rename]
        \<and> session_ended ''dev-admin'' sample_sid db' [sample_rename, sample_logout]"
    by code_simp
  obtain response db' where login: "login ?e ?db ''root'' ''password1'' sample_sid = Inr (response, db')"
      and user: "to_user response = sample_admin"
      and size: "1 \<le> length (to_access_token response)" "length (to_access_token response) \<le> 4096"
      and ended: "\<not> session_ended ''dev-admin'' sample_sid db' [sample_rename]"
        "session_ended ''dev-admin'' sample_sid db' [sample_rename, sample_logout]"
    using ok by (auto split: sum.splits)
  have env: "same_installation ?e ?e'" "1000000 \<le> ae_now ?e" "ae_now ?e \<le> ae_now ?e'"
      "ae_now ?e' < seconds (whole_seconds (ae_now ?e) + expires_in ?e)" "ae_sha256 ?e sample_sid = sample_sid"
      "valid_session_id sample_sid" "1 \<le> length (cu_id sample_admin)" "length (cu_id sample_admin) \<le> 64" "cu_id sample_admin = ''dev-admin''"
    by (simp_all add: same_installation_def sample_auth_env_def whole_seconds_def expires_in_def seconds_def sample_sid_def
        valid_session_id_def safe_id_char_def ascii_upper_def ascii_lower_def list_all_iff sample_admin_def)
  have "authenticate_access_token ?e' (auth_run db' later) (to_access_token response) =
      (if session_ended ''dev-admin'' sample_sid db' later then Inl invalid_token
       else Inr \<lparr>pr_user = sample_admin, pr_session_digest = sample_sid\<rparr>)" for later
    using token_is_accepted_until_its_session_ends[OF refl login sample_round_trip env(1-4,6), of later] env size
    by (simp add: user)
  then show ?thesis
    using login ended by auto
qed

end
