(* ===== verification/Resource_Registry.thy ===== *)
theory Resource_Registry
  imports Projects Safe_Error
begin

text \<open>
  The registry of resources a Run created and their cleanup: \<open>resource_registry/service.py\<close> with \<open>models.py\<close>.

  A registered configuration is stored as JSON and validated again when it is read, which gives the same
  configuration; the row holds it as the record. The fields the service reads are named, the others are the field
  \<open>cc_rest\<close>. The handler of an API cleanup and the execution of a SQL cleanup are arguments: what they do to the
  outside is not modelled, only what they report. \<open>Killed\<close> stands for a process that ends there.
  Every row change is committed on its own, so the operations return the tables together with an error.
\<close>

section \<open>Rows\<close>

datatype cleanup_type = CLEANUP_API | CLEANUP_SQL

datatype cleanup_policy = ALWAYS | ON_SUCCESS | ON_FAILURE | NEVER

datatype cleanup_status = PENDING | CLEANING | CLEANED | CLEANUP_FAILED | CLEANUP_SKIPPED

datatype cleanup_outcome = OUTCOME_SUCCESS | OUTCOME_FAILURE | OUTCOME_CANCELLED | OUTCOME_TIMEOUT

fun policy_text :: "cleanup_policy \<Rightarrow> string" where
  "policy_text ALWAYS = ''ALWAYS''"
| "policy_text ON_SUCCESS = ''ON_SUCCESS''"
| "policy_text ON_FAILURE = ''ON_FAILURE''"
| "policy_text NEVER = ''NEVER''"

fun outcome_text :: "cleanup_outcome \<Rightarrow> string" where
  "outcome_text OUTCOME_SUCCESS = ''SUCCESS''"
| "outcome_text OUTCOME_FAILURE = ''FAILURE''"
| "outcome_text OUTCOME_CANCELLED = ''CANCELLED''"
| "outcome_text OUTCOME_TIMEOUT = ''TIMEOUT''"

record cleanup_config =
  cc_cleanup_type :: cleanup_type
  cc_policy :: cleanup_policy
  cc_enabled :: bool
  cc_connection_id :: "int option"
  cc_auth_secret_id :: "int option"
  cc_rest :: json

record registry_entry =
  rg_id :: int
  rg_project_id :: int
  rg_run_id :: string
  rg_resource_type :: string
  rg_resource_id :: string
  rg_cleanup_type :: cleanup_type
  rg_cleanup_config :: cleanup_config
  rg_status :: cleanup_status
  rg_registration_sequence :: int
  rg_attempt_count :: int
  rg_last_error :: "string option"
  rg_error_code :: "string option"
  rg_source :: string
  rg_created_at :: datetime
  rg_cleaned_at :: "datetime option"
  rg_updated_at :: datetime

record scoped_row =  \<comment> \<open>the columns of a database connection or a Secret that are checked\<close>
  sc_id :: int
  sc_project_id :: int
  sc_enabled :: bool
  sc_password_secret_id :: int

record registry_db =
  gd_entries :: "registry_entry list"
  gd_next_id :: int
  gd_db :: project_db
  gd_connections :: "scoped_row list"
  gd_secrets :: "scoped_row list"

type_synonym 'r registry_result = "(app_error + 'r) \<times> registry_db"

record execution_result =
  xr_status :: cleanup_status
  xr_message :: "string option"
  xr_error_code :: "string option"

datatype handler_outcome =
    Reported execution_result
  | ExecutionError string string  \<comment> \<open>\<open>CleanupExecutionError\<close> with code and message\<close>
  | OtherException string         \<comment> \<open>any other exception, with the name of its class\<close>
  | Killed

section \<open>Redaction\<close>

text \<open>\<open>re.sub\<close> with a matcher that returns the replacement and the text behind the match.\<close>

function re_sub :: "(string \<Rightarrow> (string \<times> string) option) \<Rightarrow> string \<Rightarrow> string" where
  "re_sub f s =
     (case s of
        [] \<Rightarrow> []
      | c # cs \<Rightarrow>
          (case f s of
             Some (t, r) \<Rightarrow> if length r < length s then t @ re_sub f r else c # re_sub f cs
           | None \<Rightarrow> c # re_sub f cs))"
  by pat_completeness auto
termination
  by (relation "measure (\<lambda>(f, s). length s)") auto

declare re_sub.simps [simp del]

fun keyword_assignment :: "(string \<Rightarrow> string option) list \<Rightarrow> string \<Rightarrow> (string \<times> string) option" where
  "keyword_assignment [] s = None"
| "keyword_assignment (kw # kws) s =
     (case kw s of
        None \<Rightarrow> keyword_assignment kws s
      | Some r \<Rightarrow>
          (case match_assignment r of
             Some t \<Rightarrow> Some (take (length s - length r) s @ ''=<redacted>'', t)
           | None \<Rightarrow> keyword_assignment kws s))"

definition registry_keywords :: "(string \<Rightarrow> string option) list" where
  "registry_keywords =
     [drop_prefix_ci ''authorization'', drop_prefix_ci ''cookie'', drop_prefix_ci ''password'', drop_prefix_ci ''token'',
      drop_prefix_ci ''secret'', drop_joined_ci ''api'' ''key'']"

definition registry_safe_error :: "string \<Rightarrow> string" where
  "registry_safe_error message =
     take 500 (re_sub (\<lambda>s. map_option (Pair ''Bearer <redacted>'') (match_bearer s))
                (re_sub (keyword_assignment registry_keywords) message))"

section \<open>Registration\<close>

definition get_entry :: "registry_db \<Rightarrow> int \<Rightarrow> registry_entry option" where
  "get_entry db i = get_row rg_id (gd_entries db) i"

definition put_entry :: "registry_db \<Rightarrow> registry_entry \<Rightarrow> registry_db" where
  "put_entry db r = db\<lparr>gd_entries := put_row rg_id r (gd_entries db)\<rparr>"

definition in_scope :: "scoped_row list \<Rightarrow> int \<Rightarrow> int \<Rightarrow> scoped_row option" where
  "in_scope rows project_id i =
     (case get_row sc_id rows i of
        None \<Rightarrow> None
      | Some r \<Rightarrow> if sc_project_id r \<noteq> project_id \<or> \<not> sc_enabled r then None else Some r)"

definition validate_cleanup_scope :: "registry_db \<Rightarrow> int \<Rightarrow> cleanup_config \<Rightarrow> app_error + unit" where
  "validate_cleanup_scope db project_id cleanup =
     (if cc_cleanup_type cleanup = CLEANUP_SQL
      then case (case cc_connection_id cleanup of None \<Rightarrow> None | Some i \<Rightarrow> in_scope (gd_connections db) project_id i) of
             None \<Rightarrow> Inl (ResourceConflictError ''database connection'')
           | Some connection \<Rightarrow>
               (case in_scope (gd_secrets db) project_id (sc_password_secret_id connection) of
                  None \<Rightarrow> Inl (ResourceConflictError ''Secret of the database connection'')
                | Some _ \<Rightarrow> Inr ())
      else case cc_auth_secret_id cleanup of
             None \<Rightarrow> Inr ()
           | Some i \<Rightarrow>
               (case in_scope (gd_secrets db) project_id i of
                  None \<Rightarrow> Inl (ResourceConflictError ''Secret'')
                | Some _ \<Rightarrow> Inr ()))"

definition of_run :: "int \<Rightarrow> string \<Rightarrow> registry_entry \<Rightarrow> bool" where
  "of_run project_id run_id r \<longleftrightarrow> rg_project_id r = project_id \<and> rg_run_id r = run_id"

definition next_sequence :: "registry_db \<Rightarrow> int \<Rightarrow> string \<Rightarrow> int" where
  "next_sequence db project_id run_id =
     foldr max (map rg_registration_sequence (filter (of_run project_id run_id) (gd_entries db))) 0 + 1"

record register_request =
  rq_project_id :: int
  rq_run_id :: string
  rq_resource_type :: string
  rq_resource_id :: string
  rq_cleanup :: cleanup_config
  rq_source :: string

definition new_entry :: "datetime \<Rightarrow> registry_db \<Rightarrow> register_request \<Rightarrow> registry_entry" where
  "new_entry now db payload =
     \<lparr>rg_id = gd_next_id db, rg_project_id = rq_project_id payload, rg_run_id = rq_run_id payload,
      rg_resource_type = rq_resource_type payload, rg_resource_id = rq_resource_id payload,
      rg_cleanup_type = cc_cleanup_type (rq_cleanup payload), rg_cleanup_config = rq_cleanup payload, rg_status = PENDING,
      rg_registration_sequence = next_sequence db (rq_project_id payload) (rq_run_id payload),
      rg_attempt_count = 0, rg_last_error = None, rg_error_code = None, rg_source = rq_source payload,
      rg_created_at = now, rg_cleaned_at = None, rg_updated_at = now\<rparr>"

text \<open>
  What becomes of a commit: a rival registration or a lock conflict is retried on the tables it left, any
  other database error ends the request. At most five attempts are made.
\<close>

datatype commit_outcome = Committed | Rival "registry_db" | Broken

fun register_attempts ::
  "nat \<Rightarrow> datetime \<Rightarrow> commit_outcome list \<Rightarrow> registry_db \<Rightarrow> register_request \<Rightarrow> registry_entry registry_result" where
  "register_attempts 0 now commits db payload = (Inl (ResourceConflictError ''registration sequence conflict''), db)"
| "register_attempts (Suc n) now commits db payload =
     (case commits of
        Rival db' # rest \<Rightarrow> register_attempts n now rest db' payload
      | Broken # rest \<Rightarrow> (Inl (ResourceConflictError ''registration failed''), db)
      | _ \<Rightarrow> (Inr (new_entry now db payload),
             db\<lparr>gd_entries := gd_entries db @ [new_entry now db payload], gd_next_id := gd_next_id db + 1\<rparr>))"

definition register_resource ::
  "datetime \<Rightarrow> commit_outcome list \<Rightarrow> registry_db \<Rightarrow> current_user \<Rightarrow> register_request \<Rightarrow> registry_entry registry_result" where
  "register_resource now commits db user payload =
     (case res_bind (get_project (gd_db db) user (rq_project_id payload)) (\<lambda>project.
           res_bind (ensure_project_writable (gd_db db) project user) (\<lambda>_.
           if pj_status project = PROJECT_ARCHIVED then Inl (ResourceConflictError ''archived project'')
           else validate_cleanup_scope db (rq_project_id payload) (rq_cleanup payload))) of
        Inl err \<Rightarrow> (Inl err, db)
      | Inr _ \<Rightarrow> register_attempts 5 now commits db payload)"

definition list_resources ::
  "registry_db \<Rightarrow> current_user \<Rightarrow> int \<Rightarrow> string \<Rightarrow> cleanup_status option \<Rightarrow> app_error + registry_entry list" where
  "list_resources db user project_id run_id status =
     res_bind (get_project (gd_db db) user project_id) (\<lambda>_.
       Inr (rev (sort_key rg_registration_sequence
              (filter (\<lambda>r. of_run project_id run_id r \<and> (status = None \<or> status = Some (rg_status r))) (gd_entries db)))))"

definition get_resource :: "registry_db \<Rightarrow> current_user \<Rightarrow> int \<Rightarrow> int \<Rightarrow> app_error + registry_entry" where
  "get_resource db user project_id resource_id =
     (case get_entry db resource_id of
        None \<Rightarrow> Inl (ResourceNotFoundError ''resource'')
      | Some entry \<Rightarrow>
          if rg_project_id entry \<noteq> project_id then Inl (ResourceNotFoundError ''resource'')
          else res_bind (get_project (gd_db db) user (rg_project_id entry)) (\<lambda>_. Inr entry))"

section \<open>The plan\<close>

fun cleanup_policy_matches :: "cleanup_policy \<Rightarrow> cleanup_outcome \<Rightarrow> bool" where
  "cleanup_policy_matches ALWAYS outcome \<longleftrightarrow> True"
| "cleanup_policy_matches ON_SUCCESS outcome \<longleftrightarrow> outcome = OUTCOME_SUCCESS"
| "cleanup_policy_matches ON_FAILURE outcome \<longleftrightarrow> outcome \<in> {OUTCOME_FAILURE, OUTCOME_CANCELLED, OUTCOME_TIMEOUT}"
| "cleanup_policy_matches NEVER outcome \<longleftrightarrow> False"

text \<open>\<open>Inr\<close> is the action \<open>CLEAN\<close>, \<open>Inl\<close> the action \<open>SKIP\<close> with its reason.\<close>

definition plan_item :: "cleanup_outcome \<Rightarrow> bool \<Rightarrow> registry_entry \<Rightarrow> string + unit" where
  "plan_item outcome retry_failed entry =
     (let config = rg_cleanup_config entry in
      if rg_status entry = CLEANED then Inl ''already cleaned''
      else if rg_status entry = CLEANING then Inl ''cleanup already in progress''
      else if rg_status entry = CLEANUP_SKIPPED then Inl ''already skipped''
      else if \<not> cc_enabled config then Inl ''cleanup disabled''
      else if cc_policy config = NEVER then Inl ''policy NEVER''
      else if \<not> cleanup_policy_matches (cc_policy config) outcome
      then Inl (''policy '' @ policy_text (cc_policy config) @ '' does not match '' @ outcome_text outcome)
      else if rg_status entry = CLEANUP_FAILED \<and> \<not> retry_failed then Inl ''FAILED requires explicit retry_failed''
      else Inr ())"

definition run_entries :: "registry_db \<Rightarrow> int \<Rightarrow> string \<Rightarrow> registry_entry list" where
  "run_entries db project_id run_id =
     rev (sort_key rg_registration_sequence (filter (of_run project_id run_id) (gd_entries db)))"

definition plan_cleanup ::
  "registry_db \<Rightarrow> current_user \<Rightarrow> int \<Rightarrow> string \<Rightarrow> cleanup_outcome \<Rightarrow> bool \<Rightarrow> app_error + (registry_entry \<times> (string + unit)) list" where
  "plan_cleanup db user project_id run_id outcome retry_failed =
     res_bind (get_project (gd_db db) user project_id) (\<lambda>_.
       Inr (map (\<lambda>r. (r, plan_item outcome retry_failed r)) (run_entries db project_id run_id)))"

section \<open>Execution\<close>

definition skipped :: "datetime \<Rightarrow> string \<Rightarrow> registry_entry \<Rightarrow> registry_entry" where
  "skipped now reason entry =
     (if rg_status entry \<in> {PENDING, CLEANUP_FAILED}
      then entry\<lparr>rg_status := CLEANUP_SKIPPED, rg_error_code := Some ''CLEANUP_SKIPPED'',
                 rg_last_error := Some (registry_safe_error reason), rg_updated_at := now\<rparr>
      else entry)"

definition mark_skipped :: "datetime \<Rightarrow> registry_db \<Rightarrow> int \<Rightarrow> string \<Rightarrow> registry_entry registry_result" where
  "mark_skipped now db entry_id reason =
     (case get_entry db entry_id of
        None \<Rightarrow> (Inl (ResourceNotFoundError ''resource''), db)
      | Some entry \<Rightarrow> (Inr (skipped now reason entry), put_entry db (skipped now reason entry)))"

definition claimed :: "datetime \<Rightarrow> registry_entry \<Rightarrow> registry_entry" where
  "claimed now entry = entry\<lparr>rg_status := CLEANING, rg_attempt_count := rg_attempt_count entry + 1, rg_last_error := None,
     rg_error_code := None, rg_updated_at := now\<rparr>"

definition claim_cleanup :: "datetime \<Rightarrow> registry_db \<Rightarrow> int \<Rightarrow> (registry_entry \<times> registry_db) option" where
  "claim_cleanup now db entry_id =
     (case get_entry db entry_id of
        None \<Rightarrow> None
      | Some entry \<Rightarrow>
          if rg_status entry \<notin> {PENDING, CLEANUP_FAILED} then None
          else Some (claimed now entry, put_entry db (claimed now entry)))"

definition finished :: "datetime \<Rightarrow> execution_result \<Rightarrow> registry_entry \<Rightarrow> registry_entry" where
  "finished now result entry =
     entry\<lparr>rg_status := xr_status result, rg_error_code := xr_error_code result,
           rg_last_error := (if xr_status result \<noteq> CLEANED
             then Some (registry_safe_error (case xr_message result of None \<Rightarrow> ''None'' | Some t \<Rightarrow> t)) else None),
           rg_cleaned_at := (if xr_status result = CLEANED then Some now else None), rg_updated_at := now\<rparr>"

definition mark_cleanup_result ::
  "datetime \<Rightarrow> registry_db \<Rightarrow> current_user \<Rightarrow> int \<Rightarrow> execution_result \<Rightarrow> registry_entry registry_result" where
  "mark_cleanup_result now db user resource_id result =
     (case get_entry db resource_id of
        None \<Rightarrow> (Inl (ResourceNotFoundError ''resource''), db)
      | Some entry \<Rightarrow>
          (case res_bind (get_project (gd_db db) user (rg_project_id entry)) (\<lambda>project.
                ensure_project_writable (gd_db db) project user) of
             Inl err \<Rightarrow> (Inl err, db)
           | Inr _ \<Rightarrow>
               if rg_status entry = CLEANED then (Inr entry, db)
               else if rg_status entry \<noteq> CLEANING then (Inl (ResourceConflictError ''not CLEANING''), db)
               else if xr_status result \<notin> {CLEANED, CLEANUP_FAILED, CLEANUP_SKIPPED}
               then (Inl (ResourceConflictError ''result status''), db)
               else (Inr (finished now result entry), put_entry db (finished now result entry))))"

definition default_api_handler :: "registry_entry \<Rightarrow> handler_outcome" where
  "default_api_handler entry =
     Reported \<lparr>xr_status = CLEANUP_SKIPPED, xr_message = Some ''no network handler is configured'',
               xr_error_code = Some ''API_HANDLER_NOT_CONFIGURED''\<rparr>"

text \<open>\<open>_call_handler\<close>: exceptions of a handler become \<open>CleanupExecutionError\<close>.\<close>

definition call_handler :: "(registry_entry \<Rightarrow> handler_outcome) \<Rightarrow> registry_entry \<Rightarrow> handler_outcome" where
  "call_handler handler entry =
     (case handler entry of
        OtherException name \<Rightarrow> ExecutionError ''CLEANUP_HANDLER_ERROR'' ''the cleanup handler failed''
      | r \<Rightarrow> r)"

fun reported :: "handler_outcome \<Rightarrow> execution_result option" where
  "reported (Reported r) = Some r"
| "reported (ExecutionError code message) =
     Some \<lparr>xr_status = CLEANUP_FAILED, xr_message = Some message, xr_error_code = Some code\<rparr>"
| "reported (OtherException name) =
     Some \<lparr>xr_status = CLEANUP_FAILED, xr_message = Some (''cleanup failed: '' @ name), xr_error_code = Some ''CLEANUP_ERROR''\<rparr>"
| "reported Killed = None"

record cleanup_env =
  cl_now :: datetime
  cl_handler :: "(registry_entry \<Rightarrow> handler_outcome) option"
  cl_execute_sql :: "registry_entry \<Rightarrow> handler_outcome"

definition run_handler :: "cleanup_env \<Rightarrow> registry_entry \<Rightarrow> handler_outcome" where
  "run_handler e entry =
     (case cl_handler e of
        Some handler \<Rightarrow> call_handler handler entry
      | None \<Rightarrow> if rg_cleanup_type entry = CLEANUP_SQL then cl_execute_sql e entry else default_api_handler entry)"

text \<open>
  The loop of \<open>execute_cleanup\<close> over the plan. It also returns the entries its handlers were called with, in the
  order of the calls. \<open>InternalError\<close> is also the end of a killed process.
\<close>

definition left_alone :: "string \<Rightarrow> bool" where
  "left_alone reason \<longleftrightarrow>
     reason \<in> {''already cleaned'', ''cleanup already in progress'', ''already skipped''}
     \<or> take 37 reason = ''FAILED requires explicit retry_failed''"

type_synonym cleanup_progress = "(app_error + registry_entry list) \<times> registry_db \<times> registry_entry list"

fun cleanup_loop ::
  "cleanup_env \<Rightarrow> current_user \<Rightarrow> (registry_entry \<times> (string + unit)) list \<Rightarrow> registry_db \<Rightarrow> registry_entry list
   \<Rightarrow> registry_entry list \<Rightarrow> cleanup_progress" where
  "cleanup_loop e user [] db results calls = (Inr results, db, calls)"
| "cleanup_loop e user ((r, Inl reason) # items) db results calls =
     (if left_alone reason
      then case get_entry db (rg_id r) of
             None \<Rightarrow> (Inl (ResourceNotFoundError ''resource''), db, calls)
           | Some entry \<Rightarrow> cleanup_loop e user items db (results @ [entry]) calls
      else case mark_skipped (cl_now e) db (rg_id r) reason of
             (Inl err, db') \<Rightarrow> (Inl err, db', calls)
           | (Inr entry, db') \<Rightarrow> cleanup_loop e user items db' (results @ [entry]) calls)"
| "cleanup_loop e user ((r, Inr u) # items) db results calls =
     (case claim_cleanup (cl_now e) db (rg_id r) of
        None \<Rightarrow>
          (case get_entry db (rg_id r) of
             None \<Rightarrow> (Inl (ResourceNotFoundError ''resource''), db, calls)
           | Some entry \<Rightarrow> cleanup_loop e user items db (results @ [entry]) calls)
      | Some (entry, db1) \<Rightarrow>
          (case reported (run_handler e entry) of
             None \<Rightarrow> (Inl (InternalError ''killed''), db1, calls @ [entry])
           | Some result \<Rightarrow>
               (case mark_cleanup_result (cl_now e) db1 user (rg_id entry) result of
                  (Inl err, db2) \<Rightarrow> (Inl err, db2, calls @ [entry])
                | (Inr updated, db2) \<Rightarrow> cleanup_loop e user items db2 (results @ [updated]) (calls @ [entry]))))"

definition execute_cleanup ::
  "cleanup_env \<Rightarrow> registry_db \<Rightarrow> current_user \<Rightarrow> int \<Rightarrow> string \<Rightarrow> cleanup_outcome \<Rightarrow> bool \<Rightarrow> cleanup_progress" where
  "execute_cleanup e db user project_id run_id outcome retry_failed =
     (case res_bind (get_project (gd_db db) user project_id) (\<lambda>project. ensure_project_writable (gd_db db) project user) of
        Inl err \<Rightarrow> (Inl err, db, [])
      | Inr _ \<Rightarrow>
          (case plan_cleanup db user project_id run_id outcome retry_failed of
             Inl err \<Rightarrow> (Inl err, db, [])
           | Inr plan \<Rightarrow> cleanup_loop e user plan db [] []))"

end
