(* ===== verification/Resource_Cleanup.thy ===== *)
theory Resource_Cleanup
  imports Resource_Registry
begin

text \<open>
  What the resource registry guarantees. An undisturbed \<open>execute_cleanup\<close> is a map over the table: the loop of
  transactions refines it, and the handlers are called in the reverse order of registration. Under every
  interleaving of single transactions keys stay unique and a settled resource is final. A cleanup that was
  interrupted is never taken up again.
\<close>

section \<open>The loop as a map\<close>

lemma put_row_as_map:
  assumes "distinct (map key rows)"
  shows "put_row key r rows = map (\<lambda>x. if key x = key r then r else x) rows"
  using assms by (induction rows) (auto simp: image_iff intro!: map_idI[symmetric])

lemma put_row_same: "get_row key rows (key r) = Some r \<Longrightarrow> put_row key r rows = rows"
  by (induction rows) (auto simp: get_row_def split: if_splits)

definition well_behaved :: "cleanup_env \<Rightarrow> bool" where
  "well_behaved e \<longleftrightarrow>
     (\<forall>r. \<exists>res. reported (run_handler e r) = Some res \<and> xr_status res \<in> {CLEANED, CLEANUP_FAILED, CLEANUP_SKIPPED})"

definition cleanup_effect :: "cleanup_env \<Rightarrow> cleanup_outcome \<Rightarrow> bool \<Rightarrow> registry_entry \<Rightarrow> registry_entry" where
  "cleanup_effect e outcome retry_failed r =
     (case plan_item outcome retry_failed r of
        Inl reason \<Rightarrow> if left_alone reason then r else skipped (cl_now e) reason r
      | Inr _ \<Rightarrow>
          (case reported (run_handler e (claimed (cl_now e) r)) of
             None \<Rightarrow> claimed (cl_now e) r
           | Some result \<Rightarrow> finished (cl_now e) result (claimed (cl_now e) r)))"

lemma row_changes_fields [simp]:
  "rg_id (skipped now reason r) = rg_id r" "rg_id (claimed now r) = rg_id r" "rg_id (finished now res r) = rg_id r"
  "rg_project_id (skipped now reason r) = rg_project_id r" "rg_project_id (claimed now r) = rg_project_id r"
  "rg_project_id (finished now res r) = rg_project_id r"
  "rg_status (claimed now r) = CLEANING"
  by (simp_all add: skipped_def claimed_def finished_def)

lemma cleanup_effect_id [simp]: "rg_id (cleanup_effect e outcome retry r) = rg_id r"
  by (simp add: cleanup_effect_def split: sum.split option.split)

lemma plan_item_clean: "plan_item outcome retry r = Inr u \<Longrightarrow> rg_status r \<in> {PENDING, CLEANUP_FAILED}"
  by (cases "rg_status r") (auto simp: plan_item_def Let_def split: if_splits)

lemma put_entry_simps [simp]:
  "gd_db (put_entry db r) = gd_db db" "get_entry (put_entry db r) i =
     (if i = rg_id r then (case get_entry db i of None \<Rightarrow> None | Some _ \<Rightarrow> Some r) else get_entry db i)"
  by (simp_all add: put_entry_def get_entry_def row_table.get_put)

lemma put_entry_twice: "rg_id r' = rg_id r \<Longrightarrow> put_entry (put_entry db r) r' = put_entry db r'"
proof -
  assume same: "rg_id r' = rg_id r"
  have "put_row rg_id r' (put_row rg_id r rows) = put_row rg_id r' rows" for rows
    using same by (induction rows) auto
  then show ?thesis
    by (simp add: put_entry_def)
qed

definition may_write :: "registry_db \<Rightarrow> current_user \<Rightarrow> int \<Rightarrow> bool" where
  "may_write db user project_id \<longleftrightarrow>
     res_bind (get_project (gd_db db) user project_id) (\<lambda>project. ensure_project_writable (gd_db db) project user) = Inr ()"

text \<open>One turn of the loop on a row nobody else touched.\<close>

lemma cleanup_loop_step:
  assumes r: "get_entry db (rg_id r) = Some r" and may: "may_write db user (rg_project_id r)" and ok: "well_behaved e"
  shows "cleanup_loop e user ((r, plan_item outcome retry r) # items) db results calls =
    cleanup_loop e user items (put_entry db (cleanup_effect e outcome retry r)) (results @ [cleanup_effect e outcome retry r])
      (calls @ (if plan_item outcome retry r = Inr () then [claimed (cl_now e) r] else []))"
proof (cases "plan_item outcome retry r")
  case (Inl reason)
  have "put_entry db r = db"
    using r by (simp add: put_entry_def get_entry_def put_row_same)
  then show ?thesis
    using Inl r by (simp add: cleanup_effect_def mark_skipped_def)
next
  case (Inr u)
  obtain res where res: "reported (run_handler e (claimed (cl_now e) r)) = Some res"
      "xr_status res \<in> {CLEANED, CLEANUP_FAILED, CLEANUP_SKIPPED}"
    using ok unfolding well_behaved_def by blast
  have "rg_status r \<in> {PENDING, CLEANUP_FAILED}"
    using Inr by (rule plan_item_clean)
  then have claim: "claim_cleanup (cl_now e) db (rg_id r) = Some (claimed (cl_now e) r, put_entry db (claimed (cl_now e) r))"
    using r by (auto simp: claim_cleanup_def)
  have "mark_cleanup_result (cl_now e) (put_entry db (claimed (cl_now e) r)) user (rg_id r) res
      = (Inr (finished (cl_now e) res (claimed (cl_now e) r)),
         put_entry db (finished (cl_now e) res (claimed (cl_now e) r)))"
    using r may res by (auto simp: mark_cleanup_result_def may_write_def put_entry_twice)
  then show ?thesis
    using Inr claim res by (simp add: cleanup_effect_def)
qed

definition with_entries :: "registry_db \<Rightarrow> registry_entry set \<Rightarrow> (registry_entry \<Rightarrow> registry_entry) \<Rightarrow> registry_db" where
  "with_entries db rs f = db\<lparr>gd_entries := map (\<lambda>x. if x \<in> rs then f x else x) (gd_entries db)\<rparr>"

lemma get_entry_distinct:
  "distinct (map rg_id (gd_entries db)) \<Longrightarrow> r \<in> set (gd_entries db) \<Longrightarrow> get_entry db (rg_id r) = Some r"
  by (simp add: get_entry_def get_row_distinct)

lemma put_entry_effect:
  assumes "distinct (map rg_id (gd_entries db))" and "r \<in> set (gd_entries db)" and "rg_id r' = rg_id r"
  shows "put_entry db r' = db\<lparr>gd_entries := map (\<lambda>x. if x = r then r' else x) (gd_entries db)\<rparr>"
proof -
  have "(if rg_id x = rg_id r' then r' else x) = (if x = r then r' else x)" if "x \<in> set (gd_entries db)" for x
    using assms that by (auto simp: distinct_map inj_on_def)
  then have "map (\<lambda>x. if rg_id x = rg_id r' then r' else x) (gd_entries db) = map (\<lambda>x. if x = r then r' else x) (gd_entries db)"
    by (intro map_cong) auto
  then show ?thesis
    by (simp add: put_entry_def put_row_as_map[OF assms(1)])
qed

lemma cleanup_loop_map:
  assumes "distinct (map rg_id (gd_entries db))" and "set rs \<subseteq> set (gd_entries db)" and "distinct rs"
    and "\<forall>r \<in> set rs. may_write db user (rg_project_id r)" and "well_behaved e"
  shows "cleanup_loop e user (map (\<lambda>r. (r, plan_item outcome retry r)) rs) db results calls =
    (Inr (results @ map (cleanup_effect e outcome retry) rs), with_entries db (set rs) (cleanup_effect e outcome retry),
     calls @ map (claimed (cl_now e)) (filter (\<lambda>r. plan_item outcome retry r = Inr ()) rs))"
  using assms
proof (induction rs arbitrary: db results calls)
  case Nil
  then show ?case
    by (simp add: with_entries_def)
next
  case (Cons r rs)
  let ?f = "cleanup_effect e outcome retry" and ?db = "put_entry db (cleanup_effect e outcome retry r)"
  have member: "r \<in> set (gd_entries db)" and r: "get_entry db (rg_id r) = Some r"
    using Cons.prems(1,2) by (auto simp: get_entry_distinct)
  have entries: "gd_entries ?db = map (\<lambda>x. if x = r then ?f r else x) (gd_entries db)"
    using put_entry_effect[OF Cons.prems(1) member, of "?f r"] by simp
  have "map rg_id (gd_entries ?db) = map rg_id (gd_entries db)"
    by (simp add: put_entry_def put_row_keys)
  then have distinct: "distinct (map rg_id (gd_entries ?db))"
    using Cons.prems(1) by simp
  have other: "x \<noteq> ?f r" if "x \<in> set rs" for x
  proof
    assume "x = ?f r"
    then have "rg_id x = rg_id r"
      by simp
    then have "x = r"
      using that Cons.prems(1,2) member by (auto simp: distinct_map inj_on_def)
    then show False
      using that Cons.prems(3) by simp
  qed
  have subset: "set rs \<subseteq> set (gd_entries ?db)"
    using Cons.prems(2,3) by (auto simp: entries image_iff)
  have may: "may_write db user (rg_project_id r)" "\<forall>r \<in> set rs. may_write ?db user (rg_project_id r)"
    using Cons.prems(4) by (auto simp: may_write_def)
  have "with_entries ?db (set rs) ?f = with_entries db (set (r # rs)) ?f"
  proof -
    have "?f r \<notin> set rs"
      using other by blast
    then have "map (\<lambda>x. if x \<in> set rs then ?f x else x) (gd_entries ?db)
        = map (\<lambda>x. if x \<in> set (r # rs) then ?f x else x) (gd_entries db)"
      unfolding entries using Cons.prems(3) by auto
    then show ?thesis
      by (simp add: with_entries_def put_entry_def)
  qed
  then show ?case
    unfolding list.map cleanup_loop_step[OF r may(1) Cons.prems(5)]
    using Cons.IH[OF distinct subset _ may(2) Cons.prems(5)] Cons.prems(3) by simp
qed

section \<open>Transactions in any order\<close>

definition entry_key :: "registry_entry \<Rightarrow> int \<times> string \<times> int" where
  "entry_key r = (rg_project_id r, rg_run_id r, rg_registration_sequence r)"

text \<open>
  Every transaction on the registry, by whatever request: a registration (also those the completion of a Run
  writes itself, with statuses the Runner reports), marking as skipped, a claim, the result of a cleanup, and changes of
  the tables the registry only reads. The unique key and the key counter are those of the database.
\<close>

inductive registry_step :: "registry_db \<Rightarrow> registry_db \<Rightarrow> bool" where
  add: "rg_id r = gd_next_id db \<Longrightarrow> entry_key r \<notin> entry_key ` set (gd_entries db) \<Longrightarrow> 0 < rg_registration_sequence r
     \<Longrightarrow> registry_step db (db\<lparr>gd_entries := gd_entries db @ [r], gd_next_id := gd_next_id db + 1\<rparr>)"
| skip: "mark_skipped now db i reason = (r, db') \<Longrightarrow> registry_step db db'"
| claim: "claim_cleanup now db i = Some (r, db') \<Longrightarrow> registry_step db db'"
| result: "mark_cleanup_result now db user i res = (r, db') \<Longrightarrow> registry_step db db'"
| outside: "registry_step db (db\<lparr>gd_db := d, gd_connections := cs, gd_secrets := ss\<rparr>)"

definition registry_inv :: "registry_db \<Rightarrow> bool" where
  "registry_inv db \<longleftrightarrow> distinct (map rg_id (gd_entries db)) \<and> (\<forall>r \<in> set (gd_entries db). rg_id r < gd_next_id db)
     \<and> distinct (map entry_key (gd_entries db)) \<and> (\<forall>r \<in> set (gd_entries db). 0 < rg_registration_sequence r)"

definition empty_registry :: "project_db \<Rightarrow> registry_db" where
  "empty_registry d = \<lparr>gd_entries = [], gd_next_id = 1, gd_db = d, gd_connections = [], gd_secrets = []\<rparr>"

lemma row_changes_key [simp]:
  "entry_key (skipped now reason r) = entry_key r" "entry_key (claimed now r) = entry_key r" "entry_key (finished now res r) = entry_key r"
  by (simp_all add: skipped_def claimed_def finished_def entry_key_def)

lemma map_put_row:
  "get_row key rows (key r') = Some r \<Longrightarrow> f r' = f r \<Longrightarrow> map f (put_row key r' rows) = map f rows"
  by (induction rows) (auto simp: get_row_def split: if_splits)

lemma registry_inv_put:
  assumes "registry_inv db" and "get_entry db (rg_id r') = Some r" and "entry_key r' = entry_key r"
  shows "registry_inv (put_entry db r')"
proof -
  have "map entry_key (put_row rg_id r' (gd_entries db)) = map entry_key (gd_entries db)"
    using assms(2,3) by (intro map_put_row) (auto simp: get_entry_def)
  moreover have "0 < rg_registration_sequence r'" "rg_id r' < gd_next_id db"
    using assms get_row_in_set[of rg_id "gd_entries db" "rg_id r'" r]
      row_table.get_key[of rg_id "gd_entries db" "rg_id r'" r]
    by (auto simp: registry_inv_def entry_key_def get_entry_def)
  ultimately show ?thesis
    using assms(1) by (auto simp: registry_inv_def put_entry_def put_row_keys dest!: put_row_set)
qed

lemma get_entry_id: "get_entry db i = Some r \<Longrightarrow> rg_id r = i"
  unfolding get_entry_def by (rule row_table.get_key)

definition settled :: "registry_entry \<Rightarrow> bool" where
  "settled r \<longleftrightarrow> rg_status r \<in> {CLEANED, CLEANUP_SKIPPED}"

text \<open>A transaction on an existing row changes at most that row, keeps its keys, and a settled row entirely.\<close>

definition row_change :: "registry_db \<Rightarrow> registry_db \<Rightarrow> bool" where
  "row_change db db' \<longleftrightarrow> db' = db \<or>
     (\<exists>r r'. get_entry db (rg_id r') = Some r \<and> entry_key r' = entry_key r \<and> (settled r \<longrightarrow> r' = r) \<and> db' = put_entry db r')"

lemma row_change_refl [simp]: "row_change db db"
  by (simp add: row_change_def)

lemma row_changeI:
  "get_entry db i = Some r \<Longrightarrow> rg_id r' = rg_id r \<Longrightarrow> entry_key r' = entry_key r \<Longrightarrow> (settled r \<Longrightarrow> r' = r)
   \<Longrightarrow> row_change db (put_entry db r')"
  unfolding row_change_def using get_entry_id by metis

lemma skip_change: "mark_skipped now db i reason = (r, db') \<Longrightarrow> row_change db db'"
  by (auto simp: mark_skipped_def intro!: row_changeI split: option.splits) (auto simp: settled_def skipped_def)

lemma claim_change: "claim_cleanup now db i = Some (r, db') \<Longrightarrow> row_change db db'"
  by (auto simp: claim_cleanup_def settled_def intro!: row_changeI split: option.splits if_splits)

lemma result_change: "mark_cleanup_result now db user i res = (r, db') \<Longrightarrow> row_change db db'"
  by (auto simp: mark_cleanup_result_def settled_def intro!: row_changeI
      split: option.splits sum.splits if_splits)

lemma row_change_inv: "row_change db db' \<Longrightarrow> registry_inv db \<Longrightarrow> registry_inv db'"
  by (auto simp: row_change_def intro: registry_inv_put)

lemma row_change_settled: "row_change db db' \<Longrightarrow> get_entry db i = Some r \<Longrightarrow> settled r \<Longrightarrow> get_entry db' i = Some r"
  by (auto simp: row_change_def)

lemma registry_step_cases:
  assumes "registry_step db db'"
  obtains (add) r where "rg_id r = gd_next_id db" and "entry_key r \<notin> entry_key ` set (gd_entries db)"
      and "0 < rg_registration_sequence r" and "db' = db\<lparr>gd_entries := gd_entries db @ [r], gd_next_id := gd_next_id db + 1\<rparr>"
  | (change) "row_change db db'"
  | (outside) d cs ss where "db' = db\<lparr>gd_db := d, gd_connections := cs, gd_secrets := ss\<rparr>"
  using assms by (cases rule: registry_step.cases) (auto intro: skip_change claim_change result_change)

lemma registry_step_inv:
  assumes "registry_step db db'" and "registry_inv db"
  shows "registry_inv db'"
  using assms(1)
proof (cases rule: registry_step_cases)
  case (add r)
  then have "rg_id r \<notin> rg_id ` set (gd_entries db)"
    using assms(2) by (fastforce simp: registry_inv_def)
  then show ?thesis
    using add assms(2) by (auto simp: registry_inv_def)
next
  case change
  then show ?thesis
    using assms(2) by (rule row_change_inv)
next
  case (outside d cs ss)
  then show ?thesis
    using assms(2) by (simp add: registry_inv_def)
qed

lemma registry_steps_inv: "registry_step\<^sup>*\<^sup>* db db' \<Longrightarrow> registry_inv db \<Longrightarrow> registry_inv db'"
  by (induction rule: rtranclp_induct) (auto intro: registry_step_inv)

lemma registry_inv_empty: "registry_inv (empty_registry d)"
  by (simp add: registry_inv_def empty_registry_def)

lemma get_entry_append: "get_entry db i = Some r \<Longrightarrow> get_entry (db\<lparr>gd_entries := gd_entries db @ rs, gd_next_id := n\<rparr>) i = Some r"
  by (simp add: get_entry_def get_row_append)

lemma registry_step_settled:
  assumes "registry_step db db'" and "get_entry db i = Some r" and "settled r"
  shows "get_entry db' i = Some r"
  using assms(1)
proof (cases rule: registry_step_cases)
  case (add r')
  then show ?thesis
    using assms(2) by (simp add: get_entry_append)
next
  case change
  then show ?thesis
    using assms(2,3) by (rule row_change_settled)
next
  case (outside d cs ss)
  then show ?thesis
    using assms(2) by (simp add: get_entry_def)
qed

lemma registry_steps_settled:
  "registry_step\<^sup>*\<^sup>* db db' \<Longrightarrow> get_entry db i = Some r \<Longrightarrow> settled r \<Longrightarrow> get_entry db' i = Some r"
  by (induction rule: rtranclp_induct) (auto intro: registry_step_settled)

section \<open>Requests are sequences of transactions\<close>

lemma cleanup_loop_steps:
  "cleanup_loop e user items db results calls = (r, db', calls') \<Longrightarrow> registry_step\<^sup>*\<^sup>* db db'"
proof (induction e user items db results calls rule: cleanup_loop.induct)
  case (2 e user r0 reason items db results calls)
  obtain m db1 where m: "mark_skipped (cl_now e) db (rg_id r0) reason = (m, db1)"
    by fastforce
  have first: "registry_step db db1"
    using m by (rule registry_step.skip)
  show ?case
  proof (cases m)
    case (Inl err)
    then show ?thesis
      using 2 m first by (auto split: if_splits option.splits)
  next
    case (Inr entry)
    then have "left_alone reason \<or> registry_step\<^sup>*\<^sup>* db1 db'"
      using 2 m by (cases "left_alone reason") auto
    then show ?thesis
      using 2 first by (auto intro: converse_rtranclp_into_rtranclp split: option.splits)
  qed
next
  case (3 e user r0 u items db results calls)
  show ?case
  proof (cases "claim_cleanup (cl_now e) db (rg_id r0)")
    case None
    then show ?thesis
      using 3 by (auto split: option.splits)
  next
    case (Some c)
    obtain entry db1 where c: "c = (entry, db1)"
      by (cases c)
    have first: "registry_step db db1"
      using Some c by (auto intro: registry_step.claim)
    show ?thesis
    proof (cases "reported (run_handler e entry)")
      case None
      then show ?thesis
        using 3 Some c first by simp
    next
      case reported: (Some res)
      obtain m db2 where m: "mark_cleanup_result (cl_now e) db1 user (rg_id entry) res = (m, db2)"
        by fastforce
      have second: "registry_step db1 db2"
        using m by (rule registry_step.result)
      show ?thesis
      proof (cases m)
        case (Inl err)
        then show ?thesis
          using 3 Some c reported m first second by (auto intro: converse_rtranclp_into_rtranclp)
      next
        case (Inr updated)
        then have "registry_step\<^sup>*\<^sup>* db2 db'"
          using 3 Some c reported m by auto
        then show ?thesis
          using first second by (meson converse_rtranclp_into_rtranclp)
      qed
    qed
  qed
qed simp

lemma execute_cleanup_steps: "execute_cleanup e db user pid rid outcome retry = (r, db', calls) \<Longrightarrow> registry_step\<^sup>*\<^sup>* db db'"
  by (auto simp: execute_cleanup_def dest: cleanup_loop_steps split: sum.splits)

lemma new_entry_step: "registry_step db (db\<lparr>gd_entries := gd_entries db @ [new_entry now db payload], gd_next_id := gd_next_id db + 1\<rparr>)"
proof (rule registry_step.add)
  define seqs where "seqs = map rg_registration_sequence (filter (of_run (rq_project_id payload) (rq_run_id payload)) (gd_entries db))"
  have bound: "x \<le> foldr max seqs 0" if "x \<in> set seqs" for x
    using that by (induction seqs) auto
  have "0 \<le> foldr max seqs (0 :: int)"
    by (induction seqs) auto
  then show "0 < rg_registration_sequence (new_entry now db payload)"
    by (simp add: new_entry_def next_sequence_def flip: seqs_def)
  show "entry_key (new_entry now db payload) \<notin> entry_key ` set (gd_entries db)"
  proof
    assume "entry_key (new_entry now db payload) \<in> entry_key ` set (gd_entries db)"
    then obtain r where r: "r \<in> set (gd_entries db)" "entry_key (new_entry now db payload) = entry_key r"
      by auto
    then have "of_run (rq_project_id payload) (rq_run_id payload) r"
      by (simp add: of_run_def entry_key_def new_entry_def)
    then have "rg_registration_sequence r \<in> set seqs"
      using r by (simp add: seqs_def)
    then show False
      using bound r(2) by (fastforce simp: new_entry_def next_sequence_def entry_key_def simp flip: seqs_def)
  qed
qed (simp add: new_entry_def)

section \<open>Rows no request touches\<close>

definition frozen :: "registry_entry \<Rightarrow> bool" where
  "frozen r \<longleftrightarrow> rg_status r \<in> {CLEANED, CLEANUP_SKIPPED, CLEANING}"

lemma frozen_skip:
  assumes "mark_skipped now db j reason = (m, db')" and "get_entry db i = Some r" and "frozen r"
  shows "get_entry db' i = Some r"
proof (cases "j = i")
  case True
  then show ?thesis
    using assms get_entry_id[OF assms(2)] by (auto simp: mark_skipped_def frozen_def skipped_def)
next
  case False
  then show ?thesis
    using assms by (auto simp: mark_skipped_def dest: get_entry_id split: option.splits)
qed

lemma frozen_claim:
  assumes "claim_cleanup now db j = Some (entry, db')" and "get_entry db i = Some r" and "frozen r"
  shows "get_entry db' i = Some r" and "rg_id entry \<noteq> i"
proof -
  have "j \<noteq> i"
    using assms by (auto simp: claim_cleanup_def frozen_def split: if_splits)
  then show "get_entry db' i = Some r" and "rg_id entry \<noteq> i"
    using assms by (auto simp: claim_cleanup_def dest: get_entry_id split: option.splits if_splits)
qed

lemma result_other:
  assumes "mark_cleanup_result now db user j res = (m, db')" and "get_entry db i = Some r" and "j \<noteq> i"
  shows "get_entry db' i = Some r"
  using assms by (auto simp: mark_cleanup_result_def dest: get_entry_id split: option.splits sum.splits if_splits)

lemma cleanup_loop_frozen:
  assumes "cleanup_loop e user items db results calls = (res, db', calls')" and "get_entry db i = Some r" and "frozen r"
    and "i \<notin> rg_id ` set calls"
  shows "get_entry db' i = Some r \<and> i \<notin> rg_id ` set calls'"
  using assms
proof (induction e user items db results calls rule: cleanup_loop.induct)
  case (2 e user r0 reason items db results calls)
  obtain m db1 where m: "mark_skipped (cl_now e) db (rg_id r0) reason = (m, db1)"
    by fastforce
  then have "get_entry db1 i = Some r"
    using 2 by (blast intro: frozen_skip)
  then show ?case
    using 2 m by (cases "left_alone reason"; cases m) (auto split: option.splits)
next
  case (3 e user r0 u items db results calls)
  show ?case
  proof (cases "claim_cleanup (cl_now e) db (rg_id r0)")
    case None
    then show ?thesis
      using 3 by (auto split: option.splits)
  next
    case (Some c)
    obtain entry db1 where c: "c = (entry, db1)"
      by (cases c)
    have db1: "get_entry db1 i = Some r" "rg_id entry \<noteq> i"
      using frozen_claim[of "cl_now e" db "rg_id r0" entry db1 i r] Some c 3 by auto
    show ?thesis
    proof (cases "reported (run_handler e entry)")
      case None
      then show ?thesis
        using 3 Some c db1 by auto
    next
      case reported: (Some result)
      obtain m db2 where m: "mark_cleanup_result (cl_now e) db1 user (rg_id entry) result = (m, db2)"
        by fastforce
      have "get_entry db2 i = Some r"
        by (rule result_other[OF m db1])
      then show ?thesis
        using 3 Some c reported m db1(2) by (cases m) auto
    qed
  qed
qed simp

lemma execute_cleanup_frozen:
  assumes "execute_cleanup e db user pid rid outcome retry = (res, db', calls)" and "get_entry db i = Some r" and "frozen r"
  shows "get_entry db' i = Some r \<and> i \<notin> rg_id ` set calls"
  using assms by (auto simp: execute_cleanup_def dest: cleanup_loop_frozen split: sum.splits)

text \<open>
  Whole requests one after the other: registrations, the completion of Runs that adds rows, cleanups (killed or not) and
  changes of the other tables.
\<close>

inductive registry_request :: "registry_db \<Rightarrow> registry_db \<Rightarrow> bool" where
  registered: "\<forall>c \<in> set commits. \<forall>d'. c \<noteq> Rival d' \<Longrightarrow> register_resource now commits db user payload = (r, db') \<Longrightarrow> registry_request db db'"
| completed: "registry_request db (db\<lparr>gd_entries := gd_entries db @ rs, gd_next_id := n\<rparr>)"
| cleaned: "execute_cleanup e db user pid rid outcome retry = (res, db', calls) \<Longrightarrow> registry_request db db'"
| outside: "registry_request db (db\<lparr>gd_db := d, gd_connections := cs, gd_secrets := ss\<rparr>)"

lemma register_attempts_frozen:
  assumes "\<forall>c \<in> set commits. \<forall>d. c \<noteq> Rival d" and "register_attempts n now commits db payload = (r', db')"
    and "get_entry db i = Some r"
  shows "get_entry db' i = Some r"
  using assms by (cases n) (auto simp: get_entry_append split: list.splits commit_outcome.splits)

lemma registry_request_frozen: "registry_request db db' \<Longrightarrow> get_entry db i = Some r \<Longrightarrow> frozen r \<Longrightarrow> get_entry db' i = Some r"
proof (induction rule: registry_request.induct)
  case (registered commits now db user payload r' db')
  then show ?case
    by (auto simp: register_resource_def dest: register_attempts_frozen split: sum.splits)
next
  case (cleaned e db user pid rid outcome retry res db' calls)
  then show ?case
    using execute_cleanup_frozen by blast
qed (auto simp: get_entry_def get_row_append)

lemma registry_requests_frozen:
  "registry_request\<^sup>*\<^sup>* db db' \<Longrightarrow> get_entry db i = Some r \<Longrightarrow> frozen r \<Longrightarrow> get_entry db' i = Some r"
  by (induction rule: rtranclp_induct) (auto intro: registry_request_frozen)

lemma access_error: "res_bind (get_project d user pid) (\<lambda>p. ensure_project_writable d p user) = Inl err \<Longrightarrow> err \<noteq> InternalError t"
  by (auto simp: get_project_def get_project_row_def ensure_project_writable_def ensure_project_visible_def res_bind_def
      option_to_res_def split: sum.splits option.splits if_splits)

lemma result_error: "mark_cleanup_result now db user i res = (Inl err, db') \<Longrightarrow> err \<noteq> InternalError t"
  by (auto simp: mark_cleanup_result_def dest: access_error split: option.splits sum.splits if_splits)

lemma cleanup_loop_killed:
  assumes "cleanup_loop e user items db results calls = (Inl (InternalError ''killed''), db', calls')"
  shows "calls' \<noteq> [] \<and> rg_status (last calls') = CLEANING \<and> get_entry db' (rg_id (last calls')) = Some (last calls')"
  using assms
proof (induction e user items db results calls rule: cleanup_loop.induct)
  case (2 e user r0 reason items db results calls)
  then show ?case
    by (auto simp: mark_skipped_def split: if_splits option.splits prod.splits sum.splits)
next
  case (3 e user r0 u items db results calls)
  show ?case
  proof (cases "claim_cleanup (cl_now e) db (rg_id r0)")
    case None
    then show ?thesis
      using 3 by (auto split: option.splits)
  next
    case (Some c)
    obtain entry db1 where c: "c = (entry, db1)"
      by (cases c)
    have db1: "get_entry db1 (rg_id entry) = Some entry" "rg_status entry = CLEANING"
      using Some c get_entry_id[of db "rg_id r0"] by (fastforce simp: claim_cleanup_def split: option.splits if_splits)+
    show ?thesis
    proof (cases "reported (run_handler e entry)")
      case None
      then show ?thesis
        using "3.prems" Some c db1 by auto
    next
      case reported: (Some result)
      obtain m db2 where m: "mark_cleanup_result (cl_now e) db1 user (rg_id entry) result = (m, db2)"
        by fastforce
      show ?thesis
      proof (cases m)
        case (Inl err)
        then show ?thesis
          using "3.prems" Some c reported m result_error by fastforce
      next
        case (Inr updated)
        then show ?thesis
          using "3.prems" "3.IH"(2)[OF Some c[symmetric] reported m[symmetric] Inr] Some c reported m by simp
      qed
    qed
  qed
qed simp

section \<open>Properties\<close>

text \<open>
C31. An undisturbed \<open>execute_cleanup\<close> with handlers that report is exactly this: the handlers are called once for every
eligible resource of the Run, in strictly descending order of registration, with the claimed row; a failing handler does
not stop the others; every resource of the Run ends as \<open>cleanup_effect\<close> says and all other rows are as before.
\<close>
theorem cleanup_is_last_in_first_out:
  assumes "registry_step\<^sup>*\<^sup>* (empty_registry d) db" and "may_write db user pid" and "well_behaved e"
  shows "execute_cleanup e db user pid rid outcome retry =
      (Inr (map (cleanup_effect e outcome retry) (run_entries db pid rid)),
       db\<lparr>gd_entries := map (\<lambda>r. if of_run pid rid r then cleanup_effect e outcome retry r else r) (gd_entries db)\<rparr>,
       map (claimed (cl_now e)) (filter (\<lambda>r. plan_item outcome retry r = Inr ()) (run_entries db pid rid)))
    \<and> sorted_wrt (\<lambda>r r'. rg_registration_sequence r' < rg_registration_sequence r) (run_entries db pid rid)"
proof -
  have inv: "registry_inv db"
    by (rule registry_steps_inv[OF assms(1) registry_inv_empty])
  let ?rs = "run_entries db pid rid" and ?f = "cleanup_effect e outcome retry"
  let ?sorted = "sort_key rg_registration_sequence (filter (of_run pid rid) (gd_entries db))"
  have set_rs: "set ?rs = {r \<in> set (gd_entries db). of_run pid rid r}"
    by (auto simp: run_entries_def)
  have "distinct (gd_entries db)"
    using inv by (auto simp: registry_inv_def distinct_map)
  then have "distinct ?rs"
    by (simp add: run_entries_def)
  obtain project where project: "get_project (gd_db db) user pid = Inr project"
    using assms(2) by (auto simp: may_write_def res_simps)
  have loop: "cleanup_loop e user (map (\<lambda>r. (r, plan_item outcome retry r)) ?rs) db [] [] =
      (Inr (map ?f ?rs), with_entries db (set ?rs) ?f,
       map (claimed (cl_now e)) (filter (\<lambda>r. plan_item outcome retry r = Inr ()) ?rs))"
    using cleanup_loop_map[of db ?rs user e outcome retry "[]" "[]"] inv set_rs \<open>distinct ?rs\<close> assms(2,3)
    by (simp add: registry_inv_def of_run_def subset_iff)
  have "with_entries db (set ?rs) ?f = db\<lparr>gd_entries := map (\<lambda>r. if of_run pid rid r then ?f r else r) (gd_entries db)\<rparr>"
    unfolding with_entries_def set_rs by (auto intro!: arg_cong[where f = "\<lambda>xs. db\<lparr>gd_entries := xs\<rparr>"])
  moreover have "distinct (map rg_registration_sequence ?sorted)"
  proof -
    have "inj_on rg_registration_sequence {r \<in> set (gd_entries db). of_run pid rid r}"
      using inv by (auto simp: registry_inv_def distinct_map inj_on_def entry_key_def of_run_def)
    then show ?thesis
      using \<open>distinct (gd_entries db)\<close> by (simp add: distinct_map)
  qed
  then have "sorted_wrt (<) (map rg_registration_sequence ?sorted)"
    by (intro strict_sorted_iff[THEN iffD2]) simp
  ultimately show ?thesis
    using loop assms(2) project
    by (simp add: execute_cleanup_def plan_cleanup_def may_write_def sorted_wrt_map run_entries_def sorted_wrt_rev)
qed

text \<open>
C32. Under every interleaving of the transactions of the registry, ids and the pairs of Run and sequence number are
unique and numbers are positive; a resource that is CLEANED or SKIPPED is never changed again, and no later cleanup
calls a handler for it. Every cleanup request is a sequence of such transactions.
\<close>
theorem settled_resource_is_final:
  assumes "registry_step\<^sup>*\<^sup>* (empty_registry d) db" and "get_entry db i = Some r" and "rg_status r \<in> {CLEANED, CLEANUP_SKIPPED}"
    and "registry_step\<^sup>*\<^sup>* db db'" and "execute_cleanup e db' user pid rid outcome retry = (res, db'', calls)"
  shows "registry_inv db'' \<and> registry_step\<^sup>*\<^sup>* db' db'' \<and> get_entry db'' i = Some r \<and> i \<notin> rg_id ` set calls"
proof (intro conjI)
  have r: "get_entry db' i = Some r"
    using assms(2,3) by (intro registry_steps_settled[OF assms(4)]) (auto simp: settled_def)
  then show "get_entry db'' i = Some r" and "i \<notin> rg_id ` set calls"
    using execute_cleanup_frozen[OF assms(5) r] assms(3) by (auto simp: frozen_def)
  show steps: "registry_step\<^sup>*\<^sup>* db' db''"
    by (rule execute_cleanup_steps[OF assms(5)])
  then show "registry_inv db''"
    using registry_steps_inv[OF _ registry_inv_empty] assms(1,4) by (meson rtranclp_trans)
qed

text \<open>
C33. A process that ends while a handler runs leaves the resource CLEANING.
No later request, in whatever number and with whatever outcome and \<open>retry_failed\<close>, changes the resource again or calls
a handler for it: its cleanup is lost, and it is reported as in progress for ever.
\<close>
theorem interrupted_cleanup_is_never_resumed:
  assumes "execute_cleanup e db user pid rid outcome retry = (Inl (InternalError ''killed''), db1, calls)"
    and "registry_request\<^sup>*\<^sup>* db1 db2"
    and "execute_cleanup e2 db2 user2 pid2 rid2 outcome2 retry2 = (res, db3, calls3)"
  shows "calls \<noteq> [] \<and> rg_status (last calls) = CLEANING \<and> get_entry db3 (rg_id (last calls)) = Some (last calls)
    \<and> rg_id (last calls) \<notin> rg_id ` set calls3"
proof -
  have "calls \<noteq> []" and cleaning: "rg_status (last calls) = CLEANING" and r: "get_entry db1 (rg_id (last calls)) = Some (last calls)"
    using assms(1)
    by (auto simp: execute_cleanup_def plan_cleanup_def res_simps dest: cleanup_loop_killed access_error split: sum.splits)
  then have "frozen (last calls)"
    by (simp add: frozen_def)
  then show ?thesis
    using execute_cleanup_frozen[OF assms(3) registry_requests_frozen[OF assms(2) r]] cleaning \<open>calls \<noteq> []\<close> by simp
qed

section \<open>Examples\<close>

text \<open>The redaction keeps the token of an authorization header: the keyword takes the word \<open>Bearer\<close> as its value.\<close>

lemma registry_safe_error_authorization:
  "registry_safe_error ''Authorization: Bearer abc'' = ''Authorization=<redacted> abc''"
  by code_simp


definition sample_project_db :: project_db where
  "sample_project_db =
     \<lparr>pd_projects = [\<lparr>pj_id = 1, pj_name = ''shop'', pj_code = ''SHOP'', pj_description = None, pj_status = PROJECT_ACTIVE,
        pj_owner_id = ''root'', pj_archived_at = None, pj_archived_at_basis = None\<rparr>],
      pd_members = [], pd_users = [], pd_next_id = 2\<rparr>"

definition sample_user :: current_user where
  "sample_user = \<lparr>cu_id = ''root'', cu_roles = [''ADMIN'']\<rparr>"

definition sample_request :: "string \<Rightarrow> cleanup_policy \<Rightarrow> register_request" where
  "sample_request i policy = \<lparr>rq_project_id = 1, rq_run_id = ''run'', rq_resource_type = ''order'', rq_resource_id = i,
     rq_cleanup = \<lparr>cc_cleanup_type = CLEANUP_API, cc_policy = policy, cc_enabled = True, cc_connection_id = None,
       cc_auth_secret_id = None, cc_rest = JNull\<rparr>, rq_source = ''RUNTIME''\<rparr>"

definition sample_register :: "registry_db \<Rightarrow> register_request \<Rightarrow> registry_db" where
  "sample_register db payload =
     db\<lparr>gd_entries := gd_entries db @ [new_entry 5 db payload], gd_next_id := gd_next_id db + 1\<rparr>"

definition sample_registry :: registry_db where
  "sample_registry = sample_register (sample_register (sample_register (empty_registry sample_project_db)
     (sample_request ''a'' ALWAYS)) (sample_request ''b'' ON_FAILURE)) (sample_request ''c'' ON_SUCCESS)"

lemma sample_register_step: "registry_step db (sample_register db payload)"
  unfolding sample_register_def by (rule new_entry_step)

lemma sample_registry_reachable: "registry_step\<^sup>*\<^sup>* (empty_registry sample_project_db) sample_registry"
proof -
  have more: "registry_step\<^sup>*\<^sup>* db (sample_register db' payload)" if "registry_step\<^sup>*\<^sup>* db db'" for db db' payload
    using that sample_register_step by (rule rtranclp.rtrancl_into_rtrancl)
  show ?thesis
    unfolding sample_registry_def by (intro more rtranclp.rtrancl_refl)
qed

definition sample_cleanup :: "handler_outcome \<Rightarrow> cleanup_env" where
  "sample_cleanup out = \<lparr>cl_now = 9, cl_handler = Some (\<lambda>r. out), cl_execute_sql = (\<lambda>r. OtherException ''none'')\<rparr>"

definition sample_done :: handler_outcome where
  "sample_done = Reported \<lparr>xr_status = CLEANED, xr_message = None, xr_error_code = None\<rparr>"

lemma sample_may_write: "may_write sample_registry sample_user 1"
  by code_simp

theorem cleanup_is_last_in_first_out_witness:
  "case execute_cleanup (sample_cleanup sample_done) sample_registry sample_user 1 ''run'' OUTCOME_SUCCESS False of
     (res, db', calls) \<Rightarrow> map rg_resource_id calls = [''c'', ''a'']
       \<and> map rg_status (gd_entries db') = [CLEANED, CLEANUP_SKIPPED, CLEANED]"
proof -
  have "well_behaved (sample_cleanup sample_done)"
    by (simp add: well_behaved_def sample_cleanup_def sample_done_def run_handler_def call_handler_def)
  note exact = cleanup_is_last_in_first_out[OF sample_registry_reachable sample_may_write this,
      of "''run''" OUTCOME_SUCCESS False, THEN conjunct1]
  show ?thesis
    unfolding exact prod.case by code_simp
qed

definition sample_run :: "handler_outcome \<Rightarrow> registry_db \<Rightarrow> cleanup_outcome \<Rightarrow> cleanup_progress" where
  "sample_run out db outcome = execute_cleanup (sample_cleanup out) db sample_user 1 ''run'' outcome True"

theorem settled_resource_is_final_witness:
  "let db = fst (snd (sample_run sample_done sample_registry OUTCOME_SUCCESS));
       (res, db', calls) = sample_run sample_done db OUTCOME_FAILURE
   in (\<exists>r. get_entry db 2 = Some r \<and> rg_status r = CLEANUP_SKIPPED \<and> get_entry db' 2 = Some r) \<and> 2 \<notin> rg_id ` set calls"
proof -
  obtain res1 db calls1 where first: "sample_run sample_done sample_registry OUTCOME_SUCCESS = (res1, db, calls1)"
    by (rule prod_cases3)
  obtain res db' calls where second: "sample_run sample_done db OUTCOME_FAILURE = (res, db', calls)"
    by (rule prod_cases3)
  have "case get_entry (fst (snd (sample_run sample_done sample_registry OUTCOME_SUCCESS))) 2 of
      None \<Rightarrow> False | Some r \<Rightarrow> rg_status r = CLEANUP_SKIPPED"
    by code_simp
  then obtain r where r: "get_entry db 2 = Some r" "rg_status r = CLEANUP_SKIPPED"
    by (auto simp: first split: option.splits)
  have "registry_step\<^sup>*\<^sup>* (empty_registry sample_project_db) db"
    using sample_registry_reachable execute_cleanup_steps first by (fastforce simp: sample_run_def intro: rtranclp_trans)
  then show ?thesis
    using settled_resource_is_final[OF _ r(1) _ rtranclp.rtrancl_refl second[unfolded sample_run_def]] r
    by (simp add: first second)
qed

theorem interrupted_cleanup_is_never_resumed_witness:
  "let (res1, db1, calls1) = sample_run Killed sample_registry OUTCOME_SUCCESS;
       (res2, db2, calls2) = sample_run sample_done db1 OUTCOME_SUCCESS
   in res1 = Inl (InternalError ''killed'') \<and> rg_resource_id (last calls1) = ''c''
      \<and> get_entry db2 (rg_id (last calls1)) = Some (last calls1) \<and> rg_id (last calls1) \<notin> rg_id ` set calls2"
proof -
  obtain res1 db1 calls1 where first: "sample_run Killed sample_registry OUTCOME_SUCCESS = (res1, db1, calls1)"
    by (rule prod_cases3)
  obtain res2 db2 calls2 where second: "sample_run sample_done db1 OUTCOME_SUCCESS = (res2, db2, calls2)"
    by (rule prod_cases3)
  have "case sample_run Killed sample_registry OUTCOME_SUCCESS of
      (res, db, calls) \<Rightarrow> res = Inl (InternalError ''killed'') \<and> rg_resource_id (last calls) = ''c''"
    by code_simp
  then have res1: "res1 = Inl (InternalError ''killed'')" "rg_resource_id (last calls1) = ''c''"
    by (simp_all add: first)
  then show ?thesis
    using interrupted_cleanup_is_never_resumed[OF first[unfolded sample_run_def res1] rtranclp.rtrancl_refl
        second[unfolded sample_run_def]]
    by (simp add: first second)
qed

end
