(* ===== verification/Scenario_Actions.thy ===== *)
theory Scenario_Actions
  imports Assertion_Engine "HOL-Library.AList"
begin

text \<open>
  The nodes a Runner executes in a Scenario, one by one: \<open>runner/scenario.py\<close> without its control flow. Templates
  and conditions over the runtime context, and the actions behind the node types.

  An action reads and changes the \<open>runtime\<close>: the context, the latest response, the AI assertions put off, and the
  world outside. It ends with \<open>ScenarioRuntimeError\<close> or another exception, or returns. The HTTP client, the SQL
  driver, the script interpreter (modelled in \<open>Safe_Script\<close>), the clock and the stop event are fields of
  \<open>scenario_env\<close>. Clock readings are rational seconds. Messages of errors are given in English.
\<close>

section \<open>Nodes, errors and the runtime\<close>

datatype node_type =
    N_START | N_END | N_HTTP | N_IF | N_ELSE | N_LOOP | N_WAIT | N_SET_VARIABLE | N_EXTRACT | N_ASSERT_STATUS
  | N_ASSERT_JSONPATH | N_AI_ASSERTION | N_SQL_QUERY | N_SQL_EXECUTE | N_PYTHON_SCRIPT | N_API_CLEANUP
  | N_SQL_CLEANUP | N_OTHER string

datatype failure_policy = STOP | CONTINUE | RETRY_ONCE

type_synonym runtime_context = "(string \<times> json) list"

record scenario_node_plan =
  np_node_id :: string
  np_node_type :: node_type
  np_parent_id :: "string option"
  np_enabled :: bool
  np_timeout_ms :: int
  np_failure_policy :: "failure_policy option"
  np_config :: runtime_context

record runtime_error =
  re_error_type :: string
  re_message :: string
  re_retryable :: bool
  re_timeout :: bool
  re_total_timeout :: bool
  re_response :: "response_snapshot option"

definition scenario_runtime_error :: "string \<Rightarrow> string \<Rightarrow> runtime_error" where
  "scenario_runtime_error error_type message =
     \<lparr>re_error_type = take 100 error_type, re_message = take 500 message, re_retryable = False, re_timeout = False,
      re_total_timeout = False, re_response = None\<rparr>"

datatype raised = Scenario_Error runtime_error | Other_Exception

record 'w runtime =
  rt_context :: runtime_context
  rt_latest_response :: "response_snapshot option"
  rt_pending_ai :: "(string \<times> response_snapshot) list"
  rt_world :: 'w

type_synonym ('w, 'a) action = "'w runtime \<Rightarrow> (raised + 'a) \<times> 'w runtime"

text \<open>How the client ends a request, and how the interpreter ends a script.\<close>

datatype http_reply =
    Reply response_snapshot | Target_Timeout | Target_Failure | Execution_Failure "string option"
  | Request_Invalid | Client_Exception

datatype script_reply = Script_Done | Script_Budget_Exceeded | Script_Refused | Script_Exception

text \<open>How the sleep of a WAIT node and the work of an SQL node end badly: with an error of the given type, on the stop
  event, on the deadline, or with an exception that is not translated.\<close>

datatype failure = Failure string bool bool | Stop_Seen | Deadline_Passed | Crashed

record 'w scenario_env =
  se_clock :: "'w \<Rightarrow> rat \<times> 'w"
  se_stop_event :: "'w \<Rightarrow> bool \<times> 'w"
  se_deadline :: "rat option"
  se_str :: "json \<Rightarrow> string"
  se_loads :: "string \<Rightarrow> json option"
  se_http_request :: "scenario_node_plan \<Rightarrow> runtime_context \<Rightarrow> string + json"
  se_cleanup_request :: "scenario_node_plan \<Rightarrow> runtime_context \<Rightarrow> string + json"
  se_api_execute :: "json \<Rightarrow> 'w \<Rightarrow> http_reply \<times> 'w"
  se_sleep :: "int \<Rightarrow> 'w \<Rightarrow> (failure + unit) \<times> 'w"
  se_sql :: "scenario_node_plan \<Rightarrow> runtime_context \<Rightarrow> 'w \<Rightarrow> (failure + unit) \<times> runtime_context \<times> 'w"
  se_script :: "json \<Rightarrow> int \<Rightarrow> runtime_context \<Rightarrow> script_reply \<times> runtime_context"

definition act_return :: "'a \<Rightarrow> ('w, 'a) action" where
  "act_return x rt = (Inr x, rt)"

definition act_raise :: "runtime_error \<Rightarrow> ('w, 'a) action" where
  "act_raise e rt = (Inl (Scenario_Error e), rt)"

definition act_fail :: "string \<Rightarrow> string \<Rightarrow> ('w, 'a) action" where
  "act_fail error_type message = act_raise (scenario_runtime_error error_type message)"

definition act_then :: "('w, 'a) action \<Rightarrow> ('a \<Rightarrow> ('w, 'b) action) \<Rightarrow> ('w, 'b) action" where
  "act_then m f rt = (case m rt of (Inl e, rt') \<Rightarrow> (Inl e, rt') | (Inr x, rt') \<Rightarrow> f x rt')"

definition of_result :: "string \<Rightarrow> string + 'a \<Rightarrow> ('w, 'a) action" where
  "of_result message r = (case r of Inl t \<Rightarrow> act_fail t message | Inr x \<Rightarrow> act_return x)"

definition cfg_get :: "runtime_context \<Rightarrow> string \<Rightarrow> json" where
  "cfg_get config key = (case map_of config key of None \<Rightarrow> JNull | Some v \<Rightarrow> v)"

definition cfg_default :: "runtime_context \<Rightarrow> string \<Rightarrow> json \<Rightarrow> json" where
  "cfg_default config key d = (case map_of config key of None \<Rightarrow> d | Some v \<Rightarrow> v)"

section \<open>Clock and control\<close>

text \<open>Python's \<open>round\<close>, half to even.\<close>

definition py_round :: "rat \<Rightarrow> int" where
  "py_round q =
     (let f = \<lfloor>q\<rfloor>; r = q - of_int f in
      if r < 1 / 2 then f else if r > 1 / 2 then f + 1 else if even f then f else f + 1)"

definition max_trace_duration_ms :: int where
  "max_trace_duration_ms = 86400000"

definition read_clock :: "'w scenario_env \<Rightarrow> 'w runtime \<Rightarrow> rat \<times> 'w runtime" where
  "read_clock env rt = (let (t, w) = se_clock env (rt_world rt) in (t, rt\<lparr>rt_world := w\<rparr>))"

definition duration_since :: "'w scenario_env \<Rightarrow> rat \<Rightarrow> 'w runtime \<Rightarrow> int \<times> 'w runtime" where
  "duration_since env started rt =
     (let (t, rt') = read_clock env rt
      in (min max_trace_duration_ms (max 0 (py_round ((t - started) * 1000))), rt'))"

definition total_timeout_error :: runtime_error where
  "total_timeout_error =
     (scenario_runtime_error ''TOTAL_TIMEOUT'' ''scenario timed out'')\<lparr>re_timeout := True, re_total_timeout := True\<rparr>"

definition failure_error :: "failure \<Rightarrow> raised" where
  "failure_error f =
     (case f of
        Failure t retryable timeout \<Rightarrow>
          Scenario_Error ((scenario_runtime_error t ''node failed'')\<lparr>re_retryable := retryable, re_timeout := timeout\<rparr>)
      | Stop_Seen \<Rightarrow> Scenario_Error (scenario_runtime_error ''CANCEL_REQUESTED'' ''cancellation requested'')
      | Deadline_Passed \<Rightarrow> Scenario_Error total_timeout_error
      | Crashed \<Rightarrow> Other_Exception)"

definition check_deadline_only :: "'w scenario_env \<Rightarrow> ('w, unit) action" where
  "check_deadline_only env rt =
     (case se_deadline env of
        None \<Rightarrow> (Inr (), rt)
      | Some deadline \<Rightarrow>
          (let (t, rt') = read_clock env rt
           in if t \<ge> deadline then act_raise total_timeout_error rt' else (Inr (), rt')))"

definition check_stop :: "'w scenario_env \<Rightarrow> ('w, unit) action" where
  "check_stop env rt =
     (let (stopped, w) = se_stop_event env (rt_world rt); rt' = rt\<lparr>rt_world := w\<rparr> in
      if stopped then act_fail ''CANCEL_REQUESTED'' ''cancellation requested'' rt' else check_deadline_only env rt')"

section \<open>Templates\<close>

definition name_start :: "char \<Rightarrow> bool" where
  "name_start c \<longleftrightarrow> ascii_upper c \<or> ascii_lower c \<or> c = CHR ''_''"

definition name_char :: "char \<Rightarrow> bool" where
  "name_char c \<longleftrightarrow> name_start c \<or> ascii_digit c \<or> c = CHR ''.'' \<or> c = CHR ''-''"

definition variable_name :: "json \<Rightarrow> string option" where
  "variable_name v =
     (case v of
        JStr (c # cs) \<Rightarrow> if name_start c \<and> list_all name_char cs \<and> length cs \<le> 127 then Some (c # cs) else None
      | _ \<Rightarrow> None)"

text \<open>\<open>_TEMPLATE.match\<close> at the head of the text: the name and what follows the closing braces.\<close>

definition template_at :: "string \<Rightarrow> (string \<times> string) option" where
  "template_at s =
     (case s of
        a # b # c # cs \<Rightarrow>
          if a = CHR ''{'' \<and> b = CHR ''{'' \<and> name_start c \<and> take 2 (dropWhile name_char cs) = ''}}''
          then Some (c # takeWhile name_char cs, drop 2 (dropWhile name_char cs)) else None
      | _ \<Rightarrow> None)"

definition template_fullmatch :: "string \<Rightarrow> string option" where
  "template_fullmatch s = (case template_at s of Some (n, []) \<Rightarrow> Some n | _ \<Rightarrow> None)"

fun py_split :: "char \<Rightarrow> string \<Rightarrow> string list" where
  "py_split d [] = [[]]"
| "py_split d (c # cs) =
     (if c = d then [] # py_split d cs
      else (case py_split d cs of [] \<Rightarrow> [[c]] | p # ps \<Rightarrow> (c # p) # ps))"

fun lookup_parts :: "json \<Rightarrow> string list \<Rightarrow> json option" where
  "lookup_parts current [] = Some current"
| "lookup_parts current (p # ps) =
     (case current of
        JObj m \<Rightarrow> (case map_of m p of None \<Rightarrow> None | Some v \<Rightarrow> lookup_parts v ps)
      | _ \<Rightarrow> None)"

definition context_lookup :: "runtime_context \<Rightarrow> string \<Rightarrow> json option" where
  "context_lookup context name =
     (case map_of context name of Some v \<Rightarrow> Some v | None \<Rightarrow> lookup_parts (JObj context) (py_split CHR ''.'' name))"

lemma template_at_shorter:
  assumes "template_at s = Some (n, r)"
  shows "length r < length s"
  using assms by (auto simp: template_at_def split: list.splits if_splits
      intro!: le_less_trans[OF le_trans[OF diff_le_self length_dropWhile_le]])

text \<open>\<open>_TEMPLATE.sub\<close>. \<open>se_str\<close> writes a value: JSON for objects and lists, lower case for booleans.\<close>

function substitute :: "(json \<Rightarrow> string) \<Rightarrow> runtime_context \<Rightarrow> string \<Rightarrow> string option" where
  "substitute str context s =
     (case s of
        [] \<Rightarrow> Some []
      | c # cs \<Rightarrow>
          (case template_at s of
             Some (name, r) \<Rightarrow>
               (case (context_lookup context name, substitute str context r) of
                  (Some v, Some t) \<Rightarrow> Some (str v @ t)
                | _ \<Rightarrow> None)
           | None \<Rightarrow> map_option (\<lambda>t. c # t) (substitute str context cs)))"
  by pat_completeness auto
termination
  by (relation "measure (\<lambda>(f, c, s). length s)") (auto dest: template_at_shorter)

declare substitute.simps [simp del]

definition resolve_text :: "(json \<Rightarrow> string) \<Rightarrow> runtime_context \<Rightarrow> string \<Rightarrow> json option" where
  "resolve_text str context s =
     (case template_fullmatch s of
        Some name \<Rightarrow> context_lookup context name
      | None \<Rightarrow> map_option JStr (substitute str context s))"

fun resolve_value :: "(json \<Rightarrow> string) \<Rightarrow> runtime_context \<Rightarrow> json \<Rightarrow> json option" where
  "resolve_value str context (JObj m) =
     map_option JObj (those (map (\<lambda>(k, v). map_option (Pair k) (resolve_value str context v)) m))"
| "resolve_value str context (JList xs) = map_option JList (those (map (resolve_value str context) xs))"
| "resolve_value str context (JStr s) = resolve_text str context s"
| "resolve_value str context v = Some v"

definition resolve :: "'w scenario_env \<Rightarrow> json \<Rightarrow> ('w, json) action" where
  "resolve env v rt =
     (case resolve_value (se_str env) (rt_context rt) v of
        None \<Rightarrow> act_fail ''MISSING_RUNTIME_CONTEXT'' ''variable missing in the runtime context'' rt
      | Some r \<Rightarrow> (Inr r, rt))"

section \<open>Conditions\<close>

fun py_truthy :: "json \<Rightarrow> bool" where
  "py_truthy JNull = False"
| "py_truthy (JBool b) = b"
| "py_truthy (JInt n) = (n \<noteq> 0)"
| "py_truthy (JFloat q) = (q \<noteq> 0)"
| "py_truthy (JStr s) = (s \<noteq> [])"
| "py_truthy (JList xs) = (xs \<noteq> [])"
| "py_truthy (JObj m) = (m \<noteq> [])"

text \<open>\<open>_compare\<close>. The error of \<open>right in left\<close> is not caught, and the four orderings are all computed before the
  operator is looked up.\<close>

definition condition_compare :: "json \<Rightarrow> string \<Rightarrow> json \<Rightarrow> ('w, bool) action" where
  "condition_compare left operator right =
     (if operator = ''=='' then act_return (same_type left right \<and> py_eq left right)
      else if operator = ''!='' then act_return (\<not> (same_type left right \<and> py_eq left right))
      else if operator = ''contains'' then
        (case left of
           JStr _ \<Rightarrow> (case py_in right left of None \<Rightarrow> (\<lambda>rt. (Inl Other_Exception, rt)) | Some b \<Rightarrow> act_return b)
         | JList _ \<Rightarrow> (case py_in right left of None \<Rightarrow> (\<lambda>rt. (Inl Other_Exception, rt)) | Some b \<Rightarrow> act_return b)
         | JObj _ \<Rightarrow> (case py_in right left of None \<Rightarrow> (\<lambda>rt. (Inl Other_Exception, rt)) | Some b \<Rightarrow> act_return b)
         | _ \<Rightarrow> act_fail ''CONDITION_TYPE_ERROR'' ''contains is not supported on this type'')
      else if \<not> same_type left right \<or> same_type left (JBool True)
      then act_fail ''CONDITION_TYPE_ERROR'' ''types of the two sides differ''
      else
        (case (py_lt right left, py_le right left, py_lt left right, py_le left right) of
           (Some gt, Some ge, Some lt, Some le) \<Rightarrow>
             if operator = ''>'' then act_return gt else if operator = ''>='' then act_return ge
             else if operator = ''<'' then act_return lt else if operator = ''<='' then act_return le
             else act_fail ''CONDITION_CONFIG_INVALID'' ''unknown operator''
         | _ \<Rightarrow> act_fail ''CONDITION_TYPE_ERROR'' ''values cannot be compared''))"

text \<open>\<open>_CONDITION.fullmatch\<close> in the order in which the expression backtracks: as much leading space as possible, the
  left side as short as possible, the first operator in the list, the right side as short as possible.\<close>

fun first_some :: "('a \<Rightarrow> 'b option) \<Rightarrow> 'a list \<Rightarrow> 'b option" where
  "first_some f [] = None"
| "first_some f (x # xs) = (case f x of None \<Rightarrow> first_some f xs | Some y \<Rightarrow> Some y)"

definition condition_operators :: "string list" where
  "condition_operators = [''=='', ''!='', ''>='', ''<='', ''>'', ''<'', ''contains'']"

text \<open>\<open>\s*\<close>: the ways to drop leading space, greedy first; \<open>.+?\<close>: the ways to split, shortest first.\<close>

definition drop_space :: "string \<Rightarrow> string list" where
  "drop_space s = map (\<lambda>n. drop n s) (rev [0..<Suc (length (takeWhile py_space s))])"

definition lazy_splits :: "string \<Rightarrow> (string \<times> string) list" where
  "lazy_splits s = map (\<lambda>n. (take n s, drop n s)) [1..<Suc (length (takeWhile (\<lambda>c. c \<noteq> CHR 0x0A) s))]"

definition match_right :: "string \<Rightarrow> string option" where
  "match_right s =
     first_some (\<lambda>t. first_some (\<lambda>(r, u). if list_all py_space u then Some r else None) (lazy_splits t)) (drop_space s)"

definition match_operator :: "string \<Rightarrow> (string \<times> string) option" where
  "match_operator s =
     first_some (\<lambda>t. first_some (\<lambda>op. if take (length op) t = op
                                      then map_option (Pair op) (match_right (drop (length op) t)) else None)
                       condition_operators) (drop_space s)"

definition condition_fullmatch :: "string \<Rightarrow> (string \<times> string \<times> string) option" where
  "condition_fullmatch s =
     first_some (\<lambda>t. first_some (\<lambda>(l, u). map_option (Pair l) (match_operator u)) (lazy_splits t)) (drop_space s)"

definition strip_quotes :: "string \<Rightarrow> string" where
  "strip_quotes s = rev (dropWhile path_quote (rev (dropWhile path_quote s)))"

definition condition_literal :: "'w scenario_env \<Rightarrow> string \<Rightarrow> ('w, json) action" where
  "condition_literal env value =
     (let stripped = py_strip value in
      act_then (resolve env (JStr stripped)) (\<lambda>r.
      if r \<noteq> JStr stripped then act_return r
      else
        (case se_loads env stripped of
           Some v \<Rightarrow> act_return v
         | None \<Rightarrow> act_return (JStr (strip_quotes stripped)))))"

definition operator_text :: "'w scenario_env \<Rightarrow> runtime_context \<Rightarrow> string" where
  "operator_text env m = (case cfg_default m ''operator'' (JStr ''=='') of JStr s \<Rightarrow> s | v \<Rightarrow> se_str env v)"

definition condition :: "'w scenario_env \<Rightarrow> json \<Rightarrow> ('w, bool) action" where
  "condition env value =
     act_then (resolve env value) (\<lambda>resolved.
     case resolved of
       JBool b \<Rightarrow> act_return b
     | JObj m \<Rightarrow>
         act_then (resolve env (cfg_get m ''left'')) (\<lambda>l.
         act_then (resolve env (cfg_get m ''right'')) (\<lambda>r.
         condition_compare l (operator_text env m) r))
     | JStr s \<Rightarrow>
         (case condition_fullmatch s of
            None \<Rightarrow> act_return (s \<noteq> [])
          | Some (l, op, r) \<Rightarrow>
              act_then (condition_literal env l) (\<lambda>a.
              act_then (condition_literal env r) (\<lambda>b. condition_compare a op b)))
     | _ \<Rightarrow> act_return (py_truthy resolved))"

section \<open>Leaf actions\<close>

definition http_failure :: "http_reply \<Rightarrow> (runtime_error + response_snapshot) option" where
  "http_failure reply =
     (case reply of
        Reply r \<Rightarrow> Some (Inr r)
      | Target_Timeout \<Rightarrow>
          Some (Inl ((scenario_runtime_error ''TARGET_TIMEOUT'' ''target API request timed out'')
                     \<lparr>re_retryable := True, re_timeout := True\<rparr>))
      | Target_Failure \<Rightarrow>
          Some (Inl ((scenario_runtime_error ''TARGET_NETWORK_ERROR'' ''target API request failed'')
                     \<lparr>re_retryable := True\<rparr>))
      | Execution_Failure t \<Rightarrow>
          Some (Inl (scenario_runtime_error
                     (case t of None \<Rightarrow> ''HTTP_EXECUTION_ERROR'' | Some s \<Rightarrow> if s = [] then ''HTTP_EXECUTION_ERROR'' else s)
                     ''HTTP node failed''))
      | Request_Invalid \<Rightarrow> Some (Inl (scenario_runtime_error ''HTTP_CONFIG_INVALID'' ''HTTP node configuration invalid''))
      | Client_Exception \<Rightarrow> None)"

text \<open>A request sent through \<open>ApiExecutor\<close>; \<open>None\<close> is an exception that is not translated.\<close>

definition api_execute ::
  "'w scenario_env \<Rightarrow> (http_reply \<Rightarrow> (runtime_error + 'a) option) \<Rightarrow> json \<Rightarrow> ('w, 'a) action" where
  "api_execute env translate request rt =
     (let (reply, w) = se_api_execute env request (rt_world rt); rt' = rt\<lparr>rt_world := w\<rparr> in
      case translate reply of
        None \<Rightarrow> (Inl Other_Exception, rt')
      | Some (Inl e) \<Rightarrow> act_raise e rt'
      | Some (Inr x) \<Rightarrow> (Inr x, rt'))"

definition act_clock :: "'w scenario_env \<Rightarrow> ('w, rat) action" where
  "act_clock env rt = (let (t, rt') = read_clock env rt in (Inr t, rt'))"

definition act_duration :: "'w scenario_env \<Rightarrow> rat \<Rightarrow> ('w, int) action" where
  "act_duration env started rt = (let (d, rt') = duration_since env started rt in (Inr d, rt'))"

definition http_action :: "'w scenario_env \<Rightarrow> scenario_node_plan \<Rightarrow> ('w, unit) action" where
  "http_action env n rt0 =
     (let rt = rt0\<lparr>rt_latest_response := None\<rparr> in
      act_then (of_result ''HTTP node configuration invalid'' (se_http_request env n (rt_context rt))) (\<lambda>request.
      act_then (act_clock env) (\<lambda>started.
      act_then (api_execute env http_failure request) (\<lambda>result.
      act_then (\<lambda>rt. (Inr (), rt\<lparr>rt_latest_response := Some result\<rparr>)) (\<lambda>_.
      act_then (act_duration env started) (\<lambda>duration_ms.
      if duration_ms > np_timeout_ms n
      then act_raise ((scenario_runtime_error ''NODE_TIMEOUT'' ''HTTP node timed out'')
                      \<lparr>re_timeout := True, re_response := Some result\<rparr>)
      else if 500 \<le> rsn_status_code result \<and> rsn_status_code result \<le> 599
      then act_raise ((scenario_runtime_error ''HTTP_5XX'' ''target API answered 5xx'')
                      \<lparr>re_retryable := True, re_response := Some result\<rparr>)
      else act_return ()))))) rt)"

definition wait_action :: "'w scenario_env \<Rightarrow> scenario_node_plan \<Rightarrow> ('w, unit) action" where
  "wait_action env n rt =
     (case cfg_get (np_config n) ''duration_ms'' of
        JInt duration_ms \<Rightarrow>
          if \<not> (1 \<le> duration_ms \<and> duration_ms \<le> 600000)
          then act_fail ''WAIT_CONFIG_INVALID'' ''WAIT duration_ms invalid'' rt
          else if duration_ms > np_timeout_ms n
          then act_raise ((scenario_runtime_error ''WAIT_TIMEOUT'' ''WAIT longer than timeout_ms'')
                          \<lparr>re_retryable := True, re_timeout := True\<rparr>) rt
          else (let (r, w) = se_sleep env duration_ms (rt_world rt)
                in (map_sum failure_error id r, rt\<lparr>rt_world := w\<rparr>))
      | _ \<Rightarrow> act_fail ''WAIT_CONFIG_INVALID'' ''WAIT duration_ms invalid'' rt)"

definition put_variable :: "string \<Rightarrow> json \<Rightarrow> ('w, unit) action" where
  "put_variable name v rt = (Inr (), rt\<lparr>rt_context := AList.update name v (rt_context rt)\<rparr>)"

definition set_variable_action :: "'w scenario_env \<Rightarrow> scenario_node_plan \<Rightarrow> ('w, unit) action" where
  "set_variable_action env n =
     (case variable_name (cfg_get (np_config n) ''name'') of
        None \<Rightarrow> act_fail ''VARIABLE_NAME_INVALID'' ''SET_VARIABLE name invalid''
      | Some name \<Rightarrow> act_then (resolve env (cfg_get (np_config n) ''value'')) (put_variable name))"

definition response_value :: "string \<Rightarrow> string \<Rightarrow> response_snapshot \<Rightarrow> json option" where
  "response_value source expression r =
     (case (if source = ''JSONPATH'' then jsonpath_get (rsn_json_body r) expression
            else if source = ''HEADER'' then case_insensitive_get (rsn_headers r) expression
            else case_insensitive_get (rsn_cookies r) expression) of
        Inl _ \<Rightarrow> None
      | Inr v \<Rightarrow> Some v)"

text \<open>\<open>source not in {...}\<close> raises \<open>TypeError\<close> on a list or an object.\<close>

definition extract_action :: "scenario_node_plan \<Rightarrow> ('w, unit) action" where
  "extract_action n rt =
     (let config = np_config n; source = cfg_get config ''source'' in
      case variable_name (cfg_get config ''name'') of
        None \<Rightarrow> act_fail ''EXTRACT_CONFIG_INVALID'' ''EXTRACT configuration invalid'' rt
      | Some name \<Rightarrow>
          if \<not> hashable source then (Inl Other_Exception, rt)
          else
            (case (source, cfg_get config ''expression'', cfg_default config ''required'' (JBool True)) of
               (JStr src, JStr expression, JBool required) \<Rightarrow>
                 if src \<notin> set [''JSONPATH'', ''HEADER'', ''COOKIE''] \<or> expression = []
                 then act_fail ''EXTRACT_CONFIG_INVALID'' ''EXTRACT configuration invalid'' rt
                 else
                   (case rt_latest_response rt of
                      None \<Rightarrow> act_fail ''RESPONSE_VALUE_MISSING'' ''no response snapshot'' rt
                    | Some r \<Rightarrow>
                        (case response_value src expression r of
                           Some v \<Rightarrow> put_variable name v rt
                         | None \<Rightarrow>
                             if required then act_fail ''RESPONSE_VALUE_MISSING'' ''EXTRACT matched nothing'' rt
                             else put_variable name (cfg_get config ''default_value'') rt))
             | _ \<Rightarrow> act_fail ''EXTRACT_CONFIG_INVALID'' ''EXTRACT configuration invalid'' rt))"

definition assertion_passes :: "(json \<Rightarrow> string) \<Rightarrow> runtime_context \<Rightarrow> scenario_node_plan \<Rightarrow> response_snapshot \<Rightarrow> bool" where
  "assertion_passes str context n response =
     (if np_node_type n = N_ASSERT_STATUS then
        (case resolve_value str context (cfg_get (np_config n) ''expected'') of
           Some (JInt expected) \<Rightarrow> 100 \<le> expected \<and> expected \<le> 599 \<and> rsn_status_code response = expected
         | _ \<Rightarrow> False)
      else
        (case (resolve_value str context (cfg_get (np_config n) ''expression''),
               resolve_value str context (cfg_get (np_config n) ''expected'')) of
           (Some (JStr expression), Some expected) \<Rightarrow>
             take 1 expression = ''$''
             \<and> (case jsonpath_get (rsn_json_body response) expression of
                  Inl _ \<Rightarrow> False
                | Inr actual \<Rightarrow> same_type actual expected \<and> py_eq actual expected)
         | _ \<Rightarrow> False))"

definition assert_action :: "'w scenario_env \<Rightarrow> scenario_node_plan \<Rightarrow> ('w, unit) action" where
  "assert_action env n rt =
     (case rt_latest_response rt of
        None \<Rightarrow> act_fail ''ASSERTION_FAILED'' ''assertion failed'' rt
      | Some response \<Rightarrow>
          if assertion_passes (se_str env) (rt_context rt) n response then act_return () rt
          else act_fail ''ASSERTION_FAILED'' ''assertion failed'' rt)"

fun confidence_ok :: "json \<Rightarrow> bool" where
  "confidence_ok (JInt n) = (0 \<le> n \<and> n \<le> 1)"
| "confidence_ok (JFloat q) = (0 \<le> q \<and> q \<le> 1)"
| "confidence_ok _ = False"

definition ai_config_ok :: "runtime_context \<Rightarrow> bool" where
  "ai_config_ok config \<longleftrightarrow>
     fst ` set config \<subseteq> {''prompt_id'', ''criteria'', ''confidence_threshold''}
     \<and> (case cfg_get config ''prompt_id'' of JInt i \<Rightarrow> i > 0 | _ \<Rightarrow> False)
     \<and> (case cfg_get config ''criteria'' of JStr c \<Rightarrow> py_strip c \<noteq> [] \<and> length c \<le> 4000 | _ \<Rightarrow> False)
     \<and> confidence_ok (cfg_default config ''confidence_threshold'' (JFloat (4 / 5)))"

definition defer_ai_assertion :: "scenario_node_plan \<Rightarrow> ('w, unit) action" where
  "defer_ai_assertion n rt =
     (case rt_latest_response rt of
        None \<Rightarrow> act_fail ''RESPONSE_VALUE_MISSING'' ''AI assertion without response'' rt
      | Some response \<Rightarrow>
          if \<not> ai_config_ok (np_config n)
          then act_fail ''AI_ASSERTION_CONFIG_INVALID'' ''AI assertion configuration invalid'' rt
          else (Inr (), rt\<lparr>rt_pending_ai := rt_pending_ai rt @ [(np_node_id n, response)]\<rparr>))"

definition sql_action :: "'w scenario_env \<Rightarrow> scenario_node_plan \<Rightarrow> ('w, unit) action" where
  "sql_action env n rt =
     (let (r, c, w) = se_sql env n (rt_context rt) (rt_world rt)
      in (map_sum failure_error id r, rt\<lparr>rt_context := c, rt_world := w\<rparr>))"

definition script_action :: "'w scenario_env \<Rightarrow> scenario_node_plan \<Rightarrow> ('w, unit) action" where
  "script_action env n rt =
     (if \<not> fst ` set (np_config n) \<subseteq> {''script''}
      then act_fail ''PYTHON_SCRIPT_INVALID'' ''Python script configuration invalid'' rt
      else
        (let (reply, c) = se_script env (cfg_get (np_config n) ''script'')
                            (max 20 (min 500 (np_timeout_ms n div 10))) (rt_context rt);
             rt' = rt\<lparr>rt_context := c\<rparr>
         in case reply of
              Script_Done \<Rightarrow> check_stop env rt'
            | Script_Budget_Exceeded \<Rightarrow>
                act_raise ((scenario_runtime_error ''PYTHON_TIMEOUT'' ''script exceeds its budget'')\<lparr>re_timeout := True\<rparr>) rt'
            | Script_Refused \<Rightarrow> act_fail ''PYTHON_SCRIPT_INVALID'' ''script not allowed'' rt'
            | Script_Exception \<Rightarrow> act_fail ''PYTHON_RUNTIME_ERROR'' ''script failed'' rt'))"

definition leaf_action :: "'w scenario_env \<Rightarrow> scenario_node_plan \<Rightarrow> ('w, unit) action" where
  "leaf_action env n =
     (case np_node_type n of
        N_HTTP \<Rightarrow> http_action env n
      | N_WAIT \<Rightarrow> wait_action env n
      | N_SET_VARIABLE \<Rightarrow> set_variable_action env n
      | N_EXTRACT \<Rightarrow> extract_action n
      | N_ASSERT_STATUS \<Rightarrow> assert_action env n
      | N_ASSERT_JSONPATH \<Rightarrow> assert_action env n
      | N_AI_ASSERTION \<Rightarrow> defer_ai_assertion n
      | N_SQL_QUERY \<Rightarrow> sql_action env n
      | N_SQL_EXECUTE \<Rightarrow> sql_action env n
      | N_PYTHON_SCRIPT \<Rightarrow> script_action env n
      | _ \<Rightarrow> act_fail ''UNSUPPORTED_NODE'' ''node type not supported'')"

section \<open>Cleanup actions\<close>

definition cleanup_fields :: "string list" where
  "cleanup_fields =
     [''cleanup_id'', ''cleanup_type'', ''policy'', ''enabled'', ''timeout_ms'', ''method'', ''url'', ''query_params'',
      ''headers'', ''cookies'', ''body'', ''auth'', ''connection_id'', ''sql'', ''params'', ''resource_id_param'']"

definition checked_cleanup_config :: "scenario_node_plan \<Rightarrow> runtime_error + runtime_context" where
  "checked_cleanup_config n =
     (let config = np_config n; expected = JStr (if np_node_type n = N_API_CLEANUP then ''API'' else ''SQL'') in
      if \<not> fst ` set config \<subseteq> set cleanup_fields
      then Inl (scenario_runtime_error ''CLEANUP_CONFIG_INVALID'' ''cleanup configuration invalid'')
      else if cfg_default config ''cleanup_type'' expected \<noteq> expected
      then Inl (scenario_runtime_error ''CLEANUP_CONFIG_INVALID'' ''cleanup type invalid'')
      else
        (case cfg_default config ''timeout_ms'' (JInt (np_timeout_ms n)) of
           JInt t \<Rightarrow>
             if 100 \<le> t \<and> t \<le> 120000 \<and> t = np_timeout_ms n then Inr config
             else Inl (scenario_runtime_error ''CLEANUP_CONFIG_INVALID'' ''cleanup timeout invalid'')
         | _ \<Rightarrow> Inl (scenario_runtime_error ''CLEANUP_CONFIG_INVALID'' ''cleanup timeout invalid'')))"

definition cleanup_failure :: "http_reply \<Rightarrow> (runtime_error + unit) option" where
  "cleanup_failure reply =
     (case reply of
        Reply r \<Rightarrow>
          Some (if rsn_status_code r \<ge> 500
                then Inl ((scenario_runtime_error ''HTTP_5XX'' ''API cleanup answered with an error'')
                          \<lparr>re_retryable := True, re_response := Some r\<rparr>)
                else if rsn_status_code r \<ge> 400
                then Inl (scenario_runtime_error ''HTTP_CLEANUP_ERROR'' ''API cleanup answered with an error'')
                else Inr ())
      | Target_Timeout \<Rightarrow>
          Some (Inl ((scenario_runtime_error ''TARGET_TIMEOUT'' ''cleanup request timed out'')
                     \<lparr>re_retryable := True, re_timeout := True\<rparr>))
      | Target_Failure \<Rightarrow>
          Some (Inl ((scenario_runtime_error ''TARGET_NETWORK_ERROR'' ''cleanup request failed'')\<lparr>re_retryable := True\<rparr>))
      | Execution_Failure t \<Rightarrow>
          Some (Inl (scenario_runtime_error
                     (case t of None \<Rightarrow> ''HTTP_CLEANUP_ERROR'' | Some s \<Rightarrow> if s = [] then ''HTTP_CLEANUP_ERROR'' else s)
                     ''API cleanup failed''))
      | Request_Invalid \<Rightarrow> Some (Inl (scenario_runtime_error ''CLEANUP_CONFIG_INVALID'' ''API cleanup configuration invalid''))
      | Client_Exception \<Rightarrow> None)"

definition api_cleanup :: "'w scenario_env \<Rightarrow> scenario_node_plan \<Rightarrow> ('w, unit) action" where
  "api_cleanup env n rt =
     act_then (of_result ''API cleanup configuration invalid'' (se_cleanup_request env n (rt_context rt)))
       (api_execute env cleanup_failure) rt"

definition cleanup_action :: "'w scenario_env \<Rightarrow> scenario_node_plan \<Rightarrow> ('w, unit) action" where
  "cleanup_action env n =
     (if np_node_type n = N_API_CLEANUP then api_cleanup env n else sql_action env n)"

end
