(* ===== verification/Scenario_Executor.thy ===== *)
theory Scenario_Executor
  imports Scenario_Actions Run_Scenario
begin

text \<open>
  The control flow of a Scenario on the Runner: \<open>ScenarioExecutor\<close> of \<open>runner/scenario.py\<close>. Nodes are run in the
  order of the tree that their \<open>parent_id\<close> spans, every node leaves at most one trace, and the cleanup nodes run at
  the end in reverse order.

  The recursion over the tree carries fuel, and running out of it is \<open>None\<close>; the number of nodes is enough when
  their ids differ, which \<open>Scenario_Guarantees\<close> proves. \<open>iteration_path\<close>, which the code passes on and never reads,
  and \<open>defer_cleanup\<close>, which the Runner never sets, are left out.
\<close>

section \<open>Plan and state\<close>

record scenario_plan =
  sp_initial_context :: runtime_context
  sp_stop_on_failure :: bool
  sp_cleanup_policy :: string
  sp_max_loop_iterations :: int
  sp_nodes :: "scenario_node_plan list"

record 'w executor =
  ex_runtime :: "'w runtime"
  ex_traces :: "string \<rightharpoonup> exec_trace"
  ex_failed :: bool
  ex_cancelled :: bool
  ex_total_timeout :: bool
  ex_timed_out :: bool
  ex_stop_requested :: bool
  ex_last_error :: "runtime_error option"
  ex_running_cleanup :: bool
  ex_cleanup_finalized :: bool
  ex_cleanup_failed :: bool

definition initial_executor :: "scenario_plan \<Rightarrow> 'w \<Rightarrow> 'w executor" where
  "initial_executor p w =
     \<lparr>ex_runtime = \<lparr>rt_context = sp_initial_context p, rt_latest_response = None, rt_pending_ai = [], rt_world = w\<rparr>,
      ex_traces = Map.empty, ex_failed = False, ex_cancelled = False, ex_total_timeout = False, ex_timed_out = False,
      ex_stop_requested = False, ex_last_error = None, ex_running_cleanup = False, ex_cleanup_finalized = False,
      ex_cleanup_failed = False\<rparr>"

definition child_nodes :: "scenario_plan \<Rightarrow> string option \<Rightarrow> scenario_node_plan list" where
  "child_nodes p parent = filter (\<lambda>n. np_parent_id n = parent) (sp_nodes p)"

definition is_cleanup :: "scenario_node_plan \<Rightarrow> bool" where
  "is_cleanup n \<longleftrightarrow> np_node_type n = N_API_CLEANUP \<or> np_node_type n = N_SQL_CLEANUP"

definition cleanup_nodes :: "scenario_plan \<Rightarrow> scenario_node_plan list" where
  "cleanup_nodes p = filter is_cleanup (sp_nodes p)"

definition stopping :: "'w executor \<Rightarrow> bool" where
  "stopping st \<longleftrightarrow> ex_cancelled st \<or> ex_total_timeout st \<or> ex_stop_requested st"

type_synonym 'w progress = "((raised + unit) \<times> 'w executor) option"

definition on_runtime :: "('w, 'a) action \<Rightarrow> 'w executor \<Rightarrow> (raised + 'a) \<times> 'w executor" where
  "on_runtime a st = (let (r, rt) = a (ex_runtime st) in (r, st\<lparr>ex_runtime := rt\<rparr>))"

definition then_run :: "'w progress \<Rightarrow> ('w executor \<Rightarrow> 'w progress) \<Rightarrow> 'w progress" where
  "then_run m f = (case m of Some (Inr _, st) \<Rightarrow> f st | _ \<Rightarrow> m)"

definition completed :: "'w executor \<Rightarrow> 'w progress" where
  "completed st = Some (Inr (), st)"

section \<open>Traces\<close>

fun trace_severity :: "trace_status \<Rightarrow> nat" where
  "trace_severity TRACE_SUCCESS = 1"
| "trace_severity TRACE_SKIPPED = 1"
| "trace_severity TRACE_FAILED = 2"
| "trace_severity TRACE_TIMEOUT = 3"
| "trace_severity TRACE_CANCELLED = 4"
| "trace_severity _ = 0"

definition text_or :: "string option \<Rightarrow> string option \<Rightarrow> string option" where
  "text_or a b = (case a of None \<Rightarrow> b | Some s \<Rightarrow> if s = [] then b else a)"

definition merge_trace ::
  "string \<Rightarrow> trace_status \<Rightarrow> int \<Rightarrow> int \<Rightarrow> string option \<Rightarrow> string option \<Rightarrow> exec_trace option \<Rightarrow> exec_trace" where
  "merge_trace node_id status retry_count duration_ms error_type error_message previous =
     (let duration = min max_trace_duration_ms
                       (max 0 duration_ms + (case previous of None \<Rightarrow> 0 | Some t \<Rightarrow> et_duration_ms t));
          (retries, status', type', message') =
            (case previous of
               None \<Rightarrow> (retry_count, status, error_type, error_message)
             | Some t \<Rightarrow>
                 (let r = min 3 (retry_count + et_retry_count t) in
                  if trace_severity (et_status t) > trace_severity status
                  then (r, et_status t, et_error_type t, et_error_message t)
                  else if trace_severity (et_status t) = trace_severity status
                  then (r, status, text_or error_type (et_error_type t), text_or error_message (et_error_message t))
                  else (r, status, error_type, error_message)))
      in \<lparr>et_node_id = node_id, et_status = status', et_duration_ms = duration, et_retry_count = min 3 retries,
          et_error_type = type',
          et_error_message = (case message' of None \<Rightarrow> None | Some m \<Rightarrow> if m = [] then None else Some (take 500 m)),
          et_extra = JNull\<rparr>)"

definition record_trace ::
  "scenario_node_plan \<Rightarrow> trace_status \<Rightarrow> int \<Rightarrow> int \<Rightarrow> string option \<Rightarrow> string option \<Rightarrow> 'w executor \<Rightarrow> 'w executor" where
  "record_trace n status retry_count duration_ms error_type error_message st =
     (let i = np_node_id n in
      st\<lparr>ex_traces := (ex_traces st)
           (i \<mapsto> merge_trace i status retry_count duration_ms error_type error_message (ex_traces st i))\<rparr>)"

definition record_failure :: "scenario_node_plan \<Rightarrow> runtime_error \<Rightarrow> int \<Rightarrow> int \<Rightarrow> 'w executor \<Rightarrow> 'w executor" where
  "record_failure n e retry_count duration_ms =
     record_trace n (if re_timeout e then TRACE_TIMEOUT else TRACE_FAILED) retry_count duration_ms
       (Some (re_error_type e)) (Some (re_message e))"

definition record_skipped :: "scenario_node_plan \<Rightarrow> 'w executor \<Rightarrow> 'w executor" where
  "record_skipped n st =
     (if is_cleanup n \<and> \<not> ex_running_cleanup st \<and> \<not> ex_cleanup_finalized st then st
      else if ex_traces st (np_node_id n) = None then record_trace n TRACE_SKIPPED 0 0 None None st
      else st)"

text \<open>\<open>for x in xs: f(x)\<close> for a procedure that may not end.\<close>

fun each :: "('a \<Rightarrow> 's \<Rightarrow> 's option) \<Rightarrow> 'a list \<Rightarrow> 's \<Rightarrow> 's option" where
  "each f [] st = Some st"
| "each f (x # xs) st = (case f x st of None \<Rightarrow> None | Some st' \<Rightarrow> each f xs st')"

primrec skip_fuel :: "scenario_plan \<Rightarrow> nat \<Rightarrow> scenario_node_plan \<Rightarrow> 'w executor \<Rightarrow> 'w executor option" where
  "skip_fuel p 0 n st = None"
| "skip_fuel p (Suc k) n st =
     each (\<lambda>c st. skip_fuel p k c (record_skipped c st)) (child_nodes p (Some (np_node_id n))) st"

definition skip_descendants :: "scenario_plan \<Rightarrow> scenario_node_plan \<Rightarrow> 'w executor \<Rightarrow> 'w executor option" where
  "skip_descendants p = skip_fuel p (length (sp_nodes p))"

definition skip_node :: "scenario_plan \<Rightarrow> scenario_node_plan \<Rightarrow> 'w executor \<Rightarrow> 'w executor option" where
  "skip_node p n st = skip_descendants p n (record_skipped n st)"

definition siblings_after :: "string \<Rightarrow> scenario_node_plan list \<Rightarrow> scenario_node_plan list" where
  "siblings_after node_id siblings =
     filter (\<lambda>m. np_node_id m \<noteq> node_id) (dropWhile (\<lambda>m. np_node_id m \<noteq> node_id) siblings)"

definition skip_siblings :: "scenario_plan \<Rightarrow> string option \<Rightarrow> string \<Rightarrow> 'w executor \<Rightarrow> 'w executor option" where
  "skip_siblings p parent_id after_node_id =
     each (skip_node p) (siblings_after after_node_id (child_nodes p parent_id))"

definition fill_missing_traces :: "scenario_plan \<Rightarrow> 'w executor \<Rightarrow> 'w executor" where
  "fill_missing_traces p st = fold record_skipped (sp_nodes p) st"

definition ordered_traces :: "scenario_plan \<Rightarrow> 'w executor \<Rightarrow> exec_trace list" where
  "ordered_traces p st = List.map_filter (\<lambda>n. ex_traces st (np_node_id n)) (sp_nodes p)"

section \<open>Failure policy\<close>

definition node_policy :: "scenario_plan \<Rightarrow> scenario_node_plan \<Rightarrow> failure_policy" where
  "node_policy p n =
     (if np_failure_policy n = Some RETRY_ONCE then RETRY_ONCE
      else if sp_stop_on_failure p then STOP
      else (case np_failure_policy n of None \<Rightarrow> CONTINUE | Some f \<Rightarrow> f))"

definition is_cancel :: "runtime_error \<Rightarrow> bool" where
  "is_cancel e \<longleftrightarrow> re_error_type e = ''CANCEL_REQUESTED''"

definition should_stop :: "scenario_plan \<Rightarrow> scenario_node_plan \<Rightarrow> runtime_error \<Rightarrow> bool" where
  "should_stop p n e \<longleftrightarrow> re_total_timeout e \<or> is_cancel e \<or> node_policy p n \<noteq> CONTINUE"

section \<open>Leaf nodes\<close>

definition leaf_attempt :: "'w scenario_env \<Rightarrow> scenario_node_plan \<Rightarrow> rat \<Rightarrow> ('w, int) action" where
  "leaf_attempt env n started =
     act_then (check_stop env) (\<lambda>_.
     act_then (leaf_action env n) (\<lambda>_.
     act_then (act_duration env started) (\<lambda>duration_ms.
     act_then (check_stop env) (\<lambda>_.
     if duration_ms > np_timeout_ms n
     then act_raise ((scenario_runtime_error ''NODE_TIMEOUT'' ''node timed out'')\<lparr>re_timeout := True\<rparr>)
     else act_return duration_ms))))"

definition settle_failure ::
  "scenario_plan \<Rightarrow> scenario_node_plan \<Rightarrow> runtime_error \<Rightarrow> int \<Rightarrow> int \<Rightarrow> 'w executor \<Rightarrow> 'w progress" where
  "settle_failure p n e attempt total_ms st =
     (let st1 = (record_failure n e attempt total_ms (st\<lparr>ex_timed_out := ex_timed_out st \<or> re_timeout e\<rparr>))
                  \<lparr>ex_failed := True, ex_last_error := Some e\<rparr>
      in if should_stop p n e
         then map_option (Pair (Inr ())) (skip_siblings p (np_parent_id n) (np_node_id n) (st1\<lparr>ex_stop_requested := True\<rparr>))
         else completed st1)"

primrec leaf_attempts ::
  "'w scenario_env \<Rightarrow> scenario_plan \<Rightarrow> scenario_node_plan \<Rightarrow> nat \<Rightarrow> runtime_error option \<Rightarrow> int \<Rightarrow> int
     \<Rightarrow> 'w executor \<Rightarrow> 'w progress" where
  "leaf_attempts env p n 0 last_error attempt total_ms st =
     Some (case last_error of None \<Rightarrow> Inr () | Some e \<Rightarrow> Inl (Scenario_Error e), st)"
| "leaf_attempts env p n (Suc left) last_error attempt total_ms st =
     (let (started, rt0) = read_clock env (ex_runtime st);
          (result, rt1) = leaf_attempt env n started rt0
      in case result of
           Inr duration_ms \<Rightarrow>
             completed (record_trace n TRACE_SUCCESS attempt (min max_trace_duration_ms (total_ms + duration_ms)) None None
                     (st\<lparr>ex_runtime := rt1\<rparr>))
         | Inl Other_Exception \<Rightarrow> Some (Inl Other_Exception, st\<lparr>ex_runtime := rt1\<rparr>)
         | Inl (Scenario_Error e) \<Rightarrow>
             (let (duration_ms, rt2) = duration_since env started (rt1\<lparr>rt_context := rt_context rt0\<rparr>);
                  total_ms' = min max_trace_duration_ms (total_ms + duration_ms);
                  st' = st\<lparr>ex_runtime := rt2\<rparr>
              in if re_total_timeout e then
                   completed (record_failure n e attempt total_ms'
                           (st'\<lparr>ex_total_timeout := True, ex_failed := False, ex_stop_requested := True,
                                ex_last_error := Some e\<rparr>))
                 else if is_cancel e then
                   completed (record_failure n e attempt total_ms' (st'\<lparr>ex_cancelled := True, ex_stop_requested := True\<rparr>))
                 else if re_error_type e = ''HTTP_5XX'' \<and> re_response e \<noteq> None \<and> left = 0 then
                   completed (record_trace n TRACE_SUCCESS attempt total_ms' None None st')
                 else if left \<noteq> 0 \<and> re_retryable e then leaf_attempts env p n left (Some e) (attempt + 1) total_ms' st'
                 else settle_failure p n e attempt total_ms' st'))"

definition run_leaf :: "'w scenario_env \<Rightarrow> scenario_plan \<Rightarrow> scenario_node_plan \<Rightarrow> 'w executor \<Rightarrow> 'w progress" where
  "run_leaf env p n = leaf_attempts env p n (if node_policy p n = RETRY_ONCE then 2 else 1) None 0 0"

section \<open>Branches and loops\<close>

text \<open>The body of the recursion. \<open>rec\<close> runs a node one level deeper.\<close>

type_synonym 'w run_fun = "scenario_node_plan \<Rightarrow> 'w executor \<Rightarrow> 'w progress"

definition checked_run :: "'w scenario_env \<Rightarrow> 'w run_fun \<Rightarrow> 'w run_fun" where
  "checked_run env rec n st =
     (case on_runtime (check_stop env) st of
        (Inl e, st') \<Rightarrow> Some (Inl e, st')
      | (Inr _, st') \<Rightarrow> rec n st')"

definition run_skipped :: "scenario_plan \<Rightarrow> 'w run_fun" where
  "run_skipped p n st = map_option (Pair (Inr ())) (skip_node p n st)"

definition note_error :: "scenario_node_plan \<Rightarrow> runtime_error \<Rightarrow> 'w executor \<Rightarrow> 'w executor" where
  "note_error n e st =
     (let st1 = record_failure n e 0 0 st;
          st2 = (if re_total_timeout e then st1\<lparr>ex_total_timeout := True\<rparr>
                 else if is_cancel e then st1\<lparr>ex_cancelled := True\<rparr> else st1)
      in st2\<lparr>ex_last_error := Some e\<rparr>)"

fun run_children ::
  "'w scenario_env \<Rightarrow> scenario_plan \<Rightarrow> 'w run_fun \<Rightarrow> string option \<Rightarrow> scenario_node_plan list \<Rightarrow> 'w executor \<Rightarrow> 'w progress" where
  "run_children env p rec parent [] st = completed st"
| "run_children env p rec parent (n # ns) st =
     (if stopping st then then_run (run_skipped p n st) (run_children env p rec parent ns)
      else
        (case checked_run env rec n st of
           Some (Inl (Scenario_Error e), st1) \<Rightarrow>
             (let st2 = (note_error n e st1)\<lparr>ex_failed := ex_failed st1 \<or> \<not> re_total_timeout e\<rparr> in
              if should_stop p n e
              then map_option (Pair (Inr ())) (skip_siblings p parent (np_node_id n) (st2\<lparr>ex_stop_requested := True\<rparr>))
              else run_children env p rec parent ns st2)
         | r \<Rightarrow> then_run r (run_children env p rec parent ns)))"

definition run_children_one :: "'w scenario_env \<Rightarrow> scenario_plan \<Rightarrow> 'w run_fun \<Rightarrow> 'w run_fun" where
  "run_children_one env p rec n st =
     (if stopping st then run_skipped p n st
      else
        (case checked_run env rec n st of
           Some (Inl (Scenario_Error e), st1) \<Rightarrow>
             (let st2 = (note_error n e st1)
                          \<lparr>ex_failed := ex_failed st1 \<or> \<not> (re_total_timeout e \<or> is_cancel e)\<rparr> in
              if should_stop p n e
              then (case skip_siblings p (np_parent_id n) (np_node_id n) (st2\<lparr>ex_stop_requested := True\<rparr>) of
                      None \<Rightarrow> None
                    | Some st3 \<Rightarrow> map_option (Pair (Inr ())) (skip_descendants p n st3))
              else completed st2)
         | r \<Rightarrow> r))"

fun run_branches ::
  "'w scenario_env \<Rightarrow> scenario_plan \<Rightarrow> 'w run_fun \<Rightarrow> bool \<Rightarrow> scenario_node_plan list \<Rightarrow> 'w executor \<Rightarrow> 'w progress" where
  "run_branches env p rec matched [] st = completed st"
| "run_branches env p rec matched (c # cs) st =
     then_run (if (np_node_type c = N_ELSE) = matched then run_skipped p c st else run_children_one env p rec c st)
       (run_branches env p rec matched cs)"

definition run_if :: "'w scenario_env \<Rightarrow> scenario_plan \<Rightarrow> 'w run_fun \<Rightarrow> 'w run_fun" where
  "run_if env p rec n st =
     (case on_runtime (act_then (act_clock env) (\<lambda>started.
                       act_then (condition env (cfg_get (np_config n) ''condition'')) (\<lambda>matched.
                       act_then (act_duration env started) (\<lambda>duration_ms. act_return (matched, duration_ms))))) st of
        (Inl e, st') \<Rightarrow> Some (Inl e, st')
      | (Inr (matched, duration_ms), st') \<Rightarrow>
          run_branches env p rec matched (child_nodes p (Some (np_node_id n)))
            (record_trace n TRACE_SUCCESS 0 duration_ms None None st'))"

text \<open>The values of a loop and the names of its variables.\<close>

definition loop_values :: "'w scenario_env \<Rightarrow> scenario_plan \<Rightarrow> scenario_node_plan \<Rightarrow> ('w, json list) action" where
  "loop_values env p n =
     (let items = cfg_get (np_config n) ''items'' in
      if items = JNull then
        (case cfg_get (np_config n) ''iterations'' of
           JInt i \<Rightarrow>
             if i < 1 then act_fail ''LOOP_CONFIG_INVALID'' ''LOOP configuration invalid''
             else if i > sp_max_loop_iterations p then act_fail ''LOOP_LIMIT'' ''too many iterations''
             else act_return (map (JInt \<circ> int) [0..<nat i])
         | _ \<Rightarrow> act_fail ''LOOP_CONFIG_INVALID'' ''LOOP configuration invalid'')
      else
        act_then (resolve env items) (\<lambda>v.
        case v of
          JList xs \<Rightarrow>
            if int (length xs) > sp_max_loop_iterations p then act_fail ''LOOP_LIMIT'' ''too many items''
            else act_return xs
        | _ \<Rightarrow> act_fail ''LOOP_CONFIG_INVALID'' ''LOOP items must be a list''))"

definition loop_setup ::
  "'w scenario_env \<Rightarrow> scenario_plan \<Rightarrow> scenario_node_plan \<Rightarrow> ('w, rat \<times> json list \<times> string \<times> string) action" where
  "loop_setup env p n =
     act_then (act_clock env) (\<lambda>started.
     act_then (loop_values env p n) (\<lambda>values.
     case (variable_name (cfg_default (np_config n) ''item_variable'' (JStr ''loop_item'')),
           variable_name (cfg_default (np_config n) ''index_variable'' (JStr ''loop_index''))) of
       (Some item, Some index) \<Rightarrow> act_return (started, values, item, index)
     | _ \<Rightarrow> act_fail ''LOOP_CONFIG_INVALID'' ''LOOP variable name invalid''))"

text \<open>The children of one iteration; the loop ends at the first child after which the scenario is stopping.\<close>

fun iterate_children ::
  "'w scenario_env \<Rightarrow> scenario_plan \<Rightarrow> 'w run_fun \<Rightarrow> scenario_node_plan list \<Rightarrow> 'w executor
     \<Rightarrow> ((raised + bool) \<times> 'w executor) option" where
  "iterate_children env p rec [] st = Some (Inr False, st)"
| "iterate_children env p rec (c # cs) st =
     (case run_children_one env p rec c st of
        None \<Rightarrow> None
      | Some (Inl e, st') \<Rightarrow> Some (Inl e, st')
      | Some (Inr _, st') \<Rightarrow> if stopping st' then Some (Inr True, st') else iterate_children env p rec cs st')"

definition record_loop :: "'w scenario_env \<Rightarrow> scenario_node_plan \<Rightarrow> rat \<Rightarrow> 'w executor \<Rightarrow> 'w progress" where
  "record_loop env n started st =
     (let (duration_ms, rt) = duration_since env started (ex_runtime st)
      in completed (record_trace n TRACE_SUCCESS 0 duration_ms None None (st\<lparr>ex_runtime := rt\<rparr>)))"

definition next_iteration :: "'w scenario_env \<Rightarrow> string \<Rightarrow> string \<Rightarrow> int \<Rightarrow> json \<Rightarrow> ('w, unit) action" where
  "next_iteration env item index i v =
     act_then (check_stop env) (\<lambda>_. act_then (put_variable item v) (\<lambda>_. put_variable index (JInt i)))"

fun loop_iterations ::
  "'w scenario_env \<Rightarrow> scenario_plan \<Rightarrow> 'w run_fun \<Rightarrow> scenario_node_plan \<Rightarrow> rat \<Rightarrow> string \<Rightarrow> string \<Rightarrow> int \<Rightarrow> json list
     \<Rightarrow> 'w executor \<Rightarrow> 'w progress" where
  "loop_iterations env p rec n started item index i [] st = record_loop env n started st"
| "loop_iterations env p rec n started item index i (v # vs) st =
     (if stopping st then completed st
      else
        (case on_runtime (next_iteration env item index i v) st of
           (Inl e, st') \<Rightarrow> Some (Inl e, st')
         | (Inr _, st') \<Rightarrow>
             (case iterate_children env p rec (child_nodes p (Some (np_node_id n))) st' of
                None \<Rightarrow> None
              | Some (Inl e, st'') \<Rightarrow> Some (Inl e, st'')
              | Some (Inr True, st'') \<Rightarrow> record_loop env n started st''
              | Some (Inr False, st'') \<Rightarrow> loop_iterations env p rec n started item index (i + 1) vs st'')))"

definition run_loop :: "'w scenario_env \<Rightarrow> scenario_plan \<Rightarrow> 'w run_fun \<Rightarrow> 'w run_fun" where
  "run_loop env p rec n st =
     (case on_runtime (loop_setup env p n) st of
        (Inl e, st') \<Rightarrow> Some (Inl e, st')
      | (Inr (started, values, item, index), st') \<Rightarrow> loop_iterations env p rec n started item index 0 values st')"

section \<open>Nodes\<close>

definition record_now :: "'w scenario_env \<Rightarrow> scenario_node_plan \<Rightarrow> trace_status \<Rightarrow> 'w executor \<Rightarrow> 'w executor" where
  "record_now env n status st =
     (let (started, rt) = read_clock env (ex_runtime st); (duration_ms, rt') = duration_since env started rt
      in record_trace n status 0 duration_ms None None (st\<lparr>ex_runtime := rt'\<rparr>))"

definition node_body :: "'w scenario_env \<Rightarrow> scenario_plan \<Rightarrow> 'w run_fun \<Rightarrow> 'w run_fun" where
  "node_body env p rec n st =
     (if \<not> np_enabled n then
        map_option (Pair (Inr ())) (skip_descendants p n (record_trace n TRACE_SKIPPED 0 0 None None st))
      else if is_cleanup n \<and> \<not> ex_running_cleanup st then completed st
      else
        (case np_node_type n of
           N_OTHER _ \<Rightarrow> Some (Inl (Scenario_Error (scenario_runtime_error ''UNSUPPORTED_NODE'' ''node type not supported'')), st)
         | N_START \<Rightarrow> completed (record_now env n TRACE_SUCCESS st)
         | N_END \<Rightarrow> completed (record_now env n TRACE_SUCCESS st)
         | N_EXTRACT \<Rightarrow>
             if cfg_default (np_config n) ''enabled'' (JBool True) = JBool False
             then completed (record_now env n TRACE_SKIPPED st)
             else run_leaf env p n st
         | N_IF \<Rightarrow> run_if env p rec n st
         | N_ELSE \<Rightarrow>
             run_children env p rec (Some (np_node_id n)) (child_nodes p (Some (np_node_id n)))
               (record_now env n TRACE_SUCCESS st)
         | N_LOOP \<Rightarrow> run_loop env p rec n st
         | N_API_CLEANUP \<Rightarrow> Some (Inl (Scenario_Error (scenario_runtime_error ''UNSUPPORTED_NODE'' ''node type not supported'')), st)
         | N_SQL_CLEANUP \<Rightarrow> Some (Inl (Scenario_Error (scenario_runtime_error ''UNSUPPORTED_NODE'' ''node type not supported'')), st)
         | _ \<Rightarrow> run_leaf env p n st))"

primrec run_scenario_node :: "'w scenario_env \<Rightarrow> scenario_plan \<Rightarrow> nat \<Rightarrow> 'w run_fun" where
  "run_scenario_node env p 0 n st = None"
| "run_scenario_node env p (Suc k) n st = node_body env p (run_scenario_node env p k) n st"

section \<open>Cleanup\<close>

definition primary_outcome :: "'w executor \<Rightarrow> string" where
  "primary_outcome st =
     (if ex_cancelled st then ''CANCELLED''
      else if ex_total_timeout st \<or> ex_timed_out st then ''TIMEOUT''
      else if ex_failed st then ''FAILURE'' else ''SUCCESS'')"

definition scenario_policy_matches :: "string \<Rightarrow> string \<Rightarrow> bool" where
  "scenario_policy_matches policy outcome \<longleftrightarrow>
     policy = ''ALWAYS'' \<or> (policy = ''ON_SUCCESS'' \<and> outcome = ''SUCCESS'')
     \<or> (policy = ''ON_FAILURE'' \<and> outcome \<in> {''FAILURE'', ''CANCELLED'', ''TIMEOUT''})"

definition cleanup_policies :: "string list" where
  "cleanup_policies = [''ALWAYS'', ''ON_SUCCESS'', ''ON_FAILURE'', ''NEVER'']"

definition cleanup_attempt :: "'w scenario_env \<Rightarrow> scenario_node_plan \<Rightarrow> rat \<Rightarrow> ('w, int) action" where
  "cleanup_attempt env n started =
     act_then (check_deadline_only env) (\<lambda>_.
     act_then (cleanup_action env n) (\<lambda>_.
     act_then (check_deadline_only env) (\<lambda>_.
     act_then (act_duration env started) (\<lambda>duration_ms.
     if duration_ms > np_timeout_ms n
     then act_raise ((scenario_runtime_error ''CLEANUP_NODE_TIMEOUT'' ''cleanup node timed out'')\<lparr>re_timeout := True\<rparr>)
     else act_return duration_ms))))"

primrec cleanup_attempts ::
  "'w scenario_env \<Rightarrow> scenario_node_plan \<Rightarrow> nat \<Rightarrow> int \<Rightarrow> int \<Rightarrow> 'w executor \<Rightarrow> (raised + unit) \<times> 'w executor" where
  "cleanup_attempts env n 0 attempt total_ms st = (Inr (), st)"
| "cleanup_attempts env n (Suc left) attempt total_ms st =
     (let (started, rt0) = read_clock env (ex_runtime st);
          (result, rt1) = cleanup_attempt env n started rt0
      in case result of
           Inr duration_ms \<Rightarrow>
             (Inr (), record_trace n TRACE_SUCCESS attempt (min max_trace_duration_ms (total_ms + duration_ms)) None None
                        (st\<lparr>ex_runtime := rt1\<rparr>))
         | Inl Other_Exception \<Rightarrow> (Inl Other_Exception, st\<lparr>ex_runtime := rt1\<rparr>)
         | Inl (Scenario_Error e) \<Rightarrow>
             (let (duration_ms, rt2) = duration_since env started rt1;
                  total_ms' = min max_trace_duration_ms (total_ms + duration_ms);
                  st' = st\<lparr>ex_runtime := rt2, ex_total_timeout := ex_total_timeout st \<or> re_total_timeout e,
                           ex_timed_out := ex_timed_out st \<or> re_timeout e\<rparr>
              in if left \<noteq> 0 \<and> re_retryable e \<and> \<not> re_total_timeout e
                 then cleanup_attempts env n left (attempt + 1) total_ms' st'
                 else (Inr (), (record_failure n e attempt total_ms' st')
                                 \<lparr>ex_cleanup_failed := True, ex_last_error := Some e\<rparr>)))"

text \<open>The node's own \<open>enabled\<close> is not looked at, only the one of its configuration.\<close>

definition run_cleanup_node ::
  "'w scenario_env \<Rightarrow> scenario_plan \<Rightarrow> string \<Rightarrow> scenario_node_plan \<Rightarrow> 'w executor \<Rightarrow> (raised + unit) \<times> 'w executor" where
  "run_cleanup_node env p outcome n st =
     (case checked_cleanup_config n of
        Inl e \<Rightarrow> (Inl (Scenario_Error e), st)
      | Inr config \<Rightarrow>
          (let policy = cfg_default config ''policy'' (JStr (sp_cleanup_policy p)) in
           case cfg_default config ''enabled'' (JBool True) of
             JBool enabled \<Rightarrow>
               if \<not> hashable policy then (Inl Other_Exception, st)
               else
                 (case policy of
                    JStr s \<Rightarrow>
                      if s \<notin> set cleanup_policies
                      then (Inl (Scenario_Error (scenario_runtime_error ''CLEANUP_CONFIG_INVALID'' ''cleanup configuration invalid'')), st)
                      else if \<not> enabled \<or> \<not> scenario_policy_matches s outcome
                      then (Inr (), record_trace n TRACE_SKIPPED 0 0 None None st)
                      else cleanup_attempts env n (if np_failure_policy n = Some RETRY_ONCE then 2 else 1) 0 0 st
                  | _ \<Rightarrow> (Inl (Scenario_Error (scenario_runtime_error ''CLEANUP_CONFIG_INVALID'' ''cleanup configuration invalid'')), st))
           | _ \<Rightarrow> (Inl (Scenario_Error (scenario_runtime_error ''CLEANUP_CONFIG_INVALID'' ''cleanup configuration invalid'')), st)))"

definition cleanup_execution_error :: runtime_error where
  "cleanup_execution_error = scenario_runtime_error ''CLEANUP_EXECUTION_ERROR'' ''cleanup failed''"

definition note_cleanup_error :: "scenario_node_plan \<Rightarrow> runtime_error \<Rightarrow> 'w executor \<Rightarrow> 'w executor" where
  "note_cleanup_error n e st =
     (record_failure n e 0 0 st)\<lparr>ex_cleanup_failed := True, ex_last_error := Some e,
                                 ex_total_timeout := ex_total_timeout st \<or> re_total_timeout e\<rparr>"

fun run_cleanup_nodes ::
  "'w scenario_env \<Rightarrow> scenario_plan \<Rightarrow> string \<Rightarrow> scenario_node_plan list \<Rightarrow> 'w executor \<Rightarrow> 'w executor" where
  "run_cleanup_nodes env p outcome [] st = st"
| "run_cleanup_nodes env p outcome (n # ns) st =
     (let st' = (case run_cleanup_node env p outcome n st of
                   (Inr _, st1) \<Rightarrow> st1
                 | (Inl (Scenario_Error e), st1) \<Rightarrow> note_cleanup_error n e st1
                 | (Inl Other_Exception, st1) \<Rightarrow> note_cleanup_error n cleanup_execution_error st1)
      in if ex_total_timeout st' then st' else run_cleanup_nodes env p outcome ns st')"

definition run_cleanups :: "'w scenario_env \<Rightarrow> scenario_plan \<Rightarrow> 'w executor \<Rightarrow> 'w executor" where
  "run_cleanups env p st =
     (if cleanup_nodes p = [] then st\<lparr>ex_cleanup_finalized := True\<rparr>
      else (run_cleanup_nodes env p (primary_outcome st) (rev (cleanup_nodes p)) (st\<lparr>ex_running_cleanup := True\<rparr>))
             \<lparr>ex_running_cleanup := False, ex_cleanup_finalized := True\<rparr>)"

section \<open>The whole execution\<close>

record scenario_result =
  sr_outcome :: exec_outcome
  sr_traces :: "exec_trace list"
  sr_error_type :: "string option"
  sr_error_message :: "string option"
  sr_pending_ai :: "(string \<times> response_snapshot) list"
  sr_cleanup_context :: "runtime_context option"

definition failure_result :: "exec_outcome \<Rightarrow> string \<Rightarrow> string \<Rightarrow> scenario_plan \<Rightarrow> 'w executor \<Rightarrow> scenario_result" where
  "failure_result outcome error_type message p st =
     \<lparr>sr_outcome = outcome, sr_traces = ordered_traces p st, sr_error_type = Some error_type,
      sr_error_message = Some message, sr_pending_ai = [], sr_cleanup_context = None\<rparr>"

definition last_error_type :: "string \<Rightarrow> 'w executor \<Rightarrow> string" where
  "last_error_type d st = (case ex_last_error st of None \<Rightarrow> d | Some e \<Rightarrow> re_error_type e)"

definition scenario_execution_result :: "scenario_plan \<Rightarrow> 'w executor \<Rightarrow> scenario_result" where
  "scenario_execution_result p st =
     (if ex_cancelled st then failure_result EXEC_CANCELLED ''CANCEL_REQUESTED'' ''cancellation requested'' p st
      else if ex_total_timeout st then failure_result EXEC_TIMEOUT ''SCENARIO_TIMEOUT'' ''scenario timed out'' p st
      else if ex_timed_out st
      then failure_result EXEC_TIMEOUT (last_error_type ''SCENARIO_TIMEOUT'' st) ''scenario node timed out'' p st
      else if ex_failed st \<or> ex_cleanup_failed st
      then failure_result EXEC_FAILED (last_error_type ''SCENARIO_EXECUTION_FAILED'' st) ''scenario node failed'' p st
      else
        (let pending = rt_pending_ai (ex_runtime st) in
         \<lparr>sr_outcome = EXEC_SUCCESS, sr_traces = ordered_traces p st, sr_error_type = None, sr_error_message = None,
          sr_pending_ai = pending,
          sr_cleanup_context = (if pending \<noteq> [] then Some (rt_context (ex_runtime st)) else None)\<rparr>))"

text \<open>The result is \<open>None\<close> when another exception leaves \<open>execute\<close>; its \<open>finally\<close> has been run by then.\<close>

definition finalize :: "'w scenario_env \<Rightarrow> scenario_plan \<Rightarrow> 'w executor \<Rightarrow> 'w executor" where
  "finalize env p st =
     fill_missing_traces p (if rt_pending_ai (ex_runtime st) = [] then run_cleanups env p st else st)"

definition returned :: "scenario_plan \<Rightarrow> 'w executor \<Rightarrow> scenario_result option \<times> 'w executor" where
  "returned p st = (Some (scenario_execution_result p st), st)"

definition execute_scenario ::
  "'w scenario_env \<Rightarrow> scenario_plan \<Rightarrow> 'w \<Rightarrow> (scenario_result option \<times> 'w executor) option" where
  "execute_scenario env p w =
     (case run_children env p (run_scenario_node env p (length (sp_nodes p))) None (child_nodes p None) (initial_executor p w) of
        None \<Rightarrow> None
      | Some (Inr _, st) \<Rightarrow> Some (returned p (finalize env p st))
      | Some (Inl (Scenario_Error e), st) \<Rightarrow>
          Some (returned p (finalize env p (record_failure (hd (sp_nodes p)) e 0 0 st)))
      | Some (Inl Other_Exception, st) \<Rightarrow> Some (None, finalize env p st))"

text \<open>\<open>execute_cleanup_task\<close>: the cleanup put off until the AI assertions are evaluated. No exception of a node is
  caught.\<close>

fun cleanup_task_loop ::
  "'w scenario_env \<Rightarrow> scenario_plan \<Rightarrow> string \<Rightarrow> scenario_node_plan list \<Rightarrow> 'w executor \<Rightarrow> 'w executor option" where
  "cleanup_task_loop env p outcome [] st = Some st"
| "cleanup_task_loop env p outcome (n # ns) st =
     (case run_cleanup_node env p outcome n st of
        (Inr _, st') \<Rightarrow> cleanup_task_loop env p outcome ns st'
      | (Inl _, _) \<Rightarrow> None)"

record cleanup_result =
  cl_outcome :: exec_outcome
  cl_traces :: "exec_trace list"
  cl_error_type :: "string option"

definition execute_cleanup_task ::
  "'w scenario_env \<Rightarrow> scenario_plan \<Rightarrow> runtime_context \<Rightarrow> string \<Rightarrow> 'w \<Rightarrow> cleanup_result option" where
  "execute_cleanup_task env p context outcome w =
     (let st = (initial_executor p w)
                 \<lparr>ex_runtime := \<lparr>rt_context = context, rt_latest_response = None, rt_pending_ai = [], rt_world = w\<rparr>,
                  ex_running_cleanup := True\<rparr> in
      if outcome \<notin> {''SUCCESS'', ''FAILURE''} then None
      else
        map_option (\<lambda>st'.
          \<lparr>cl_outcome = (if ex_cleanup_failed st' then EXEC_FAILED else EXEC_SUCCESS),
           cl_traces = List.map_filter (\<lambda>n. ex_traces st' (np_node_id n)) (cleanup_nodes p),
           cl_error_type = map_option re_error_type (ex_last_error st')\<rparr>)
          (cleanup_task_loop env p outcome (rev (cleanup_nodes p)) st))"

end
