(* ===== verification/Scenario_Flow.thy ===== *)
theory Scenario_Flow
  imports Scenario_Executor
begin

text \<open>
  What holds along every execution of a Scenario. The recursion over the nodes ends when the node ids differ. The
  locales \<open>error_class\<close>, \<open>executor_invariant\<close> and \<open>cleanup_invariant\<close> carry the case analysis over the code once:
  a class of errors closed under the actions, and a property of the executor kept by its elementary updates.
\<close>

section \<open>Depth of a node\<close>

primrec at_depth :: "scenario_plan \<Rightarrow> nat \<Rightarrow> scenario_node_plan \<Rightarrow> bool" where
  "at_depth p 0 n \<longleftrightarrow> n \<in> set (sp_nodes p) \<and> np_parent_id n = None"
| "at_depth p (Suc d) n \<longleftrightarrow>
     n \<in> set (sp_nodes p) \<and> (\<exists>m. at_depth p d m \<and> np_parent_id n = Some (np_node_id m))"

definition unique_ids :: "scenario_plan \<Rightarrow> bool" where
  "unique_ids p \<longleftrightarrow> distinct (map np_node_id (sp_nodes p))"

lemma at_depth_node: "at_depth p d n \<Longrightarrow> n \<in> set (sp_nodes p)"
  by (cases d) auto

lemma at_depth_unique:
  assumes "unique_ids p" "at_depth p d n" "at_depth p e n"
  shows "d = e"
  using assms(2,3)
proof (induction d arbitrary: e n)
  case 0
  then show ?case by (cases e) auto
next
  case (Suc d)
  then obtain m where m: "at_depth p d m" "np_parent_id n = Some (np_node_id m)" by auto
  then obtain e' m' where e: "e = Suc e'" "at_depth p e' m'" "np_node_id m' = np_node_id m"
    using Suc.prems(2) by (cases e) auto
  have "m' = m"
    using assms(1) e(3) at_depth_node[OF m(1)] at_depth_node[OF e(2)]
    by (auto simp: unique_ids_def distinct_map dest: inj_onD)
  then show ?case using Suc.IH[OF m(1)] e by auto
qed

lemma at_depth_above: "at_depth p d n \<Longrightarrow> j \<le> d \<Longrightarrow> \<exists>m. at_depth p j m"
proof (induction d arbitrary: n)
  case (Suc d)
  then show ?case by (cases "j = Suc d") (auto simp: le_Suc_eq)
qed auto

lemma at_depth_bound:
  assumes ids: "unique_ids p" and d: "at_depth p d n"
  shows "d < length (sp_nodes p)"
proof -
  define f where "f = (\<lambda>j. SOME m. at_depth p j m)"
  have f: "at_depth p j (f j)" if "j \<le> d" for j
    unfolding f_def using at_depth_above[OF d that] by (rule someI_ex)
  have "inj_on f {..d}" by (rule inj_onI) (metis atMost_iff at_depth_unique[OF ids] f)
  then have "card {..d} \<le> card (set (sp_nodes p))"
    by (rule card_inj_on_le) (auto intro: at_depth_node f)
  then show ?thesis using card_length[of "sp_nodes p"] by simp
qed

lemma child_nodes_depth:
  "at_depth p d n \<Longrightarrow> c \<in> set (child_nodes p (Some (np_node_id n))) \<Longrightarrow> at_depth p (Suc d) c"
  by (auto simp: child_nodes_def)

lemma root_depth: "c \<in> set (child_nodes p None) \<Longrightarrow> at_depth p 0 c"
  by (simp add: child_nodes_def)

lemma sibling_depth: "at_depth p d n \<Longrightarrow> c \<in> set (child_nodes p (np_parent_id n)) \<Longrightarrow> at_depth p d c"
  by (cases d) (auto simp: child_nodes_def)

lemma siblings_after_subset: "set (siblings_after i ns) \<subseteq> set ns"
  by (auto simp: siblings_after_def dest: set_dropWhileD)

section \<open>Termination\<close>

text \<open>\<open>ends f\<close>: the procedure returns or raises, whatever the state.\<close>

definition ends :: "('w executor \<Rightarrow> 'a option) \<Rightarrow> bool" where
  "ends f \<longleftrightarrow> (\<forall>st. \<exists>r. f st = Some r)"

lemma ends_each: "(\<And>x. x \<in> set xs \<Longrightarrow> ends (f x)) \<Longrightarrow> ends (each f xs)"
proof (induction xs)
  case (Cons x xs)
  have "ends (f x)" "ends (each f xs)" using Cons by auto
  then show ?case unfolding ends_def by (metis each.simps(2) option.simps(5))
qed (simp add: ends_def)

lemma ends_comp: "ends f \<Longrightarrow> ends (\<lambda>st. f (g st))"
  by (simp add: ends_def)

lemma endsE:
  assumes "ends f"
  obtains g where "\<And>st. f st = Some (g st)"
  using assms choice[of "\<lambda>st r. f st = Some r"] by (auto simp: ends_def)

lemma ends_map_option: "ends f \<Longrightarrow> \<exists>r. map_option g (f st) = Some r"
  by (auto simp: ends_def)

lemma ends_then: "m = Some r \<Longrightarrow> ends f \<Longrightarrow> \<exists>r. then_run m f = Some r"
  by (cases r; cases "fst r") (auto simp: then_run_def ends_def)

lemma skip_fuel_ends:
  assumes ids: "unique_ids p"
  shows "at_depth p d n \<Longrightarrow> length (sp_nodes p) \<le> d + k \<Longrightarrow> ends (skip_fuel p k n :: 'w executor \<Rightarrow> _)"
proof (induction k arbitrary: d n)
  case 0
  then show ?case using at_depth_bound[OF ids] by fastforce
next
  case (Suc k)
  have "ends (each (\<lambda>c st. skip_fuel p k c (record_skipped c st) :: 'w executor option)
      (child_nodes p (Some (np_node_id n))))"
  proof (rule ends_each, rule ends_comp)
    fix c assume "c \<in> set (child_nodes p (Some (np_node_id n)))"
    then show "ends (skip_fuel p k c :: 'w executor \<Rightarrow> _)"
      using Suc.IH[OF child_nodes_depth[OF Suc.prems(1)]] Suc.prems(2) by simp
  qed
  then show ?case by (simp add: ends_def)
qed

lemma skip_descendants_ends: "unique_ids p \<Longrightarrow> at_depth p d n \<Longrightarrow> ends (skip_descendants p n)"
  unfolding skip_descendants_def by (rule skip_fuel_ends) simp_all

lemma skip_node_ends: "unique_ids p \<Longrightarrow> at_depth p d n \<Longrightarrow> ends (skip_node p n)"
  unfolding skip_node_def by (rule ends_comp[OF skip_descendants_ends])

lemma skip_siblings_ends:
  assumes "unique_ids p" "at_depth p d n"
  shows "ends (skip_siblings p (np_parent_id n) i)"
  unfolding skip_siblings_def
  using siblings_after_subset sibling_depth[OF assms(2)]
  by (intro ends_each skip_node_ends[OF assms(1)]) blast

lemma settle_failure_ends:
  fixes st :: "'w executor"
  assumes "unique_ids p" "at_depth p d n"
  shows "\<exists>r. settle_failure p n e a t st = Some r"
proof -
  obtain g where "\<And>st :: 'w executor. skip_siblings p (np_parent_id n) (np_node_id n) st = Some (g st)"
    using skip_siblings_ends[OF assms] by (rule endsE) (rule that)
  then show ?thesis by (simp add: settle_failure_def completed_def Let_def)
qed

lemma leaf_attempts_ends:
  assumes "unique_ids p" "at_depth p d n"
  shows "ends (leaf_attempts env p n k l a t)"
proof (induction k arbitrary: l a t)
  case (Suc k)
  have "\<exists>r. leaf_attempts env p n (Suc k) l a t st = Some r" for st
    using settle_failure_ends[OF assms] Suc.IH
    by (auto simp: completed_def Let_def ends_def split: prod.split sum.split raised.split)
  then show ?case by (simp add: ends_def)
qed (simp add: ends_def)

text \<open>The body of the recursion ends if \<open>rec\<close> ends on every node one level deeper.\<close>

lemma checked_run_ends: "ends (rec n) \<Longrightarrow> ends (checked_run env rec n)"
  by (simp add: ends_def checked_run_def split: prod.split sum.split)

lemma skipped_ends:
  assumes "unique_ids p" "at_depth p d n"
  shows "ends (run_skipped p n)"
  using skip_node_ends[OF assms] by (auto simp: ends_def run_skipped_def)

lemma run_children_one_ends:
  fixes rec :: "'w run_fun"
  assumes "unique_ids p" "at_depth p d n" "ends (rec n)"
  shows "ends (run_children_one env p rec n)"
proof -
  obtain g where g: "\<And>st. checked_run env rec n st = Some (g st)"
    using checked_run_ends[of rec n env, OF assms(3)] by (rule endsE) (rule that)
  obtain h where h: "\<And>st :: 'w executor. skip_siblings p (np_parent_id n) (np_node_id n) st = Some (h st)"
    using skip_siblings_ends[OF assms(1,2)] by (rule endsE) (rule that)
  obtain i where i: "\<And>st :: 'w executor. skip_descendants p n st = Some (i st)"
    using skip_descendants_ends[OF assms(1,2)] by (rule endsE) (rule that)
  obtain j where j: "\<And>st :: 'w executor. run_skipped p n st = Some (j st)"
    using skipped_ends[OF assms(1,2)] by (rule endsE) (rule that)
  show ?thesis
    by (simp add: ends_def run_children_one_def g h i j completed_def Let_def split: sum.split raised.split prod.split)
qed

lemma run_children_ends:
  fixes rec :: "'w run_fun"
  assumes ids: "unique_ids p"
    and "\<And>n. n \<in> set ns \<Longrightarrow> at_depth p d n \<and> np_parent_id n = parent \<and> ends (rec n)"
  shows "ends (run_children env p rec parent ns)"
  using assms(2)
proof (induction ns)
  case (Cons n ns)
  then have n: "at_depth p d n" "np_parent_id n = parent" "ends (rec n)" and IH: "ends (run_children env p rec parent ns)"
    by auto
  obtain g where g: "\<And>st. checked_run env rec n st = Some (g st)"
    using checked_run_ends[of rec n env, OF n(3)] by (rule endsE) (rule that)
  obtain h where h: "\<And>st :: 'w executor. skip_siblings p parent (np_node_id n) st = Some (h st)"
    using skip_siblings_ends[OF ids n(1), unfolded n(2)] by (rule endsE) (rule that)
  obtain j where j: "\<And>st :: 'w executor. run_skipped p n st = Some (j st)"
    using skipped_ends[OF ids n(1)] by (rule endsE) (rule that)
  have "\<exists>r. run_children env p rec parent (n # ns) st = Some r" for st
    using IH ends_then[OF refl IH]
    by (auto simp: g h j ends_def Let_def split: sum.split raised.split prod.split)
  then show ?case by (simp add: ends_def)
qed (simp add: ends_def completed_def)

lemma run_branches_ends:
  fixes rec :: "'w run_fun"
  assumes "unique_ids p" "\<And>n. n \<in> set ns \<Longrightarrow> at_depth p d n \<and> ends (rec n)"
  shows "ends (run_branches env p rec b ns)"
  using assms(2)
proof (induction ns)
  case (Cons n ns)
  then have n: "at_depth p d n" "ends (rec n)" and IH: "ends (run_branches env p rec b ns)" by auto
  obtain r where r: "\<And>st. run_children_one env p rec n st = Some (r st)"
    using run_children_one_ends[of p d n rec env, OF assms(1) n] by (rule endsE) (rule that)
  obtain s where s: "\<And>st :: 'w executor. run_skipped p n st = Some (s st)"
    using skipped_ends[OF assms(1) n(1)] by (rule endsE) (rule that)
  show ?case using ends_then[OF refl IH] by (auto simp: ends_def r s)
qed (simp add: ends_def completed_def)

lemma run_iteration_ends:
  assumes "unique_ids p" "\<And>n. n \<in> set ns \<Longrightarrow> at_depth p d n \<and> ends (rec n)"
  shows "ends (iterate_children env p rec ns)"
  using assms(2)
proof (induction ns)
  case (Cons n ns)
  then have n: "at_depth p d n" "ends (rec n)" and IH: "ends (iterate_children env p rec ns)" by auto
  obtain r where r: "\<And>st. run_children_one env p rec n st = Some (r st)"
    using run_children_one_ends[of p d n rec env, OF assms(1) n] by (rule endsE) (rule that)
  show ?case using IH by (auto simp: ends_def r split: prod.split sum.split)
qed (simp add: ends_def)

lemma loop_iterations_ends:
  assumes "ends (iterate_children env p rec (child_nodes p (Some (np_node_id n))))"
  shows "ends (loop_iterations env p rec n s x y i vs)"
proof (induction vs arbitrary: i)
  case Nil
  then show ?case by (simp add: ends_def record_loop_def completed_def split: prod.split)
next
  case (Cons v vs)
  obtain r where r: "\<And>st. iterate_children env p rec (child_nodes p (Some (np_node_id n))) st = Some (r st)"
    using assms by (rule endsE) (rule that)
  show ?case
    using Cons.IH by (auto simp: ends_def r record_loop_def completed_def split: prod.split sum.split bool.split)
qed

lemma node_body_ends:
  fixes rec :: "'w run_fun"
  assumes ids: "unique_ids p" and n: "at_depth p d n"
    and rec: "\<And>c. c \<in> set (child_nodes p (Some (np_node_id n))) \<Longrightarrow> ends (rec c)"
  shows "ends (node_body env p rec n)"
proof -
  let ?cs = "child_nodes p (Some (np_node_id n))"
  have cs: "at_depth p (Suc d) c \<and> np_parent_id c = Some (np_node_id n) \<and> ends (rec c)" if "c \<in> set ?cs" for c
    using child_nodes_depth[OF n that] rec[OF that] that by (simp add: child_nodes_def)
  have "ends (run_children env p rec (Some (np_node_id n)) ?cs)" using cs by (rule run_children_ends[OF ids])
  then obtain f where f: "\<And>st. run_children env p rec (Some (np_node_id n)) ?cs st = Some (f st)" by (rule endsE) (rule that)
  have cs': "at_depth p (Suc d) c \<and> ends (rec c)" if "c \<in> set ?cs" for c using cs[OF that] by blast
  have b: "\<exists>r. run_branches env p rec b ?cs st = Some r" for b st
    using run_branches_ends[OF ids cs'] unfolding ends_def by blast
  have l: "\<exists>r. loop_iterations env p rec n s x y i vs st = Some r" for s x y i vs st
    using loop_iterations_ends[OF run_iteration_ends[OF ids cs']] unfolding ends_def by blast
  have "ends (run_if env p rec n)" "ends (run_loop env p rec n)"
    using b l by (simp_all add: ends_def run_if_def run_loop_def split: prod.split sum.split)
  then obtain g h where gh: "\<And>st. run_if env p rec n st = Some (g st)" "\<And>st. run_loop env p rec n st = Some (h st)"
    by (metis endsE)
  obtain i where i: "\<And>st :: 'w executor. skip_descendants p n st = Some (i st)"
    using skip_descendants_ends[OF ids n] by (rule endsE) (rule that)
  have "ends (run_leaf env p n)" unfolding run_leaf_def by (rule leaf_attempts_ends[OF ids n])
  then obtain j where j: "\<And>st. run_leaf env p n st = Some (j st)" by (rule endsE) (rule that)
  show ?thesis
    by (simp add: ends_def node_body_def completed_def f gh i j split: node_type.split)
qed

lemma run_node_ends:
  assumes "unique_ids p"
  shows "at_depth p d n \<Longrightarrow> length (sp_nodes p) \<le> d + k \<Longrightarrow> ends (run_scenario_node env p k n)"
proof (induction k arbitrary: d n)
  case 0
  then show ?case using at_depth_bound[OF assms] by fastforce
next
  case (Suc k)
  have "ends (node_body env p (run_scenario_node env p k) n)"
    using Suc.IH[OF child_nodes_depth[OF Suc.prems(1)]] Suc.prems(2)
    by (intro node_body_ends[OF assms Suc.prems(1)]) simp
  then show ?case by (simp add: ends_def)
qed

lemma execute_scenario_ends:
  assumes "unique_ids p"
  shows "\<exists>r st. execute_scenario env p w = Some (r, st)"
proof -
  let ?run = "run_scenario_node env p (length (sp_nodes p))"
  have "ends (run_children env p ?run None (child_nodes p None))"
    using run_node_ends[OF assms root_depth] root_depth
    by (intro run_children_ends[OF assms, where d = 0]) (auto simp: child_nodes_def)
  then obtain r where "run_children env p ?run None (child_nodes p None) (initial_executor p w) = Some r"
    unfolding ends_def by blast
  then show ?thesis
    by (cases r) (auto simp: execute_scenario_def returned_def split: sum.split raised.split)
qed

section \<open>Classes of errors\<close>

text \<open>\<open>raises P a\<close>: every \<open>ScenarioRuntimeError\<close> of the action is in \<open>P\<close>.\<close>

definition raises :: "(runtime_error \<Rightarrow> bool) \<Rightarrow> ('w, 'a) action \<Rightarrow> bool" where
  "raises P a \<longleftrightarrow> (\<forall>rt e rt'. a rt = (Inl (Scenario_Error e), rt') \<longrightarrow> P e)"

lemma raisesD: "raises P a \<Longrightarrow> a rt = (Inl (Scenario_Error e), rt') \<Longrightarrow> P e"
  by (auto simp: raises_def)

lemma raises_then: "raises P m \<Longrightarrow> (\<And>x. raises P (f x)) \<Longrightarrow> raises P (act_then m f)"
  unfolding raises_def act_then_def by (auto split: prod.splits sum.splits)

lemma raises_silent [simp]:
  "raises P (act_return x)" "raises P (act_clock env)" "raises P (act_duration env s)" "raises P (put_variable n v)"
  "raises P (\<lambda>rt. (Inr x, f rt))" "raises P (\<lambda>rt. (Inl Other_Exception, f rt))"
  by (simp_all add: raises_def act_return_def act_clock_def act_duration_def put_variable_def split: prod.splits)

lemma raises_raise [simp]: "raises P (act_raise e) \<longleftrightarrow> P e"
  by (simp add: raises_def act_raise_def)

lemma raises_cases:
  "raises P (case x of None \<Rightarrow> a | Some y \<Rightarrow> f y) \<longleftrightarrow> (x = None \<longrightarrow> raises P a) \<and> (\<forall>y. x = Some y \<longrightarrow> raises P (f y))"
  "raises P (if b then a else c) \<longleftrightarrow> (b \<longrightarrow> raises P a) \<and> (\<not> b \<longrightarrow> raises P c)"
  by (auto split: option.split)

locale error_class =
  fixes P :: "runtime_error \<Rightarrow> bool"
  assumes plain [simp]: "P (scenario_runtime_error t m)" and total [simp]: "P total_timeout_error"
begin

lemma fail [simp]: "raises P (act_fail t m)"
  by (simp add: act_fail_def)

lemma fails [simp]: "act_fail t m rt = (Inl (Scenario_Error e), rt') \<Longrightarrow> P e"
  by (rule raisesD[OF fail])

lemma deadline: "raises P (check_deadline_only env)"
  by (auto simp: raises_def check_deadline_only_def act_raise_def Let_def split: option.splits prod.splits if_splits)

lemma stop: "raises P (check_stop env)"
  using raisesD[OF deadline] fails
  by (fastforce simp: raises_def check_stop_def Let_def split: prod.splits if_splits)

lemma resolves: "raises P (resolve env v)"
  by (auto simp: raises_def resolve_def split: option.splits)

lemma literal: "raises P (condition_literal env s)"
  unfolding condition_literal_def Let_def
  by (rule raises_then[OF resolves]) (simp add: raises_cases)

lemma compared: "raises P (condition_compare l operator r)"
  by (simp add: condition_compare_def raises_cases split: json.split option.split)

lemma condition_class: "raises P (condition env v)"
proof -
  have "raises P (act_then (resolve env a) (\<lambda>l. act_then (resolve env b) (\<lambda>r. condition_compare l x r)))" for a b x
    by (intro raises_then resolves compared)
  moreover have "raises P (act_then (condition_literal env l) (\<lambda>a. act_then (condition_literal env r) (condition_compare a x)))"
    for l r x
    by (intro raises_then literal compared)
  ultimately show ?thesis
    unfolding condition_def by (intro raises_then[OF resolves]) (simp split: json.split option.split)
qed

lemma branch: "raises P (act_then (act_clock env) (\<lambda>s. act_then (condition env v) (\<lambda>b.
    act_then (act_duration env s) (\<lambda>d. act_return (b, d)))))"
  by (intro raises_then condition_class) simp_all

lemma loop_start: "raises P (loop_setup env p n)"
proof -
  have "raises P (loop_values env p n)"
    unfolding loop_values_def Let_def
    by (simp add: raises_cases raises_then[OF resolves] split: json.split)
  then show ?thesis
    unfolding loop_setup_def by (intro raises_then) (simp_all split: option.split)
qed

lemma iteration: "raises P (next_iteration env x y i v)"
  unfolding next_iteration_def by (intro raises_then stop) simp_all

end

text \<open>Errors whose timeout is exactly the total one, and errors whose total timeout is a timeout. Nodes other than
  leaves raise the former, leaves the latter.\<close>

definition exact_error :: "runtime_error \<Rightarrow> bool" where
  "exact_error e \<longleftrightarrow> re_timeout e = re_total_timeout e"

definition honest_error :: "runtime_error \<Rightarrow> bool" where
  "honest_error e \<longleftrightarrow> (re_total_timeout e \<longrightarrow> re_timeout e)"

lemma honest_simps [simp]:
  "honest_error (scenario_runtime_error t m)"
  "honest_error ((scenario_runtime_error t m)\<lparr>re_retryable := x\<rparr>)"
  "honest_error ((scenario_runtime_error t m)\<lparr>re_timeout := x\<rparr>)"
  "honest_error ((scenario_runtime_error t m)\<lparr>re_retryable := x, re_timeout := y\<rparr>)"
  "honest_error ((scenario_runtime_error t m)\<lparr>re_retryable := x, re_response := z\<rparr>)"
  "honest_error ((scenario_runtime_error t m)\<lparr>re_timeout := x, re_response := z\<rparr>)"
  by (simp_all add: honest_error_def scenario_runtime_error_def)

interpretation exact: error_class exact_error
  by unfold_locales (simp_all add: exact_error_def scenario_runtime_error_def total_timeout_error_def)

interpretation honest: error_class honest_error
  by unfold_locales (simp_all add: honest_error_def scenario_runtime_error_def total_timeout_error_def)

lemma raises_result: "raises honest_error (of_result m r)"
  by (simp add: of_result_def split: sum.split)

lemma raises_execute:
  assumes "\<And>reply e. f reply = Some (Inl e) \<Longrightarrow> honest_error e"
  shows "raises honest_error (api_execute env f request)"
  using assms
  by (fastforce simp: raises_def api_execute_def act_raise_def Let_def split: prod.splits option.splits sum.splits)

lemma http_failure_honest: "http_failure reply = Some (Inl e) \<Longrightarrow> honest_error e"
  by (auto simp: http_failure_def split: http_reply.splits)

lemma cleanup_failure_honest: "cleanup_failure reply = Some (Inl e) \<Longrightarrow> honest_error e"
  by (auto simp: cleanup_failure_def split: http_reply.splits if_splits)

lemma http_action_honest: "raises honest_error (http_action env n)"
proof -
  let ?rest = "\<lambda>request. act_then (act_clock env) (\<lambda>started.
      act_then (api_execute env http_failure request) (\<lambda>result.
      act_then (\<lambda>rt. (Inr (), rt\<lparr>rt_latest_response := Some result\<rparr>)) (\<lambda>_.
      act_then (act_duration env started) (\<lambda>duration_ms.
      if duration_ms > np_timeout_ms n
      then act_raise ((scenario_runtime_error ''NODE_TIMEOUT'' ''HTTP node timed out'')
                      \<lparr>re_timeout := True, re_response := Some result\<rparr>)
      else if 500 \<le> rsn_status_code result \<and> rsn_status_code result \<le> 599
      then act_raise ((scenario_runtime_error ''HTTP_5XX'' ''target API answered 5xx'')
                      \<lparr>re_retryable := True, re_response := Some result\<rparr>)
      else act_return ()))))"
  have "raises honest_error (act_then (of_result m r) ?rest)" for m r
    by (intro raises_then raises_result raises_execute)
      (auto simp: raises_cases dest: http_failure_honest)
  then show ?thesis unfolding http_action_def raises_def Let_def by blast
qed

lemma failure_error_honest: "failure_error f = Scenario_Error e \<Longrightarrow> honest_error e"
  by (auto simp: failure_error_def split: failure.splits)

lemma map_failure_honest: "map_sum failure_error g r = Inl (Scenario_Error e) \<Longrightarrow> honest_error e"
  by (cases r) (auto dest: failure_error_honest)

lemma wait_action_honest: "raises honest_error (wait_action env n)"
  by (auto simp: raises_def wait_action_def act_raise_def dest: honest.fails map_failure_honest
      split: json.splits if_splits prod.splits)

lemma sql_action_honest: "raises honest_error (sql_action env n)"
  by (auto simp: raises_def sql_action_def dest: map_failure_honest split: prod.splits)

lemma script_action_honest: "raises honest_error (script_action env n)"
  by (auto simp: raises_def script_action_def act_raise_def Let_def dest: honest.fails raisesD[OF honest.stop]
      split: if_splits prod.splits script_reply.splits)

lemma extract_action_honest: "raises honest_error (extract_action n)"
  by (auto simp: raises_def extract_action_def put_variable_def Let_def dest: honest.fails
      split: if_splits json.splits option.splits)

lemma response_action_honest: "raises honest_error (assert_action env n)" "raises honest_error (defer_ai_assertion n)"
  by (auto simp: raises_def assert_action_def defer_ai_assertion_def act_return_def dest: honest.fails
      split: if_splits option.splits)

lemma set_variable_action_honest: "raises honest_error (set_variable_action env n)"
  by (simp add: set_variable_action_def raises_then honest.resolves split: option.split)

lemma leaf_action_honest: "raises honest_error (leaf_action env n)"
  by (simp add: leaf_action_def http_action_honest wait_action_honest sql_action_honest script_action_honest
      extract_action_honest response_action_honest set_variable_action_honest split: node_type.split)

lemma leaf_attempt_honest: "raises honest_error (leaf_attempt env n s)"
  unfolding leaf_attempt_def
  by (intro raises_then honest.stop leaf_action_honest) (simp_all add: raises_cases)

lemma cleanup_attempt_honest: "raises honest_error (cleanup_attempt env n s)"
proof -
  have "raises honest_error (act_then (of_result m r) (api_execute env cleanup_failure))" for m r
    by (intro raises_then raises_result raises_execute) (rule cleanup_failure_honest)
  then have "raises honest_error (api_cleanup env n)" unfolding api_cleanup_def raises_def by blast
  then have "raises honest_error (cleanup_action env n)"
    by (simp add: cleanup_action_def sql_action_honest)
  then show ?thesis
    unfolding cleanup_attempt_def by (intro raises_then honest.deadline) (simp_all add: raises_cases)
qed

section \<open>Invariants of the executor\<close>

text \<open>\<open>holds Q m\<close>: if the procedure returns or raises, it leaves \<open>Q\<close>, and what it raises is exact.\<close>

definition holds :: "('w executor \<Rightarrow> bool) \<Rightarrow> 'w progress \<Rightarrow> bool" where
  "holds Q m \<longleftrightarrow> (\<forall>r st. m = Some (r, st) \<longrightarrow> Q st \<and> (\<forall>e. r = Inl (Scenario_Error e) \<longrightarrow> exact_error e))"

lemma holds_simps [simp]:
  "holds Q None" "holds Q (completed st) \<longleftrightarrow> Q st" "holds Q (Some (Inr u, st)) \<longleftrightarrow> Q st"
  "holds Q (Some (Inl Other_Exception, st)) \<longleftrightarrow> Q st"
  "holds Q (Some (Inl (Scenario_Error e), st)) \<longleftrightarrow> Q st \<and> exact_error e"
  "holds Q (map_option (Pair (Inr u)) m) \<longleftrightarrow> (\<forall>st. m = Some st \<longrightarrow> Q st)"
  by (auto simp: holds_def completed_def)

lemma holds_raise: "holds Q (Some (Inl x, st)) \<longleftrightarrow> Q st \<and> (\<forall>e. x = Scenario_Error e \<longrightarrow> exact_error e)"
  by (simp add: holds_def)

lemma holds_then: "holds Q m \<Longrightarrow> (\<And>st. Q st \<Longrightarrow> holds Q (f st)) \<Longrightarrow> holds Q (then_run m f)"
  by (auto simp: holds_def then_run_def split: option.splits prod.splits sum.splits)

lemma each_keeps:
  assumes "\<And>x st st'. x \<in> set xs \<Longrightarrow> Q st \<Longrightarrow> f x st = Some st' \<Longrightarrow> Q st'"
  shows "Q st \<Longrightarrow> each f xs st = Some st' \<Longrightarrow> Q st'"
  using assms
proof (induction xs arbitrary: st)
  case (Cons x xs)
  then obtain st1 where "f x st = Some st1" "each f xs st1 = Some st'" by (auto split: option.splits)
  then show ?case using Cons.IH[of st1] Cons.prems(1,3) by (metis list.set_intros)
qed simp

definition calm :: "trace_status \<Rightarrow> bool" where
  "calm s \<longleftrightarrow> s = TRACE_SUCCESS \<or> s = TRACE_SKIPPED"

locale executor_invariant =
  fixes env :: "'w scenario_env" and p :: scenario_plan and Q :: "'w executor \<Rightarrow> bool"
  assumes runtime: "Q st \<Longrightarrow> Q (st\<lparr>ex_runtime := rt\<rparr>)"
    and stop: "Q st \<Longrightarrow> Q (st\<lparr>ex_stop_requested := True\<rparr>)"
    and recorded: "Q st \<Longrightarrow> n \<in> set (sp_nodes p) \<Longrightarrow> calm s \<Longrightarrow> 0 \<le> a \<Longrightarrow> Q (record_trace n s a d None None st)"
    and settled: "Q st \<Longrightarrow> n \<in> set (sp_nodes p) \<Longrightarrow> \<not> re_total_timeout e \<Longrightarrow> \<not> is_cancel e \<Longrightarrow> 0 \<le> a \<Longrightarrow>
      Q ((record_failure n e a d (st\<lparr>ex_timed_out := ex_timed_out st \<or> re_timeout e\<rparr>))
           \<lparr>ex_failed := True, ex_last_error := Some e\<rparr>)"
    and expired: "Q st \<Longrightarrow> n \<in> set (sp_nodes p) \<Longrightarrow> re_total_timeout e \<Longrightarrow> re_timeout e \<Longrightarrow> 0 \<le> a \<Longrightarrow>
      Q (record_failure n e a d (st\<lparr>ex_total_timeout := True, ex_failed := False, ex_stop_requested := True,
                                    ex_last_error := Some e\<rparr>))"
    and aborted: "Q st \<Longrightarrow> n \<in> set (sp_nodes p) \<Longrightarrow> is_cancel e \<Longrightarrow> 0 \<le> a \<Longrightarrow>
      Q (record_failure n e a d (st\<lparr>ex_cancelled := True, ex_stop_requested := True\<rparr>))"
    and noted: "Q st \<Longrightarrow> n \<in> set (sp_nodes p) \<Longrightarrow> exact_error e \<Longrightarrow>
      f = (ex_failed st \<or> \<not> re_total_timeout e) \<or> f = (ex_failed st \<or> \<not> (re_total_timeout e \<or> is_cancel e)) \<Longrightarrow>
      Q ((note_error n e st)\<lparr>ex_failed := f\<rparr>)"
begin

lemma record_skipped_keeps: "Q st \<Longrightarrow> n \<in> set (sp_nodes p) \<Longrightarrow> Q (record_skipped n st)"
  by (simp add: record_skipped_def recorded calm_def)

lemma skip_fuel_keeps: "Q st \<Longrightarrow> skip_fuel p k n st = Some st' \<Longrightarrow> Q st'"
proof (induction k arbitrary: n st st')
  case (Suc k)
  show ?case
    using Suc.prems(2)
    by (auto simp: child_nodes_def elim!: each_keeps[rotated 2] intro!: Suc.prems(1) record_skipped_keeps
        intro: Suc.IH[rotated])
qed simp

lemma skip_keeps:
  "Q st \<Longrightarrow> skip_descendants p n st = Some st' \<Longrightarrow> Q st'"
  "Q st \<Longrightarrow> n \<in> set (sp_nodes p) \<Longrightarrow> skip_node p n st = Some st' \<Longrightarrow> Q st'"
  by (auto simp: skip_descendants_def skip_node_def intro: skip_fuel_keeps record_skipped_keeps)

lemma skip_siblings_keeps:
  assumes "Q st" "skip_siblings p parent i st = Some st'"
  shows "Q st'"
  using assms(2) unfolding skip_siblings_def
proof (rule each_keeps[rotated 2])
  fix x :: scenario_node_plan and st st' :: "'w executor"
  assume "x \<in> set (siblings_after i (child_nodes p parent))"
  then have "x \<in> set (sp_nodes p)" using siblings_after_subset by (fastforce simp: child_nodes_def)
  then show "Q st \<Longrightarrow> skip_node p x st = Some st' \<Longrightarrow> Q st'" by (rule skip_keeps(2)[rotated])
qed (rule assms(1))

lemma skipped_holds: "Q st \<Longrightarrow> n \<in> set (sp_nodes p) \<Longrightarrow> holds Q (run_skipped p n st)"
  by (auto simp: run_skipped_def intro: skip_keeps)

lemma leaf_attempts_holds:
  assumes n: "n \<in> set (sp_nodes p)"
  shows "k \<noteq> 0 \<Longrightarrow> 0 \<le> a \<Longrightarrow> Q st \<Longrightarrow> holds Q (leaf_attempts env p n k l a t st)"
proof (induction k arbitrary: l a t st)
  case (Suc k)
  have settle: "holds Q (settle_failure p n e a d st)" if "Q st" "\<not> re_total_timeout e" "\<not> is_cancel e" for e d st
    using settled[OF that(1) n that(2,3) Suc.prems(2), of d]
    by (auto simp: settle_failure_def Let_def intro: skip_siblings_keeps stop)
  obtain s rt0 r rt1 where c: "read_clock env (ex_runtime st) = (s, rt0)" "leaf_attempt env n s rt0 = (r, rt1)"
    by (metis prod.exhaust)
  show ?case
  proof (cases r)
    case (Inl x)
    then show ?thesis
    proof (cases x)
      case (Scenario_Error e)
      have "honest_error e" using raisesD[OF leaf_attempt_honest] c(2) Inl Scenario_Error by blast
      then have "re_total_timeout e \<Longrightarrow> re_timeout e" by (simp add: honest_error_def)
      then show ?thesis
        using Suc.prems n
        by (auto simp: c Inl Scenario_Error Let_def calm_def split: prod.split
            intro!: settle expired aborted recorded runtime Suc.IH)
    qed (simp add: c runtime Suc.prems)
  qed (use Suc.prems n in \<open>simp add: c recorded runtime calm_def\<close>)
qed simp

end

text \<open>The same for branches and loops: a body keeps \<open>Q\<close> if \<open>rec\<close> does on the nodes of the plan.\<close>

context executor_invariant
begin

lemma on_runtime_holds:
  assumes "raises exact_error a" "Q st" "on_runtime a st = (r, st')"
  shows "Q st'" "r = Inl (Scenario_Error e) \<Longrightarrow> exact_error e"
  using assms by (auto simp: on_runtime_def runtime dest: raisesD split: prod.splits)

lemma checked_run_holds:
  assumes "\<And>st. Q st \<Longrightarrow> holds Q (rec n st)" "Q st"
  shows "holds Q (checked_run env rec n st)"
proof -
  obtain r st' where c: "on_runtime (check_stop env) st = (r, st')" by force
  note h = on_runtime_holds[OF exact.stop assms(2) c]
  show ?thesis using h assms(1) by (cases r; cases "projl r") (auto simp: checked_run_def c)
qed

lemma run_children_holds:
  assumes "\<And>n st. n \<in> set ns \<Longrightarrow> Q st \<Longrightarrow> n \<in> set (sp_nodes p) \<and> holds Q (rec n st)"
  shows "Q st \<Longrightarrow> holds Q (run_children env p rec parent ns st)"
  using assms
proof (induction ns arbitrary: st)
  case (Cons n ns)
  have IH: "holds Q (run_children env p rec parent ns st)" if "Q st" for st using Cons that by auto
  have n: "n \<in> set (sp_nodes p)" "holds Q (checked_run env rec n st)" "holds Q (run_skipped p n st)"
    using Cons.prems checked_run_holds[of rec n] skipped_holds[OF Cons.prems(1)] by auto
  have err: "Q ((note_error n e st1)\<lparr>ex_failed := ex_failed st1 \<or> \<not> re_total_timeout e\<rparr>)"
    if "checked_run env rec n st = Some (Inl (Scenario_Error e), st1)" for e st1
    using n(2) that noted[OF _ n(1)] by simp
  have "holds Q (then_run m (run_children env p rec parent ns))" if "holds Q m" for m
    using that IH by (rule holds_then)
  then show ?case
    using n(2,3) skip_siblings_keeps[OF stop[OF err]]
    by (auto simp: Let_def intro: IH err split: option.split prod.split sum.split raised.split)
qed simp

lemma run_children_one_holds:
  assumes "\<And>st. Q st \<Longrightarrow> holds Q (rec n st)" "n \<in> set (sp_nodes p)" "Q st"
  shows "holds Q (run_children_one env p rec n st)"
proof -
  have c: "holds Q (checked_run env rec n st)" using checked_run_holds[of rec n] assms by blast
  have err: "Q ((note_error n e st1)\<lparr>ex_failed := ex_failed st1 \<or> \<not> re_total_timeout e \<and> \<not> is_cancel e\<rparr>)"
    if "checked_run env rec n st = Some (Inl (Scenario_Error e), st1)" for e st1
    using c that noted[OF _ assms(2)] by simp
  show ?thesis
    using c skipped_holds[OF assms(3,2)] skip_keeps(1)[OF skip_siblings_keeps[OF stop[OF err]]] err
    unfolding run_children_one_def
    by (auto simp: Let_def split: option.split prod.split sum.split raised.split)
qed

lemma run_branches_holds:
  assumes "\<And>n st. n \<in> set ns \<Longrightarrow> Q st \<Longrightarrow> n \<in> set (sp_nodes p) \<and> holds Q (rec n st)"
  shows "Q st \<Longrightarrow> holds Q (run_branches env p rec b ns st)"
  using assms
proof (induction ns arbitrary: st)
  case (Cons n ns)
  then have "n \<in> set (sp_nodes p)" "holds Q (run_children_one env p rec n st)"
    using run_children_one_holds[of rec n] by auto
  then show ?case using Cons by (auto intro!: holds_then skipped_holds)
qed simp

lemma run_iteration_holds:
  assumes "\<And>n st. n \<in> set ns \<Longrightarrow> Q st \<Longrightarrow> n \<in> set (sp_nodes p) \<and> holds Q (rec n st)"
  shows "Q st \<Longrightarrow> iterate_children env p rec ns st = Some (r, st') \<Longrightarrow>
    Q st' \<and> (\<forall>e. r = Inl (Scenario_Error e) \<longrightarrow> exact_error e)"
  using assms
proof (induction ns arbitrary: st)
  case (Cons n ns)
  then have one: "holds Q (run_children_one env p rec n st)" using run_children_one_holds[of rec n] by auto
  have IH: "Q st1 \<Longrightarrow> iterate_children env p rec ns st1 = Some (r, st') \<Longrightarrow>
      Q st' \<and> (\<forall>e. r = Inl (Scenario_Error e) \<longrightarrow> exact_error e)" for st1
    using Cons.IH Cons.prems(3) by simp
  show ?case
    using Cons.prems(2) one IH by (auto simp: holds_raise split: option.splits sum.splits if_splits)
qed auto

lemma record_loop_holds: "Q st \<Longrightarrow> n \<in> set (sp_nodes p) \<Longrightarrow> holds Q (record_loop env n s st)"
  by (simp add: record_loop_def recorded runtime calm_def split: prod.split)

lemma loop_iterations_holds:
  assumes rec: "\<And>c st. c \<in> set (child_nodes p (Some (np_node_id n))) \<Longrightarrow> Q st \<Longrightarrow> c \<in> set (sp_nodes p) \<and> holds Q (rec c st)"
    and n: "n \<in> set (sp_nodes p)"
  shows "Q st \<Longrightarrow> holds Q (loop_iterations env p rec n s x y i vs st)"
proof (induction vs arbitrary: i st)
  case (Cons v vs)
  obtain r st' where c: "on_runtime (next_iteration env x y i v) st = (r, st')" by force
  note h = on_runtime_holds[OF exact.iteration Cons.prems c]
  show ?case
  proof (cases r)
    case (Inl e)
    then show ?thesis using h Cons.prems by (cases e) (auto simp: c)
  next
    case (Inr u)
    have "Q st'' \<and> (\<forall>e. q = Inl (Scenario_Error e) \<longrightarrow> exact_error e)"
      if "iterate_children env p rec (child_nodes p (Some (np_node_id n))) st' = Some (q, st'')" for q st''
      using run_iteration_holds[where rec = rec, OF rec h(1) that] .
    then show ?thesis
      using Cons record_loop_holds[OF _ n]
      by (cases "iterate_children env p rec (child_nodes p (Some (np_node_id n))) st'")
        (auto simp: c Inr holds_raise intro!: Cons.IH record_loop_holds n split: sum.split raised.split bool.split)
  qed
qed (simp add: record_loop_holds n)

lemma record_now_keeps: "Q st \<Longrightarrow> n \<in> set (sp_nodes p) \<Longrightarrow> calm s \<Longrightarrow> Q (record_now env n s st)"
  by (simp add: record_now_def recorded runtime split: prod.split)

lemma node_body_holds:
  assumes rec: "\<And>c st. c \<in> set (sp_nodes p) \<Longrightarrow> Q st \<Longrightarrow> holds Q (rec c st)"
    and n: "n \<in> set (sp_nodes p)" and st: "Q st"
  shows "holds Q (node_body env p rec n st)"
proof -
  have cs: "c \<in> set (sp_nodes p) \<and> holds Q (rec c st)" if "c \<in> set (child_nodes p x)" "Q st" for c x st
    using that rec by (simp add: child_nodes_def)
  have leaf: "holds Q (run_leaf env p n st)"
    unfolding run_leaf_def using st by (intro leaf_attempts_holds[OF n]) simp_all
  obtain r st' where c: "on_runtime (loop_setup env p n) st = (r, st')" by force
  have loop: "holds Q (run_loop env p rec n st)"
    using on_runtime_holds[OF exact.loop_start st c] loop_iterations_holds[where rec = rec, OF cs n]
    by (cases r; cases "projl r") (auto simp: run_loop_def c split: prod.split)
  obtain q st'' where d: "on_runtime (act_then (act_clock env) (\<lambda>s. act_then (condition env (cfg_get (np_config n) ''condition''))
      (\<lambda>b. act_then (act_duration env s) (\<lambda>d. act_return (b, d))))) st = (q, st'')" by force
  have branch: "holds Q (run_if env p rec n st)"
    using on_runtime_holds[OF exact.branch st d] run_branches_holds[where rec = rec, OF cs] recorded[OF _ n] n
    by (cases q; cases "projl q") (auto simp: run_if_def d calm_def split: prod.split)
  have else_case: "holds Q (run_children env p rec x (child_nodes p y) (record_now env n TRACE_SUCCESS st))" for x y
    by (rule run_children_holds[where rec = rec, OF cs]) (auto intro: record_now_keeps st n simp: calm_def)
  have off: "Q st'" if "skip_descendants p n (record_trace n TRACE_SKIPPED 0 0 None None st) = Some st'" for st'
    using that by (rule skip_keeps(1)[rotated]) (simp add: recorded[OF st n] calm_def)
  show ?thesis
    using leaf loop branch else_case off
    by (simp add: node_body_def calm_def record_now_keeps st n split: node_type.split)
qed

lemma run_node_holds: "n \<in> set (sp_nodes p) \<Longrightarrow> Q st \<Longrightarrow> holds Q (run_scenario_node env p k n st)"
  by (induction k arbitrary: n st) (simp_all add: node_body_holds)

lemma main_holds: "Q st \<Longrightarrow> holds Q (run_children env p (run_scenario_node env p k) None (child_nodes p None) st)"
  by (intro run_children_holds) (simp_all add: run_node_holds child_nodes_def)

end

text \<open>\<open>_run_children\<close> lets no \<open>ScenarioRuntimeError\<close> through, so the handler of \<open>execute\<close> is never reached.\<close>

lemma run_children_silent: "run_children env p rec parent ns st \<noteq> Some (Inl (Scenario_Error e), st')"
  by (induction ns arbitrary: st)
    (auto simp: completed_def then_run_def run_skipped_def Let_def split: option.splits prod.splits sum.splits raised.splits)

text \<open>With the updates of the cleanup phase.\<close>

locale cleanup_invariant = executor_invariant +
  assumes running: "Q st \<Longrightarrow> Q (st\<lparr>ex_running_cleanup := x\<rparr>)"
    and finalized: "Q st \<Longrightarrow> Q (st\<lparr>ex_cleanup_finalized := True\<rparr>)"
    and retried: "Q st \<Longrightarrow> n \<in> set (cleanup_nodes p) \<Longrightarrow> np_failure_policy n = Some RETRY_ONCE \<Longrightarrow> \<not> re_total_timeout e \<Longrightarrow>
      Q (st\<lparr>ex_runtime := rt, ex_total_timeout := ex_total_timeout st \<or> re_total_timeout e,
             ex_timed_out := ex_timed_out st \<or> re_timeout e\<rparr>)"
    and unclean: "Q st \<Longrightarrow> n \<in> set (sp_nodes p) \<Longrightarrow> honest_error e \<Longrightarrow> 0 \<le> a \<Longrightarrow>
      Q ((record_failure n e a d (st\<lparr>ex_runtime := rt, ex_total_timeout := ex_total_timeout st \<or> re_total_timeout e,
                                     ex_timed_out := ex_timed_out st \<or> re_timeout e\<rparr>))
           \<lparr>ex_cleanup_failed := True, ex_last_error := Some e\<rparr>)"
    and noted_cleanup: "Q st \<Longrightarrow> n \<in> set (sp_nodes p) \<Longrightarrow> exact_error e \<Longrightarrow> Q (note_cleanup_error n e st)"
begin

lemma cleanup_attempts_keeps:
  assumes n: "n \<in> set (cleanup_nodes p)" and k: "k > Suc 0 \<Longrightarrow> np_failure_policy n = Some RETRY_ONCE"
  shows "0 \<le> a \<Longrightarrow> Q st \<Longrightarrow> Q (snd (cleanup_attempts env n k a t st))"
  using k
proof (induction k arbitrary: a t st)
  case (Suc k)
  have n': "n \<in> set (sp_nodes p)" using n by (simp add: cleanup_nodes_def)
  obtain s rt0 r rt1 where c: "read_clock env (ex_runtime st) = (s, rt0)" "cleanup_attempt env n s rt0 = (r, rt1)"
    by (metis prod.exhaust)
  show ?case
  proof (cases r)
    case (Inl x)
    then show ?thesis
    proof (cases x)
      case (Scenario_Error e)
      have "honest_error e" using raisesD[OF cleanup_attempt_honest] c(2) Inl Scenario_Error by blast
      then show ?thesis
        using Suc.prems retried[OF Suc.prems(2) n] unclean[OF Suc.prems(2) n']
        by (auto simp: c Inl Scenario_Error Let_def intro!: Suc.IH split: prod.split)
    qed (simp add: c runtime Suc.prems)
  qed (use Suc.prems n' in \<open>simp add: c recorded runtime calm_def\<close>)
qed simp

lemma cleanup_attempts_silent: "fst (cleanup_attempts env n k a t st) \<noteq> Inl (Scenario_Error e)"
  by (induction k arbitrary: a t st) (auto simp: Let_def split: prod.split sum.split raised.split)

lemma run_cleanup_node_keeps:
  assumes n: "n \<in> set (cleanup_nodes p)" and st: "Q st" and r: "run_cleanup_node env p outcome n st = (r, st')"
  shows "Q st'" "r = Inl (Scenario_Error e) \<Longrightarrow> exact_error e"
proof -
  let ?k = "if np_failure_policy n = Some RETRY_ONCE then 2 else 1"
  have n': "n \<in> set (sp_nodes p)" using n by (simp add: cleanup_nodes_def)
  have a: "Q (snd (cleanup_attempts env n ?k 0 0 st))"
    by (rule cleanup_attempts_keeps[OF n]) (auto simp: st split: if_splits)
  have k: "Q (record_trace n TRACE_SKIPPED 0 0 None None st)" by (simp add: recorded st n' calm_def)
  have x: "checked_cleanup_config n = Inl e \<Longrightarrow> exact_error e" for e
    by (auto simp: checked_cleanup_config_def Let_def split: if_splits json.splits)
  show "Q st'" using r a k st
    unfolding run_cleanup_node_def Let_def
    by (auto split: sum.splits json.splits if_splits)
  show "r = Inl (Scenario_Error e) \<Longrightarrow> exact_error e"
    using r x cleanup_attempts_silent[of n ?k 0 0 st e] unfolding run_cleanup_node_def Let_def
    by (auto split: sum.splits json.splits if_splits)
qed

lemma cleanup_loop_keeps: "set ns \<subseteq> set (cleanup_nodes p) \<Longrightarrow> Q st \<Longrightarrow> Q (run_cleanup_nodes env p outcome ns st)"
proof (induction ns arbitrary: st)
  case (Cons n ns)
  obtain r st1 where r: "run_cleanup_node env p outcome n st = (r, st1)" by force
  have n: "n \<in> set (cleanup_nodes p)" "n \<in> set (sp_nodes p)" using Cons.prems by (auto simp: cleanup_nodes_def)
  note k = run_cleanup_node_keeps[OF n(1) Cons.prems(2) r]
  have "exact_error cleanup_execution_error" by (simp add: cleanup_execution_error_def)
  then show ?case
    using k noted_cleanup[OF k(1) n(2)] Cons
    by (auto simp: r Let_def split: sum.split raised.split)
qed simp

lemma run_cleanups_keeps: "Q st \<Longrightarrow> Q (run_cleanups env p st)"
  by (simp add: run_cleanups_def finalized running cleanup_loop_keeps)

lemma fill_keeps: "Q st \<Longrightarrow> Q (fill_missing_traces p st)"
  unfolding fill_missing_traces_def by (rule fold_invariant[where Q = "\<lambda>n. n \<in> set (sp_nodes p)"]) (auto intro: record_skipped_keeps)

lemma finalize_keeps: "Q st \<Longrightarrow> Q (finalize env p st)"
  by (simp add: finalize_def fill_keeps run_cleanups_keeps)

lemma execution_keeps:
  assumes "Q (initial_executor p w)" "execute_scenario env p w = Some (Some r, st)"
  shows "Q st \<and> r = scenario_execution_result p st"
proof -
  let ?m = "run_children env p (run_scenario_node env p (length (sp_nodes p))) None (child_nodes p None) (initial_executor p w)"
  have "holds Q ?m" using assms(1) by (rule main_holds)
  then show ?thesis
    using assms(2) finalize_keeps
    by (auto simp: execute_scenario_def returned_def run_children_silent split: option.splits sum.splits raised.splits)
qed

end

end
