(* ===== verification/Scenario_Guarantees.thy ===== *)
theory Scenario_Guarantees
  imports Scenario_Flow
begin

text \<open>
  A Scenario execution ends, and the outcome the Runner reports fits the traces. The invariant \<open>report_inv\<close> ties
  the flags of the executor to the traces and is an instance of the locales of \<open>Scenario_Flow\<close>.
\<close>

section \<open>Traces and outcome\<close>

definition has_trace :: "'w executor \<Rightarrow> trace_status \<Rightarrow> bool" where
  "has_trace st s \<longleftrightarrow> (\<exists>i t. ex_traces st i = Some t \<and> et_status t = s)"

definition trace_ok :: "scenario_plan \<Rightarrow> string \<Rightarrow> exec_trace \<Rightarrow> bool" where
  "trace_ok p i t \<longleftrightarrow>
     i \<in> np_node_id ` set (sp_nodes p) \<and> et_node_id t = i
     \<and> et_status t \<in> {TRACE_SUCCESS, TRACE_SKIPPED, TRACE_FAILED, TRACE_TIMEOUT}
     \<and> 0 \<le> et_duration_ms t \<and> et_duration_ms t \<le> max_trace_duration_ms
     \<and> 0 \<le> et_retry_count t \<and> et_retry_count t \<le> 3
     \<and> (\<forall>m. et_error_message t = Some m \<longrightarrow> m \<noteq> [] \<and> length m \<le> 500)"

text \<open>No cleanup node is retried.\<close>

definition cleanup_once :: "scenario_plan \<Rightarrow> bool" where
  "cleanup_once p \<longleftrightarrow> list_all (\<lambda>n. np_failure_policy n \<noteq> Some RETRY_ONCE) (cleanup_nodes p)"

definition report_inv :: "scenario_plan \<Rightarrow> 'w executor \<Rightarrow> bool" where
  "report_inv p st \<longleftrightarrow>
     (\<forall>i t. ex_traces st i = Some t \<longrightarrow> trace_ok p i t)
     \<and> (has_trace st TRACE_FAILED \<longrightarrow> ex_failed st \<or> ex_cleanup_failed st \<or> ex_timed_out st \<or> ex_total_timeout st \<or> ex_cancelled st)
     \<and> (has_trace st TRACE_TIMEOUT \<longrightarrow> ex_timed_out st \<or> ex_total_timeout st \<or> ex_cancelled st)
     \<and> (ex_failed st \<or> ex_cleanup_failed st \<longrightarrow> has_trace st TRACE_FAILED \<or> has_trace st TRACE_TIMEOUT)
     \<and> (ex_total_timeout st \<longrightarrow> has_trace st TRACE_TIMEOUT)
     \<and> (cleanup_once p \<and> ex_timed_out st \<longrightarrow> has_trace st TRACE_TIMEOUT)"

lemma report_inv_ok: "report_inv p st \<Longrightarrow> ex_traces st i = Some t \<Longrightarrow> trace_ok p i t"
  by (simp add: report_inv_def)

lemma merge_trace_ok:
  assumes "n \<in> set (sp_nodes p)" "i = np_node_id n" "0 \<le> a" "s \<in> {TRACE_SUCCESS, TRACE_SKIPPED, TRACE_FAILED, TRACE_TIMEOUT}"
    "\<And>t. m = Some t \<Longrightarrow> trace_ok p i t"
  shows "trace_ok p i (merge_trace i s a d x y m)"
  using assms
  by (cases m) (auto simp: merge_trace_def trace_ok_def Let_def max_trace_duration_ms_def text_or_def min_def
      split: option.splits if_splits)

lemma merge_trace_status:
  "et_status (merge_trace i s a d x y m) =
     (case m of Some t \<Rightarrow> if trace_severity (et_status t) > trace_severity s then et_status t else s | None \<Rightarrow> s)"
  by (auto simp: merge_trace_def Let_def split: option.splits)

lemma record_trace_has_iff:
  "has_trace (record_trace n s a d x y st) q \<longleftrightarrow>
     (case ex_traces st (np_node_id n) of Some t \<Rightarrow> if trace_severity (et_status t) > trace_severity s then et_status t else s
      | None \<Rightarrow> s) = q
     \<or> (\<exists>i t. i \<noteq> np_node_id n \<and> ex_traces st i = Some t \<and> et_status t = q)"
  by (auto simp: has_trace_def record_trace_def Let_def merge_trace_status split: if_splits)

lemma has_trace_split:
  "has_trace st q \<longleftrightarrow> (\<exists>t. ex_traces st j = Some t \<and> et_status t = q)
     \<or> (\<exists>i t. i \<noteq> j \<and> ex_traces st i = Some t \<and> et_status t = q)"
  by (auto simp: has_trace_def)

lemma record_trace_has:
  assumes "\<And>i t. ex_traces st i = Some t \<Longrightarrow> trace_ok p i t"
  shows "calm s \<Longrightarrow> has_trace (record_trace n s a d x y st) TRACE_FAILED \<longleftrightarrow> has_trace st TRACE_FAILED"
    and "calm s \<Longrightarrow> has_trace (record_trace n s a d x y st) TRACE_TIMEOUT \<longleftrightarrow> has_trace st TRACE_TIMEOUT"
    and "has_trace (record_trace n TRACE_FAILED a d x y st) TRACE_TIMEOUT \<longleftrightarrow> has_trace st TRACE_TIMEOUT"
    and "has_trace (record_trace n TRACE_FAILED a d x y st) TRACE_FAILED \<or> has_trace st TRACE_TIMEOUT"
    and "has_trace (record_trace n TRACE_TIMEOUT a d x y st) TRACE_TIMEOUT"
    and "has_trace (record_trace n TRACE_TIMEOUT a d x y st) TRACE_FAILED \<Longrightarrow> has_trace st TRACE_FAILED"
proof -
  have k: "et_status t \<in> {TRACE_SUCCESS, TRACE_SKIPPED, TRACE_FAILED, TRACE_TIMEOUT}"
    if "ex_traces st (np_node_id n) = Some t" for t
    using assms[OF that] by (simp add: trace_ok_def)
  show "calm s \<Longrightarrow> has_trace (record_trace n s a d x y st) TRACE_FAILED \<longleftrightarrow> has_trace st TRACE_FAILED"
    "calm s \<Longrightarrow> has_trace (record_trace n s a d x y st) TRACE_TIMEOUT \<longleftrightarrow> has_trace st TRACE_TIMEOUT"
    "has_trace (record_trace n TRACE_FAILED a d x y st) TRACE_TIMEOUT \<longleftrightarrow> has_trace st TRACE_TIMEOUT"
    "has_trace (record_trace n TRACE_FAILED a d x y st) TRACE_FAILED \<or> has_trace st TRACE_TIMEOUT"
    "has_trace (record_trace n TRACE_TIMEOUT a d x y st) TRACE_TIMEOUT"
    "has_trace (record_trace n TRACE_TIMEOUT a d x y st) TRACE_FAILED \<Longrightarrow> has_trace st TRACE_FAILED"
    using k by (auto simp: record_trace_has_iff has_trace_split[of st _ "np_node_id n"] calm_def
        split: option.splits if_splits)
qed

lemma has_trace_flags [simp]:
  "has_trace (st\<lparr>ex_runtime := rt\<rparr>) q = has_trace st q" "has_trace (st\<lparr>ex_failed := b\<rparr>) q = has_trace st q"
  "has_trace (st\<lparr>ex_cancelled := b\<rparr>) q = has_trace st q" "has_trace (st\<lparr>ex_total_timeout := b\<rparr>) q = has_trace st q"
  "has_trace (st\<lparr>ex_timed_out := b\<rparr>) q = has_trace st q" "has_trace (st\<lparr>ex_stop_requested := b\<rparr>) q = has_trace st q"
  "has_trace (st\<lparr>ex_last_error := e\<rparr>) q = has_trace st q" "has_trace (st\<lparr>ex_running_cleanup := b\<rparr>) q = has_trace st q"
  "has_trace (st\<lparr>ex_cleanup_finalized := b\<rparr>) q = has_trace st q" "has_trace (st\<lparr>ex_cleanup_failed := b\<rparr>) q = has_trace st q"
  by (simp_all add: has_trace_def)

text \<open>Recording changes no flag, and a failure leaves a trace that is as bad or worse.\<close>

lemma record_frame [simp]:
  "ex_failed (record_trace n s a d x y st) = ex_failed st" "ex_cancelled (record_trace n s a d x y st) = ex_cancelled st"
  "ex_total_timeout (record_trace n s a d x y st) = ex_total_timeout st"
  "ex_timed_out (record_trace n s a d x y st) = ex_timed_out st"
  "ex_cleanup_failed (record_trace n s a d x y st) = ex_cleanup_failed st"
  by (simp_all add: record_trace_def Let_def)

lemma record_traces_ok:
  assumes "\<And>i t. ex_traces st i = Some t \<Longrightarrow> trace_ok p i t" "n \<in> set (sp_nodes p)" "0 \<le> a"
    "s \<in> {TRACE_SUCCESS, TRACE_SKIPPED, TRACE_FAILED, TRACE_TIMEOUT}"
    "ex_traces (record_trace n s a d x y st) i = Some t"
  shows "trace_ok p i t"
  using assms merge_trace_ok[OF assms(2) refl assms(3,4)]
  by (auto simp: record_trace_def Let_def split: if_splits)

lemma record_failure_has:
  assumes "\<And>i t. ex_traces st i = Some t \<Longrightarrow> trace_ok p i t"
  shows "has_trace (record_failure n e a d st) TRACE_FAILED \<or> has_trace (record_failure n e a d st) TRACE_TIMEOUT"
    and "re_timeout e \<Longrightarrow> has_trace (record_failure n e a d st) TRACE_TIMEOUT"
    and "has_trace st TRACE_TIMEOUT \<Longrightarrow> has_trace (record_failure n e a d st) TRACE_TIMEOUT"
    and "has_trace (record_failure n e a d st) TRACE_TIMEOUT \<Longrightarrow> re_timeout e \<or> has_trace st TRACE_TIMEOUT"
    and "has_trace (record_failure n e a d st) TRACE_FAILED \<Longrightarrow> \<not> re_timeout e \<or> has_trace st TRACE_FAILED"
  using record_trace_has[OF assms, of st] assms
  unfolding record_failure_def by (auto split: if_splits)

lemma record_failure_ok:
  assumes "\<And>i t. ex_traces st i = Some t \<Longrightarrow> trace_ok p i t" "n \<in> set (sp_nodes p)" "0 \<le> a"
    "ex_traces (record_failure n e a d st) i = Some t"
  shows "trace_ok p i t"
  by (rule record_traces_ok[OF _ assms(2,3) _ assms(4)[unfolded record_failure_def]]) (auto intro: assms(1))

lemma record_failure_frame [simp]:
  "ex_failed (record_failure n e a d st) = ex_failed st" "ex_cancelled (record_failure n e a d st) = ex_cancelled st"
  "ex_total_timeout (record_failure n e a d st) = ex_total_timeout st"
  "ex_timed_out (record_failure n e a d st) = ex_timed_out st"
  "ex_cleanup_failed (record_failure n e a d st) = ex_cleanup_failed st"
  by (simp_all add: record_failure_def)

lemma has_trace_cong: "ex_traces u = ex_traces v \<Longrightarrow> has_trace u q = has_trace v q"
  by (simp add: has_trace_def)

lemma report_inv_failure:
  assumes st: "report_inv p st" and n: "n \<in> set (sp_nodes p)" "0 \<le> a"
    and u: "ex_traces u = ex_traces (record_failure n e a d st)"
    and some_flag: "ex_failed u \<or> ex_cleanup_failed u \<or> ex_timed_out u \<or> ex_total_timeout u \<or> ex_cancelled u"
    and timeout: "re_timeout e \<or> ex_timed_out st \<or> ex_total_timeout st \<or> ex_cancelled st \<Longrightarrow>
        ex_timed_out u \<or> ex_total_timeout u \<or> ex_cancelled u"
    and traced: "ex_total_timeout u \<Longrightarrow> ex_total_timeout st \<or> re_timeout e"
      "cleanup_once p \<Longrightarrow> ex_timed_out u \<Longrightarrow> ex_timed_out st \<or> re_timeout e"
  shows "report_inv p u"
proof -
  have ok: "ex_traces st i = Some t \<Longrightarrow> trace_ok p i t" for i t using st by (simp add: report_inv_def)
  have h: "has_trace u q = has_trace (record_failure n e a d st) q" for q by (rule has_trace_cong[OF u])
  have "ex_traces u i = Some t \<Longrightarrow> trace_ok p i t" for i t
    unfolding u by (rule record_failure_ok[OF ok n])
  moreover have "has_trace u TRACE_FAILED \<or> has_trace u TRACE_TIMEOUT" unfolding h using ok by (rule record_failure_has(1))
  moreover have "has_trace u TRACE_TIMEOUT" if "re_timeout e \<or> has_trace st TRACE_TIMEOUT"
    unfolding h using that record_failure_has(2,3)[OF ok] by blast
  moreover have "re_timeout e \<or> has_trace st TRACE_TIMEOUT" if "has_trace u TRACE_TIMEOUT"
    using that[unfolded h] record_failure_has(4)[OF ok] by blast
  ultimately show ?thesis
    using st some_flag timeout traced unfolding report_inv_def by metis
qed

lemma report_inv_calm:
  assumes st: "report_inv p st" and n: "n \<in> set (sp_nodes p)" "0 \<le> a" and s: "calm s"
  shows "report_inv p (record_trace n s a d x y st)"
proof -
  have ok: "ex_traces st i = Some t \<Longrightarrow> trace_ok p i t" for i t using st by (simp add: report_inv_def)
  have "trace_ok p i t" if "ex_traces (record_trace n s a d x y st) i = Some t" for i t
    using s by (intro record_traces_ok[OF ok n _ that]) (auto simp: calm_def)
  then show ?thesis
    using st record_trace_has(1,2)[where st = st, OF ok s] by (simp add: report_inv_def)
qed

lemma record_failure_traces [simp]:
  "ex_traces (record_failure n e a d (st\<lparr>ex_runtime := rt\<rparr>)) = ex_traces (record_failure n e a d st)"
  "ex_traces (record_failure n e a d (st\<lparr>ex_failed := b\<rparr>)) = ex_traces (record_failure n e a d st)"
  "ex_traces (record_failure n e a d (st\<lparr>ex_cancelled := b\<rparr>)) = ex_traces (record_failure n e a d st)"
  "ex_traces (record_failure n e a d (st\<lparr>ex_total_timeout := b\<rparr>)) = ex_traces (record_failure n e a d st)"
  "ex_traces (record_failure n e a d (st\<lparr>ex_timed_out := b\<rparr>)) = ex_traces (record_failure n e a d st)"
  "ex_traces (record_failure n e a d (st\<lparr>ex_stop_requested := b\<rparr>)) = ex_traces (record_failure n e a d st)"
  "ex_traces (record_failure n e a d (st\<lparr>ex_last_error := l\<rparr>)) = ex_traces (record_failure n e a d st)"
  by (simp_all add: record_failure_def record_trace_def Let_def)

lemma report_inv_flags:
  "report_inv p st \<Longrightarrow> report_inv p (st\<lparr>ex_runtime := rt\<rparr>)"
  "report_inv p st \<Longrightarrow> report_inv p (st\<lparr>ex_stop_requested := b\<rparr>)"
  "report_inv p st \<Longrightarrow> report_inv p (st\<lparr>ex_running_cleanup := b\<rparr>)"
  "report_inv p st \<Longrightarrow> report_inv p (st\<lparr>ex_cleanup_finalized := b\<rparr>)"
  by (simp_all add: report_inv_def)

lemma note_error_frame [simp]:
  "ex_traces (note_error n e st) = ex_traces (record_failure n e 0 0 st)"
  "ex_failed (note_error n e st) = ex_failed st" "ex_timed_out (note_error n e st) = ex_timed_out st"
  "ex_cleanup_failed (note_error n e st) = ex_cleanup_failed st"
  "ex_total_timeout (note_error n e st) \<longleftrightarrow> ex_total_timeout st \<or> re_total_timeout e"
  "ex_cancelled (note_error n e st) \<longleftrightarrow> ex_cancelled st \<or> \<not> re_total_timeout e \<and> is_cancel e"
  by (auto simp: note_error_def Let_def)

interpretation report_main: executor_invariant env p "report_inv p" for env :: "'w scenario_env" and p
proof unfold_locales
  fix st :: "'w executor" and n e f
  assume a: "report_inv p st" "n \<in> set (sp_nodes p)" "exact_error e"
    "f = (ex_failed st \<or> \<not> re_total_timeout e) \<or> f = (ex_failed st \<or> \<not> (re_total_timeout e \<or> is_cancel e))"
  show "report_inv p ((note_error n e st)\<lparr>ex_failed := f\<rparr>)"
    by (rule report_inv_failure[where a = 0 and d = 0 and e = e, OF a(1,2)]) (use a in \<open>auto simp: exact_error_def\<close>)
next
  fix st :: "'w executor" and n and e :: runtime_error and a d :: int
  assume a: "report_inv p st" "n \<in> set (sp_nodes p)" "0 \<le> a"
  show "report_inv p ((record_failure n e a d (st\<lparr>ex_timed_out := ex_timed_out st \<or> re_timeout e\<rparr>))
      \<lparr>ex_failed := True, ex_last_error := Some e\<rparr>)"
    by (rule report_inv_failure[where a = a and d = d and e = e, OF a(1,2)]) (use a in \<open>auto\<close>)
next
  fix st :: "'w executor" and n and e :: runtime_error and a d :: int
  assume a: "report_inv p st" "n \<in> set (sp_nodes p)" "re_timeout e" "0 \<le> a"
  show "report_inv p (record_failure n e a d (st\<lparr>ex_total_timeout := True, ex_failed := False,
      ex_stop_requested := True, ex_last_error := Some e\<rparr>))"
    by (rule report_inv_failure[where a = a and d = d and e = e, OF a(1,2)]) (use a in \<open>auto\<close>)
next
  fix st :: "'w executor" and n and e :: runtime_error and a d :: int
  assume a: "report_inv p st" "n \<in> set (sp_nodes p)" "0 \<le> a"
  show "report_inv p (record_failure n e a d (st\<lparr>ex_cancelled := True, ex_stop_requested := True\<rparr>))"
    by (rule report_inv_failure[where a = a and d = d and e = e, OF a(1,2)]) (use a in \<open>auto\<close>)
qed (simp_all add: report_inv_flags report_inv_calm)

interpretation report: cleanup_invariant env p "report_inv p" for env :: "'w scenario_env" and p
proof unfold_locales
  fix st :: "'w executor" and n e rt
  assume a: "report_inv p st" "n \<in> set (cleanup_nodes p)" "np_failure_policy n = Some RETRY_ONCE" "\<not> re_total_timeout e"
  show "report_inv p (st\<lparr>ex_runtime := rt, ex_total_timeout := ex_total_timeout st \<or> re_total_timeout e,
      ex_timed_out := ex_timed_out st \<or> re_timeout e\<rparr>)"
    using a by (auto simp: report_inv_def cleanup_once_def list_all_iff)
next
  fix st :: "'w executor" and n and e :: runtime_error and a d :: int and rt
  assume a: "report_inv p st" "n \<in> set (sp_nodes p)" "honest_error e" "0 \<le> a"
  show "report_inv p ((record_failure n e a d (st\<lparr>ex_runtime := rt,
      ex_total_timeout := ex_total_timeout st \<or> re_total_timeout e, ex_timed_out := ex_timed_out st \<or> re_timeout e\<rparr>))
        \<lparr>ex_cleanup_failed := True, ex_last_error := Some e\<rparr>)"
    by (rule report_inv_failure[where a = a and d = d and e = e, OF a(1,2)]) (use a in \<open>auto simp: honest_error_def\<close>)
next
  fix st :: "'w executor" and n e
  assume a: "report_inv p st" "n \<in> set (sp_nodes p)" "exact_error e"
  show "report_inv p (note_cleanup_error n e st)"
    by (rule report_inv_failure[where a = 0 and d = 0 and e = e, OF a(1,2)]) (use a in \<open>auto simp: note_cleanup_error_def exact_error_def\<close>)
qed (simp_all add: report_inv_flags)

section \<open>The report of an execution\<close>

lemma report_inv_initial: "report_inv p (initial_executor p w)"
  by (simp add: report_inv_def initial_executor_def has_trace_def)

lemma execution_report:
  assumes "execute_scenario env p w = Some (Some r, st)"
  shows "report_inv p st" "r = scenario_execution_result p st" "\<exists>st0. st = finalize env p st0"
  using report.execution_keeps[OF report_inv_initial assms] assms
  by (auto simp: execute_scenario_def returned_def split: option.splits sum.splits raised.splits)

lemma execution_result_traces [simp]: "sr_traces (scenario_execution_result p st) = ordered_traces p st"
  by (simp add: scenario_execution_result_def failure_result_def Let_def)

lemma record_skipped_frame [simp]:
  "ex_runtime (record_skipped n st) = ex_runtime st"
  "ex_cleanup_finalized (record_skipped n st) = ex_cleanup_finalized st"
  by (simp_all add: record_skipped_def record_trace_def Let_def)

lemma record_skipped_dom:
  "ex_traces st i \<noteq> None \<Longrightarrow> ex_traces (record_skipped n st) i \<noteq> None"
  "ex_cleanup_finalized st \<Longrightarrow> ex_traces (record_skipped n st) (np_node_id n) \<noteq> None"
  by (auto simp: record_skipped_def record_trace_def Let_def)

lemma fold_skipped:
  "ex_runtime (fold record_skipped ns st) = ex_runtime st"
  "ex_cleanup_finalized st \<Longrightarrow> n \<in> set ns \<or> ex_traces st (np_node_id n) \<noteq> None \<Longrightarrow>
     ex_traces (fold record_skipped ns st) (np_node_id n) \<noteq> None"
  by (induction ns arbitrary: st) (simp, simp, simp, metis fold_simps(2) record_skipped_dom record_skipped_frame(2) set_ConsD)

text \<open>Unless AI assertions are put off, every node has a trace at the end.\<close>

lemma finalize_complete:
  assumes "rt_pending_ai (ex_runtime (finalize env p st)) = []" "n \<in> set (sp_nodes p)"
  shows "ex_traces (finalize env p st) (np_node_id n) \<noteq> None"
proof -
  have "rt_pending_ai (ex_runtime st) = []"
    using assms(1) by (auto simp: finalize_def fill_missing_traces_def fold_skipped split: if_splits)
  then have "finalize env p st = fold record_skipped (sp_nodes p) (run_cleanups env p st)"
    by (simp add: finalize_def fill_missing_traces_def)
  moreover have "ex_cleanup_finalized (run_cleanups env p st)" by (simp add: run_cleanups_def)
  ultimately show ?thesis using fold_skipped(2) assms(2) by metis
qed

lemma ordered_traces_set: "t \<in> set (ordered_traces p st) \<longleftrightarrow> (\<exists>n \<in> set (sp_nodes p). ex_traces st (np_node_id n) = Some t)"
proof -
  have "t \<in> set (List.map_filter (\<lambda>n. ex_traces st (np_node_id n)) ns) \<longleftrightarrow> (\<exists>n \<in> set ns. ex_traces st (np_node_id n) = Some t)"
    for ns
    by (induction ns) (auto simp: List.map_filter_simps split: option.split)
  then show ?thesis by (simp add: ordered_traces_def)
qed

lemma ordered_traces_ids:
  assumes "report_inv p st"
  shows "map et_node_id (ordered_traces p st) =
    filter (\<lambda>i. ex_traces st i \<noteq> None) (map np_node_id (sp_nodes p))"
proof -
  have "map et_node_id (List.map_filter (\<lambda>n. ex_traces st (np_node_id n)) ns) =
      filter (\<lambda>i. ex_traces st i \<noteq> None) (map np_node_id ns)" for ns
    using assms by (induction ns) (auto simp: List.map_filter_simps report_inv_def trace_ok_def split: option.split)
  then show ?thesis by (simp add: ordered_traces_def)
qed

lemma reported_has_trace:
  assumes "report_inv p st"
  shows "q \<in> et_status ` set (ordered_traces p st) \<longleftrightarrow> has_trace st q"
proof
  assume "has_trace st q"
  then obtain i t where t: "ex_traces st i = Some t" "et_status t = q" by (auto simp: has_trace_def)
  then obtain n where "n \<in> set (sp_nodes p)" "np_node_id n = i" using report_inv_ok[OF assms t(1)] by (auto simp: trace_ok_def)
  then show "q \<in> et_status ` set (ordered_traces p st)" using t by (force simp: ordered_traces_set)
next
  assume "q \<in> et_status ` set (ordered_traces p st)"
  then obtain n t where "ex_traces st (np_node_id (n :: scenario_node_plan)) = Some t" "et_status t = q"
    by (auto simp: ordered_traces_set)
  then show "has_trace st q" unfolding has_trace_def by blast
qed

lemma reported_trace_ok:
  assumes "report_inv p st" "t \<in> set (ordered_traces p st)"
  shows "trace_ok p (et_node_id t) t"
proof -
  obtain n where "ex_traces st (np_node_id (n :: scenario_node_plan)) = Some t" using assms(2) by (auto simp: ordered_traces_set)
  then show ?thesis using report_inv_ok[OF assms(1)] by (metis trace_ok_def)
qed

lemma reported_calm:
  assumes "report_inv p st" "\<not> has_trace st TRACE_FAILED" "\<not> has_trace st TRACE_TIMEOUT" "t \<in> set (ordered_traces p st)"
  shows "calm (et_status t)"
proof -
  have "et_status t \<in> et_status ` set (ordered_traces p st)" using assms(4) by blast
  then have "et_status t \<noteq> TRACE_FAILED" "et_status t \<noteq> TRACE_TIMEOUT"
    using assms(2,3) reported_has_trace[OF assms(1)] by auto
  then show ?thesis using reported_trace_ok[OF assms(1,4)] by (auto simp: trace_ok_def calm_def)
qed

lemma outcome_flags:
  assumes "report_inv p st"
  shows "sr_outcome (scenario_execution_result p st) = EXEC_SUCCESS \<Longrightarrow> \<not> has_trace st TRACE_FAILED \<and> \<not> has_trace st TRACE_TIMEOUT"
    and "sr_outcome (scenario_execution_result p st) = EXEC_FAILED \<Longrightarrow> has_trace st TRACE_FAILED \<and> \<not> has_trace st TRACE_TIMEOUT"
    and "sr_outcome (scenario_execution_result p st) = EXEC_TIMEOUT \<Longrightarrow> cleanup_once p \<Longrightarrow> has_trace st TRACE_TIMEOUT"
  using assms by (auto simp: report_inv_def scenario_execution_result_def failure_result_def Let_def split: if_splits)

lemma success_pending:
  "sr_outcome (scenario_execution_result p st) = EXEC_SUCCESS \<Longrightarrow> sr_pending_ai (scenario_execution_result p st) = rt_pending_ai (ex_runtime st)"
  by (simp add: scenario_execution_result_def failure_result_def Let_def split: if_splits)

lemma report_facts:
  assumes ids: "unique_ids p" and run: "execute_scenario env p w = Some (Some r, st)"
  shows "distinct (map et_node_id (sr_traces r))
    \<and> (\<exists>P. map et_node_id (sr_traces r) = filter P (map np_node_id (sp_nodes p)))
    \<and> list_all (\<lambda>t. 0 \<le> et_duration_ms t \<and> et_duration_ms t \<le> 86400000 \<and> 0 \<le> et_retry_count t \<and> et_retry_count t \<le> 3
                   \<and> (\<forall>m. et_error_message t = Some m \<longrightarrow> length m \<le> 500)) (sr_traces r)
    \<and> (case sr_outcome r of
         EXEC_SUCCESS \<Rightarrow>
           list_all (\<lambda>t. et_status t = TRACE_SUCCESS \<or> et_status t = TRACE_SKIPPED) (sr_traces r)
           \<and> (sr_pending_ai r = [] \<longrightarrow> map et_node_id (sr_traces r) = map np_node_id (sp_nodes p))
       | EXEC_FAILED \<Rightarrow>
           list_ex (\<lambda>t. et_status t = TRACE_FAILED) (sr_traces r)
           \<and> \<not> list_ex (\<lambda>t. et_status t = TRACE_TIMEOUT) (sr_traces r)
       | EXEC_TIMEOUT \<Rightarrow> cleanup_once p \<longrightarrow> list_ex (\<lambda>t. et_status t = TRACE_TIMEOUT) (sr_traces r)
       | EXEC_CANCELLED \<Rightarrow> True)"
proof -
  note inv = execution_report(1)[OF run]
  obtain st0 where st0: "st = finalize env p st0" using execution_report(3)[OF run] by blast
  have r: "r = scenario_execution_result p st" by (rule execution_report(2)[OF run])
  have m: "map et_node_id (sr_traces r) = filter (\<lambda>i. ex_traces st i \<noteq> None) (map np_node_id (sp_nodes p))"
    unfolding r execution_result_traces by (rule ordered_traces_ids[OF inv])
  have d: "distinct (map et_node_id (sr_traces r))" unfolding m using ids by (simp add: unique_ids_def)
  have b: "list_all (\<lambda>t. 0 \<le> et_duration_ms t \<and> et_duration_ms t \<le> 86400000 \<and> 0 \<le> et_retry_count t \<and> et_retry_count t \<le> 3
      \<and> (\<forall>m. et_error_message t = Some m \<longrightarrow> length m \<le> 500)) (sr_traces r)"
    using reported_trace_ok[OF inv] by (fastforce simp: r list_all_iff trace_ok_def max_trace_duration_ms_def)
  have q: "list_ex (\<lambda>t. et_status t = q) (sr_traces r) \<longleftrightarrow> has_trace st q" for q
    unfolding reported_has_trace[OF inv, symmetric] by (auto simp: r list_ex_iff)
  have full: "map et_node_id (sr_traces r) = map np_node_id (sp_nodes p)"
    if "sr_outcome r = EXEC_SUCCESS" "sr_pending_ai r = []"
    using that success_pending[of p st] finalize_complete[of env p st0] unfolding m
    by (auto simp: r st0 filter_id_conv)
  have calm: "list_all (\<lambda>t. et_status t = TRACE_SUCCESS \<or> et_status t = TRACE_SKIPPED) (sr_traces r)"
    if "sr_outcome r = EXEC_SUCCESS"
    using reported_calm[OF inv] outcome_flags(1)[OF inv] that by (auto simp: r list_all_iff calm_def)
  show ?thesis
    using m d b full calm outcome_flags[OF inv] unfolding q by (auto simp: r split: exec_outcome.split)
qed

section \<open>Two executions\<close>

text \<open>A Runner whose HTTP client answers as listed. The first plan has one cleanup node that is retried once; in the
  second an AI assertion follows a request, and failures do not stop the Scenario.\<close>

definition sample_scenario_env :: "http_reply list scenario_env" where
  "sample_scenario_env =
     \<lparr>se_clock = Pair 0, se_stop_event = Pair False, se_deadline = None, se_str = (\<lambda>_. []), se_loads = (\<lambda>_. None),
      se_http_request = (\<lambda>_ _. Inr JNull), se_cleanup_request = (\<lambda>_ _. Inr JNull),
      se_api_execute = (\<lambda>_ w. case w of [] \<Rightarrow> (Target_Failure, []) | r # rs \<Rightarrow> (r, rs)),
      se_sleep = (\<lambda>_ w. (Inr (), w)), se_sql = (\<lambda>_ c w. (Inr (), c, w)), se_script = (\<lambda>_ _ c. (Script_Done, c))\<rparr>"

definition sample_node :: "string \<Rightarrow> node_type \<Rightarrow> failure_policy option \<Rightarrow> runtime_context \<Rightarrow> scenario_node_plan" where
  "sample_node i t f c = \<lparr>np_node_id = i, np_node_type = t, np_parent_id = None, np_enabled = True, np_timeout_ms = 1000,
     np_failure_policy = f, np_config = c\<rparr>"

definition sample_plan :: "bool \<Rightarrow> scenario_node_plan list \<Rightarrow> scenario_plan" where
  "sample_plan stop ns = \<lparr>sp_initial_context = [], sp_stop_on_failure = stop, sp_cleanup_policy = ''ALWAYS'',
     sp_max_loop_iterations = 10,
     sp_nodes = [sample_node ''s'' N_START None []] @ ns @ [sample_node ''e'' N_END None []]\<rparr>"

definition ok_reply :: http_reply where
  "ok_reply = Reply \<lparr>rsn_status_code = 200, rsn_json_body = JNull, rsn_text = None, rsn_headers = [], rsn_cookies = [],
     rsn_response_time_ms = None\<rparr>"

definition retry_plan :: scenario_plan where
  "retry_plan = sample_plan True [sample_node ''c'' N_API_CLEANUP (Some RETRY_ONCE) []]"

definition ai_plan :: scenario_plan where
  "ai_plan = sample_plan False [sample_node ''h'' N_HTTP None [], sample_node ''a'' N_AI_ASSERTION None []]"

definition result_summary ::
  "(scenario_result option \<times> 'w executor) option
     \<Rightarrow> (exec_outcome \<times> (string \<times> trace_status) list \<times> (string \<times> response_snapshot) list) option" where
  "result_summary x =
     (case x of
        Some (Some r, _) \<Rightarrow> Some (sr_outcome r, map (\<lambda>t. (et_node_id t, et_status t)) (sr_traces r), sr_pending_ai r)
      | _ \<Rightarrow> None)"

lemma result_summaryE:
  assumes "result_summary x = Some (outcome, traces, pending)"
  obtains r st where "x = Some (Some r, st)" "sr_outcome r = outcome"
    "map (\<lambda>t. (et_node_id t, et_status t)) (sr_traces r) = traces" "sr_pending_ai r = pending"
  using assms by (auto simp: result_summary_def split: option.splits prod.splits)

lemma retry_plan_run:
  "result_summary (execute_scenario sample_scenario_env retry_plan [Target_Timeout, ok_reply]) =
     Some (EXEC_TIMEOUT, [(''s'', TRACE_SUCCESS), (''c'', TRACE_SUCCESS), (''e'', TRACE_SUCCESS)], [])"
  by code_simp

lemma ai_plan_run:
  "result_summary (execute_scenario sample_scenario_env ai_plan [Target_Failure]) =
     Some (EXEC_FAILED, [(''s'', TRACE_SUCCESS), (''h'', TRACE_FAILED), (''a'', TRACE_FAILED), (''e'', TRACE_SUCCESS)], [])"
  by code_simp

lemma sample_ids: "unique_ids retry_plan" "unique_ids ai_plan"
  by (simp_all add: unique_ids_def retry_plan_def ai_plan_def sample_plan_def sample_node_def)

section \<open>Guarantees\<close>



text \<open>C20. Whatever its nodes do, a Scenario reports at most one trace per node, in the order of the plan, each with a
  duration of at most a day, at most three retries and a message of at most 500 characters; and the traces fit the
  outcome. SUCCESS comes with traces of successful and skipped nodes only, one for every node unless AI assertions are
  put off; FAILED with a failed node and none that timed out; TIMEOUT with a node that timed out, if no cleanup node
  is retried.\<close>

theorem scenario_traces_fit_the_outcome:
  assumes ids: "unique_ids p" and run: "execute_scenario env p w = Some (Some r, st)"
  shows "distinct (map et_node_id (sr_traces r))
    \<and> (\<exists>P. map et_node_id (sr_traces r) = filter P (map np_node_id (sp_nodes p)))
    \<and> list_all (\<lambda>t. 0 \<le> et_duration_ms t \<and> et_duration_ms t \<le> 86400000 \<and> 0 \<le> et_retry_count t \<and> et_retry_count t \<le> 3
                   \<and> (\<forall>m. et_error_message t = Some m \<longrightarrow> length m \<le> 500)) (sr_traces r)
    \<and> (case sr_outcome r of
         EXEC_SUCCESS \<Rightarrow>
           list_all (\<lambda>t. et_status t = TRACE_SUCCESS \<or> et_status t = TRACE_SKIPPED) (sr_traces r)
           \<and> (sr_pending_ai r = [] \<longrightarrow> map et_node_id (sr_traces r) = map np_node_id (sp_nodes p))
       | EXEC_FAILED \<Rightarrow>
           list_ex (\<lambda>t. et_status t = TRACE_FAILED) (sr_traces r)
           \<and> \<not> list_ex (\<lambda>t. et_status t = TRACE_TIMEOUT) (sr_traces r)
       | EXEC_TIMEOUT \<Rightarrow> cleanup_once p \<longrightarrow> list_ex (\<lambda>t. et_status t = TRACE_TIMEOUT) (sr_traces r)
       | EXEC_CANCELLED \<Rightarrow> True)"
  by (rule report_facts[OF assms])

theorem scenario_traces_fit_the_outcome_witness:
  "\<exists>r st. execute_scenario sample_scenario_env ai_plan [Target_Failure] = Some (Some r, st)
     \<and> sr_outcome r = EXEC_FAILED \<and> distinct (map et_node_id (sr_traces r))
     \<and> list_ex (\<lambda>t. et_status t = TRACE_FAILED) (sr_traces r)"
proof -
  obtain r st where r: "execute_scenario sample_scenario_env ai_plan [Target_Failure] = Some (Some r, st)"
    "sr_outcome r = EXEC_FAILED"
    using ai_plan_run by (rule result_summaryE)
  then show ?thesis using scenario_traces_fit_the_outcome[OF sample_ids(2) r(1)] by auto
qed

end
