(* ===== verification/Scenario_Completion.thy ===== *)
theory Scenario_Completion
  imports Scenario_Guarantees Run_Examples
begin

text \<open>
  The report of a Scenario between the Runner and the control plane: what \<open>complete_scenario_execution\<close> makes of the
  traces that \<open>ScenarioExecutor\<close> produced.
\<close>

section \<open>Reporting a result\<close>

text \<open>The completion request of \<open>_complete_scenario_result\<close> for a result without AI assertions put off.\<close>

definition report_of :: "string \<Rightarrow> int \<Rightarrow> scenario_result \<Rightarrow> scenario_completion" where
  "report_of message_id case_run_id r =
     \<lparr>sx_message_id = message_id, sx_case_run_id = case_run_id, sx_outcome = sr_outcome r, sx_traces = sr_traces r,
      sx_error_type = sr_error_type r, sx_error_message = sr_error_message r, sx_evaluation_token = None\<rparr>"

definition ai_node_ids :: "scenario_node list \<Rightarrow> string list" where
  "ai_node_ids dsl = map sn_id (filter (\<lambda>n. sn_enabled n \<and> sn_ai_assertion n) dsl)"

text \<open>A started Scenario Run: it, its only CaseRun and all StepRuns are RUNNING.\<close>

definition running_scenario :: "exec_context \<Rightarrow> bool" where
  "running_scenario cx \<longleftrightarrow>
     tr_status (cx_run cx) = RUN_RUNNING \<and> tr_case_runs (cx_run cx) = [cx_case cx]
     \<and> nd_status (cx_case cx) = NODE_RUNNING \<and> cr_step_runs (cx_case cx) \<noteq> []
     \<and> list_all (\<lambda>s. nd_status s = NODE_RUNNING) (cr_step_runs (cx_case cx))"

lemma check_traces_ok:
  "distinct (map et_node_id ts) \<Longrightarrow> set (map et_node_id ts) \<subseteq> set ids \<Longrightarrow> set (map et_node_id ts) \<inter> set seen = {} \<Longrightarrow>
     check_traces ids seen ts = Inr ()"
  by (induction ts arbitrary: seen) auto

lemma trace_of_get_row: "trace_of ts i = get_row et_node_id (rev ts) i"
  by (simp add: trace_of_def get_row_def)

lemma trace_of_member: "distinct (map et_node_id ts) \<Longrightarrow> t \<in> set ts \<Longrightarrow> trace_of ts (et_node_id t) = Some t"
  unfolding trace_of_get_row by (rule get_row_distinct) (simp_all add: rev_map[symmetric])

lemma trace_of_in: "trace_of ts i = Some t \<Longrightarrow> t \<in> set ts \<and> et_node_id t = i"
  by (auto simp: trace_of_def dest: find_SomeD)

lemma trace_of_iff: "distinct (map et_node_id ts) \<Longrightarrow> trace_of ts i = Some t \<longleftrightarrow> t \<in> set ts \<and> et_node_id t = i"
  using trace_of_member[of ts t] trace_of_in[of ts i t] by auto

section \<open>Step results\<close>

definition quiet_statuses :: "run_node_status set" where
  "quiet_statuses = {NODE_SUCCESS, NODE_SKIPPED, NODE_FAILED, NODE_TIMEOUT}"

lemma quiet_edge: "d \<in> quiet_statuses \<Longrightarrow> node_machine.edge NODE_RUNNING d"
  by (auto simp: quiet_statuses_def node_machine.edge_def)

lemma aggregate_quiet:
  assumes "set ss \<subseteq> quiet_statuses"
  shows "aggregate_desired ss =
    (if NODE_TIMEOUT \<in> set ss then NODE_TIMEOUT else if NODE_FAILED \<in> set ss then NODE_FAILED else NODE_SUCCESS)"
proof -
  have "list_all terminal_node_status ss" using assms by (auto simp: list_all_iff quiet_statuses_def)
  moreover have "NODE_CANCELLING \<notin> set ss" "NODE_ASSIGNED \<notin> set ss" "NODE_RUNNING \<notin> set ss" "NODE_CANCELLED \<notin> set ss"
    "NODE_REVIEW \<notin> set ss"
    using assms by (auto simp: quiet_statuses_def)
  ultimately show ?thesis by (simp add: aggregate_desired_def)
qed

text \<open>The status a running step takes: the reported one, or that of the outcome.\<close>

definition step_result :: "exec_outcome \<Rightarrow> (string \<rightharpoonup> run_node_status) \<Rightarrow> step_run \<Rightarrow> run_node_status" where
  "step_result effective by_node s =
     (case by_node (sr_node_id s) of
        Some d \<Rightarrow> d
      | None \<Rightarrow> if effective = EXEC_FAILED then NODE_SKIPPED else NODE_TIMEOUT)"

lemma scenario_step_result:
  assumes "nd_status s = NODE_RUNNING" "by_node (sr_node_id s) = None \<Longrightarrow> effective = EXEC_FAILED \<or> effective = EXEC_TIMEOUT"
    "step_result effective by_node s \<in> quiet_statuses"
  shows "\<exists>s'. scenario_step now effective ts by_node t m s = Inr s' \<and> nd_status s' = step_result effective by_node s"
proof -
  have "\<exists>s'. set_node now (step_result effective by_node s) upd s = Inr s'
      \<and> nd_status s' = step_result effective by_node s" for upd
    using set_node_ok[of s "step_result effective by_node s" now upd] quiet_edge[OF assms(3)] assms(1)
    by (auto dest: set_node_status_is)
  then show ?thesis
    using assms(1,2)
    by (cases "by_node (sr_node_id s)") (auto simp: scenario_step_def step_result_def)
qed

lemma close_case_result:
  assumes cx: "running_scenario cx" and eff: "effective \<noteq> EXEC_CANCELLED"
    and m: "scenario_status_by_node effective (sx_traces payload) (cr_step_runs (cx_case cx)) = Inr by_node"
    and s: "\<And>s. s \<in> set (cr_step_runs (cx_case cx)) \<Longrightarrow> step_result effective by_node s \<in> quiet_statuses
          \<and> (by_node (sr_node_id s) = None \<longrightarrow> effective = EXEC_FAILED \<or> effective = EXEC_TIMEOUT)"
  shows "\<exists>c'. scenario_close_case now cx effective payload = Inr c'
    \<and> nd_status c' = aggregate_desired (map (step_result effective by_node) (cr_step_runs (cx_case cx)))
    \<and> cr_id c' = cr_id (cx_case cx)"
proof -
  let ?c = "cx_case cx" and ?t = "safe_error_max 100 (sx_error_type payload)"
    and ?m = "safe_error_max 500 (sx_error_message payload)"
  have run: "nd_status s = NODE_RUNNING" if "s \<in> set (cr_step_runs ?c)" for s
    using cx that by (auto simp: running_scenario_def list_all_iff)
  obtain ss where ss: "res_map (scenario_step now effective (sx_traces payload) by_node ?t ?m) (cr_step_runs ?c) = Inr ss"
    using res_map_total[of "cr_step_runs ?c"] scenario_step_result[OF run] s by metis
  have step: "nd_status y = step_result effective by_node x"
    if "x \<in> set (cr_step_runs ?c)" "scenario_step now effective (sx_traces payload) by_node ?t ?m x = Inr y" for x y
    using scenario_step_result[OF run[OF that(1)], of by_node effective now "sx_traces payload" ?t ?m] s[OF that(1)] that(2)
    by auto
  have "list_all2 (\<lambda>x y. scenario_step now effective (sx_traces payload) by_node ?t ?m x = Inr y) (cr_step_runs ?c) ss"
    using ss by (simp add: res_map_Inr_iff)
  then have "list_all2 (\<lambda>x y. nd_status y = step_result effective by_node x) (cr_step_runs ?c) ss"
    by (rule list.rel_mono_strong) (simp add: step)
  then have st: "map nd_status ss = map (step_result effective by_node) (cr_step_runs ?c)"
    by (simp add: list_all2_conv_all_nth list_eq_iff_nth_eq)
  let ?c1 = "?c\<lparr>cr_step_runs := ss\<rparr>" and ?d = "aggregate_desired (map (step_result effective by_node) (cr_step_runs ?c))"
  have "set (map (step_result effective by_node) (cr_step_runs ?c)) \<subseteq> quiet_statuses" using s by auto
  from aggregate_quiet[OF this] have q: "terminal_node_status ?d" "?d \<noteq> NODE_RUNNING" "?d \<noteq> NODE_CREATED"
    by (simp_all split: if_splits)
  have ne: "ss \<noteq> []" using st cx by (auto simp: running_scenario_def)
  have "nd_status (aggregate_case_status now ?c1) = ?d" "cr_id (aggregate_case_status now ?c1) = cr_id ?c"
    using ne q cx by (auto simp: aggregate_case_status_def Let_def st running_scenario_def)
  then show ?thesis
    using eff m ss by (simp add: scenario_close_case_def update_case_steps_def Let_def)
qed

definition reported_map :: "exec_trace list \<Rightarrow> string \<rightharpoonup> run_node_status" where
  "reported_map ts i = map_option (\<lambda>t. trace_node_status (et_status t)) (trace_of ts i)"

lemma reported_map_member:
  "distinct (map et_node_id ts) \<Longrightarrow> t \<in> set ts \<Longrightarrow> reported_map ts (et_node_id t) = Some (trace_node_status (et_status t))"
  by (simp add: reported_map_def trace_of_member)

lemma reported_map_status: "reported_map ts i = Some d \<Longrightarrow> d \<in> set (reported_statuses ts)"
  by (auto simp: reported_map_def reported_statuses_def dest: trace_of_in)

lemma status_by_node_cases:
  assumes "effective = EXEC_SUCCESS \<Longrightarrow> set (reported_statuses ts) \<subseteq> {NODE_SUCCESS, NODE_SKIPPED}"
    and "effective = EXEC_FAILED \<Longrightarrow> NODE_FAILED \<in> set (reported_statuses ts)" and "effective \<noteq> EXEC_CANCELLED"
  shows "scenario_status_by_node effective ts ss =
    Inr (if effective = EXEC_TIMEOUT \<and> NODE_TIMEOUT \<notin> set (reported_statuses ts) then blame_first ss NODE_TIMEOUT (reported_map ts)
         else reported_map ts)"
  using assms by (cases effective) (auto simp: scenario_status_by_node_def Let_def reported_map_def[abs_def])

lemma blame_running:
  assumes "ss \<noteq> []" "list_all (\<lambda>s. nd_status s = NODE_RUNNING) ss"
  shows "blame_first ss st m = m(sr_node_id (hd ss) \<mapsto> st)"
  using assms by (cases ss) (auto simp: blame_first_def first_unfinished_def)

text \<open>The report fixes the result of the CaseRun: every step takes a reported status, and they add up to the outcome.\<close>

lemma report_closes_case:
  assumes ids: "unique_ids p" and run: "execute_scenario env p w = Some (Some r, st)"
    and pending: "sr_pending_ai r = []" and eff: "sr_outcome r \<noteq> EXEC_CANCELLED"
    and cx: "running_scenario cx" and steps: "sr_node_id ` set (cr_step_runs (cx_case cx)) = np_node_id ` set (sp_nodes p)"
  shows "\<exists>c'. scenario_close_case now cx (sr_outcome r) (report_of i k r) = Inr c'
    \<and> nd_status c' = outcome_node_status (sr_outcome r) \<and> cr_id c' = cr_id (cx_case cx)"
proof -
  let ?ts = "sr_traces r" and ?ss = "cr_step_runs (cx_case cx)" and ?e = "sr_outcome r"
  note f = report_facts[OF ids run]
  have d: "distinct (map et_node_id ?ts)" using f by blast
  have sub: "et_node_id ` set ?ts \<subseteq> np_node_id ` set (sp_nodes p)"
    using f by (metis filter_is_subset image_set)
  have "et_status t \<in> {TRACE_SUCCESS, TRACE_SKIPPED, TRACE_FAILED, TRACE_TIMEOUT}" if "t \<in> set ?ts" for t
    using reported_trace_ok[OF execution_report(1)[OF run]] execution_report(2)[OF run] that by (simp add: trace_ok_def)
  then have quiet: "set (reported_statuses ?ts) \<subseteq> quiet_statuses"
    by (fastforce simp: reported_statuses_def quiet_statuses_def)
  have S: "?e = EXEC_SUCCESS \<Longrightarrow> set (reported_statuses ?ts) \<subseteq> {NODE_SUCCESS, NODE_SKIPPED}"
    using f by (fastforce simp: reported_statuses_def list_all_iff)
  have S': "?e = EXEC_SUCCESS \<Longrightarrow> et_node_id ` set ?ts = np_node_id ` set (sp_nodes p)"
    using f pending by simp (metis image_set)
  have F: "?e = EXEC_FAILED \<Longrightarrow> NODE_FAILED \<in> set (reported_statuses ?ts)"
    using f by (force simp: reported_statuses_def list_ex_iff)
  have F': "?e = EXEC_FAILED \<Longrightarrow> NODE_TIMEOUT \<notin> set (reported_statuses ?ts)"
    using f by (auto simp: reported_statuses_def list_ex_iff elim!: trace_node_status.elims[OF sym])
  define m where "m = (if ?e = EXEC_TIMEOUT \<and> NODE_TIMEOUT \<notin> set (reported_statuses ?ts)
      then blame_first ?ss NODE_TIMEOUT (reported_map ?ts) else reported_map ?ts)"
  have m: "scenario_status_by_node ?e ?ts ?ss = Inr m" unfolding m_def by (rule status_by_node_cases[OF S F eff])
  have r: "?ss \<noteq> []" "list_all (\<lambda>s. nd_status s = NODE_RUNNING) ?ss" using cx by (auto simp: running_scenario_def)
  have in_m: "m j = Some d \<Longrightarrow> d \<in> set (reported_statuses ?ts) \<or> ?e = EXEC_TIMEOUT \<and> d = NODE_TIMEOUT" for j d
    using reported_map_status[of ?ts j d] by (auto simp: m_def blame_running[OF r] split: if_splits)
  have traced: "j \<in> sr_node_id ` set ?ss \<and> m j = Some (trace_node_status (et_status t))"
    if "t \<in> set ?ts" "et_node_id t = j" "?e = EXEC_TIMEOUT \<Longrightarrow> NODE_TIMEOUT \<in> set (reported_statuses ?ts)" for t j
    using reported_map_member[OF d that(1)] that(2,3) sub steps that(1) by (auto simp: m_def)
  have not_m: "?e = EXEC_FAILED \<or> ?e = EXEC_TIMEOUT" if "s \<in> set ?ss" "m (sr_node_id s) = None" for s
  proof (rule ccontr)
    assume "\<not> (?e = EXEC_FAILED \<or> ?e = EXEC_TIMEOUT)"
    then have e: "?e = EXEC_SUCCESS" using eff by (cases ?e) auto
    have "sr_node_id s \<in> et_node_id ` set ?ts" unfolding S'[OF e] steps[symmetric] using that(1) by blast
    then obtain t where t: "t \<in> set ?ts" "et_node_id t = sr_node_id s" by force
    then show False using traced[OF t] e that(2) by simp
  qed
  have res: "step_result ?e m s \<in> quiet_statuses" for s
    using in_m quiet by (fastforce simp: step_result_def quiet_statuses_def split: option.split)
  have agg: "aggregate_desired (map (step_result ?e m) ?ss) = outcome_node_status ?e"
  proof -
    have "set (map (step_result ?e m) ?ss) \<subseteq> quiet_statuses" using res by auto
    note a = aggregate_quiet[OF this]
    have hit: "q \<in> step_result ?e m ` set ?ss"
      if q: "q \<in> set (reported_statuses ?ts)" and w: "?e = EXEC_TIMEOUT \<Longrightarrow> NODE_TIMEOUT \<in> set (reported_statuses ?ts)" for q
    proof -
      obtain t where t: "t \<in> set ?ts" "q = trace_node_status (et_status t)"
        using q unfolding reported_statuses_def by auto
      obtain s where "s \<in> set ?ss" "m (sr_node_id s) = Some q" using traced[OF t(1) refl w] t(2) by auto
      then show ?thesis by (intro image_eqI[of _ _ s]) (simp_all add: step_result_def)
    qed
    have blamed: "NODE_TIMEOUT \<in> step_result ?e m ` set ?ss"
      if "?e = EXEC_TIMEOUT" "NODE_TIMEOUT \<notin> set (reported_statuses ?ts)"
      using that r(1) by (intro image_eqI[of _ _ "hd ?ss"]) (simp_all add: step_result_def m_def blame_running[OF r])
    have other: "step_result ?e m s \<in> set (reported_statuses ?ts) \<union> {NODE_SKIPPED}"
      if "s \<in> set ?ss" "?e \<noteq> EXEC_TIMEOUT" for s
      using in_m not_m[OF that(1)] that(2) by (auto simp: step_result_def split: option.split)
    show ?thesis
    proof (cases ?e)
      case EXEC_SUCCESS
      then show ?thesis using a other S by (fastforce split: if_splits)
    next
      case EXEC_FAILED
      then have "NODE_FAILED \<in> step_result ?e m ` set ?ss" using hit F by auto
      moreover have "NODE_TIMEOUT \<notin> step_result ?e m ` set ?ss" using other F' EXEC_FAILED by fastforce
      ultimately show ?thesis using a EXEC_FAILED by simp
    next
      case EXEC_TIMEOUT
      then show ?thesis using a hit blamed by (cases "NODE_TIMEOUT \<in> set (reported_statuses ?ts)") auto
    qed (use eff in simp)
  qed
  have "sx_traces (report_of i k r) = ?ts" by (simp add: report_of_def)
  then show ?thesis
    using close_case_result[OF cx eff, of "report_of i k r" m now] m res not_m agg by auto
qed

section \<open>The answer of the control plane\<close>

lemma finish_traced_ok:
  assumes "running_scenario cx" "eff \<noteq> EXEC_CANCELLED" "nd_status c' = outcome_node_status eff" "cr_id c' = cr_id (cx_case cx)"
  shows "\<exists>run2. finish_traced now cx c' force eff t m = Inr run2 \<and> tr_status run2 = outcome_run_status eff"
proof -
  define run1 where "run1 = recompute_summary ((cx_run cx)\<lparr>tr_case_runs := put_row cr_id c' (tr_case_runs (cx_run cx)),
      tr_force_stopped := force\<rparr>)"
  have run1: "tr_case_runs run1 = [c']" "tr_status run1 = RUN_RUNNING"
    using assms(1,4) by (simp_all add: run1_def recompute_summary_def Let_def running_scenario_def)
  have ensure: "ensure_terminal_run_matches_children run1 (outcome_run_status eff) = Inr ()"
    using assms(2,3) run1 by (cases eff) (simp_all add: ensure_terminal_run_matches_children_def)
  have "run_machine.edge (tr_status run1) (outcome_run_status eff)"
    using assms(2) run1 by (cases eff) (simp_all add: run_machine.edge_def)
  then obtain b run2 where "set_run_status now run1 (outcome_run_status eff) (error_run_update (outcome_run_status eff) t m) = Inr (b, run2)"
    using set_run_status_ok by blast
  then show ?thesis
    using ensure set_run_status_status by (auto simp: finish_traced_def Let_def run1_def[symmetric])
qed

definition ai_open :: "scenario_node list \<Rightarrow> scenario_result \<Rightarrow> bool" where
  "ai_open dsl r \<longleftrightarrow>
     ai_node_ids dsl \<noteq> []
     \<and> (sr_outcome r = EXEC_SUCCESS
        \<or> list_ex (\<lambda>n. list_ex (\<lambda>t. et_node_id t = n \<and> et_status t \<noteq> TRACE_SKIPPED) (sr_traces r)) (ai_node_ids dsl))"

lemma ai_evaluation_of_report:
  assumes "distinct (map et_node_id (sr_traces r))"
  shows "scenario_ai_evaluation e cx dsl (sr_outcome r) (report_of i k r) =
    (if ai_open dsl r then run_conflict ''AI assertion without trusted evaluation'' else Inr [])"
proof -
  have "(case trace_of (sr_traces r) n of None \<Rightarrow> False | Some t \<Rightarrow> et_status t \<noteq> TRACE_SKIPPED)
      \<longleftrightarrow> list_ex (\<lambda>t. et_node_id t = n \<and> et_status t \<noteq> TRACE_SKIPPED) (sr_traces r)" for n
  proof (cases "trace_of (sr_traces r) n")
    case None
    then have "\<not> (t \<in> set (sr_traces r) \<and> et_node_id t = n)" for t using trace_of_iff[OF assms, of n t] by simp
    then show ?thesis using None by (auto simp: list_ex_iff)
  next
    case (Some t)
    then have "t' \<in> set (sr_traces r) \<and> et_node_id t' = n \<longleftrightarrow> t' = t" for t' using trace_of_iff[OF assms, of n t'] by auto
    then show ?thesis unfolding list_ex_iff Some by simp metis
  qed
  then show ?thesis
    by (simp add: scenario_ai_evaluation_def report_of_def ai_open_def ai_node_ids_def)
qed

lemma report_validates:
  assumes ids: "unique_ids p" and run: "execute_scenario env p w = Some (Some r, st)" and pending: "sr_pending_ai r = []"
    and dsl: "map sn_id dsl = map np_node_id (sp_nodes p)"
  shows "validate_scenario_traces dsl (report_of i k r) = Inr ()"
proof -
  note f = report_facts[OF ids run]
  then obtain P where "map et_node_id (sr_traces r) = filter P (map np_node_id (sp_nodes p))" by blast
  then have "set (map et_node_id (sr_traces r)) \<subseteq> set (map sn_id dsl)" unfolding dsl by (metis filter_is_subset)
  then have "check_traces (map sn_id dsl) [] (sr_traces r) = Inr ()" using f by (intro check_traces_ok) auto
  moreover have "sr_outcome r = EXEC_SUCCESS \<Longrightarrow> map et_node_id (sr_traces r) = map sn_id dsl" using f pending dsl by simp
  ultimately show ?thesis by (simp add: validate_scenario_traces_def report_of_def Let_def del: set_map)
qed

text \<open>C22. A Runner reports a Scenario that has neither been cancelled nor put AI assertions off. The control plane
  accepts the report of the running Run exactly when no AI assertion is left open: none is enabled, or the outcome is not
  SUCCESS and all of them were skipped. Then the CaseRun ends with the reported outcome and the stored result holds the
  reported traces. Otherwise, as when an AI assertion failed on the Runner, the report is refused.\<close>

theorem scenario_report_is_accepted_unless_ai_is_open:
  assumes ids: "unique_ids p" and run: "execute_scenario env p w = Some (Some r, st)"
    and pending: "sr_pending_ai r = []" and eff: "sr_outcome r \<noteq> EXEC_CANCELLED"
    and cx: "running_scenario cx" and steps: "sr_node_id ` set (cr_step_runs (cx_case cx)) = np_node_id ` set (sp_nodes p)"
    and dsl: "en_scenario e (cx_run cx) = Inr dsl" "map sn_id dsl = map np_node_id (sp_nodes p)"
  shows "(ai_open dsl r \<longrightarrow> complete_scenario_new e wd cx (report_of i k r) = run_conflict ''AI assertion without trusted evaluation'')
    \<and> (\<not> ai_open dsl r \<longrightarrow> (\<exists>rsp wd'. complete_scenario_new e wd cx (report_of i k r) = Inr (rsp, wd')
         \<and> tc_case_run_status rsp = outcome_node_status (sr_outcome r)
         \<and> er_traces (tc_result rsp) = map scenario_trace_audit (sr_traces r)))"
proof -
  have d: "distinct (map et_node_id (sr_traces r))" using report_facts[OF ids run] by blast
  have st: "tr_status (cx_run cx) = RUN_RUNNING" "nd_status (cx_case cx) = NODE_RUNNING" using cx by (simp_all add: running_scenario_def)
  have set: "set (map sr_node_id (cr_step_runs (cx_case cx))) = set (map sn_id dsl)" using steps dsl(2) by simp
  have guard: "completion_guard False RUN_RUNNING NODE_RUNNING = Inr ()" by (simp add: completion_guard_def)
  obtain c' where c': "scenario_close_case (en_now e) cx (sr_outcome r) (report_of i k r) = Inr c'"
    "nd_status c' = outcome_node_status (sr_outcome r)" "cr_id c' = cr_id (cx_case cx)"
    using report_closes_case[OF ids run pending eff cx steps] by blast
  have out: "sx_outcome (report_of i k r) = sr_outcome r" "sx_traces (report_of i k r) = sr_traces r" by (simp_all add: report_of_def)
  obtain run2 where fin: "\<And>force t m. finish_traced (en_now e) cx c' force (sr_outcome r) t m = Inr (run2 force t m)"
    using finish_traced_ok[OF cx eff c'(2,3)] by metis
  note ai = ai_evaluation_of_report[OF d, of e cx dsl i k]
  note simps = complete_scenario_new_def dsl(1) st guard report_validates[OF ids run pending dsl(2)] ai set out c'(1) fin eff
  show ?thesis
    using set by (auto simp: simps c'(2) Let_def traced_result_row_def)
qed

section \<open>Two reports\<close>

text \<open>The started Run of \<open>Run_Examples\<close>, as if its CaseRun were the only one and had steps for the given nodes.\<close>

definition scenario_context :: "string list \<Rightarrow> exec_context" where
  "scenario_context ids =
     (let cx = projr (execution_context (ex_env 6) ex_w5 ''run_1'' ''secret'' ''msg_1'' (Some 1));
          s = hd (cr_step_runs (cx_case cx));
          c = (cx_case cx)\<lparr>cr_step_runs := map (\<lambda>i. s\<lparr>sr_node_id := i\<rparr>) ids\<rparr>
      in cx\<lparr>cx_case := c, cx_run := (cx_run cx)\<lparr>tr_case_runs := [c]\<rparr>\<rparr>)"

definition scenario_dsl :: "string list \<Rightarrow> scenario_node list" where
  "scenario_dsl ids = map (\<lambda>i. \<lparr>sn_id = i, sn_enabled = True, sn_ai_assertion = (i = ''a'')\<rparr>) ids"

definition scenario_control :: "string list \<Rightarrow> env" where
  "scenario_control ids = (ex_env 6)\<lparr>en_scenario := \<lambda>_. Inr (scenario_dsl ids)\<rparr>"

lemma scenario_context_running: "ids \<noteq> [] \<Longrightarrow> running_scenario (scenario_context ids)"
proof -
  let ?cx = "projr (execution_context (ex_env 6) ex_w5 ''run_1'' ''secret'' ''msg_1'' (Some 1))"
  have "tr_status (cx_run ?cx) = RUN_RUNNING \<and> nd_status (cx_case ?cx) = NODE_RUNNING
      \<and> nd_status (hd (cr_step_runs (cx_case ?cx))) = NODE_RUNNING"
    by code_simp
  then show "ids \<noteq> [] \<Longrightarrow> running_scenario (scenario_context ids)"
    by (simp add: running_scenario_def scenario_context_def Let_def list_all_iff)
qed

lemma scenario_context_steps: "sr_node_id ` set (cr_step_runs (cx_case (scenario_context ids))) = set ids"
  by (simp add: scenario_context_def Let_def image_image)

lemma scenario_control_dsl: "en_scenario (scenario_control ids) run = Inr (scenario_dsl ids)" "map sn_id (scenario_dsl ids) = ids"
  by (simp_all add: scenario_control_def scenario_dsl_def comp_def)

lemma sample_node_ids: "map np_node_id (sp_nodes retry_plan) = [''s'', ''c'', ''e'']"
  "map np_node_id (sp_nodes ai_plan) = [''s'', ''h'', ''a'', ''e'']"
  by (simp_all add: retry_plan_def ai_plan_def sample_plan_def sample_node_def)

lemma sample_steps:
  "sr_node_id ` set (cr_step_runs (cx_case (scenario_context [''s'', ''c'', ''e'']))) = np_node_id ` set (sp_nodes retry_plan)"
  "sr_node_id ` set (cr_step_runs (cx_case (scenario_context [''s'', ''h'', ''a'', ''e'']))) = np_node_id ` set (sp_nodes ai_plan)"
  using arg_cong[OF sample_node_ids(1), of set] arg_cong[OF sample_node_ids(2), of set]
  by (simp_all add: scenario_context_steps)

lemma sample_dsl:
  "map sn_id (scenario_dsl [''s'', ''c'', ''e'']) = map np_node_id (sp_nodes retry_plan)"
  "map sn_id (scenario_dsl [''s'', ''h'', ''a'', ''e'']) = map np_node_id (sp_nodes ai_plan)"
  by (simp_all only: scenario_control_dsl(2) sample_node_ids)

theorem scenario_report_is_accepted_unless_ai_is_open_witness:
  "(\<exists>r st. execute_scenario sample_scenario_env ai_plan [Target_Failure] = Some (Some r, st) \<and> sr_outcome r = EXEC_FAILED
      \<and> complete_scenario_new (scenario_control [''s'', ''h'', ''a'', ''e'']) ex_w5
          (scenario_context [''s'', ''h'', ''a'', ''e'']) (report_of ''msg_1'' 1 r)
        = run_conflict ''AI assertion without trusted evaluation'')
   \<and> (\<exists>r st rsp w'. execute_scenario sample_scenario_env retry_plan [Target_Timeout, ok_reply] = Some (Some r, st)
      \<and> complete_scenario_new (scenario_control [''s'', ''c'', ''e'']) ex_w5 (scenario_context [''s'', ''c'', ''e''])
          (report_of ''msg_1'' 1 r) = Inr (rsp, w')
      \<and> tc_case_run_status rsp = NODE_TIMEOUT)"
proof
  obtain r st where r: "execute_scenario sample_scenario_env ai_plan [Target_Failure] = Some (Some r, st)"
    "sr_outcome r = EXEC_FAILED" "map (\<lambda>t. (et_node_id t, et_status t)) (sr_traces r) =
      [(''s'', TRACE_SUCCESS), (''h'', TRACE_FAILED), (''a'', TRACE_FAILED), (''e'', TRACE_SUCCESS)]" "sr_pending_ai r = []"
    using ai_plan_run by (rule result_summaryE)
  let ?ids = "[''s'', ''h'', ''a'', ''e'']"
  have "(''a'', TRACE_FAILED) \<in> set (map (\<lambda>t. (et_node_id t, et_status t)) (sr_traces r))" unfolding r(3) by simp
  then have "list_ex (\<lambda>t. et_node_id t = ''a'' \<and> et_status t \<noteq> TRACE_SKIPPED) (sr_traces r)" by (auto simp: list_ex_iff)
  then have "ai_open (scenario_dsl ?ids) r" by (simp add: ai_open_def ai_node_ids_def scenario_dsl_def)
  then show "\<exists>r st. execute_scenario sample_scenario_env ai_plan [Target_Failure] = Some (Some r, st) \<and> sr_outcome r = EXEC_FAILED
      \<and> complete_scenario_new (scenario_control ?ids) ex_w5 (scenario_context ?ids) (report_of ''msg_1'' 1 r)
        = run_conflict ''AI assertion without trusted evaluation''"
    using scenario_report_is_accepted_unless_ai_is_open[OF sample_ids(2) r(1,4) _ scenario_context_running
        sample_steps(2) scenario_control_dsl(1) sample_dsl(2), of ex_w5 "''msg_1''" 1] r(1,2)
    by (intro exI[of _ r] exI[of _ st]) simp
next
  obtain r st where r: "execute_scenario sample_scenario_env retry_plan [Target_Timeout, ok_reply] = Some (Some r, st)"
    "sr_outcome r = EXEC_TIMEOUT" "sr_pending_ai r = []"
    using retry_plan_run by (rule result_summaryE)
  let ?ids = "[''s'', ''c'', ''e'']"
  have "\<not> ai_open (scenario_dsl ?ids) r" by (simp add: ai_open_def ai_node_ids_def scenario_dsl_def)
  then show "\<exists>r st rsp w'. execute_scenario sample_scenario_env retry_plan [Target_Timeout, ok_reply] = Some (Some r, st)
      \<and> complete_scenario_new (scenario_control ?ids) ex_w5 (scenario_context ?ids) (report_of ''msg_1'' 1 r) = Inr (rsp, w')
      \<and> tc_case_run_status rsp = NODE_TIMEOUT"
    using scenario_report_is_accepted_unless_ai_is_open[OF sample_ids(1) r(1,3) _ scenario_context_running
        sample_steps(1) scenario_control_dsl(1) sample_dsl(1), of ex_w5 "''msg_1''" 1] r(1,2)
    by (auto intro!: exI[of _ r] exI[of _ st])
qed

section \<open>A cleanup that succeeds at the second attempt\<close>

text \<open>A Scenario without failures whose cleanup node succeeds at its one retry after a timeout is reported as TIMEOUT
  although every trace is SUCCESS, and whatever unfinished steps the CaseRun has, the control plane then records the first of
  them as timed out.\<close>

theorem retried_cleanup_is_reported_as_timeout:
  "\<exists>r st. execute_scenario sample_scenario_env retry_plan [Target_Timeout, ok_reply] = Some (Some r, st)
     \<and> sr_outcome r = EXEC_TIMEOUT \<and> map et_status (sr_traces r) = [TRACE_SUCCESS, TRACE_SUCCESS, TRACE_SUCCESS]
     \<and> (\<forall>ss. scenario_status_by_node EXEC_TIMEOUT (sr_traces r) ss =
             Inr (blame_first ss NODE_TIMEOUT (reported_map (sr_traces r))))"
proof -
  obtain r st where r: "execute_scenario sample_scenario_env retry_plan [Target_Timeout, ok_reply] = Some (Some r, st)"
    "sr_outcome r = EXEC_TIMEOUT" "map (\<lambda>t. (et_node_id t, et_status t)) (sr_traces r) =
      [(''s'', TRACE_SUCCESS), (''c'', TRACE_SUCCESS), (''e'', TRACE_SUCCESS)]"
    using retry_plan_run by (rule result_summaryE)
  from arg_cong[OF r(3), of "map snd"] have s: "map et_status (sr_traces r) = [TRACE_SUCCESS, TRACE_SUCCESS, TRACE_SUCCESS]"
    by (simp add: comp_def)
  then have "reported_statuses (sr_traces r) = [NODE_SUCCESS, NODE_SUCCESS, NODE_SUCCESS]"
    unfolding reported_statuses_def using map_map[of trace_node_status et_status "sr_traces r"] by (simp add: comp_def)
  then have "scenario_status_by_node EXEC_TIMEOUT (sr_traces r) ss =
      Inr (blame_first ss NODE_TIMEOUT (reported_map (sr_traces r)))" for ss
    using status_by_node_cases[of EXEC_TIMEOUT "sr_traces r" ss] by simp
  then show ?thesis using r(1,2) s by (intro exI[of _ r] exI[of _ st]) simp
qed

end
