(* ===== verification/Spec2Isabelle.thy ===== *)
theory Spec2Isabelle
  imports Run_Lifecycle Run_Findings Schedule_Triggers Runner_Envelope Runner_Guarantees
    Runner_Registry Assertion_Engine Safe_Script Auth_Guarantees Resource_Cleanup Scenario_Completion
begin

text \<open>
  \<^bold>\<open>AI-native test orchestration platform: the control plane of test Runs.\<close>

  The platform is a FastAPI control plane (\<open>src/backend/app\<close>) and Windows Runners
  (\<open>src/runner/runner\<close>). A user creates a test Run for an API case, a scenario or a Web case. The
  control plane stores the Run with its CaseRuns and StepRuns, sends a task message through
  RabbitMQ to the queue of the chosen Runner, and the Runner claims the Run, starts every CaseRun and
  reports each completion. Users can cancel or force-stop; two recovery procedures close Runs whose
  Runner is gone or whose deadline has passed.

  \<^bold>\<open>How the theories follow the source.\<close> Unless said otherwise the source is
  \<open>backend/app/modules/runs/service.py\<close> with \<open>enums.py\<close>, \<open>models.py\<close>, \<open>schemas.py\<close> and
  \<open>repository.py\<close> beside it.

  \<^item> \<^theory_text>\<open>Prelude\<close>: the result type (\<open>Inl\<close> is a raised \<open>AppError\<close>), loops that may
    raise, ASCII case folding and blanks of Python strings, generic list lemmas.
  \<^item> \<^theory_text>\<open>Projects\<close>: \<open>projects/service.py\<close>, membership, roles and the access checks every other
    service calls.
  \<^item> \<^theory_text>\<open>Safe_Error\<close>: the redaction \<open>_safe_error\<close> of error texts with its regular expression.
  \<^item> \<^theory_text>\<open>Run_Types\<close>, \<^theory_text>\<open>Run_Status\<close>, \<^theory_text>\<open>Run_Invariant\<close>: the rows, the transition tables,
    \<open>_set_run_status\<close>, \<open>_set_node_status\<close>, \<open>_aggregate_case_status\<close>, \<open>_recompute_summary\<close>, and the
    well-formedness of a Run row with the relation \<open>run_evolves\<close> every handler keeps.
  \<^item> \<^theory_text>\<open>Assertion_Results\<close>: verdicts over assertion outcomes (\<open>summarize_final_status\<close> and the
    order of deterministic and AI assertions).
  \<^item> \<^theory_text>\<open>Run_World\<close>: the tables as one state record, lookups, Runner authentication
    (\<open>runners/service.py\<close>) and best-effort event publishing (\<open>runs/events.py\<close>).
  \<^item> \<^theory_text>\<open>Run_Create\<close>, \<^theory_text>\<open>Run_Control\<close>, \<^theory_text>\<open>Run_Dispatch\<close>, \<^theory_text>\<open>Run_Recovery\<close>,
    \<^theory_text>\<open>Run_Execution\<close>, \<^theory_text>\<open>Run_Scenario\<close>, \<^theory_text>\<open>Run_Web\<close>: the handlers, one definition per
    handler, each a function from environment (clock, identifiers, digest, Redis answers) and tables
    to an error or a response with new tables.
  \<^item> \<^theory_text>\<open>Run_Machine\<close>: the step relation in which every handler call is one step, the interleaving
    of all callers, and the reachable worlds.
  \<^item> \<^theory_text>\<open>Run_Completion\<close>, \<^theory_text>\<open>Run_Handlers\<close>: the locale of a completion handler with its
    three interpretations, and the facts about single handlers that the guarantees rest on.
  \<^item> \<^theory_text>\<open>Run_Lifecycle\<close>: what holds in every reachable world. \<^theory_text>\<open>Run_Guarantees\<close>,
    \<^theory_text>\<open>Run_Delivery\<close>: what the single handlers promise. \<^theory_text>\<open>Run_Findings\<close>: behaviour of the
    code that departs from its intention, stated as theorems. \<^theory_text>\<open>Run_Examples\<close>: a concrete
    project, Runner and Run on which every theorem with hypotheses is exercised.

  Users and resources beside the Runs:

  \<^item> \<^theory_text>\<open>Auth\<close>: \<open>auth/service.py\<close> and \<open>api/deps.py\<close>, logins, access tokens with their sessions, password
    changes and the administration of users. \<^theory_text>\<open>Auth_Guarantees\<close>: every operation is a sequence of a few edits
    of the tables; a token is accepted until its session ends, and an active administrator always remains.
  \<^item> \<^theory_text>\<open>Resource_Registry\<close>: \<open>resource_registry/service.py\<close>, the resources a Run created and their cleanup.
    \<^theory_text>\<open>Resource_Cleanup\<close>: the loop of \<open>execute_cleanup\<close> refines a map over the table, settled resources are final
    under every interleaving of transactions, and an interrupted cleanup is lost.

  The verdict on a response comes from assertions:

  \<^item> \<^theory_text>\<open>Safe_Regex\<close>: \<open>test_cases/safe_regex.py\<close>, the scanner that refuses patterns with nested
    repetitions, and the syntax of patterns over which its guarantee is stated. \<^theory_text>\<open>Json_Values\<close>: Python's
    comparisons of JSON values. \<^theory_text>\<open>Json_Schema\<close>: the checks on a schema and the validator of
    \<open>prompt_center/validator.py\<close>. \<^theory_text>\<open>Assertion_Engine\<close>: \<open>test_cases/assertions.py\<close> with the class
    \<open>Assertion\<close> of \<open>test_cases/schemas.py\<close>; the regular expression engine runs on checked patterns only.

  \<^item> \<^theory_text>\<open>Safe_Script\<close>: \<open>scenarios/safe_script.py\<close> and \<open>runner/safe_script.py\<close>, the restricted Python
    of scenario scripts. One validator and one evaluator with a policy that lists how the two sides differ;
    the locale of an invariant of the evaluator is interpreted for the budget with the limits of the context,
    and for the absence of unsupported constructs. Operators and built-in functions of Python are parameters.

  Plans, schedules and webhooks are built on the Runs:

  \<^item> \<^theory_text>\<open>Plan_Types\<close>, \<^theory_text>\<open>Test_Plans\<close>: \<open>test_plans/service.py\<close>, versioned plans whose start
    creates and dispatches one Run per enabled item, whose cancel and retry loop over those Runs, and
    whose status is recomputed from them. These operations commit item by item, so they return the
    tables reached together with the result, also when they raise.
  \<^item> \<^theory_text>\<open>Webhooks\<close>: the delivery outbox of \<open>ci_cd/service.py\<close>. A delivery is claimed in one
    transaction (\<open>delivery_begin\<close>), sent, and recorded in a second one (\<open>delivery_finish\<close>).
  \<^item> \<^theory_text>\<open>Plan_Guarantees\<close>, \<^theory_text>\<open>Webhook_Guarantees\<close>: plan operations are paths of the Run
    machine (locale of a loop over plan items, interpreted for cancel and retry), counters, finality,
    at most one delivery per event, limits of the retries.
  \<^item> \<^theory_text>\<open>Calendar_Dates\<close>, \<^theory_text>\<open>Schedule_Calendar\<close>: proleptic Gregorian ordinals of \<open>datetime.date\<close>
    and \<open>schedules/calendar.py\<close>, the Cron parser and the search for the next occurrence. A time zone
    is the pair of conversions \<open>zoneinfo\<close> gives; its laws are named hypotheses, shown for China
    standard time. \<^theory_text>\<open>Schedule_Guarantees\<close>: the occurrence found is the first one, it exists
    exactly for satisfiable rules, and the parser inverts printing.
  \<^item> \<^theory_text>\<open>Schedules\<close>, \<^theory_text>\<open>Schedule_Triggers\<close>: \<open>schedules/service.py\<close>, the request validator of
    \<open>schedules/schemas.py\<close> and the round of \<open>schedules/coordinator.py\<close>; each occurrence is claimed
    once, a claim moves to the first later occurrence, accepted rules always have one, and a trigger
    whose dispatch was interrupted is never taken up again.

  The Runner (\<open>src/runner/runner\<close>) is the other side of the execution protocol:

  \<^item> \<^theory_text>\<open>Runner_Slots\<close>: \<open>slots.py\<close> and \<open>topology.py\<close>, the slots with their leases under
    concurrent threads, and the queue and routing keys of a Runner.
  \<^item> \<^theory_text>\<open>Runner_Envelope\<close>: \<open>envelope.py\<close>, the strict parsers of task messages; every message the
    control plane sends is bound to the queue of its Runner and read there as it was sent.
  \<^item> \<^theory_text>\<open>Runner_Consumer\<close>: \<open>consumer.py\<close>, the delivery of an API case from claim to settlement. A
    method is a task, a function on the state of the consumer that goes on, returns an outcome, raises, or
    is still running when its bound is used up. The backend, the clock and the task process are reached
    through the operations of \<open>runner_client\<close>.
  \<^item> \<^theory_text>\<open>Runner_Delivery\<close>: the locale of what a client promises, and inside it the proof that every
    method settles the delivery as its outcome says and acknowledges only finished Runs.
  \<^item> \<^theory_text>\<open>Runner_Protocol\<close>: \<open>protocol.py\<close>, the request loop with its retries, the requests and the
    strict reading of the JSON answers. \<^theory_text>\<open>Run_Api\<close>: the routes, status codes and answer bodies of
    the control plane for these requests.
  \<^item> \<^theory_text>\<open>Runner_System\<close>: consumer, client and control plane over a network that loses requests and
    answers, which is a sublocale of the client's contract. \<^theory_text>\<open>Runner_Examples\<close> runs it;
    \<^theory_text>\<open>Runner_Guarantees\<close>: an acknowledged message belongs to a finished Run, a claim is understood,
    and the start of a cancelled Run is not.
  \<^item> \<^theory_text>\<open>Runner_Snapshots\<close>: the environment report of a Runner as \<open>snapshot.py\<close> builds it and as
    \<open>runners/schemas.py\<close> accepts it; the two agree but for the number of tags. \<^theory_text>\<open>Runners\<close>:
    \<open>runners/service.py\<close>, registration tokens, registration, heartbeats with their Redis keys and
    revocation. \<^theory_text>\<open>Runner_Registry\<close>: along every sequence of requests a token admits one Runner, the
    rows satisfy the constraints of their tables, and a revoked Runner is locked out of the Run services.

  \<^item> \<^theory_text>\<open>Scenario_Actions\<close>, \<^theory_text>\<open>Scenario_Executor\<close>: \<open>scenario.py\<close>, the executor of Scenarios in the
    task process. An action changes the runtime (context, last response, open AI assertions, world) and may raise
    \<open>ScenarioRuntimeError\<close>; around the actions stand the traces, retries, failure policies, IF and LOOP, the cleanup
    phase in reverse order and the result. Clock, target system, database, script evaluator and the conversions of
    Python are the fields of \<open>scenario_env\<close>. \<^theory_text>\<open>Scenario_Flow\<close>: the recursion ends, and the locales of an
    invariant of the main flow and of the cleanup phase, with the classes of errors that can reach them.
    \<^theory_text>\<open>Scenario_Guarantees\<close>: their interpretation for the traces and the outcome, and two sample plans.
    \<^theory_text>\<open>Scenario_Completion\<close>: the report of the executor given to \<open>complete_scenario_execution\<close>.

  \<^bold>\<open>Bounds.\<close> The search for the next occurrence looks at 2928 days, as the code does; the theorems
  show that this is enough for every satisfiable rule. The consumer's loops over polls and iterations have
  no bound in the code; the model takes two numbers and ends with \<open>Running\<close> when they are used
  up, and the theorems hold for all numbers. All other recursion is structural, over lists the code
  iterates over, or ends by a measure (the waiting time and the retries left); no other fuel is used
  but in the executor of Scenarios: its recursion over the children of a node, and the one that records skipped
  descendants, takes the number of nodes of the plan, which is proved to be enough when the node ids differ.

  \<^bold>\<open>State and effects.\<close> A database transaction is a function that returns the new tables only when
  it commits; an exception returns \<open>Inl\<close> and no tables, as the session is rolled back. Row locks make
  handlers on the same Run sequential, which is why one handler call is one step of the machine.
  Identifiers, clock readings, Redis and broker answers are fields of the environment and arguments,
  universally quantified in the theorems. Content loaded from other modules (pinned case versions,
  evaluators) enters as parameters.

  \<^bold>\<open>Not modelled.\<close> The routes other than those of the API execution protocol, SQL text, pagination
  queries, the executors of the Runner for browser, HTTP and SQL, the construction of requests and the
  sleep inside a Scenario, its Web, recording and performance deliveries, the Scenario delivery of the consumer but for
  its report, its heartbeat thread and process supervision, AI provider calls, authoring of
  test cases, scenario graphs and Web cases, reports and dashboards. Pydantic's validation of requests and \<open>datetime.fromisoformat\<close> are
  parameters.
\<close>

end
